(* ===== verification/Prelude.thy ===== *)
theory Prelude
  imports Complex_Main "HOL-Library.AList" "HOL-Library.Multiset"
begin

text \<open>
  Shared ground of the development: the exceptions the Python code raises and the result
  type that carries them, Python's integer division, ranges, list indexing and slices, and the
  generic facts on lists that the component theories rewrite with.

  A Python call that may raise is a value of \<open>'a res\<close>: \<open>Inl e\<close> is the raised exception,
  \<open>Inr v\<close> the returned value. The payload of an exception is the fixed leading text of its
  message; the interpolated parts of messages are not modelled. A Python \<open>dict\<close> whose
  insertion order matters is an association list updated with \<open>AList.update\<close>, which keeps the
  position of an existing key and appends a new one, as Python does.
\<close>

section \<open>Exceptions and results\<close>

datatype py_error =
    ValueError string
  | RuntimeError string
  | NotImplementedError string
  | FileNotFoundError string
  | KeyError
  | IndexError
  | TypeError
  | ZeroDivisionError
  | AssertionError
  | ExternalError string

type_synonym 'a res = "py_error + 'a"

named_theorems res_simps "rewriting of results that may be exceptions"
named_theorems seq_simps "rewriting of Python ranges, indexing and slices"

definition bind_res :: "'a res \<Rightarrow> ('a \<Rightarrow> 'b res) \<Rightarrow> 'b res" where
  "bind_res m f = (case m of Inl e \<Rightarrow> Inl e | Inr x \<Rightarrow> f x)"

lemma bind_res_Inl [simp, res_simps]: "bind_res (Inl e) f = Inl e"
  by (simp add: bind_res_def)

lemma bind_res_Inr [simp, res_simps]: "bind_res (Inr x) f = f x"
  by (simp add: bind_res_def)

lemma bind_res_eq_Inr [res_simps]:
  "bind_res m f = Inr y \<longleftrightarrow> (\<exists>x. m = Inr x \<and> f x = Inr y)"
  by (cases m) simp_all

lemma bind_res_eq_Inl [res_simps]:
  "bind_res m f = Inl e \<longleftrightarrow> m = Inl e \<or> (\<exists>x. m = Inr x \<and> f x = Inl e)"
  by (cases m) simp_all

lemma bind_resE:
  assumes "bind_res m f = Inr y"
  obtains x where "m = Inr x" and "f x = Inr y"
  using assms by (auto simp: bind_res_eq_Inr)

lemma bind_res_assoc: "bind_res (bind_res m f) g = bind_res m (\<lambda>x. bind_res (f x) g)"
  by (cases m) simp_all

lemma bind_res_cong [fundef_cong]:
  "m = m' \<Longrightarrow> (\<And>x. m' = Inr x \<Longrightarrow> f x = f' x) \<Longrightarrow> bind_res m f = bind_res m' f'"
  by (cases m') (auto simp: bind_res_def)

text \<open>\<open>require b e\<close> is \<open>if not b: raise e\<close>.\<close>

definition require :: "bool \<Rightarrow> py_error \<Rightarrow> unit res" where
  "require b e = (if b then Inr () else Inl e)"

lemma require_eq_Inr [simp, res_simps]: "require b e = Inr u \<longleftrightarrow> b"
  by (simp add: require_def)

lemma require_eq_Inl [simp, res_simps]: "require b e = Inl e' \<longleftrightarrow> \<not> b \<and> e' = e"
  by (auto simp: require_def)

lemma require_True [simp]: "require True e = Inr ()"
  by (simp add: require_def)

lemma require_False [simp]: "require False e = Inl e"
  by (simp add: require_def)

text \<open>A \<open>for\<close> loop whose body may raise, collecting one value per element.\<close>

fun map_res :: "('a \<Rightarrow> 'b res) \<Rightarrow> 'a list \<Rightarrow> 'b list res" where
  "map_res f [] = Inr []"
| "map_res f (x # xs) = bind_res (f x) (\<lambda>y. bind_res (map_res f xs) (\<lambda>ys. Inr (y # ys)))"

lemma map_res_cong [fundef_cong]:
  "xs = ys \<Longrightarrow> (\<And>x. x \<in> set ys \<Longrightarrow> f x = g x) \<Longrightarrow> map_res f xs = map_res g ys"
  by (induction ys arbitrary: xs) auto

lemma map_res_Inr_conv:
  "map_res f xs = Inr ys \<longleftrightarrow> list_all2 (\<lambda>x y. f x = Inr y) xs ys"
proof (induction xs arbitrary: ys)
  case Nil
  then show ?case by (cases ys) auto
next
  case (Cons x xs)
  then show ?case by (cases ys) (auto simp: bind_res_eq_Inr)
qed

lemma map_res_length: "map_res f xs = Inr ys \<Longrightarrow> length ys = length xs"
  by (auto simp: map_res_Inr_conv dest: list_all2_lengthD)

lemma map_res_total: "(\<And>x. x \<in> set xs \<Longrightarrow> f x = Inr (g x)) \<Longrightarrow> map_res f xs = Inr (map g xs)"
  by (induction xs) auto

lemma map_res_in_set:
  "map_res f xs = Inr ys \<Longrightarrow> y \<in> set ys \<Longrightarrow> \<exists>x \<in> set xs. f x = Inr y"
  by (fastforce simp: map_res_Inr_conv list_all2_conv_all_nth in_set_conv_nth)

section \<open>Integer division\<close>

text \<open>Python's \<open>//\<close> and \<open>%\<close> round towards minus infinity, as \<open>div\<close> and \<open>mod\<close> on \<open>int\<close> do,
  and raise on a zero divisor.\<close>

definition py_div :: "int \<Rightarrow> int \<Rightarrow> int res" where
  "py_div a b = (if b = 0 then Inl ZeroDivisionError else Inr (a div b))"

definition py_mod :: "int \<Rightarrow> int \<Rightarrow> int res" where
  "py_mod a b = (if b = 0 then Inl ZeroDivisionError else Inr (a mod b))"

lemma py_div_Inr [res_simps]: "py_div a b = Inr q \<longleftrightarrow> b \<noteq> 0 \<and> q = a div b"
  by (auto simp: py_div_def)

lemma py_mod_Inr [res_simps]: "py_mod a b = Inr q \<longleftrightarrow> b \<noteq> 0 \<and> q = a mod b"
  by (auto simp: py_mod_def)

lemma py_div_nz [simp]: "b \<noteq> 0 \<Longrightarrow> py_div a b = Inr (a div b)"
  by (simp add: py_div_def)

lemma py_div_zero [simp]: "py_div a 0 = Inl ZeroDivisionError"
  by (simp add: py_div_def)

lemma py_mod_nz [simp]: "b \<noteq> 0 \<Longrightarrow> py_mod a b = Inr (a mod b)"
  by (simp add: py_mod_def)

lemma py_mod_zero [simp]: "py_mod a 0 = Inl ZeroDivisionError"
  by (simp add: py_mod_def)

section \<open>Ranges\<close>

text \<open>\<open>range(n)\<close>: empty for a negative \<open>n\<close>.\<close>

definition py_range :: "int \<Rightarrow> int list" where
  "py_range n = map int [0..<nat n]"

lemma length_py_range [simp, seq_simps]: "length (py_range n) = nat n"
  by (simp add: py_range_def)

lemma set_py_range [simp, seq_simps]: "set (py_range n) = {0..<n}"
proof -
  have "int ` {0..<nat n} = {0..<n}"
  proof
    show "int ` {0..<nat n} \<subseteq> {0..<n}" by auto
    show "{0..<n} \<subseteq> int ` {0..<nat n}"
    proof
      fix x assume "x \<in> {0..<n}"
      then have "x = int (nat x)" and "nat x \<in> {0..<nat n}" by auto
      then show "x \<in> int ` {0..<nat n}" by blast
    qed
  qed
  then show ?thesis by (simp add: py_range_def)
qed

lemma distinct_py_range [simp, seq_simps]: "distinct (py_range n)"
  by (simp add: py_range_def distinct_map)

lemma nth_py_range [simp, seq_simps]: "i < nat n \<Longrightarrow> py_range n ! i = int i"
  by (simp add: py_range_def)

lemma sorted_py_range [simp, seq_simps]: "sorted (py_range n)"
  by (simp add: py_range_def sorted_iff_nth_mono)

lemma strict_sorted_py_range: "sorted_wrt (<) (py_range n)"
  by (simp add: py_range_def sorted_wrt_iff_nth_less)

lemma py_range_nonpos [simp]: "n \<le> 0 \<Longrightarrow> py_range n = []"
  by (simp add: py_range_def)

section \<open>Indexing and slices\<close>

text \<open>A Python index may be negative, counting from the end; outside \<open>[-n, n)\<close> it raises.\<close>

definition py_index :: "nat \<Rightarrow> int \<Rightarrow> nat option" where
  "py_index n i =
     (if 0 \<le> i \<and> i < int n then Some (nat i)
      else if - int n \<le> i \<and> i < 0 then Some (nat (int n + i))
      else None)"

definition py_get :: "'a list \<Rightarrow> int \<Rightarrow> 'a res" where
  "py_get xs i = (case py_index (length xs) i of None \<Rightarrow> Inl IndexError | Some k \<Rightarrow> Inr (xs ! k))"

definition py_set :: "'a list \<Rightarrow> int \<Rightarrow> 'a \<Rightarrow> 'a list res" where
  "py_set xs i v =
     (case py_index (length xs) i of None \<Rightarrow> Inl IndexError | Some k \<Rightarrow> Inr (xs[k := v]))"

lemma py_index_in_range: "0 \<le> i \<Longrightarrow> i < int n \<Longrightarrow> py_index n i = Some (nat i)"
  by (simp add: py_index_def)

lemma py_index_less: "py_index n i = Some k \<Longrightarrow> k < n"
  by (auto simp: py_index_def split: if_splits)

lemma py_get_in_range [simp]: "0 \<le> i \<Longrightarrow> i < int (length xs) \<Longrightarrow> py_get xs i = Inr (xs ! nat i)"
  by (simp add: py_get_def py_index_in_range)

lemma py_set_in_range [simp]: "0 \<le> i \<Longrightarrow> i < int (length xs) \<Longrightarrow> py_set xs i v = Inr (xs[nat i := v])"
  by (simp add: py_set_def py_index_in_range)

lemma py_set_length: "py_set xs i v = Inr ys \<Longrightarrow> length ys = length xs"
  by (auto simp: py_set_def split: option.splits)

text \<open>The slice \<open>xs[lo:hi]\<close> with non-negative bounds clamps both to the length.\<close>

definition slice :: "nat \<Rightarrow> nat \<Rightarrow> 'a list \<Rightarrow> 'a list" where
  "slice lo hi xs = take (hi - lo) (drop lo xs)"

text \<open>\<open>xs[lo:hi] = v\<close> on a one-dimensional tensor writes every position of the slice.\<close>

definition fill_slice :: "nat \<Rightarrow> nat \<Rightarrow> 'a \<Rightarrow> 'a list \<Rightarrow> 'a list" where
  "fill_slice lo hi v xs = map (\<lambda>i. if lo \<le> i \<and> i < hi then v else xs ! i) [0..<length xs]"

lemma length_slice [simp, seq_simps]: "length (slice lo hi xs) = min (hi - lo) (length xs - lo)"
  by (simp add: slice_def)

lemma nth_slice [simp, seq_simps]:
  "i < hi - lo \<Longrightarrow> lo + i < length xs \<Longrightarrow> slice lo hi xs ! i = xs ! (lo + i)"
  by (simp add: slice_def)

lemma length_fill_slice [simp, seq_simps]: "length (fill_slice lo hi v xs) = length xs"
  by (simp add: fill_slice_def)

lemma nth_fill_slice [simp, seq_simps]:
  "i < length xs \<Longrightarrow> fill_slice lo hi v xs ! i = (if lo \<le> i \<and> i < hi then v else xs ! i)"
  by (simp add: fill_slice_def)

section \<open>Sums, permutations and orders of lists\<close>

lemma sum_list_append_take_drop: "sum_list (take k xs) + sum_list (drop k xs) = sum_list (xs :: int list)"
  by (metis append_take_drop_id sum_list_append)

lemma sum_list_take_Suc:
  "k < length xs \<Longrightarrow> sum_list (take (Suc k) xs) = sum_list (take k xs) + (xs ! k :: int)"
  by (simp add: take_Suc_conv_app_nth)

lemma sum_list_take_mono:
  fixes xs :: "int list"
  assumes nn: "\<And>x. x \<in> set xs \<Longrightarrow> 0 \<le> x" and le: "i \<le> j"
  shows "sum_list (take i xs) \<le> sum_list (take j xs)"
proof -
  have "take j xs = take i xs @ take (j - i) (drop i xs)"
    using le by (metis le_add_diff_inverse take_add)
  moreover have "0 \<le> sum_list (take (j - i) (drop i xs))"
    using nn by (intro sum_list_nonneg) (meson in_set_dropD in_set_takeD)
  ultimately show ?thesis by simp
qed

lemma sum_list_ge_length:
  fixes xs :: "int list"
  assumes "\<And>x. x \<in> set xs \<Longrightarrow> 1 \<le> x"
  shows "int (length xs) \<le> sum_list xs"
  using assms by (induction xs) force+

lemma distinct_perm_range:
  assumes "distinct xs" and "set xs = {0..<n}"
  shows "mset xs = mset (py_range n)"
proof (rule set_eq_iff_mset_eq_distinct [THEN iffD1])
  show "distinct xs" by (rule assms)
  show "distinct (py_range n)" by simp
  show "set xs = set (py_range n)" using assms(2) by simp
qed

lemma distinct_range_length:
  assumes "distinct xs" and "set xs = {0..<n :: int}"
  shows "length xs = nat n"
proof -
  have "length xs = card (set xs)" using assms(1) by (simp add: distinct_card)
  then show ?thesis using assms(2) by simp
qed

text \<open>Two lists that agree along a permutation of their positions are equal.\<close>

lemma list_eq_along_perm:
  assumes len: "length xs = length ys"
    and cover: "\<And>i. i < length xs \<Longrightarrow> \<exists>k < length ts. nat (ts ! k) = i"
    and agree: "\<And>k. k < length ts \<Longrightarrow> xs ! nat (ts ! k) = ys ! nat (ts ! k)"
  shows "xs = ys"
proof (rule nth_equalityI [OF len])
  fix i assume "i < length xs"
  with cover obtain k where "k < length ts" and "nat (ts ! k) = i" by blast
  with agree show "xs ! i = ys ! i" by blast
qed

end
