(* ===== verification/Tiling.thy ===== *)
theory Tiling
  imports Prelude
begin

text \<open>
  Tile arithmetic and the monitor matrix of the overlap runs: \<open>div_up\<close>, \<open>packed_shape\<close>,
  \<open>monitor_size\<close>, \<open>reset_monitor_matrix\<close> and \<open>monitor_order_view\<close> of \<open>tool/search.py\<close>
  (\<open>div_up\<close> and \<open>monitor_size\<close> have the same bodies in \<open>tool/verify_signal_tile_counts.py\<close> and \<open>test/test.py\<close>; the test's
  reset leaves the order entries alone). The monitor matrix is a flat \<open>int32\<close> tensor, here a list: \<open>seg_size\<close>
  segment counters, \<open>tile_num\<close> tile-done counters and, when monitoring, one cursor and
  \<open>tile_num\<close> order entries.
\<close>

section \<open>Rounding up\<close>

definition div_up :: "int \<Rightarrow> int \<Rightarrow> int res" where
  "div_up x y = py_div (x + y - 1) y"

definition ceil_div :: "int \<Rightarrow> int \<Rightarrow> int" where
  "ceil_div x y = (x + y - 1) div y"

lemma div_up_nz [simp]: "y \<noteq> 0 \<Longrightarrow> div_up x y = Inr (ceil_div x y)"
  by (simp add: div_up_def ceil_div_def)

lemma div_up_zero [simp]: "div_up x 0 = Inl ZeroDivisionError"
  by (simp add: div_up_def)

lemma div_up_Inr [res_simps]: "div_up x y = Inr q \<longleftrightarrow> y \<noteq> 0 \<and> q = ceil_div x y"
  by (cases "y = 0") auto

lemma ceil_div_upper:
  assumes "0 < y"
  shows "x \<le> ceil_div x y * y"
proof -
  have "(x + y - 1) mod y < y" using assms by simp
  with div_mult_mod_eq [of "x + y - 1" y] show ?thesis unfolding ceil_div_def by linarith
qed

lemma ceil_div_lower:
  assumes "0 < y"
  shows "(ceil_div x y - 1) * y < x"
proof -
  have "0 \<le> (x + y - 1) mod y" using assms by simp
  with div_mult_mod_eq [of "x + y - 1" y] show ?thesis
    unfolding ceil_div_def left_diff_distrib by linarith
qed

lemma ceil_div_unique: "0 < y \<Longrightarrow> x \<le> q * y \<Longrightarrow> (q - 1) * y < x \<Longrightarrow> ceil_div x y = q"
proof -
  assume y: "0 < y" and le: "x \<le> q * y" and gt: "(q - 1) * y < x"
  have "(ceil_div x y - 1) * y < q * y"
    using ceil_div_lower [OF y, of x] le by linarith
  then have 1: "ceil_div x y \<le> q" using y by simp
  have "(q - 1) * y < ceil_div x y * y"
    using ceil_div_upper [OF y, of x] gt by linarith
  then have 2: "q \<le> ceil_div x y" using y by simp
  from 1 2 show ?thesis by simp
qed

lemma ceil_div_pos: "0 < y \<Longrightarrow> 0 < x \<Longrightarrow> 0 < ceil_div x y"
  using ceil_div_upper [of y x] by (cases "ceil_div x y \<le> 0")
    (auto simp: mult_nonpos_nonneg dest: mult_right_mono [of _ 0 y])

lemma ceil_div_nonneg: "0 < y \<Longrightarrow> 0 \<le> x \<Longrightarrow> 0 \<le> ceil_div x y"
  by (cases "x = 0") (auto simp: ceil_div_def pos_imp_zdiv_nonneg_iff)

lemma ceil_div_dvd: "0 < y \<Longrightarrow> y dvd x \<Longrightarrow> ceil_div x y = x div y"
  by (rule ceil_div_unique) (auto simp: algebra_simps)

lemma ceil_div_one [simp]: "ceil_div x 1 = x"
  by (simp add: ceil_div_def)

text \<open>Rounding up twice is rounding up once by the product: waves of SMs, then groups of waves.\<close>

lemma ceil_div_ceil_div:
  assumes s: "0 < s" and g: "0 < g"
  shows "ceil_div (ceil_div t s) g = ceil_div t (s * g)"
proof -
  define w p where "w = ceil_div t s" and "p = ceil_div w g"
  have "(p - 1) * g \<le> w - 1" using ceil_div_lower [OF g, of w] by (simp add: p_def)
  then have "(p - 1) * g * s \<le> (w - 1) * s" using s by simp
  also have "\<dots> < t" using ceil_div_lower [OF s, of t] by (simp add: w_def)
  finally have lower: "(p - 1) * (s * g) < t" by (simp add: ac_simps)
  have "t \<le> w * s" using ceil_div_upper [OF s, of t] by (simp add: w_def)
  also have "\<dots> \<le> p * g * s" using ceil_div_upper [OF g, of w] s by (simp add: p_def)
  finally have "t \<le> p * (s * g)" by (simp add: ac_simps)
  then have "ceil_div t (s * g) = p"
    using ceil_div_unique [OF mult_pos_pos [OF s g] _ lower] by blast
  then show ?thesis by (simp add: p_def w_def)
qed

section \<open>Tile counts and the packed output\<close>

text \<open>The expression \<open>div_up(M, BM) * div_up(N, BN)\<close> that every run starts from.\<close>

definition tile_count :: "int \<Rightarrow> int \<Rightarrow> int \<Rightarrow> int \<Rightarrow> int res" where
  "tile_count M N BM BN =
     bind_res (div_up M BM) (\<lambda>r. bind_res (div_up N BN) (\<lambda>c. Inr (r * c)))"

definition packed_shape :: "int \<Rightarrow> int \<Rightarrow> int \<Rightarrow> int \<Rightarrow> int \<Rightarrow> (int \<times> int) res" where
  "packed_shape M N BM BN rLDN =
     bind_res (tile_count M N BM BN) (\<lambda>tile_num.
     bind_res (div_up tile_num rLDN) (\<lambda>packed_tile_rows.
     Inr (packed_tile_rows * BM, rLDN * BN)))"

lemma tile_count_pos:
  "0 < BM \<Longrightarrow> 0 < BN \<Longrightarrow> tile_count M N BM BN = Inr (ceil_div M BM * ceil_div N BN)"
  by (simp add: tile_count_def)

lemma tile_count_covers:
  assumes "0 < BM" "0 < BN" "0 < M" "0 < N" "tile_count M N BM BN = Inr t"
  shows "M * N \<le> t * (BM * BN)" and "0 < t"
proof -
  have t: "t = ceil_div M BM * ceil_div N BN" using assms by (simp add: tile_count_pos)
  have "M * N \<le> (ceil_div M BM * BM) * (ceil_div N BN * BN)"
    using assms ceil_div_pos [of BM M] by (intro mult_mono ceil_div_upper) auto
  then show "M * N \<le> t * (BM * BN)" by (simp add: t ac_simps)
  show "0 < t" using assms by (simp add: t ceil_div_pos)
qed

lemma packed_shape_area:
  assumes b: "0 < BM" "0 < BN" and r: "0 < rLDN"
    and t: "tile_count M N BM BN = Inr t"
    and p: "packed_shape M N BM BN rLDN = Inr (rows, cols)"
  shows "t * (BM * BN) \<le> rows * cols" and "rows * cols < (t + rLDN) * (BM * BN)"
proof -
  have rc: "rows = ceil_div t rLDN * BM" "cols = rLDN * BN"
    using p t r by (auto simp: packed_shape_def)
  have area: "rows * cols = (ceil_div t rLDN * rLDN) * (BM * BN)" by (simp add: rc ac_simps)
  have "t \<le> ceil_div t rLDN * rLDN" using r by (rule ceil_div_upper)
  then show "t * (BM * BN) \<le> rows * cols" unfolding area using b by simp
  have "ceil_div t rLDN * rLDN < t + rLDN"
    using ceil_div_lower [OF r, of t] by (simp add: algebra_simps)
  then show "rows * cols < (t + rLDN) * (BM * BN)" unfolding area using b by simp
qed

section \<open>The monitor matrix\<close>

definition monitor_size :: "nat \<Rightarrow> nat \<Rightarrow> bool \<Rightarrow> nat" where
  "monitor_size tile_num seg_size monitor =
     (if monitor then seg_size + tile_num + 1 + tile_num else seg_size + tile_num)"

definition reset_monitor_matrix :: "int list \<Rightarrow> nat \<Rightarrow> nat \<Rightarrow> bool \<Rightarrow> int list" where
  "reset_monitor_matrix MM tile_num seg_size monitor =
     (if monitor
      then fill_slice (seg_size + tile_num + 1) (seg_size + tile_num + 1 + tile_num) (-1)
             (fill_slice 0 (seg_size + tile_num + 1) 0 MM)
      else fill_slice 0 (seg_size + tile_num) 0 MM)"

definition monitor_order_view :: "int list \<Rightarrow> nat \<Rightarrow> nat \<Rightarrow> int list" where
  "monitor_order_view MM tile_num seg_size =
     (let offset = seg_size + tile_num + 1 in slice offset (offset + tile_num) MM)"

lemma length_reset_monitor_matrix [simp]:
  "length (reset_monitor_matrix MM tile_num seg_size monitor) = length MM"
  by (simp add: reset_monitor_matrix_def)

lemma nth_reset_monitor_matrix:
  assumes "length MM = monitor_size tile_num seg_size monitor"
    and "i < length MM"
  shows "reset_monitor_matrix MM tile_num seg_size monitor ! i =
           (if i < seg_size + tile_num + (if monitor then 1 else 0) then 0 else -1)"
  using assms by (auto simp: reset_monitor_matrix_def monitor_size_def)

lemma length_monitor_order_view:
  "length MM = monitor_size tile_num seg_size True \<Longrightarrow>
   length (monitor_order_view MM tile_num seg_size) = tile_num"
  by (simp add: monitor_order_view_def monitor_size_def Let_def)

lemma monitor_order_view_reset:
  assumes "length MM = monitor_size tile_num seg_size True"
  shows "monitor_order_view (reset_monitor_matrix MM tile_num seg_size True) tile_num seg_size
           = replicate tile_num (-1)"
proof (rule nth_equalityI)
  show "length (monitor_order_view (reset_monitor_matrix MM tile_num seg_size True) tile_num seg_size)
          = length (replicate tile_num (-1::int))"
    using assms by (simp add: length_monitor_order_view)
  fix i
  assume "i < length (monitor_order_view (reset_monitor_matrix MM tile_num seg_size True) tile_num seg_size)"
  then have "i < tile_num" using assms by (simp add: length_monitor_order_view)
  then show "monitor_order_view (reset_monitor_matrix MM tile_num seg_size True) tile_num seg_size ! i
               = replicate tile_num (-1) ! i"
    using assms by (simp add: monitor_order_view_def Let_def nth_reset_monitor_matrix monitor_size_def)
qed

section \<open>Properties\<close>

text \<open>For positive sizes \<open>packed_shape\<close> returns, its tiles cover the M by N result, the packed
  tensor holds every tile, and it wastes less than one packed row of tiles.\<close>

theorem packed_shape_fits:
  assumes "0 < M" "0 < N" "0 < BM" "0 < BN" "0 < rLDN"
  shows "\<exists>t rows cols. tile_count M N BM BN = Inr t \<and> packed_shape M N BM BN rLDN = Inr (rows, cols)
           \<and> M * N \<le> t * (BM * BN) \<and> t * (BM * BN) \<le> rows * cols
           \<and> rows * cols < (t + rLDN) * (BM * BN)"
proof -
  obtain t where t: "tile_count M N BM BN = Inr t" using assms by (auto simp: tile_count_pos)
  then obtain rows cols where p: "packed_shape M N BM BN rLDN = Inr (rows, cols)"
    using assms by (auto simp: packed_shape_def)
  show ?thesis
    using t p packed_shape_area [OF assms(3-5) t p] tile_count_covers(1) [OF assms(3,4,1,2) t] by blast
qed

theorem packed_shape_fits_witness:
  "\<exists>t rows cols. tile_count 5 7 2 3 = Inr t \<and> packed_shape 5 7 2 3 4 = Inr (rows, cols)
     \<and> 5 * 7 \<le> t * (2 * 3) \<and> t * (2 * 3) \<le> rows * cols \<and> rows * cols < (t + 4) * (2 * 3)"
  by (rule packed_shape_fits) simp_all

text \<open>After a reset every segment, tile and cursor counter of the monitor matrix is zero, every
  order entry is -1 and the order view shows one missing entry per tile, so that stale results of an
  earlier launch are never read.\<close>

theorem monitor_reset_clears:
  assumes "length MM = monitor_size tile_num seg_size True"
  shows "monitor_order_view (reset_monitor_matrix MM tile_num seg_size True) tile_num seg_size
           = replicate tile_num (-1)
         \<and> length (reset_monitor_matrix MM tile_num seg_size True) = length MM
         \<and> (\<forall>i < seg_size + tile_num + 1. reset_monitor_matrix MM tile_num seg_size True ! i = 0)"
  using assms monitor_order_view_reset [OF assms] nth_reset_monitor_matrix [OF assms]
  by (simp add: monitor_size_def)

theorem monitor_reset_clears_witness:
  "monitor_order_view (reset_monitor_matrix (replicate 7 9) 2 2 True) 2 2 = replicate 2 (-1)"
  using monitor_reset_clears [of "replicate 7 9" 2 2] by (simp add: monitor_size_def)

end
