(* ===== verification/Segments.thy ===== *)
theory Segments
  imports Tiling
begin

text \<open>
  How the tiles of a GEMM are cut into communication segments. Four places of the code do it:
  the hint windows of \<open>compute_hint_process\<close> and \<open>expand_partition_to_cseg\<close> (with
  \<open>integer_partitions\<close>) in \<open>tool/search.py\<close>, \<open>make_segments\<close> of
  \<open>tool/verify_signal_tile_counts.py\<close> and \<open>make_segments\<close> of \<open>tool/gen_config_sm90.py\<close>.
  The signalling GEMM counts finished tiles per segment, so all four must promise the same: the
  segment sizes are positive and add up to the tile count. The locale \<open>segmenter\<close> is that
  promise; it is interpreted on each of the four.
\<close>

section \<open>The contract of a segmentation\<close>

definition segment_of :: "int list \<Rightarrow> int \<Rightarrow> nat \<Rightarrow> bool" where
  "segment_of segs t k \<longleftrightarrow>
     k < length segs \<and> sum_list (take k segs) \<le> t \<and> t < sum_list (take (Suc k) segs)"

lemma segment_of_exists:
  assumes "0 \<le> t" and "t < sum_list segs"
  shows "\<exists>k. segment_of segs t k"
proof -
  let ?P = "\<lambda>k. t < sum_list (take k segs)"
  have "?P (length segs)" using assms by simp
  then obtain k where k: "?P k" "\<forall>j<k. \<not> ?P j" using exists_least_iff [of ?P] by blast
  then obtain k' where k': "k = Suc k'" using assms(1) by (cases k) auto
  then have low: "sum_list (take k' segs) \<le> t" using k(2) by (simp add: not_less)
  have "k' < length segs"
  proof (rule ccontr)
    assume "\<not> k' < length segs"
    then have "take k' segs = segs" by simp
    then show False using low assms(2) by simp
  qed
  then have "segment_of segs t k'" using low k(1) k' by (simp add: segment_of_def)
  then show ?thesis ..
qed

lemma segment_of_unique:
  assumes nn: "\<And>s. s \<in> set segs \<Longrightarrow> 0 < s"
    and j: "segment_of segs t j" and k: "segment_of segs t k"
  shows "j = k"
proof -
  have "\<not> j < k" if "segment_of segs t j" "segment_of segs t k" for j k
  proof
    assume "j < k"
    then have "sum_list (take (Suc j) segs) \<le> sum_list (take k segs)"
      using nn by (intro sum_list_take_mono) (auto intro: less_imp_le)
    with that show False by (auto simp: segment_of_def)
  qed
  then show ?thesis using j k by (meson linorder_neqE_nat)
qed

locale segmenter =
  fixes segs :: "'p \<Rightarrow> int list res"
    and total :: "'p \<Rightarrow> int"
    and valid :: "'p \<Rightarrow> bool"
  assumes segs_returns: "valid p \<Longrightarrow> \<exists>s. segs p = Inr s"
    and segs_sum: "valid p \<Longrightarrow> segs p = Inr s \<Longrightarrow> sum_list s = total p"
    and segs_pos: "valid p \<Longrightarrow> segs p = Inr s \<Longrightarrow> x \<in> set s \<Longrightarrow> 0 < x"
begin

lemma segs_count: "valid p \<Longrightarrow> segs p = Inr s \<Longrightarrow> int (length s) \<le> total p"
  using sum_list_ge_length [of s] segs_sum segs_pos by force

lemma segs_partition:
  assumes "valid p" and "segs p = Inr s" and "0 \<le> t" and "t < total p"
  shows "\<exists>!k. segment_of s t k"
proof -
  have "\<exists>k. segment_of s t k" using assms by (intro segment_of_exists) (simp_all add: segs_sum)
  then show ?thesis using segment_of_unique segs_pos assms by metis
qed

lemma segs_contract:
  assumes "valid p"
  shows "\<exists>s. segs p = Inr s \<and> sum_list s = total p \<and> (\<forall>x \<in> set s. 0 < x)
           \<and> int (length s) \<le> total p
           \<and> (\<forall>t. 0 \<le> t \<and> t < total p \<longrightarrow> (\<exists>!k. segment_of s t k))"
proof -
  obtain s where s: "segs p = Inr s" using segs_returns assms by blast
  then show ?thesis using assms segs_sum segs_pos segs_count segs_partition by blast
qed

end

section \<open>Hint windows\<close>

text \<open>\<open>compute_hint_process\<close>: the monitored run signals one segment per nominal window.\<close>

definition hint_windows :: "int \<Rightarrow> int \<Rightarrow> int list res" where
  "hint_windows tile_num wSize =
     bind_res (div_up tile_num wSize) (\<lambda>wave_num.
     Inr (map (\<lambda>i. min wSize (tile_num - i * wSize)) (py_range wave_num)))"

lemma sum_windows:
  assumes "0 < w" and "int n * w \<le> t + w - 1" and "0 < t"
  shows "sum_list (map (\<lambda>i. min w (t - i * w)) (map int [0..<n])) = min (int n * w) t"
  using assms
proof (induction n)
  case 0
  then show ?case by simp
next
  case (Suc n)
  have "int n * w < t" using Suc.prems by (simp add: algebra_simps)
  then have "sum_list (map (\<lambda>i. min w (t - i * w)) (map int [0..<n])) = int n * w"
    using Suc by simp
  then show ?case using Suc.prems by (auto simp: algebra_simps min_def)
qed

lemma ceil_div_span: "0 < w \<Longrightarrow> 0 < t \<Longrightarrow> ceil_div t w * w \<le> t + w - 1 \<and> t \<le> ceil_div t w * w"
  using ceil_div_upper [of w t] ceil_div_lower [of w t] by (simp add: left_diff_distrib)

interpretation windows: segmenter
  "\<lambda>(tile_num, wSize). hint_windows tile_num wSize" fst "\<lambda>(tile_num, wSize). 0 < tile_num \<and> 0 < wSize"
proof (unfold_locales, goal_cases)
  case (1 p)
  then show ?case by (auto simp: hint_windows_def)
next
  case (2 p s)
  obtain t w where p: "p = (t, w)" by (cases p)
  with 2 have pos: "0 < t" "0 < w" and s: "s = map (\<lambda>i. min w (t - i * w)) (py_range (ceil_div t w))"
    by (auto simp: hint_windows_def)
  have n: "int (nat (ceil_div t w)) = ceil_div t w" using pos ceil_div_pos [of w t] by simp
  have "sum_list s = min (ceil_div t w * w) t"
    unfolding s py_range_def using sum_windows [of w "nat (ceil_div t w)" t] pos ceil_div_span [of w t] n
    by simp
  then show ?case using pos ceil_div_span [of w t] by (simp add: p)
next
  case (3 p s x)
  obtain t w where p: "p = (t, w)" by (cases p)
  with 3 obtain i where pos: "0 < t" "0 < w" and i: "0 \<le> i" "i < ceil_div t w" and x: "x = min w (t - i * w)"
    by (auto simp: hint_windows_def)
  have "i * w \<le> (ceil_div t w - 1) * w" using i pos by (intro mult_right_mono) auto
  then have "i * w < t" using ceil_div_lower [OF pos(2), of t] by linarith
  then show ?case using pos by (simp add: x)
qed

section \<open>Partitions of the waves and their expansion\<close>

text \<open>
  \<open>integer_partitions(n)\<close> lists every ordered partition of \<open>n\<close>; \<open>rec(left, path)\<close> appends to the
  enclosing list, here the concatenation of the results in call order.
\<close>

function rec_partitions :: "nat \<Rightarrow> int list \<Rightarrow> int list list" where
  "rec_partitions left path =
     (if left = 0 then [path]
      else concat (map (\<lambda>x. rec_partitions (left - x) (path @ [int x])) [1..<Suc left]))"
  by pat_completeness auto
termination
  by (relation "measure fst") auto

declare rec_partitions.simps [simp del]

definition integer_partitions :: "int \<Rightarrow> int list list" where
  "integer_partitions n = (if n < 0 then [] else rec_partitions (nat n) [])"

text \<open>
  \<open>expand_partition_to_cseg\<close>: units become tiles; the last unit takes what is left. The loop
  over the indices is the recursion, \<open>acc\<close> the running sum of the segments before.
\<close>

fun expand_from :: "int \<Rightarrow> int \<Rightarrow> int \<Rightarrow> int \<Rightarrow> int list \<Rightarrow> int list" where
  "expand_from compute_sms g tile_num acc [] = []"
| "expand_from compute_sms g tile_num acc [u] = [min (u * compute_sms * g) (tile_num - acc)]"
| "expand_from compute_sms g tile_num acc (u # v # us) =
     (let x = u * compute_sms * g in x # expand_from compute_sms g tile_num (acc + x) (v # us))"

definition expand_partition_to_cseg :: "int list \<Rightarrow> int \<Rightarrow> int \<Rightarrow> int \<Rightarrow> int list" where
  "expand_partition_to_cseg gp_units compute_sms search_group_size tile_num =
     expand_from compute_sms search_group_size tile_num 0 gp_units"

lemma rec_partitions_path: "rec_partitions n path = map ((@) path) (rec_partitions n [])"
proof (induction n arbitrary: path rule: less_induct)
  case (less n)
  show ?case
  proof (cases "n = 0")
    case True
    then show ?thesis by (simp add: rec_partitions.simps)
  next
    case False
    have "rec_partitions (n - x) (path @ [int x]) = map ((@) path) (rec_partitions (n - x) [int x])"
      if "x \<in> set [1..<Suc n]" for x
    proof -
      have "n - x < n" using that False by auto
      then have "rec_partitions (n - x) p = map ((@) p) (rec_partitions (n - x) [])" for p
        by (rule less.IH)
      from this [of "path @ [int x]"] this [of "[int x]"] show ?thesis by (simp add: comp_def)
    qed
    then have "map (\<lambda>x. rec_partitions (n - x) (path @ [int x])) [1..<Suc n]
                 = map (map ((@) path)) (map (\<lambda>x. rec_partitions (n - x) [int x]) [1..<Suc n])"
      by (simp add: comp_def)
    with False show ?thesis
      by (simp add: rec_partitions.simps [of n path] rec_partitions.simps [of n "[]"] map_concat
          del: upt_Suc map_map)
  qed
qed

lemma rec_partitions_Cons:
  "0 < n \<Longrightarrow> rec_partitions n [] =
     concat (map (\<lambda>x. map ((#) (int x)) (rec_partitions (n - x) [])) [1..<Suc n])"
proof -
  assume "0 < n"
  have app: "(@) [a] = (#) a" for a :: int by (rule ext) simp
  have "rec_partitions (n - x) ([] @ [int x]) = map ((#) (int x)) (rec_partitions (n - x) [])" for x
    by (subst rec_partitions_path) (simp only: append_Nil app)
  with \<open>0 < n\<close> show ?thesis by (subst rec_partitions.simps) (simp del: upt_Suc append_Nil)
qed

lemma rec_partitions_0: "rec_partitions 0 [] = [[]]"
  by (simp add: rec_partitions.simps)

definition composition :: "int \<Rightarrow> int list \<Rightarrow> bool" where
  "composition n us \<longleftrightarrow> (\<forall>u \<in> set us. 1 \<le> u) \<and> sum_list us = n"

lemma composition_Nil [simp]: "composition n [] \<longleftrightarrow> n = 0"
  by (auto simp: composition_def)

lemma composition_Cons: "composition n (u # us) \<longleftrightarrow> 1 \<le> u \<and> composition (n - u) us"
  by (auto simp: composition_def)

lemma composition_nonneg: "composition n us \<Longrightarrow> 0 \<le> n"
  unfolding composition_def by (auto intro!: sum_list_nonneg)

lemma set_rec_partitions: "set (rec_partitions n []) = {us. composition (int n) us}"
proof (induction n rule: less_induct)
  case (less n)
  show ?case
  proof (cases "n = 0")
    case True
    have "us = []" if "composition 0 us" for us
      using that composition_nonneg by (cases us) (fastforce simp: composition_Cons)+
    then show ?thesis using True by (auto simp: rec_partitions_0)
  next
    case False
    then have n: "0 < n" by simp
    have "us \<in> set (rec_partitions n []) \<longleftrightarrow> composition (int n) us" for us
    proof (cases us)
      case Nil
      then show ?thesis using n unfolding rec_partitions_Cons [OF n] by auto
    next
      case (Cons u vs)
      have "us \<in> set (rec_partitions n []) \<longleftrightarrow>
              (\<exists>x. 1 \<le> x \<and> x \<le> n \<and> u = int x \<and> vs \<in> set (rec_partitions (n - x) []))"
        unfolding Cons rec_partitions_Cons [OF n] by (auto simp del: upt_Suc)
      also have "\<dots> \<longleftrightarrow> (\<exists>x. 1 \<le> x \<and> x \<le> n \<and> u = int x \<and> composition (int n - u) vs)"
        using less.IH by (auto simp: of_nat_diff)
      also have "\<dots> \<longleftrightarrow> composition (int n) us"
      proof
        assume "composition (int n) us"
        then have "1 \<le> u" and c: "composition (int n - u) vs" by (simp_all add: Cons composition_Cons)
        moreover have "u \<le> int n" using composition_nonneg [OF c] by simp
        ultimately show "\<exists>x. 1 \<le> x \<and> x \<le> n \<and> u = int x \<and> composition (int n - u) vs"
          by (intro exI [of _ "nat u"]) auto
      qed (auto simp: Cons composition_Cons)
      finally show ?thesis .
    qed
    then show ?thesis by blast
  qed
qed

lemma distinct_concat_heads:
  assumes "distinct xs" and "inj h" and "\<And>x. x \<in> set xs \<Longrightarrow> distinct (f x)"
  shows "distinct (concat (map (\<lambda>x. map ((#) (h x)) (f x)) xs))"
  using assms by (induction xs) (auto simp: distinct_map intro: inj_onI dest: injD)

lemma distinct_rec_partitions: "distinct (rec_partitions n [])"
proof (induction n rule: less_induct)
  case (less n)
  show ?case
  proof (cases "n = 0")
    case True
    then show ?thesis by (simp add: rec_partitions_0)
  next
    case False
    then have n: "0 < n" by simp
    show ?thesis
      unfolding rec_partitions_Cons [OF n]
      by (rule distinct_concat_heads) (use less.IH n in \<open>auto intro: inj_of_nat\<close>)
  qed
qed

lemma length_rec_partitions: "length (rec_partitions n []) = (if n = 0 then 1 else 2 ^ (n - 1))"
proof (induction n rule: less_induct)
  case (less n)
  let ?L = "\<lambda>k. length (rec_partitions k [])"
  show ?case
  proof (cases n)
    case 0
    then show ?thesis by (simp add: rec_partitions_0)
  next
    case (Suc m)
    have "?L n = (\<Sum>x = 1..n. ?L (n - x))"
      using Suc by (simp add: rec_partitions_Cons length_concat comp_def sum_list_distinct_conv_sum_set
          atLeastLessThanSuc_atLeastAtMost del: upt_Suc)
    also have "\<dots> = (\<Sum>k<n. ?L k)"
      by (rule sum.reindex_bij_witness [of _ "\<lambda>k. n - k" "\<lambda>k. n - k"]) auto
    also have "\<dots> = (\<Sum>k<n. if k = 0 then 1 else 2 ^ (k - 1))"
      using less.IH by (intro sum.cong) auto
    also have "\<dots> = 1 + (\<Sum>k<m. 2 ^ k)"
      by (simp only: Suc sum.lessThan_Suc_shift) simp
    also have "\<dots> = 2 ^ m" by (induction m) auto
    finally show ?thesis using Suc by simp
  qed
qed

lemma composition_Cons_pos: "composition n (u # v # us) \<Longrightarrow> u + 1 \<le> n"
  using composition_nonneg [of "n - u - v" us] by (auto simp: composition_Cons)

lemma expand_from_contract:
  assumes "composition n us" and "0 < s" and "0 < g" and "us \<noteq> []"
    and "(n - 1) * s * g < tile_num - acc" and "tile_num - acc \<le> n * s * g"
  shows "sum_list (expand_from s g tile_num acc us) = tile_num - acc
         \<and> (\<forall>x \<in> set (expand_from s g tile_num acc us). 0 < x)"
  using assms
proof (induction s g tile_num acc us arbitrary: n rule: expand_from.induct)
  case (2 s g tile_num acc u)
  then have "n = u" and "1 \<le> u" by (auto simp: composition_Cons)
  have "0 \<le> (n - 1) * s * g" using \<open>n = u\<close> \<open>1 \<le> u\<close> "2.prems"(2,3) by simp
  then have "0 < tile_num - acc" using "2.prems"(5) by linarith
  then show ?case using "2.prems" \<open>n = u\<close> \<open>1 \<le> u\<close> by (simp add: min_def)
next
  case (3 s g tile_num acc u v us)
  let ?x = "u * s * g"
  have u: "1 \<le> u" and c: "composition (n - u) (v # us)" using "3.prems"(1) by (simp_all add: composition_Cons)
  have "sum_list (expand_from s g tile_num (acc + ?x) (v # us)) = tile_num - (acc + ?x)
        \<and> (\<forall>y \<in> set (expand_from s g tile_num (acc + ?x) (v # us)). 0 < y)"
    using "3.IH" [OF refl c] "3.prems" by (simp add: algebra_simps)
  moreover have "0 < ?x" using u "3.prems" by simp
  ultimately show ?case by (simp add: Let_def)
qed simp

lemma length_expand_from [simp]: "length (expand_from s g t acc us) = length us"
  by (induction s g t acc us rule: expand_from.induct) (simp_all add: Let_def)

definition search_units :: "int \<Rightarrow> int \<Rightarrow> int \<Rightarrow> int" where
  "search_units tile_num compute_sms g = ceil_div (ceil_div tile_num compute_sms) g"

definition valid_expansion :: "int list \<times> int \<times> int \<times> int \<Rightarrow> bool" where
  "valid_expansion = (\<lambda>(gp_units, compute_sms, g, tile_num).
     0 < compute_sms \<and> 0 < g \<and> 0 < tile_num \<and>
     gp_units \<in> set (integer_partitions (search_units tile_num compute_sms g)))"

lemma expand_partition_contract:
  assumes "valid_expansion (us, s, g, t)"
  shows "sum_list (expand_partition_to_cseg us s g t) = t
         \<and> (\<forall>x \<in> set (expand_partition_to_cseg us s g t). 0 < x)"
proof -
  define n where "n = search_units t s g"
  from assms have pos: "0 < s" "0 < g" "0 < t" and mem: "us \<in> set (integer_partitions n)"
    by (simp_all add: valid_expansion_def n_def)
  have n: "n = ceil_div t (s * g)" using pos by (simp add: n_def search_units_def ceil_div_ceil_div)
  have npos: "0 < n" unfolding n using pos by (intro ceil_div_pos) auto
  then have c: "composition n us"
    using mem set_rec_partitions [of "nat n"] by (auto simp: integer_partitions_def)
  have sg: "0 < s * g" using pos by simp
  show ?thesis
    unfolding expand_partition_to_cseg_def
    using expand_from_contract [OF c pos(1,2), of t 0] npos c
      ceil_div_upper [OF sg, of t] ceil_div_lower [OF sg, of t]
    by (cases us) (auto simp: n ac_simps)
qed

interpretation cseg: segmenter
  "\<lambda>(us, s, g, t). Inr (expand_partition_to_cseg us s g t)" "\<lambda>(us, s, g, t). t" valid_expansion
  by unfold_locales (auto dest: expand_partition_contract)

section \<open>Balanced and fixed-size segments\<close>

text \<open>\<open>tool/verify_signal_tile_counts.py\<close>: sizes that differ by at most one.\<close>

definition make_segments :: "int \<Rightarrow> int \<Rightarrow> int list res" where
  "make_segments tile_num num_segments =
     bind_res (require (0 < num_segments) (ValueError ''--segments must be > 0'')) (\<lambda>_.
     let n = min num_segments tile_num in
     bind_res (py_div tile_num n) (\<lambda>base.
     bind_res (py_mod tile_num n) (\<lambda>rem.
     Inr (map (\<lambda>i. base + (if i < rem then 1 else 0)) (py_range n)))))"

lemma sum_balanced:
  "0 \<le> r \<Longrightarrow> r \<le> int n \<Longrightarrow>
   sum_list (map (\<lambda>i. b + (if int i < r then 1 else 0)) [0..<n]) = int n * b + r"
proof (induction n arbitrary: r)
  case 0
  then show ?case by simp
next
  case (Suc n)
  show ?case
  proof (cases "r = int (Suc n)")
    case True
    have "map (\<lambda>i. b + (if int i < r then 1 else 0)) [0..<Suc n] = map (\<lambda>i. b + 1) [0..<Suc n]"
      using True by auto
    then show ?thesis using True by (simp only: sum_list_triv) (simp add: algebra_simps)
  next
    case False
    then show ?thesis using Suc by (simp add: algebra_simps)
  qed
qed

lemma make_segments_Inr:
  assumes "0 < t" and "0 < k"
  shows "make_segments t k =
    Inr (map (\<lambda>i. t div min k t + (if i < t mod min k t then 1 else 0)) (py_range (min k t)))"
  using assms by (auto simp: make_segments_def Let_def)

interpretation balanced: segmenter
  "\<lambda>(tile_num, num_segments). make_segments tile_num num_segments" fst "\<lambda>(t, k). 0 < t \<and> 0 < k"
proof (unfold_locales, goal_cases)
  case (1 p)
  then show ?case by (auto simp: make_segments_Inr)
next
  case (2 p s)
  obtain t k where p: "p = (t, k)" by (cases p)
  define n where "n = min k t"
  have n: "0 < n" "int (nat n) = n" using 2 by (auto simp: p n_def)
  have s: "s = map (\<lambda>i. t div n + (if i < t mod n then 1 else 0)) (py_range n)"
    using 2 by (auto simp: p make_segments_Inr n_def)
  have "sum_list s = n * (t div n) + t mod n"
    unfolding s py_range_def using sum_balanced [of "t mod n" "nat n" "t div n"] n
    by (simp add: less_imp_le comp_def)
  then show ?case by (simp add: p)
next
  case (3 p s x)
  obtain t k where p: "p = (t, k)" by (cases p)
  have "0 < t div min k t" using 3 by (auto simp: p pos_imp_zdiv_pos_iff)
  then show ?case using 3 by (auto simp: p make_segments_Inr)
qed

text \<open>
  \<open>tool/gen_config_sm90.py\<close>: groups of \<open>group_tiles\<close>, one group of all tiles when it is not
  positive. The \<open>while left > 0\<close> loop runs only with a positive group size.
\<close>

function group_loop :: "int \<Rightarrow> int \<Rightarrow> int list" where
  "group_loop g left =
     (if 0 < left \<and> 0 < g then let x = min g left in x # group_loop g (left - x) else [])"
  by pat_completeness auto
termination
  by (relation "measure (\<lambda>(g, left). nat left)") auto

declare group_loop.simps [simp del]

definition make_group_segments :: "int \<Rightarrow> int \<Rightarrow> int list" where
  "make_group_segments num_tiles group_tiles =
     (if group_tiles \<le> 0 then [num_tiles] else group_loop group_tiles num_tiles)"

lemma group_loop_contract:
  "0 < g \<Longrightarrow> 0 \<le> left \<Longrightarrow>
   sum_list (group_loop g left) = left \<and> (\<forall>x \<in> set (group_loop g left). 0 < x \<and> x \<le> g)"
proof (induction g left rule: group_loop.induct)
  case (1 g left)
  then show ?case
    by (cases "0 < left") (auto simp: group_loop.simps [of g left] group_loop.simps [of g 0] Let_def)
qed

lemma make_group_segments_contract:
  assumes "0 < t"
  shows "sum_list (make_group_segments t g) = t \<and> (\<forall>x \<in> set (make_group_segments t g). 0 < x)"
proof (cases "g \<le> 0")
  case True
  then show ?thesis using assms by (simp add: make_group_segments_def)
next
  case False
  then show ?thesis
    using group_loop_contract [of g t] assms by (auto simp: make_group_segments_def)
qed

interpretation grouped: segmenter
  "\<lambda>(num_tiles, group_tiles). Inr (make_group_segments num_tiles group_tiles)" fst
  "\<lambda>(num_tiles, group_tiles). 0 < num_tiles"
  by unfold_locales (auto dest: make_group_segments_contract)

section \<open>Properties\<close>

text \<open>\<open>integer_partitions n\<close> lists every way to write n as an ordered sum of positive units,
  each exactly once, 2 ^ (n - 1) in all; for a negative n it is empty. A composition has units of at
  least one that add up to n.\<close>

theorem integer_partitions_complete:
  "set (integer_partitions n) = {us. composition n us}
   \<and> distinct (integer_partitions n)
   \<and> length (integer_partitions n) = (if n < 0 then 0 else if n = 0 then 1 else 2 ^ nat (n - 1))"
proof (cases "n < 0")
  case True
  then have "\<not> composition n us" for us using composition_nonneg by fastforce
  then show ?thesis using True by (auto simp: integer_partitions_def)
next
  case False
  then have "nat (n - 1) = nat n - 1" by simp
  then show ?thesis
    using False set_rec_partitions [of "nat n"] distinct_rec_partitions [of "nat n"]
      length_rec_partitions [of "nat n"]
    by (simp add: integer_partitions_def)
qed

text \<open>The expansion of any listed partition of the groups of waves into segments is a segmentation
  of all tiles: positive sizes that add up to the tile count, one per unit, so that every tile number
  falls into exactly one segment.\<close>

theorem expanded_partition_segments:
  assumes "0 < compute_sms" "0 < g" "0 < tile_num"
    and "us \<in> set (integer_partitions (search_units tile_num compute_sms g))"
  shows "sum_list (expand_partition_to_cseg us compute_sms g tile_num) = tile_num
         \<and> (\<forall>x \<in> set (expand_partition_to_cseg us compute_sms g tile_num). 0 < x)
         \<and> length (expand_partition_to_cseg us compute_sms g tile_num) = length us
         \<and> (\<forall>t. 0 \<le> t \<and> t < tile_num \<longrightarrow>
              (\<exists>!k. segment_of (expand_partition_to_cseg us compute_sms g tile_num) t k))"
  using assms cseg.segs_contract [of "(us, compute_sms, g, tile_num)"]
  by (simp add: valid_expansion_def expand_partition_to_cseg_def)

theorem expanded_partition_segments_witness:
  "sum_list (expand_partition_to_cseg [1, 2] 3 1 8) = 8"
proof -
  have "[1, 2] \<in> set (integer_partitions (search_units 8 3 1))" by code_simp
  then show ?thesis using expanded_partition_segments [of 3 1 8 "[1, 2]"] by simp
qed

text \<open>The windows of the hint run are a segmentation of all tiles whose sizes are at most the window
  size.\<close>

theorem hint_windows_segments:
  assumes "0 < tile_num" "0 < wSize"
  shows "\<exists>s. hint_windows tile_num wSize = Inr s \<and> sum_list s = tile_num \<and> (\<forall>x \<in> set s. 0 < x \<and> x \<le> wSize)
           \<and> (\<forall>t. 0 \<le> t \<and> t < tile_num \<longrightarrow> (\<exists>!k. segment_of s t k))"
proof -
  obtain s where "hint_windows tile_num wSize = Inr s" "sum_list s = tile_num" "\<forall>x \<in> set s. 0 < x"
    "\<forall>t. 0 \<le> t \<and> t < tile_num \<longrightarrow> (\<exists>!k. segment_of s t k)"
    using windows.segs_contract [of "(tile_num, wSize)"] assms by auto
  then show ?thesis using assms by (intro exI [of _ s]) (auto simp: hint_windows_def)
qed

theorem hint_windows_segments_witness:
  "\<exists>s. hint_windows 7 3 = Inr s \<and> sum_list s = 7 \<and> (\<forall>x \<in> set s. 0 < x \<and> x \<le> 3)
     \<and> (\<forall>t. 0 \<le> t \<and> t < 7 \<longrightarrow> (\<exists>!k. segment_of s t k))"
  by (rule hint_windows_segments) simp_all

text \<open>The balanced segments of the signal checker cover all tiles with at most the requested number of
  positive sizes that differ by at most one; a non-positive segment count is refused.\<close>

theorem balanced_segments:
  assumes "0 < tile_num"
  shows "(if 0 < k
          then \<exists>s. make_segments tile_num k = Inr s \<and> sum_list s = tile_num \<and> (\<forall>x \<in> set s. 0 < x)
                 \<and> int (length s) = min k tile_num
                 \<and> (\<forall>x \<in> set s. \<forall>y \<in> set s. x \<le> y + 1)
          else make_segments tile_num k = Inl (ValueError ''--segments must be > 0''))"
proof (cases "0 < k")
  case True
  obtain s where s: "make_segments tile_num k = Inr s" "sum_list s = tile_num" "\<forall>x \<in> set s. 0 < x"
    using balanced.segs_contract [of "(tile_num, k)"] assms True by auto
  then have "int (length s) = min k tile_num" and "\<forall>x \<in> set s. \<forall>y \<in> set s. x \<le> y + 1"
    using assms True by (auto simp: make_segments_Inr)
  then show ?thesis using s True by auto
next
  case False
  then show ?thesis by (simp add: make_segments_def)
qed

theorem balanced_segments_witness:
  "\<exists>s. make_segments 7 3 = Inr s \<and> sum_list s = 7"
  using balanced_segments [of 7 3] by auto

text \<open>The grouped segments of the configuration generator cover all tiles; with a positive group size
  no segment is larger than the group, otherwise there is one segment.\<close>

theorem grouped_segments:
  assumes "0 < num_tiles"
  shows "sum_list (make_group_segments num_tiles g) = num_tiles
         \<and> (\<forall>x \<in> set (make_group_segments num_tiles g). 0 < x \<and> (0 < g \<longrightarrow> x \<le> g))
         \<and> (g \<le> 0 \<longrightarrow> make_group_segments num_tiles g = [num_tiles])
         \<and> (\<forall>t. 0 \<le> t \<and> t < num_tiles \<longrightarrow> (\<exists>!k. segment_of (make_group_segments num_tiles g) t k))"
  using assms grouped.segs_contract [of "(num_tiles, g)"] group_loop_contract [of g num_tiles]
  by (auto simp: make_group_segments_def)

theorem grouped_segments_witness:
  "sum_list (make_group_segments 7 3) = 7"
  using grouped_segments [of 7 3] by simp

end
