(* ===== verification/Reorder.thy ===== *)
theory Reorder
  imports Tiling
begin

text \<open>
  The tile orders of the packed runs. From a hint (the tiles known to finish early, in order)
  \<open>build_full_order_and_reorder_map\<close> of \<open>tool/search.py\<close> builds the order saved in a
  solution file, \<open>reorder_indices\<close> of the same file the map the search itself runs with, and
  \<open>reorder_indices\<close>/\<open>make_reordered_array\<close> of \<open>test/test.py\<close> the map the evaluation runs
  with. The locale \<open>tile_map\<close> states what the packed GEMM needs of such a map: it is a
  permutation of the tile numbers, so that two tiles never share a packed slot.
\<close>

section \<open>What a tile map must be\<close>

locale tile_map =
  fixes tmap :: "'p \<Rightarrow> int list res"
    and ntiles :: "'p \<Rightarrow> int"
    and valid :: "'p \<Rightarrow> bool"
  assumes tmap_returns: "valid p \<Longrightarrow> \<exists>m. tmap p = Inr m"
    and tmap_length: "valid p \<Longrightarrow> tmap p = Inr m \<Longrightarrow> length m = nat (ntiles p)"
    and tmap_range: "valid p \<Longrightarrow> tmap p = Inr m \<Longrightarrow> set m = {0..<ntiles p}"
begin

lemma tmap_distinct:
  assumes "valid p" and "tmap p = Inr m"
  shows "distinct m"
  by (rule card_distinct) (simp add: tmap_range [OF assms] tmap_length [OF assms])

lemma tmap_inj:
  assumes "valid p" and "tmap p = Inr m" and "i < length m" and "j < length m" and "m ! i = m ! j"
  shows "i = j"
  using tmap_distinct [OF assms(1,2)] assms(3-5) by (simp add: nth_eq_iff_index_eq)

lemma tmap_slot:
  assumes "valid p" and "tmap p = Inr m" and "0 \<le> s" and "s < ntiles p"
  shows "\<exists>!i. i < length m \<and> m ! i = s"
proof -
  have "s \<in> set m" using assms by (simp add: tmap_range)
  then obtain i where "i < length m" "m ! i = s" by (auto simp: in_set_conv_nth)
  then show ?thesis using tmap_inj [OF assms(1,2)] by metis
qed

text \<open>Content packed through the map is found again through the map.\<close>

lemma tmap_unpack:
  assumes "valid p" and "tmap p = Inr m"
  shows "\<exists>packed. length packed = length m \<and> (\<forall>i < length m. packed ! nat (m ! i) = (content :: nat \<Rightarrow> 'v) i)"
proof -
  define slot where "slot s = (THE i. i < length m \<and> m ! i = int s)" for s
  let ?packed = "map (\<lambda>s. content (slot s)) [0..<length m]"
  have "?packed ! nat (m ! i) = content i" if "i < length m" for i
  proof -
    have r: "m ! i \<in> {0..<ntiles p}" using tmap_range [OF assms] that nth_mem by blast
    then have "slot (nat (m ! i)) = i"
      unfolding slot_def using that tmap_inj [OF assms] by (intro the_equality) auto
    then show ?thesis using r tmap_length [OF assms] by simp
  qed
  then show ?thesis by (intro exI [of _ ?packed]) simp
qed

end

section \<open>The saved order\<close>

text \<open>The loop over the hint: range check, then append the tile once.\<close>

fun scan_hint :: "int \<Rightarrow> bool list \<Rightarrow> int list \<Rightarrow> int list \<Rightarrow> (int list \<times> bool list) res" where
  "scan_hint tile_num used stable_prefix [] = Inr (stable_prefix, used)"
| "scan_hint tile_num used stable_prefix (x # xs) =
     (if x < 0 \<or> x \<ge> tile_num then Inl (ValueError ''Invalid tile id in hint'')
      else if \<not> used ! nat x then scan_hint tile_num (used[nat x := True]) (stable_prefix @ [x]) xs
      else scan_hint tile_num used stable_prefix xs)"

text \<open>\<open>for new_pos, tile_id in enumerate(order, start): m[tile_id] = new_pos\<close> for ids in range.\<close>

fun assign_positions :: "int \<Rightarrow> int list \<Rightarrow> int list \<Rightarrow> int list" where
  "assign_positions pos [] m = m"
| "assign_positions pos (t # ts) m = assign_positions (pos + 1) ts (m[nat t := pos])"

definition build_full_order_and_reorder_map ::
  "int \<Rightarrow> int list \<Rightarrow> (int list \<times> int list \<times> int list) res" where
  "build_full_order_and_reorder_map tile_num hint =
     bind_res (scan_hint tile_num (replicate (nat tile_num) False) [] hint) (\<lambda>(stable_prefix, used).
     let unstable_tail = filter (\<lambda>x. \<not> used ! nat x) (py_range tile_num);
         full_tile_order = stable_prefix @ unstable_tail;
         reorder_map = assign_positions 0 full_tile_order (replicate (nat tile_num) (-1))
     in Inr (full_tile_order, reorder_map, unstable_tail))"

section \<open>The maps the runs use\<close>

fun place_hint :: "int \<Rightarrow> int list \<Rightarrow> int list \<Rightarrow> int list res" where
  "place_hint i [] new_order = Inr new_order"
| "place_hint i (tile # hint) new_order =
     bind_res (py_set new_order tile i) (\<lambda>new_order'. place_hint (i + 1) hint new_order')"

fun fill_tail :: "int \<Rightarrow> int list \<Rightarrow> int list \<Rightarrow> int list" where
  "fill_tail pos [] new_order = new_order"
| "fill_tail pos (tile # tiles) new_order =
     (if new_order ! nat tile < 0
      then fill_tail (pos + 1) tiles (new_order[nat tile := pos])
      else fill_tail pos tiles new_order)"

definition reorder_indices :: "int \<Rightarrow> int list \<Rightarrow> int list res" where
  "reorder_indices tile_num hint =
     bind_res (place_hint 0 hint (replicate (nat tile_num) (-1))) (\<lambda>new_order.
     Inr (fill_tail (int (length hint)) (py_range tile_num) new_order))"

text \<open>\<open>test/test.py\<close> collects the tail first and numbers it from \<open>len(hint)\<close>.\<close>

definition test_reorder_indices :: "int \<Rightarrow> int list \<Rightarrow> int list res" where
  "test_reorder_indices tile_num hint =
     bind_res (place_hint 0 hint (replicate (nat tile_num) (-1))) (\<lambda>new_order.
     let used = set hint; tail = filter (\<lambda>x. x \<notin> used) (py_range tile_num)
     in Inr (assign_positions (int (length hint)) tail new_order))"

definition make_reordered_array :: "int \<Rightarrow> int list \<Rightarrow> int list option \<Rightarrow> int list res" where
  "make_reordered_array tile_num hint reorder_map =
     (case reorder_map of
        Some m \<Rightarrow> bind_res (require (int (length m) = tile_num) (ValueError ''reorder_map length''))
                  (\<lambda>_. Inr m)
      | None \<Rightarrow> test_reorder_indices tile_num hint)"

section \<open>Lemmas on the loops\<close>

fun firsts :: "int list \<Rightarrow> int list \<Rightarrow> int list" where
  "firsts pre [] = pre"
| "firsts pre (x # xs) = firsts (if x \<in> set pre then pre else pre @ [x]) xs"

lemma firsts_remdups: "distinct pre \<Longrightarrow> firsts pre xs = rev (remdups (rev (pre @ xs)))"
proof (induction xs arbitrary: pre)
  case Nil
  then show ?case by (simp add: distinct_remdups_id)
next
  case (Cons x xs)
  have "remdups (rev xs @ remdups (x # rev pre)) = remdups (rev xs @ (x # rev pre))"
    by (rule remdups_append2)
  then show ?case
    using Cons remdups_append2 [of "rev xs" "rev pre"] by (cases "x \<in> set pre") simp_all
qed

lemma set_firsts [simp]: "set (firsts pre xs) = set pre \<union> set xs"
  by (induction xs arbitrary: pre) auto

lemma distinct_firsts [simp]: "distinct pre \<Longrightarrow> distinct (firsts pre xs)"
  by (induction xs arbitrary: pre) auto

lemma firsts_distinct_id: "distinct xs \<Longrightarrow> firsts [] xs = xs"
  by (simp add: firsts_remdups distinct_remdups_id)

definition used_flags :: "int \<Rightarrow> int list \<Rightarrow> bool list" where
  "used_flags n pre = map (\<lambda>x. x \<in> set pre) (py_range n)"

lemma used_flags_nth: "0 \<le> x \<Longrightarrow> x < n \<Longrightarrow> used_flags n pre ! nat x \<longleftrightarrow> x \<in> set pre"
  by (simp add: used_flags_def)

lemma used_flags_update:
  "0 \<le> x \<Longrightarrow> x < n \<Longrightarrow> (used_flags n pre)[nat x := True] = used_flags n (pre @ [x])"
  by (rule nth_equalityI) (auto simp: used_flags_def nth_list_update)

lemma used_flags_Nil: "used_flags n [] = replicate (nat n) False"
  by (rule nth_equalityI) (auto simp: used_flags_def)

lemma scan_hint_eq:
  "scan_hint n (used_flags n pre) pre hint =
     (if \<forall>x \<in> set hint. 0 \<le> x \<and> x < n
      then Inr (firsts pre hint, used_flags n (firsts pre hint))
      else Inl (ValueError ''Invalid tile id in hint''))"
proof (induction hint arbitrary: pre)
  case Nil
  then show ?case by simp
next
  case (Cons x xs)
  show ?case
  proof (cases "x < 0 \<or> x \<ge> n")
    case True
    then show ?thesis by auto
  next
    case False
    then have x: "0 \<le> x" "x < n" by auto
    then show ?thesis
      by (cases "x \<in> set pre") (simp_all add: Cons.IH used_flags_nth used_flags_update)
  qed
qed

lemma length_assign_positions [simp]: "length (assign_positions p ts m) = length m"
  by (induction p ts m rule: assign_positions.induct) auto

lemma assign_positions_other:
  "(\<And>t. t \<in> set ts \<Longrightarrow> nat t \<noteq> i) \<Longrightarrow> assign_positions p ts m ! i = m ! i"
  by (induction p ts m rule: assign_positions.induct) auto

lemma assign_positions_nth:
  assumes "distinct ts" and "\<And>t. t \<in> set ts \<Longrightarrow> 0 \<le> t \<and> nat t < length m" and "k < length ts"
  shows "assign_positions p ts m ! nat (ts ! k) = p + int k"
  using assms
proof (induction p ts m arbitrary: k rule: assign_positions.induct)
  case (2 p t ts m)
  show ?case
  proof (cases k)
    case 0
    have "nat u \<noteq> nat t" if "u \<in> set ts" for u
    proof -
      have "0 \<le> u" "0 \<le> t" "u \<noteq> t" using that "2.prems"(1,2) by auto
      then show ?thesis by simp
    qed
    then have "assign_positions (p + 1) ts (m[nat t := p]) ! nat t = m[nat t := p] ! nat t"
      by (intro assign_positions_other) blast
    then show ?thesis using 0 "2.prems"(2) by simp
  next
    case (Suc k')
    then show ?thesis using "2.IH" [of k'] "2.prems" by simp
  qed
qed simp

text \<open>A map that sends the \<open>k\<close>-th tile of an order to \<open>k\<close>.\<close>

definition order_map :: "int \<Rightarrow> int list \<Rightarrow> int list \<Rightarrow> bool" where
  "order_map n order m \<longleftrightarrow>
     distinct order \<and> set order = {0..<n} \<and> length m = nat n \<and>
     (\<forall>k < length order. m ! nat (order ! k) = int k)"

lemma order_map_unique:
  assumes "order_map n order m" and "order_map n order m'"
  shows "m = m'"
proof (rule list_eq_along_perm [where ts = order])
  show "length m = length m'" using assms by (simp add: order_map_def)
  fix i assume "i < length m"
  then have "int i \<in> set order" using assms by (auto simp: order_map_def)
  then show "\<exists>k<length order. nat (order ! k) = i" by (auto simp: in_set_conv_nth)
next
  fix k assume "k < length order"
  then show "m ! nat (order ! k) = m' ! nat (order ! k)" using assms by (simp add: order_map_def)
qed

lemma order_map_set:
  assumes "order_map n order m"
  shows "set m = {0..<n}"
proof -
  have dist: "distinct order" and ran: "set order = {0..<n}" and lm: "length m = nat n"
    and at: "\<And>k. k < length order \<Longrightarrow> m ! nat (order ! k) = int k"
    using assms by (auto simp: order_map_def)
  have lo: "length order = nat n" using distinct_range_length [OF dist ran] .
  show ?thesis
  proof (intro equalityI subsetI)
    fix x assume "x \<in> set m"
    then obtain i where i: "i < length m" "x = m ! i" by (auto simp: in_set_conv_nth)
    then have "int i \<in> set order" using ran lm by simp
    then obtain k where "k < length order" "order ! k = int i" by (auto simp: in_set_conv_nth)
    then show "x \<in> {0..<n}" using at [of k] i lo by simp
  next
    fix x assume x: "x \<in> {0..<n}"
    then have k: "nat x < length order" using lo by simp
    then have "order ! nat x \<in> {0..<n}" using ran nth_mem by blast
    then have "nat (order ! nat x) < length m" using lm by simp
    moreover have "m ! nat (order ! nat x) = x" using at [OF k] x by simp
    ultimately show "x \<in> set m" by (metis nth_mem)
  qed
qed

definition hint_order :: "int \<Rightarrow> int list \<Rightarrow> int list" where
  "hint_order n hint = firsts [] hint @ filter (\<lambda>x. x \<notin> set hint) (py_range n)"

lemma hint_order_perm:
  "(\<And>x. x \<in> set hint \<Longrightarrow> 0 \<le> x \<and> x < n) \<Longrightarrow>
   distinct (hint_order n hint) \<and> set (hint_order n hint) = {0..<n}"
  by (fastforce simp: hint_order_def)

lemma assign_positions_order_map:
  assumes "distinct order" and "set order = {0..<n}" and "length m = nat n"
  shows "order_map n order (assign_positions 0 order m)"
  using assms assign_positions_nth [of order m] by (auto simp: order_map_def)

lemma build_eq:
  "build_full_order_and_reorder_map n hint =
     (if \<forall>x \<in> set hint. 0 \<le> x \<and> x < n
      then Inr (hint_order n hint,
                assign_positions 0 (hint_order n hint) (replicate (nat n) (-1)),
                filter (\<lambda>x. x \<notin> set hint) (py_range n))
      else Inl (ValueError ''Invalid tile id in hint''))"
proof -
  have "filter (\<lambda>x. \<not> used_flags n (firsts [] hint) ! nat x) (py_range n)
          = filter (\<lambda>x. x \<notin> set hint) (py_range n)"
    by (intro filter_cong) (auto simp: used_flags_nth)
  then show ?thesis
    using scan_hint_eq [of n "[]" hint]
    by (simp add: build_full_order_and_reorder_map_def used_flags_Nil hint_order_def Let_def)
qed

lemma build_order_map:
  assumes "build_full_order_and_reorder_map n hint = Inr (order, m, tail)"
  shows "order = hint_order n hint" and "order_map n order m"
    and "tail = filter (\<lambda>x. x \<notin> set hint) (py_range n)"
proof -
  have r: "\<forall>x \<in> set hint. 0 \<le> x \<and> x < n" using assms by (auto simp: build_eq split: if_splits)
  show o: "order = hint_order n hint" and "tail = filter (\<lambda>x. x \<notin> set hint) (py_range n)"
    using assms r by (auto simp: build_eq)
  show "order_map n order m"
    unfolding o using assms r hint_order_perm [of hint n]
    by (auto simp: build_eq intro!: assign_positions_order_map)
qed

lemma place_hint_in_range:
  "(\<And>t. t \<in> set hint \<Longrightarrow> 0 \<le> t \<and> nat t < length m) \<Longrightarrow>
   place_hint i hint m = Inr (assign_positions i hint m)"
proof (induction i hint m rule: place_hint.induct)
  case (2 i t ts m)
  then have "0 \<le> t \<and> nat t < length m" by simp
  then have "py_set m t i = Inr (m[nat t := i])" by (intro py_set_in_range) auto
  then show ?case using 2 by simp
qed simp

lemma fill_tail_eq:
  assumes "distinct tiles" and "\<And>t. t \<in> set tiles \<Longrightarrow> 0 \<le> t \<and> nat t < length m" and "0 \<le> pos"
  shows "fill_tail pos tiles m = assign_positions pos (filter (\<lambda>t. m ! nat t < 0) tiles) m"
  using assms
proof (induction pos tiles m rule: fill_tail.induct)
  case (2 pos t ts m)
  have neq: "nat t \<noteq> nat u" if "u \<in> set ts" for u
  proof -
    have "0 \<le> u" "0 \<le> t" "u \<noteq> t" using that "2.prems"(1,2) by auto
    then show ?thesis by simp
  qed
  have "filter (\<lambda>u. m[nat t := pos] ! nat u < 0) ts = filter (\<lambda>u. m ! nat u < 0) ts"
    by (intro filter_cong refl) (simp add: nth_list_update_neq [OF neq])
  then show ?case using "2.IH" "2.prems" by (cases "m ! nat t < 0") simp_all
qed simp

lemma assign_positions_append:
  "assign_positions p (xs @ ys) m = assign_positions (p + int (length xs)) ys (assign_positions p xs m)"
  by (induction p xs m rule: assign_positions.induct) (simp_all add: algebra_simps)

lemma assigned_sign:
  assumes "distinct ts" and "\<And>t. t \<in> set ts \<Longrightarrow> 0 \<le> t \<and> t < n" and "0 \<le> x" and "x < n"
  shows "assign_positions 0 ts (replicate (nat n) (-1)) ! nat x < 0 \<longleftrightarrow> x \<notin> set ts"
proof (cases "x \<in> set ts")
  case True
  then obtain k where "k < length ts" "ts ! k = x" by (auto simp: in_set_conv_nth)
  moreover have "\<And>t. t \<in> set ts \<Longrightarrow> 0 \<le> t \<and> nat t < length (replicate (nat n) (-1::int))"
    using assms(2) by fastforce
  ultimately show ?thesis
    using assign_positions_nth [OF assms(1), of "replicate (nat n) (-1)" k 0] True by simp
next
  case False
  have "nat t \<noteq> nat x" if "t \<in> set ts" for t
    using that assms(2) [OF that] assms(3) False by (metis nat_eq_iff2)
  then have "assign_positions 0 ts (replicate (nat n) (-1)) ! nat x = replicate (nat n) (-1) ! nat x"
    by (intro assign_positions_other)
  then show ?thesis using False assms by simp
qed

lemma hint_order_distinct: "distinct hint \<Longrightarrow> hint_order n hint = hint @ filter (\<lambda>x. x \<notin> set hint) (py_range n)"
  by (simp add: hint_order_def firsts_distinct_id)

lemma reorder_indices_eq:
  assumes d: "distinct hint" and r: "\<And>x. x \<in> set hint \<Longrightarrow> 0 \<le> x \<and> x < n"
  shows "reorder_indices n hint = Inr (assign_positions 0 (hint_order n hint) (replicate (nat n) (-1)))"
    and "test_reorder_indices n hint = reorder_indices n hint"
proof -
  let ?m = "replicate (nat n) (-1::int)"
  have r': "0 \<le> t \<and> nat t < length ?m" if "t \<in> set hint" for t
    using r [OF that] by auto
  have place: "place_hint 0 hint ?m = Inr (assign_positions 0 hint ?m)"
    using r' by (rule place_hint_in_range)
  have "fill_tail (int (length hint)) (py_range n) (assign_positions 0 hint ?m)
      = assign_positions (int (length hint))
          (filter (\<lambda>t. assign_positions 0 hint ?m ! nat t < 0) (py_range n)) (assign_positions 0 hint ?m)"
    by (rule fill_tail_eq) auto
  also have "filter (\<lambda>t. assign_positions 0 hint ?m ! nat t < 0) (py_range n)
           = filter (\<lambda>x. x \<notin> set hint) (py_range n)"
    using assigned_sign [OF d] r by (intro filter_cong) auto
  finally show e: "reorder_indices n hint = Inr (assign_positions 0 (hint_order n hint) ?m)"
    by (simp add: reorder_indices_def place hint_order_distinct [OF d] assign_positions_append)
  show "test_reorder_indices n hint = reorder_indices n hint"
    unfolding e
    by (simp add: test_reorder_indices_def place hint_order_distinct [OF d] assign_positions_append Let_def)
qed

section \<open>The maps are tile maps\<close>

definition hint_in_range :: "int \<times> int list \<Rightarrow> bool" where
  "hint_in_range = (\<lambda>(n, hint). 0 \<le> n \<and> (\<forall>x \<in> set hint. 0 \<le> x \<and> x < n))"

definition hint_sound :: "int \<times> int list \<Rightarrow> bool" where
  "hint_sound = (\<lambda>(n, hint). hint_in_range (n, hint) \<and> distinct hint)"

lemma order_map_tile_map:
  "order_map n order m \<Longrightarrow> length m = nat n \<and> set m = {0..<n}"
  by (simp add: order_map_set) (simp add: order_map_def)

lemma saved_order_map:
  assumes "hint_in_range (n, hint)"
  shows "\<exists>order m tail. build_full_order_and_reorder_map n hint = Inr (order, m, tail) \<and> order_map n order m"
proof -
  obtain r where r: "build_full_order_and_reorder_map n hint = Inr r"
    using assms by (auto simp: hint_in_range_def build_eq)
  obtain order m tail where "r = (order, m, tail)" by (cases r)
  then show ?thesis using r build_order_map(2) by blast
qed

interpretation saved: tile_map
  "\<lambda>(n, hint). bind_res (build_full_order_and_reorder_map n hint) (\<lambda>(order, m, tail). Inr m)"
  fst hint_in_range
  by unfold_locales (auto dest!: saved_order_map order_map_tile_map)

lemma reorder_indices_order_map:
  assumes "hint_sound (n, hint)"
  shows "\<exists>m. reorder_indices n hint = Inr m \<and> order_map n (hint_order n hint) m"
  using assms reorder_indices_eq(1) [of hint n] hint_order_perm [of hint n]
  by (auto simp: hint_sound_def hint_in_range_def intro!: assign_positions_order_map)

interpretation searched: tile_map "\<lambda>(n, hint). reorder_indices n hint" fst hint_sound
  by unfold_locales (auto dest!: reorder_indices_order_map order_map_tile_map)

lemma make_reordered_array_order_map:
  assumes "hint_sound (n, hint)"
  shows "\<exists>m. make_reordered_array n hint None = Inr m \<and> order_map n (hint_order n hint) m"
  using reorder_indices_order_map [OF assms] assms reorder_indices_eq(2) [of hint n]
  by (simp add: make_reordered_array_def hint_sound_def hint_in_range_def)

interpretation tested: tile_map
  "\<lambda>(n, hint). make_reordered_array n hint None" fst hint_sound
  by unfold_locales (auto dest!: make_reordered_array_order_map order_map_tile_map)

section \<open>Properties\<close>

text \<open>From a hint within range \<open>build_full_order_and_reorder_map\<close> returns an order that starts with
  the hint's tiles in hint order (repetitions dropped), then the remaining tiles in increasing
  order; every tile occurs once, and the saved map sends the tile at place k to k. A hint with a
  tile out of range is refused.\<close>

theorem saved_order_is_inverse_permutation:
  "(case build_full_order_and_reorder_map n hint of
      Inl e \<Rightarrow> (\<exists>x. x \<in> set hint \<and> \<not> (0 \<le> x \<and> x < n)) \<and> e = ValueError ''Invalid tile id in hint''
    | Inr (order, m, tail) \<Rightarrow>
        order = rev (remdups (rev hint)) @ tail \<and> sorted_wrt (<) tail
        \<and> set tail = {0..<n} - set hint \<and> set hint \<subseteq> {0..<n}
        \<and> order_map n order m)"
proof (cases "\<forall>x \<in> set hint. 0 \<le> x \<and> x < n")
  case True
  then obtain order m tail where b: "build_full_order_and_reorder_map n hint = Inr (order, m, tail)"
    by (simp add: build_eq)
  have "sorted_wrt (<) tail"
    unfolding build_order_map(3) [OF b] using strict_sorted_py_range by (rule sorted_wrt_filter)
  then show ?thesis
    using True b build_order_map [OF b] firsts_remdups [of "[]" hint] by (auto simp: hint_order_def)
next
  case False
  then show ?thesis by (auto simp: build_eq)
qed

text \<open>C5: for a hint of distinct tiles within range the map the search runs with, the map saved in the
  solution file and the map the evaluation computes from the saved hint, or takes from the file, are
  the same permutation of the tiles.\<close>

theorem reorder_maps_agree:
  assumes "hint_sound (n, hint)"
  shows "\<exists>order m tail. build_full_order_and_reorder_map n hint = Inr (order, m, tail)
           \<and> reorder_indices n hint = Inr m
           \<and> make_reordered_array n hint None = Inr m
           \<and> make_reordered_array n hint (Some m) = Inr m
           \<and> order_map n order m \<and> distinct m \<and> set m = {0..<n}"
proof -
  have r: "hint_in_range (n, hint)" and n: "0 \<le> n" using assms by (auto simp: hint_sound_def hint_in_range_def)
  obtain order m tail where b: "build_full_order_and_reorder_map n hint = Inr (order, m, tail)"
    and om: "order_map n order m" using saved_order_map [OF r] by blast
  obtain m' where m': "reorder_indices n hint = Inr m'" "order_map n (hint_order n hint) m'"
    using reorder_indices_order_map [OF assms] by blast
  then have "m' = m" using order_map_unique build_order_map(1,2) [OF b] by metis
  then have "reorder_indices n hint = Inr m" using m' by simp
  moreover have "make_reordered_array n hint None = Inr m"
    using make_reordered_array_order_map [OF assms] om order_map_unique build_order_map(1) [OF b] by metis
  moreover have "distinct m"
    using saved.tmap_distinct [of "(n, hint)" m] r b by simp
  moreover have "length m = nat n" "set m = {0..<n}" using order_map_tile_map [OF om] by auto
  ultimately show ?thesis using b om n by (auto simp: make_reordered_array_def)
qed

theorem reorder_maps_agree_witness:
  "\<exists>order m tail. build_full_order_and_reorder_map 4 [2, 0] = Inr (order, m, tail)
     \<and> reorder_indices 4 [2, 0] = Inr m \<and> make_reordered_array 4 [2, 0] None = Inr m
     \<and> make_reordered_array 4 [2, 0] (Some m) = Inr m
     \<and> order_map 4 order m \<and> distinct m \<and> set m = {0..<4}"
  by (rule reorder_maps_agree) (simp add: hint_sound_def hint_in_range_def)

end
