(* ===== verification/RowRemap.thy ===== *)
theory RowRemap
  imports Reorder
begin

text \<open>
  \<open>generate_row_remap_array\<close> of \<open>tool/search.py\<close> (the same function is in
  \<open>test/test.py\<close>): for a reduce-scatter the rows of every segment are regrouped by the rank
  that owns them, \<open>row % world_size\<close>, so that each rank receives one contiguous block per
  segment. \<open>torch.sort(.., stable=True)\<close> is a parameter with its documented behaviour as the
  predicate \<open>stable_sort_spec\<close>; \<open>torch.empty_like\<close> returns unspecified contents, the
  parameter \<open>uninit\<close>.
\<close>

section \<open>The function\<close>

definition stable_sort_spec :: "(int list \<Rightarrow> nat list) \<Rightarrow> bool" where
  "stable_sort_spec sort_idx \<longleftrightarrow>
     (\<forall>xs. mset (sort_idx xs) = mset [0..<length xs] \<and>
           sorted_wrt (\<lambda>i j. xs ! i < xs ! j \<or> (xs ! i = xs ! j \<and> i < j)) (sort_idx xs))"

text \<open>\<open>xs[lo : lo + len(ys)] = ys\<close>\<close>

definition overwrite :: "nat \<Rightarrow> 'a list \<Rightarrow> 'a list \<Rightarrow> 'a list" where
  "overwrite lo ys xs = take lo xs @ ys @ drop (lo + length ys) xs"

text \<open>The loop over the segments; the callers run with at least two ranks.\<close>

fun remap_chunks ::
  "(int list \<Rightarrow> nat list) \<Rightarrow> int \<Rightarrow> int \<Rightarrow> int list \<Rightarrow> nat \<Rightarrow> int list \<Rightarrow> int list \<Rightarrow> int list" where
  "remap_chunks sort_idx world_size BM original_row_ids current_row [] reordered = reordered"
| "remap_chunks sort_idx world_size BM original_row_ids current_row (S # S_list) reordered =
     (let chunk_size = nat (S * BM);
          chunk_row_ids = slice current_row (current_row + chunk_size) original_row_ids;
          mod_values = map (\<lambda>r. r mod world_size) chunk_row_ids;
          idx = sort_idx mod_values;
          reordered' = overwrite current_row (map (\<lambda>i. chunk_row_ids ! i) idx) reordered
      in remap_chunks sort_idx world_size BM original_row_ids (current_row + chunk_size) S_list reordered')"

definition generate_row_remap_array ::
  "(int list \<Rightarrow> nat list) \<Rightarrow> (nat \<Rightarrow> int) \<Rightarrow> int \<Rightarrow> int \<Rightarrow> int \<Rightarrow> int \<Rightarrow> int list \<Rightarrow> int \<Rightarrow> int list res" where
  "generate_row_remap_array sort_idx uninit M N BM BN S_list world_size =
     bind_res (py_div (M * N) (BM * BN)) (\<lambda>total_tiles.
     bind_res (require (sum_list S_list = total_tiles)
                 (RuntimeError ''sum(S_list) must equal total number of tiles'')) (\<lambda>_.
     bind_res (py_div (M * N) BN) (\<lambda>rows.
     let original_row_ids = py_range rows;
         reordered = remap_chunks sort_idx world_size BM original_row_ids 0 S_list
                       (map uninit [0..<length original_row_ids])
     in place_hint 0 reordered (map uninit [0..<length original_row_ids]))))"

section \<open>The chunks\<close>

definition owner_before :: "int \<Rightarrow> int \<Rightarrow> int \<Rightarrow> bool" where
  "owner_before world_size a b \<longleftrightarrow>
     a mod world_size < b mod world_size \<or> (a mod world_size = b mod world_size \<and> a < b)"

definition row_chunk :: "int \<Rightarrow> int \<Rightarrow> int \<Rightarrow> int list \<Rightarrow> bool" where
  "row_chunk world_size lo hi chunk \<longleftrightarrow>
     distinct chunk \<and> set chunk = {lo..<hi} \<and> sorted_wrt (owner_before world_size) chunk"

text \<open>The chunk boundaries: \<open>BM\<close> rows per tile of the segments before.\<close>

definition row_start :: "int \<Rightarrow> int list \<Rightarrow> nat \<Rightarrow> int" where
  "row_start BM S_list k = BM * sum_list (take k S_list)"

lemma slice_py_range:
  assumes "lo \<le> hi" and "hi \<le> nat n"
  shows "slice lo hi (py_range n) = map int [lo..<hi]"
  by (rule nth_equalityI) (use assms in auto)

lemma sort_idx_facts:
  assumes "stable_sort_spec sort_idx"
  shows "length (sort_idx xs) = length xs" and "distinct (sort_idx xs)"
    and "set (sort_idx xs) = {0..<length xs}"
proof -
  have m: "mset (sort_idx xs) = mset [0..<length xs]" using assms by (simp add: stable_sort_spec_def)
  show "length (sort_idx xs) = length xs" using mset_eq_length [OF m] by simp
  show "distinct (sort_idx xs)" using m mset_eq_imp_distinct_iff [OF m] by simp
  show "set (sort_idx xs) = {0..<length xs}" using mset_eq_setD [OF m] by simp
qed

definition sorted_chunk :: "(int list \<Rightarrow> nat list) \<Rightarrow> int \<Rightarrow> nat \<Rightarrow> nat \<Rightarrow> int list" where
  "sorted_chunk sort_idx ws lo hi =
     (let chunk = map int [lo..<hi] in map ((!) chunk) (sort_idx (map (\<lambda>r. r mod ws) chunk)))"

lemma length_sorted_chunk:
  "stable_sort_spec sort_idx \<Longrightarrow> length (sorted_chunk sort_idx ws lo hi) = hi - lo"
  by (simp add: sorted_chunk_def Let_def sort_idx_facts(1))

lemma sorted_chunk_row_chunk:
  assumes sp: "stable_sort_spec sort_idx"
  shows "row_chunk ws (int lo) (int hi) (sorted_chunk sort_idx ws lo hi)"
proof -
  define chunk where "chunk = map int [lo..<hi]"
  define mods where "mods = map (\<lambda>r. r mod ws) chunk"
  have sc: "sorted_chunk sort_idx ws lo hi = map ((!) chunk) (sort_idx mods)"
    by (simp add: sorted_chunk_def chunk_def mods_def Let_def)
  have len: "length mods = length chunk" by (simp add: mods_def)
  have ran: "set (sort_idx mods) = {0..<length chunk}" by (simp add: sort_idx_facts [OF sp] len)
  have at: "chunk ! i = int lo + int i" if "i < length chunk" for i
    using that by (simp add: chunk_def)
  have mods_at: "mods ! i = chunk ! i mod ws" if "i < length chunk" for i
    using that by (simp add: mods_def)
  have inj: "inj_on ((!) chunk) (set (sort_idx mods))"
    unfolding ran by (rule inj_onI) (auto simp: at)
  have "set (map ((!) chunk) (sort_idx mods)) = set chunk"
    using nth_image [of "length chunk" chunk] by (simp add: ran)
  also have "\<dots> = {int lo..<int hi}"
  proof -
    have "x \<in> int ` {lo..<hi}" if "int lo \<le> x" "x < int hi" for x
      using that by (intro image_eqI [of _ _ "nat x"]) auto
    then show ?thesis by (auto simp: chunk_def)
  qed
  finally have set_eq: "set (map ((!) chunk) (sort_idx mods)) = {int lo..<int hi}" .
  have "sorted_wrt (\<lambda>i j. mods ! i < mods ! j \<or> (mods ! i = mods ! j \<and> i < j)) (sort_idx mods)"
    using sp by (simp add: stable_sort_spec_def)
  then have "sorted_wrt (\<lambda>i j. owner_before ws (chunk ! i) (chunk ! j)) (sort_idx mods)"
    by (rule sorted_wrt_mono_rel [rotated])
      (auto simp: ran owner_before_def mods_at at)
  then have "sorted_wrt (owner_before ws) (map ((!) chunk) (sort_idx mods))"
    by (simp add: sorted_wrt_map)
  then show ?thesis
    using set_eq inj sort_idx_facts(2) [OF sp] by (simp add: row_chunk_def sc distinct_map)
qed

fun sorted_chunks :: "(int list \<Rightarrow> nat list) \<Rightarrow> int \<Rightarrow> int \<Rightarrow> nat \<Rightarrow> int list \<Rightarrow> int list list" where
  "sorted_chunks sort_idx ws BM lo [] = []"
| "sorted_chunks sort_idx ws BM lo (S # Ss) =
     sorted_chunk sort_idx ws lo (lo + nat (S * BM)) # sorted_chunks sort_idx ws BM (lo + nat (S * BM)) Ss"

definition rows_of :: "int \<Rightarrow> int list \<Rightarrow> nat" where
  "rows_of BM Ss = sum_list (map (\<lambda>S. nat (S * BM)) Ss)"

lemma rows_of_Cons [simp]: "rows_of BM (S # Ss) = nat (S * BM) + rows_of BM Ss"
  by (simp add: rows_of_def)

lemma rows_of_Nil [simp]: "rows_of BM [] = 0"
  by (simp add: rows_of_def)

lemma rows_of_eq:
  "(\<And>S. S \<in> set Ss \<Longrightarrow> 0 \<le> S) \<Longrightarrow> 0 \<le> BM \<Longrightarrow> int (rows_of BM Ss) = BM * sum_list Ss"
  by (induction Ss) (simp_all add: algebra_simps)

lemma length_sorted_chunks:
  "stable_sort_spec sort_idx \<Longrightarrow> length (concat (sorted_chunks sort_idx ws BM lo Ss)) = rows_of BM Ss"
  by (induction Ss arbitrary: lo) (simp_all add: length_sorted_chunk)

lemma remap_chunks_eq:
  assumes sp: "stable_sort_spec sort_idx"
    and "lo + rows_of BM Ss \<le> nat n" and "length reordered = nat n"
  shows "remap_chunks sort_idx ws BM (py_range n) lo Ss reordered =
           take lo reordered @ concat (sorted_chunks sort_idx ws BM lo Ss) @ drop (lo + rows_of BM Ss) reordered"
  using assms(2,3)
proof (induction Ss arbitrary: lo reordered)
  case Nil
  then show ?case by simp
next
  case (Cons S Ss)
  define hi where "hi = lo + nat (S * BM)"
  have sl: "slice lo hi (py_range n) = map int [lo..<hi]"
    using Cons.prems by (intro slice_py_range) (auto simp: hi_def)
  let ?c = "sorted_chunk sort_idx ws lo hi"
  have c: "map ((!) (slice lo hi (py_range n))) (sort_idx (map (\<lambda>r. r mod ws) (slice lo hi (py_range n)))) = ?c"
    by (simp add: sl sorted_chunk_def Let_def)
  have lc: "length ?c = hi - lo" using sp by (rule length_sorted_chunk)
  have step: "remap_chunks sort_idx ws BM (py_range n) lo (S # Ss) reordered
      = remap_chunks sort_idx ws BM (py_range n) hi Ss (overwrite lo ?c reordered)"
    by (simp add: Let_def hi_def [symmetric] c)
  have "hi \<le> nat n" "lo \<le> hi" using Cons.prems by (auto simp: hi_def)
  then have "length (overwrite lo ?c reordered) = nat n"
    using Cons.prems lc by (simp add: overwrite_def)
  then have "remap_chunks sort_idx ws BM (py_range n) lo (S # Ss) reordered =
      take hi (overwrite lo ?c reordered) @ concat (sorted_chunks sort_idx ws BM hi Ss)
        @ drop (hi + rows_of BM Ss) (overwrite lo ?c reordered)"
    unfolding step using Cons.IH [of hi "overwrite lo ?c reordered"] Cons.prems by (simp add: hi_def)
  moreover have "take hi (overwrite lo ?c reordered) = take lo reordered @ ?c"
    using lc \<open>lo \<le> hi\<close> \<open>hi \<le> nat n\<close> Cons.prems by (simp add: overwrite_def)
  moreover have "drop (hi + rows_of BM Ss) (overwrite lo ?c reordered) = drop (hi + rows_of BM Ss) reordered"
    using lc \<open>lo \<le> hi\<close> \<open>hi \<le> nat n\<close> Cons.prems by (simp add: overwrite_def add.commute)
  ultimately show ?case by (simp add: hi_def add.assoc)
qed

lemma sorted_chunks_nth:
  assumes "stable_sort_spec sort_idx" and "k < length Ss" and "\<And>S. S \<in> set Ss \<Longrightarrow> 0 \<le> S" and "0 \<le> BM"
  shows "row_chunk ws (int lo + row_start BM Ss k) (int lo + row_start BM Ss (Suc k))
           (sorted_chunks sort_idx ws BM lo Ss ! k)"
  using assms(2,3)
proof (induction Ss arbitrary: lo k)
  case (Cons S Ss)
  have S: "int (nat (S * BM)) = BM * S" using Cons.prems assms(4) by (simp add: mult.commute)
  show ?case
  proof (cases k)
    case 0
    then show ?thesis
      using sorted_chunk_row_chunk [OF assms(1), of ws lo "lo + nat (S * BM)"] S
      by (simp add: row_start_def)
  next
    case (Suc k')
    then show ?thesis
      using Cons.IH [of k' "lo + nat (S * BM)"] Cons.prems S
      by (simp add: row_start_def algebra_simps)
  qed
qed simp

lemma length_sorted_chunks_list [simp]: "length (sorted_chunks sort_idx ws BM lo Ss) = length Ss"
  by (induction Ss arbitrary: lo) auto

lemma concat_chunks_range:
  assumes sp: "stable_sort_spec sort_idx"
  shows "distinct (concat (sorted_chunks sort_idx ws BM lo Ss)) \<and>
         set (concat (sorted_chunks sort_idx ws BM lo Ss)) = {int lo..<int (lo + rows_of BM Ss)}"
proof (induction Ss arbitrary: lo)
  case (Cons S Ss)
  have "row_chunk ws (int lo) (int (lo + nat (S * BM))) (sorted_chunk sort_idx ws lo (lo + nat (S * BM)))"
    using sp by (rule sorted_chunk_row_chunk)
  then show ?case
    using Cons.IH [of "lo + nat (S * BM)"] by (auto simp: row_chunk_def)
qed simp

section \<open>The remap is a permutation grouped by owner\<close>

lemma generate_row_remap_array_correct:
  assumes sp: "stable_sort_spec sort_idx"
    and pos: "0 < BM" "0 < BN" "0 \<le> M" "0 \<le> N" and dv: "BM dvd M" "BN dvd N"
    and S: "\<And>S. S \<in> set S_list \<Longrightarrow> 0 \<le> S" "sum_list S_list = (M div BM) * (N div BN)"
  shows "\<exists>remap chunks.
           generate_row_remap_array sort_idx uninit M N BM BN S_list world_size = Inr remap
           \<and> length chunks = length S_list
           \<and> order_map (M * (N div BN)) (concat chunks) remap
           \<and> (\<forall>k < length S_list. row_chunk world_size (row_start BM S_list k)
                                    (row_start BM S_list (Suc k)) (chunks ! k))"
proof -
  obtain a b where ab: "M = BM * a" "N = BN * b" using dv by (auto elim!: dvdE)
  have nn: "0 \<le> a" "0 \<le> b" using pos ab by (simp_all add: zero_le_mult_iff)
  define R where "R = BM * a * b"
  have rows: "(M * N) div BN = R" using pos by (simp add: ab R_def ac_simps)
  have total: "(M * N) div (BM * BN) = a * b"
  proof -
    have "M * N = (BM * BN) * (a * b)" by (simp add: ab ac_simps)
    then show ?thesis using pos by simp
  qed
  have sum: "sum_list S_list = a * b" using S(2) pos by (simp add: ab)
  define chunks where "chunks = sorted_chunks sort_idx world_size BM 0 S_list"
  have ro: "int (rows_of BM S_list) = R"
    using rows_of_eq [OF S(1)] pos sum by (simp add: R_def ac_simps)
  have "remap_chunks sort_idx world_size BM (py_range R) 0 S_list (map uninit [0..<nat R]) = concat chunks"
    using remap_chunks_eq [OF sp, where lo = 0 and BM = BM and Ss = S_list and n = R
        and reordered = "map uninit [0..<nat R]" and ws = world_size] ro
    by (simp add: chunks_def)
  moreover have c: "distinct (concat chunks)" "set (concat chunks) = {0..<R}"
    using concat_chunks_range [OF sp, of world_size BM 0 S_list] ro by (auto simp: chunks_def)
  moreover have "place_hint 0 (concat chunks) (map uninit [0..<nat R])
      = Inr (assign_positions 0 (concat chunks) (map uninit [0..<nat R]))"
    using c(2) by (intro place_hint_in_range) auto
  moreover have "order_map R (concat chunks) (assign_positions 0 (concat chunks) (map uninit [0..<nat R]))"
    using c by (intro assign_positions_order_map) auto
  moreover have "M * (N div BN) = R" using pos by (simp add: ab R_def)
  moreover have "\<forall>k < length S_list. row_chunk world_size (row_start BM S_list k)
                                    (row_start BM S_list (Suc k)) (chunks ! k)"
    using sorted_chunks_nth [OF sp _ S(1), where BM = BM and ws = world_size and lo = 0] pos
    by (simp add: chunks_def)
  ultimately show ?thesis
    using pos total rows sum
    by (intro exI [of _ "assign_positions 0 (concat chunks) (map uninit [0..<nat R])"] exI [of _ chunks])
      (simp add: generate_row_remap_array_def Let_def chunks_def)
qed

section \<open>Properties\<close>

text \<open>C31: for sizes that divide evenly and segments that add up to the tile count, the row map of a
  reduce-scatter is the inverse of a permutation of all rows in which the rows of every segment stay
  in the segment's block and are grouped by owning rank, row modulo world size, in increasing order
  within a rank.\<close>

theorem row_remap_groups_by_owner:
  assumes "stable_sort_spec sort_idx"
    and "0 < BM" "0 < BN" "0 \<le> M" "0 \<le> N" "BM dvd M" "BN dvd N"
    and "\<forall>S \<in> set S_list. 0 \<le> S" "sum_list S_list = (M div BM) * (N div BN)"
  shows "\<exists>remap chunks.
           generate_row_remap_array sort_idx uninit M N BM BN S_list world_size = Inr remap
           \<and> length chunks = length S_list
           \<and> order_map (M * (N div BN)) (concat chunks) remap
           \<and> (\<forall>k < length S_list. row_chunk world_size (row_start BM S_list k)
                                    (row_start BM S_list (Suc k)) (chunks ! k))"
  using assms by (intro generate_row_remap_array_correct) auto

text \<open>A stable sort of positions by value, for evaluation.\<close>

definition sort_positions :: "int list \<Rightarrow> nat list" where
  "sort_positions xs = sort_key (\<lambda>i. xs ! i) [0..<length xs]"

lemma sort_positions_stable: "stable_sort_spec sort_positions"
proof -
  have "sorted_wrt (\<lambda>i j. xs ! i < xs ! j \<or> (xs ! i = xs ! j \<and> i < j)) (sort_positions xs)" for xs
  proof -
    have s: "sorted (map (\<lambda>i. xs ! i) (sort_positions xs))" by (simp add: sort_positions_def)
    have st: "filter (\<lambda>i. xs ! i = v) (sort_positions xs) = filter (\<lambda>i. xs ! i = v) [0..<length xs]" for v
      unfolding sort_positions_def by (rule sort_key_stable)
    show ?thesis
      unfolding sorted_wrt_iff_nth_less
    proof (intro allI impI)
      fix a b assume ab: "a < b" "b < length (sort_positions xs)"
      let ?i = "sort_positions xs ! a" and ?j = "sort_positions xs ! b"
      have le: "xs ! ?i \<le> xs ! ?j" using s ab by (auto simp: sorted_iff_nth_mono dest!: spec)
      moreover have "?i < ?j" if "xs ! ?i = xs ! ?j"
      proof -
        let ?P = "\<lambda>i. xs ! i = xs ! ?j"
        have "sort_positions xs = take a (sort_positions xs) @ ?i # drop (Suc a) (sort_positions xs)"
          using ab by (simp add: id_take_nth_drop)
        then have "filter ?P (sort_positions xs)
          = filter ?P (take a (sort_positions xs)) @ ?i # filter ?P (drop (Suc a) (sort_positions xs))"
          using that by (metis (mono_tags, lifting) filter.simps(2) filter_append)
        moreover have "sorted_wrt (<) (filter ?P (sort_positions xs))"
          unfolding st by (rule sorted_wrt_filter) simp
        ultimately have "\<forall>y \<in> set (filter ?P (drop (Suc a) (sort_positions xs))). ?i < y"
          by (simp add: sorted_wrt_append)
        moreover have "?j \<in> set (drop (Suc a) (sort_positions xs))"
        proof -
          have "drop (Suc a) (sort_positions xs) ! (b - Suc a) = ?j" and "b - Suc a < length (drop (Suc a) (sort_positions xs))"
            using ab by auto
          then show ?thesis by (metis nth_mem)
        qed
        ultimately show ?thesis by simp
      qed
      ultimately show "xs ! ?i < xs ! ?j \<or> (xs ! ?i = xs ! ?j \<and> ?i < ?j)" by linarith
    qed
  qed
  then show ?thesis by (simp add: stable_sort_spec_def sort_positions_def)
qed

theorem row_remap_groups_by_owner_witness:
  "\<exists>remap chunks.
     generate_row_remap_array sort_positions (\<lambda>_. 0) 4 2 2 1 [1, 3] 2 = Inr remap
     \<and> length chunks = length [1, 3 :: int]
     \<and> order_map (4 * (2 div 1)) (concat chunks) remap
     \<and> (\<forall>k < length [1, 3 :: int]. row_chunk 2 (row_start 2 [1, 3] k) (row_start 2 [1, 3] (Suc k)) (chunks ! k))"
  by (rule row_remap_groups_by_owner [OF sort_positions_stable]) simp_all

end
