(* ===== verification/Hint.thy ===== *)
theory Hint
  imports Segments RowRemap
begin

text \<open>
  The hint search of \<open>tool/search.py\<close>: \<open>collect_monitor_samples\<close> runs the monitored overlap
  call and reads back in which order the tiles finished, \<open>compute_stable_hint_from_rounds\<close> keeps
  the tiles that finished in the same window every time, and the body of
  \<open>compute_hint_process\<close> strings the warm-up, one or two rounds of samples and the hint together.
  The overlap call itself is CUDA code: a launch is a parameter that maps its number and the
  monitor matrix to the matrix afterwards. A sample is a row of order entries, indexed by tile.
\<close>

section \<open>Launches\<close>

record launch_ops =
  gemm_allreduce_overlap :: "nat \<Rightarrow> int list \<Rightarrow> int list res"
  gemm_reducescatter_overlap :: "nat \<Rightarrow> int list \<Rightarrow> int list res"

definition launch :: "launch_ops \<Rightarrow> string \<Rightarrow> nat \<Rightarrow> int list \<Rightarrow> int list res" where
  "launch ops comm_op i MM =
     (if comm_op = ''all_reduce'' then gemm_allreduce_overlap ops i MM
      else if comm_op = ''reduce_scatter'' then gemm_reducescatter_overlap ops i MM
      else Inl (ValueError ''Unknown comm_op''))"

text \<open>The kernels write the monitor matrix in place: its length never changes.\<close>

definition keeps_length :: "launch_ops \<Rightarrow> bool" where
  "keeps_length ops \<longleftrightarrow>
     (\<forall>i MM MM'. gemm_allreduce_overlap ops i MM = Inr MM' \<longrightarrow> length MM' = length MM) \<and>
     (\<forall>i MM MM'. gemm_reducescatter_overlap ops i MM = Inr MM' \<longrightarrow> length MM' = length MM)"

lemma launch_length:
  "keeps_length ops \<Longrightarrow> launch ops comm_op i MM = Inr MM' \<Longrightarrow> length MM' = length MM"
  by (auto simp: keeps_length_def launch_def split: if_splits)

section \<open>Collecting samples\<close>

fun collect_from ::
  "launch_ops \<Rightarrow> string \<Rightarrow> nat \<Rightarrow> nat \<Rightarrow> nat \<Rightarrow> nat \<Rightarrow> int list \<Rightarrow> (int list list \<times> int list) res" where
  "collect_from ops comm_op tile_num seg_size i 0 MM = Inr ([], MM)"
| "collect_from ops comm_op tile_num seg_size i (Suc k) MM =
     bind_res (launch ops comm_op i (reset_monitor_matrix MM tile_num seg_size True)) (\<lambda>MM1.
     let order = monitor_order_view MM1 tile_num seg_size;
         missing = length (filter (\<lambda>x. x < 0) order)
     in bind_res (require (missing = 0) (RuntimeError ''monitor_order missing'')) (\<lambda>_.
        bind_res (collect_from ops comm_op tile_num seg_size (Suc i) k MM1) (\<lambda>(samples, MM2).
        Inr (order # samples, MM2))))"

definition collect_monitor_samples ::
  "launch_ops \<Rightarrow> string \<Rightarrow> nat \<Rightarrow> nat \<Rightarrow> nat \<Rightarrow> nat \<Rightarrow> int list \<Rightarrow> (int list list \<times> int list) res" where
  "collect_monitor_samples ops comm_op tile_num seg_size first_launch sample_count MM =
     collect_from ops comm_op tile_num seg_size first_launch sample_count MM"

lemma collect_from_sound:
  assumes ops: "keeps_length ops"
    and "length MM = monitor_size tile_num seg_size True"
    and "collect_from ops comm_op tile_num seg_size i k MM = Inr (samples, MM')"
  shows "length samples = k \<and> length MM' = length MM
         \<and> (\<forall>row \<in> set samples. length row = tile_num \<and> (\<forall>x \<in> set row. 0 \<le> x))"
  using assms(2,3)
proof (induction k arbitrary: i MM samples)
  case (Suc k)
  let ?R = "reset_monitor_matrix MM tile_num seg_size True"
  obtain MM1 rest where l: "launch ops comm_op i ?R = Inr MM1"
    and nn: "filter (\<lambda>x. x < 0) (monitor_order_view MM1 tile_num seg_size) = []"
    and c: "collect_from ops comm_op tile_num seg_size (Suc i) k MM1 = Inr (rest, MM')"
    and s: "samples = monitor_order_view MM1 tile_num seg_size # rest"
    using Suc.prems(2) by (auto simp: Let_def res_simps)
  have len: "length MM1 = monitor_size tile_num seg_size True"
    using launch_length [OF ops l] Suc.prems(1) by simp
  have "\<forall>x \<in> set (monitor_order_view MM1 tile_num seg_size). 0 \<le> x"
    using nn by (auto simp: filter_empty_conv not_less)
  then show ?case
    using Suc.IH [OF len c] len Suc.prems(1) by (simp add: s length_monitor_order_view)
qed simp

section \<open>The stable tiles of a window\<close>

definition count_in_window :: "int list list \<Rightarrow> int \<Rightarrow> int \<Rightarrow> nat \<Rightarrow> nat" where
  "count_in_window samples lo hi tile = length (filter (\<lambda>row. lo \<le> row ! tile \<and> row ! tile < hi) samples)"

definition stable_tiles :: "int list list list \<Rightarrow> int \<Rightarrow> int \<Rightarrow> int \<Rightarrow> int list" where
  "stable_tiles sample_rounds tile_num lo hi =
     filter (\<lambda>tile. \<forall>samples \<in> set sample_rounds. count_in_window samples lo hi (nat tile) = length samples)
       (py_range tile_num)"

text \<open>One pass of the window loop per element: stable tiles, effective group, full window seen.\<close>

fun window_loop ::
  "int list list list \<Rightarrow> int \<Rightarrow> int \<Rightarrow> int \<Rightarrow> int \<Rightarrow> int list \<Rightarrow> int list list \<times> int \<times> bool \<Rightarrow>
   (int list list \<times> int \<times> bool) res" where
  "window_loop rounds tile_num wSize compute_sms nominal [] st = Inr st"
| "window_loop rounds tile_num wSize compute_sms nominal (w # ws)
     (stable_per_window, effective_group, full_window_seen) =
     (let lo = w * wSize; hi = min ((w + 1) * wSize) tile_num; expected = hi - lo;
          tiles = stable_tiles rounds tile_num lo hi; stable_count = int (length tiles)
      in bind_res (py_div stable_count compute_sms) (\<lambda>q.
         let window_effective_group = min q nominal in
         window_loop rounds tile_num wSize compute_sms nominal ws
           (stable_per_window @ [tiles],
            if expected = wSize then min effective_group window_effective_group else effective_group,
            full_window_seen \<or> expected = wSize)))"

text \<open>The last loop appends every stable tile once.\<close>

fun collect_hint :: "bool list \<Rightarrow> int list \<Rightarrow> int list \<Rightarrow> int list" where
  "collect_hint used hint [] = hint"
| "collect_hint used hint (tile # tiles) =
     (if \<not> used ! nat tile then collect_hint (used[nat tile := True]) (hint @ [tile]) tiles
      else collect_hint used hint tiles)"

definition compute_stable_hint_from_rounds ::
  "int list list list \<Rightarrow> int \<Rightarrow> int \<Rightarrow> int \<Rightarrow> int \<Rightarrow> int \<Rightarrow> (bool \<times> int list \<times> int) res" where
  "compute_stable_hint_from_rounds sample_rounds tile_num wSize compute_sms
       nominal_min_group_size min_effective_group_size =
     bind_res (require (sample_rounds \<noteq> []) (RuntimeError ''sample_rounds is empty'')) (\<lambda>_.
     bind_res (div_up tile_num wSize) (\<lambda>wave_num.
     bind_res (window_loop sample_rounds tile_num wSize compute_sms nominal_min_group_size
                 (py_range wave_num) ([], nominal_min_group_size, False))
       (\<lambda>(stable_per_window, group, full_window_seen).
     bind_res (if full_window_seen then Inr group
               else bind_res (div_up tile_num compute_sms) (\<lambda>d. Inr (min nominal_min_group_size d)))
       (\<lambda>effective_group.
     if effective_group < min_effective_group_size then Inr (False, [], effective_group)
     else Inr (True,
               collect_hint (replicate (nat tile_num) False) [] (concat stable_per_window),
               effective_group)))))"

section \<open>The body of a hint worker\<close>

datatype backend_init = NcclInit | OoverlapIpcInit

definition init_overlap_backend :: "string \<Rightarrow> backend_init res" where
  "init_overlap_backend comm_backend =
     (if comm_backend = ''nccl'' then Inr NcclInit
      else if comm_backend = ''ooverlap'' then Inr OoverlapIpcInit
      else Inl (ValueError ''Unknown comm_backend''))"

text \<open>What the driver and torch give a worker: the launches, the sort, the contents of fresh memory and
  the number of ranks.\<close>

record worker_env = launch_ops +
  we_sort :: "int list \<Rightarrow> nat list"
  we_uninit :: "nat \<Rightarrow> int"
  we_world :: int

text \<open>\<open>generate_row_remap_array\<close> is only called for a reduce-scatter.\<close>

definition row_array ::
  "(int list \<Rightarrow> nat list) \<Rightarrow> (nat \<Rightarrow> int) \<Rightarrow> int \<Rightarrow> string \<Rightarrow> int \<Rightarrow> int \<Rightarrow> int \<Rightarrow> int \<Rightarrow> int list \<Rightarrow> int list option res" where
  "row_array sort_idx uninit ws comm_op M N BM BN cSeg =
     (if comm_op = ''reduce_scatter''
      then bind_res (generate_row_remap_array sort_idx uninit M N BM BN cSeg ws) (\<lambda>r. Inr (Some r))
      else Inr None)"

fun warm_up :: "launch_ops \<Rightarrow> string \<Rightarrow> nat \<Rightarrow> nat \<Rightarrow> nat \<Rightarrow> nat \<Rightarrow> int list \<Rightarrow> int list res" where
  "warm_up ops comm_op tile_num seg_size i 0 MM = Inr MM"
| "warm_up ops comm_op tile_num seg_size i (Suc k) MM =
     bind_res (launch ops comm_op i (reset_monitor_matrix MM tile_num seg_size True))
       (warm_up ops comm_op tile_num seg_size (Suc i) k)"

text \<open>The \<open>try\<close> body of \<open>compute_hint_process\<close> and the set-up before it; the launches of the two kernels
  carry the buffers and the row array, which stay the same throughout.\<close>

definition hint_worker_body ::
  "worker_env \<Rightarrow> string \<Rightarrow> string \<Rightarrow> int \<Rightarrow> int \<Rightarrow> int \<Rightarrow> int \<Rightarrow> int \<Rightarrow> int \<Rightarrow> int \<Rightarrow> int \<Rightarrow> bool \<Rightarrow>
   (bool \<times> int list \<times> int) res" where
  "hint_worker_body env comm_backend comm_op M N BM BN wSize compute_sms nominal min_effective confirm =
     bind_res (tile_count M N BM BN) (\<lambda>tile_num.
     bind_res (hint_windows tile_num wSize) (\<lambda>cSeg.
     bind_res (init_overlap_backend comm_backend) (\<lambda>_.
     bind_res (row_array (we_sort env) (we_uninit env) (we_world env) comm_op M N BM BN cSeg) (\<lambda>_.
     let ops = launch_ops.truncate env;
         t = nat tile_num; s = length cSeg; warmup = 100; sample_count = 10;
         MM = replicate (monitor_size t s True) 0
     in bind_res (warm_up ops comm_op t s 0 warmup MM) (\<lambda>MM1.
        bind_res (collect_monitor_samples ops comm_op t s warmup sample_count MM1) (\<lambda>(first, MM2).
        bind_res (if confirm
                  then bind_res (collect_monitor_samples ops comm_op t s (warmup + sample_count) sample_count MM2)
                         (\<lambda>(second, MM3). Inr [first, second])
                  else Inr [first]) (\<lambda>sample_rounds.
        compute_stable_hint_from_rounds sample_rounds tile_num wSize compute_sms nominal min_effective)))))))"

section \<open>Lemmas\<close>

definition in_window :: "int list list list \<Rightarrow> int \<Rightarrow> int \<Rightarrow> int \<Rightarrow> int \<Rightarrow> bool" where
  "in_window rounds tile_num wSize w t \<longleftrightarrow>
     (\<forall>samples \<in> set rounds. \<forall>row \<in> set samples.
        w * wSize \<le> row ! nat t \<and> row ! nat t < min ((w + 1) * wSize) tile_num)"

lemma count_in_window_full:
  "count_in_window samples lo hi tile = length samples \<longleftrightarrow>
     (\<forall>row \<in> set samples. lo \<le> row ! tile \<and> row ! tile < hi)"
  unfolding count_in_window_def
  by (metis (no_types, lifting) filter_id_conv length_filter_less order_less_irrefl)

lemma set_stable_tiles:
  "set (stable_tiles rounds tile_num (w * wSize) (min ((w + 1) * wSize) tile_num)) =
     {t. 0 \<le> t \<and> t < tile_num \<and> in_window rounds tile_num wSize w t}"
  by (auto simp: stable_tiles_def count_in_window_full in_window_def)

lemma distinct_stable_tiles [simp]: "distinct (stable_tiles rounds tile_num lo hi)"
  by (simp add: stable_tiles_def)

definition window_tiles :: "int list list list \<Rightarrow> int \<Rightarrow> int \<Rightarrow> int \<Rightarrow> int list" where
  "window_tiles rounds tile_num wSize w =
     stable_tiles rounds tile_num (w * wSize) (min ((w + 1) * wSize) tile_num)"

definition full_window :: "int \<Rightarrow> int \<Rightarrow> int \<Rightarrow> bool" where
  "full_window tile_num wSize w \<longleftrightarrow> min ((w + 1) * wSize) tile_num - w * wSize = wSize"

lemma full_window_iff: "full_window tile_num wSize w \<longleftrightarrow> (w + 1) * wSize \<le> tile_num"
  by (auto simp: full_window_def algebra_simps min_def)

lemma window_loop_facts:
  assumes "window_loop rounds t wSize sms nominal ws (spw, eff, seen) = Inr (spw', eff', seen')"
  shows "spw' = spw @ map (window_tiles rounds t wSize) ws
       \<and> eff' \<le> eff \<and> (seen' \<longleftrightarrow> seen \<or> (\<exists>w \<in> set ws. full_window t wSize w))
       \<and> (\<forall>w \<in> set ws. full_window t wSize w \<longrightarrow>
             eff' \<le> int (length (window_tiles rounds t wSize w)) div sms)"
  using assms
proof (induction ws arbitrary: spw eff seen)
  case (Cons w ws)
  let ?q = "int (length (window_tiles rounds t wSize w)) div sms"
  let ?e = "if full_window t wSize w then min eff (min ?q nominal) else eff"
  have "window_loop rounds t wSize sms nominal ws
          (spw @ [window_tiles rounds t wSize w], ?e, seen \<or> full_window t wSize w) = Inr (spw', eff', seen')"
    using Cons.prems by (simp add: Let_def res_simps window_tiles_def full_window_def split: if_splits)
  from Cons.IH [OF this] show ?case by (auto split: if_splits)
qed simp

lemma collect_hint_firsts:
  "(\<And>x. x \<in> set tiles \<Longrightarrow> 0 \<le> x \<and> x < n) \<Longrightarrow>
   collect_hint (used_flags n hint) hint tiles = firsts hint tiles"
  by (induction tiles arbitrary: hint) (simp_all add: used_flags_nth used_flags_update)

text \<open>What a successful call computed, in terms of the windows.\<close>

lemma stable_hint_unfold:
  assumes "compute_stable_hint_from_rounds rounds n wSize sms nominal min_eff = Inr (True, hint, eff)"
  shows "rounds \<noteq> []" and "wSize \<noteq> 0"
    and "hint = firsts [] (concat (map (window_tiles rounds n wSize) (py_range (ceil_div n wSize))))"
    and "min_eff \<le> eff" and "eff \<le> nominal"
    and "\<And>w. w \<in> set (py_range (ceil_div n wSize)) \<Longrightarrow> full_window n wSize w \<Longrightarrow>
           eff \<le> int (length (window_tiles rounds n wSize w)) div sms"
proof -
  have ne: "rounds \<noteq> []" "wSize \<noteq> 0"
    using assms by (auto simp: compute_stable_hint_from_rounds_def res_simps)
  obtain st where
    w: "window_loop rounds n wSize sms nominal (py_range (ceil_div n wSize)) ([], nominal, False) = Inr st"
    using assms by (auto simp: compute_stable_hint_from_rounds_def res_simps)
  obtain spw g seen where st: "st = (spw, g, seen)" by (cases st)
  have *: "min_eff \<le> eff \<and> eff = (if seen then g else min nominal (ceil_div n sms)) \<and>
        hint = collect_hint (replicate (nat n) False) [] (concat spw)"
    using assms ne w by (cases "sms = 0")
      (auto simp: compute_stable_hint_from_rounds_def st not_less split: if_splits)
  then have me: "min_eff \<le> eff" and e: "eff = (if seen then g else min nominal (ceil_div n sms))"
    and h: "hint = collect_hint (replicate (nat n) False) [] (concat spw)" by auto
  show "rounds \<noteq> []" "wSize \<noteq> 0" "min_eff \<le> eff" using ne me by simp_all
  note f = window_loop_facts [OF w [unfolded st]]
  have "0 \<le> x \<and> x < n" if "x \<in> set (concat spw)" for x
    using that f by (auto simp: window_tiles_def stable_tiles_def)
  then show "hint = firsts [] (concat (map (window_tiles rounds n wSize) (py_range (ceil_div n wSize))))"
    using collect_hint_firsts [of "concat spw" n "[]"] f by (simp add: h used_flags_Nil)
  show "eff \<le> nominal" using f by (auto simp: e)
  show "eff \<le> int (length (window_tiles rounds n wSize w)) div sms"
    if "w \<in> set (py_range (ceil_div n wSize))" "full_window n wSize w" for w
    using that f by (auto simp: e)
qed

lemma sorted_labels_concat:
  assumes "sorted ws" and "\<And>w t. w \<in> set ws \<Longrightarrow> t \<in> set (f w) \<Longrightarrow> g t = w"
  shows "sorted (map g (concat (map f ws)))"
  using assms
proof (induction ws)
  case (Cons w ws)
  have "map g (f w) = replicate (length (f w)) w"
    using Cons.prems(2) by (intro replicate_eqI) auto
  then show ?case using Cons by (auto simp: sorted_append)
qed simp

lemma distinct_labels_concat:
  assumes "distinct ws" and "\<And>w. w \<in> set ws \<Longrightarrow> distinct (f w)"
    and "\<And>w t. w \<in> set ws \<Longrightarrow> t \<in> set (f w) \<Longrightarrow> g t = w"
  shows "distinct (concat (map f ws))"
  using assms
proof (induction ws)
  case (Cons w ws)
  have "t \<notin> set (concat (map f ws))" if "t \<in> set (f w)" for t
    using that Cons.prems(1) Cons.prems(3) [of w t] Cons.prems(3) [of _ t] by auto
  then show ?case using Cons by auto
qed simp

lemma window_label:
  assumes "0 < wSize" and "samples \<in> set rounds" and "row \<in> set samples"
    and "t \<in> set (window_tiles rounds n wSize w)"
  shows "row ! nat t div wSize = w"
proof -
  have "w * wSize \<le> row ! nat t" "row ! nat t < (w + 1) * wSize"
    using assms by (auto simp: window_tiles_def set_stable_tiles in_window_def)
  then show ?thesis
    by (intro int_div_pos_eq [where r = "row ! nat t - w * wSize"]) (auto simp: algebra_simps)
qed

lemma stable_hint_members:
  assumes "compute_stable_hint_from_rounds rounds n wSize sms nominal min_eff = Inr (True, hint, eff)"
  shows "t \<in> set hint \<longleftrightarrow>
    0 \<le> t \<and> t < n \<and> (\<exists>w. 0 \<le> w \<and> w < ceil_div n wSize \<and> in_window rounds n wSize w t)"
  unfolding stable_hint_unfold(3) [OF assms]
  by (auto simp: window_tiles_def set_stable_tiles)

lemma stable_hint_order:
  assumes h: "compute_stable_hint_from_rounds rounds n wSize sms nominal min_eff = Inr (True, hint, eff)"
    and w: "0 < wSize" and r: "samples \<in> set rounds" "row \<in> set samples"
  shows "sorted (map (\<lambda>t. row ! nat t div wSize) hint)"
proof -
  let ?ws = "py_range (ceil_div n wSize)"
  have "distinct (concat (map (window_tiles rounds n wSize) ?ws))"
    by (rule distinct_labels_concat [where g = "\<lambda>t. row ! nat t div wSize"])
      (auto simp: window_label [OF w r] window_tiles_def)
  then have "hint = concat (map (window_tiles rounds n wSize) ?ws)"
    unfolding stable_hint_unfold(3) [OF h] by (rule firsts_distinct_id)
  then show ?thesis
    using sorted_labels_concat [of ?ws "window_tiles rounds n wSize" "\<lambda>t. row ! nat t div wSize"]
      window_label [OF w r] by simp
qed

lemma stable_hint_distinct:
  assumes "compute_stable_hint_from_rounds rounds n wSize sms nominal min_eff = Inr (True, hint, eff)"
  shows "distinct hint"
  unfolding stable_hint_unfold(3) [OF assms] by simp

lemma stable_hint_sound:
  assumes "compute_stable_hint_from_rounds rounds n wSize sms nominal min_eff = Inr (True, hint, eff)"
    and "0 \<le> n"
  shows "hint_sound (n, hint)"
  using stable_hint_members [OF assms(1)] stable_hint_distinct [OF assms(1)] assms(2)
  by (simp add: hint_sound_def hint_in_range_def)

section \<open>Machines that finish their tiles in the same order\<close>

text \<open>A launch that leaves the same complete order in the monitor matrix every time.\<close>

definition steady :: "launch_ops \<Rightarrow> string \<Rightarrow> nat \<Rightarrow> nat \<Rightarrow> int list \<Rightarrow> bool" where
  "steady ops comm_op n s order \<longleftrightarrow>
     length order = n \<and> distinct order \<and> set order = {0..<int n} \<and>
     (\<forall>i MM. length MM = monitor_size n s True \<longrightarrow>
        (\<exists>MM'. launch ops comm_op i MM = Inr MM' \<and> length MM' = length MM \<and>
               monitor_order_view MM' n s = order))"

lemma steady_launch:
  assumes "steady ops comm_op n s order" and "length MM = monitor_size n s True"
  obtains MM' where "launch ops comm_op i MM = Inr MM'" and "length MM' = monitor_size n s True"
    and "monitor_order_view MM' n s = order"
  using assms by (fastforce simp: steady_def)

lemma steady_warm_up:
  assumes st: "steady ops comm_op n s order"
  shows "length MM = monitor_size n s True \<Longrightarrow>
    \<exists>MM'. warm_up ops comm_op n s i k MM = Inr MM' \<and> length MM' = monitor_size n s True"
proof (induction k arbitrary: i MM)
  case (Suc k)
  obtain MM1 where l: "launch ops comm_op i (reset_monitor_matrix MM n s True) = Inr MM1"
    and len: "length MM1 = monitor_size n s True"
    by (rule steady_launch [OF st, of "reset_monitor_matrix MM n s True" i]) (use Suc.prems in auto)
  then show ?case using Suc.IH [OF len] by simp
qed simp

lemma steady_collect:
  assumes st: "steady ops comm_op n s order"
  shows "length MM = monitor_size n s True \<Longrightarrow>
    \<exists>MM'. collect_from ops comm_op n s i k MM = Inr (replicate k order, MM') \<and> length MM' = monitor_size n s True"
proof (induction k arbitrary: i MM)
  case (Suc k)
  obtain MM1 where l: "launch ops comm_op i (reset_monitor_matrix MM n s True) = Inr MM1"
    and len: "length MM1 = monitor_size n s True" and o: "monitor_order_view MM1 n s = order"
    by (rule steady_launch [OF st, of "reset_monitor_matrix MM n s True" i]) (use Suc.prems in auto)
  obtain MM2 where "collect_from ops comm_op n s (Suc i) k MM1 = Inr (replicate k order, MM2)"
    and "length MM2 = monitor_size n s True" using Suc.IH [OF len] by blast
  moreover have "filter (\<lambda>x. x < 0) order = []" using st by (auto simp: steady_def filter_empty_conv)
  ultimately show ?case using l o by simp
qed simp

lemma steady_worker:
  assumes t: "tile_count M N BM BN = Inr (int n)" and w: "hint_windows (int n) wSize = Inr cSeg"
    and b: "init_overlap_backend comm_backend = Inr i"
    and ra: "row_array (we_sort env) (we_uninit env) (we_world env) comm_op M N BM BN cSeg = Inr ro"
    and st: "steady (launch_ops.truncate env) comm_op n (length cSeg) order"
  shows "hint_worker_body env comm_backend comm_op M N BM BN wSize sms nominal me confirm =
    compute_stable_hint_from_rounds (replicate (if confirm then 2 else 1) (replicate 10 order))
      (int n) wSize sms nominal me"
proof -
  let ?s = "length cSeg" and ?ops = "launch_ops.truncate env"
  obtain MM1 where 1: "warm_up ?ops comm_op n ?s 0 100 (replicate (monitor_size n ?s True) 0) = Inr MM1"
    and l1: "length MM1 = monitor_size n ?s True"
    using steady_warm_up [OF st, of "replicate (monitor_size n ?s True) 0" 0 100] by auto
  obtain MM2 where 2: "collect_from ?ops comm_op n ?s 100 10 MM1 = Inr (replicate 10 order, MM2)"
    and l2: "length MM2 = monitor_size n ?s True"
    using steady_collect [OF st l1, of 100 10] by blast
  obtain MM3 where 3: "collect_from ?ops comm_op n ?s 110 10 MM2 = Inr (replicate 10 order, MM3)"
    using steady_collect [OF st l2, of 110 10] by blast
  show ?thesis
    using 1 2 3 by (simp add: hint_worker_body_def t w b ra collect_monitor_samples_def Let_def numeral_2_eq_2)
qed

lemma steady_in_window:
  assumes "k \<noteq> 0" and "rounds = replicate r (replicate k order)" and "r \<noteq> 0"
  shows "in_window rounds n wSize w t \<longleftrightarrow>
           w * wSize \<le> order ! nat t \<and> order ! nat t < min ((w + 1) * wSize) n"
  using assms by (auto simp: in_window_def)

lemma count_positions:
  assumes "distinct order" and "set order = {0..<int n}" and "length order = n"
    and "0 \<le> lo" and "hi \<le> int n"
  shows "card {t. 0 \<le> t \<and> t < int n \<and> lo \<le> order ! nat t \<and> order ! nat t < hi} = nat (hi - lo)"
proof -
  let ?T = "{t. 0 \<le> t \<and> t < int n \<and> lo \<le> order ! nat t \<and> order ! nat t < hi}"
  have img: "(\<lambda>t. order ! nat t) ` ?T = {lo..<hi}"
  proof (intro equalityI subsetI)
    fix x assume x: "x \<in> {lo..<hi}"
    then have "x \<in> set order" using assms by auto
    then obtain i where "i < n" "order ! i = x" using assms(3) by (auto simp: in_set_conv_nth)
    then show "x \<in> (\<lambda>t. order ! nat t) ` ?T" using x by (intro image_eqI [of _ _ "int i"]) auto
  qed auto
  have "inj_on (\<lambda>t. order ! nat t) ?T"
    using assms(1,3) by (auto simp: inj_on_def nth_eq_iff_index_eq)
  from card_image [OF this] show ?thesis unfolding img by simp
qed

lemma steady_window_loop:
  assumes q: "\<And>w. w \<in> set ws \<Longrightarrow> full_window t wSize w \<Longrightarrow>
              int (length (window_tiles rounds t wSize w)) div sms = nominal"
    and sms: "sms \<noteq> 0"
  shows "window_loop rounds t wSize sms nominal ws (spw, nominal, seen) =
    Inr (spw @ map (window_tiles rounds t wSize) ws, nominal, seen \<or> (\<exists>w \<in> set ws. full_window t wSize w))"
  using q
proof (induction ws arbitrary: spw seen)
  case (Cons w ws)
  have tiles: "stable_tiles rounds t (w * wSize) (min ((w + 1) * wSize) t) = window_tiles rounds t wSize w"
    by (simp add: window_tiles_def)
  have IH: "window_loop rounds t wSize sms nominal ws (spw', nominal, seen') =
    Inr (spw' @ map (window_tiles rounds t wSize) ws, nominal, seen' \<or> (\<exists>w \<in> set ws. full_window t wSize w))"
    for spw' seen' by (rule Cons.IH) (use Cons.prems in auto)
  show ?case
  proof (cases "full_window t wSize w")
    case True
    then have "int (length (window_tiles rounds t wSize w)) div sms = nominal" using Cons.prems by simp
    then show ?thesis using sms True by (simp add: Let_def tiles IH full_window_def)
  next
    case False
    then show ?thesis using sms by (simp add: Let_def tiles IH full_window_def)
  qed
qed simp

text \<open>On such samples the hint search succeeds, with every tile in the hint.\<close>

lemma steady_hint:
  assumes o: "length order = n" "distinct order" "set order = {0..<int n}"
    and pos: "0 < n" "0 < sms" "0 < nominal" and k: "k \<noteq> 0" "r \<noteq> 0"
    and me: "me \<le> min nominal (ceil_div (int n) sms)"
  shows "\<exists>hint eff. compute_stable_hint_from_rounds (replicate r (replicate k order)) (int n)
            (nominal * sms) sms nominal me = Inr (True, hint, eff)
          \<and> set hint = {0..<int n} \<and> min nominal (ceil_div (int n) sms) \<le> eff"
proof -
  define rounds where "rounds = replicate r (replicate k order)"
  let ?w = "nominal * sms" and ?ws = "py_range (ceil_div (int n) (nominal * sms))"
  have w: "0 < ?w" using pos by simp
  have q: "int (length (window_tiles rounds (int n) ?w w)) div sms = nominal"
    if "w \<in> set ?ws" and "full_window (int n) ?w w" for w
  proof -
    have fw: "(w + 1) * ?w \<le> int n" using that(2) by (simp add: full_window_iff)
    have set: "set (window_tiles rounds (int n) ?w w)
        = {t. 0 \<le> t \<and> t < int n \<and> w * ?w \<le> order ! nat t \<and> order ! nat t < (w + 1) * ?w}"
      unfolding window_tiles_def set_stable_tiles
      using steady_in_window [OF k(1) rounds_def k(2)] fw by auto
    have "0 \<le> w * ?w" using that(1) w by auto
    then have "card (set (window_tiles rounds (int n) ?w w)) = nat ((w + 1) * ?w - w * ?w)"
      unfolding set using count_positions [OF o(2,3,1)] fw by simp
    moreover have "(w + 1) * ?w - w * ?w = ?w" by (simp add: algebra_simps)
    ultimately have "int (length (window_tiles rounds (int n) ?w w)) = ?w"
      using w distinct_card [of "window_tiles rounds (int n) ?w w"] by (simp add: window_tiles_def)
    then show ?thesis using pos by simp
  qed
  have "rounds \<noteq> []" using k by (simp add: rounds_def)
  moreover have "sms \<noteq> 0" and "?w \<noteq> 0" using pos by auto
  moreover have "window_loop rounds (int n) ?w sms nominal ?ws ([], nominal, False) =
      Inr ([] @ map (window_tiles rounds (int n) ?w) ?ws, nominal,
           False \<or> (\<exists>w \<in> set ?ws. full_window (int n) ?w w))"
    by (rule steady_window_loop) (use q \<open>sms \<noteq> 0\<close> in auto)
  ultimately obtain hint eff where h: "compute_stable_hint_from_rounds rounds (int n) ?w sms nominal me
      = Inr (True, hint, eff)" and e: "min nominal (ceil_div (int n) sms) \<le> eff"
    using me by (cases "\<exists>w \<in> set ?ws. full_window (int n) ?w w")
      (simp_all add: compute_stable_hint_from_rounds_def Let_def not_less)
  have "\<exists>w. 0 \<le> w \<and> w < ceil_div (int n) ?w \<and> in_window rounds (int n) ?w w t" if "0 \<le> t" "t < int n" for t
  proof -
    let ?x = "order ! nat t"
    have x: "?x \<in> {0..<int n}" using that o nth_mem [of "nat t" order] by (simp add: o(3) [symmetric])
    have "?x div ?w * ?w \<le> ?x" and "?x < (?x div ?w + 1) * ?w"
      using w div_mult_mod_eq [of ?x ?w] pos_mod_bound [of ?w ?x] pos_mod_sign [of ?w ?x]
      unfolding distrib_right by linarith+
    moreover have "?x div ?w < ceil_div (int n) ?w"
    proof -
      have "?x < ceil_div (int n) ?w * ?w" using ceil_div_upper [OF w, of "int n"] x by simp
      with \<open>?x div ?w * ?w \<le> ?x\<close> have "?x div ?w * ?w < ceil_div (int n) ?w * ?w" by linarith
      then show ?thesis using w by (rule mult_right_less_imp_less [OF _ less_imp_le])
    qed
    ultimately show ?thesis
      using steady_in_window [OF k(1) rounds_def k(2)] x w
      by (intro exI [of _ "?x div ?w"]) (auto simp: pos_imp_zdiv_nonneg_iff)
  qed
  then have "set hint = {0..<int n}" using stable_hint_members [OF h] by auto
  then show ?thesis using h e unfolding rounds_def by blast
qed

section \<open>Properties\<close>

text \<open>C3: a hint that is accepted is exact. It consists of the tiles that fell into one and the same
  window in every sample of every round, each once, ordered by window; and the effective group size is
  between the required and the nominal one and no larger than the full groups of SMs that the stable
  tiles of any full window can fill.\<close>

theorem stable_hint_exact:
  assumes "compute_stable_hint_from_rounds rounds n wSize sms nominal min_eff = Inr (True, hint, eff)"
    and "0 < wSize"
  shows "distinct hint
         \<and> set hint = {t. 0 \<le> t \<and> t < n \<and> (\<exists>w. 0 \<le> w \<and> w < ceil_div n wSize \<and> in_window rounds n wSize w t)}
         \<and> (\<forall>samples \<in> set rounds. \<forall>row \<in> set samples. sorted (map (\<lambda>t. row ! nat t div wSize) hint))
         \<and> min_eff \<le> eff \<and> eff \<le> nominal
         \<and> (\<forall>w. 0 \<le> w \<and> (w + 1) * wSize \<le> n \<longrightarrow>
              eff \<le> int (length (window_tiles rounds n wSize w)) div sms)"
proof -
  note u = stable_hint_unfold [OF assms(1)]
  have "w < ceil_div n wSize" if "(w + 1) * wSize \<le> n" for w
  proof -
    have "(w + 1) * wSize \<le> ceil_div n wSize * wSize" using that ceil_div_upper [OF assms(2), of n] by linarith
    then have "w + 1 \<le> ceil_div n wSize" using assms(2) by (rule mult_right_le_imp_le)
    then show ?thesis by simp
  qed
  then have "\<forall>w. 0 \<le> w \<and> (w + 1) * wSize \<le> n \<longrightarrow>
      eff \<le> int (length (window_tiles rounds n wSize w)) div sms"
    using u(6) by (simp add: full_window_iff)
  then show ?thesis
    using stable_hint_members [OF assms(1)] stable_hint_distinct [OF assms(1)]
      stable_hint_order [OF assms(1,2)] u(4,5) by auto
qed

theorem stable_hint_exact_witness:
  "distinct [0, 1, 3 :: int]
   \<and> set [0, 1, 3] = {t. 0 \<le> t \<and> t < 5
       \<and> (\<exists>w. 0 \<le> w \<and> w < ceil_div 5 2 \<and> in_window [[[0, 1, 4, 2, 3], [1, 0, 3, 2, 4]]] 5 2 w t)}"
proof -
  have "compute_stable_hint_from_rounds [[[0, 1, 4, 2, 3], [1, 0, 3, 2, 4]]] 5 2 1 2 1 = Inr (True, [0, 1, 3], 1)"
    by code_simp
  from stable_hint_exact [OF this] show ?thesis by simp
qed

text \<open>The samples that \<open>collect_monitor_samples\<close> returns are complete: one row per launch, one
  entry per tile, none missing; a launch that leaves an entry unwritten raises instead.\<close>

theorem collected_samples_complete:
  assumes "keeps_length ops" and "length MM = monitor_size tile_num seg_size True"
  shows "(case collect_monitor_samples ops comm_op tile_num seg_size first_launch k MM of
            Inl _ \<Rightarrow> True
          | Inr (samples, MM') \<Rightarrow> length samples = k \<and> length MM' = length MM
              \<and> (\<forall>row \<in> set samples. length row = tile_num \<and> (\<forall>x \<in> set row. 0 \<le> x)))"
  using collect_from_sound [OF assms]
  by (auto simp: collect_monitor_samples_def split: sum.splits prod.splits)

text \<open>On launches that always finish the tiles in one complete order the hint search succeeds: every
  tile is in the hint and the effective group size is the nominal one, capped by the number of waves.\<close>

theorem steady_order_gives_full_hint:
  assumes "tile_count M N BM BN = Inr (int n)" "0 < n" "0 < sms" "0 < nominal"
    and "hint_windows (int n) (nominal * sms) = Inr cSeg"
    and "init_overlap_backend comm_backend = Inr i"
    and "row_array (we_sort env) (we_uninit env) (we_world env) comm_op M N BM BN cSeg = Inr ro"
    and "steady (launch_ops.truncate env) comm_op n (length cSeg) order"
    and "min_effective \<le> min nominal (ceil_div (int n) sms)"
  shows "\<exists>hint eff. hint_worker_body env comm_backend comm_op M N BM BN (nominal * sms) sms nominal min_effective confirm
            = Inr (True, hint, eff) \<and> set hint = {0..<int n} \<and> min nominal (ceil_div (int n) sms) \<le> eff"
proof -
  have "length order = n" "distinct order" "set order = {0..<int n}" using assms(8) by (auto simp: steady_def)
  moreover have "(if confirm then 2 else 1 :: nat) \<noteq> 0" by simp
  ultimately show ?thesis
    unfolding steady_worker [OF assms(1,5-8)] using assms by (intro steady_hint) auto
qed

end
