(* ===== verification/Latency.thy ===== *)
theory Latency
  imports Tiling
begin

text \<open>
  The latency predictor of \<open>tool/search.py\<close>: \<open>interpolate_latency\<close>, \<open>predict_lat\<close> and
  \<open>predict_lat_with_debug\<close>, against the abstract schedule they stand for, a two-stage
  pipeline in which a segment is communicated once it is computed and the segment before it is
  sent.

  Floating point is modelled by real numbers: rounding, infinities and NaN are outside the model.
  A float division by zero raises in Python, and does here. The number of GPUs and of SMs come
  from the driver and are arguments; \<open>numpy.interp\<close> is the parameter \<open>np_interp x xs ys\<close>.
\<close>

section \<open>The predictor\<close>

definition float_div :: "real \<Rightarrow> real \<Rightarrow> real res" where
  "float_div a b = (if b = 0 then Inl ZeroDivisionError else Inr (a / b))"

lemma float_div_nz [simp]: "b \<noteq> 0 \<Longrightarrow> float_div a b = Inr (a / b)"
  by (simp add: float_div_def)

lemma float_div_Inr [res_simps]: "float_div a b = Inr q \<longleftrightarrow> b \<noteq> 0 \<and> q = a / b"
  by (auto simp: float_div_def)

type_synonym interp = "real \<Rightarrow> real list \<Rightarrow> real list \<Rightarrow> real"

text \<open>Tensor arithmetic: the bandwidths of a curve are positive, so the divisions are by non-zero
  tensors; \<open>bw\<close> is one.\<close>

definition interpolate_latency ::
  "interp \<Rightarrow> int \<Rightarrow> (real \<times> real) list \<Rightarrow> real \<Rightarrow> string \<Rightarrow> real res" where
  "interpolate_latency np_interp world_size samples x comm_op =
     (let data_sizes = map fst samples; bandwidths = map snd samples;
          bw = np_interp x data_sizes bandwidths
      in if comm_op = ''all_reduce''
         then Inr (x * 2 * 2 * of_int (world_size - 1) / bw / 1024 ^ 3 * 1000)
         else if comm_op = ''reduce_scatter''
         then Inr (x * 2 * of_int (world_size - 1) / bw / 1024 ^ 3 * 1000)
         else Inl (ValueError ''Unknown comm_op''))"

definition compute_sms_from_slack :: "int \<Rightarrow> int \<Rightarrow> int" where
  "compute_sms_from_slack sm_count comm_sm_slack = sm_count - comm_sm_slack"

record machine =
  np_interp :: interp
  world_size :: int
  sm_count :: int

text \<open>\<open>interpolate_latency(comm_array, M * N // tile_num * tiles, comm_op)\<close>\<close>

definition comm_latency ::
  "machine \<Rightarrow> (real \<times> real) list \<Rightarrow> string \<Rightarrow> int \<Rightarrow> int \<Rightarrow> int \<Rightarrow> int \<Rightarrow> real res" where
  "comm_latency mc comm_array comm_op M N tile_num tiles =
     bind_res (py_div (M * N) tile_num) (\<lambda>e.
     interpolate_latency (np_interp mc) (world_size mc) comm_array (of_int (e * tiles)) comm_op)"

text \<open>One iteration per segment; \<open>prev\<close> is \<open>gp[i - 1]\<close>, absent in the first iteration.\<close>

fun predict_loop ::
  "(int \<Rightarrow> real res) \<Rightarrow> int \<Rightarrow> real \<Rightarrow> int \<Rightarrow> int option \<Rightarrow> int list \<Rightarrow> real \<times> real \<Rightarrow> (real \<times> real) res" where
  "predict_loop comm compute_sms scaled_gemm_dur new_wave_num prev [] acc = Inr acc"
| "predict_loop comm compute_sms scaled_gemm_dur new_wave_num prev (g # gp) (acc_comm_dur, acc_comp_dur) =
     bind_res (case prev of None \<Rightarrow> Inr 0 | Some p \<Rightarrow> comm p) (\<lambda>comm_dur.
     bind_res (float_div scaled_gemm_dur (of_int new_wave_num)) (\<lambda>per_wave.
     bind_res (div_up g compute_sms) (\<lambda>waves.
     predict_loop comm compute_sms scaled_gemm_dur new_wave_num (Some g) gp
       (max acc_comp_dur acc_comm_dur + comm_dur, acc_comp_dur + per_wave * of_int waves))))"

definition predict_lat ::
  "machine \<Rightarrow> int \<Rightarrow> int \<Rightarrow> real \<Rightarrow> (real \<times> real) list \<Rightarrow> int list \<Rightarrow> int \<Rightarrow> string \<Rightarrow> int \<Rightarrow> real res" where
  "predict_lat mc M N gemm_dur comm_array gp tile_num comm_op comm_sm_slack =
     (let compute_sms = compute_sms_from_slack (sm_count mc) comm_sm_slack;
          comm = comm_latency mc comm_array comm_op M N tile_num
      in if length gp = 1 then bind_res (comm (gp ! 0)) (\<lambda>c. Inr (c + gemm_dur))
         else
           bind_res (div_up tile_num (sm_count mc)) (\<lambda>old_wave_num.
           bind_res (div_up tile_num compute_sms) (\<lambda>new_wave_num.
           bind_res (float_div gemm_dur (of_int old_wave_num)) (\<lambda>q.
           let scaled_gemm_dur = q * of_int new_wave_num in
           bind_res (predict_loop comm compute_sms scaled_gemm_dur new_wave_num None gp (0, 0))
             (\<lambda>(acc_comm_dur, acc_comp_dur).
           bind_res (py_get gp (-1)) (\<lambda>last_tiles.
           bind_res (comm last_tiles) (\<lambda>c.
           Inr (max acc_comp_dur acc_comm_dur + c))))))))"

section \<open>The predictor with a trace\<close>

text \<open>The numbers of the formatted trace lines.\<close>

datatype trace_line =
    Header "int list" int int int int
  | OneSegment int real real real
  | MultiSegment int int real
  | Iter int int real real real int int real real real
  | FinalComm int int real real

fun debug_loop ::
  "(int \<Rightarrow> real res) \<Rightarrow> int \<Rightarrow> int \<Rightarrow> real \<Rightarrow> int \<Rightarrow> int option \<Rightarrow> int list \<Rightarrow> real \<times> real \<Rightarrow>
   trace_line list \<Rightarrow> ((real \<times> real) \<times> trace_line list) res" where
  "debug_loop interp elems_per_tile compute_sms scaled new_wave_num prev [] acc lines = Inr (acc, lines)"
| "debug_loop interp elems_per_tile compute_sms scaled new_wave_num prev (g # gp)
       (acc_comm_dur, acc_comp_dur) lines =
     bind_res (case prev of
                 None \<Rightarrow> Inr (0, 0, 0)
               | Some comm_tiles \<Rightarrow>
                   let comm_x = elems_per_tile * comm_tiles
                   in bind_res (interp comm_x) (\<lambda>comm_dur. Inr (comm_tiles, comm_x, comm_dur)))
       (\<lambda>(comm_tiles, comm_x, comm_dur).
     bind_res (div_up g compute_sms) (\<lambda>comp_waves.
     bind_res (float_div scaled (of_int new_wave_num)) (\<lambda>per_wave.
     let comp_dur = per_wave * of_int comp_waves;
         new_comm = max acc_comp_dur acc_comm_dur + comm_dur;
         new_comp = acc_comp_dur + comp_dur
     in debug_loop interp elems_per_tile compute_sms scaled new_wave_num (Some g) gp (new_comm, new_comp)
          (lines @ [Iter g comp_waves comp_dur acc_comp_dur acc_comm_dur comm_tiles comm_x comm_dur
                      new_comp new_comm]))))"

definition predict_lat_with_debug ::
  "machine \<Rightarrow> int \<Rightarrow> int \<Rightarrow> real \<Rightarrow> (real \<times> real) list \<Rightarrow> int list \<Rightarrow> int \<Rightarrow> string \<Rightarrow> int \<Rightarrow>
   (real \<times> trace_line list) res" where
  "predict_lat_with_debug mc M N gemm_dur comm_array gp tile_num comm_op comm_sm_slack =
     (let compute_sms = compute_sms_from_slack (sm_count mc) comm_sm_slack;
          interp = (\<lambda>x. interpolate_latency (np_interp mc) (world_size mc) comm_array (of_int x) comm_op)
      in bind_res (py_div (M * N) tile_num) (\<lambda>elems_per_tile.
         let header = Header gp tile_num (sm_count mc) compute_sms elems_per_tile in
         if length gp = 1 then
           let comm_x = elems_per_tile * gp ! 0 in
           bind_res (interp comm_x) (\<lambda>comm_dur.
           let total = comm_dur + gemm_dur
           in Inr (total, [header, OneSegment comm_x comm_dur gemm_dur total]))
         else
           bind_res (div_up tile_num (sm_count mc)) (\<lambda>old_wave_num.
           bind_res (div_up tile_num compute_sms) (\<lambda>new_wave_num.
           bind_res (float_div gemm_dur (of_int old_wave_num)) (\<lambda>q.
           let scaled = q * of_int new_wave_num in
           bind_res (debug_loop interp elems_per_tile compute_sms scaled new_wave_num None gp (0, 0)
                       [header, MultiSegment old_wave_num new_wave_num scaled])
             (\<lambda>((acc_comm_dur, acc_comp_dur), lines).
           bind_res (py_get gp (-1)) (\<lambda>last_tiles.
           let final_x = elems_per_tile * last_tiles in
           bind_res (interp final_x) (\<lambda>final_comm.
           let total = max acc_comp_dur acc_comm_dur + final_comm
           in Inr (total, lines @ [FinalComm last_tiles final_x final_comm total])))))))))"

section \<open>The trace does not change the prediction\<close>

lemma debug_loop_fst:
  "bind_res (debug_loop interp e sms scaled nw prev gp acc lines) (\<lambda>(acc', lines'). Inr acc')
     = predict_loop (\<lambda>t. interp (e * t)) sms scaled nw prev gp acc"
proof (induction gp arbitrary: prev acc lines)
  case Nil
  then show ?case by simp
next
  case (Cons g gp)
  obtain a b where acc: "acc = (a, b)" by (cases acc)
  show ?case
  proof (cases prev)
    case None
    then show ?thesis
      by (cases "sms = 0"; cases "nw = 0") (simp_all add: acc Cons.IH Let_def float_div_def)
  next
    case (Some p)
    then show ?thesis
      by (cases "interp (e * p)"; cases "sms = 0"; cases "nw = 0")
        (simp_all add: acc Cons.IH Let_def float_div_def)
  qed
qed

lemma debug_tail:
  "bind_res (bind_res (debug_loop interp e sms scaled nw None gp acc lines)
       (\<lambda>((a, b), ls). bind_res (py_get gp (-1)) (\<lambda>l. bind_res (interp (e * l)) (\<lambda>c.
          Inr (max b a + c, ls @ F l c a b)))))
       (\<lambda>(total, ls). Inr total)
   = bind_res (predict_loop (\<lambda>t. interp (e * t)) sms scaled nw None gp acc)
       (\<lambda>(a, b). bind_res (py_get gp (-1)) (\<lambda>l. bind_res (interp (e * l)) (\<lambda>c. Inr (max b a + c))))"
proof (cases "debug_loop interp e sms scaled nw None gp acc lines")
  case (Inl err)
  then show ?thesis
    using debug_loop_fst [of interp e sms scaled nw None gp acc lines, symmetric] by simp
next
  case (Inr r)
  obtain a b ls where "r = ((a, b), ls)" by (metis prod.exhaust)
  moreover have "predict_loop (\<lambda>t. interp (e * t)) sms scaled nw None gp acc = Inr (a, b)"
    using debug_loop_fst [of interp e sms scaled nw None gp acc lines] Inr calculation by simp
  ultimately show ?thesis using Inr by (simp add: bind_res_assoc)
qed

lemma predict_lat_debug_eq:
  assumes "tile_num \<noteq> 0"
  shows "bind_res (predict_lat_with_debug mc M N gemm_dur comm_array gp tile_num comm_op slack)
           (\<lambda>(total, lines). Inr total)
         = predict_lat mc M N gemm_dur comm_array gp tile_num comm_op slack"
proof -
  let ?interp = "\<lambda>x. interpolate_latency (np_interp mc) (world_size mc) comm_array (of_int x) comm_op"
  have comm: "comm_latency mc comm_array comm_op M N tile_num = (\<lambda>t. ?interp (M * N div tile_num * t))"
    using assms by (auto simp: comm_latency_def)
  show ?thesis
  proof (cases "length gp = 1")
    case True
    then show ?thesis
      using assms by (simp add: predict_lat_with_debug_def predict_lat_def comm Let_def bind_res_assoc)
  next
    case False
    let ?sms = "compute_sms_from_slack (sm_count mc) slack"
    show ?thesis
    proof (cases "sm_count mc = 0 \<or> ?sms = 0 \<or> ceil_div tile_num (sm_count mc) = 0")
      case True
      then show ?thesis
        using assms False
        by (cases "sm_count mc = 0"; cases "?sms = 0")
          (simp_all add: predict_lat_with_debug_def predict_lat_def Let_def float_div_def)
    next
      case wide: False
      let ?ow = "ceil_div tile_num (sm_count mc)" and ?nw = "ceil_div tile_num ?sms"
      let ?scaled = "gemm_dur / of_int ?ow * of_int ?nw" and ?e = "M * N div tile_num"
      note tail = debug_tail [of ?interp ?e ?sms ?scaled ?nw gp "(0, 0)"
        "[Header gp tile_num (sm_count mc) ?sms ?e, MultiSegment ?ow ?nw ?scaled]"
        "\<lambda>l c a b. [FinalComm l (?e * l) c (max b a + c)]"]
      show ?thesis
        using assms False wide tail
        by (simp add: predict_lat_with_debug_def predict_lat_def comm Let_def del: of_int_mult)
    qed
  qed
qed

section \<open>The pipeline\<close>

text \<open>
  The schedule the predictor stands for: a segment takes \<open>d\<close> to compute and \<open>l\<close> to
  communicate; \<open>c\<close> is when the previous segment was computed, \<open>f\<close> when it was sent.
\<close>

fun pipeline :: "real \<Rightarrow> real \<Rightarrow> (real \<times> real) list \<Rightarrow> real" where
  "pipeline f c [] = f"
| "pipeline f c ((d, l) # xs) = pipeline (max (c + d) f + l) (c + d) xs"

text \<open>The critical path through segment \<open>k\<close>: all computations up to \<open>k\<close>, then every
  communication from \<open>k\<close> on.\<close>

definition path_through :: "(real \<times> real) list \<Rightarrow> nat \<Rightarrow> real" where
  "path_through xs k = sum_list (map fst (take (Suc k) xs)) + sum_list (map snd (drop k xs))"

lemma path_through_Cons:
  "path_through (x # xs) (Suc k) = fst x + path_through xs k"
  "path_through (x # xs) 0 = fst x + snd x + sum_list (map snd xs)"
  by (simp_all add: path_through_def)

lemma Max_insert_max:
  "finite A \<Longrightarrow> Max (insert (max a b) A) = Max (insert a (insert b (A :: real set)))"
  by (cases "A = {}") (simp_all add: max.assoc)

lemma pipeline_critical_path:
  "pipeline f c xs =
     Max (insert (f + sum_list (map snd xs)) ((\<lambda>k. c + path_through xs k) ` {..<length xs}))"
proof (induction f c xs rule: pipeline.induct)
  case (1 f c)
  then show ?case by simp
next
  case (2 f c d l xs)
  let ?P = "\<lambda>k. c + path_through ((d, l) # xs) k"
  have ran: "{..<length ((d, l) # xs)} = insert 0 (Suc ` {..<length xs})"
    by (simp add: lessThan_Suc_eq_insert_0)
  have img: "?P ` {..<length ((d, l) # xs)}
      = insert (c + d + l + sum_list (map snd xs)) ((\<lambda>k. c + d + path_through xs k) ` {..<length xs})"
    unfolding ran by (simp add: image_image path_through_Cons add.assoc)
  have "max (c + d) f + l + sum_list (map snd xs)
      = max (c + d + l + sum_list (map snd xs)) (f + sum_list (map snd ((d, l) # xs)))"
    by (simp add: max_def)
  then show ?case
    unfolding img using "2.IH" Max_insert_max [of "(\<lambda>k. c + d + path_through xs k) ` {..<length xs}"]
    by (simp add: insert_commute)
qed

lemma pipeline_nonneg_start:
  assumes "xs \<noteq> []" and "0 \<le> fst (hd xs)"
  shows "pipeline 0 0 xs = Max (path_through xs ` {..<length xs})"
proof -
  have "0 + sum_list (map snd xs) \<le> path_through xs 0"
    using assms by (cases xs) (simp_all add: path_through_def)
  also have "\<dots> \<le> Max (path_through xs ` {..<length xs})"
    using assms(1) by (intro Max_ge) auto
  finally show ?thesis
    using assms(1) unfolding pipeline_critical_path by (subst Max_insert) (auto simp: max_def)
qed

text \<open>The schedule of a segmentation: waves of \<open>compute_sms\<close> tiles, each \<open>per_wave\<close> long.\<close>

definition schedule :: "real \<Rightarrow> int \<Rightarrow> (int \<Rightarrow> real) \<Rightarrow> int list \<Rightarrow> (real \<times> real) list" where
  "schedule per_wave sms L gp = map (\<lambda>g. (per_wave * of_int (ceil_div g sms), L g)) gp"

lemma predict_loop_pipeline:
  assumes "sms \<noteq> 0" and "nw \<noteq> 0"
    and "\<And>g. g \<in> set (p # gp) \<Longrightarrow> comm g = Inr (L g)"
  shows "bind_res (predict_loop comm sms scaled nw (Some p) gp (f, c)) (\<lambda>(f', c').
           bind_res (comm (last (p # gp))) (\<lambda>l. Inr (max c' f' + l)))
         = Inr (pipeline (max c f + L p) c (schedule (scaled / of_int nw) sms L gp))"
  using assms(3)
proof (induction gp arbitrary: p f c)
  case Nil
  then show ?case by (simp add: schedule_def)
next
  case (Cons g gp)
  have "comm p = Inr (L p)" using Cons.prems by simp
  then show ?case
    using assms(1,2) Cons.IH [of g "max c f + L p" "c + scaled / of_int nw * of_int (ceil_div g sms)"]
      Cons.prems
    by (simp add: schedule_def)
qed

lemma predict_lat_pipeline:
  assumes two: "2 \<le> length gp" and t: "0 < tile_num" and sm: "0 < sm_count mc" "0 < sm_count mc - slack"
    and L: "\<And>g. g \<in> set gp \<Longrightarrow> comm_latency mc comm_array comm_op M N tile_num g = Inr (L g)"
  shows "predict_lat mc M N gemm_dur comm_array gp tile_num comm_op slack =
    Inr (pipeline 0 0 (schedule (gemm_dur / of_int (ceil_div tile_num (sm_count mc)))
                         (sm_count mc - slack) L gp))"
proof -
  obtain g gs where gp: "gp = g # gs" "gs \<noteq> []" using two by (cases gp) (auto simp: Suc_le_length_iff)
  let ?sms = "sm_count mc - slack" and ?comm = "comm_latency mc comm_array comm_op M N tile_num"
  let ?nw = "ceil_div tile_num ?sms" and ?ow = "ceil_div tile_num (sm_count mc)"
  let ?scaled = "gemm_dur / of_int ?ow * of_int ?nw"
  have w: "0 < ?nw" "0 < ?ow" using t sm by (simp_all add: ceil_div_pos)
  have last: "py_get gp (-1) = Inr (last gp)"
    using gp by (simp add: py_get_def py_index_def last_conv_nth nat_diff_distrib)
  have "predict_lat mc M N gemm_dur comm_array gp tile_num comm_op slack =
      bind_res (predict_loop ?comm ?sms ?scaled ?nw (Some g) gs
          (0, ?scaled / of_int ?nw * of_int (ceil_div g ?sms))) (\<lambda>(f', c').
        bind_res (?comm (last (g # gs))) (\<lambda>l. Inr (max c' f' + l)))"
    using sm w gp(2) last by (simp add: predict_lat_def compute_sms_from_slack_def Let_def gp(1))
  also have "\<dots> = Inr (pipeline (max (?scaled / of_int ?nw * of_int (ceil_div g ?sms)) 0 + L g)
      (?scaled / of_int ?nw * of_int (ceil_div g ?sms)) (schedule (?scaled / of_int ?nw) ?sms L gs))"
    by (rule predict_loop_pipeline) (use sm w L gp in auto)
  also have "?scaled / of_int ?nw = gemm_dur / of_int ?ow" using w by simp
  finally show ?thesis by (simp add: gp(1) schedule_def)
qed

section \<open>Properties\<close>

text \<open>C26: for two or more segments the predicted latency is the critical path of the two-stage pipeline:
  the largest, over the segments, of the time to compute all segments up to it plus the time to
  communicate it and all later ones.\<close>

theorem predicted_latency_is_critical_path:
  assumes "2 \<le> length gp" "0 < tile_num" "0 < sm_count mc" "slack < sm_count mc" "0 \<le> gemm_dur"
    and "\<forall>g \<in> set gp. 0 \<le> g" "\<forall>g \<in> set gp. comm_latency mc comm_array comm_op M N tile_num g = Inr (L g)"
  shows "\<exists>d. predict_lat mc M N gemm_dur comm_array gp tile_num comm_op slack = Inr d
    \<and> d = Max (path_through (schedule (gemm_dur / of_int (ceil_div tile_num (sm_count mc)))
                              (sm_count mc - slack) L gp) ` {..<length gp})"
proof -
  let ?xs = "schedule (gemm_dur / of_int (ceil_div tile_num (sm_count mc))) (sm_count mc - slack) L gp"
  obtain g gs where gp: "gp = g # gs" using assms(1) by (cases gp) auto
  have "0 \<le> ceil_div g (sm_count mc - slack)" using assms gp by (intro ceil_div_nonneg) auto
  moreover have "0 < ceil_div tile_num (sm_count mc)" using assms by (intro ceil_div_pos)
  ultimately have "?xs \<noteq> []" "0 \<le> fst (hd ?xs)" "length ?xs = length gp"
    using assms(5) gp by (simp_all add: schedule_def)
  then show ?thesis
    using predict_lat_pipeline [OF assms(1-3), of slack comm_array comm_op M N L gemm_dur] assms
      pipeline_nonneg_start [of ?xs] by simp
qed

theorem predicted_latency_is_critical_path_witness:
  "let mc = \<lparr>np_interp = (\<lambda>x _ _. 1), world_size = 2, sm_count = 2\<rparr>;
       L = (\<lambda>g. of_int (2 * g) * 4 / 1024 ^ 3 * 1000)
   in \<exists>d. predict_lat mc 4 2 1 [(1, 1)] [2, 2] 4 ''all_reduce'' 0 = Inr d
     \<and> d = Max (path_through (schedule (1 / of_int (ceil_div 4 2)) (2 - 0) L [2, 2]) ` {..<length [2, 2 :: int]})"
  using predicted_latency_is_critical_path
    [of "[2, 2]" 4 "\<lparr>np_interp = (\<lambda>x _ _. 1), world_size = 2, sm_count = 2\<rparr>" 0 1 "[(1, 1)]" "''all_reduce''" 4 2
        "\<lambda>g. of_int (2 * g) * 4 / 1024 ^ 3 * 1000"]
  by (simp add: comm_latency_def interpolate_latency_def)

text \<open>The tracing predictor returns the same latency, or raises the same exception, as the plain one.\<close>

theorem debug_predictor_agrees:
  assumes "tile_num \<noteq> 0"
  shows "bind_res (predict_lat_with_debug mc M N gemm_dur comm_array gp tile_num comm_op slack)
           (\<lambda>(d, lines). Inr d)
         = predict_lat mc M N gemm_dur comm_array gp tile_num comm_op slack"
  using assms by (rule predict_lat_debug_eq)

theorem debug_predictor_agrees_witness:
  "bind_res (predict_lat_with_debug \<lparr>np_interp = (\<lambda>x _ _. 1), world_size = 2, sm_count = 2\<rparr>
       4 2 1 [(1, 1)] [2, 2] 4 ''all_reduce'' 0) (\<lambda>(d, lines). Inr d)
   = predict_lat \<lparr>np_interp = (\<lambda>x _ _. 1), world_size = 2, sm_count = 2\<rparr> 4 2 1 [(1, 1)] [2, 2] 4 ''all_reduce'' 0"
  by (rule debug_predictor_agrees) simp

end
