(* ===== verification/Json.thy ===== *)
theory Json
  imports PyStr
begin

text \<open>
  Values read from JSON files and what Python's conversions make of them: \<open>str\<close>, \<open>int\<close>, \<open>float\<close>,
  \<open>bool\<close>, subscripts and \<open>get\<close>. A JSON object keeps the order of its keys. A floating point number is
  carried as its \<open>repr\<close>; its value is \<open>py_float\<close> of the text, a real number. Escapes in the \<open>repr\<close> of a
  string inside a list or object are not modelled.
\<close>

datatype json =
    JNull
  | JBool bool
  | JInt int
  | JFloat string
  | JStr string
  | JList "json list"
  | JObj "(string \<times> json) list"

type_synonym row = "(string \<times> json) list"

section \<open>Floating point text\<close>

definition span_digits :: "string \<Rightarrow> string \<times> string" where
  "span_digits s = (takeWhile (\<lambda>c. char_digit c \<noteq> None) s, dropWhile (\<lambda>c. char_digit c \<noteq> None) s)"

lemma span_digits_str_nat [simp]: "span_digits (str_nat n) = (str_nat n, [])"
proof -
  have "char_digit c \<noteq> None" if "c \<in> set (str_nat n)" for c
    using str_nat_digits [OF that] by auto
  then show ?thesis by (simp add: span_digits_def takeWhile_eq_all_conv dropWhile_eq_Nil_conv)
qed

definition split_sign :: "string \<Rightarrow> int \<times> string" where
  "split_sign s =
     (case s of c # cs \<Rightarrow> if c = CHR ''-'' then (-1, cs) else if c = CHR ''+'' then (1, cs) else (1, s)
      | [] \<Rightarrow> (1, []))"

definition digits_value :: "string \<Rightarrow> nat" where
  "digits_value ds = (case read_digits 0 ds of None \<Rightarrow> 0 | Some n \<Rightarrow> n)"

text \<open>The exponent part: nothing, or \<open>e\<close> with an optional sign and digits.\<close>

definition read_exponent :: "string \<Rightarrow> int option" where
  "read_exponent s =
     (case s of
        [] \<Rightarrow> Some 0
      | c # cs \<Rightarrow>
          if c = CHR ''e'' \<or> c = CHR ''E'' then
            (let (sg, r) = split_sign cs; (ds, rest) = span_digits r
             in if ds \<noteq> [] \<and> rest = [] then Some (sg * int (digits_value ds)) else None)
          else None)"

text \<open>\<open>float(s)\<close> on decimal notation; \<open>inf\<close> and \<open>nan\<close> are left to \<open>int_float\<close>.\<close>

definition py_float :: "string \<Rightarrow> real res" where
  "py_float s =
     (let (sg, r) = split_sign (py_strip s);
          (whole, r1) = span_digits r;
          (frac, r2) = (case r1 of c # cs \<Rightarrow> if c = CHR ''.'' then span_digits cs else ([], r1) | [] \<Rightarrow> ([], []))
      in case (if whole = [] \<and> frac = [] then None else read_exponent r2) of
           None \<Rightarrow> Inl (ValueError ''could not convert string to float'')
         | Some e \<Rightarrow> Inr (of_int sg * of_nat (digits_value (whole @ frac)) * 10 powi (e - int (length frac))))"

text \<open>\<open>int(x)\<close> of a float truncates towards zero.\<close>

definition trunc_real :: "real \<Rightarrow> int" where
  "trunc_real x = (if 0 \<le> x then floor x else ceiling x)"

text \<open>\<open>int(float(s))\<close>: an infinity overflows, \<open>nan\<close> is a \<open>ValueError\<close> like text that is no number.\<close>

definition int_float :: "string \<Rightarrow> int res" where
  "int_float s =
     (if py_lower (snd (split_sign (py_strip s))) \<in> {''inf'', ''infinity''} then Inl (ExternalError ''OverflowError'')
      else bind_res (py_float s) (\<lambda>v. Inr (trunc_real v)))"

section \<open>Conversions\<close>

definition int_of_json :: "json \<Rightarrow> int res" where
  "int_of_json j =
     (case j of
        JInt i \<Rightarrow> Inr i
      | JBool b \<Rightarrow> Inr (of_bool b)
      | JFloat s \<Rightarrow> int_float s
      | JStr s \<Rightarrow> py_int s
      | _ \<Rightarrow> Inl TypeError)"

definition py_quote :: "string \<Rightarrow> string" where
  "py_quote s = [CHR 0x27] @ s @ [CHR 0x27]"

fun repr_json :: "json \<Rightarrow> string" where
  "repr_json JNull = ''None''"
| "repr_json (JBool b) = (if b then ''True'' else ''False'')"
| "repr_json (JInt i) = str_int i"
| "repr_json (JFloat s) = s"
| "repr_json (JStr s) = py_quote s"
| "repr_json (JList xs) = ''['' @ py_join '', '' (map repr_json xs) @ '']''"
| "repr_json (JObj kvs) = ''{'' @ py_join '', '' (map (\<lambda>(k, v). py_quote k @ '': '' @ repr_json v) kvs) @ ''}''"

definition str_json :: "json \<Rightarrow> string" where
  "str_json j = (case j of JStr s \<Rightarrow> s | _ \<Rightarrow> repr_json j)"

definition truthy :: "json \<Rightarrow> bool" where
  "truthy j =
     (case j of
        JNull \<Rightarrow> False
      | JBool b \<Rightarrow> b
      | JInt i \<Rightarrow> i \<noteq> 0
      | JFloat s \<Rightarrow> py_float s \<noteq> Inr 0
      | JStr s \<Rightarrow> s \<noteq> []
      | JList xs \<Rightarrow> xs \<noteq> []
      | JObj kvs \<Rightarrow> kvs \<noteq> [])"

definition has_key :: "row \<Rightarrow> string \<Rightarrow> bool" where
  "has_key r k \<longleftrightarrow> map_of r k \<noteq> None"

definition get_or :: "row \<Rightarrow> string \<Rightarrow> json \<Rightarrow> json" where
  "get_or r k dflt = (case map_of r k of None \<Rightarrow> dflt | Some v \<Rightarrow> v)"

definition get_key :: "row \<Rightarrow> string \<Rightarrow> json res" where
  "get_key r k = (case map_of r k of None \<Rightarrow> Inl KeyError | Some v \<Rightarrow> Inr v)"

text \<open>\<open>x[i]\<close> for a literal non-negative index.\<close>

definition index_json :: "json \<Rightarrow> int \<Rightarrow> json res" where
  "index_json j i =
     (case j of
        JList xs \<Rightarrow> py_get xs i
      | JStr s \<Rightarrow> bind_res (py_get s i) (\<lambda>c. Inr (JStr [c]))
      | JObj _ \<Rightarrow> Inl KeyError
      | _ \<Rightarrow> Inl TypeError)"

lemma get_or_Cons: "get_or ((k, v) # r) k' d = (if k = k' then v else get_or r k' d)"
  by (simp add: get_or_def)

lemma get_key_Cons: "get_key ((k, v) # r) k' = (if k = k' then Inr v else get_key r k')"
  by (simp add: get_key_def)

text \<open>Iterating: a list gives its elements, an object its keys, a string its characters.\<close>

definition iterate_json :: "json \<Rightarrow> json list res" where
  "iterate_json j =
     (case j of
        JList xs \<Rightarrow> Inr xs
      | JObj kvs \<Rightarrow> Inr (map (\<lambda>(k, _). JStr k) kvs)
      | JStr s \<Rightarrow> Inr (map (\<lambda>c. JStr [c]) s)
      | _ \<Rightarrow> Inl TypeError)"

end
