(* ===== verification/Search.thy ===== *)
theory Search
  imports Hint RowRemap Latency Json
begin

text \<open>
  The search of \<open>tool/search.py\<close> from the candidate list to the saved solution:
  \<open>normalize_loaded_candidates\<close>, \<open>filter_candidates_by_algo_id\<close>, \<open>candidate_count\<close>,
  \<open>compute_hint\<close>, \<open>perf_running\<close>, \<open>choose_candidate\<close>, \<open>exhaustive_search\<close>, \<open>fast_search\<close>,
  \<open>save_solution\<close> and \<open>run_for_backend\<close> with its bandwidth-path rules.

  What the machine does is the record \<open>runtime\<close>: the driver's device and SM counts, NumPy's
  interpolation, and, per algorithm and rank, the effect of a monitored launch and the event
  times of a timed run. The ranks that \<open>mp.spawn\<close> starts run the same body; if one raises, the
  spawn raises.
\<close>

section \<open>Candidates\<close>

record algo_item =
  tile_m :: int
  tile_n :: int
  mainloop :: "string option"

record candidate =
  cBM :: int
  cBN :: int
  cdur :: real
  cAlgo :: int

text \<open>\<open>{int(item["algo"]): item for item in data["algorithms"]}\<close>: the last item of an id wins.\<close>

definition load_algo_dict :: "(int \<times> algo_item) list \<Rightarrow> (int \<rightharpoonup> algo_item)" where
  "load_algo_dict items = foldl (\<lambda>m (a, it). m(a \<mapsto> it)) Map.empty items"

text \<open>The items as the search reads them. The code converts the tile sizes of an item when it first needs them; here an item
  without number or tile sizes is an error already when the dictionary is loaded.\<close>

definition algo_item_of_json :: "json \<Rightarrow> (int \<times> algo_item) res" where
  "algo_item_of_json item =
     (case item of
        JObj r \<Rightarrow>
          bind_res (bind_res (get_key r ''algo'') int_of_json) (\<lambda>algo.
          bind_res (bind_res (get_key r ''tile_m'') int_of_json) (\<lambda>tm.
          bind_res (bind_res (get_key r ''tile_n'') int_of_json) (\<lambda>tn.
          Inr (algo, \<lparr>tile_m = tm, tile_n = tn,
                      mainloop = (case get_or r ''mainloop'' (JStr '''') of JStr s \<Rightarrow> Some s | _ \<Rightarrow> None)\<rparr>))))
      | _ \<Rightarrow> Inl TypeError)"

definition algo_dict_of_json :: "json \<Rightarrow> (int \<rightharpoonup> algo_item) res" where
  "algo_dict_of_json data =
     (case data of
        JObj r \<Rightarrow> bind_res (bind_res (get_key r ''algorithms'') iterate_json) (\<lambda>items.
                  bind_res (map_res algo_item_of_json items) (\<lambda>pairs. Inr (load_algo_dict pairs)))
      | _ \<Rightarrow> Inl TypeError)"

definition is_cooperative_algo :: "(int \<rightharpoonup> algo_item) \<Rightarrow> int \<Rightarrow> bool res" where
  "is_cooperative_algo algo_dict algo =
     (case algo_dict algo of None \<Rightarrow> Inl KeyError | Some it \<Rightarrow> Inr (mainloop it = Some ''cooperative''))"

text \<open>The four parallel lists are zipped; unknown algorithms are dropped, tile sizes corrected.\<close>

fun normalize_loaded_candidates ::
  "(int \<rightharpoonup> algo_item) \<Rightarrow> (int \<times> int \<times> real \<times> int) list \<Rightarrow> candidate list" where
  "normalize_loaded_candidates algo_dict [] = []"
| "normalize_loaded_candidates algo_dict ((BM, BN, dur, Algo) # rest) =
     (case algo_dict Algo of
        None \<Rightarrow> normalize_loaded_candidates algo_dict rest
      | Some it \<Rightarrow> \<lparr>cBM = tile_m it, cBN = tile_n it, cdur = dur, cAlgo = Algo\<rparr>
                    # normalize_loaded_candidates algo_dict rest)"

definition zip4 :: "'a list \<Rightarrow> 'b list \<Rightarrow> 'c list \<Rightarrow> 'd list \<Rightarrow> ('a \<times> 'b \<times> 'c \<times> 'd) list" where
  "zip4 as bs cs ds = zip as (zip bs (zip cs ds))"

definition filter_candidates_by_algo_id :: "candidate list \<Rightarrow> int option \<Rightarrow> candidate list res" where
  "filter_candidates_by_algo_id cands algo_id =
     (case algo_id of
        None \<Rightarrow> Inr cands
      | Some a \<Rightarrow>
          let out = filter (\<lambda>c. cAlgo c = a) cands
          in if out = [] then Inl (ValueError ''Requested --algo_id was not found'') else Inr out)"

definition candidate_count :: "int \<Rightarrow> int \<Rightarrow> int option \<Rightarrow> int" where
  "candidate_count available default_limit algo_id =
     (case algo_id of Some _ \<Rightarrow> available | None \<Rightarrow> min default_limit available)"

definition DEFAULT_EXHAUSTIVE_ALGOS :: int where "DEFAULT_EXHAUSTIVE_ALGOS = 5"
definition DEFAULT_PREDICTIVE_ALGOS :: int where "DEFAULT_PREDICTIVE_ALGOS = 10"

section \<open>The machine and the request\<close>

record runtime = machine +
  hint_ops :: "int \<Rightarrow> nat \<Rightarrow> launch_ops"
  timed_run :: "int \<Rightarrow> nat \<Rightarrow> int list \<Rightarrow> int list \<Rightarrow> int list option \<Rightarrow> real list res"
  argsort :: "int list \<Rightarrow> nat list"
  uninit_row :: "nat \<Rightarrow> int"
  gpu_name :: string

record request =
  rq_M :: int
  rq_N :: int
  rq_K :: int
  rq_comm_op :: string
  rq_slack :: int
  rq_backend :: string
  rq_algo_id :: "int option"
  rq_min_group :: "int option"
  rq_min_effective :: "int option"
  rq_confirm :: bool
  rq_write_legacy :: bool

section \<open>Backends and worker runs\<close>

definition hint_env :: "runtime \<Rightarrow> int \<Rightarrow> nat \<Rightarrow> worker_env" where
  "hint_env rt algo rank =
     launch_ops.extend (hint_ops rt algo rank)
       (worker_env.fields (argsort rt) (uninit_row rt) (world_size rt))"

definition compute_hint ::
  "runtime \<Rightarrow> request \<Rightarrow> candidate \<Rightarrow> int \<Rightarrow> int \<Rightarrow> int \<Rightarrow> int \<Rightarrow> bool \<Rightarrow> (bool \<times> int list \<times> int) res" where
  "compute_hint rt rq c wSize compute_sms nominal min_effective confirm =
     bind_res (require (2 \<le> world_size rt) (RuntimeError ''At least 2 GPUs are required.'')) (\<lambda>_.
     bind_res (map_res (\<lambda>rank.
         hint_worker_body (hint_env rt (cAlgo c) rank) (rq_backend rq) (rq_comm_op rq) (rq_M rq) (rq_N rq)
           (cBM c) (cBN c) wSize compute_sms nominal min_effective confirm) [0..<nat (world_size rt)]) (\<lambda>result_dict.
     Inr (result_dict ! 0)))"

definition mean :: "real list \<Rightarrow> real" where
  "mean xs = sum_list xs / of_nat (length xs)"

text \<open>\<open>perf_running_process\<close>: the run uses the order map of the hint and, for a reduce-scatter, the
  row map; its result is the mean of the event times.\<close>

definition perf_worker_body :: "runtime \<Rightarrow> request \<Rightarrow> candidate \<Rightarrow> nat \<Rightarrow> int list \<Rightarrow> int list \<Rightarrow> real res" where
  "perf_worker_body rt rq c rank cSeg hint =
     bind_res (tile_count (rq_M rq) (rq_N rq) (cBM c) (cBN c)) (\<lambda>tile_num.
     bind_res (init_overlap_backend (rq_backend rq)) (\<lambda>_.
     bind_res (reorder_indices tile_num hint) (\<lambda>RA.
     bind_res (row_array (argsort rt) (uninit_row rt) (world_size rt) (rq_comm_op rq) (rq_M rq) (rq_N rq)
                 (cBM c) (cBN c) cSeg) (\<lambda>RowArray.
     bind_res (require (rq_comm_op rq = ''all_reduce'' \<or> rq_comm_op rq = ''reduce_scatter'')
                 (ValueError ''Unknown comm_op'')) (\<lambda>_.
     bind_res (timed_run rt (cAlgo c) rank RA cSeg RowArray) (\<lambda>dur.
     Inr (mean dur)))))))"

definition perf_running :: "runtime \<Rightarrow> request \<Rightarrow> candidate \<Rightarrow> int list \<Rightarrow> int list \<Rightarrow> real res" where
  "perf_running rt rq c cSeg hint =
     bind_res (require (2 \<le> world_size rt) (RuntimeError ''At least 2 GPUs are required.'')) (\<lambda>_.
     bind_res (map_res (\<lambda>rank. perf_worker_body rt rq c rank cSeg hint) [0..<nat (world_size rt)])
       (\<lambda>result_dict. Inr (Max (set result_dict))))"

section \<open>Choosing a candidate\<close>

record selection =
  s_cand :: candidate
  s_tile_num :: int
  s_wave_num :: int
  s_hint :: "int list"
  s_effective :: int
  s_nominal :: int
  s_compute_sms :: int

definition group_sizes :: "bool \<Rightarrow> int \<Rightarrow> int \<Rightarrow> int option \<Rightarrow> int option \<Rightarrow> (int \<times> int \<times> int) res" where
  "group_sizes predictive wave_num compute_sms min_group_override min_effective_override =
     (if predictive then
        bind_res (case min_group_override of None \<Rightarrow> div_up wave_num 10 | Some g \<Rightarrow> Inr g) (\<lambda>min_group_size.
        let min_effective = (case min_effective_override of
                               None \<Rightarrow> max 1 (min_group_size - 3) | Some x \<Rightarrow> x)
        in Inr (min_group_size, min_effective, min_group_size * compute_sms))
      else Inr (1, 1, compute_sms))"

text \<open>The loop over the candidates; a failing \<open>compute_hint\<close> moves on to the next one.\<close>

fun try_candidates :: "runtime \<Rightarrow> request \<Rightarrow> bool \<Rightarrow> int \<Rightarrow> candidate list \<Rightarrow> selection res" where
  "try_candidates rt rq predictive compute_sms [] = Inl (RuntimeError ''Tuning failed.'')"
| "try_candidates rt rq predictive compute_sms (c # cs) =
     bind_res (tile_count (rq_M rq) (rq_N rq) (cBM c) (cBN c)) (\<lambda>tile_num.
     bind_res (div_up tile_num compute_sms) (\<lambda>wave_num.
     bind_res (group_sizes predictive wave_num compute_sms (rq_min_group rq) (rq_min_effective rq))
       (\<lambda>(min_group_size, min_effective, wSize).
     case compute_hint rt rq c wSize compute_sms min_group_size min_effective (predictive \<and> rq_confirm rq) of
       Inl e \<Rightarrow> try_candidates rt rq predictive compute_sms cs
     | Inr (ok, hint, effective) \<Rightarrow>
         if ok
         then Inr \<lparr>s_cand = c, s_tile_num = tile_num, s_wave_num = wave_num, s_hint = hint,
                   s_effective = effective, s_nominal = min_group_size, s_compute_sms = compute_sms\<rparr>
         else try_candidates rt rq predictive compute_sms cs)))"

definition choose_candidate :: "runtime \<Rightarrow> request \<Rightarrow> bool \<Rightarrow> candidate list res \<Rightarrow> selection res" where
  "choose_candidate rt rq predictive shape_config =
     bind_res shape_config (\<lambda>loaded.
     bind_res (filter_candidates_by_algo_id loaded (rq_algo_id rq)) (\<lambda>cands.
     let compute_sms = compute_sms_from_slack (sm_count rt) (rq_slack rq);
         limit = (if predictive then DEFAULT_PREDICTIVE_ALGOS else DEFAULT_EXHAUSTIVE_ALGOS);
         tries = candidate_count (int (length cands)) limit (rq_algo_id rq)
     in try_candidates rt rq predictive compute_sms (take (nat tries) cands)))"

section \<open>The solution file\<close>

record solution =
  sol_M :: int
  sol_N :: int
  sol_K :: int
  sol_world_size :: int
  sol_backend :: string
  sol_comm_op :: string
  sol_bandwidth_path :: string
  sol_predicted :: "real option"
  sol_searched :: "real option"
  sol_hint :: "int list"
  sol_hint_stable_count :: nat
  sol_unstable_tail_count :: nat
  sol_unstable_tail :: "int list"
  sol_full_tile_order :: "int list"
  sol_reorder_map :: "int list"
  sol_cSeg :: "int list"
  sol_rLDN :: int
  sol_cand :: candidate
  sol_sm_count :: int
  sol_slack :: int
  sol_compute_sms :: int

definition solution_json_path :: "runtime \<Rightarrow> int \<Rightarrow> int \<Rightarrow> int \<Rightarrow> string \<Rightarrow> string" where
  "solution_json_path rt M N K comm_backend =
     ''solution_'' @ comm_backend @ ''_m'' @ str_int M @ ''n'' @ str_int N @ ''k'' @ str_int K @ ''_''
       @ gpu_name rt @ ''_tp'' @ str_int (world_size rt) @ ''_packed_sm90.json''"

definition legacy_solution_json_path :: "runtime \<Rightarrow> int \<Rightarrow> int \<Rightarrow> int \<Rightarrow> string" where
  "legacy_solution_json_path rt M N K =
     ''solution_m'' @ str_int M @ ''n'' @ str_int N @ ''k'' @ str_int K @ ''_''
       @ gpu_name rt @ ''_packed_sm90.json''"

text \<open>\<open>save_solution\<close>: the files it writes, with the data it dumps; \<open>BM\<close>, \<open>BN\<close>, \<open>dur\<close> and \<open>Algo\<close> are
  the candidate's, the two constant comment fields are left out.\<close>

definition save_solution ::
  "runtime \<Rightarrow> request \<Rightarrow> candidate \<Rightarrow> int list \<Rightarrow> int list option \<Rightarrow> string \<Rightarrow> real option \<Rightarrow> real option \<Rightarrow>
   (string \<times> solution) list res" where
  "save_solution rt rq c hint best_cSeg bandwidth_path predicted searched =
     bind_res (tile_count (rq_M rq) (rq_N rq) (cBM c) (cBN c)) (\<lambda>tile_num.
     bind_res (build_full_order_and_reorder_map tile_num hint) (\<lambda>(full_tile_order, reorder_map, unstable_tail).
     bind_res (case best_cSeg of None \<Rightarrow> Inl TypeError | Some s \<Rightarrow> Inr s) (\<lambda>cSeg.
     let data = \<lparr>sol_M = rq_M rq, sol_N = rq_N rq, sol_K = rq_K rq, sol_world_size = world_size rt,
                 sol_backend = rq_backend rq, sol_comm_op = rq_comm_op rq,
                 sol_bandwidth_path = bandwidth_path, sol_predicted = predicted, sol_searched = searched,
                 sol_hint = hint, sol_hint_stable_count = length hint,
                 sol_unstable_tail_count = length unstable_tail, sol_unstable_tail = unstable_tail, sol_full_tile_order = full_tile_order,
                 sol_reorder_map = reorder_map, sol_cSeg = cSeg, sol_rLDN = 1, sol_cand = c,
                 sol_sm_count = sm_count rt, sol_slack = rq_slack rq,
                 sol_compute_sms = compute_sms_from_slack (sm_count rt) (rq_slack rq)\<rparr>
     in Inr ((solution_json_path rt (rq_M rq) (rq_N rq) (rq_K rq) (rq_backend rq), data)
             # (if rq_write_legacy rq
                then [(legacy_solution_json_path rt (rq_M rq) (rq_N rq) (rq_K rq), data)] else [])))))"

section \<open>The two searches\<close>

text \<open>Both loops keep the first segmentation with the smallest time below the initial \<open>1e100\<close>.\<close>

definition initial_min :: real where "initial_min = 10 ^ 100"

definition keep_best :: "int list \<Rightarrow> real \<Rightarrow> real \<times> int list option \<Rightarrow> real \<times> int list option" where
  "keep_best cSeg dur best = (if dur < fst best then (dur, Some cSeg) else best)"

fun exhaustive_loop ::
  "(int list \<Rightarrow> int list) \<Rightarrow> (int list \<Rightarrow> real res) \<Rightarrow> int list list \<Rightarrow> real \<times> int list option \<Rightarrow>
   (real \<times> int list option) res" where
  "exhaustive_loop expand run [] best = Inr best"
| "exhaustive_loop expand run (gp_units # parts) best =
     (let gp = expand gp_units in
      bind_res (run gp) (\<lambda>dur. exhaustive_loop expand run parts (keep_best gp dur best)))"

definition exhaustive_search ::
  "runtime \<Rightarrow> request \<Rightarrow> candidate list res \<Rightarrow> (string \<times> solution) list res" where
  "exhaustive_search rt rq shape_config =
     bind_res (choose_candidate rt rq False shape_config) (\<lambda>s.
     let expand = (\<lambda>us. expand_partition_to_cseg us (s_compute_sms s) 1 (s_tile_num s));
         run = (\<lambda>gp. perf_running rt rq (s_cand s) gp (s_hint s))
     in bind_res (exhaustive_loop expand run (integer_partitions (s_wave_num s)) (initial_min, None))
          (\<lambda>(min_dur, best_cSeg).
        save_solution rt rq (s_cand s) (s_hint s) best_cSeg '''' None (Some min_dur)))"

definition cold_start_skip :: "int list \<Rightarrow> bool" where
  "cold_start_skip gp_units \<longleftrightarrow> length gp_units > 5 \<and> gp_units ! 0 > 2"

fun fast_loop ::
  "(int list \<Rightarrow> int list) \<Rightarrow> (int list \<Rightarrow> real res) \<Rightarrow> int list list \<Rightarrow> real \<times> int list option \<Rightarrow>
   (real \<times> int list option) res" where
  "fast_loop expand predict [] best = Inr best"
| "fast_loop expand predict (gp_units # parts) best =
     (if cold_start_skip gp_units then fast_loop expand predict parts best
      else let cSeg = expand gp_units in
        bind_res (predict cSeg) (\<lambda>est_dur. fast_loop expand predict parts (keep_best cSeg est_dur best)))"

definition fast_search ::
  "runtime \<Rightarrow> request \<Rightarrow> candidate list res \<Rightarrow> (real \<times> real) list \<Rightarrow> string \<Rightarrow> (string \<times> solution) list res" where
  "fast_search rt rq shape_config comm_array bandwidth_path =
     bind_res (choose_candidate rt rq True shape_config) (\<lambda>s.
     let search_group_size = s_effective s;
         expand = (\<lambda>us. expand_partition_to_cseg us (s_compute_sms s) search_group_size (s_tile_num s));
         predict = (\<lambda>cSeg. predict_lat (machine.truncate rt) (rq_M rq) (rq_N rq) (cdur (s_cand s)) comm_array cSeg
                             (s_tile_num s) (rq_comm_op rq) (rq_slack rq))
     in bind_res (div_up (s_wave_num s) search_group_size) (\<lambda>normalized_wave_num.
        bind_res (fast_loop expand predict (integer_partitions normalized_wave_num) (initial_min, None))
          (\<lambda>(min_dur, best_cSeg).
        case best_cSeg of
          None \<Rightarrow> Inl (RuntimeError ''Predictive search produced no candidate cSeg.'')
        | Some cSeg \<Rightarrow>
            bind_res (perf_running rt rq (s_cand s) cSeg (s_hint s)) (\<lambda>searched_lat.
            save_solution rt rq (s_cand s) (s_hint s) (Some cSeg) bandwidth_path (Some min_dur) (Some searched_lat)))))"

section \<open>Bandwidth curves and the run of one backend\<close>

record bandwidth_args =
  nccl_bandwidth_path :: string
  ooverlap_bandwidth_path :: string
  bandwidth_path :: string
  arg_comm_backend :: string

definition requested_bandwidth_path :: "bandwidth_args \<Rightarrow> string \<Rightarrow> string res" where
  "requested_bandwidth_path args comm_backend =
     bind_res (if comm_backend = ''nccl'' then Inr (nccl_bandwidth_path args)
               else if comm_backend = ''ooverlap'' then Inr (ooverlap_bandwidth_path args)
               else Inl (ValueError ''Unknown comm_backend'')) (\<lambda>specific.
     if specific \<noteq> '''' then Inr specific
     else if bandwidth_path args \<noteq> '''' then
       (if arg_comm_backend args = ''both''
        then Inl (ValueError ''--bandwidth_path is ambiguous with --comm_backend both.'')
        else Inr (bandwidth_path args))
     else Inr '''')"

definition bandwidth_curve_paths :: "string \<Rightarrow> string \<Rightarrow> int \<Rightarrow> string list" where
  "bandwidth_curve_paths comm_backend comm_op ws =
     (let primary = ''bandwidth_'' @ comm_backend @ ''_'' @ comm_op @ ''_tp'' @ str_int ws @ ''.pt''
      in if comm_backend = ''nccl''
         then [primary, ''bandwidth_'' @ comm_op @ ''_tp'' @ str_int ws @ ''.pt'']
         else [primary])"

definition load_comm_array ::
  "(string \<rightharpoonup> (real \<times> real) list) \<Rightarrow> string \<Rightarrow> string \<Rightarrow> int \<Rightarrow> string \<Rightarrow>
   ((real \<times> real) list \<times> string) res" where
  "load_comm_array files comm_backend comm_op ws path =
     (let candidates = (if path \<noteq> '''' then [path] else bandwidth_curve_paths comm_backend comm_op ws)
      in case filter (\<lambda>p. files p \<noteq> None) candidates of
           [] \<Rightarrow> Inl (FileNotFoundError ''Could not find bandwidth curve.'')
         | p # _ \<Rightarrow> Inr (the (files p), p))"

definition run_for_backend ::
  "runtime \<Rightarrow> bandwidth_args \<Rightarrow> (string \<rightharpoonup> (real \<times> real) list) \<Rightarrow> bool \<Rightarrow> candidate list res \<Rightarrow> request \<Rightarrow>
   (string \<times> solution) list res" where
  "run_for_backend rt args files predictive_search shape_config rq =
     bind_res (requested_bandwidth_path args (rq_backend rq)) (\<lambda>path.
     if predictive_search \<or> rq_M rq * rq_N rq > 33554432
     then bind_res (load_comm_array files (rq_backend rq) (rq_comm_op rq) (world_size rt) path)
            (\<lambda>(comm_array, used_path). fast_search rt rq shape_config comm_array used_path)
     else exhaustive_search rt rq shape_config)"

text \<open>\<open>main\<close>: one run per backend, in this order; the first failure ends the program, and the files that
  the backends before it wrote stay. The result is the files written and how the program ended.\<close>

fun run_backends ::
  "(string \<Rightarrow> (string \<times> solution) list res) \<Rightarrow> string list \<Rightarrow> (string \<times> solution) list \<times> unit res" where
  "run_backends run [] = ([], Inr ())"
| "run_backends run (b # bs) =
     (case run b of
        Inl e \<Rightarrow> ([], Inl e)
      | Inr ws \<Rightarrow> (let (ws', r) = run_backends run bs in (ws @ ws', r)))"

definition search_main ::
  "runtime \<Rightarrow> bandwidth_args \<Rightarrow> (string \<rightharpoonup> (real \<times> real) list) \<Rightarrow> bool \<Rightarrow> candidate list res \<Rightarrow> request \<Rightarrow>
   (string \<times> solution) list \<times> unit res" where
  "search_main rt args files predictive_search shape_config rq =
     (if world_size rt < 2 then ([], Inl (RuntimeError ''At least 2 GPUs are required.''))
      else run_backends (\<lambda>b. run_for_backend rt args files predictive_search shape_config (rq\<lparr>rq_backend := b\<rparr>))
             (if arg_comm_backend args = ''both'' then [''nccl'', ''ooverlap''] else [arg_comm_backend args]))"

end
