(* ===== verification/SearchCorrect.thy ===== *)
theory SearchCorrect
  imports Search
begin

text \<open>
  What the searches of \<open>Search\<close> establish: the candidate is the first that passes its hint
  check, the loops return the smallest time they saw, and every solution file written by
  \<open>run_for_backend\<close> and \<open>main\<close> describes a usable run, \<open>valid_solution\<close>.
\<close>

section \<open>The loops keep the minimum\<close>

text \<open>The contract of both search loops over the candidate segmentations.\<close>

definition best_of :: "(int list \<Rightarrow> real res) \<Rightarrow> int list set \<Rightarrow> real \<times> int list option \<Rightarrow> real \<times> int list option \<Rightarrow> bool" where
  "best_of time segs start result \<longleftrightarrow>
     fst result \<le> fst start
     \<and> (\<forall>s \<in> segs. \<exists>d. time s = Inr d \<and> fst result \<le> d)
     \<and> (result = start \<or> (\<exists>s \<in> segs. snd result = Some s \<and> time s = Inr (fst result)))"

lemma best_of_start: "best_of time {} start start"
  by (simp add: best_of_def)

lemma best_of_step:
  assumes "time s = Inr d" and "best_of time segs (keep_best s d start) result"
  shows "best_of time (insert s segs) start result"
  using assms by (fastforce simp: best_of_def keep_best_def split: if_splits)

lemma exhaustive_loop_best:
  "exhaustive_loop expand run parts start = Inr result \<Longrightarrow> best_of run (expand ` set parts) start result"
proof (induction parts arbitrary: start)
  case (Cons p parts)
  obtain d where d: "run (expand p) = Inr d"
    and l: "exhaustive_loop expand run parts (keep_best (expand p) d start) = Inr result"
    using Cons.prems by (auto simp: Let_def elim: bind_resE)
  show ?case using best_of_step [OF d Cons.IH [OF l]] by simp
qed (simp add: best_of_start)

lemma fast_loop_best:
  "fast_loop expand predict parts start = Inr result \<Longrightarrow>
   best_of predict (expand ` {p \<in> set parts. \<not> cold_start_skip p}) start result"
proof (induction parts arbitrary: start)
  case (Cons p parts)
  show ?case
  proof (cases "cold_start_skip p")
    case True
    then have "{q \<in> set (p # parts). \<not> cold_start_skip q} = {q \<in> set parts. \<not> cold_start_skip q}" by auto
    then show ?thesis using Cons True by simp
  next
    case False
    then have eq: "{q \<in> set (p # parts). \<not> cold_start_skip q} = insert p {q \<in> set parts. \<not> cold_start_skip q}"
      by auto
    obtain d where d: "predict (expand p) = Inr d"
      and l: "fast_loop expand predict parts (keep_best (expand p) d start) = Inr result"
      using Cons.prems False by (auto simp: Let_def elim: bind_resE)
    show ?thesis unfolding eq using best_of_step [OF d Cons.IH [OF l]] by simp
  qed
qed (simp add: best_of_start)

lemma best_of_found:
  "best_of time segs (m, None) (d, Some s) \<Longrightarrow> s \<in> segs \<and> time s = Inr d"
  by (auto simp: best_of_def)

section \<open>The chosen candidate\<close>

text \<open>The hint call of one candidate, with the group sizes the loop derives for it.\<close>

definition hint_call :: "runtime \<Rightarrow> request \<Rightarrow> bool \<Rightarrow> int \<Rightarrow> candidate \<Rightarrow> (int \<times> int \<times> int \<times> int \<times> bool \<times> int list \<times> int) res" where
  "hint_call rt rq predictive compute_sms c =
     bind_res (tile_count (rq_M rq) (rq_N rq) (cBM c) (cBN c)) (\<lambda>tile_num.
     bind_res (div_up tile_num compute_sms) (\<lambda>wave_num.
     bind_res (group_sizes predictive wave_num compute_sms (rq_min_group rq) (rq_min_effective rq))
       (\<lambda>(nominal, min_effective, wSize).
     bind_res (compute_hint rt rq c wSize compute_sms nominal min_effective (predictive \<and> rq_confirm rq))
       (\<lambda>(ok, hint, effective). Inr (tile_num, wave_num, nominal, min_effective, ok, hint, effective)))))"

definition accepted :: "runtime \<Rightarrow> request \<Rightarrow> bool \<Rightarrow> int \<Rightarrow> candidate \<Rightarrow> bool" where
  "accepted rt rq predictive compute_sms c \<longleftrightarrow>
     (case hint_call rt rq predictive compute_sms c of
        Inl _ \<Rightarrow> False | Inr (_, _, _, _, ok, _, _) \<Rightarrow> ok)"

lemma try_candidates_first:
  assumes "try_candidates rt rq predictive sms cs = Inr s"
  shows "\<exists>pre post me. cs = pre @ s_cand s # post \<and> (\<forall>c \<in> set pre. \<not> accepted rt rq predictive sms c)
     \<and> hint_call rt rq predictive sms (s_cand s)
         = Inr (s_tile_num s, s_wave_num s, s_nominal s, me, True, s_hint s, s_effective s)
     \<and> s_compute_sms s = sms"
  using assms
proof (induction cs)
  case (Cons c cs)
  obtain t where t: "tile_count (rq_M rq) (rq_N rq) (cBM c) (cBN c) = Inr t"
    using Cons.prems by (auto simp: res_simps)
  obtain w where w: "div_up t sms = Inr w" using Cons.prems t by (auto simp: res_simps)
  obtain g me ws where g: "group_sizes predictive w sms (rq_min_group rq) (rq_min_effective rq) = Inr (g, me, ws)"
    using Cons.prems t w by (auto simp: res_simps)
  let ?h = "compute_hint rt rq c ws sms g me (predictive \<and> rq_confirm rq)"
  show ?case
  proof (cases "\<exists>hint eff. ?h = Inr (True, hint, eff)")
    case True
    then obtain hint eff where h: "?h = Inr (True, hint, eff)" by blast
    then have "s = \<lparr>s_cand = c, s_tile_num = t, s_wave_num = w, s_hint = hint, s_effective = eff,
                    s_nominal = g, s_compute_sms = sms\<rparr>"
      using Cons.prems t w g by simp
    then show ?thesis using t w g h
      by (intro exI [of _ "[]"] exI [of _ cs] exI [of _ me]) (simp add: hint_call_def)
  next
    case False
    then have h: "(\<exists>e. ?h = Inl e) \<or> (\<exists>hint eff. ?h = Inr (False, hint, eff))"
      by (cases ?h) (use prod_cases3 in \<open>fastforce+\<close>)
    then have rej: "\<not> accepted rt rq predictive sms c"
      using t w g by (elim disjE exE) (simp_all add: accepted_def hint_call_def)
    have "try_candidates rt rq predictive sms cs = Inr s"
      using Cons.prems t w g h by (elim disjE exE) simp_all
    then obtain pre post me' where *: "cs = pre @ s_cand s # post"
      "\<forall>c \<in> set pre. \<not> accepted rt rq predictive sms c"
      "hint_call rt rq predictive sms (s_cand s)
         = Inr (s_tile_num s, s_wave_num s, s_nominal s, me', True, s_hint s, s_effective s)"
      "s_compute_sms s = sms" using Cons.IH by blast
    then show ?thesis using rej by (intro exI [of _ "c # pre"] exI [of _ post] exI [of _ me']) auto
  qed
qed simp

lemma compute_hint_rank0:
  assumes "compute_hint rt rq c wSize sms nominal me confirm = Inr r"
  shows "2 \<le> world_size rt"
    and "hint_worker_body (hint_env rt (cAlgo c) 0) (rq_backend rq) (rq_comm_op rq) (rq_M rq) (rq_N rq)
           (cBM c) (cBN c) wSize sms nominal me confirm = Inr r"
proof -
  show w: "2 \<le> world_size rt" using assms by (auto simp: compute_hint_def res_simps)
  let ?f = "\<lambda>rank. hint_worker_body (hint_env rt (cAlgo c) rank) (rq_backend rq) (rq_comm_op rq) (rq_M rq) (rq_N rq)
           (cBM c) (cBN c) wSize sms nominal me confirm"
  obtain rs where rs: "map_res ?f [0..<nat (world_size rt)] = Inr rs" and r: "r = rs ! 0"
    using assms by (auto simp: compute_hint_def elim!: bind_resE)
  have "?f ([0..<nat (world_size rt)] ! 0) = Inr (rs ! 0)"
    using rs w list_all2_nthD [of _ "[0..<nat (world_size rt)]" rs 0] by (simp add: map_res_Inr_conv)
  then have "?f 0 = Inr (rs ! 0)" using w by (simp del: bind_res_eq_Inr)
  then show "hint_worker_body (hint_env rt (cAlgo c) 0) (rq_backend rq) (rq_comm_op rq) (rq_M rq) (rq_N rq)
           (cBM c) (cBN c) wSize sms nominal me confirm = Inr r"
    unfolding r by (auto elim: bind_resE)
qed

lemma hint_worker_stable:
  assumes "hint_worker_body env backend comm_op M N BM BN wSize sms nominal me confirm = Inr (True, hint, eff)"
  shows "\<exists>t rounds. tile_count M N BM BN = Inr t \<and>
           compute_stable_hint_from_rounds rounds t wSize sms nominal me = Inr (True, hint, eff)"
  using assms by (auto simp: hint_worker_body_def res_simps Let_def split: prod.splits)

lemma tile_count_positive:
  "0 < BM \<Longrightarrow> 0 < BN \<Longrightarrow> 0 < M \<Longrightarrow> 0 < N \<Longrightarrow> tile_count M N BM BN = Inr t \<Longrightarrow> 0 < t"
  by (rule tile_count_covers(2))

definition positive_request :: "request \<Rightarrow> bool" where
  "positive_request rq \<longleftrightarrow> 0 < rq_M rq \<and> 0 < rq_N rq \<and> (\<forall>x. rq_min_effective rq = Some x \<longrightarrow> 1 \<le> x)"

definition positive_candidate :: "candidate \<Rightarrow> bool" where
  "positive_candidate c \<longleftrightarrow> 0 < cBM c \<and> 0 < cBN c"

definition positive_config :: "candidate list res \<Rightarrow> bool" where
  "positive_config cfg \<longleftrightarrow> (case cfg of Inl _ \<Rightarrow> True | Inr cs \<Rightarrow> \<forall>c \<in> set cs. positive_candidate c)"

lemma group_sizes_min_effective:
  assumes "group_sizes predictive w sms mg me_override = Inr (g, me, ws)"
    and "\<forall>x. me_override = Some x \<longrightarrow> 1 \<le> x"
  shows "1 \<le> me"
  using assms by (cases me_override) (auto simp: group_sizes_def res_simps Let_def split: if_splits)

definition sound_selection :: "request \<Rightarrow> int \<Rightarrow> selection \<Rightarrow> bool" where
  "sound_selection rq sms s \<longleftrightarrow>
     positive_candidate (s_cand s)
     \<and> tile_count (rq_M rq) (rq_N rq) (cBM (s_cand s)) (cBN (s_cand s)) = Inr (s_tile_num s)
     \<and> 0 < s_tile_num s \<and> s_wave_num s = ceil_div (s_tile_num s) sms
     \<and> hint_sound (s_tile_num s, s_hint s) \<and> 1 \<le> s_effective s \<and> s_effective s \<le> s_nominal s
     \<and> s_compute_sms s = sms"

lemma hint_call_sound:
  assumes rq: "positive_request rq" and c: "positive_candidate (s_cand s)" and sms: "0 < sms"
    and h: "hint_call rt rq predictive sms (s_cand s)
              = Inr (s_tile_num s, s_wave_num s, s_nominal s, me, True, s_hint s, s_effective s)"
    and "s_compute_sms s = sms"
  shows "sound_selection rq sms s"
proof -
  from h obtain ws where
    t: "tile_count (rq_M rq) (rq_N rq) (cBM (s_cand s)) (cBN (s_cand s)) = Inr (s_tile_num s)"
    and w: "s_wave_num s = ceil_div (s_tile_num s) sms"
    and g: "group_sizes predictive (s_wave_num s) sms (rq_min_group rq) (rq_min_effective rq)
              = Inr (s_nominal s, me, ws)"
    and ch: "compute_hint rt rq (s_cand s) ws sms (s_nominal s) me (predictive \<and> rq_confirm rq)
              = Inr (True, s_hint s, s_effective s)"
    using sms by (auto simp: hint_call_def res_simps split: prod.splits)
  have pos: "0 < s_tile_num s"
    using rq c by (intro tile_count_positive [OF _ _ _ _ t]) (simp_all add: positive_request_def positive_candidate_def)
  obtain rounds where st: "compute_stable_hint_from_rounds rounds (s_tile_num s) ws sms (s_nominal s) me
      = Inr (True, s_hint s, s_effective s)"
    using hint_worker_stable [OF compute_hint_rank0(2) [OF ch]] t by auto
  have "1 \<le> me" using group_sizes_min_effective [OF g] rq by (simp add: positive_request_def)
  then show ?thesis
    using stable_hint_sound [OF st] stable_hint_unfold(4,5) [OF st] pos t w c assms(5)
    by (simp add: sound_selection_def)
qed

lemma choose_candidate_sound:
  assumes ch: "choose_candidate rt rq predictive cfg = Inr s" and rq: "positive_request rq"
    and cs: "positive_config cfg"
    and sms: "0 < compute_sms_from_slack (sm_count rt) (rq_slack rq)"
  shows "sound_selection rq (compute_sms_from_slack (sm_count rt) (rq_slack rq)) s"
proof -
  let ?sms = "compute_sms_from_slack (sm_count rt) (rq_slack rq)"
  obtain loaded cands k where l: "cfg = Inr loaded"
    and f: "filter_candidates_by_algo_id loaded (rq_algo_id rq) = Inr cands"
    and t: "try_candidates rt rq predictive ?sms (take k cands) = Inr s"
    using ch by (auto simp: choose_candidate_def res_simps Let_def)
  obtain pre post me where p: "take k cands = pre @ s_cand s # post"
    and h: "hint_call rt rq predictive ?sms (s_cand s)
         = Inr (s_tile_num s, s_wave_num s, s_nominal s, me, True, s_hint s, s_effective s)"
    and s: "s_compute_sms s = ?sms"
    using try_candidates_first [OF t] by blast
  have "s_cand s \<in> set cands" using p by (metis in_set_conv_decomp in_set_takeD)
  moreover have "set cands \<subseteq> set loaded"
    using f by (auto simp: filter_candidates_by_algo_id_def Let_def split: option.splits if_splits)
  ultimately have "positive_candidate (s_cand s)" using cs l by (auto simp: positive_config_def)
  then show ?thesis using hint_call_sound [OF rq _ sms h s] by simp
qed

section \<open>Valid solutions\<close>

definition valid_solution :: "solution \<Rightarrow> bool" where
  "valid_solution d \<longleftrightarrow>
     (\<exists>t. tile_count (sol_M d) (sol_N d) (cBM (sol_cand d)) (cBN (sol_cand d)) = Inr t
        \<and> sum_list (sol_cSeg d) = t \<and> (\<forall>x \<in> set (sol_cSeg d). 0 < x)
        \<and> sol_full_tile_order d = sol_hint d @ sol_unstable_tail d
        \<and> order_map t (sol_full_tile_order d) (sol_reorder_map d)
        \<and> reorder_indices t (sol_hint d) = Inr (sol_reorder_map d))"

lemma save_solution_None: "save_solution rt rq c hint None path predicted searched \<noteq> Inr files"
  by (auto simp: save_solution_def res_simps)

lemma save_solution_valid:
  assumes s: "sound_selection rq sms s"
    and seg: "sum_list cSeg = s_tile_num s" "\<forall>x \<in> set cSeg. 0 < x"
    and sv: "save_solution rt rq (s_cand s) (s_hint s) (Some cSeg) path predicted searched = Inr files"
    and "(p, d) \<in> set files"
  shows "valid_solution d \<and> sol_cSeg d = cSeg \<and> sol_predicted d = predicted \<and> sol_hint d = s_hint s
         \<and> sol_cand d = s_cand s"
proof -
  let ?t = "s_tile_num s" and ?h = "s_hint s"
  have t: "tile_count (rq_M rq) (rq_N rq) (cBM (s_cand s)) (cBN (s_cand s)) = Inr ?t"
    and hs: "hint_sound (?t, ?h)" using s by (simp_all add: sound_selection_def)
  then have dist: "distinct ?h" and ran: "\<And>x. x \<in> set ?h \<Longrightarrow> 0 \<le> x \<and> x < ?t"
    by (auto simp: hint_sound_def hint_in_range_def)
  obtain order m tail where b: "build_full_order_and_reorder_map ?t ?h = Inr (order, m, tail)"
    using sv t by (auto simp: save_solution_def res_simps)
  then have d: "sol_M d = rq_M rq" "sol_N d = rq_N rq" "sol_cand d = s_cand s" "sol_cSeg d = cSeg"
    "sol_hint d = ?h" "sol_unstable_tail d = tail" "sol_full_tile_order d = order" "sol_reorder_map d = m"
    "sol_predicted d = predicted"
    using sv t assms(5) by (auto simp: save_solution_def Let_def split: if_splits)
  note bo = build_order_map [OF b]
  have "reorder_indices ?t ?h = Inr m"
    using b ran reorder_indices_eq(1) [OF dist ran] by (auto simp: build_eq)
  moreover have "order = ?h @ tail" using bo(1,3) hint_order_distinct [OF dist] by simp
  ultimately show ?thesis using t seg bo(2) by (simp add: valid_solution_def d)
qed

lemma expansion_of_search:
  assumes "0 < sms" "0 < g" "0 < t" and "us \<in> set (integer_partitions (ceil_div (ceil_div t sms) g))"
  shows "sum_list (expand_partition_to_cseg us sms g t) = t
         \<and> (\<forall>x \<in> set (expand_partition_to_cseg us sms g t). 0 < x)"
  using assms by (intro expand_partition_contract) (simp add: valid_expansion_def search_units_def)

text \<open>What a predictive search that returns has done.\<close>

lemma fast_search_unfold:
  assumes fs: "fast_search rt rq cfg comm_array bp = Inr files"
    and rq: "positive_request rq"
    and cs: "positive_config cfg"
    and sms: "0 < compute_sms_from_slack (sm_count rt) (rq_slack rq)"
  shows "\<exists>s cSeg best searched us.
     choose_candidate rt rq True cfg = Inr s
     \<and> sound_selection rq (compute_sms_from_slack (sm_count rt) (rq_slack rq)) s
     \<and> us \<in> set (integer_partitions (ceil_div (s_wave_num s) (s_effective s))) \<and> \<not> cold_start_skip us
     \<and> cSeg = expand_partition_to_cseg us (s_compute_sms s) (s_effective s) (s_tile_num s)
     \<and> best_of (\<lambda>seg. predict_lat (machine.truncate rt) (rq_M rq) (rq_N rq) (cdur (s_cand s)) comm_array seg
                    (s_tile_num s) (rq_comm_op rq) (rq_slack rq))
         ((\<lambda>us. expand_partition_to_cseg us (s_compute_sms s) (s_effective s) (s_tile_num s))
            ` {us \<in> set (integer_partitions (ceil_div (s_wave_num s) (s_effective s))). \<not> cold_start_skip us})
         (initial_min, None) (best, Some cSeg)
     \<and> perf_running rt rq (s_cand s) cSeg (s_hint s) = Inr searched
     \<and> save_solution rt rq (s_cand s) (s_hint s) (Some cSeg) bp (Some best) (Some searched) = Inr files"
proof -
  obtain s where s: "choose_candidate rt rq True cfg = Inr s"
    using fs by (auto simp: fast_search_def res_simps)
  note ss = choose_candidate_sound [OF s rq cs sms]
  let ?expand = "\<lambda>us. expand_partition_to_cseg us (s_compute_sms s) (s_effective s) (s_tile_num s)"
  let ?predict = "\<lambda>seg. predict_lat (machine.truncate rt) (rq_M rq) (rq_N rq) (cdur (s_cand s)) comm_array seg
                    (s_tile_num s) (rq_comm_op rq) (rq_slack rq)"
  let ?parts = "integer_partitions (ceil_div (s_wave_num s) (s_effective s))"
  have eff: "s_effective s \<noteq> 0" using ss by (simp add: sound_selection_def)
  obtain best b where l: "fast_loop ?expand ?predict ?parts (initial_min, None) = Inr (best, b)"
    using fs s eff by (auto simp: fast_search_def res_simps Let_def)
  obtain cSeg where b: "b = Some cSeg"
    using fs s eff l by (cases b) (auto simp: fast_search_def Let_def)
  have bo: "best_of ?predict (?expand ` {us \<in> set ?parts. \<not> cold_start_skip us}) (initial_min, None) (best, Some cSeg)"
    using fast_loop_best [OF l] b by simp
  obtain us where us: "us \<in> set ?parts" "\<not> cold_start_skip us" "cSeg = ?expand us"
    using best_of_found [OF bo] by blast
  obtain searched where "perf_running rt rq (s_cand s) cSeg (s_hint s) = Inr searched"
    and "save_solution rt rq (s_cand s) (s_hint s) (Some cSeg) bp (Some best) (Some searched) = Inr files"
    using fs s eff l b by (auto simp: fast_search_def res_simps Let_def)
  then show ?thesis using s ss us bo by blast
qed

lemma fast_search_files_valid:
  assumes fs: "fast_search rt rq cfg comm_array bp = Inr files"
    and rq: "positive_request rq"
    and cs: "positive_config cfg"
    and sms: "0 < compute_sms_from_slack (sm_count rt) (rq_slack rq)"
    and f: "(p, d) \<in> set files"
  shows "valid_solution d"
proof -
  let ?sms = "compute_sms_from_slack (sm_count rt) (rq_slack rq)"
  obtain s cSeg best searched us where ss: "sound_selection rq ?sms s"
    and us: "us \<in> set (integer_partitions (ceil_div (s_wave_num s) (s_effective s)))"
      "cSeg = expand_partition_to_cseg us (s_compute_sms s) (s_effective s) (s_tile_num s)"
    and sv: "save_solution rt rq (s_cand s) (s_hint s) (Some cSeg) bp (Some best) (Some searched) = Inr files"
    using fast_search_unfold [OF fs rq cs sms] by blast
  have "sum_list cSeg = s_tile_num s \<and> (\<forall>x \<in> set cSeg. 0 < x)"
    unfolding us(2) using ss us(1) sms by (intro expansion_of_search) (auto simp: sound_selection_def)
  then show ?thesis using save_solution_valid [OF ss _ _ sv f] by simp
qed

lemma exhaustive_search_files_valid:
  assumes es: "exhaustive_search rt rq cfg = Inr files"
    and rq: "positive_request rq"
    and cs: "positive_config cfg"
    and sms: "0 < compute_sms_from_slack (sm_count rt) (rq_slack rq)"
    and f: "(p, d) \<in> set files"
  shows "valid_solution d"
proof -
  let ?sms = "compute_sms_from_slack (sm_count rt) (rq_slack rq)"
  obtain s where s: "choose_candidate rt rq False cfg = Inr s"
    using es by (auto simp: exhaustive_search_def res_simps)
  note ss = choose_candidate_sound [OF s rq cs sms]
  let ?expand = "\<lambda>us. expand_partition_to_cseg us (s_compute_sms s) 1 (s_tile_num s)"
  obtain best b where l: "exhaustive_loop ?expand (\<lambda>gp. perf_running rt rq (s_cand s) gp (s_hint s))
      (integer_partitions (s_wave_num s)) (initial_min, None) = Inr (best, b)"
    using es s by (auto simp: exhaustive_search_def res_simps Let_def)
  obtain cSeg where b: "b = Some cSeg"
    using es s l by (cases b) (auto simp: exhaustive_search_def Let_def save_solution_None)
  obtain us where us: "us \<in> set (integer_partitions (s_wave_num s))" "cSeg = ?expand us"
    using exhaustive_loop_best [OF l] best_of_found unfolding b by blast
  have sv: "save_solution rt rq (s_cand s) (s_hint s) (Some cSeg) '''' None (Some best) = Inr files"
    using es s l b by (auto simp: exhaustive_search_def Let_def)
  have "sum_list cSeg = s_tile_num s \<and> (\<forall>x \<in> set cSeg. 0 < x)"
    unfolding us(2) using ss us(1) sms by (intro expansion_of_search) (auto simp: sound_selection_def)
  then show ?thesis using save_solution_valid [OF ss _ _ sv f] by simp
qed

lemma run_for_backend_files_valid:
  assumes "run_for_backend rt args curves predictive cfg rq = Inr files"
    and "positive_request rq"
    and "positive_config cfg"
    and "0 < compute_sms_from_slack (sm_count rt) (rq_slack rq)"
    and "(p, d) \<in> set files"
  shows "valid_solution d"
  using assms fast_search_files_valid [OF _ assms(2,3,4,5)] exhaustive_search_files_valid [OF _ assms(2,3,4,5)]
  by (auto simp: run_for_backend_def res_simps split: if_splits prod.splits)

lemma run_backends_files:
  "f \<in> set (fst (run_backends run bs)) \<Longrightarrow> \<exists>b ws. b \<in> set bs \<and> run b = Inr ws \<and> f \<in> set ws"
  by (induction bs) (auto split: sum.splits prod.splits simp: case_prod_unfold Let_def)

lemma search_main_files_valid:
  assumes f: "(p, d) \<in> set (fst (search_main rt args curves predictive cfg rq))"
    and rq: "positive_request rq" and cs: "positive_config cfg"
    and sms: "0 < compute_sms_from_slack (sm_count rt) (rq_slack rq)"
  shows "valid_solution d"
proof -
  obtain b w where b: "run_for_backend rt args curves predictive cfg (rq\<lparr>rq_backend := b\<rparr>) = Inr w"
    and w: "(p, d) \<in> set w"
    using f by (auto simp: search_main_def dest!: run_backends_files simp del: run_backends.simps split: if_splits)
  show ?thesis
    by (rule run_for_backend_files_valid [OF b _ cs _ w]) (use rq sms in \<open>simp_all add: positive_request_def\<close>)
qed

section \<open>Optimality\<close>

definition search_expansion :: "selection \<Rightarrow> int list \<Rightarrow> int list" where
  "search_expansion s us = expand_partition_to_cseg us (s_compute_sms s) (s_effective s) (s_tile_num s)"

definition search_prediction :: "runtime \<Rightarrow> request \<Rightarrow> (real \<times> real) list \<Rightarrow> selection \<Rightarrow> int list \<Rightarrow> real res" where
  "search_prediction rt rq comm_array s cSeg =
     predict_lat (machine.truncate rt) (rq_M rq) (rq_N rq) (cdur (s_cand s)) comm_array cSeg
       (s_tile_num s) (rq_comm_op rq) (rq_slack rq)"

lemma set_integer_partitions: "us \<in> set (integer_partitions n) \<longleftrightarrow> composition n us"
  using set_rec_partitions [of "nat n"] composition_nonneg [of n us]
  by (cases "n < 0") (auto simp: integer_partitions_def)

lemma best_of_le: "best_of time segs start result \<Longrightarrow> seg \<in> segs \<Longrightarrow> \<exists>e. time seg = Inr e \<and> fst result \<le> e"
  by (auto simp: best_of_def)

lemma fast_search_optimal:
  assumes fs: "fast_search rt rq cfg comm_array curve = Inr files"
    and rq: "positive_request rq" and cs: "positive_config cfg"
    and sms: "0 < compute_sms_from_slack (sm_count rt) (rq_slack rq)"
  shows "\<exists>s best cSeg. choose_candidate rt rq True cfg = Inr s
    \<and> (\<forall>(p, d) \<in> set files. sol_cSeg d = cSeg \<and> sol_predicted d = Some best)
    \<and> search_prediction rt rq comm_array s cSeg = Inr best
    \<and> (\<forall>us. composition (ceil_div (s_wave_num s) (s_effective s)) us \<and> \<not> cold_start_skip us \<longrightarrow>
         (\<exists>e. search_prediction rt rq comm_array s (search_expansion s us) = Inr e \<and> best \<le> e))"
proof -
  let ?sms = "compute_sms_from_slack (sm_count rt) (rq_slack rq)"
  obtain s cSeg best searched us where s: "choose_candidate rt rq True cfg = Inr s"
    and ss: "sound_selection rq ?sms s"
    and us: "us \<in> set (integer_partitions (ceil_div (s_wave_num s) (s_effective s)))" "cSeg = search_expansion s us"
    and bo: "best_of (search_prediction rt rq comm_array s) (search_expansion s `
        {us \<in> set (integer_partitions (ceil_div (s_wave_num s) (s_effective s))). \<not> cold_start_skip us})
        (initial_min, None) (best, Some cSeg)"
    and sv: "save_solution rt rq (s_cand s) (s_hint s) (Some cSeg) curve (Some best) (Some searched) = Inr files"
    using fast_search_unfold [OF fs rq cs sms]
    unfolding search_expansion_def [symmetric] search_prediction_def [symmetric] by blast
  have seg: "sum_list cSeg = s_tile_num s" "\<forall>x \<in> set cSeg. 0 < x"
    using ss us(1) sms expansion_of_search [of ?sms "s_effective s" "s_tile_num s" us]
    unfolding us(2) search_expansion_def by (auto simp: sound_selection_def)
  have "\<forall>(p, d) \<in> set files. sol_cSeg d = cSeg \<and> sol_predicted d = Some best"
    using save_solution_valid [OF ss seg sv] by auto
  then show ?thesis
    using s best_of_found [OF bo] best_of_le [OF bo]
    by (intro exI [of _ s] exI [of _ best] exI [of _ cSeg]) (auto simp: set_integer_partitions)
qed

lemma exhaustive_search_optimal:
  assumes es: "exhaustive_search rt rq cfg = Inr files"
    and rq: "positive_request rq" and cs: "positive_config cfg"
    and sms: "0 < compute_sms_from_slack (sm_count rt) (rq_slack rq)"
  shows "\<exists>s best cSeg. choose_candidate rt rq False cfg = Inr s
    \<and> (\<forall>(p, d) \<in> set files. sol_cSeg d = cSeg \<and> sol_searched d = Some best)
    \<and> perf_running rt rq (s_cand s) cSeg (s_hint s) = Inr best
    \<and> (\<forall>us. composition (s_wave_num s) us \<longrightarrow>
         (\<exists>e. perf_running rt rq (s_cand s)
                (expand_partition_to_cseg us (s_compute_sms s) 1 (s_tile_num s)) (s_hint s) = Inr e \<and> best \<le> e))"
proof -
  let ?sms = "compute_sms_from_slack (sm_count rt) (rq_slack rq)"
  obtain s where s: "choose_candidate rt rq False cfg = Inr s"
    using es by (auto simp: exhaustive_search_def res_simps)
  note ss = choose_candidate_sound [OF s rq cs sms]
  let ?expand = "\<lambda>us. expand_partition_to_cseg us (s_compute_sms s) 1 (s_tile_num s)"
  let ?run = "\<lambda>gp. perf_running rt rq (s_cand s) gp (s_hint s)"
  obtain best b where l: "exhaustive_loop ?expand ?run (integer_partitions (s_wave_num s)) (initial_min, None)
      = Inr (best, b)"
    using es s by (auto simp: exhaustive_search_def res_simps Let_def)
  obtain cSeg where b: "b = Some cSeg"
    using es s l by (cases b) (auto simp: exhaustive_search_def Let_def save_solution_None)
  note bo = exhaustive_loop_best [OF l, unfolded b]
  have sv: "save_solution rt rq (s_cand s) (s_hint s) (Some cSeg) '''' None (Some best) = Inr files"
    using es s l b by (auto simp: exhaustive_search_def Let_def)
  have "\<forall>(p, d) \<in> set files. sol_cSeg d = cSeg \<and> sol_searched d = Some best"
    using sv by (auto simp: save_solution_def res_simps Let_def split: if_splits)
  then show ?thesis
    using s best_of_found [OF bo] best_of_le [OF bo]
    by (intro exI [of _ s] exI [of _ best] exI [of _ cSeg]) (auto simp: set_integer_partitions)
qed

lemma choose_candidate_first:
  assumes "choose_candidate rt rq predictive (Inr loaded) = Inr s"
  shows "\<exists>cands k pre post. filter_candidates_by_algo_id loaded (rq_algo_id rq) = Inr cands
    \<and> k = candidate_count (int (length cands))
            (if predictive then DEFAULT_PREDICTIVE_ALGOS else DEFAULT_EXHAUSTIVE_ALGOS) (rq_algo_id rq)
    \<and> take (nat k) cands = pre @ s_cand s # post
    \<and> accepted rt rq predictive (s_compute_sms s) (s_cand s)
    \<and> (\<forall>c \<in> set pre. \<not> accepted rt rq predictive (s_compute_sms s) c)"
proof -
  obtain cands where f: "filter_candidates_by_algo_id loaded (rq_algo_id rq) = Inr cands"
    and t: "try_candidates rt rq predictive (compute_sms_from_slack (sm_count rt) (rq_slack rq))
      (take (nat (candidate_count (int (length cands))
        (if predictive then DEFAULT_PREDICTIVE_ALGOS else DEFAULT_EXHAUSTIVE_ALGOS) (rq_algo_id rq))) cands) = Inr s"
    using assms by (auto simp: choose_candidate_def Let_def elim!: bind_resE)
  show ?thesis
    using f try_candidates_first [OF t] by (fastforce simp: accepted_def)
qed

section \<open>Progress\<close>

text \<open>
  A machine on which a candidate's monitored launches always return, with the tiles finished in one
  complete order per rank. On such a machine the first candidate is accepted.
\<close>

definition steady_machine :: "runtime \<Rightarrow> request \<Rightarrow> candidate \<Rightarrow> int \<Rightarrow> bool" where
  "steady_machine rt rq c tile_num \<longleftrightarrow>
     (\<forall>rank < nat (world_size rt). \<forall>s. \<exists>order.
        steady (hint_ops rt (cAlgo c) rank) (rq_comm_op rq) (nat tile_num) s order)
     \<and> (rq_comm_op rq = ''reduce_scatter'' \<longrightarrow>
          cBM c dvd rq_M rq \<and> cBN c dvd rq_N rq \<and> stable_sort_spec (argsort rt))"

lemma steady_row_array:
  assumes "steady_machine rt rq c t" and "positive_request rq" "positive_candidate c"
    and t: "tile_count (rq_M rq) (rq_N rq) (cBM c) (cBN c) = Inr t"
    and cSeg: "sum_list cSeg = t" "\<forall>x \<in> set cSeg. 0 < x"
  shows "\<exists>ro. row_array (argsort rt) (uninit_row rt) (world_size rt) (rq_comm_op rq) (rq_M rq) (rq_N rq)
           (cBM c) (cBN c) cSeg = Inr ro"
proof (cases "rq_comm_op rq = ''reduce_scatter''")
  case True
  then have dv: "cBM c dvd rq_M rq" "cBN c dvd rq_N rq" "stable_sort_spec (argsort rt)"
    and pos: "0 < cBM c" "0 < cBN c" "0 \<le> rq_M rq" "0 \<le> rq_N rq"
    using assms(1-3) by (simp_all add: steady_machine_def positive_request_def positive_candidate_def)
  have "t = (rq_M rq div cBM c) * (rq_N rq div cBN c)"
    using t pos dv by (simp add: tile_count_pos ceil_div_dvd)
  then show ?thesis
    using generate_row_remap_array_correct [OF dv(3) pos dv(1,2), of cSeg "uninit_row rt" "world_size rt"]
      cSeg True by (fastforce simp: row_array_def dest: less_imp_le)
next
  case False
  then show ?thesis by (simp add: row_array_def)
qed

definition known_backend :: "string \<Rightarrow> bool" where
  "known_backend b \<longleftrightarrow> b = ''nccl'' \<or> b = ''ooverlap''"

lemma init_known_backend: "known_backend b \<longleftrightarrow> (\<exists>i. init_overlap_backend b = Inr i)"
  by (auto simp: known_backend_def init_overlap_backend_def)

lemma group_sizes_default:
  assumes "0 < w" and "0 < sms"
  shows "\<exists>g me. group_sizes predictive w sms None None = Inr (g, me, g * sms)
           \<and> 0 < g \<and> 1 \<le> me \<and> me \<le> g \<and> g \<le> w"
proof -
  have "0 < ceil_div w 10" using assms by (simp add: ceil_div_pos)
  moreover have "ceil_div w 10 \<le> w" using ceil_div_lower [of 10 w] assms by simp
  ultimately show ?thesis using assms by (cases predictive) (auto simp: group_sizes_def Let_def)
qed

lemma steady_compute_hint:
  assumes sm: "steady_machine rt rq c t" and rq: "positive_request rq" and c: "positive_candidate c"
    and t: "tile_count (rq_M rq) (rq_N rq) (cBM c) (cBN c) = Inr t"
    and pos: "0 < t" "0 < sms" "0 < g" and me: "me \<le> min g (ceil_div t sms)"
    and w: "2 \<le> world_size rt" and b: "known_backend (rq_backend rq)"
  shows "\<exists>hint eff. compute_hint rt rq c (g * sms) sms g me confirm = Inr (True, hint, eff)
           \<and> set hint = {0..<t} \<and> min g (ceil_div t sms) \<le> eff"
proof -
  let ?body = "\<lambda>rank. hint_worker_body (hint_env rt (cAlgo c) rank) (rq_backend rq) (rq_comm_op rq) (rq_M rq) (rq_N rq)
                 (cBM c) (cBN c) (g * sms) sms g me confirm"
  obtain i where i: "init_overlap_backend (rq_backend rq) = Inr i" using b init_known_backend by blast
  have n: "int (nat t) = t" using pos by simp
  obtain cSeg where cSeg: "hint_windows t (g * sms) = Inr cSeg" "sum_list cSeg = t" "\<forall>x \<in> set cSeg. 0 < x"
    using windows.segs_contract [of "(t, g * sms)"] pos by auto
  obtain ro where ro: "row_array (argsort rt) (uninit_row rt) (world_size rt) (rq_comm_op rq) (rq_M rq) (rq_N rq)
      (cBM c) (cBN c) cSeg = Inr ro" using steady_row_array [OF sm rq c t cSeg(2,3)] by blast
  have body: "\<exists>hint eff. ?body rank = Inr (True, hint, eff) \<and> set hint = {0..<t}
                \<and> min g (ceil_div t sms) \<le> eff" if "rank < nat (world_size rt)" for rank
  proof -
    have env: "launch_ops.truncate (hint_env rt (cAlgo c) rank) = hint_ops rt (cAlgo c) rank"
      "we_sort (hint_env rt (cAlgo c) rank) = argsort rt" "we_uninit (hint_env rt (cAlgo c) rank) = uninit_row rt"
      "we_world (hint_env rt (cAlgo c) rank) = world_size rt"
      by (simp_all add: hint_env_def launch_ops.defs worker_env.defs)
    obtain order where st: "steady (launch_ops.truncate (hint_env rt (cAlgo c) rank)) (rq_comm_op rq) (nat t) (length cSeg) order"
      unfolding env using sm \<open>rank < _\<close> by (auto simp: steady_machine_def)
    have "?body rank = compute_stable_hint_from_rounds
        (replicate (if confirm then 2 else 1) (replicate 10 order)) (int (nat t)) (g * sms) sms g me"
      by (rule steady_worker [OF _ _ i _ st]) (use pos in \<open>simp_all add: t cSeg env ro\<close>)
    moreover have "(if confirm then 2 else 1 :: nat) \<noteq> 0" by simp
    ultimately show ?thesis
      using steady_hint [of order "nat t" sms g 10 "if confirm then 2 else 1" me] st pos me n
      by (simp add: steady_def env)
  qed
  define r where "r rank = (THE v. ?body rank = Inr v)" for rank
  have r: "?body rank = Inr (r rank)" if "rank < nat (world_size rt)" for rank
    using body [OF that] by (auto simp: r_def)
  have "map_res ?body
          [0..<nat (world_size rt)] = Inr (map r [0..<nat (world_size rt)])"
    by (rule map_res_total) (use r in simp)
  then have "compute_hint rt rq c (g * sms) sms g me confirm = Inr (r 0)"
    using w by (simp add: compute_hint_def nth_upt)
  then show ?thesis using body [of 0] r [of 0] w by simp
qed

lemma steady_choose:
  assumes f: "filter_candidates_by_algo_id loaded (rq_algo_id rq) = Inr (c # cs)"
    and t: "tile_count (rq_M rq) (rq_N rq) (cBM c) (cBN c) = Inr t" and pos: "0 < t"
    and sms: "0 < compute_sms_from_slack (sm_count rt) (rq_slack rq)"
    and o: "rq_min_group rq = None" "rq_min_effective rq = None"
    and sm: "steady_machine rt rq c t" and rq: "positive_request rq" and c: "positive_candidate c"
    and w: "2 \<le> world_size rt" and b: "known_backend (rq_backend rq)"
  shows "\<exists>s. choose_candidate rt rq predictive (Inr loaded) = Inr s \<and> s_cand s = c \<and> s_tile_num s = t
           \<and> set (s_hint s) = {0..<t}"
proof -
  let ?sms = "compute_sms_from_slack (sm_count rt) (rq_slack rq)"
  let ?w = "ceil_div t ?sms"
  have wp: "0 < ?w" using pos sms by (rule ceil_div_pos [rotated])
  obtain g me where g: "group_sizes predictive ?w ?sms None None = Inr (g, me, g * ?sms)"
    and gp: "0 < g" "1 \<le> me" "me \<le> g" "g \<le> ?w"
    using group_sizes_default [OF wp sms] by blast
  obtain hint eff where h: "compute_hint rt rq c (g * ?sms) ?sms g me (predictive \<and> rq_confirm rq)
      = Inr (True, hint, eff)" and hs: "set hint = {0..<t}"
    using steady_compute_hint [OF sm rq c t pos sms gp(1) _ w b] gp by (meson min.boundedI order_trans)
  have "take (nat (candidate_count (int (length (c # cs))) d (rq_algo_id rq))) (c # cs)
      = c # take (nat (candidate_count (int (length (c # cs))) d (rq_algo_id rq)) - 1) cs"
    if "1 \<le> d" for d
    using that by (cases "nat (candidate_count (int (length (c # cs))) d (rq_algo_id rq))")
      (auto simp: candidate_count_def split: option.splits)
  then show ?thesis
    using f t g h hs sms o
    by (simp add: choose_candidate_def Let_def DEFAULT_EXHAUSTIVE_ALGOS_def DEFAULT_PREDICTIVE_ALGOS_def
        del: take_Suc_Cons)
qed

end
