(* ===== verification/SearchDemo.thy ===== *)
theory SearchDemo
  imports SearchCorrect
begin

text \<open>
  A small machine to evaluate the search on: two GPUs with two SMs, a 4 by 2 problem cut into
  four tiles that always finish in the order of their numbers, a curve of constant bandwidth and
  timed runs that take as long as the segmentation has segments.
\<close>

definition demo_launch :: "nat \<Rightarrow> int list \<Rightarrow> int list res" where
  "demo_launch i MM = Inr (if length MM < 4 then MM else take (length MM - 4) MM @ [0, 1, 2, 3])"

definition demo_ops :: launch_ops where
  "demo_ops = \<lparr>gemm_allreduce_overlap = demo_launch, gemm_reducescatter_overlap = demo_launch\<rparr>"

definition demo_runtime :: runtime where
  "demo_runtime = \<lparr>np_interp = (\<lambda>x _ _. 1), world_size = 2, sm_count = 2, hint_ops = (\<lambda>_ _. demo_ops),
     timed_run = (\<lambda>_ _ _ cSeg _. Inr [of_nat (length cSeg), of_nat (length cSeg)]),
     argsort = (\<lambda>xs. [0..<length xs]), uninit_row = (\<lambda>_. 0), gpu_name = ''h100''\<rparr>"

definition demo_request :: request where
  "demo_request = \<lparr>rq_M = 4, rq_N = 2, rq_K = 8, rq_comm_op = ''all_reduce'', rq_slack = 0,
     rq_backend = ''nccl'', rq_algo_id = None, rq_min_group = None, rq_min_effective = None,
     rq_confirm = True, rq_write_legacy = False\<rparr>"

definition demo_candidate :: candidate where
  "demo_candidate = \<lparr>cBM = 2, cBN = 1, cdur = 1, cAlgo = 0\<rparr>"

definition demo_selection :: selection where
  "demo_selection = \<lparr>s_cand = demo_candidate, s_tile_num = 4, s_wave_num = 2, s_hint = [0, 1, 2, 3],
     s_effective = 1, s_nominal = 1, s_compute_sms = 2\<rparr>"

lemmas demo_defs = demo_runtime_def demo_request_def demo_candidate_def demo_selection_def
  compute_sms_from_slack_def

lemma demo_steady: "steady demo_ops ''all_reduce'' 4 s [0, 1, 2, 3]"
proof -
  have "{0..<int 4} = {0, 1, 2, 3}" by auto
  then show ?thesis
    by (auto simp: steady_def launch_def demo_ops_def demo_launch_def monitor_size_def
        monitor_order_view_def slice_def Let_def)
qed

lemma demo_steady_machine: "steady_machine demo_runtime demo_request demo_candidate 4"
  using demo_steady by (auto simp: steady_machine_def demo_runtime_def demo_request_def)

lemma demo_windows: "hint_windows 4 2 = Inr [2, 2]"
  by code_simp

lemma demo_stable:
  "compute_stable_hint_from_rounds (replicate (if b then 2 else 1) (replicate 10 [0, 1, 2, 3])) 4 2 2 1 1
     = Inr (True, [0, 1, 2, 3], 1)"
  by (cases b) (simp_all, code_simp+)

definition demo_env :: worker_env where
  "demo_env = launch_ops.extend demo_ops (worker_env.fields (\<lambda>xs. [0..<length xs]) (\<lambda>_. 0) 2)"

lemma demo_env_ops: "launch_ops.truncate demo_env = demo_ops" "hint_env demo_runtime algo rank = demo_env"
  by (simp_all add: demo_env_def hint_env_def demo_runtime_def launch_ops.defs worker_env.defs)

lemma demo_row_array: "row_array sort_idx uninit ws ''all_reduce'' M N BM BN cSeg = Inr None"
  by (simp add: row_array_def)

lemma demo_worker:
  "hint_worker_body demo_env ''nccl'' ''all_reduce'' 4 2 2 1 2 2 1 1 b = Inr (True, [0, 1, 2, 3], 1)"
proof -
  have "tile_count 4 2 2 1 = Inr 4" by code_simp
  moreover have "init_overlap_backend ''nccl'' = Inr NcclInit" by (simp add: init_overlap_backend_def)
  ultimately show ?thesis
    using steady_worker [of 4 2 2 1 4 2 "[2, 2]" "''nccl''" NcclInit demo_env "''all_reduce''" None "[0, 1, 2, 3]"
        2 1 1 b] demo_windows demo_steady demo_stable by (simp add: demo_env_ops demo_row_array)
qed

lemma demo_hint: "compute_hint demo_runtime demo_request demo_candidate 2 2 1 1 b = Inr (True, [0, 1, 2, 3], 1)"
  using demo_worker [of b] by (simp add: compute_hint_def demo_env_ops)
    (simp add: demo_defs upt_rec numeral_2_eq_2)

lemma demo_choose: "choose_candidate demo_runtime demo_request True (Inr [demo_candidate]) = Inr demo_selection"
proof -
  have "tile_count 4 2 2 1 = Inr 4" and "ceil_div 4 2 = 2" and "ceil_div 2 10 = 1" by code_simp+
  then show ?thesis
    using demo_hint [of True]
    by (simp add: choose_candidate_def filter_candidates_by_algo_id_def candidate_count_def
        DEFAULT_PREDICTIVE_ALGOS_def group_sizes_def demo_defs)
qed

lemma demo_positive: "positive_request demo_request" "positive_config (Inr [demo_candidate])"
  "0 < compute_sms_from_slack (sm_count demo_runtime) (rq_slack demo_request)"
  by (simp_all add: positive_request_def positive_config_def positive_candidate_def demo_defs)

lemma demo_partitions: "integer_partitions 2 = [[1, 1], [2]]"
  by code_simp

lemma demo_expand:
  "expand_partition_to_cseg [1, 1] 2 1 4 = [2, 2]" "expand_partition_to_cseg [2] 2 1 4 = [4]"
  by code_simp+

definition demo_predict :: "int list \<Rightarrow> real res" where
  "demo_predict seg = predict_lat (machine.truncate demo_runtime) 4 2 1 [(1, 1)] seg 4 ''all_reduce'' 0"

lemma demo_predictions:
  "demo_predict [2, 2] = Inr (1 + 16000 / 1024 ^ 3)" "demo_predict [4] = Inr (1 + 32000 / 1024 ^ 3)"
  by (simp_all add: demo_predict_def predict_lat_def machine.truncate_def demo_runtime_def
      comm_latency_def interpolate_latency_def compute_sms_from_slack_def Let_def ceil_div_def
      py_get_def py_index_def max_def)

lemma demo_tiles: "tile_count 4 2 2 1 = Inr 4"
  by code_simp

lemma demo_order: "build_full_order_and_reorder_map 4 [0, 1, 2, 3] = Inr ([0, 1, 2, 3], [0, 1, 2, 3], [])"
  by code_simp

lemma demo_indices: "reorder_indices 4 [0, 1, 2, 3] = Inr [0, 1, 2, 3]"
  by code_simp

lemma demo_perf: "perf_running demo_runtime demo_request demo_candidate seg [0, 1, 2, 3] = Inr (of_nat (length seg))"
  by (simp add: perf_running_def perf_worker_body_def demo_defs demo_tiles demo_indices
      row_array_def init_overlap_backend_def mean_def upt_rec numeral_2_eq_2)

definition demo_solution :: "string \<Rightarrow> real option \<Rightarrow> real option \<Rightarrow> int list \<Rightarrow> solution" where
  "demo_solution curve predicted searched seg =
     \<lparr>sol_M = 4, sol_N = 2, sol_K = 8, sol_world_size = 2, sol_backend = ''nccl'', sol_comm_op = ''all_reduce'',
      sol_bandwidth_path = curve, sol_predicted = predicted, sol_searched = searched,
      sol_hint = [0, 1, 2, 3], sol_hint_stable_count = 4, sol_unstable_tail_count = 0,
      sol_unstable_tail = [], sol_full_tile_order = [0, 1, 2, 3], sol_reorder_map = [0, 1, 2, 3],
      sol_cSeg = seg, sol_rLDN = 1, sol_cand = demo_candidate, sol_sm_count = 2, sol_slack = 0,
      sol_compute_sms = 2\<rparr>"

definition demo_path :: string where
  "demo_path = ''solution_nccl_m4n2k8_h100_tp2_packed_sm90.json''"

lemma demo_paths: "solution_json_path demo_runtime 4 2 8 ''nccl'' = demo_path"
  by code_simp

lemma demo_save:
  "save_solution demo_runtime demo_request demo_candidate [0, 1, 2, 3] (Some seg) curve predicted searched
     = Inr [(demo_path, demo_solution curve predicted searched seg)]"
  using demo_paths
  by (simp add: save_solution_def demo_tiles demo_order demo_defs demo_solution_def Let_def)

lemma demo_selectors [simp]:
  "s_cand demo_selection = demo_candidate" "s_tile_num demo_selection = 4" "s_wave_num demo_selection = 2"
  "s_hint demo_selection = [0, 1, 2, 3]" "s_effective demo_selection = 1" "s_compute_sms demo_selection = 2"
  "rq_M demo_request = 4" "rq_N demo_request = 2" "rq_comm_op demo_request = ''all_reduce''"
  "rq_slack demo_request = 0" "cdur demo_candidate = 1"
  by (simp_all add: demo_defs)

lemma demo_fast_search:
  "fast_search demo_runtime demo_request (Inr [demo_candidate]) [(1, 1)] curve
     = Inr [(demo_path, demo_solution curve (Some (1 + 16000 / 1024 ^ 3)) (Some 2) [2, 2])]"
proof -
  let ?expand = "\<lambda>us. expand_partition_to_cseg us 2 1 4"
  let ?predict = "\<lambda>seg. predict_lat (machine.truncate demo_runtime) 4 2 1 [(1, 1)] seg 4 ''all_reduce'' 0"
  have "fast_loop ?expand ?predict [[1, 1], [2]] (initial_min, None) = Inr (1 + 16000 / 1024 ^ 3, Some [2, 2])"
    unfolding demo_predict_def [symmetric]
    by (simp add: cold_start_skip_def demo_expand demo_predictions keep_best_def initial_min_def)
  then show ?thesis
    by (simp add: fast_search_def demo_choose demo_partitions demo_perf demo_save del: fast_loop.simps)
qed

lemma demo_choose_exhaustive:
  "choose_candidate demo_runtime demo_request False (Inr [demo_candidate]) = Inr demo_selection"
proof -
  have "tile_count 4 2 2 1 = Inr 4" and "ceil_div 4 2 = 2" by code_simp+
  then show ?thesis
    using demo_hint [of False]
    by (simp add: choose_candidate_def filter_candidates_by_algo_id_def candidate_count_def
        DEFAULT_EXHAUSTIVE_ALGOS_def group_sizes_def demo_defs)
qed

lemma demo_exhaustive_search:
  "exhaustive_search demo_runtime demo_request (Inr [demo_candidate])
     = Inr [(demo_path, demo_solution '''' None (Some 1) [4])]"
proof -
  have "exhaustive_loop (\<lambda>us. expand_partition_to_cseg us 2 1 4)
      (\<lambda>gp. perf_running demo_runtime demo_request demo_candidate gp [0, 1, 2, 3])
      [[1, 1], [2]] (initial_min, None) = Inr (1, Some [4])"
    by (simp add: demo_expand demo_perf keep_best_def initial_min_def)
  then show ?thesis
    by (simp add: exhaustive_search_def demo_choose_exhaustive demo_partitions demo_save Let_def
        del: exhaustive_loop.simps)
qed

definition demo_args :: bandwidth_args where
  "demo_args = \<lparr>nccl_bandwidth_path = ''curve.pt'', ooverlap_bandwidth_path = '''', bandwidth_path = '''',
     arg_comm_backend = ''nccl''\<rparr>"

lemma demo_main:
  "search_main demo_runtime demo_args [''curve.pt'' \<mapsto> [(1, 1)]] True (Inr [demo_candidate]) demo_request
     = ([(demo_path, demo_solution ''curve.pt'' (Some (1 + 16000 / 1024 ^ 3)) (Some 2) [2, 2])], Inr ())"
proof -
  have same: "demo_request\<lparr>rq_backend := ''nccl''\<rparr> = demo_request" by (simp add: demo_request_def)
  have sel: "world_size demo_runtime = 2" "rq_backend demo_request = ''nccl''"
    by (simp_all add: demo_runtime_def demo_request_def)
  show ?thesis
    by (simp add: search_main_def demo_args_def run_for_backend_def requested_bandwidth_path_def
        load_comm_array_def demo_fast_search same sel)
qed

section \<open>Applications of the properties of the hint search\<close>

theorem collected_samples_complete_witness:
  "\<exists>samples MM'. collect_monitor_samples demo_ops ''all_reduce'' 4 2 0 2 (replicate 11 0) = Inr (samples, MM')
     \<and> length samples = 2 \<and> (\<forall>row \<in> set samples. length row = 4 \<and> (\<forall>x \<in> set row. 0 \<le> x))"
proof -
  have k: "keeps_length demo_ops" by (auto simp: keeps_length_def demo_ops_def demo_launch_def)
  have l: "length (replicate 11 (0::int)) = monitor_size 4 2 True" by (simp add: monitor_size_def)
  obtain MM' where c: "collect_monitor_samples demo_ops ''all_reduce'' 4 2 0 2 (replicate 11 0)
      = Inr (replicate 2 [0, 1, 2, 3], MM')"
    using steady_collect [OF demo_steady [of 2] l, of 0 2] unfolding collect_monitor_samples_def by blast
  from collected_samples_complete [OF k l, where comm_op = "''all_reduce''" and first_launch = 0 and k = 2] c show ?thesis by simp
qed

theorem steady_order_gives_full_hint_witness:
  "\<exists>hint eff. hint_worker_body demo_env ''nccl'' ''all_reduce'' 4 2 2 1 2 2 1 1 True = Inr (True, hint, eff)
     \<and> set hint = {0..<4} \<and> min 1 (ceil_div 4 2) \<le> eff"
proof -
  have "init_overlap_backend ''nccl'' = Inr NcclInit" by (simp add: init_overlap_backend_def)
  then show ?thesis
    using steady_order_gives_full_hint [of 4 2 2 1 4 2 1 "[2, 2]" "''nccl''" NcclInit demo_env "''all_reduce''" None
        "[0, 1, 2, 3]" 1 True] demo_tiles demo_windows demo_steady [of "Suc (Suc 0)"]
    by (simp add: ceil_div_def demo_env_ops demo_row_array)
qed

end
