(* ===== verification/SearchProperties.thy ===== *)
theory SearchProperties
  imports SearchDemo
begin

text \<open>
  The properties of the search as a whole, over the facts of \<open>SearchCorrect\<close>, each applied to the
  machine of \<open>SearchDemo\<close>.
\<close>

text \<open>C1: every file that \<open>main\<close> writes, whichever backends, curves and search mode are asked for and
  whether or not a later backend fails,
  describes a usable run: its segments are positive and add up to the tile count of the problem, its
  full tile order is the hint followed by the tail and lists every tile once, its reorder map is the
  inverse of that order, and it is the very map the search timed.\<close>

theorem search_writes_valid_solutions:
  assumes "(p, d) \<in> set (fst (search_main rt args curves predictive cfg rq))"
    and "positive_request rq" "positive_config cfg"
    and "0 < compute_sms_from_slack (sm_count rt) (rq_slack rq)"
  shows "valid_solution d"
  using assms by (rule search_main_files_valid)

theorem search_writes_valid_solutions_witness:
  "valid_solution (demo_solution ''curve.pt'' (Some (1 + 16000 / 1024 ^ 3)) (Some 2) [2, 2])"
  by (rule search_writes_valid_solutions [OF _ demo_positive, where p = demo_path and args = demo_args
        and curves = "[''curve.pt'' \<mapsto> [(1, 1)]]" and predictive = True]) (simp add: demo_main)

text \<open>C2: a predictive search that returns has chosen a segmentation with the smallest predicted latency
  among the expansions of all partitions of the wave groups that the cold-start rule does not skip,
  writes this prediction into every file, and the prediction is the predictor's value for the
  segmentation in the file.\<close>

theorem fast_search_minimises_prediction:
  assumes "fast_search rt rq cfg comm_array curve = Inr files"
    and "positive_request rq" "positive_config cfg"
    and "0 < compute_sms_from_slack (sm_count rt) (rq_slack rq)"
  shows "\<exists>s best cSeg. choose_candidate rt rq True cfg = Inr s
    \<and> (\<forall>(p, d) \<in> set files. sol_cSeg d = cSeg \<and> sol_predicted d = Some best)
    \<and> search_prediction rt rq comm_array s cSeg = Inr best
    \<and> (\<forall>us. composition (ceil_div (s_wave_num s) (s_effective s)) us \<and> \<not> cold_start_skip us \<longrightarrow>
         (\<exists>e. search_prediction rt rq comm_array s (search_expansion s us) = Inr e \<and> best \<le> e))"
  using assms by (rule fast_search_optimal)

theorem fast_search_minimises_prediction_witness:
  "\<exists>best cSeg. cSeg = [2, 2] \<and> best = 1 + 16000 / 1024 ^ 3
     \<and> search_prediction demo_runtime demo_request [(1, 1)] demo_selection cSeg = Inr best
     \<and> (\<exists>e. search_prediction demo_runtime demo_request [(1, 1)] demo_selection
              (search_expansion demo_selection [2]) = Inr e \<and> best \<le> e)"
proof -
  have c: "composition (ceil_div 2 1) [2]" by code_simp
  have k: "\<not> cold_start_skip [2]" by code_simp
  show ?thesis
    using fast_search_minimises_prediction [OF demo_fast_search demo_positive] c k
    by (fastforce simp: demo_choose demo_solution_def)
qed

text \<open>C36: the exhaustive search keeps the segmentation with the smallest measured time among the expansions
  of all partitions of the waves, and writes that time into every file.\<close>

theorem exhaustive_search_minimises_time:
  assumes "exhaustive_search rt rq cfg = Inr files"
    and "positive_request rq" "positive_config cfg"
    and "0 < compute_sms_from_slack (sm_count rt) (rq_slack rq)"
  shows "\<exists>s best cSeg. choose_candidate rt rq False cfg = Inr s
    \<and> (\<forall>(p, d) \<in> set files. sol_cSeg d = cSeg \<and> sol_searched d = Some best)
    \<and> perf_running rt rq (s_cand s) cSeg (s_hint s) = Inr best
    \<and> (\<forall>us. composition (s_wave_num s) us \<longrightarrow>
         (\<exists>e. perf_running rt rq (s_cand s)
                (expand_partition_to_cseg us (s_compute_sms s) 1 (s_tile_num s)) (s_hint s) = Inr e \<and> best \<le> e))"
  using assms by (rule exhaustive_search_optimal)

theorem exhaustive_search_minimises_time_witness:
  "\<exists>s best cSeg. choose_candidate demo_runtime demo_request False (Inr [demo_candidate]) = Inr s
    \<and> (\<forall>(p, d) \<in> set [(demo_path, demo_solution '''' None (Some 1) [4])].
         sol_cSeg d = cSeg \<and> sol_searched d = Some best)
    \<and> perf_running demo_runtime demo_request (s_cand s) cSeg (s_hint s) = Inr best
    \<and> (\<forall>us. composition (s_wave_num s) us \<longrightarrow>
         (\<exists>e. perf_running demo_runtime demo_request (s_cand s)
                (expand_partition_to_cseg us (s_compute_sms s) 1 (s_tile_num s)) (s_hint s) = Inr e \<and> best \<le> e))"
  by (rule exhaustive_search_minimises_time [OF demo_exhaustive_search demo_positive])

text \<open>The candidate chosen is the first, in the order of the configuration and among the allowed
  number of tries, whose hint check succeeds; all earlier ones were rejected or their hint run raised.\<close>

theorem choose_candidate_is_first_accepted:
  assumes "choose_candidate rt rq predictive (Inr loaded) = Inr s"
  shows "\<exists>cands k pre post. filter_candidates_by_algo_id loaded (rq_algo_id rq) = Inr cands
    \<and> k = candidate_count (int (length cands))
            (if predictive then DEFAULT_PREDICTIVE_ALGOS else DEFAULT_EXHAUSTIVE_ALGOS) (rq_algo_id rq)
    \<and> take (nat k) cands = pre @ s_cand s # post
    \<and> accepted rt rq predictive (s_compute_sms s) (s_cand s)
    \<and> (\<forall>c \<in> set pre. \<not> accepted rt rq predictive (s_compute_sms s) c)"
  using assms by (rule choose_candidate_first)

theorem choose_candidate_is_first_accepted_witness:
  "accepted demo_runtime demo_request True 2 demo_candidate"
  using choose_candidate_is_first_accepted [OF demo_choose] by auto

text \<open>C32: on a machine that finishes the tiles of the first remaining candidate in one complete order per
  rank, choosing a candidate returns, with that candidate and a hint that names every tile.\<close>

theorem steady_machine_chooses_first:
  assumes "filter_candidates_by_algo_id loaded (rq_algo_id rq) = Inr (c # cs)"
    and "tile_count (rq_M rq) (rq_N rq) (cBM c) (cBN c) = Inr t" "0 < t"
    and "0 < compute_sms_from_slack (sm_count rt) (rq_slack rq)"
    and "rq_min_group rq = None" "rq_min_effective rq = None"
    and "steady_machine rt rq c t" "positive_request rq" "positive_candidate c"
    and "2 \<le> world_size rt" "known_backend (rq_backend rq)"
  shows "\<exists>s. choose_candidate rt rq predictive (Inr loaded) = Inr s \<and> s_cand s = c \<and> s_tile_num s = t
           \<and> set (s_hint s) = {0..<t}"
  using assms by (rule steady_choose)

theorem steady_machine_chooses_first_witness:
  "\<exists>s. choose_candidate demo_runtime demo_request False (Inr [demo_candidate]) = Inr s
     \<and> s_cand s = demo_candidate \<and> s_tile_num s = 4 \<and> set (s_hint s) = {0..<4}"
  by (rule steady_machine_chooses_first [where cs = "[]"])
    (use demo_steady_machine demo_tiles demo_positive in
      \<open>simp_all add: filter_candidates_by_algo_id_def known_backend_def positive_config_def demo_defs\<close>)

end
