(* ===== verification/Layout.thy ===== *)
theory Layout
  imports Prelude
begin

text \<open>
  Row-major tensors as the collectives see them: a shape, and an element for every index within the
  shape. Nothing is assumed of a tensor's representation: \<open>tensor_ops\<close> are the torch operations
  \<open>size\<close>, indexing, \<open>reshape\<close> and \<open>movedim(0, d)\<close>, and the locale \<open>row_major\<close> states what torch
  documents of them. A row-major implementation on lists interprets it.
\<close>

section \<open>Indices\<close>

type_synonym index = "nat list"

definition valid_index :: "nat list \<Rightarrow> index \<Rightarrow> bool" where
  "valid_index shape ix \<longleftrightarrow> list_all2 (<) ix shape"

fun ravel :: "nat list \<Rightarrow> index \<Rightarrow> nat" where
  "ravel (s # ss) (i # is) = i * prod_list ss + ravel ss is"
| "ravel _ _ = 0"

fun unravel :: "nat list \<Rightarrow> nat \<Rightarrow> index" where
  "unravel [] k = []"
| "unravel (s # ss) k = (k div prod_list ss) # unravel ss (k mod prod_list ss)"

lemma valid_index_simps [simp]:
  "valid_index [] ix \<longleftrightarrow> ix = []"
  "valid_index (s # ss) [] \<longleftrightarrow> False"
  "valid_index (s # ss) (i # is) \<longleftrightarrow> i < s \<and> valid_index ss is"
  by (auto simp: valid_index_def)

lemma valid_index_length: "valid_index shape ix \<Longrightarrow> length ix = length shape"
  by (simp add: valid_index_def list_all2_lengthD)

lemma valid_index_nth: "valid_index shape ix \<longleftrightarrow> length ix = length shape \<and> (\<forall>k < length shape. ix ! k < shape ! k)"
  by (auto simp: valid_index_def list_all2_conv_all_nth)

lemma ravel_less: "valid_index shape ix \<Longrightarrow> ravel shape ix < prod_list shape"
proof (induction shape arbitrary: ix)
  case (Cons s ss)
  then obtain i "is" where ix: "ix = i # is" "i < s" "valid_index ss is" by (cases ix) auto
  have "i * prod_list ss + ravel ss is < i * prod_list ss + prod_list ss" using Cons.IH ix by simp
  also have "\<dots> = Suc i * prod_list ss" by simp
  also have "\<dots> \<le> s * prod_list ss" using ix by (intro mult_right_mono) auto
  finally show ?case using ix by simp
qed simp

lemma unravel_ravel: "valid_index shape ix \<Longrightarrow> unravel shape (ravel shape ix) = ix"
proof (induction shape arbitrary: ix)
  case (Cons s ss)
  then obtain i "is" where "ix = i # is" "valid_index ss is" by (cases ix) auto
  then show ?case using Cons.IH ravel_less [of ss "is"] by simp
qed simp

lemma valid_unravel: "k < prod_list shape \<Longrightarrow> valid_index shape (unravel shape k)"
proof (induction shape arbitrary: k)
  case (Cons s ss)
  have "0 < prod_list ss" using Cons.prems by (cases "prod_list ss") auto
  moreover have "k div prod_list ss < s" using Cons.prems by (simp add: less_mult_imp_div_less)
  ultimately show ?case using Cons.IH by simp
qed simp

lemma ravel_unravel: "k < prod_list shape \<Longrightarrow> ravel shape (unravel shape k) = k"
proof (induction shape arbitrary: k)
  case (Cons s ss)
  have "0 < prod_list ss" using Cons.prems by (cases "prod_list ss") auto
  then show ?case using Cons.IH [of "k mod prod_list ss"] by simp
qed simp

text \<open>Two neighbouring dimensions and their product number the elements alike.\<close>

lemma ravel_merge:
  "length I = length A \<Longrightarrow> ravel (A @ w # s # B) (I @ r # i # J) = ravel (A @ (w * s) # B) (I @ (r * s + i) # J)"
  by (induction A arbitrary: I) (auto simp: length_Suc_conv algebra_simps)

lemma prod_list_merge: "prod_list (A @ w # s # B) = prod_list (A @ (w * s) # (B :: nat list))"
  by (simp add: ac_simps)

lemma valid_index_append:
  "length I = length A \<Longrightarrow> valid_index (A @ B) (I @ J) \<longleftrightarrow> valid_index A I \<and> valid_index B J"
  by (simp add: valid_index_def list_all2_append)

section \<open>Operations on tensors\<close>

record 't tensor_ops =
  tsize :: "'t \<Rightarrow> nat list"
  telem :: "'t \<Rightarrow> index \<Rightarrow> real"
  treshape :: "'t \<Rightarrow> nat list \<Rightarrow> 't"
  tmovedim0 :: "'t \<Rightarrow> nat \<Rightarrow> 't"

text \<open>\<open>t.movedim(0, d)\<close>: the first dimension becomes dimension \<open>d\<close>.\<close>

definition moved :: "nat \<Rightarrow> 'a list \<Rightarrow> 'a list" where
  "moved d xs = take d (tl xs) @ hd xs # drop d (tl xs)"

locale row_major =
  fixes size_of :: "'t \<Rightarrow> nat list"
    and elem :: "'t \<Rightarrow> index \<Rightarrow> real"
    and reshape :: "'t \<Rightarrow> nat list \<Rightarrow> 't"
    and movedim0 :: "'t \<Rightarrow> nat \<Rightarrow> 't"
  assumes reshape_size: "prod_list shape = prod_list (size_of t) \<Longrightarrow> size_of (reshape t shape) = shape"
    and reshape_elem: "prod_list shape = prod_list (size_of t) \<Longrightarrow> valid_index (size_of t) ix \<Longrightarrow>
      valid_index shape jx \<Longrightarrow> ravel (size_of t) ix = ravel shape jx \<Longrightarrow> elem (reshape t shape) jx = elem t ix"
    and movedim_size: "d < length (size_of t) \<Longrightarrow> size_of (movedim0 t d) = moved d (size_of t)"
    and movedim_elem: "d < length (size_of t) \<Longrightarrow> valid_index (size_of t) ix \<Longrightarrow>
      elem (movedim0 t d) (moved d ix) = elem t ix"
begin

text \<open>Splitting the first dimension, moving the outer part to place \<open>d\<close> and merging it there.\<close>

lemma split_move_merge:
  assumes g: "size_of g = (w * s0) # ss" and shape: "shape = s0 # ss" and d: "d < length shape"
    and I: "valid_index (take d shape) I" and r: "r < w" and i: "i < shape ! d"
    and J: "valid_index (drop (Suc d) shape) J"
  defines "out \<equiv> reshape (movedim0 (reshape g (w # shape)) d) (take d shape @ (w * shape ! d) # drop (Suc d) shape)"
  shows "size_of out = take d shape @ (w * shape ! d) # drop (Suc d) shape"
    and "elem out (I @ (r * shape ! d + i) # J) = elem g (case I @ i # J of k # ks \<Rightarrow> (r * s0 + k) # ks | [] \<Rightarrow> [])"
proof -
  let ?A = "take d shape" and ?B = "drop (Suc d) shape" and ?s = "shape ! d"
  let ?h = "reshape g (w # shape)" and ?m = "movedim0 (reshape g (w # shape)) d"
  have shape_d: "shape = ?A @ ?s # ?B" using d by (simp add: id_take_nth_drop)
  have pg: "prod_list (w # shape) = prod_list (size_of g)" by (simp add: g shape)
  have sh: "size_of ?h = w # shape" using pg by (rule reshape_size)
  have sm: "size_of ?m = ?A @ w # ?s # ?B"
    using d by (simp add: movedim_size sh moved_def Cons_nth_drop_Suc)
  have pm: "prod_list (?A @ (w * ?s) # ?B) = prod_list (size_of ?m)"
    unfolding sm by (rule prod_list_merge [symmetric])
  show "size_of out = ?A @ (w * ?s) # ?B" unfolding out_def using pm by (rule reshape_size)
  have lI: "length I = length ?A" using I by (rule valid_index_length)
  have v: "valid_index shape (I @ i # J)"
    by (subst shape_d) (use lI I i J in \<open>simp add: valid_index_append\<close>)
  obtain k ks where k: "I @ i # J = k # ks" by (cases "I @ i # J") auto
  have k0: "k < s0" "valid_index ss ks" using v by (simp_all add: k shape)
  have "r * s0 + k < w * s0"
  proof -
    have "r * s0 + k < Suc r * s0" using k0 by simp
    also have "\<dots> \<le> w * s0" using r by (intro mult_right_mono) auto
    finally show ?thesis .
  qed
  then have vg: "valid_index (size_of g) ((r * s0 + k) # ks)" using k0 by (simp add: g)
  have vh: "valid_index (w # shape) (r # k # ks)" using r k0 by (simp add: shape)
  have "ravel (size_of g) ((r * s0 + k) # ks) = ravel (w # shape) (r # k # ks)"
    using ravel_merge [of "[]" "[]" w s0 ss r k ks] by (simp add: g shape)
  with pg vg vh have eh: "elem ?h (r # I @ i # J) = elem g ((r * s0 + k) # ks)"
    unfolding k by (intro reshape_elem)
  have dh: "d < length (size_of ?h)" using d by (simp add: sh)
  have mi: "moved d (r # I @ i # J) = I @ r # i # J" using lI d by (simp add: moved_def)
  have "elem ?m (I @ r # i # J) = elem ?h (r # I @ i # J)"
    using movedim_elem [OF dh, of "r # I @ i # J"] vh unfolding mi by (simp add: sh k)
  moreover have "elem out (I @ (r * ?s + i) # J) = elem ?m (I @ r # i # J)"
    unfolding out_def
  proof (rule reshape_elem [OF pm])
    show "valid_index (size_of ?m) (I @ r # i # J)"
      unfolding sm using lI I r i J by (simp add: valid_index_append)
    have "r * ?s + i < Suc r * ?s" using i by simp
    also have "\<dots> \<le> w * ?s" using r by (intro mult_right_mono) auto
    finally show "valid_index (?A @ (w * ?s) # ?B) (I @ (r * ?s + i) # J)"
      using lI I J by (simp add: valid_index_append)
    show "ravel (size_of ?m) (I @ r # i # J) = ravel (?A @ (w * ?s) # ?B) (I @ (r * ?s + i) # J)"
      unfolding sm using lI by (rule ravel_merge)
  qed
  ultimately show "elem out (I @ (r * ?s + i) # J)
      = elem g (case I @ i # J of k # ks \<Rightarrow> (r * s0 + k) # ks | [] \<Rightarrow> [])"
    using eh by (simp add: k)
qed

end

text \<open>The documented behaviour as a predicate on a record of operations.\<close>

definition torch_layout :: "('t, 'x) tensor_ops_scheme \<Rightarrow> bool" where
  "torch_layout ops \<longleftrightarrow> row_major (tsize ops) (telem ops) (treshape ops) (tmovedim0 ops)"

section \<open>Tensors as lists\<close>

type_synonym dense = "nat list \<times> (nat \<Rightarrow> real)"

definition dense_ops :: "dense tensor_ops" where
  "dense_ops = \<lparr>tsize = fst, telem = (\<lambda>(shape, f) ix. f (ravel shape ix)),
     treshape = (\<lambda>(shape, f) shape'. (shape', f)),
     tmovedim0 = (\<lambda>(shape, f) d. (moved d shape,
        \<lambda>k. let jx = unravel (moved d shape) k in f (ravel shape (jx ! d # take d jx @ drop (Suc d) jx))))\<rparr>"

lemma valid_moved: "d < length shape \<Longrightarrow> valid_index shape ix \<Longrightarrow> valid_index (moved d shape) (moved d ix)"
proof -
  assume d: "d < length shape" and v: "valid_index shape ix"
  obtain s ss i "is" where c: "shape = s # ss" "ix = i # is" "i < s" "valid_index ss is"
    using d v by (cases shape; cases ix) auto
  have "list_all2 (<) (take d is) (take d ss)" "list_all2 (<) (drop d is) (drop d ss)"
    using c(4) by (simp_all add: valid_index_def list_all2_takeI list_all2_dropI)
  then show ?thesis using c by (simp add: moved_def valid_index_def list_all2_appendI)
qed

lemma unmove: "d < length ix \<Longrightarrow> moved d ix ! d # take d (moved d ix) @ drop (Suc d) (moved d ix) = ix"
  by (cases ix) (auto simp: moved_def nth_append)

interpretation dense: row_major "tsize dense_ops" "telem dense_ops" "treshape dense_ops" "tmovedim0 dense_ops"
proof
  fix d ix and t :: dense
  assume d: "d < length (tsize dense_ops t)" and v: "valid_index (tsize dense_ops t) ix"
  obtain shape f where t: "t = (shape, f)" by (cases t)
  have l: "length ix = length shape" using v by (simp add: t dense_ops_def valid_index_length)
  have "unravel (moved d shape) (ravel (moved d shape) (moved d ix)) = moved d ix"
    using d v by (intro unravel_ravel valid_moved) (simp_all add: t dense_ops_def)
  then show "telem dense_ops (tmovedim0 dense_ops t d) (moved d ix) = telem dense_ops t ix"
    using unmove [of d ix] d l by (simp add: t dense_ops_def Let_def)
qed (auto simp: dense_ops_def)

lemma dense_torch_layout: "torch_layout dense_ops"
  unfolding torch_layout_def by (rule dense.row_major_axioms)

end
