(* ===== verification/Adapter.thy ===== *)
theory Adapter
  imports Layout PyStr
begin

text \<open>
  The vLLM adapter \<open>OoverlapAllReduce\<close> of \<open>ooverlap_all_reduce.py\<close>: its environment
  configuration, broker keys, construction, the admission test \<open>should_ooverlap_ar\<close>, the three
  collectives and \<open>destroy\<close>. The native communicator of \<open>ooverlap_torch_ext\<close>, the process group
  and the torch operations are parameters (records of functions); the calls that create, configure
  and destroy the native communicator are recorded as events, in order.
\<close>

section \<open>Data types of tensors\<close>

datatype dtype = BF16 | FP16 | FP32 | OtherDtype nat

text \<open>\<open>torch.empty((), dtype=..).element_size()\<close> for the three slot types.\<close>

fun element_size :: "dtype \<Rightarrow> int" where
  "element_size BF16 = 2"
| "element_size FP16 = 2"
| "element_size FP32 = 4"
| "element_size (OtherDtype k) = int k"

text \<open>\<open>tshape\<close> is \<open>tsize\<close>; \<open>nbytes\<close> is the number of elements times the element size.\<close>

record 't torch = "'t tensor_ops" +
  is_cuda :: "'t \<Rightarrow> bool"
  get_device :: "'t \<Rightarrow> int"
  is_contiguous :: "'t \<Rightarrow> bool"
  tdtype :: "'t \<Rightarrow> dtype"

definition numel :: "('t, 'x) torch_scheme \<Rightarrow> 't \<Rightarrow> int" where
  "numel T t = int (prod_list (tsize T t))"

definition nbytes :: "('t, 'x) torch_scheme \<Rightarrow> 't \<Rightarrow> int" where
  "nbytes T t = numel T t * element_size (tdtype T t)"

section \<open>Environment and keys\<close>

type_synonym os_env = "string \<rightharpoonup> string"

definition getenv_default :: "os_env \<Rightarrow> string \<Rightarrow> string \<Rightarrow> string" where
  "getenv_default env name dflt = (case env name of None \<Rightarrow> dflt | Some v \<Rightarrow> v)"

definition positive_env_int :: "os_env \<Rightarrow> string \<Rightarrow> int \<Rightarrow> int res" where
  "positive_env_int env name dflt =
     (case env name of
        None \<Rightarrow> Inr dflt
      | Some raw \<Rightarrow>
          if raw = '''' then Inr dflt
          else case py_int raw of
                 Inl e \<Rightarrow> Inl (ValueError ''must be an integer'')
               | Inr v \<Rightarrow> if v \<le> 0 then Inl (ValueError ''must be positive'') else Inr v)"

definition dtype_aliases :: "(string \<times> string \<times> dtype) list" where
  "dtype_aliases =
     [(''bf16'', ''bf16'', BF16), (''bfloat16'', ''bf16'', BF16), (''torch.bfloat16'', ''bf16'', BF16),
      (''fp16'', ''fp16'', FP16), (''float16'', ''fp16'', FP16), (''half'', ''fp16'', FP16),
      (''torch.float16'', ''fp16'', FP16),
      (''fp32'', ''fp32'', FP32), (''float32'', ''fp32'', FP32), (''float'', ''fp32'', FP32),
      (''torch.float32'', ''fp32'', FP32)]"

definition normalize_rr_dtype :: "string \<Rightarrow> (string \<times> dtype) res" where
  "normalize_rr_dtype name =
     (case map_of dtype_aliases (py_lower (py_strip name)) of
        None \<Rightarrow> Inl (ValueError ''must be one of bf16, fp16, fp32'')
      | Some p \<Rightarrow> Inr p)"

text \<open>\<open>re.sub(r"[^A-Za-z0-9_.-]", "_", text)[:180]\<close>\<close>

definition key_char :: "char \<Rightarrow> bool" where
  "key_char c \<longleftrightarrow> (let k = of_char c :: nat in
     (65 \<le> k \<and> k \<le> 90) \<or> (97 \<le> k \<and> k \<le> 122) \<or> (48 \<le> k \<and> k \<le> 57)
     \<or> c = CHR ''_'' \<or> c = CHR ''.'' \<or> c = CHR ''-'')"

definition sanitize_broker_key :: "string \<Rightarrow> string" where
  "sanitize_broker_key text = take 180 (map (\<lambda>c. if key_char c then c else CHR ''_'') text)"

text \<open>The SHA-1 hex digest is the parameter \<open>sha1hex\<close>.\<close>

definition short_broker_key :: "(string \<Rightarrow> string) \<Rightarrow> string \<Rightarrow> string" where
  "short_broker_key sha1hex raw = ''vllm_oo_'' @ take 12 (sha1hex (sanitize_broker_key raw))"

text \<open>The process group: rank and size by \<open>torch.distributed\<close> or the group's own methods, the global
  ranks of its members, and the object broadcast, which delivers what the source rank passes.\<close>

record proc_group =
  dist_rank_world :: "(int \<times> int) res"
  own_rank_world :: "(int \<times> int) res"
  dist_group_ranks :: "int list res"
  broadcast_object :: "string option \<Rightarrow> int \<Rightarrow> string option res"
  all_gather_object :: "int \<Rightarrow> int option list res"

definition rank_and_world :: "proc_group \<Rightarrow> (int \<times> int) res" where
  "rank_and_world grp = (case dist_rank_world grp of Inr p \<Rightarrow> Inr p | Inl _ \<Rightarrow> own_rank_world grp)"

definition group_ranks :: "proc_group \<Rightarrow> int \<Rightarrow> int list" where
  "group_ranks grp world_size = (case dist_group_ranks grp of Inr rs \<Rightarrow> rs | Inl _ \<Rightarrow> py_range world_size)"

definition set_env :: "os_env \<Rightarrow> string \<Rightarrow> string option" where
  "set_env env name = (case env name of None \<Rightarrow> None | Some v \<Rightarrow> if v = '''' then None else Some v)"

text \<open>\<open>fresh\<close> is \<open>uuid.uuid4().hex\<close>, drawn by group rank 0 only; the others pass \<open>None\<close> to the broadcast.\<close>

definition launch_payload :: "int \<Rightarrow> string \<Rightarrow> string option" where
  "launch_payload group_rank fresh = (if group_rank = 0 then Some fresh else None)"

definition shared_broker_launch_id :: "os_env \<Rightarrow> proc_group \<Rightarrow> string \<Rightarrow> int \<Rightarrow> string res" where
  "shared_broker_launch_id env grp fresh world_size =
     (case set_env env ''VLLM_OOVERLAP_BROKER_LAUNCH_ID'' of
        Some ovr \<Rightarrow> Inr (sanitize_broker_key ovr)
      | None \<Rightarrow>
          bind_res (rank_and_world grp) (\<lambda>(group_rank, _).
          bind_res (py_get (group_ranks grp world_size) 0) (\<lambda>src_rank.
          bind_res (broadcast_object grp (launch_payload group_rank fresh) src_rank) (\<lambda>launch_id.
          case launch_id of
            None \<Rightarrow> Inl (RuntimeError ''Failed to broadcast ooverlap broker launch id'')
          | Some l \<Rightarrow> if l = '''' then Inl (RuntimeError ''Failed to broadcast ooverlap broker launch id'')
                      else Inr (sanitize_broker_key l)))))"

definition auto_broker_key ::
  "(string \<Rightarrow> string) \<Rightarrow> os_env \<Rightarrow> proc_group \<Rightarrow> string \<Rightarrow> string \<Rightarrow> int \<Rightarrow> string res" where
  "auto_broker_key sha1hex env grp fresh unique_name world_size =
     (case set_env env ''VLLM_OOVERLAP_BROKER_KEY'' of
        Some ovr \<Rightarrow> Inr (short_broker_key sha1hex ovr)
      | None \<Rightarrow>
          bind_res (shared_broker_launch_id env grp fresh world_size) (\<lambda>launch_id.
          Inr (short_broker_key sha1hex
            (getenv_default env ''MASTER_ADDR'' ''localhost'' @ '':'' @ getenv_default env ''MASTER_PORT'' ''0''
             @ '':'' @ getenv_default env ''LOCAL_WORLD_SIZE'' (str_int world_size) @ '':'' @ unique_name @ '':''
             @ py_join '','' (map str_int (group_ranks grp world_size)) @ '':'' @ launch_id))))"

definition gather_visible_devices :: "proc_group \<Rightarrow> int \<Rightarrow> int list res" where
  "gather_visible_devices grp local_device =
     bind_res (all_gather_object grp local_device) (\<lambda>devices.
     if None \<in> set devices then Inl (RuntimeError ''Failed to gather ooverlap device list'')
     else Inr (map the devices))"

text \<open>\<open>_device_index\<close>: the device of the constructor, with \<open>torch.cuda.current_device()\<close> as default.\<close>

record torch_device =
  device_type :: string
  device_ordinal :: "int option"

definition device_index_of :: "int \<Rightarrow> torch_device \<Rightarrow> int res" where
  "device_index_of current_device dev =
     (if device_type dev \<noteq> ''cuda'' then Inl (RuntimeError ''ooverlap requires CUDA device'')
      else Inr (case device_ordinal dev of Some i \<Rightarrow> i | None \<Rightarrow> current_device))"

section \<open>The native extension\<close>

record ('c, 't) native =
  is_initialized :: bool
  cuda_available :: bool
  load_ext :: "bool res"
  new_communicator :: "int list \<Rightarrow> int \<Rightarrow> string \<Rightarrow> 'c res"
  has_method :: "'c \<Rightarrow> string \<Rightarrow> bool"
  init_round_robin_slots :: "'c \<Rightarrow> string \<Rightarrow> int \<Rightarrow> int \<Rightarrow> unit res"
  init_all_gather_round_robin_slots :: "'c \<Rightarrow> string \<Rightarrow> int \<Rightarrow> int \<Rightarrow> unit res"
  all_reduce_round_robin :: "'c \<Rightarrow> 't \<Rightarrow> 't res"
  all_gather_round_robin :: "'c \<Rightarrow> 't \<Rightarrow> 't res"
  acquire_all_reduce_slot :: "'c \<Rightarrow> nat list \<Rightarrow> 't res"
  all_reduce_preloaded_slot :: "'c \<Rightarrow> 't \<Rightarrow> 't res"
  native_destroy :: "'c \<Rightarrow> unit res"
  mm_transposed_out :: "'t \<Rightarrow> 't \<Rightarrow> 't \<Rightarrow> 't res"

datatype 'c event =
    Created 'c
  | ArPool 'c string int int
  | AgPool 'c string int int
  | Destroyed 'c

section \<open>The adapter's state\<close>

record 'c adapter =
  device_index :: int
  disabled :: bool
  comm :: "'c option"
  qwen_direct_slot_enabled :: bool
  rr_torch_dtype :: "dtype option"
  rr_slot_count :: int
  rr_capacity_bytes :: int
  ag_torch_dtype :: "dtype option"
  ag_slot_count :: int
  ag_capacity_bytes :: int
  ad_rank :: int
  ad_world_size :: int

definition fresh_adapter :: "int \<Rightarrow> 'c adapter" where
  "fresh_adapter dev =
     \<lparr>device_index = dev, disabled = True, comm = None, qwen_direct_slot_enabled = False,
      rr_torch_dtype = None, rr_slot_count = 0, rr_capacity_bytes = 0,
      ag_torch_dtype = None, ag_slot_count = 0, ag_capacity_bytes = 0, ad_rank = 0, ad_world_size = 0\<rparr>"

record slot_config =
  sc_rr_name :: string
  sc_rr_dtype :: dtype
  sc_rr_slots :: int
  sc_rr_capacity :: int
  sc_ag_name :: string
  sc_ag_dtype :: dtype
  sc_ag_slots :: int
  sc_ag_capacity :: int

definition read_slot_config :: "os_env \<Rightarrow> slot_config res" where
  "read_slot_config env =
     bind_res (normalize_rr_dtype (getenv_default env ''VLLM_OOVERLAP_RR_DTYPE'' ''bf16'')) (\<lambda>(rr_name, rr_dtype).
     bind_res (positive_env_int env ''VLLM_OOVERLAP_RR_SLOTS'' 32) (\<lambda>rr_slots.
     bind_res (positive_env_int env ''VLLM_OOVERLAP_RR_CAPACITY_BYTES'' (8 * 1024 * 1024)) (\<lambda>rr_capacity.
     bind_res (normalize_rr_dtype (getenv_default env ''VLLM_OOVERLAP_AG_DTYPE'' rr_name)) (\<lambda>(ag_name, ag_dtype).
     bind_res (positive_env_int env ''VLLM_OOVERLAP_AG_SLOTS'' 4) (\<lambda>ag_slots.
     bind_res (positive_env_int env ''VLLM_OOVERLAP_AG_CAPACITY_BYTES'' (64 * 1024 * 1024)) (\<lambda>ag_capacity.
     bind_res (require (rr_capacity mod element_size rr_dtype = 0)
                (ValueError ''VLLM_OOVERLAP_RR_CAPACITY_BYTES must be divisible'')) (\<lambda>_.
     bind_res (require (ag_capacity mod element_size ag_dtype = 0)
                (ValueError ''VLLM_OOVERLAP_AG_CAPACITY_BYTES must be divisible'')) (\<lambda>_.
     Inr \<lparr>sc_rr_name = rr_name, sc_rr_dtype = rr_dtype, sc_rr_slots = rr_slots, sc_rr_capacity = rr_capacity,
          sc_ag_name = ag_name, sc_ag_dtype = ag_dtype, sc_ag_slots = ag_slots,
          sc_ag_capacity = ag_capacity\<rparr>))))))))"

text \<open>From the constructed communicator to both slot pools; the fields set before a failure stay set.\<close>

definition required_methods :: "string list" where
  "required_methods = [''init_round_robin_slots'', ''all_reduce_round_robin'',
     ''init_all_gather_round_robin_slots'', ''all_gather_round_robin'']"

definition configure_slots ::
  "('c, 't) native \<Rightarrow> os_env \<Rightarrow> 'c \<Rightarrow> 'c adapter \<Rightarrow> 'c adapter \<times> unit res \<times> 'c event list" where
  "configure_slots nat_ext env c st =
     (case bind_res (require (\<forall>m \<in> set required_methods. has_method nat_ext c m)
                       (RuntimeError ''ooverlap_torch_ext.Communicator lacks a method''))
             (\<lambda>_. read_slot_config env) of
        Inl e \<Rightarrow> (st, Inl e, [])
      | Inr sc \<Rightarrow>
          (case init_round_robin_slots nat_ext c (sc_rr_name sc) (sc_rr_capacity sc) (sc_rr_slots sc) of
             Inl e \<Rightarrow> (st, Inl e, [])
           | Inr _ \<Rightarrow>
               let st1 = st\<lparr>rr_torch_dtype := Some (sc_rr_dtype sc), rr_slot_count := sc_rr_slots sc,
                            rr_capacity_bytes := sc_rr_capacity sc\<rparr>;
                   ev = ArPool c (sc_rr_name sc) (sc_rr_capacity sc) (sc_rr_slots sc)
               in (case init_all_gather_round_robin_slots nat_ext c (sc_ag_name sc) (sc_ag_capacity sc)
                          (sc_ag_slots sc) of
                     Inl e \<Rightarrow> (st1, Inl e, [ev])
                   | Inr _ \<Rightarrow>
                       (st1\<lparr>ag_torch_dtype := Some (sc_ag_dtype sc), ag_slot_count := sc_ag_slots sc,
                            ag_capacity_bytes := sc_ag_capacity sc\<rparr>, Inr (),
                        [ev, AgPool c (sc_ag_name sc) (sc_ag_capacity sc) (sc_ag_slots sc)]))))"

text \<open>The \<open>except\<close> branch: destroy what was constructed, ignoring failures, and drop it.\<close>

definition abandon :: "('c, 't) native \<Rightarrow> 'c adapter \<Rightarrow> 'c adapter \<times> 'c event list" where
  "abandon nat_ext st =
     (st\<lparr>comm := None\<rparr>,
      case comm st of
        Some c \<Rightarrow> if has_method nat_ext c ''destroy'' then [Destroyed c] else []
      | None \<Rightarrow> [])"

definition open_communicator ::
  "('c, 't) native \<Rightarrow> (string \<Rightarrow> string) \<Rightarrow> os_env \<Rightarrow> proc_group \<Rightarrow> string \<Rightarrow> string \<Rightarrow> 'c adapter \<Rightarrow> 'c res" where
  "open_communicator nat_ext sha1hex env grp fresh unique_name st =
     bind_res (gather_visible_devices grp (device_index st)) (\<lambda>devices.
     bind_res (auto_broker_key sha1hex env grp fresh unique_name (ad_world_size st)) (\<lambda>broker_key.
     new_communicator nat_ext devices (ad_rank st) broker_key))"

text \<open>\<open>__init__\<close>. A device that is not CUDA and a group without rank raise; everything else leaves a
  disabled adapter.\<close>

definition qwen_methods :: "string list" where
  "qwen_methods = [''acquire_all_reduce_slot'', ''all_reduce_preloaded_slot'']"

definition adapter_init ::
  "('c, 't) native \<Rightarrow> (string \<Rightarrow> string) \<Rightarrow> os_env \<Rightarrow> proc_group \<Rightarrow> string \<Rightarrow> int \<Rightarrow> torch_device \<Rightarrow> string \<Rightarrow>
   ('c adapter \<times> 'c event list) res" where
  "adapter_init nat_ext sha1hex env grp fresh current_device dev unique_name =
     bind_res (device_index_of current_device dev) (\<lambda>idx.
     let st = fresh_adapter idx in
     if \<not> is_initialized nat_ext \<or> \<not> cuda_available nat_ext then Inr (st, [])
     else bind_res (rank_and_world grp) (\<lambda>(rank, world).
       let st = st\<lparr>ad_rank := rank, ad_world_size := world\<rparr> in
       if load_ext nat_ext \<noteq> Inr True then Inr (st, [])
       else case open_communicator nat_ext sha1hex env grp fresh unique_name st of
              Inl e \<Rightarrow> Inr (abandon nat_ext st)
            | Inr c \<Rightarrow>
                (case configure_slots nat_ext env c (st\<lparr>comm := Some c\<rparr>) of
                   (st', Inl e, evs) \<Rightarrow>
                     (let (st'', evs') = abandon nat_ext st' in Inr (st'', Created c # evs @ evs'))
                 | (st', Inr _, evs) \<Rightarrow>
                     Inr (st'\<lparr>disabled := False,
                              qwen_direct_slot_enabled := (\<forall>m \<in> set qwen_methods. has_method nat_ext c m)\<rparr>,
                          Created c # evs))))"

section \<open>Collectives\<close>

definition should_ooverlap_ar :: "('t, 'x) torch_scheme \<Rightarrow> 'c adapter \<Rightarrow> 't \<Rightarrow> bool" where
  "should_ooverlap_ar T st inp \<longleftrightarrow>
     (if disabled st \<or> comm st = None then False
      else if \<not> is_cuda T inp then False
      else if get_device T inp \<noteq> device_index st then False
      else if \<not> is_contiguous T inp then False
      else if numel T inp \<le> 0 then False
      else if rr_torch_dtype st = None then False
      else if Some (tdtype T inp) \<noteq> rr_torch_dtype st then False
      else if nbytes T inp > rr_capacity_bytes st then False
      else True)"

definition ar_all_reduce :: "('t, 'x) torch_scheme \<Rightarrow> ('c, 't) native \<Rightarrow> 'c adapter \<Rightarrow> 't \<Rightarrow> 't option res" where
  "ar_all_reduce T nat_ext st inp =
     (if \<not> should_ooverlap_ar T st inp then Inr None
      else case comm st of
             None \<Rightarrow> Inl AssertionError
           | Some c \<Rightarrow> map_sum id Some (all_reduce_round_robin nat_ext c inp))"

definition qwen_row_parallel ::
  "('t, 'x) torch_scheme \<Rightarrow> ('c, 't) native \<Rightarrow> 'c adapter \<Rightarrow> 't \<Rightarrow> 't \<Rightarrow> 't res" where
  "qwen_row_parallel T nat_ext st inp weight =
     (case (if \<not> qwen_direct_slot_enabled st \<or> disabled st then None else comm st) of
        None \<Rightarrow> Inl (RuntimeError ''Ooverlap Qwen direct-slot path is unavailable'')
      | Some c \<Rightarrow>
          bind_res (require (length (tsize T inp) = 2 \<and> length (tsize T weight) = 2)
                      (RuntimeError ''Qwen direct-slot path requires 2D input and weight'')) (\<lambda>_.
          bind_res (require (is_cuda T inp \<and> is_cuda T weight)
                      (RuntimeError ''Qwen direct-slot path requires CUDA tensors'')) (\<lambda>_.
          bind_res (require (get_device T inp = device_index st)
                      (RuntimeError ''Qwen direct-slot input is on the wrong device'')) (\<lambda>_.
          bind_res (require (get_device T weight = device_index st)
                      (RuntimeError ''Qwen direct-slot weight is on the wrong device'')) (\<lambda>_.
          bind_res (require (is_contiguous T inp)
                      (RuntimeError ''Qwen direct-slot input must be contiguous'')) (\<lambda>_.
          bind_res (require (is_contiguous T weight)
                      (RuntimeError ''Qwen direct-slot weight must be contiguous'')) (\<lambda>_.
          bind_res (require (rr_torch_dtype st \<noteq> None)
                      (RuntimeError ''Ooverlap all-reduce slot dtype is unavailable'')) (\<lambda>_.
          bind_res (require (Some (tdtype T inp) = rr_torch_dtype st \<and> tdtype T weight = tdtype T inp)
                      (RuntimeError ''Qwen direct-slot dtype mismatch'')) (\<lambda>_.
          bind_res (require (tsize T inp ! 1 = tsize T weight ! 1)
                      (RuntimeError ''Qwen direct-slot GEMM K mismatch'')) (\<lambda>_.
          let output_shape = [tsize T inp ! 0, tsize T weight ! 0];
              output_bytes = int (output_shape ! 0 * output_shape ! 1) * element_size (tdtype T inp) in
          bind_res (require (output_bytes \<le> rr_capacity_bytes st)
                      (RuntimeError ''Qwen direct-slot output exceeds Ooverlap slot capacity'')) (\<lambda>_.
          bind_res (acquire_all_reduce_slot nat_ext c output_shape) (\<lambda>slot.
          bind_res (require (tsize T slot = output_shape)
                      (RuntimeError ''Ooverlap returned a slot with the wrong shape'')) (\<lambda>_.
          bind_res (require (tdtype T slot = tdtype T inp \<and> is_cuda T slot = is_cuda T inp
                               \<and> get_device T slot = get_device T inp)
                      (RuntimeError ''Ooverlap returned a slot with the wrong dtype/device'')) (\<lambda>_.
          bind_res (mm_transposed_out nat_ext inp weight slot) (\<lambda>filled.
          all_reduce_preloaded_slot nat_ext c filled)))))))))))))))"

text \<open>\<open>all_gather\<close>; the dimension counts from the end when it is negative.\<close>

definition normalize_dim :: "int \<Rightarrow> nat \<Rightarrow> int" where
  "normalize_dim d n = (if d < 0 then d + int n else d)"

definition ag_all_gather ::
  "('t, 'x) torch_scheme \<Rightarrow> ('c, 't) native \<Rightarrow> 'c adapter \<Rightarrow> 't \<Rightarrow> int \<Rightarrow> 't res" where
  "ag_all_gather T nat_ext st inp cat_dim =
     (case (if disabled st then None else comm st) of
        None \<Rightarrow> Inl (RuntimeError ''Forced ooverlap all-gather communicator is unavailable'')
      | Some c \<Rightarrow>
          let input_size = tsize T inp; n = length input_size; d = normalize_dim cat_dim n in
          bind_res (require (0 < n)
                      (RuntimeError ''Forced ooverlap all-gather requires an input with at least one dimension'')) (\<lambda>_.
          bind_res (require (0 \<le> d \<and> d < int n)
                      (RuntimeError ''Forced ooverlap all-gather received invalid dim'')) (\<lambda>_.
          bind_res (require (is_cuda T inp)
                      (RuntimeError ''Forced ooverlap all-gather requires a CUDA tensor'')) (\<lambda>_.
          bind_res (require (get_device T inp = device_index st)
                      (RuntimeError ''Forced ooverlap all-gather tensor is on the wrong device'')) (\<lambda>_.
          bind_res (require (is_contiguous T inp)
                      (RuntimeError ''Forced ooverlap all-gather requires a contiguous tensor'')) (\<lambda>_.
          bind_res (require (0 < numel T inp)
                      (RuntimeError ''Forced ooverlap all-gather requires a non-empty tensor'')) (\<lambda>_.
          bind_res (require (Some (tdtype T inp) = ag_torch_dtype st)
                      (RuntimeError ''Forced ooverlap all-gather dtype does not match its slot pool'')) (\<lambda>_.
          bind_res (require (nbytes T inp * ad_world_size st \<le> ag_capacity_bytes st)
                      (RuntimeError ''Forced ooverlap all-gather output exceeds slot capacity'')) (\<lambda>_.
          bind_res (all_gather_round_robin nat_ext c inp) (\<lambda>gathered.
          if d = 0 then Inr gathered
          else let k = nat d; w = nat (ad_world_size st);
                   moved_out = tmovedim0 T (treshape T gathered (w # input_size)) k;
                   output_size = take k input_size @ (w * input_size ! k) # drop (k + 1) input_size
               in Inr (treshape T moved_out output_size)))))))))))"

text \<open>\<open>destroy\<close>: an exception of the native call leaves the adapter as it was.\<close>

definition adapter_destroy :: "('c, 't) native \<Rightarrow> 'c adapter \<Rightarrow> 'c adapter \<times> unit res \<times> 'c event list" where
  "adapter_destroy nat_ext st =
     (let done = st\<lparr>comm := None, disabled := True, qwen_direct_slot_enabled := False\<rparr>
      in case comm st of
           None \<Rightarrow> (done, Inr (), [])
         | Some c \<Rightarrow>
             if has_method nat_ext c ''destroy''
             then (case native_destroy nat_ext c of
                     Inl e \<Rightarrow> (st, Inl e, [Destroyed c])
                   | Inr _ \<Rightarrow> (done, Inr (), [Destroyed c]))
             else (done, Inr (), []))"

end
