(* ===== verification/AdapterCorrect.thy ===== *)
theory AdapterCorrect
  imports Adapter
begin

text \<open>
  What the adapter guarantees: an adapter that is enabled has both slot pools configured, one that is
  not holds no native communicator, a destroyed one refuses every collective without touching native
  code, and the all-gather concatenates the ranks' tensors along the requested dimension.
\<close>

section \<open>Configuration\<close>

lemma positive_env_int_pos: "positive_env_int env name dflt = Inr v \<Longrightarrow> 0 < dflt \<Longrightarrow> 0 < v"
  by (auto simp: positive_env_int_def split: option.splits if_splits sum.splits)

lemma normalize_rr_dtype_size: "normalize_rr_dtype s = Inr (name, d) \<Longrightarrow> element_size d = 2 \<or> element_size d = 4"
  by (auto simp: normalize_rr_dtype_def dtype_aliases_def split: option.splits if_splits)

definition pool_ok :: "dtype option \<Rightarrow> int \<Rightarrow> int \<Rightarrow> bool" where
  "pool_ok d slots capacity \<longleftrightarrow>
     (\<exists>t. d = Some t \<and> 0 < element_size t \<and> 0 < slots \<and> 0 < capacity \<and> capacity mod element_size t = 0)"

lemma read_slot_config_ok:
  assumes "read_slot_config env = Inr sc"
  shows "pool_ok (Some (sc_rr_dtype sc)) (sc_rr_slots sc) (sc_rr_capacity sc)
       \<and> pool_ok (Some (sc_ag_dtype sc)) (sc_ag_slots sc) (sc_ag_capacity sc)"
proof -
  obtain rn rd rs rc an ad as ac where
    "normalize_rr_dtype (getenv_default env ''VLLM_OOVERLAP_RR_DTYPE'' ''bf16'') = Inr (rn, rd)"
    "positive_env_int env ''VLLM_OOVERLAP_RR_SLOTS'' 32 = Inr rs"
    "positive_env_int env ''VLLM_OOVERLAP_RR_CAPACITY_BYTES'' (8 * 1024 * 1024) = Inr rc"
    "normalize_rr_dtype (getenv_default env ''VLLM_OOVERLAP_AG_DTYPE'' rn) = Inr (an, ad)"
    "positive_env_int env ''VLLM_OOVERLAP_AG_SLOTS'' 4 = Inr as"
    "positive_env_int env ''VLLM_OOVERLAP_AG_CAPACITY_BYTES'' (64 * 1024 * 1024) = Inr ac"
    "rc mod element_size rd = 0" "ac mod element_size ad = 0"
    and sc: "sc = \<lparr>sc_rr_name = rn, sc_rr_dtype = rd, sc_rr_slots = rs, sc_rr_capacity = rc,
          sc_ag_name = an, sc_ag_dtype = ad, sc_ag_slots = as, sc_ag_capacity = ac\<rparr>"
    using assms unfolding read_slot_config_def by (auto elim!: bind_resE)
  then show ?thesis
    by (auto simp: pool_ok_def sc dest!: normalize_rr_dtype_size positive_env_int_pos)
qed

section \<open>Construction\<close>

definition enabled_with :: "('c, 't) native \<Rightarrow> 'c adapter \<Rightarrow> 'c \<Rightarrow> bool" where
  "enabled_with nat_ext st c \<longleftrightarrow>
     \<not> disabled st \<and> comm st = Some c
     \<and> pool_ok (rr_torch_dtype st) (rr_slot_count st) (rr_capacity_bytes st)
     \<and> pool_ok (ag_torch_dtype st) (ag_slot_count st) (ag_capacity_bytes st)
     \<and> (\<forall>m \<in> set required_methods. has_method nat_ext c m)
     \<and> (qwen_direct_slot_enabled st \<longleftrightarrow> (\<forall>m \<in> set qwen_methods. has_method nat_ext c m))"

definition off :: "'c adapter \<Rightarrow> bool" where
  "off st \<longleftrightarrow> disabled st \<and> comm st = None \<and> \<not> qwen_direct_slot_enabled st"

lemma configure_slots_fail:
  "configure_slots nat_ext env c st = (st', Inl e, evs) \<Longrightarrow>
   comm st' = comm st \<and> disabled st' = disabled st
   \<and> qwen_direct_slot_enabled st' = qwen_direct_slot_enabled st
   \<and> (\<forall>ev \<in> set evs. \<exists>n k s. ev = ArPool c n k s)"
  by (auto simp: configure_slots_def Let_def split: sum.splits)

lemma configure_slots_done:
  assumes "configure_slots nat_ext env c st = (st', Inr u, evs)"
  shows "comm st' = comm st \<and> (\<forall>m \<in> set required_methods. has_method nat_ext c m)
    \<and> pool_ok (rr_torch_dtype st') (rr_slot_count st') (rr_capacity_bytes st')
    \<and> pool_ok (ag_torch_dtype st') (ag_slot_count st') (ag_capacity_bytes st')
    \<and> (\<exists>n n'. evs = [ArPool c n (rr_capacity_bytes st') (rr_slot_count st'),
                      AgPool c n' (ag_capacity_bytes st') (ag_slot_count st')])"
proof -
  obtain sc where m: "\<forall>m \<in> set required_methods. has_method nat_ext c m"
    and sc: "read_slot_config env = Inr sc"
    and st': "st' = st\<lparr>rr_torch_dtype := Some (sc_rr_dtype sc), rr_slot_count := sc_rr_slots sc,
        rr_capacity_bytes := sc_rr_capacity sc, ag_torch_dtype := Some (sc_ag_dtype sc),
        ag_slot_count := sc_ag_slots sc, ag_capacity_bytes := sc_ag_capacity sc\<rparr>"
    and evs: "evs = [ArPool c (sc_rr_name sc) (sc_rr_capacity sc) (sc_rr_slots sc),
                     AgPool c (sc_ag_name sc) (sc_ag_capacity sc) (sc_ag_slots sc)]"
    using assms by (auto simp: configure_slots_def Let_def bind_res_eq_Inr split: sum.splits)
  then show ?thesis using read_slot_config_ok [OF sc] by simp
qed

definition init_contract :: "('c, 't) native \<Rightarrow> 'c adapter \<Rightarrow> 'c event list \<Rightarrow> bool" where
  "init_contract nat_ext st evs \<longleftrightarrow>
     (off st \<and> (\<forall>c. Created c \<in> set evs \<and> has_method nat_ext c ''destroy'' \<longrightarrow> last evs = Destroyed c)
             \<and> (\<forall>c. Destroyed c \<in> set evs \<longrightarrow> (\<exists>evs'. evs = Created c # evs' @ [Destroyed c] \<and> Destroyed c \<notin> set evs')))
     \<or> (\<exists>c n n'. enabled_with nat_ext st c
          \<and> evs = [Created c, ArPool c n (rr_capacity_bytes st) (rr_slot_count st),
                   AgPool c n' (ag_capacity_bytes st) (ag_slot_count st)])"

lemma adapter_init_contract:
  assumes "adapter_init nat_ext sha1hex env grp fresh cur dev name = Inr (st, evs)"
  shows "init_contract nat_ext st evs"
proof -
  obtain idx where idx: "device_index_of cur dev = Inr idx"
    using assms by (auto simp: adapter_init_def elim: bind_resE)
  have fresh_off: "off (fresh_adapter idx)" by (simp add: off_def fresh_adapter_def)
  show ?thesis
  proof (cases "\<not> is_initialized nat_ext \<or> \<not> cuda_available nat_ext")
    case True
    then show ?thesis using assms idx fresh_off by (auto simp: adapter_init_def init_contract_def)
  next
    case False
    then obtain r w where rw: "rank_and_world grp = Inr (r, w)"
      using assms idx by (auto simp: adapter_init_def Let_def elim!: bind_resE)
    let ?st = "(fresh_adapter idx)\<lparr>ad_rank := r, ad_world_size := w\<rparr>"
    have o: "off ?st" by (simp add: off_def fresh_adapter_def)
    show ?thesis
    proof (cases "load_ext nat_ext = Inr True")
      case no_ext: False
      then show ?thesis using assms idx rw False o by (auto simp: adapter_init_def init_contract_def)
    next
      case ext: True
      show ?thesis
      proof (cases "open_communicator nat_ext sha1hex env grp fresh name ?st")
        case (Inl e)
        then have "(st, evs) = abandon nat_ext ?st" using assms idx rw False ext by (simp add: adapter_init_def)
        then show ?thesis using o by (auto simp: abandon_def init_contract_def off_def)
      next
        case (Inr c)
        obtain st' r evs' where cf: "configure_slots nat_ext env c (?st\<lparr>comm := Some c\<rparr>) = (st', r, evs')"
          by (metis prod_cases3)
        show ?thesis
        proof (cases r)
          case (Inl e)
          note f = configure_slots_fail [OF cf [unfolded Inl]]
          have "st = st'\<lparr>comm := None\<rparr>"
            and evs: "evs = Created c # evs' @ (if has_method nat_ext c ''destroy'' then [Destroyed c] else [])"
            using assms idx rw False ext Inr cf Inl f by (auto simp: adapter_init_def abandon_def)
          then have "off st" using f by (simp add: off_def fresh_adapter_def)
          moreover have "Destroyed d \<notin> set evs'" "Created d \<notin> set evs'" for d using f by auto
          ultimately show ?thesis using evs by (auto simp: init_contract_def split: if_splits)
        next
          case r: (Inr u)
          note d = configure_slots_done [OF cf [unfolded r]]
          have "st = st'\<lparr>disabled := False, qwen_direct_slot_enabled := (\<forall>m \<in> set qwen_methods. has_method nat_ext c m)\<rparr>"
            and "evs = Created c # evs'"
            using assms idx rw False ext Inr cf r by (simp_all add: adapter_init_def)
          then show ?thesis using d by (auto simp: init_contract_def enabled_with_def)
        qed
      qed
    qed
  qed
qed

section \<open>Life cycle\<close>

text \<open>An adapter is constructed once and then destroyed any number of times; collectives do not change
  its state. The trace is the list of native events.\<close>

inductive lifetime :: "('c, 't) native \<Rightarrow> 'c adapter \<Rightarrow> 'c event list \<Rightarrow> bool" for nat_ext where
  constructed: "adapter_init nat_ext sha1hex env grp fresh cur dev name = Inr (st, evs) \<Longrightarrow> lifetime nat_ext st evs"
| destroyed: "lifetime nat_ext st evs \<Longrightarrow> adapter_destroy nat_ext st = (st', r, evs') \<Longrightarrow>
    lifetime nat_ext st' (evs @ evs')"

definition adapter_ok :: "('c, 't) native \<Rightarrow> 'c adapter \<Rightarrow> bool" where
  "adapter_ok nat_ext st \<longleftrightarrow> off st \<or> (\<exists>c. enabled_with nat_ext st c)"

lemma destroy_cases:
  assumes "adapter_destroy nat_ext st = (st', r, evs)"
  obtains "off st'" and "r = Inr ()" and "comm st = None" and "evs = []"
  | c where "off st'" and "r = Inr ()" and "comm st = Some c"
      and "evs = (if has_method nat_ext c ''destroy'' then [Destroyed c] else [])"
  | e c where "st' = st" and "r = Inl e" and "comm st = Some c" and "evs = [Destroyed c]"
      and "native_destroy nat_ext c = Inl e"
proof (cases "comm st")
  case None
  then show ?thesis using assms that(1) by (auto simp: adapter_destroy_def off_def)
next
  case (Some c)
  show ?thesis
  proof (cases "native_destroy nat_ext c")
    case (Inl e)
    then show ?thesis
      using assms Some that(2) [of c] that(3) [of e c]
      by (auto simp: adapter_destroy_def off_def Let_def split: if_splits)
  next
    case (Inr u)
    then show ?thesis
      using assms Some that(2) [of c] by (auto simp: adapter_destroy_def off_def Let_def split: if_splits)
  qed
qed

lemma lifetime_ok: "lifetime nat_ext st evs \<Longrightarrow> adapter_ok nat_ext st"
proof (induction rule: lifetime.induct)
  case (constructed sha1hex env grp fresh cur dev name st evs)
  then show ?case using adapter_init_contract by (fastforce simp: init_contract_def adapter_ok_def)
next
  case (destroyed st evs st' r evs')
  from destroyed.hyps(2) show ?case
    by (rule destroy_cases) (use destroyed.IH in \<open>auto simp: adapter_ok_def\<close>)
qed

text \<open>The invariant of the trace when native destruction does not fail.\<close>

definition trace_ok :: "'c adapter \<Rightarrow> 'c event list \<Rightarrow> bool" where
  "trace_ok st evs \<longleftrightarrow>
     (\<forall>c. count_list evs (Destroyed c) \<le> 1)
     \<and> (\<forall>c. comm st = Some c \<longrightarrow> Destroyed c \<notin> set evs)"

lemma init_contract_trace: "init_contract nat_ext st evs \<Longrightarrow> trace_ok st evs"
proof -
  assume i: "init_contract nat_ext st evs"
  have "count_list evs (Destroyed c) \<le> 1" for c
  proof (cases "Destroyed c \<in> set evs")
    case False
    then show ?thesis by (simp add: count_list_0_iff)
  next
    case True
    then obtain evs' where "evs = Created c # evs' @ [Destroyed c]" "Destroyed c \<notin> set evs'"
      using i by (auto simp: init_contract_def)
    then show ?thesis by (simp add: count_list_0_iff)
  qed
  then show ?thesis using i by (auto simp: trace_ok_def init_contract_def off_def)
qed

lemma lifetime_trace:
  assumes ok: "\<And>c. native_destroy nat_ext c = Inr ()"
  shows "lifetime nat_ext st evs \<Longrightarrow> trace_ok st evs"
proof (induction rule: lifetime.induct)
  case (constructed sha1hex env grp fresh cur dev name st evs)
  then show ?case using adapter_init_contract init_contract_trace by blast
next
  case (destroyed st evs st' r evs')
  from destroyed.hyps(2) show ?case
    by (rule destroy_cases)
      (use destroyed.IH ok in \<open>auto simp: trace_ok_def off_def count_list_0_iff\<close>)
qed

section \<open>The admission test\<close>

lemma all_reduce_never_none:
  "should_ooverlap_ar T st inp \<Longrightarrow> ar_all_reduce T nat_ext st inp \<noteq> Inr None"
  by (auto simp: ar_all_reduce_def map_sum_def split: option.splits sum.splits)

lemma should_iff:
  "should_ooverlap_ar T st inp \<longleftrightarrow>
     \<not> disabled st \<and> comm st \<noteq> None \<and> is_cuda T inp \<and> get_device T inp = device_index st
     \<and> is_contiguous T inp \<and> 0 < numel T inp \<and> rr_torch_dtype st = Some (tdtype T inp)
     \<and> nbytes T inp \<le> rr_capacity_bytes st"
  by (auto simp: should_ooverlap_ar_def)

lemma qwen_guards:
  assumes "qwen_row_parallel T nat_ext st inp weight = Inr r"
  obtains c slot filled where "comm st = Some c" "\<not> disabled st" "qwen_direct_slot_enabled st"
    and "length (tsize T inp) = 2" "length (tsize T weight) = 2"
    and "is_cuda T inp" "get_device T inp = device_index st" "rr_torch_dtype st = Some (tdtype T inp)"
    and "tsize T inp ! 1 = tsize T weight ! 1"
    and "int (tsize T inp ! 0 * tsize T weight ! 0) * element_size (tdtype T inp) \<le> rr_capacity_bytes st"
    and "acquire_all_reduce_slot nat_ext c [tsize T inp ! 0, tsize T weight ! 0] = Inr slot"
    and "tsize T slot = [tsize T inp ! 0, tsize T weight ! 0]"
    and "mm_transposed_out nat_ext inp weight slot = Inr filled"
    and "all_reduce_preloaded_slot nat_ext c filled = Inr r"
  using assms by (auto simp: qwen_row_parallel_def Let_def elim!: bind_resE split: option.splits if_splits)

lemma all_gather_guards:
  assumes "ag_all_gather T nat_ext st inp cat_dim = Inr out"
  obtains c g where "comm st = Some c" "\<not> disabled st"
    and "0 \<le> normalize_dim cat_dim (length (tsize T inp))"
      "normalize_dim cat_dim (length (tsize T inp)) < int (length (tsize T inp))"
    and "nbytes T inp * ad_world_size st \<le> ag_capacity_bytes st"
    and "all_gather_round_robin nat_ext c inp = Inr g"
    and "out = (let d = normalize_dim cat_dim (length (tsize T inp)); k = nat d;
                    w = nat (ad_world_size st); sz = tsize T inp
                in if d = 0 then g
                   else treshape T (tmovedim0 T (treshape T g (w # sz)) k)
                          (take k sz @ (w * sz ! k) # drop (k + 1) sz))"
  using assms by (auto simp: ag_all_gather_def Let_def elim!: bind_resE split: option.splits if_splits)

end
