(* ===== verification/Communicator.thy ===== *)
theory Communicator
  imports AdapterCorrect
begin

text \<open>
  \<open>CudaCommunicator\<close> of the patched \<open>cuda_communicator.py\<close> and the row-parallel hook of the patched
  \<open>qwen2.py\<close>: which sub-communicators the constructor creates for a forced or automatic backend, how
  \<open>all_reduce\<close> dispatches, and the other collectives. The sub-communicators of vLLM (PyNccl, custom,
  quick, flashinfer, AITER, symmetric memory) are records of the functions the code calls; the
  OOverlap one is the adapter of \<open>Adapter\<close>. Collectives that only move data are modelled by the call they
  make and the shapes involved.
\<close>

section \<open>Sub-communicators\<close>

record 't sub_comm =
  sub_disabled :: bool
  sub_accepts :: "'t \<Rightarrow> bool"
  sub_reduce :: "'t \<Rightarrow> 't option res"

text \<open>The contract behind the assertions of the dispatch: what a backend accepts it reduces.\<close>

locale collective =
  fixes accepts :: "'t \<Rightarrow> bool"
    and reduce :: "'t \<Rightarrow> 't option res"
  assumes accepted_reduced: "accepts x \<Longrightarrow> reduce x \<noteq> Inr None"
begin

text \<open>\<open>out = reduce(x); assert out is not None; return out\<close> never fails its assertion.\<close>

lemma assertion_holds:
  "accepts x \<Longrightarrow> bind_res (reduce x) (\<lambda>out. case out of None \<Rightarrow> Inl AssertionError | Some y \<Rightarrow> Inr y)
     = bind_res (reduce x) (\<lambda>out. Inr (the out))"
  using accepted_reduced [of x] by (cases "reduce x") (auto split: option.splits)

lemma reduced_or_raised:
  "accepts x \<Longrightarrow> (\<exists>y. reduce x = Inr (Some y)) \<or> (\<exists>e. reduce x = Inl e)"
proof (cases "reduce x")
  case (Inr out)
  then show ?thesis if "accepts x" using accepted_reduced [OF that] by (cases out) auto
qed auto

end

interpretation ooverlap: collective "should_ooverlap_ar T st" "ar_all_reduce T nat_ext st"
  for T :: "('t, 'x) torch_scheme" and nat_ext :: "('c, 't) native" and st
  by unfold_locales (rule all_reduce_never_none)

definition assert_some :: "'t option res \<Rightarrow> 't res" where
  "assert_some r = bind_res r (\<lambda>out. case out of None \<Rightarrow> Inl AssertionError | Some y \<Rightarrow> Inr y)"

section \<open>Construction\<close>

record ('c, 't) communicator =
  force_allreduce_backend :: string
  cc_world_size :: nat
  rank_in_group :: nat
  cc_ranks :: "int list"
  pynccl_comm :: "'t sub_comm option"
  ca_comm :: "'t sub_comm option"
  qr_comm :: "'t sub_comm option"
  symm_mem_comm :: "'t sub_comm option"
  fi_ar_comm :: "'t sub_comm option"
  aiter_ar_comm :: "'t sub_comm option"
  ooverlap_comm :: "'c adapter option"
  all2all_manager :: "string option"

record ('c, 't) platform =
  pf_is_cuda :: bool
  pf_is_rocm :: bool
  pf_enable_custom :: bool
  pf_use_symm_mem :: bool
  pf_use_flashinfer :: bool
  pf_aiter_enabled :: bool
  mk_pynccl :: "'t sub_comm res"
  mk_symm_mem :: "'t sub_comm res"
  mk_flashinfer :: "'t sub_comm res"
  mk_aiter :: "'t sub_comm res"
  mk_custom :: "bool \<Rightarrow> 't sub_comm res"
  mk_quick :: "'t sub_comm res"
  mk_ooverlap :: "'c adapter res"

definition allowed_force_backends :: "string list" where
  "allowed_force_backends = [''auto'', ''ooverlap'', ''custom'', ''pynccl'', ''nccl_symm'']"

text \<open>The class of the all-to-all manager for a backend name; some take the deprecated alias.\<close>

definition all2all_class :: "string \<Rightarrow> string res" where
  "all2all_class b =
     (if b \<in> {''naive'', ''allgather_reducescatter''} then Inr ''AgRsAll2AllManager''
      else if b = ''deepep_high_throughput'' then Inr ''DeepEPHTAll2AllManager''
      else if b = ''deepep_low_latency'' then Inr ''DeepEPLLAll2AllManager''
      else if b \<in> {''mori_high_throughput'', ''mori_low_latency''} then Inr ''MoriAll2AllManager''
      else if b = ''deepep_v2'' then Inr ''DeepEPV2All2AllManager''
      else if b = ''nixl_ep'' then Inr ''NixlEPAll2AllManager''
      else if b = ''flashinfer_all2allv'' \<or> b = ''flashinfer_nvlink_two_sided''
           then Inr ''FlashInferNVLinkTwoSidedManager''
      else if b = ''flashinfer_nvlink_one_sided'' then Inr ''FlashInferNVLinkOneSidedManager''
      else Inl (ValueError ''Unknown all2all backend''))"

definition create_when :: "bool \<Rightarrow> 'a res \<Rightarrow> 'a option res" where
  "create_when b mk = (if b then map_sum id Some mk else Inr None)"

text \<open>\<open>__init__\<close>, after the base class has set rank, world size and the all-to-all choice.\<close>

definition communicator_init ::
  "('c, 't) platform \<Rightarrow> os_env \<Rightarrow> string \<Rightarrow> nat \<Rightarrow> nat \<Rightarrow> int list \<Rightarrow> string option \<Rightarrow> ('c, 't) communicator res" where
  "communicator_init pf env unique_name world_size rank ranks use_all2all =
     (let force = py_lower (py_strip (getenv_default env ''VLLM_FORCE_ALLREDUCE_BACKEND'' ''auto''));
          tp = contains ''tp'' unique_name;
          use_custom = tp \<and> pf_enable_custom pf;
          use_symm = tp \<and> pf_use_symm_mem pf;
          use_flashinfer = tp \<and> pf_use_flashinfer pf;
          use_aiter = use_custom \<and> pf_aiter_enabled pf
      in bind_res (require (force \<in> set allowed_force_backends)
                     (ValueError ''VLLM_FORCE_ALLREDUCE_BACKEND must be one of'')) (\<lambda>_.
         bind_res (create_when (world_size > 1 \<and> force \<noteq> ''ooverlap'') (mk_pynccl pf)) (\<lambda>pynccl.
         bind_res (create_when (force = ''auto'' \<and> use_symm \<and> pf_is_cuda pf) (mk_symm_mem pf)) (\<lambda>symm.
         bind_res (create_when (force = ''auto'' \<and> use_flashinfer \<and> world_size > 1) (mk_flashinfer pf)) (\<lambda>fi.
         bind_res (create_when (force = ''auto'' \<and> use_aiter \<and> world_size > 1) (mk_aiter pf)) (\<lambda>aiter.
         bind_res (create_when (force \<in> {''auto'', ''custom''} \<and> use_custom \<and> aiter = None \<and> world_size > 1)
                     (mk_custom pf (case symm of None \<Rightarrow> False | Some s \<Rightarrow> \<not> sub_disabled s))) (\<lambda>ca.
         bind_res (create_when (force = ''ooverlap'' \<and> world_size > 1 \<and> pf_is_cuda pf) (mk_ooverlap pf)) (\<lambda>oo.
         bind_res (create_when (force \<in> {''auto'', ''custom''} \<and> use_custom \<and> world_size > 1 \<and> pf_is_rocm pf)
                     (mk_quick pf)) (\<lambda>qr.
         bind_res (case use_all2all of None \<Rightarrow> Inr None | Some b \<Rightarrow> map_sum id Some (all2all_class b)) (\<lambda>mgr.
         Inr \<lparr>force_allreduce_backend = force, cc_world_size = world_size, rank_in_group = rank,
              cc_ranks = ranks, pynccl_comm = pynccl, ca_comm = ca, qr_comm = qr, symm_mem_comm = symm,
              fi_ar_comm = fi, aiter_ar_comm = aiter, ooverlap_comm = oo, all2all_manager = mgr\<rparr>))))))))))"

section \<open>All-reduce\<close>

text \<open>The torch side of a reduction: the NCCL symmetric-memory operator, its admission test, and the
  clone reduced by \<open>torch.distributed\<close>.\<close>

record 't reduce_env =
  should_nccl_symm_mem_allreduce :: "'t \<Rightarrow> bool"
  all_reduce_symmetric_with_copy :: "'t \<Rightarrow> 't option res"
  dist_all_reduce :: "'t \<Rightarrow> 't res"

definition all_reduce_forced ::
  "('t, 'x) torch_scheme \<Rightarrow> ('c, 't) native \<Rightarrow> 't reduce_env \<Rightarrow> ('c, 't) communicator \<Rightarrow> 't \<Rightarrow> string \<Rightarrow> 't res" where
  "all_reduce_forced T nat_ext env cc inp backend =
     (if backend = ''ooverlap'' then
        (case ooverlap_comm cc of
           None \<Rightarrow> Inl (RuntimeError ''Forced ooverlap all-reduce backend is unavailable or rejected'')
         | Some ad \<Rightarrow>
             if disabled ad \<or> \<not> should_ooverlap_ar T ad inp
             then Inl (RuntimeError ''Forced ooverlap all-reduce backend is unavailable or rejected'')
             else assert_some (ar_all_reduce T nat_ext ad inp))
      else if backend = ''custom'' then
        (case ca_comm cc of
           None \<Rightarrow> Inl (RuntimeError ''Forced vLLM CustomAllreduce backend is unavailable or rejected'')
         | Some ca \<Rightarrow>
             if sub_disabled ca \<or> \<not> sub_accepts ca inp
             then Inl (RuntimeError ''Forced vLLM CustomAllreduce backend is unavailable or rejected'')
             else assert_some (sub_reduce ca inp))
      else if backend = ''pynccl'' then
        (case pynccl_comm cc of
           None \<Rightarrow> Inl (RuntimeError ''Forced vLLM PyNCCL backend is unavailable'')
         | Some p \<Rightarrow>
             if sub_disabled p then Inl (RuntimeError ''Forced vLLM PyNCCL backend is unavailable'')
             else bind_res (sub_reduce p inp) (\<lambda>out.
                    case out of None \<Rightarrow> Inl (RuntimeError ''Forced vLLM PyNCCL backend returned None'')
                    | Some y \<Rightarrow> Inr y))
      else if backend = ''nccl_symm'' then
        (case all_reduce_symmetric_with_copy env inp of
           Inl _ \<Rightarrow> Inl (RuntimeError ''Forced vLLM NCCL symmetric helper failed.'')
         | Inr None \<Rightarrow> Inl (RuntimeError ''Forced vLLM NCCL symmetric helper returned None'')
         | Inr (Some y) \<Rightarrow> Inr y)
      else Inl (RuntimeError ''Unknown forced all-reduce backend''))"

definition uses :: "'t sub_comm option \<Rightarrow> 't \<Rightarrow> bool" where
  "uses sub inp \<longleftrightarrow> (case sub of None \<Rightarrow> False | Some s \<Rightarrow> \<not> sub_disabled s \<and> sub_accepts s inp)"

definition cc_all_reduce ::
  "('t, 'x) torch_scheme \<Rightarrow> ('c, 't) native \<Rightarrow> 't reduce_env \<Rightarrow> ('c, 't) communicator \<Rightarrow> 't \<Rightarrow> 't res" where
  "cc_all_reduce T nat_ext env cc inp =
     (if force_allreduce_backend cc \<noteq> ''auto''
      then all_reduce_forced T nat_ext env cc inp (force_allreduce_backend cc)
      else
        bind_res (if pynccl_comm cc \<noteq> None \<and> should_nccl_symm_mem_allreduce env inp
                  then all_reduce_symmetric_with_copy env inp else Inr None) (\<lambda>symm_out.
        case symm_out of
          Some y \<Rightarrow> Inr y
        | None \<Rightarrow>
          if uses (qr_comm cc) inp then assert_some (sub_reduce (the (qr_comm cc)) inp)
          else if uses (fi_ar_comm cc) inp then assert_some (sub_reduce (the (fi_ar_comm cc)) inp)
          else if uses (aiter_ar_comm cc) inp then assert_some (sub_reduce (the (aiter_ar_comm cc)) inp)
          else if uses (ca_comm cc) inp then assert_some (sub_reduce (the (ca_comm cc)) inp)
          else if symm_mem_comm cc \<noteq> None \<and> sub_accepts (the (symm_mem_comm cc)) inp
               then assert_some (sub_reduce (the (symm_mem_comm cc)) inp)
          else (case pynccl_comm cc of
                  None \<Rightarrow> dist_all_reduce env inp
                | Some p \<Rightarrow>
                    if sub_disabled p then dist_all_reduce env inp
                    else bind_res (sub_reduce p inp) (\<lambda>out.
                           case out of None \<Rightarrow> dist_all_reduce env inp | Some y \<Rightarrow> Inr y))))"

text \<open>\<open>_log_all_reduce_backend_selection\<close>: the backends reported as enabled, in dispatch order;
  \<open>nccl_symm_ok\<close> stands for the settings it mirrors.\<close>

definition live :: "'t sub_comm option \<Rightarrow> bool" where
  "live sub \<longleftrightarrow> (case sub of None \<Rightarrow> False | Some s \<Rightarrow> \<not> sub_disabled s)"

definition enabled_ar_backends :: "bool \<Rightarrow> ('c, 't) communicator \<Rightarrow> string list" where
  "enabled_ar_backends nccl_symm_ok cc =
     (if live (pynccl_comm cc) \<and> nccl_symm_ok then [''NCCL_SYMM_MEM''] else [])
     @ (if live (qr_comm cc) then [''QUICK_REDUCE''] else [])
     @ (if live (fi_ar_comm cc) then [''FLASHINFER''] else [])
     @ (if live (aiter_ar_comm cc) then [''AITER_CUSTOM''] else [])
     @ (if live (ca_comm cc) then [''CUSTOM''] else [])
     @ (case ooverlap_comm cc of None \<Rightarrow> [] | Some ad \<Rightarrow> if disabled ad then [] else [''OOVERLAP''])
     @ (if live (symm_mem_comm cc) then [''SYMM_MEM''] else [])
     @ (if live (pynccl_comm cc) then [''PYNCCL''] else [])"

section \<open>All-gather\<close>

datatype 't gather_call = GatherSelf 't | GatherOoverlap 't | GatherSymmMem | GatherBase

definition cc_all_gather ::
  "('t, 'x) torch_scheme \<Rightarrow> ('c, 't) native \<Rightarrow> bool \<Rightarrow> ('c, 't) communicator \<Rightarrow> 't \<Rightarrow> int \<Rightarrow> 't gather_call res" where
  "cc_all_gather T nat_ext symm_ag_rs cc inp cat_dim =
     (if cc_world_size cc = 1 then Inr (GatherSelf inp)
      else if force_allreduce_backend cc = ''ooverlap'' then
        (case ooverlap_comm cc of
           None \<Rightarrow> Inl (RuntimeError ''Forced ooverlap all-gather backend is unavailable'')
         | Some ad \<Rightarrow>
             if disabled ad then Inl (RuntimeError ''Forced ooverlap all-gather backend is unavailable'')
             else bind_res (ag_all_gather T nat_ext ad inp cat_dim) (\<lambda>out. Inr (GatherOoverlap out)))
      else if normalize_dim cat_dim (length (tsize T inp)) = 0 \<and> symm_ag_rs then
        bind_res (require (pynccl_comm cc \<noteq> None) AssertionError) (\<lambda>_. Inr GatherSymmMem)
      else Inr GatherBase)"

section \<open>Reduce-scatter\<close>

text \<open>The native call made and the shapes of its output and input.\<close>

datatype scatter_call =
    ScatterSymm "nat list" "nat list"
  | ScatterPlain "nat list" "nat list"
  | ScatterV "nat list" "nat list" "nat list"

definition movedim0_shape :: "nat list \<Rightarrow> int \<Rightarrow> nat list res" where
  "movedim0_shape shape d =
     (if - int (length shape) \<le> d \<and> d < int (length shape) \<and> shape \<noteq> []
      then Inr (moved (nat (if d < 0 then d + int (length shape) else d)) shape) else Inl IndexError)"

definition cc_reduce_scatterv ::
  "bool \<Rightarrow> ('c, 't) communicator \<Rightarrow> nat list \<Rightarrow> int \<Rightarrow> nat list option \<Rightarrow> (scatter_call \<times> nat list) res" where
  "cc_reduce_scatterv symm_ag_rs cc shape cat_dim sizes =
     bind_res (require (pynccl_comm cc \<noteq> None) AssertionError) (\<lambda>_.
     let d = normalize_dim cat_dim (length shape); w = cc_world_size cc in
     bind_res (movedim0_shape shape d) (\<lambda>input.
     bind_res (case sizes of
                 Some ss \<Rightarrow>
                   bind_res (require (length ss = w) AssertionError) (\<lambda>_.
                   bind_res (require (hd input = sum_list ss) AssertionError) (\<lambda>_.
                   py_get ss (int (rank_in_group cc))))
               | None \<Rightarrow>
                   bind_res (require (hd input mod w = 0) AssertionError) (\<lambda>_. Inr (hd input div w)))
       (\<lambda>chunk_size.
     let out = chunk_size # tl input;
         call = (if sizes = None \<and> symm_ag_rs then ScatterSymm out input
                 else case sizes of
                        Some ss \<Rightarrow> if count_list ss (hd ss) \<noteq> length ss then ScatterV out input ss
                                   else ScatterPlain out input
                      | None \<Rightarrow> ScatterPlain out input)
     in bind_res (movedim0_shape out d) (\<lambda>result. Inr (call, result)))))"

definition cc_reduce_scatter :: "bool \<Rightarrow> ('c, 't) communicator \<Rightarrow> nat list \<Rightarrow> int \<Rightarrow> (scatter_call \<times> nat list) res" where
  "cc_reduce_scatter symm_ag_rs cc shape cat_dim =
     bind_res (require (pynccl_comm cc \<noteq> None) AssertionError) (\<lambda>_.
     let d = normalize_dim cat_dim (length shape); w = cc_world_size cc in
     bind_res (movedim0_shape shape d) (\<lambda>input.
     bind_res (require (hd input mod w = 0) AssertionError) (\<lambda>_.
     let out = hd input div w # tl input;
         call = (if symm_ag_rs then ScatterSymm out input else ScatterPlain out input)
     in bind_res (movedim0_shape out d) (\<lambda>result. Inr (call, result)))))"

section \<open>Symmetric-memory scratch buffers\<close>

text \<open>The cache of \<open>_get_symm_scratch\<close>; an allocation is a new buffer, numbered by the allocations before.\<close>

type_synonym scratch_key = "string \<times> nat list \<times> dtype"

record scratch =
  scratch_bufs :: "scratch_key \<rightharpoonup> nat"
  allocated :: nat

definition get_symm_scratch :: "scratch_key \<Rightarrow> scratch \<Rightarrow> nat \<times> scratch" where
  "get_symm_scratch key sc =
     (case scratch_bufs sc key of
        Some buf \<Rightarrow> (buf, sc)
      | None \<Rightarrow> (allocated sc, \<lparr>scratch_bufs = (scratch_bufs sc)(key \<mapsto> allocated sc),
                               allocated = Suc (allocated sc)\<rparr>))"

fun get_many :: "scratch_key list \<Rightarrow> scratch \<Rightarrow> nat list \<times> scratch" where
  "get_many [] sc = ([], sc)"
| "get_many (k # ks) sc =
     (let (b, sc1) = get_symm_scratch k sc; (bs, sc2) = get_many ks sc1 in (b # bs, sc2))"

text \<open>\<open>_reduce_scatter_symm_mem\<close>: output scratch first, then an input scratch unless the input is
  already symmetric; the result names the output and the input buffer of the native call. Both functions run
  after the assertion that a PyNccl communicator is there.\<close>

definition reduce_scatter_symm_mem ::
  "nat \<Rightarrow> dtype \<Rightarrow> nat list \<Rightarrow> bool \<Rightarrow> scratch \<Rightarrow> (nat \<times> nat option) \<times> scratch" where
  "reduce_scatter_symm_mem world_size dt shape already_symmetric sc =
     (let (out, sc1) = get_symm_scratch (''rs_out'', (hd shape div world_size) # tl shape, dt) sc
      in if already_symmetric then ((out, None), sc1)
         else let (inp, sc2) = get_symm_scratch (''rs_in'', shape, dt) sc1 in ((out, Some inp), sc2))"

definition all_gather_symm_mem :: "nat \<Rightarrow> dtype \<Rightarrow> nat list \<Rightarrow> scratch \<Rightarrow> nat \<times> scratch" where
  "all_gather_symm_mem world_size dt shape sc =
     get_symm_scratch (''ag_out'', (hd shape * world_size) # tl shape, dt) sc"

section \<open>Point-to-point and broadcast\<close>

datatype route = ViaNccl int | ViaTorch int

definition usable :: "'t sub_comm option \<Rightarrow> bool" where
  "usable sub \<longleftrightarrow> live sub"

definition route_to :: "('c, 't) communicator \<Rightarrow> int \<Rightarrow> route res" where
  "route_to cc peer =
     (if usable (pynccl_comm cc) then Inr (ViaNccl peer)
      else bind_res (py_get (cc_ranks cc) peer) (\<lambda>g. Inr (ViaTorch g)))"

definition cc_send :: "('c, 't) communicator \<Rightarrow> int option \<Rightarrow> route res" where
  "cc_send cc dst =
     bind_res (case dst of None \<Rightarrow> py_mod (int (rank_in_group cc) + 1) (int (cc_world_size cc)) | Some d \<Rightarrow> Inr d)
       (route_to cc)"

definition cc_recv :: "('c, 't) communicator \<Rightarrow> int option \<Rightarrow> route res" where
  "cc_recv cc src =
     bind_res (case src of None \<Rightarrow> py_mod (int (rank_in_group cc) - 1) (int (cc_world_size cc)) | Some d \<Rightarrow> Inr d)
       (route_to cc)"

definition cc_broadcast :: "('c, 't) communicator \<Rightarrow> int \<Rightarrow> int option res" where
  "cc_broadcast cc src =
     (if cc_world_size cc = 1 then Inr None
      else if usable (pynccl_comm cc) then Inr (Some src)
      else Inl (ValueError ''No PyNCCL communicator found''))"

definition cc_batch_isend_irecv :: "('c, 't) communicator \<Rightarrow> unit res" where
  "cc_batch_isend_irecv cc =
     (if usable (pynccl_comm cc) then Inr () else Inl (ValueError ''No PyNCCL communicator found''))"

section \<open>Variable-size all-gather\<close>

datatype gatherv_call = GathervSymm | GathervPlain "nat list" | GathervSizes "nat list" "nat list"

definition all_gather_single :: "('c, 't) communicator \<Rightarrow> nat list option \<Rightarrow> nat list \<Rightarrow> gatherv_call res" where
  "all_gather_single cc sizes shape =
     (case sizes of
        Some ss \<Rightarrow>
          bind_res (require (length ss = cc_world_size cc) AssertionError) (\<lambda>_.
          bind_res (py_get ss (int (rank_in_group cc))) (\<lambda>own.
          bind_res (py_get shape 0) (\<lambda>s0.
          bind_res (require (s0 = own) AssertionError) (\<lambda>_.
          Inr (GathervSizes (sum_list ss # tl shape) ss)))))
      | None \<Rightarrow> bind_res (py_get shape 0) (\<lambda>s0. Inr (GathervPlain (s0 * cc_world_size cc # tl shape))))"

definition cc_all_gatherv ::
  "bool \<Rightarrow> ('c, 't) communicator \<Rightarrow> nat list list \<Rightarrow> int \<Rightarrow> nat list option \<Rightarrow> gatherv_call list res" where
  "cc_all_gatherv symm_ag_rs cc shapes cat_dim sizes =
     (if cat_dim \<noteq> 0 then Inl (NotImplementedError ''only dim 0 all-gatherv is supported'')
      else
        bind_res (require (live (pynccl_comm cc)) AssertionError) (\<lambda>_.
        let sizes' = (case sizes of
                        None \<Rightarrow> None
                      | Some ss \<Rightarrow> if \<forall>s \<in> set ss. s = hd ss then None else Some ss)
        in if sizes' = None \<and> symm_ag_rs then Inr (map (\<lambda>_. GathervSymm) shapes)
           else map_res (all_gather_single cc sizes') shapes))"

text \<open>The outputs that \<open>_all_gather_batched_symm_mem\<close> allocates and gathers into, one for each input.\<close>

definition all_gather_batched_symm_mem :: "('c, 't) communicator \<Rightarrow> nat list list \<Rightarrow> nat list list res" where
  "all_gather_batched_symm_mem cc shapes =
     bind_res (require (pynccl_comm cc \<noteq> None) AssertionError) (\<lambda>_.
     map_res (\<lambda>shape. bind_res (py_get shape 0) (\<lambda>s0. Inr (s0 * cc_world_size cc # tl shape))) shapes)"

section \<open>All-to-all\<close>

text \<open>The three calls of the manager, whose methods are parameters: \<open>dispatch_router_logits\<close>, \<open>dispatch\<close> and \<open>combine\<close>.\<close>

definition cc_dispatch_router_logits ::
  "('c, 't) communicator \<Rightarrow> (string \<Rightarrow> 't \<Rightarrow> 't \<Rightarrow> bool \<Rightarrow> 't list option \<Rightarrow> 'r res) \<Rightarrow> 't \<Rightarrow> 't \<Rightarrow> bool \<Rightarrow> 't list option \<Rightarrow> 'r res" where
  "cc_dispatch_router_logits cc method hidden_states router_logits is_sequence_parallel extra_tensors =
     (case all2all_manager cc of None \<Rightarrow> Inl AssertionError
      | Some m \<Rightarrow> method m hidden_states router_logits is_sequence_parallel extra_tensors)"

definition cc_dispatch ::
  "('c, 't) communicator \<Rightarrow> (string \<Rightarrow> 't \<Rightarrow> 't \<Rightarrow> 't \<Rightarrow> bool \<Rightarrow> 't list option \<Rightarrow> 'r res) \<Rightarrow> 't \<Rightarrow> 't \<Rightarrow> 't \<Rightarrow> bool \<Rightarrow> 't list option \<Rightarrow>
   'r res" where
  "cc_dispatch cc method hidden_states topk_weights topk_ids is_sequence_parallel extra_tensors =
     (case all2all_manager cc of None \<Rightarrow> Inl AssertionError
      | Some m \<Rightarrow> method m hidden_states topk_weights topk_ids is_sequence_parallel extra_tensors)"

definition cc_combine :: "('c, 't) communicator \<Rightarrow> (string \<Rightarrow> 't \<Rightarrow> bool \<Rightarrow> 't res) \<Rightarrow> 't \<Rightarrow> bool \<Rightarrow> 't res" where
  "cc_combine cc method hidden_states is_sequence_parallel =
     (case all2all_manager cc of None \<Rightarrow> Inl AssertionError | Some m \<Rightarrow> method m hidden_states is_sequence_parallel)"

section \<open>Destruction\<close>

text \<open>The parts destroyed, in order, and the native events of the adapter. If the adapter's destructor raises,
  what comes before it is gone and what comes after it stays.\<close>

definition cc_destroy ::
  "('c, 't) native \<Rightarrow> ('c, 't) communicator \<Rightarrow> ('c, 't) communicator \<times> unit res \<times> string list \<times> 'c event list" where
  "cc_destroy nat_ext cc =
     (let names = (if pynccl_comm cc \<noteq> None then [''pynccl''] else [])
                  @ (if aiter_ar_comm cc \<noteq> None then [''aiter''] else [])
                  @ (if fi_ar_comm cc \<noteq> None then [''flashinfer''] else []);
          cc1 = cc\<lparr>pynccl_comm := None, ca_comm := None, aiter_ar_comm := None, fi_ar_comm := None\<rparr>;
          mgr = (case all2all_manager cc of None \<Rightarrow> [] | Some m \<Rightarrow> [m])
      in case ooverlap_comm cc of
           None \<Rightarrow> (cc1\<lparr>all2all_manager := None\<rparr>, Inr (), names @ mgr, [])
         | Some ad \<Rightarrow>
             (case adapter_destroy nat_ext ad of
                (ad', Inl e, evs) \<Rightarrow> (cc1\<lparr>ooverlap_comm := Some ad'\<rparr>, Inl e, names, evs)
              | (ad', Inr _, evs) \<Rightarrow>
                  (cc1\<lparr>ooverlap_comm := None, all2all_manager := None\<rparr>, Inr (), names @ mgr, evs)))"

section \<open>The row-parallel hook\<close>

record 't row_parallel_layer =
  input_is_parallel :: bool
  reduce_results :: bool
  tp_size :: nat
  has_bias :: bool
  quant_method :: string
  layer_weight :: 't
  layer_forward :: "'t \<Rightarrow> 't res"

text \<open>\<open>_qwen_ooverlap_row_parallel\<close>; the layer call returns the result or a tuple that starts with it.\<close>

definition direct_slot_active :: "('c, 't) communicator option \<Rightarrow> 'c adapter option" where
  "direct_slot_active device_comm =
     (case device_comm of
        None \<Rightarrow> None
      | Some cc \<Rightarrow> (case ooverlap_comm cc of
                     None \<Rightarrow> None
                   | Some ad \<Rightarrow> if qwen_direct_slot_enabled ad then Some ad else None))"

definition qwen_ooverlap_row_parallel ::
  "('t, 'x) torch_scheme \<Rightarrow> ('c, 't) native \<Rightarrow> ('c, 't) communicator option \<Rightarrow> 't row_parallel_layer \<Rightarrow> 't \<Rightarrow> 't res" where
  "qwen_ooverlap_row_parallel T nat_ext device_comm layer inp =
     (case direct_slot_active device_comm of
        None \<Rightarrow> layer_forward layer inp
      | Some ad \<Rightarrow>
          bind_res (require (input_is_parallel layer)
                      (RuntimeError ''Qwen direct-slot path requires input_is_parallel=True'')) (\<lambda>_.
          bind_res (require (reduce_results layer \<and> 1 < tp_size layer)
                      (RuntimeError ''Qwen direct-slot path requires TP>1 and reduce_results=True'')) (\<lambda>_.
          bind_res (require (\<not> has_bias layer)
                      (RuntimeError ''Qwen direct-slot path supports only bias-free RowParallelLinear'')) (\<lambda>_.
          bind_res (require (quant_method layer = ''UnquantizedLinearMethod'')
                      (RuntimeError ''Qwen direct-slot path supports only unquantized linear layers'')) (\<lambda>_.
          qwen_row_parallel T nat_ext ad inp (layer_weight layer))))))"

end
