(* ===== verification/AdapterProperties.thy ===== *)
theory AdapterProperties
  imports AdapterCorrect
begin

text \<open>
  The properties of the vLLM adapter, each applied to a small native extension: two ranks on one
  node, tensors as lists, an all-gather that interleaves the two inputs.
\<close>

section \<open>A small extension\<close>

definition dense_torch :: "dense torch" where
  "dense_torch = tensor_ops.extend dense_ops
     (torch.fields (\<lambda>_. True) (\<lambda>_. 0) (\<lambda>_. True) (\<lambda>_. BF16))"

definition demo_input :: "nat \<Rightarrow> dense" where
  "demo_input r = ([1, 2], \<lambda>k. of_nat (10 * r + k))"

definition demo_gathered :: dense where
  "demo_gathered = ([2, 2], \<lambda>k. of_nat (10 * (k div 2) + k mod 2))"

definition demo_native :: "(nat, dense) native" where
  "demo_native = \<lparr>is_initialized = True, cuda_available = True, load_ext = Inr True,
     new_communicator = (\<lambda>_ _ _. Inr 7), has_method = (\<lambda>_ _. True),
     init_round_robin_slots = (\<lambda>_ _ _ _. Inr ()), init_all_gather_round_robin_slots = (\<lambda>_ _ _ _. Inr ()),
     all_reduce_round_robin = (\<lambda>_ t. Inr t), all_gather_round_robin = (\<lambda>_ _. Inr demo_gathered),
     acquire_all_reduce_slot = (\<lambda>_ shape. Inr (shape, \<lambda>_. 0)), all_reduce_preloaded_slot = (\<lambda>_ t. Inr t),
     native_destroy = (\<lambda>_. Inr ()), mm_transposed_out = (\<lambda>_ _ slot. Inr (fst slot, \<lambda>_. 5))\<rparr>"

definition demo_group :: proc_group where
  "demo_group = \<lparr>dist_rank_world = Inr (0, 2), own_rank_world = Inr (0, 2), dist_group_ranks = Inr [0, 1],
     broadcast_object = (\<lambda>_ _. Inr (Some ''f00d'')), all_gather_object = (\<lambda>_. Inr [Some 0, Some 1])\<rparr>"

definition demo_adapter :: "nat adapter" where
  "demo_adapter = \<lparr>device_index = 0, disabled = False, comm = Some 7, qwen_direct_slot_enabled = True,
     rr_torch_dtype = Some BF16, rr_slot_count = 32, rr_capacity_bytes = 8388608,
     ag_torch_dtype = Some BF16, ag_slot_count = 4, ag_capacity_bytes = 67108864,
     ad_rank = 0, ad_world_size = 2\<rparr>"

definition demo_events :: "nat event list" where
  "demo_events = [Created 7, ArPool 7 ''bf16'' 8388608 32, AgPool 7 ''bf16'' 67108864 4]"

lemma demo_slot_config:
  "read_slot_config Map.empty = Inr \<lparr>sc_rr_name = ''bf16'', sc_rr_dtype = BF16, sc_rr_slots = 32,
     sc_rr_capacity = 8388608, sc_ag_name = ''bf16'', sc_ag_dtype = BF16, sc_ag_slots = 4,
     sc_ag_capacity = 67108864\<rparr>"
proof -
  have "normalize_rr_dtype ''bf16'' = Inr (''bf16'', BF16)" by code_simp
  then show ?thesis by (simp add: read_slot_config_def getenv_default_def positive_env_int_def)
qed

lemma demo_init:
  "adapter_init demo_native id Map.empty demo_group ''f00d'' 0 \<lparr>device_type = ''cuda'', device_ordinal = Some 0\<rparr> ''tp''
     = Inr (demo_adapter, demo_events)"
  by (simp add: adapter_init_def device_index_of_def demo_native_def demo_group_def rank_and_world_def
      open_communicator_def gather_visible_devices_def auto_broker_key_def set_env_def
      shared_broker_launch_id_def launch_payload_def group_ranks_def configure_slots_def demo_slot_config Let_def
      fresh_adapter_def demo_adapter_def demo_events_def)

lemma dense_torch_layout': "torch_layout dense_torch"
  using dense_torch_layout by (simp add: torch_layout_def dense_torch_def tensor_ops.defs torch.defs)

section \<open>Construction and life cycle\<close>

text \<open>C16: a constructor call that returns leaves one of two adapters. Either it is enabled: it holds the
  communicator it created, which has all required methods, both slot pools were initialised on it with
  exactly the positive, element-aligned capacities and slot counts the adapter records, and the direct-slot
  path is on just when the extension supports it. Or it is disabled, holds no communicator, and a
  communicator that had been created was destroyed as the last native call if it can be.\<close>

theorem constructor_enables_or_cleans_up:
  "(case adapter_init nat_ext sha1hex env grp fresh cur dev name of
      Inl e \<Rightarrow> e = RuntimeError ''ooverlap requires CUDA device'' \<or> rank_and_world grp = Inl e
    | Inr (st, evs) \<Rightarrow> init_contract nat_ext st evs)"
proof (cases "adapter_init nat_ext sha1hex env grp fresh cur dev name")
  case (Inl e)
  have "adapter_init nat_ext sha1hex env grp fresh cur dev name \<noteq> Inl e"
    if "device_index_of cur dev = Inr i" "rank_and_world grp = Inr p" for i p
    using that by (auto simp: adapter_init_def Let_def split: sum.splits prod.splits)
  moreover have "device_index_of cur dev = Inl e' \<Longrightarrow> e' = RuntimeError ''ooverlap requires CUDA device''" for e'
    by (auto simp: device_index_of_def split: if_splits)
  moreover have "rank_and_world grp = Inl e" if "device_index_of cur dev = Inr i" "rank_and_world grp = Inl e'" for i e'
    using that Inl by (auto simp: adapter_init_def Let_def split: if_splits)
  ultimately show ?thesis
    using Inl by (cases "device_index_of cur dev"; cases "rank_and_world grp") (auto simp: adapter_init_def)
next
  case (Inr p)
  then show ?thesis using adapter_init_contract [of nat_ext] by (cases p) auto
qed

text \<open>C37: at every point of an adapter's life it is either fully enabled or off, and if the native
  destructor does not raise, no native communicator is destroyed twice and the one the adapter holds has
  not been destroyed.\<close>

theorem no_double_destroy:
  assumes "lifetime nat_ext st evs" and "\<And>c. native_destroy nat_ext c = Inr ()"
  shows "adapter_ok nat_ext st \<and> trace_ok st evs"
  using lifetime_ok [OF assms(1)] lifetime_trace [OF assms(2,1)] by simp

theorem no_double_destroy_witness:
  "trace_ok (demo_adapter\<lparr>comm := None, disabled := True, qwen_direct_slot_enabled := False\<rparr>)
     (demo_events @ [Destroyed 7])"
proof -
  have "adapter_destroy demo_native demo_adapter =
      (demo_adapter\<lparr>comm := None, disabled := True, qwen_direct_slot_enabled := False\<rparr>, Inr (), [Destroyed 7])"
    by (simp add: adapter_destroy_def demo_adapter_def demo_native_def)
  with lifetime.constructed [OF demo_init]
  have l: "lifetime demo_native (demo_adapter\<lparr>comm := None, disabled := True, qwen_direct_slot_enabled := False\<rparr>)
      (demo_events @ [Destroyed 7])" by (rule lifetime.destroyed)
  from no_double_destroy [OF l] show ?thesis by (simp add: demo_native_def)
qed

text \<open>Once \<open>destroy\<close> has returned, whatever the native extension would do, all-reduce declines every
  tensor, all-gather and the direct-slot GEMM raise \<open>RuntimeError\<close>, and a second \<open>destroy\<close> makes no
  native call.\<close>

theorem destroyed_adapter_refuses:
  assumes "adapter_destroy nat_ext st = (st', Inr u, evs)"
  shows "ar_all_reduce T any_ext st' inp = Inr None
    \<and> ag_all_gather T any_ext st' inp d
        = Inl (RuntimeError ''Forced ooverlap all-gather communicator is unavailable'')
    \<and> qwen_row_parallel T any_ext st' inp weight
        = Inl (RuntimeError ''Ooverlap Qwen direct-slot path is unavailable'')
    \<and> adapter_destroy any_ext st' = (st', Inr (), [])"
proof -
  have "disabled st'" "comm st' = None" "\<not> qwen_direct_slot_enabled st'"
    using assms by (auto simp: adapter_destroy_def Let_def split: option.splits if_splits sum.splits)
  then show ?thesis
    by (simp add: ar_all_reduce_def should_ooverlap_ar_def ag_all_gather_def qwen_row_parallel_def
        adapter_destroy_def)
qed

theorem destroyed_adapter_refuses_witness:
  "ar_all_reduce dense_torch demo_native
     (demo_adapter\<lparr>comm := None, disabled := True, qwen_direct_slot_enabled := False\<rparr>) (demo_input 0) = Inr None"
proof -
  have d: "adapter_destroy demo_native demo_adapter =
      (demo_adapter\<lparr>comm := None, disabled := True, qwen_direct_slot_enabled := False\<rparr>, Inr (), [Destroyed 7])"
    by (simp add: adapter_destroy_def demo_adapter_def demo_native_def)
  show ?thesis by (rule conjunct1 [OF destroyed_adapter_refuses [OF d]])
qed

section \<open>Collectives\<close>

text \<open>C12: the all-gather concatenates along the requested dimension, negative ones counted from the end.
  If the native call returns the rank-major layout, all ranks' tensors stacked along the first dimension,
  then the result has the input's shape with that dimension multiplied by the number of ranks, and its
  element at r * s + i along the dimension is element i of rank r's tensor.\<close>

theorem all_gather_concatenates:
  assumes "torch_layout T"
    and "ag_all_gather T nat_ext st inp cat_dim = Inr out"
    and "\<And>c g. all_gather_round_robin nat_ext c inp = Inr g \<Longrightarrow>
           tsize T g = (nat (ad_world_size st) * hd (tsize T inp)) # tl (tsize T inp)
           \<and> (\<forall>r k ks. r < nat (ad_world_size st) \<longrightarrow> valid_index (tsize T inp) (k # ks) \<longrightarrow>
                telem T g ((r * hd (tsize T inp) + k) # ks) = telem T (tensor_of r) (k # ks))"
    and "d = nat (normalize_dim cat_dim (length (tsize T inp)))"
  shows "d < length (tsize T inp)
    \<and> tsize T out = (tsize T inp)[d := nat (ad_world_size st) * tsize T inp ! d]
    \<and> (\<forall>r ix. r < nat (ad_world_size st) \<longrightarrow> valid_index (tsize T inp) ix \<longrightarrow>
         telem T out (ix[d := r * tsize T inp ! d + ix ! d]) = telem T (tensor_of r) ix)"
proof -
  note rm = assms(1) [unfolded torch_layout_def]
  let ?sz = "tsize T inp" and ?w = "nat (ad_world_size st)"
  obtain c g where nd: "0 \<le> normalize_dim cat_dim (length ?sz)" "normalize_dim cat_dim (length ?sz) < int (length ?sz)"
    and g: "all_gather_round_robin nat_ext c inp = Inr g"
    and out: "out = (let d = normalize_dim cat_dim (length ?sz); k = nat d; w = ?w; sz = ?sz
                in if d = 0 then g
                   else treshape T (tmovedim0 T (treshape T g (w # sz)) k) (take k sz @ (w * sz ! k) # drop (k + 1) sz))"
    using assms(2) by (rule all_gather_guards)
  have d: "d < length ?sz" using nd assms(4) by simp
  obtain s0 ss where sz: "?sz = s0 # ss" using d by (cases ?sz) auto
  note gg = assms(3) [OF g, unfolded sz list.sel]
  show ?thesis
  proof (cases "d = 0")
    case True
    then have "out = g" using nd out assms(4) by simp
    moreover have "telem T g (ix[0 := r * s0 + ix ! 0]) = telem T (tensor_of r) ix"
      if "r < ?w" "valid_index (s0 # ss) ix" for r ix
      using gg that by (cases ix) auto
    ultimately show ?thesis using True gg d by (simp add: sz)
  next
    case False
    then have o: "out = treshape T (tmovedim0 T (treshape T g (?w # ?sz)) d)
                    (take d ?sz @ (?w * ?sz ! d) # drop (Suc d) ?sz)"
      using out nd assms(4) by (simp add: Let_def)
    have gs: "tsize T g = (?w * s0) # ss" using gg by simp
    have el: "tsize T out = take d ?sz @ (?w * ?sz ! d) # drop (Suc d) ?sz
        \<and> telem T out (ix[d := r * ?sz ! d + ix ! d]) = telem T (tensor_of r) ix"
      if r: "r < ?w" and v: "valid_index ?sz ix" for r ix
    proof -
      have l: "length ix = length ?sz" and b: "\<forall>k < length ?sz. ix ! k < ?sz ! k"
        using v by (simp_all add: valid_index_nth)
      have parts: "valid_index (take d ?sz) (take d ix)" "ix ! d < ?sz ! d"
        "valid_index (drop (Suc d) ?sz) (drop (Suc d) ix)"
        using l b d by (simp_all add: valid_index_nth)
      note sm = row_major.split_move_merge [OF rm gs sz d parts(1) r parts(2,3), folded o]
      have "ix = take d ix @ ix ! d # drop (Suc d) ix" using d l by (simp add: id_take_nth_drop)
      moreover obtain k ks where k: "ix = k # ks" using l sz by (cases ix) auto
      ultimately have "telem T out (take d ix @ (r * ?sz ! d + ix ! d) # drop (Suc d) ix)
          = telem T g ((r * s0 + k) # ks)"
        using sm(2) by simp
      also have "\<dots> = telem T (tensor_of r) ix" using gg r v k sz by simp
      finally show ?thesis using sm(1) d l by (simp add: upd_conv_take_nth_drop)
    qed
    have "tsize T out = ?sz[d := ?w * ?sz ! d]"
    proof -
      have "treshape T g (?w # ?sz) = treshape T g (?w # ?sz)" ..
      have pg: "prod_list (?w # ?sz) = prod_list (tsize T g)" by (simp add: gs sz)
      have sh: "tsize T (treshape T g (?w # ?sz)) = ?w # ?sz" using rm pg by (rule row_major.reshape_size)
      have sm: "tsize T (tmovedim0 T (treshape T g (?w # ?sz)) d) = take d ?sz @ ?w # ?sz ! d # drop (Suc d) ?sz"
        using d row_major.movedim_size [OF rm, of d "treshape T g (?w # ?sz)"]
        by (simp add: sh moved_def Cons_nth_drop_Suc)
      show ?thesis
        unfolding o using d prod_list_merge [of "take d ?sz" ?w "?sz ! d" "drop (Suc d) ?sz"] sm
        by (simp add: row_major.reshape_size [OF rm] upd_conv_take_nth_drop)
    qed
    then show ?thesis using el d by blast
  qed
qed

theorem all_gather_concatenates_witness:
  "\<exists>out. ag_all_gather dense_torch demo_native demo_adapter (demo_input 0) (-1) = Inr out
     \<and> tsize dense_torch out = [1, 4]
     \<and> (\<forall>r ix. r < 2 \<longrightarrow> valid_index [1, 2] ix \<longrightarrow>
          telem dense_torch out (ix[1 := r * 2 + ix ! 1]) = telem dense_torch (demo_input r) ix)"
proof -
  note d = dense_torch_def dense_ops_def tensor_ops.defs torch.defs
  obtain out where out: "ag_all_gather dense_torch demo_native demo_adapter (demo_input 0) (-1) = Inr out"
    by (simp add: ag_all_gather_def demo_adapter_def demo_input_def demo_native_def normalize_dim_def
        numel_def nbytes_def d Let_def)
  have sz: "tsize dense_torch (demo_input 0) = [1, 2]" by (simp add: d demo_input_def)
  have w: "nat (ad_world_size demo_adapter) = 2" by (simp add: demo_adapter_def)
  have g: "tsize dense_torch g = (nat (ad_world_size demo_adapter) * hd (tsize dense_torch (demo_input 0)))
             # tl (tsize dense_torch (demo_input 0))
           \<and> (\<forall>r k ks. r < nat (ad_world_size demo_adapter) \<longrightarrow> valid_index (tsize dense_torch (demo_input 0)) (k # ks) \<longrightarrow>
                telem dense_torch g ((r * hd (tsize dense_torch (demo_input 0)) + k) # ks)
                = telem dense_torch (demo_input r) (k # ks))"
    if "all_gather_round_robin demo_native c (demo_input 0) = Inr g" for c g
  proof -
    have "g = demo_gathered" using that by (simp add: demo_native_def)
    moreover have "telem dense_torch demo_gathered ((r * 1 + k) # ks) = telem dense_torch (demo_input r) (k # ks)"
      if "valid_index [1, 2] (k # ks)" for r k ks
      using that by (cases ks) (auto simp: demo_gathered_def demo_input_def d)
    moreover have "tsize dense_torch demo_gathered = [2, 2]" by (simp add: d demo_gathered_def)
    ultimately show ?thesis by (simp add: sz w)
  qed
  have "nat (normalize_dim (-1) (length (tsize dense_torch (demo_input 0)))) = 1"
    by (simp add: sz normalize_dim_def)
  with all_gather_concatenates [OF dense_torch_layout' out g refl] show ?thesis
    using out by (simp add: sz w)
qed

section \<open>Broker keys\<close>

text \<open>C38: A broker key is at most twenty characters long, below the ninety of the socket prefix the code relies on, whatever
  the digest; and all members of a group derive the same one. The members are numbered by their group ranks and agree on
  the list of global ranks; the broadcast leaves the first member, which is its source, what that member passes, and hands it to
  every member that passes \<open>None\<close>. Each member may have an id \<open>fresh i\<close> of its own; only that of the first is drawn on.\<close>

theorem broker_keys_short_and_shared:
  assumes "\<And>i. i < n \<Longrightarrow> rank_and_world (g i) = Inr (int i, w)"
    and "\<And>i. i < n \<Longrightarrow> group_ranks (g i) world_size = ranks" and "ranks \<noteq> []"
    and "\<And>payload. broadcast_object (g 0) payload (hd ranks) = Inr payload"
    and "\<And>i. 0 < i \<Longrightarrow> i < n \<Longrightarrow> broadcast_object (g i) None (hd ranks) = Inr (launch_payload 0 (fresh 0))"
    and "fresh 0 \<noteq> ''''"
  shows "\<exists>k. length k \<le> 20 \<and> (\<forall>i < n. auto_broker_key sha1hex env (g i) (fresh i) name world_size = Inr k)"
proof -
  have short: "length (short_broker_key sha1hex raw) \<le> 20" for raw by (simp add: short_broker_key_def)
  let ?id = "case set_env env ''VLLM_OOVERLAP_BROKER_LAUNCH_ID'' of Some ovr \<Rightarrow> sanitize_broker_key ovr
             | None \<Rightarrow> sanitize_broker_key (fresh 0)"
  let ?k = "case set_env env ''VLLM_OOVERLAP_BROKER_KEY'' of Some ovr \<Rightarrow> short_broker_key sha1hex ovr
      | None \<Rightarrow> short_broker_key sha1hex
            (getenv_default env ''MASTER_ADDR'' ''localhost'' @ '':'' @ getenv_default env ''MASTER_PORT'' ''0''
             @ '':'' @ getenv_default env ''LOCAL_WORLD_SIZE'' (str_int world_size) @ '':'' @ name @ '':''
             @ py_join '','' (map str_int ranks) @ '':'' @ ?id)"
  have "auto_broker_key sha1hex env (g i) (fresh i) name world_size = Inr ?k" if i: "i < n" for i
  proof -
    have "py_get (group_ranks (g i) world_size) 0 = Inr (hd ranks)"
      using assms(2) [OF i] assms(3) by (cases ranks) simp_all
    moreover have "broadcast_object (g i) (launch_payload (int i) (fresh i)) (hd ranks) = Inr (Some (fresh 0))"
      using assms(4) assms(5) [of i] i by (cases "i = 0") (simp_all add: launch_payload_def)
    ultimately have "shared_broker_launch_id env (g i) (fresh i) world_size = Inr ?id"
      using assms(1) [OF i] assms(6) by (simp add: shared_broker_launch_id_def split: option.split)
    then show ?thesis using assms(2) [OF i] by (simp add: auto_broker_key_def split: option.split)
  qed
  moreover have "length ?k \<le> 20" using short by (simp split: option.split)
  ultimately show ?thesis by blast
qed

text \<open>Two members that have drawn different ids.\<close>

definition demo_member :: "nat \<Rightarrow> proc_group" where
  "demo_member i = demo_group\<lparr>dist_rank_world := Inr (int i, 2),
     broadcast_object := (\<lambda>payload _. if i = 0 then Inr payload else Inr (Some ''a''))\<rparr>"

theorem broker_keys_short_and_shared_witness:
  "\<exists>k. auto_broker_key id Map.empty (demo_member 0) ''a'' ''tp'' 2 = Inr k
     \<and> auto_broker_key id Map.empty (demo_member 1) ''b'' ''tp'' 2 = Inr k \<and> length k \<le> 20"
proof -
  have "\<exists>k. length k \<le> 20 \<and> (\<forall>i < 2. auto_broker_key id Map.empty (demo_member i) (if i = 0 then ''a'' else ''b'') ''tp'' 2 = Inr k)"
    by (rule broker_keys_short_and_shared [where ranks = "[0, 1]" and w = 2])
      (simp_all add: demo_member_def demo_group_def rank_and_world_def group_ranks_def launch_payload_def)
  then show ?thesis by (auto simp: less_2_cases_iff)
qed

end
