(* ===== verification/CommunicatorProperties.thy ===== *)
theory CommunicatorProperties
  imports Communicator AdapterProperties
begin

text \<open>
  The properties of the patched vLLM communicator: which backends a forced setting leaves alive, that a
  forced backend is never replaced by another, that the automatic dispatch is a chain of backends each
  tried in turn, the shapes and buffers of the data-moving collectives, and the ring of the default peers.
\<close>

section \<open>A communicator to evaluate\<close>

definition demo_sub :: "dense sub_comm" where
  "demo_sub = \<lparr>sub_disabled = False, sub_accepts = (\<lambda>_. True), sub_reduce = (\<lambda>t. Inr (Some t))\<rparr>"

definition demo_platform :: "(nat, dense) platform" where
  "demo_platform = \<lparr>pf_is_cuda = True, pf_is_rocm = False, pf_enable_custom = True, pf_use_symm_mem = True,
     pf_use_flashinfer = False, pf_aiter_enabled = False, mk_pynccl = Inr demo_sub, mk_symm_mem = Inr demo_sub,
     mk_flashinfer = Inr demo_sub, mk_aiter = Inr demo_sub, mk_custom = (\<lambda>_. Inr demo_sub),
     mk_quick = Inr demo_sub, mk_ooverlap = Inr demo_adapter\<rparr>"

definition demo_forced :: "(nat, dense) communicator" where
  "demo_forced = \<lparr>force_allreduce_backend = ''ooverlap'', cc_world_size = 2, rank_in_group = 0, cc_ranks = [0, 1],
     pynccl_comm = None, ca_comm = None, qr_comm = None, symm_mem_comm = None, fi_ar_comm = None,
     aiter_ar_comm = None, ooverlap_comm = Some demo_adapter, all2all_manager = None\<rparr>"

definition demo_auto :: "(nat, dense) communicator" where
  "demo_auto = demo_forced\<lparr>force_allreduce_backend := ''auto'', pynccl_comm := Some demo_sub,
     ca_comm := Some demo_sub, symm_mem_comm := Some demo_sub, ooverlap_comm := None\<rparr>"

definition demo_reduce_env :: "dense reduce_env" where
  "demo_reduce_env = \<lparr>should_nccl_symm_mem_allreduce = (\<lambda>_. False),
     all_reduce_symmetric_with_copy = (\<lambda>_. Inr None), dist_all_reduce = (\<lambda>t. Inr t)\<rparr>"

definition force_env :: "string \<Rightarrow> os_env" where
  "force_env b = [''VLLM_FORCE_ALLREDUCE_BACKEND'' \<mapsto> b]"

lemma demo_forced_init:
  "communicator_init demo_platform (force_env '' OOverlap '') ''tp:0'' 2 0 [0, 1] None = Inr demo_forced"
proof -
  have "py_lower (py_strip '' OOverlap '') = ''ooverlap''" by code_simp
  then show ?thesis
    by (simp add: communicator_init_def getenv_default_def force_env_def allowed_force_backends_def
        create_when_def demo_platform_def demo_forced_def Let_def)
qed

lemma demo_auto_init:
  "communicator_init demo_platform Map.empty ''tp:0'' 2 0 [0, 1] None = Inr demo_auto"
proof -
  have "py_lower (py_strip ''auto'') = ''auto''" and "contains ''tp'' ''tp:0''" by code_simp+
  then show ?thesis
    by (simp add: communicator_init_def getenv_default_def allowed_force_backends_def create_when_def
        demo_platform_def demo_forced_def demo_auto_def demo_sub_def Let_def)
qed

section \<open>Construction\<close>

definition other_backends_absent :: "('c, 't) communicator \<Rightarrow> bool" where
  "other_backends_absent cc \<longleftrightarrow>
     ca_comm cc = None \<and> qr_comm cc = None \<and> symm_mem_comm cc = None \<and> fi_ar_comm cc = None \<and> aiter_ar_comm cc = None"

lemma create_when_Inr: "create_when b mk = Inr out \<longleftrightarrow> (if b then \<exists>x. mk = Inr x \<and> out = Some x else out = None)"
  by (cases mk) (auto simp: create_when_def)

lemma communicator_init_parts:
  assumes "communicator_init pf env name w r rs a2a = Inr cc"
  shows "force_allreduce_backend cc \<in> set allowed_force_backends" and "cc_world_size cc = w" and "rank_in_group cc = r"
    and "pynccl_comm cc \<noteq> None \<longleftrightarrow> 1 < w \<and> force_allreduce_backend cc \<noteq> ''ooverlap''"
    and "ooverlap_comm cc \<noteq> None \<longleftrightarrow> 1 < w \<and> force_allreduce_backend cc = ''ooverlap'' \<and> pf_is_cuda pf"
    and "force_allreduce_backend cc \<notin> {''auto'', ''custom''} \<Longrightarrow> other_backends_absent cc"
    and "force_allreduce_backend cc = ''custom'' \<Longrightarrow>
           symm_mem_comm cc = None \<and> fi_ar_comm cc = None \<and> aiter_ar_comm cc = None"
    and "ca_comm cc \<noteq> None \<Longrightarrow> aiter_ar_comm cc = None"
    and "\<not> contains ''tp'' name \<Longrightarrow> other_backends_absent cc"
  using assms
  by (auto simp: communicator_init_def create_when_Inr other_backends_absent_def Let_def
      elim!: bind_resE split: if_splits)

text \<open>The constructor refuses an unknown forced backend, and keeps the backends apart. Forcing OOverlap
  creates its adapter and no other reduction backend, PyNccl included; any other setting creates no
  adapter; forcing PyNccl or the NCCL symmetric helper leaves PyNccl alone; AITER and the custom
  all-reduce exclude each other; and outside tensor-parallel groups only PyNccl or the adapter exist.\<close>

theorem construction_is_exclusive:
  assumes "communicator_init pf env name w r rs a2a = Inr cc"
  shows "force_allreduce_backend cc \<in> {''auto'', ''ooverlap'', ''custom'', ''pynccl'', ''nccl_symm''}
    \<and> (ooverlap_comm cc \<noteq> None \<longrightarrow> pynccl_comm cc = None \<and> other_backends_absent cc)
    \<and> (pynccl_comm cc \<noteq> None \<longleftrightarrow> 1 < w \<and> force_allreduce_backend cc \<noteq> ''ooverlap'')
    \<and> (ooverlap_comm cc \<noteq> None \<longleftrightarrow> 1 < w \<and> force_allreduce_backend cc = ''ooverlap'' \<and> pf_is_cuda pf)
    \<and> (force_allreduce_backend cc \<in> {''pynccl'', ''nccl_symm''} \<longrightarrow> other_backends_absent cc)
    \<and> (ca_comm cc = None \<or> aiter_ar_comm cc = None)
    \<and> (\<not> contains ''tp'' name \<longrightarrow> other_backends_absent cc)"
  using communicator_init_parts [OF assms] by (auto simp: allowed_force_backends_def)

theorem construction_is_exclusive_witness:
  "pynccl_comm demo_forced = None \<and> other_backends_absent demo_forced"
  using construction_is_exclusive [OF demo_forced_init] by (simp add: demo_forced_def)

section \<open>All-reduce\<close>

text \<open>C21: a forced backend is never replaced. When an all-reduce with a forced backend returns a tensor, it
  is the very result of that backend on the input, after it accepted it; every other outcome is an
  exception.\<close>

theorem forced_backend_never_falls_back:
  assumes "cc_all_reduce T nat_ext env cc inp = Inr y" and "force_allreduce_backend cc \<noteq> ''auto''"
  shows "(force_allreduce_backend cc = ''ooverlap'' \<and>
            (\<exists>ad. ooverlap_comm cc = Some ad \<and> should_ooverlap_ar T ad inp
                  \<and> ar_all_reduce T nat_ext ad inp = Inr (Some y)))
       \<or> (force_allreduce_backend cc = ''custom'' \<and>
            (\<exists>ca. ca_comm cc = Some ca \<and> \<not> sub_disabled ca \<and> sub_accepts ca inp \<and> sub_reduce ca inp = Inr (Some y)))
       \<or> (force_allreduce_backend cc = ''pynccl'' \<and>
            (\<exists>p. pynccl_comm cc = Some p \<and> \<not> sub_disabled p \<and> sub_reduce p inp = Inr (Some y)))
       \<or> (force_allreduce_backend cc = ''nccl_symm'' \<and> all_reduce_symmetric_with_copy env inp = Inr (Some y))"
  using assms
  by (auto simp: cc_all_reduce_def all_reduce_forced_def assert_some_def elim!: bind_resE
      split: if_splits option.splits sum.splits)

theorem forced_backend_never_falls_back_witness:
  "\<exists>ad. ooverlap_comm demo_forced = Some ad
     \<and> ar_all_reduce dense_torch demo_native ad (demo_input 0) = Inr (Some (demo_input 0))"
proof -
  have r: "cc_all_reduce dense_torch demo_native demo_reduce_env demo_forced (demo_input 0) = Inr (demo_input 0)"
    by (simp add: cc_all_reduce_def all_reduce_forced_def demo_forced_def demo_adapter_def should_iff
        ar_all_reduce_def demo_native_def assert_some_def dense_torch_def dense_ops_def tensor_ops.defs
        torch.defs numel_def nbytes_def demo_input_def)
  have "force_allreduce_backend demo_forced = ''ooverlap''" by (simp add: demo_forced_def)
  with forced_backend_never_falls_back [OF r] show ?thesis by auto
qed

text \<open>On the adapter the assertion after a forced OOverlap all-reduce cannot fail: the call returns what
  the native reduction returns when the tensor is admitted, and otherwise raises \<open>RuntimeError\<close>.\<close>

theorem forced_ooverlap_result:
  "force_allreduce_backend cc = ''ooverlap'' \<Longrightarrow> ooverlap_comm cc = Some ad \<Longrightarrow>
   cc_all_reduce T nat_ext env cc inp =
     (if should_ooverlap_ar T ad inp
      then all_reduce_round_robin nat_ext (the (comm ad)) inp
      else Inl (RuntimeError ''Forced ooverlap all-reduce backend is unavailable or rejected''))"
proof -
  assume f: "force_allreduce_backend cc = ''ooverlap''" and o: "ooverlap_comm cc = Some ad"
  show ?thesis
  proof (cases "should_ooverlap_ar T ad inp")
    case True
    then obtain c where c: "comm ad = Some c" and d: "\<not> disabled ad" by (auto simp: should_iff)
    have "assert_some (ar_all_reduce T nat_ext ad inp)
        = bind_res (ar_all_reduce T nat_ext ad inp) (\<lambda>out. Inr (the out))"
      unfolding assert_some_def using ooverlap.assertion_holds [OF True] .
    then show ?thesis
      using True f o c d by (cases "all_reduce_round_robin nat_ext c inp")
        (simp_all add: cc_all_reduce_def all_reduce_forced_def ar_all_reduce_def)
  next
    case False
    then show ?thesis using f o by (simp add: cc_all_reduce_def all_reduce_forced_def)
  qed
qed

theorem forced_ooverlap_result_witness:
  "cc_all_reduce dense_torch demo_native demo_reduce_env demo_forced ([0], \<lambda>_. 0)
     = Inl (RuntimeError ''Forced ooverlap all-reduce backend is unavailable or rejected'')"
proof -
  have "\<not> should_ooverlap_ar dense_torch demo_adapter ([0], \<lambda>_. 0)"
    by (simp add: should_iff dense_torch_def dense_ops_def tensor_ops.defs torch.defs numel_def)
  then show ?thesis
    using forced_ooverlap_result [of demo_forced demo_adapter dense_torch demo_native demo_reduce_env "([0], \<lambda>_. 0)"]
    by (simp add: demo_forced_def)
qed

text \<open>The dispatch chain as a list: each backend is tried in turn, the first that yields a tensor wins.\<close>

fun try_chain :: "(('t \<Rightarrow> bool) \<times> ('t \<Rightarrow> 't option res)) list \<Rightarrow> ('t \<Rightarrow> 't res) \<Rightarrow> 't \<Rightarrow> 't res" where
  "try_chain [] last_resort inp = last_resort inp"
| "try_chain ((accepts, reduce) # rest) last_resort inp =
     (if accepts inp
      then bind_res (reduce inp) (\<lambda>out. case out of Some y \<Rightarrow> Inr y | None \<Rightarrow> try_chain rest last_resort inp)
      else try_chain rest last_resort inp)"

definition link :: "'t sub_comm option \<Rightarrow> (('t \<Rightarrow> bool) \<times> ('t \<Rightarrow> 't option res))" where
  "link sub = (uses sub, \<lambda>t. sub_reduce (the sub) t)"

definition dispatch_chain :: "'t reduce_env \<Rightarrow> ('c, 't) communicator \<Rightarrow> (('t \<Rightarrow> bool) \<times> ('t \<Rightarrow> 't option res)) list" where
  "dispatch_chain env cc =
     [(\<lambda>t. pynccl_comm cc \<noteq> None \<and> should_nccl_symm_mem_allreduce env t, all_reduce_symmetric_with_copy env),
      link (qr_comm cc), link (fi_ar_comm cc), link (aiter_ar_comm cc), link (ca_comm cc),
      (\<lambda>t. symm_mem_comm cc \<noteq> None \<and> sub_accepts (the (symm_mem_comm cc)) t,
       \<lambda>t. sub_reduce (the (symm_mem_comm cc)) t),
      (\<lambda>t. live (pynccl_comm cc), \<lambda>t. sub_reduce (the (pynccl_comm cc)) t)]"

definition sub_contract :: "'t sub_comm option \<Rightarrow> bool" where
  "sub_contract sub \<longleftrightarrow> (case sub of None \<Rightarrow> True | Some s \<Rightarrow> collective (sub_accepts s) (sub_reduce s))"

lemma link_step:
  assumes "sub_contract sub"
  shows "(if uses sub inp then assert_some (sub_reduce (the sub) inp) else rest)
       = (if fst (link sub) inp
          then bind_res (snd (link sub) inp) (\<lambda>out. case out of Some y \<Rightarrow> Inr y | None \<Rightarrow> rest) else rest)"
proof (cases "uses sub inp")
  case True
  then obtain s where s: "sub = Some s" "sub_accepts s inp" by (auto simp: uses_def split: option.splits)
  then have "sub_reduce s inp \<noteq> Inr None"
    using assms collective.accepted_reduced by (fastforce simp: sub_contract_def)
  then show ?thesis
    using True s by (cases "sub_reduce s inp") (auto simp: link_def assert_some_def split: option.splits)
qed (simp add: link_def)

text \<open>C23: the automatic all-reduce is the chain NCCL symmetric memory, quick reduce, flashinfer, AITER,
  custom, torch symmetric memory, PyNccl, \<open>torch.distributed\<close>: each backend present, enabled and
  accepting the tensor is tried, and the next one is reached only if none before it produced a tensor,
  provided the backends guarded by an assertion reduce what they accept.\<close>

theorem auto_dispatch_is_chain:
  assumes "force_allreduce_backend cc = ''auto''"
    and "sub_contract (qr_comm cc)" "sub_contract (fi_ar_comm cc)" "sub_contract (aiter_ar_comm cc)"
      "sub_contract (ca_comm cc)" "sub_contract (symm_mem_comm cc)"
  shows "cc_all_reduce T nat_ext env cc inp = try_chain (dispatch_chain env cc) (dist_all_reduce env) inp"
proof -
  let ?dist = "dist_all_reduce env inp"
  let ?p = "case pynccl_comm cc of None \<Rightarrow> ?dist
     | Some p \<Rightarrow> if sub_disabled p then ?dist
                 else bind_res (sub_reduce p inp) (\<lambda>out. case out of None \<Rightarrow> ?dist | Some y \<Rightarrow> Inr y)"
  have p: "?p = (if live (pynccl_comm cc)
      then bind_res (sub_reduce (the (pynccl_comm cc)) inp) (\<lambda>out. case out of Some y \<Rightarrow> Inr y | None \<Rightarrow> ?dist) else ?dist)"
  proof -
    have "(\<lambda>out. case out of None \<Rightarrow> ?dist | Some y \<Rightarrow> Inr y) = (\<lambda>out. case out of Some y \<Rightarrow> Inr y | None \<Rightarrow> ?dist)"
      by (rule ext) (simp split: option.splits)
    then show ?thesis by (simp add: live_def split: option.splits)
  qed
  have sm: "(if symm_mem_comm cc \<noteq> None \<and> sub_accepts (the (symm_mem_comm cc)) inp
             then assert_some (sub_reduce (the (symm_mem_comm cc)) inp) else R)
          = (if symm_mem_comm cc \<noteq> None \<and> sub_accepts (the (symm_mem_comm cc)) inp
             then bind_res (sub_reduce (the (symm_mem_comm cc)) inp) (\<lambda>out. case out of Some y \<Rightarrow> Inr y | None \<Rightarrow> R)
             else R)" for R
  proof (cases "symm_mem_comm cc \<noteq> None \<and> sub_accepts (the (symm_mem_comm cc)) inp")
    case True
    then obtain s where s: "symm_mem_comm cc = Some s" "sub_accepts s inp" by auto
    then have "sub_reduce s inp \<noteq> Inr None"
      using assms(6) collective.accepted_reduced by (fastforce simp: sub_contract_def)
    then show ?thesis using s by (cases "sub_reduce s inp") (auto simp: assert_some_def split: option.splits)
  qed auto
  show ?thesis
    unfolding cc_all_reduce_def dispatch_chain_def
    by (simp only: assms(1) simp_thms if_False not_True_eq_False try_chain.simps link_def p sm
        link_step [OF assms(2), unfolded link_def fst_conv snd_conv]
        link_step [OF assms(3), unfolded link_def fst_conv snd_conv]
        link_step [OF assms(4), unfolded link_def fst_conv snd_conv]
        link_step [OF assms(5), unfolded link_def fst_conv snd_conv] split: if_splits)
      (auto simp: bind_res_def split: sum.splits option.splits)
qed

theorem auto_dispatch_is_chain_witness:
  "cc_all_reduce dense_torch demo_native demo_reduce_env demo_auto (demo_input 0)
     = try_chain (dispatch_chain demo_reduce_env demo_auto) (dist_all_reduce demo_reduce_env) (demo_input 0)"
  by (rule auto_dispatch_is_chain)
    (auto simp: demo_auto_def demo_forced_def sub_contract_def demo_sub_def collective_def)

section \<open>Collectives that move data\<close>

text \<open>C39: forcing OOverlap in a group of several ranks takes PyNccl away, and with it reduce-scatter, its
  variable-size form and the variable-size all-gather, which fail their assertion, and broadcast and
  batched point-to-point, which raise \<open>ValueError\<close>.\<close>

theorem forced_ooverlap_lacks_collectives:
  assumes "communicator_init pf env name w r rs a2a = Inr cc" and "force_allreduce_backend cc = ''ooverlap''" and "1 < w"
  shows "cc_reduce_scatter symm cc shape d = Inl AssertionError
    \<and> cc_reduce_scatterv symm cc shape d sizes = Inl AssertionError
    \<and> cc_all_gatherv symm cc shapes 0 sizes = Inl AssertionError
    \<and> cc_broadcast cc src = Inl (ValueError ''No PyNCCL communicator found'')
    \<and> cc_batch_isend_irecv cc = Inl (ValueError ''No PyNCCL communicator found'')"
  using communicator_init_parts(2,4) [OF assms(1)] assms(2,3)
  by (simp add: cc_reduce_scatter_def cc_reduce_scatterv_def cc_all_gatherv_def cc_broadcast_def
      cc_batch_isend_irecv_def usable_def live_def)

theorem forced_ooverlap_lacks_collectives_witness:
  "cc_broadcast demo_forced 0 = Inl (ValueError ''No PyNCCL communicator found'')"
proof -
  have "force_allreduce_backend demo_forced = ''ooverlap''" by (simp add: demo_forced_def)
  from forced_ooverlap_lacks_collectives [OF demo_forced_init this] show ?thesis by simp
qed

text \<open>Along the first two dimensions a reduce-scatter returns the input's shape with that dimension
  divided by the number of ranks, and splits exactly that dimension in the native call; with equal sizes,
  given or not, the variable-size form does the same.\<close>

theorem reduce_scatter_divides_dimension:
  assumes "pynccl_comm cc \<noteq> None" "0 < cc_world_size cc"
    and "d = nat (normalize_dim cat_dim (length shape))" "0 \<le> normalize_dim cat_dim (length shape)"
    and "d < length shape" "d < 2" "cc_world_size cc dvd shape ! d"
  shows "\<exists>call. cc_reduce_scatter symm cc shape cat_dim = Inr (call, shape[d := shape ! d div cc_world_size cc])
           \<and> cc_reduce_scatterv symm cc shape cat_dim None = Inr (call, shape[d := shape ! d div cc_world_size cc])"
proof -
  have n: "normalize_dim cat_dim (length shape) = int d" using assms(3,4) by simp
  have m: "movedim0_shape xs (int d) = Inr (moved d xs)" if "length xs = length shape" for xs
    using assms(5) that by (auto simp: movedim0_shape_def)
  obtain a rest where shape: "shape = a # rest" using assms(5) by (cases shape) auto
  show ?thesis
  proof (cases "d = 0")
    case True
    then show ?thesis
      using assms(1,7) n m by (auto simp: cc_reduce_scatter_def cc_reduce_scatterv_def moved_def shape Let_def)
  next
    case False
    then have d: "d = 1" using assms(6) by simp
    then obtain b rest' where rest: "rest = b # rest'" using assms(5) shape by (cases rest) auto
    then show ?thesis
      using assms(1,7) n m d by (auto simp: cc_reduce_scatter_def cc_reduce_scatterv_def moved_def shape Let_def)
  qed
qed

theorem reduce_scatter_divides_dimension_witness:
  "\<exists>call. cc_reduce_scatter False demo_auto [3, 8] (-1) = Inr (call, [3, 4])"
proof -
  have "pynccl_comm demo_auto \<noteq> None" "cc_world_size demo_auto = 2" by (simp_all add: demo_auto_def demo_forced_def)
  then show ?thesis
    using reduce_scatter_divides_dimension [of demo_auto 1 "-1" "[3, 8]" False] by (auto simp: normalize_dim_def)
qed

text \<open>C40: along the third dimension of a three-dimensional tensor it does not: the middle dimension is the
  one that is split, and the dimensions come back rotated.\<close>

theorem reduce_scatter_rotates_third_dimension:
  assumes "pynccl_comm cc \<noteq> None" "cc_world_size cc dvd b"
  shows "\<exists>call. cc_reduce_scatter symm cc [a, b, c] 2 = Inr (call, [c, a, b div cc_world_size cc])"
  using assms by (auto simp: cc_reduce_scatter_def movedim0_shape_def moved_def normalize_dim_def Let_def)

theorem reduce_scatter_rotates_third_dimension_witness:
  "\<exists>call. cc_reduce_scatter False demo_auto [3, 4, 6] 2 = Inr (call, [6, 3, 2])"
  using reduce_scatter_rotates_third_dimension [of demo_auto 4 False 3 6]
  by (simp add: demo_auto_def demo_forced_def)

definition scratch_ok :: "scratch \<Rightarrow> bool" where
  "scratch_ok sc \<longleftrightarrow>
     (\<forall>k k' b. scratch_bufs sc k = Some b \<longrightarrow> scratch_bufs sc k' = Some b \<longrightarrow> k = k')
     \<and> (\<forall>k b. scratch_bufs sc k = Some b \<longrightarrow> b < allocated sc)"

lemma scratch_okD:
  "scratch_ok sc \<Longrightarrow> scratch_bufs sc k = Some b \<Longrightarrow> scratch_bufs sc k' = Some b \<Longrightarrow> k = k'"
  "scratch_ok sc \<Longrightarrow> scratch_bufs sc k = Some b \<Longrightarrow> b < allocated sc"
  unfolding scratch_ok_def by blast+

lemma get_symm_scratch_facts:
  assumes "scratch_ok sc" and "get_symm_scratch k sc = (b, sc')"
  shows "scratch_ok sc'" and "scratch_bufs sc' k = Some b" and "scratch_bufs sc \<subseteq>\<^sub>m scratch_bufs sc'"
proof -
  have "scratch_ok sc' \<and> scratch_bufs sc' k = Some b \<and> scratch_bufs sc \<subseteq>\<^sub>m scratch_bufs sc'"
  proof (cases "scratch_bufs sc k")
    case None
    then have b: "b = allocated sc"
      and sc': "sc' = \<lparr>scratch_bufs = (scratch_bufs sc)(k \<mapsto> allocated sc), allocated = Suc (allocated sc)\<rparr>"
      using assms(2) by (auto simp: get_symm_scratch_def)
    have "x < Suc (allocated sc)" if "scratch_bufs sc' j = Some x" for j x
      using that scratch_okD(2) [OF assms(1), of j x] by (cases "j = k") (auto simp: sc')
    moreover have "j = j'" if "scratch_bufs sc' j = Some x" "scratch_bufs sc' j' = Some x" for j j' x
      using that scratch_okD(1) [OF assms(1), of j x j'] scratch_okD(2) [OF assms(1), of j x]
        scratch_okD(2) [OF assms(1), of j' x]
      by (cases "j = k"; cases "j' = k") (auto simp: sc')
    ultimately have "scratch_ok sc'" unfolding scratch_ok_def by (simp only: sc' scratch.simps) blast
    then show ?thesis using None by (auto simp: sc' b map_le_def)
  next
    case (Some x)
    then show ?thesis using assms by (simp add: get_symm_scratch_def)
  qed
  then show "scratch_ok sc'" and "scratch_bufs sc' k = Some b" and "scratch_bufs sc \<subseteq>\<^sub>m scratch_bufs sc'" by auto
qed

lemma get_many_facts:
  "scratch_ok sc \<Longrightarrow> get_many ks sc = (bs, sc') \<Longrightarrow>
   scratch_ok sc' \<and> scratch_bufs sc \<subseteq>\<^sub>m scratch_bufs sc' \<and> list_all2 (\<lambda>k b. scratch_bufs sc' k = Some b) ks bs"
proof (induction ks arbitrary: sc bs)
  case (Cons k ks)
  obtain b sc1 bs' where g: "get_symm_scratch k sc = (b, sc1)" and m: "get_many ks sc1 = (bs', sc')" and bs: "bs = b # bs'"
    using Cons.prems(2) by (auto simp: Let_def split: prod.splits)
  note f = get_symm_scratch_facts [OF Cons.prems(1) g]
  have "scratch_ok sc' \<and> scratch_bufs sc1 \<subseteq>\<^sub>m scratch_bufs sc' \<and> list_all2 (\<lambda>k b. scratch_bufs sc' k = Some b) ks bs'"
    using Cons.IH [OF f(1) m] .
  moreover have "scratch_bufs sc' k = Some b"
    using calculation f(2) by (metis domI map_le_def)
  ultimately show ?case using bs f(3) map_le_trans by auto
qed simp

text \<open>Scratch buffers are never shared by mistake. In any sequence of requests on a fresh cache two
  requests get the same buffer exactly when role, shape and type agree; so repeated collectives of one
  shape reuse their buffer, and input and output roles never alias.\<close>

theorem scratch_buffers_do_not_alias:
  assumes "get_many ks \<lparr>scratch_bufs = Map.empty, allocated = 0\<rparr> = (bs, sc)"
    and "i < length ks" "j < length ks"
  shows "length bs = length ks \<and> (bs ! i = bs ! j \<longleftrightarrow> ks ! i = ks ! j)"
proof -
  have "scratch_ok \<lparr>scratch_bufs = Map.empty, allocated = 0\<rparr>" by (simp add: scratch_ok_def)
  from get_many_facts [OF this assms(1)]
  have ok: "scratch_ok sc" and l: "list_all2 (\<lambda>k b. scratch_bufs sc k = Some b) ks bs" by auto
  have len: "length bs = length ks" using l by (simp add: list_all2_lengthD)
  have at: "scratch_bufs sc (ks ! n) = Some (bs ! n)" if "n < length ks" for n
    using l that by (simp add: list_all2_conv_all_nth)
  have "ks ! i = ks ! j" if "bs ! i = bs ! j"
    using scratch_okD(1) [OF ok at [OF assms(2)]] at [OF assms(3)] that by simp
  moreover have "bs ! i = bs ! j" if "ks ! i = ks ! j"
    using at [OF assms(2)] at [OF assms(3)] that by simp
  ultimately show ?thesis using len by blast
qed

theorem scratch_buffers_do_not_alias_witness:
  "fst (get_many [(''rs_in'', [4], BF16), (''rs_out'', [2], BF16), (''rs_in'', [4], BF16)]
     \<lparr>scratch_bufs = Map.empty, allocated = 0\<rparr>) ! 0 \<noteq>
   fst (get_many [(''rs_in'', [4], BF16), (''rs_out'', [2], BF16), (''rs_in'', [4], BF16)]
     \<lparr>scratch_bufs = Map.empty, allocated = 0\<rparr>) ! 1"
proof -
  let ?ks = "[(''rs_in'', [4], BF16), (''rs_out'', [2], BF16), (''rs_in'', [4], BF16)]"
  obtain bs sc where g: "get_many ?ks \<lparr>scratch_bufs = Map.empty, allocated = 0\<rparr> = (bs, sc)" by (metis surj_pair)
  from scratch_buffers_do_not_alias [OF g, of 0 1] show ?thesis unfolding g by simp
qed

text \<open>The default peers form a ring over PyNccl: what a rank sends by default goes to the next rank,
  and the next rank receives by default from it; the last rank is followed by the first.\<close>

theorem default_peers_form_ring:
  assumes "rank_in_group cc < cc_world_size cc" "live (pynccl_comm cc)" "live (pynccl_comm next_cc)"
    and "cc_world_size next_cc = cc_world_size cc"
    and "rank_in_group next_cc = Suc (rank_in_group cc) mod cc_world_size cc"
  shows "cc_send cc None = Inr (ViaNccl (int (rank_in_group next_cc)))
       \<and> cc_recv next_cc None = Inr (ViaNccl (int (rank_in_group cc)))"
proof -
  let ?w = "cc_world_size cc" and ?r = "rank_in_group cc"
  have w: "0 < ?w" using assms(1) by simp
  have "(int ?r + 1) mod int ?w = int (rank_in_group next_cc)"
    unfolding assms(5) by (simp add: zmod_int add.commute)
  moreover have "(int (rank_in_group next_cc) - 1) mod int ?w = int ?r"
  proof -
    have "(int (rank_in_group next_cc) - 1) mod int ?w = (int (Suc ?r) - 1) mod int ?w"
      unfolding assms(5) zmod_int by (simp only: mod_diff_left_eq)
    then show ?thesis using assms(1) by simp
  qed
  ultimately show ?thesis
    using w assms(2-4) by (simp add: cc_send_def cc_recv_def route_to_def usable_def)
qed

theorem default_peers_form_ring_witness:
  "cc_send (demo_auto\<lparr>rank_in_group := 1\<rparr>) None = Inr (ViaNccl 0) \<and> cc_recv demo_auto None = Inr (ViaNccl 1)"
  using default_peers_form_ring [of "demo_auto\<lparr>rank_in_group := 1\<rparr>" demo_auto]
  by (simp add: demo_auto_def demo_forced_def demo_sub_def live_def)

section \<open>Destruction\<close>

text \<open>A \<open>destroy\<close> that returns leaves no PyNccl, custom, AITER, flashinfer or OOverlap communicator and
  no all-to-all manager, after which a forced OOverlap, custom or PyNccl all-reduce raises; destroying again
  touches nothing.\<close>

theorem destroyed_communicator:
  assumes "cc_destroy nat_ext cc = (cc', Inr u, names, evs)"
  shows "pynccl_comm cc' = None \<and> ca_comm cc' = None \<and> aiter_ar_comm cc' = None \<and> fi_ar_comm cc' = None
    \<and> ooverlap_comm cc' = None \<and> all2all_manager cc' = None
    \<and> (force_allreduce_backend cc' \<in> {''ooverlap'', ''custom'', ''pynccl''} \<longrightarrow>
         (\<exists>msg. cc_all_reduce T any_ext env cc' inp = Inl (RuntimeError msg)))
    \<and> cc_destroy any_ext cc' = (cc', Inr (), [], [])"
  using assms
  by (auto simp: cc_destroy_def cc_all_reduce_def all_reduce_forced_def Let_def
      split: option.splits prod.splits sum.splits)

theorem destroyed_communicator_witness:
  "ooverlap_comm (fst (cc_destroy demo_native demo_forced)) = None"
proof -
  have d: "cc_destroy demo_native demo_forced =
      (demo_forced\<lparr>ooverlap_comm := None\<rparr>, Inr (), [], [Destroyed 7])"
    by (simp add: cc_destroy_def adapter_destroy_def demo_forced_def demo_adapter_def demo_native_def)
  show ?thesis using conjunct1 [OF conjunct2 [OF conjunct2 [OF conjunct2 [OF conjunct2
        [OF destroyed_communicator [OF d, of dense_torch demo_native demo_reduce_env "demo_input 0"]]]]]]
    by (simp add: d)
qed

section \<open>The Qwen hook\<close>

text \<open>With any backend but OOverlap the row-parallel hook is the ordinary layer call.\<close>

theorem qwen_hook_inactive_elsewhere:
  assumes "communicator_init pf env name w r rs a2a = Inr cc" and "force_allreduce_backend cc \<noteq> ''ooverlap''"
  shows "qwen_ooverlap_row_parallel T nat_ext (Some cc) layer inp = layer_forward layer inp"
  using communicator_init_parts(5) [OF assms(1)] assms(2)
  by (simp add: qwen_ooverlap_row_parallel_def direct_slot_active_def)

theorem qwen_hook_inactive_elsewhere_witness:
  "qwen_ooverlap_row_parallel dense_torch demo_native (Some demo_auto)
     \<lparr>input_is_parallel = True, reduce_results = True, tp_size = 2, has_bias = False, quant_method = ''x'',
      layer_weight = demo_input 0, layer_forward = (\<lambda>t. Inr t)\<rparr> (demo_input 1) = Inr (demo_input 1)"
proof -
  have "force_allreduce_backend demo_auto \<noteq> ''ooverlap''" by (simp add: demo_auto_def)
  then show ?thesis by (subst qwen_hook_inactive_elsewhere [OF demo_auto_init]) simp_all
qed

end
