(* ===== verification/GenConfig.thy ===== *)
theory GenConfig
  imports Json Segments Reorder
begin

text \<open>
  \<open>tool/gen_config_sm90.py\<close>: from the CSV that the CUTLASS profiler writes to the list of algorithms worth
  searching. The rows are parsed and filtered, matched with the algorithm dictionary by their key, each
  matched algorithm is run once on the packed layout, its unpacked result compared with a reference, and the
  fastest are saved. Floating point numbers read from the CSV may be infinite; \<open>nan\<close> is refused by the code.
\<close>

section \<open>Floats with infinities\<close>

datatype pyfloat = MInf | Fin real | PInf

instantiation pyfloat :: linorder
begin

fun less_eq_pyfloat :: "pyfloat \<Rightarrow> pyfloat \<Rightarrow> bool" where
  "less_eq_pyfloat MInf y = True"
| "less_eq_pyfloat (Fin a) y = (case y of MInf \<Rightarrow> False | Fin b \<Rightarrow> a \<le> b | PInf \<Rightarrow> True)"
| "less_eq_pyfloat PInf y = (y = PInf)"

definition less_pyfloat :: "pyfloat \<Rightarrow> pyfloat \<Rightarrow> bool" where
  "less_pyfloat x y \<longleftrightarrow> x \<le> y \<and> \<not> y \<le> x"

instance
proof
  fix x y z :: pyfloat
  show "(x < y) = (x \<le> y \<and> \<not> y \<le> x)" by (simp add: less_pyfloat_def)
  show "x \<le> x" by (cases x) simp_all
  show "x \<le> y \<Longrightarrow> y \<le> z \<Longrightarrow> x \<le> z" by (cases x; cases y; cases z) simp_all
  show "x \<le> y \<Longrightarrow> y \<le> x \<Longrightarrow> x = y" by (cases x; cases y) simp_all
  show "x \<le> y \<or> y \<le> x" by (cases x; cases y) auto
qed

end

text \<open>\<open>float(s)\<close> where \<open>nan\<close> and texts that are no number are \<open>None\<close>.\<close>

definition read_float :: "string \<Rightarrow> pyfloat option" where
  "read_float s =
     (let (sg, r) = split_sign (py_strip s)
      in if py_lower r \<in> {''inf'', ''infinity''} then Some (if sg < 0 then MInf else PInf)
         else case py_float s of Inl _ \<Rightarrow> None | Inr x \<Rightarrow> Some (Fin x))"

section \<open>Columns and cells\<close>

definition RUNTIME_NAMES :: "string list" where
  "RUNTIME_NAMES = [''runtime'', ''Runtime'', ''runtime_ms'', ''time'', ''duration'']"
definition OP_NAMES :: "string list" where
  "OP_NAMES = [''operation'', ''Operation'', ''kernel'', ''Kernel'', ''name'', ''procedural_name'']"
definition ACCUM_NAMES :: "string list" where
  "ACCUM_NAMES = [''accum'', ''Accum'', ''accumulator'', ''Accumulator'']"
definition SPLIT_K_NAMES :: "string list" where
  "SPLIT_K_NAMES = [''split_k_slices'', ''split_k'', ''SplitK'']"

definition column_names :: "(string \<times> string list) list" where
  "column_names =
     [(''rt'', RUNTIME_NAMES), (''op'', OP_NAMES), (''a'', [''a'', ''A'']), (''b'', [''b'', ''B'']),
      (''c'', [''c'', ''C'']), (''d'', [''d'', ''D'']), (''acc'', ACCUM_NAMES), (''split'', SPLIT_K_NAMES),
      (''tm'', [''cta_m'', ''threadblock_m'', ''tile_m'']), (''tn'', [''cta_n'', ''threadblock_n'', ''tile_n'']),
      (''tk'', [''cta_k'', ''threadblock_k'', ''tile_k'']), (''cm'', [''cluster_m'', ''cluster_shape_m'']),
      (''cn'', [''cluster_n'', ''cluster_shape_n'']), (''ck'', [''cluster_k'', ''cluster_shape_k'']),
      (''st'', [''stages'', ''Stages''])]"

text \<open>\<open>re.sub(r"[^a-z0-9]+", "_", s)\<close>; the flag tells that the last character was replaced.\<close>

definition plain_char :: "char \<Rightarrow> bool" where
  "plain_char c \<longleftrightarrow> (let k = of_char c :: nat in (97 \<le> k \<and> k \<le> 122) \<or> (48 \<le> k \<and> k \<le> 57))"

fun sub_runs :: "bool \<Rightarrow> string \<Rightarrow> string" where
  "sub_runs inside [] = []"
| "sub_runs inside (c # cs) =
     (if plain_char c then c # sub_runs False cs
      else if inside then sub_runs True cs else CHR ''_'' # sub_runs True cs)"

definition strip_underscores :: "string \<Rightarrow> string" where
  "strip_underscores s = rev (dropWhile (\<lambda>c. c = CHR ''_'') (rev (dropWhile (\<lambda>c. c = CHR ''_'') s)))"

definition norm_col :: "string \<Rightarrow> string" where
  "norm_col x = strip_underscores (sub_runs False (py_lower (py_strip x)))"

text \<open>Of two fields with the same normal form the later one is found.\<close>

definition find_col :: "string list \<Rightarrow> string list \<Rightarrow> string option" where
  "find_col fields names =
     (let m = map_of (rev (map (\<lambda>c. (norm_col c, c)) fields))
      in case filter (\<lambda>n. m (norm_col n) \<noteq> None) names of [] \<Rightarrow> None | n # _ \<Rightarrow> m (norm_col n))"

text \<open>A row of \<open>csv.DictReader\<close>: a short row has \<open>None\<close> for its last fields.\<close>

type_synonym cells = "(string \<times> string option) list"

definition cell :: "cells \<Rightarrow> string \<Rightarrow> string option" where
  "cell r c = (case map_of r c of None \<Rightarrow> None | Some v \<Rightarrow> v)"

definition to_int :: "string option \<Rightarrow> int option \<Rightarrow> int option" where
  "to_int x dflt =
     (let s = (case x of None \<Rightarrow> '''' | Some t \<Rightarrow> py_strip t)
      in if s = [] then dflt else case int_float s of Inl _ \<Rightarrow> dflt | Inr i \<Rightarrow> Some i)"

definition to_float :: "string option \<Rightarrow> pyfloat option" where
  "to_float x =
     (let s = (case x of None \<Rightarrow> '''' | Some t \<Rightarrow> py_strip t) in if s = [] then None else read_float s)"

definition norm_layout :: "string option \<Rightarrow> string option" where
  "norm_layout x =
     (case x of
        None \<Rightarrow> None
      | Some t \<Rightarrow>
          let s = last (py_split CHR '':'' (py_lower (py_strip t)))
          in if s \<in> {''row'', ''row_major'', ''rowmajor'', ''n''} \<or> contains ''row'' s then Some ''row''
             else if s \<in> {''column'', ''col'', ''column_major'', ''columnmajor'', ''t''} \<or> contains ''col'' s then Some ''column''
             else None)"

definition norm_dtype :: "string option \<Rightarrow> string option" where
  "norm_dtype x =
     (case x of
        None \<Rightarrow> None
      | Some t \<Rightarrow>
          let s = hd (py_split CHR '':'' (py_lower (py_strip t)))
          in if s \<in> {''half'', ''fp16'', ''float16'', ''f16''} then Some ''f16''
             else if s \<in> {''float'', ''fp32'', ''float32'', ''f32''} then Some ''f32''
             else if s \<in> {''void'', ''none'', ''null''} then Some ''void''
             else if s = [] then None else Some s)"

text \<open>\<open>gemm_([^_]+)_..._\<close> with five groups, searched from the left.\<close>

fun underscore_groups :: "nat \<Rightarrow> string \<Rightarrow> string list option" where
  "underscore_groups 0 s = Some []"
| "underscore_groups (Suc n) s =
     (let g = takeWhile (\<lambda>c. c \<noteq> CHR ''_'') s; r = dropWhile (\<lambda>c. c \<noteq> CHR ''_'') s
      in if g = [] \<or> r = [] then None
         else case underscore_groups n (tl r) of None \<Rightarrow> None | Some gs \<Rightarrow> Some (g # gs))"

fun search_dtypes :: "string \<Rightarrow> string list option" where
  "search_dtypes [] = None"
| "search_dtypes (c # cs) =
     (case (if prefix ''gemm_'' (c # cs) then underscore_groups 5 (drop 5 (c # cs)) else None) of
        Some gs \<Rightarrow> Some gs
      | None \<Rightarrow> search_dtypes cs)"

definition op_dtypes :: "string \<Rightarrow> (string \<times> string option) list" where
  "op_dtypes op =
     (case search_dtypes op of
        None \<Rightarrow> map (\<lambda>k. (k, None)) [''a'', ''b'', ''accum'', ''c'', ''d'']
      | Some gs \<Rightarrow> zip [''a'', ''b'', ''accum'', ''c'', ''d''] (map (\<lambda>g. norm_dtype (Some g)) gs))"

definition stage :: "string option \<Rightarrow> int res" where
  "stage x =
     (let s = (case x of None \<Rightarrow> '''' | Some t \<Rightarrow> py_lower (py_strip t))
      in if s \<in> {'''', ''auto'', ''-1''} then Inr (-1) else int_float s)"

definition mainloop_of_op :: "string \<Rightarrow> string" where
  "mainloop_of_op op =
     (let s = replace_char CHR ''-'' CHR ''_'' (py_lower op)
      in if contains ''pingpong'' s \<or> contains ''ping_pong'' s then ''pingpong''
         else if contains ''cooperative'' s \<or> contains ''coop'' s then ''cooperative'' else ''ws'')"

definition scheduler_of_op :: "string \<Rightarrow> string" where
  "scheduler_of_op op =
     (let s = replace_char CHR ''-'' CHR ''_'' (py_lower op)
      in if contains ''stream_k'' s \<or> contains ''streamk'' s then ''stream_k'' else ''normal'')"

text \<open>\<open>m(\d+)n(\d+)k(\d+)\<close> in the file name, letters of either case.\<close>

definition letter_number :: "char \<Rightarrow> string \<Rightarrow> (int \<times> string) option" where
  "letter_number l s =
     (case s of
        [] \<Rightarrow> None
      | c # cs \<Rightarrow> let (ds, r) = span_digits cs
                 in if lower_char c = l \<and> ds \<noteq> [] then Some (int (digits_value ds), r) else None)"

fun filename_shape :: "string \<Rightarrow> (int \<times> int \<times> int) option" where
  "filename_shape [] = None"
| "filename_shape (c # cs) =
     (case letter_number CHR ''m'' (c # cs) of
        None \<Rightarrow> filename_shape cs
      | Some (m, r) \<Rightarrow>
          (case letter_number CHR ''n'' r of
             None \<Rightarrow> filename_shape cs
           | Some (n, r') \<Rightarrow>
               (case letter_number CHR ''k'' r' of None \<Rightarrow> filename_shape cs | Some (k, _) \<Rightarrow> Some (m, n, k))))"

section \<open>Keys and the algorithm dictionary\<close>

record meta =
  g_tile_m :: int
  g_tile_n :: int
  g_tile_k :: int
  g_cluster :: "int list"
  g_stages :: int
  g_mainloop :: string
  g_epilogue :: string
  g_scheduler :: string
  g_split_k :: int

type_synonym cfg_key = "int \<times> int \<times> int \<times> int \<times> int \<times> int \<times> int \<times> string \<times> string \<times> string \<times> int"

definition key :: "'x meta_scheme \<Rightarrow> cfg_key res" where
  "key m =
     bind_res (py_get (g_cluster m) 0) (\<lambda>c0. bind_res (py_get (g_cluster m) 1) (\<lambda>c1.
     bind_res (py_get (g_cluster m) 2) (\<lambda>c2. bind_res (stage (Some (str_int (g_stages m)))) (\<lambda>st.
     Inr (g_tile_m m, g_tile_n m, g_tile_k m, c0, c1, c2, st, g_mainloop m, g_epilogue m, g_scheduler m,
          g_split_k m)))))"

definition stage_json :: "json \<Rightarrow> int res" where
  "stage_json j = stage (if j = JNull then None else Some (str_json j))"

text \<open>The value stored for one entry of \<open>algorithms\<close>.\<close>

definition algo_entry :: "row \<Rightarrow> (int \<times> meta) res" where
  "algo_entry item =
     bind_res (bind_res (get_key item ''algo'') int_of_json) (\<lambda>algo.
     let cl = get_or item ''cluster'' (JList [get_or item ''cluster_m'' (JInt 1), get_or item ''cluster_n'' (JInt 1),
                get_or item ''cluster_k'' (JInt 1)])
     in bind_res (bind_res (get_key item ''tile_m'') int_of_json) (\<lambda>tm.
        bind_res (bind_res (get_key item ''tile_n'') int_of_json) (\<lambda>tn.
        bind_res (bind_res (get_key item ''tile_k'') int_of_json) (\<lambda>tk.
        bind_res (bind_res (iterate_json cl) (map_res int_of_json)) (\<lambda>cluster.
        bind_res (stage_json (get_or item ''stages'' (JInt (-1)))) (\<lambda>st.
        bind_res (int_of_json (get_or item ''split_k'' (get_or item ''split_k_slices'' (JInt 1)))) (\<lambda>sk.
        Inr (algo, \<lparr>g_tile_m = tm, g_tile_n = tn, g_tile_k = tk, g_cluster = cluster, g_stages = st,
               g_mainloop = str_json (get_or item ''mainloop'' (JStr ''ws'')),
               g_epilogue = str_json (get_or item ''epilogue'' (JStr ''auto'')),
               g_scheduler = str_json (get_or item ''scheduler'' (JStr ''normal'')), g_split_k = sk\<rparr>))))))))"

type_synonym algo_map = "(int \<times> meta) list"

fun load_items :: "json list \<Rightarrow> algo_map \<Rightarrow> algo_map res" where
  "load_items [] out = Inr out"
| "load_items (j # js) out =
     (case j of
        JObj item \<Rightarrow> bind_res (algo_entry item) (\<lambda>(a, m). load_items js (AList.update a m out))
      | _ \<Rightarrow> Inl TypeError)"

definition load_algo_map :: "json \<Rightarrow> algo_map res" where
  "load_algo_map data =
     (case data of
        JObj kvs \<Rightarrow> bind_res (iterate_json (get_or kvs ''algorithms'' (JList []))) (\<lambda>items. load_items items [])
      | _ \<Rightarrow> Inl (ExternalError ''AttributeError''))"

section \<open>Rows of the CSV\<close>

record csv_args =
  ca_m :: int
  ca_n :: int
  ca_k :: int
  a_dtype :: string
  b_dtype :: string
  accum_dtype :: string
  c_dtype :: string
  d_dtype :: string
  a_layout :: string
  b_layout :: string
  c_layout :: string
  d_layout :: string

definition csv_row_ok ::
  "csv_args \<Rightarrow> string option \<Rightarrow> string option \<Rightarrow> string option \<Rightarrow> string option \<Rightarrow> string option \<Rightarrow>
   string option \<Rightarrow> string option \<Rightarrow> string option \<Rightarrow> string option \<Rightarrow> bool" where
  "csv_row_ok args a_dt b_dt c_dt d_dt acc a_l b_l c_l d_l \<longleftrightarrow>
     (a_dt = None \<or> a_dt = Some (a_dtype args))
     \<and> (b_dt = None \<or> b_dt = Some (b_dtype args))
     \<and> (acc = None \<or> acc = Some (accum_dtype args))
     \<and> (c_dtype args = ''any'' \<or> c_dt = Some (c_dtype args))
     \<and> (d_dtype args = ''any'' \<or> d_dt = Some (d_dtype args))
     \<and> (a_layout args = ''any'' \<or> a_l = None \<or> a_l = Some (a_layout args))
     \<and> (b_layout args = ''any'' \<or> b_l = None \<or> b_l = Some (b_layout args))
     \<and> (c_layout args = ''any'' \<or> c_l = None \<or> c_l = Some (c_layout args))
     \<and> (d_layout args = ''any'' \<or> d_l = None \<or> d_l = Some (d_layout args))"

record csv_record = meta +
  source_row :: nat
  cutlass_runtime :: pyfloat
  operation :: string
  rec_key :: cfg_key

type_synonym counts = "(string \<times> nat) list"

definition no_counts :: counts where
  "no_counts = map (\<lambda>k. (k, 0)) [''raw_rows'', ''bad_runtime'', ''shape'', ''layout_or_dtype'', ''tile_parse'',
     ''stream_k_rows_seen'', ''split_k_rows_seen'', ''kept'']"

definition bump :: "string \<Rightarrow> nat \<Rightarrow> counts \<Rightarrow> counts" where
  "bump k n cs = AList.update k (the (map_of cs k) + n) cs"

text \<open>In the following \<open>cols\<close> gives the field of each column, if it was found.\<close>

definition col_cell :: "(string \<Rightarrow> string option) \<Rightarrow> cells \<Rightarrow> string \<Rightarrow> string option" where
  "col_cell cols row k = (case cols k of None \<Rightarrow> None | Some c \<Rightarrow> cell row c)"

text \<open>\<open>str(row.get(cols["op"], ""))\<close>\<close>

definition row_operation :: "(string \<Rightarrow> string option) \<Rightarrow> cells \<Rightarrow> string" where
  "row_operation cols row =
     (case cols ''op'' of
        None \<Rightarrow> ''''
      | Some c \<Rightarrow> (case map_of row c of None \<Rightarrow> '''' | Some None \<Rightarrow> ''None'' | Some (Some t) \<Rightarrow> t))"

definition row_accepted :: "csv_args \<Rightarrow> (string \<Rightarrow> string option) \<Rightarrow> cells \<Rightarrow> string \<Rightarrow> bool" where
  "row_accepted args cols row op =
     (let dt = map_of (op_dtypes op);
          dtype_of = (\<lambda>k k'. if cols k \<noteq> None then norm_dtype (col_cell cols row k) else the (dt k'));
          layout_of = (\<lambda>k. if cols k \<noteq> None then norm_layout (col_cell cols row k) else None)
      in csv_row_ok args (dtype_of ''a'' ''a'') (dtype_of ''b'' ''b'') (dtype_of ''c'' ''c'')
           (dtype_of ''d'' ''d'') (dtype_of ''acc'' ''accum'') (layout_of ''a'') (layout_of ''b'')
           (layout_of ''c'') (layout_of ''d''))"

definition new_record ::
  "nat \<Rightarrow> pyfloat \<Rightarrow> string \<Rightarrow> int \<times> int \<times> int \<Rightarrow> int \<times> int \<times> int \<Rightarrow> int \<Rightarrow> int \<Rightarrow> csv_record res" where
  "new_record i rt op tile cl st split_k =
     (case (tile, cl) of ((tm, tn, tk), (cm, cn, ck)) \<Rightarrow>
        let m = \<lparr>g_tile_m = tm, g_tile_n = tn, g_tile_k = tk, g_cluster = [cm, cn, ck], g_stages = st,
                 g_mainloop = mainloop_of_op op, g_epilogue = ''auto'', g_scheduler = scheduler_of_op op,
                 g_split_k = split_k\<rparr>
        in bind_res (key m) (\<lambda>k. Inr (meta.extend m (csv_record.fields i rt op k))))"

text \<open>The loop body.\<close>

definition parse_row ::
  "csv_args \<Rightarrow> (string \<Rightarrow> string option) \<Rightarrow> (int \<times> int \<times> int) option \<Rightarrow> nat \<Rightarrow> cells \<Rightarrow> counts \<Rightarrow>
   (csv_record option \<times> counts) res" where
  "parse_row args cols shape0 i row counts0 =
     (let get = col_cell cols row; counts = bump ''raw_rows'' 1 counts0
      in case to_float (get ''rt'') of
           None \<Rightarrow> Inr (None, bump ''bad_runtime'' 1 counts)
         | Some rt \<Rightarrow>
      if shape0 \<noteq> None \<and> shape0 \<noteq> Some (ca_m args, ca_n args, ca_k args) then Inr (None, bump ''shape'' 1 counts)
      else
        let op = row_operation cols row;
            split_k = the (to_int (get ''split'') (Some 1));
            counts = bump ''split_k_rows_seen'' (of_bool (split_k \<noteq> 1))
                       (bump ''stream_k_rows_seen'' (of_bool (scheduler_of_op op = ''stream_k'')) counts)
        in bind_res (case cols ''st'' of None \<Rightarrow> Inr None | Some c \<Rightarrow> bind_res (stage (cell row c)) (\<lambda>s. Inr (Some s))) (\<lambda>st.
           case (to_int (get ''tm'') None, to_int (get ''tn'') None, to_int (get ''tk'') None, st) of
             (Some tm, Some tn, Some tk, Some st) \<Rightarrow>
               let cl = (the (to_int (get ''cm'') (Some 1)), the (to_int (get ''cn'') (Some 1)),
                         the (to_int (get ''ck'') (Some 1)))
               in if \<not> row_accepted args cols row op then Inr (None, bump ''layout_or_dtype'' 1 counts)
                  else bind_res (new_record i rt op (tm, tn, tk) cl st split_k) (\<lambda>r.
                       Inr (Some r, bump ''kept'' 1 counts))
           | _ \<Rightarrow> Inr (None, bump ''tile_parse'' 1 counts)))"

fun parse_rows ::
  "csv_args \<Rightarrow> (string \<Rightarrow> string option) \<Rightarrow> (int \<times> int \<times> int) option \<Rightarrow> nat \<Rightarrow> cells list \<Rightarrow> counts \<Rightarrow>
   (csv_record list \<times> counts) res" where
  "parse_rows args cols shape0 i [] counts = Inr ([], counts)"
| "parse_rows args cols shape0 i (row # rows) counts =
     bind_res (parse_row args cols shape0 i row counts) (\<lambda>(r, counts').
     bind_res (parse_rows args cols shape0 (Suc i) rows counts') (\<lambda>(rs, counts'').
     Inr ((case r of None \<Rightarrow> rs | Some r \<Rightarrow> r # rs), counts'')))"

text \<open>\<open>name\<close> is the name of the file, \<open>field_names\<close> and \<open>rows\<close> what \<open>csv.DictReader\<close> yields.\<close>

definition parse_csv_rows ::
  "csv_args \<Rightarrow> string \<Rightarrow> string list \<Rightarrow> cells list \<Rightarrow> (csv_record list \<times> counts) res" where
  "parse_csv_rows args name field_names rows =
     (let cols = (\<lambda>k. case map_of column_names k of None \<Rightarrow> None | Some names \<Rightarrow> find_col field_names names)
      in bind_res (require (cols ''rt'' \<noteq> None) (RuntimeError ''No runtime column found'')) (\<lambda>_.
         bind_res (parse_rows args cols (filename_shape name) 0 rows no_counts) (\<lambda>(records, counts).
         Inr (sort_key cutlass_runtime records, counts))))"

section \<open>Matching records with algorithms\<close>

record matched =
  m_record :: csv_record
  m_algo :: int
  m_meta :: meta

definition keys_of :: "algo_map \<Rightarrow> (cfg_key \<rightharpoonup> int) res" where
  "keys_of am = bind_res (map_res (\<lambda>(a, m). bind_res (key m) (\<lambda>k. Inr (k, a))) am) (\<lambda>kvs. Inr (map_of (rev kvs)))"

fun match_loop ::
  "(cfg_key \<rightharpoonup> int) \<Rightarrow> algo_map \<Rightarrow> csv_record list \<Rightarrow> (int \<times> matched) list \<Rightarrow> csv_record list \<Rightarrow>
   (int \<times> matched) list \<times> csv_record list" where
  "match_loop by_key am [] by_algo missing = (by_algo, missing)"
| "match_loop by_key am (r # rs) by_algo missing =
     (case by_key (rec_key r) of
        None \<Rightarrow> match_loop by_key am rs by_algo (missing @ [r])
      | Some algo \<Rightarrow>
          let rr = \<lparr>m_record = r, m_algo = algo, m_meta = the (map_of am algo)\<rparr>
          in if (case map_of by_algo algo of None \<Rightarrow> True
                 | Some old \<Rightarrow> cutlass_runtime r < cutlass_runtime (m_record old))
             then match_loop by_key am rs (AList.update algo rr by_algo) missing
             else match_loop by_key am rs by_algo missing)"

definition match_records :: "csv_record list \<Rightarrow> algo_map \<Rightarrow> (matched list \<times> csv_record list) res" where
  "match_records records am =
     bind_res (keys_of am) (\<lambda>by_key.
     let (by_algo, missing) = match_loop by_key am records [] []
     in Inr (sort_key (\<lambda>m. cutlass_runtime (m_record m)) (map snd by_algo), missing))"

text \<open>A missing record as the JSON file lists it, \<open>{**r, "error": ..}\<close>; \<open>fmt\<close> is the text of a float.\<close>

definition missing_row :: "(pyfloat \<Rightarrow> string) \<Rightarrow> csv_record \<Rightarrow> row" where
  "missing_row fmt r =
     [(''source_row'', JInt (int (source_row r))), (''cutlass_runtime'', JFloat (fmt (cutlass_runtime r))),
      (''tile_m'', JInt (g_tile_m r)), (''tile_n'', JInt (g_tile_n r)), (''tile_k'', JInt (g_tile_k r)),
      (''cluster'', JList (map JInt (g_cluster r))), (''stages'', JInt (g_stages r)),
      (''mainloop'', JStr (g_mainloop r)), (''epilogue'', JStr (g_epilogue r)),
      (''scheduler'', JStr (g_scheduler r)), (''split_k'', JInt (g_split_k r)), (''operation'', JStr (operation r)),
      (''key'', case rec_key r of (tm, tn, tk, c0, c1, c2, st, ml, ep, sched, sk) \<Rightarrow>
         JList [JInt tm, JInt tn, JInt tk, JInt c0, JInt c1, JInt c2, JInt st, JStr ml, JStr ep, JStr sched, JInt sk]),
      (''error'', JStr ''no_signal_algo_for_key'')]"

definition missing_json :: "(pyfloat \<Rightarrow> string) \<Rightarrow> counts \<Rightarrow> csv_record list \<Rightarrow> json" where
  "missing_json fmt counts missing =
     JObj [(''csv_filter_counts'', JObj (map (\<lambda>(k, n). (k, JInt (int n))) counts)),
           (''missing'', JList (map (\<lambda>r. JObj (missing_row fmt r)) missing))]"

section \<open>The packed run\<close>

text \<open>\<open>h[tr * tile_cols + tc] = p; p += 1\<close>, column by column.\<close>

definition column_positions :: "int \<Rightarrow> int \<Rightarrow> int list" where
  "column_positions tile_rows tile_cols =
     concat (map (\<lambda>tc. map (\<lambda>tr. tr * tile_cols + tc) (py_range tile_rows)) (py_range tile_cols))"

definition make_ra :: "int \<Rightarrow> int \<Rightarrow> string \<Rightarrow> int list res" where
  "make_ra tile_rows tile_cols reorder =
     (let n = tile_rows * tile_cols
      in if reorder = ''identity'' then Inr (py_range n)
         else if reorder \<noteq> ''column_major'' then Inl (ValueError ''unknown reorder'')
         else Inr (fst (foldl (\<lambda>(h, p) i. (h[nat i := p], p + 1)) (replicate (nat n) 0, 0)
                          (column_positions tile_rows tile_cols))))"

text \<open>A two-dimensional tensor: its extents and entries.\<close>

record 'a mat =
  nrows :: int
  ncols :: int
  entry :: "int \<Rightarrow> int \<Rightarrow> 'a"

text \<open>One \<open>copy_\<close> of \<open>unpack\<close>: tile \<open>(tr, tc)\<close> of the output takes the packed tile. The extents of the packed
  tensor are multiples of the tile's, so a slice past its end is empty and \<open>copy_\<close> raises. A negative
  \<open>reldn\<close>, for which the slices would count from the end, is outside the model.\<close>

definition copy_tile ::
  "'a mat \<Rightarrow> int list \<Rightarrow> int \<Rightarrow> int \<Rightarrow> int \<Rightarrow> int \<Rightarrow> 'a mat \<Rightarrow> int \<times> int \<Rightarrow> 'a mat res" where
  "copy_tile D ra tile_cols tm tn reldn out t =
     (case t of (tr, tc) \<Rightarrow>
        bind_res (py_get ra (tr * tile_cols + tc)) (\<lambda>packed.
        bind_res (py_div packed reldn) (\<lambda>pr. bind_res (py_mod packed reldn) (\<lambda>pc.
        if (pr + 1) * tm \<le> nrows D \<and> (pc + 1) * tn \<le> ncols D
        then Inr (out\<lparr>entry := \<lambda>r c.
               if tr * tm \<le> r \<and> r < (tr + 1) * tm \<and> tc * tn \<le> c \<and> c < (tc + 1) * tn
               then entry D (pr * tm + (r - tr * tm)) (pc * tn + (c - tc * tn)) else entry out r c\<rparr>)
        else Inl (RuntimeError ''The size of tensor a must match the size of tensor b'')))))"

fun fold_res :: "('s \<Rightarrow> 'x \<Rightarrow> 's res) \<Rightarrow> 's \<Rightarrow> 'x list \<Rightarrow> 's res" where
  "fold_res f s [] = Inr s"
| "fold_res f s (x # xs) = bind_res (f s x) (\<lambda>s'. fold_res f s' xs)"

definition unpack :: "(int \<Rightarrow> int \<Rightarrow> 'a) \<Rightarrow> 'a mat \<Rightarrow> int list \<Rightarrow> int \<Rightarrow> int \<Rightarrow> int \<Rightarrow> int \<Rightarrow> int \<Rightarrow> 'a mat res" where
  "unpack blank D ra M N tm tn reldn =
     bind_res (py_div M tm) (\<lambda>tile_rows. bind_res (py_div N tn) (\<lambda>tile_cols.
     fold_res (copy_tile D ra tile_cols tm tn reldn) \<lparr>nrows = M, ncols = N, entry = blank\<rparr>
       (concat (map (\<lambda>tr. map (\<lambda>tc. (tr, tc)) (py_range tile_cols)) (py_range tile_rows)))))"

definition output_normal ::
  "(int \<Rightarrow> int \<Rightarrow> 'a) \<Rightarrow> 'a mat \<Rightarrow> string \<Rightarrow> string \<Rightarrow> int list \<Rightarrow> int \<Rightarrow> int \<Rightarrow> int \<Rightarrow> int \<Rightarrow> int \<Rightarrow> 'a mat res" where
  "output_normal blank D layout reorder ra M N tm tn reldn =
     (if layout = ''normal'' \<and> reorder = ''identity''
      then Inr (D\<lparr>nrows := min M (nrows D), ncols := min N (ncols D)\<rparr>)
      else unpack blank D ra M N tm tn reldn)"

section \<open>Profiling the matched algorithms\<close>

record profile_args = csv_args +
  p_layout :: string
  p_reorder :: string
  p_reldn :: int
  group_tiles :: int
  top_csv :: int
  top_save :: int
  iters :: nat
  check_atol :: real
  reject_failed_check :: bool
  dry_run :: bool

text \<open>One launch of the signal GEMM: the extents of its output and its integer arguments.\<close>

record gemm_call =
  c_rows :: int
  c_cols :: int
  c_ra :: "int list"
  c_thr :: "int list"
  c_reldn :: int
  c_algo :: int

text \<open>The GPU: what a launch leaves in its output (or the exception it raises), the elapsed milliseconds of the
  timed launches, the product computed by the reference, the largest absolute difference (nothing
  if it is not finite) and the content of fresh memory.\<close>

record 'a gpu =
  kernel :: "gemm_call \<Rightarrow> 'a mat res"
  elapsed :: "gemm_call \<Rightarrow> real list"
  reference :: "'a mat"
  max_abs_err :: "'a mat \<Rightarrow> 'a mat \<Rightarrow> real option"
  blank :: "int \<Rightarrow> int \<Rightarrow> 'a"

record ok_row =
  o_match :: matched
  signal_gemm_ms :: real
  max_abs :: "real option"
  check_ok :: bool
  o_reorder :: string
  o_reldn :: int

definition geometry :: "profile_args \<Rightarrow> int \<Rightarrow> int \<Rightarrow> (int \<times> int \<times> string \<times> int \<times> int \<times> int) res" where
  "geometry args tm tn =
     bind_res (py_mod (ca_m args) tm) (\<lambda>rm.
     bind_res (if rm \<noteq> 0 then Inr rm else py_mod (ca_n args) tn) (\<lambda>rn.
     bind_res (require (rm = 0 \<and> rn = 0) (RuntimeError ''M/N not divisible by tile'')) (\<lambda>_.
     let tile_rows = ca_m args div tm; tile_cols = ca_n args div tn; num_tiles = tile_rows * tile_cols
     in if p_layout args = ''normal'' then
          Inr (tile_rows, tile_cols, if p_reorder args = ''auto'' then ''identity'' else p_reorder args,
               if p_reldn args = 0 then tile_cols else p_reldn args, ca_m args, ca_n args)
        else
          let reldn = (if p_reldn args = 0 then 1 else p_reldn args)
          in Inr (tile_rows, tile_cols, if p_reorder args = ''auto'' then ''column_major'' else p_reorder args,
                  reldn, ((num_tiles + reldn - 1) div reldn) * tm, reldn * tn))))"

definition profile_one :: "'a gpu \<Rightarrow> profile_args \<Rightarrow> matched \<Rightarrow> ok_row res" where
  "profile_one P args r =
     (let tm = g_tile_m (m_record r); tn = g_tile_n (m_record r)
      in bind_res (geometry args tm tn) (\<lambda>(tile_rows, tile_cols, reorder, reldn, out_m, out_n).
         bind_res (make_ra tile_rows tile_cols reorder) (\<lambda>ra.
         let call = \<lparr>c_rows = out_m, c_cols = out_n, c_ra = ra,
                     c_thr = make_group_segments (tile_rows * tile_cols) (group_tiles args), c_reldn = reldn,
                     c_algo = m_algo r\<rparr>
         in bind_res (kernel P call) (\<lambda>D.
            bind_res (require (iters args \<noteq> 0) ZeroDivisionError) (\<lambda>_.
            bind_res (output_normal (blank P) D (p_layout args) reorder ra (ca_m args) (ca_n args) tm tn reldn) (\<lambda>out.
            let ms = sum_list (take (iters args) (elapsed P call)) / of_nat (iters args);
                err = max_abs_err P out (reference P);
                ok = (case err of None \<Rightarrow> False | Some e \<Rightarrow> e \<le> check_atol args)
            in bind_res (require (\<not> (reject_failed_check args \<and> \<not> ok)) (RuntimeError ''check failed'')) (\<lambda>_.
               Inr \<lparr>o_match = r, signal_gemm_ms = ms, max_abs = err, check_ok = ok, o_reorder = reorder,
                    o_reldn = reldn\<rparr>)))))))"

fun profile_all :: "'a gpu \<Rightarrow> profile_args \<Rightarrow> matched list \<Rightarrow> ok_row list \<times> (matched \<times> py_error) list" where
  "profile_all P args [] = ([], [])"
| "profile_all P args (r # rs) =
     (let (oks, failed) = profile_all P args rs
      in case profile_one P args r of Inl e \<Rightarrow> (oks, (r, e) # failed) | Inr ok \<Rightarrow> (ok # oks, failed))"

text \<open>\<open>xs[:n]\<close>; a negative \<open>n\<close> drops from the end.\<close>

definition py_take :: "int \<Rightarrow> 'a list \<Rightarrow> 'a list" where
  "py_take n xs = (if 0 \<le> n then take (nat n) xs else take (length xs - nat (- n)) xs)"

definition tflops :: "profile_args \<Rightarrow> ok_row \<Rightarrow> real res" where
  "tflops args r =
     (if signal_gemm_ms r = 0 then Inl ZeroDivisionError
      else Inr (2 * of_int (ca_m args) * of_int (ca_n args) * of_int (ca_k args)
                / (signal_gemm_ms r / 1000) / 1000000000000))"

record cfg_file =
  f_BM :: "int list"
  f_BN :: "int list"
  f_BK :: "int list"
  f_Stages :: "int list"
  f_Algo :: "int list"
  f_dur :: "real list"
  f_all_profiled :: "ok_row list"
  f_tflops :: "real list"

record outputs =
  out_result :: "cfg_file option"
  out_missing :: "csv_record list option"
  out_failed :: "(matched \<times> py_error) list option"

definition no_outputs :: outputs where
  "no_outputs = \<lparr>out_result = None, out_missing = None, out_failed = None\<rparr>"

definition config_file :: "profile_args \<Rightarrow> ok_row list \<Rightarrow> real list \<Rightarrow> cfg_file" where
  "config_file args ok_rows tfs =
     (let selected = py_take (top_save args) ok_rows
      in \<lparr>f_BM = map (\<lambda>x. g_tile_m (m_record (o_match x))) selected,
          f_BN = map (\<lambda>x. g_tile_n (m_record (o_match x))) selected,
          f_BK = map (\<lambda>x. g_tile_k (m_record (o_match x))) selected,
          f_Stages = map (\<lambda>x. g_stages (m_record (o_match x))) selected,
          f_Algo = map (\<lambda>x. m_algo (o_match x)) selected,
          f_dur = map signal_gemm_ms selected, f_all_profiled = ok_rows, f_tflops = tfs\<rparr>)"

text \<open>\<open>main\<close> from the content of the CSV and of the dictionary: what it writes, and whether it ends with an
  exception.\<close>

definition gen_config_main ::
  "'a gpu \<Rightarrow> profile_args \<Rightarrow> string \<Rightarrow> string list \<Rightarrow> cells list \<Rightarrow> json \<Rightarrow> outputs \<times> unit res" where
  "gen_config_main P args name field_names rows dict =
     (case bind_res (load_algo_map dict) (\<lambda>am.
           bind_res (parse_csv_rows (csv_args.truncate args) name field_names rows) (\<lambda>(records, counts).
           match_records (py_take (top_csv args) records) am)) of
        Inl e \<Rightarrow> (no_outputs, Inl e)
      | Inr (matched, missing) \<Rightarrow>
          if dry_run args then (no_outputs\<lparr>out_missing := Some missing\<rparr>, Inr ())
          else
            let (oks, failed) = profile_all P args matched; ok_rows = sort_key signal_gemm_ms oks
            in case map_res (tflops args) ok_rows of
                 Inl e \<Rightarrow> (no_outputs, Inl e)
               | Inr tfs \<Rightarrow>
                   (\<lparr>out_result = Some (config_file args ok_rows tfs), out_missing = Some missing,
                     out_failed = Some failed\<rparr>,
                    if matched = [] then Inl (RuntimeError ''No CSV candidates matched'') else Inr ()))"

end
