(* ===== verification/GenInstances.thy ===== *)
theory GenInstances
  imports Json "HOL-Library.Product_Lexorder" "HOL-Library.List_Lexorder" "HOL-Library.Char_ord"
begin

text \<open>
  \<open>tool/generate_instances_sm90.py\<close>: from the built-in tile shapes and the rows of earlier runs to the
  numbered list of GEMM instances, the algorithm dictionary and the generated C++ tables of the signal and
  the plain kernels. Files are modelled by their text, the dictionary by its data.
\<close>

section \<open>Tables\<close>

definition MAINLOOP_TYPES :: "(string \<times> string) list" where
  "MAINLOOP_TYPES =
     [(''ws'', ''cutlass::gemm::KernelTmaWarpSpecialized''),
      (''pingpong'', ''cutlass::gemm::KernelTmaWarpSpecializedPingpong''),
      (''cooperative'', ''cutlass::gemm::KernelTmaWarpSpecializedCooperative'')]"

definition EPILOGUE_TYPES :: "(string \<times> string) list" where
  "EPILOGUE_TYPES = [(''auto'', ''cutlass::epilogue::collective::EpilogueScheduleAuto'')]"

definition SCHEDULER_TYPES :: "(string \<times> string) list" where
  "SCHEDULER_TYPES = [(''normal'', ''void''), (''stream_k'', ''cutlass::gemm::StreamKScheduler'')]"

definition CLUSTERS :: "(int \<times> int \<times> int) list" where
  "CLUSTERS = [(1, 1, 1), (1, 2, 1), (2, 1, 1)]"

definition BASE_TILE_M :: "int list" where "BASE_TILE_M = [64, 128, 256]"
definition BASE_TILE_N :: "int list" where "BASE_TILE_N = [64, 128, 256]"
definition BASE_TILE_K :: "int list" where "BASE_TILE_K = [32, 64, 128]"

definition BASE_SKIP_MN :: "(int \<times> int) list" where
  "BASE_SKIP_MN = [(64, 64), (256, 256)]"

definition CURATED_SHAPES :: "(string \<times> int \<times> int \<times> int \<times> int) list" where
  "CURATED_SHAPES =
     [(''ws'', 64, 256, 64, 5), (''ws'', 128, 128, 64, 7), (''ws'', 128, 256, 64, 4), (''ws'', 256, 128, 64, 4),
      (''pingpong'', 64, 256, 64, 5), (''pingpong'', 128, 128, 64, 6), (''pingpong'', 128, 128, 64, 7),
      (''cooperative'', 128, 128, 64, 6), (''cooperative'', 128, 256, 64, 4),
      (''cooperative'', 256, 128, 64, 4), (''cooperative'', 256, 256, 64, 3)]"

definition SCHEDULERS :: "string list" where "SCHEDULERS = [''normal'', ''stream_k'']"

section \<open>Normalisation\<close>

definition normalize_scheduler :: "json \<Rightarrow> string" where
  "normalize_scheduler x =
     (let s = (if x = JNull then ''normal'' else replace_char CHR ''-'' CHR ''_'' (py_lower (py_strip (str_json x))))
      in if s \<in> {''streamk'', ''stream_k'', ''stream''} then ''stream_k'' else ''normal'')"

datatype stages = Auto | Stages int

definition normalize_stages :: "json \<Rightarrow> stages res" where
  "normalize_stages x =
     (if x = JNull then Inr Auto
      else let s = py_lower (py_strip (str_json x))
           in if s \<in> {''auto'', ''-1''} then Inr Auto
              else bind_res (int_float s) (\<lambda>v. Inr (Stages v)))"

text \<open>\<open>normalize_stages\<close> of a value it returned before: only the number \<open>-1\<close> (from a text such as
  \<open>-1.0\<close>) changes.\<close>

definition renormalize_stages :: "stages \<Rightarrow> stages" where
  "renormalize_stages st = (if st = Stages (-1) then Auto else st)"

definition normalize_split_k :: "json \<Rightarrow> int res" where
  "normalize_split_k x =
     (if x = JNull then Inr 1
      else let s = py_strip (str_json x)
           in if s = [] then Inr 1 else int_float s)"

definition is_supported_combo :: "string \<Rightarrow> string \<Rightarrow> bool" where
  "is_supported_combo mainloop sched \<longleftrightarrow>
     \<not> (normalize_scheduler (JStr sched) = ''stream_k'' \<and> py_lower (py_strip mainloop) \<noteq> ''cooperative'')"

text \<open>\<open>re.search(r"stream_?k", ..)\<close> on the joined columns.\<close>

definition infer_scheduler :: "row \<Rightarrow> string" where
  "infer_scheduler r =
     (if has_key r ''scheduler'' then normalize_scheduler (get_or r ''scheduler'' JNull)
      else if has_key r ''csv_scheduler'' then normalize_scheduler (get_or r ''csv_scheduler'' JNull)
      else if truthy (get_or r ''is_stream_k'' (JBool False)) then ''stream_k''
      else let haystack = replace_char CHR ''-'' CHR ''_'' (py_lower (py_join '' ''
                 (map (\<lambda>k. str_json (get_or r k (JStr ''''))) [''operation'', ''error'', ''match'', ''reason''])))
           in if contains ''streamk'' haystack \<or> contains ''stream_k'' haystack then ''stream_k'' else ''normal'')"

definition is_f16_row :: "row \<Rightarrow> bool" where
  "is_f16_row r =
     (let text = py_lower (py_join '' '' (map (\<lambda>(k, _). str_json (get_or r k (JStr ''''))) r))
      in \<not> (contains ''f32'' text \<or> contains ''float32'' text \<or> contains ''tf32'' text))"

section \<open>Combos and their keys\<close>

record combo =
  tileM :: int
  tileN :: int
  tileK :: int
  cluster :: "int \<times> int \<times> int"
  stages :: stages
  mainloop_of :: string
  epilogue_of :: string
  scheduler_of :: string
  split_k :: int

definition canonical_combo :: "row \<Rightarrow> combo res" where
  "canonical_combo x =
     (let ml = str_json (get_or x ''mainloop'' (JStr ''ws''));
          ep = str_json (get_or x ''epilogue'' (JStr ''auto''));
          sched = normalize_scheduler (get_or x ''scheduler'' (JStr ''normal''))
      in bind_res (require (map_of MAINLOOP_TYPES ml \<noteq> None) (ValueError ''Unsupported mainloop'')) (\<lambda>_.
         bind_res (require (map_of EPILOGUE_TYPES ep \<noteq> None) (ValueError ''Unsupported epilogue'')) (\<lambda>_.
         bind_res (require (map_of SCHEDULER_TYPES sched \<noteq> None) (ValueError ''Unsupported scheduler'')) (\<lambda>_.
         bind_res (require (is_supported_combo ml sched) (ValueError ''Unsupported combo'')) (\<lambda>_.
         bind_res (bind_res (get_key x ''tile_m'') int_of_json) (\<lambda>tm.
         bind_res (bind_res (get_key x ''tile_n'') int_of_json) (\<lambda>tn.
         bind_res (bind_res (get_key x ''tile_k'') int_of_json) (\<lambda>tk.
         bind_res (bind_res (get_key x ''cluster'') (\<lambda>cl. bind_res (index_json cl 0) int_of_json)) (\<lambda>c0.
         bind_res (bind_res (get_key x ''cluster'') (\<lambda>cl. bind_res (index_json cl 1) int_of_json)) (\<lambda>c1.
         bind_res (bind_res (get_key x ''cluster'') (\<lambda>cl. bind_res (index_json cl 2) int_of_json)) (\<lambda>c2.
         bind_res (normalize_stages (get_or x ''stages'' (JStr ''auto''))) (\<lambda>st.
         bind_res (normalize_split_k (get_or x ''split_k'' (JInt 1))) (\<lambda>sk.
         Inr \<lparr>tileM = tm, tileN = tn, tileK = tk, cluster = (c0, c1, c2), stages = st, mainloop_of = ml,
              epilogue_of = ep, scheduler_of = sched, split_k = sk\<rparr>)))))))))))))"

type_synonym gen_key = "int \<times> int \<times> int \<times> int \<times> int \<times> int \<times> stages \<times> string \<times> string \<times> string \<times> int"

text \<open>\<open>combo_key\<close> is only called on canonical combos; it normalises stages and scheduler again.\<close>

definition combo_key :: "combo \<Rightarrow> gen_key" where
  "combo_key c =
     (case cluster c of (c0, c1, c2) \<Rightarrow>
        (tileM c, tileN c, tileK c, c0, c1, c2, renormalize_stages (stages c), mainloop_of c, epilogue_of c,
         normalize_scheduler (JStr (scheduler_of c)), split_k c))"

definition combo_from_key :: "gen_key \<Rightarrow> combo" where
  "combo_from_key k =
     (case k of (tm, tn, tk, c0, c1, c2, st, ml, ep, sched, sk) \<Rightarrow>
        \<lparr>tileM = tm, tileN = tn, tileK = tk, cluster = (c0, c1, c2), stages = st, mainloop_of = ml,
         epilogue_of = ep, scheduler_of = sched, split_k = sk\<rparr>)"

section \<open>Built-in and loaded combos\<close>

definition combo_row :: "int \<Rightarrow> int \<Rightarrow> int \<Rightarrow> int \<times> int \<times> int \<Rightarrow> json \<Rightarrow> string \<Rightarrow> string \<Rightarrow> row" where
  "combo_row tm tn tk cl st ml sched =
     [(''tile_m'', JInt tm), (''tile_n'', JInt tn), (''tile_k'', JInt tk),
      (''cluster'', case cl of (a, b, c) \<Rightarrow> JList [JInt a, JInt b, JInt c]),
      (''stages'', st), (''mainloop'', JStr ml), (''epilogue'', JStr ''auto''), (''scheduler'', JStr sched),
      (''split_k'', JInt 1)]"

definition builtin_combos :: "row list" where
  "builtin_combos =
     concat (map (\<lambda>tm. concat (map (\<lambda>tn.
       if (tm, tn) \<in> set BASE_SKIP_MN then []
       else concat (map (\<lambda>tk. map (\<lambda>cl. combo_row tm tn tk cl (JStr ''auto'') ''ws'' ''normal'') CLUSTERS)
              BASE_TILE_K)) BASE_TILE_N)) BASE_TILE_M)
     @ concat (map (\<lambda>(ml, tm, tn, tk, st). concat (map (\<lambda>cl. concat (map (\<lambda>sched.
         if \<not> is_supported_combo ml sched then [] else [combo_row tm tn tk cl (JInt st) ml sched])
           SCHEDULERS)) CLUSTERS)) CURATED_SHAPES)"

definition rows_from_json_obj :: "json \<Rightarrow> string \<Rightarrow> json" where
  "rows_from_json_obj data key =
     (case data of
        JList xs \<Rightarrow> JList xs
      | JObj kvs \<Rightarrow>
          (case filter (has_key kvs) [key, ''failed'', ''missing'', ''top'', ''all_profiled''] of
             [] \<Rightarrow> JList []
           | k # _ \<Rightarrow> get_or kvs k (JList []))
      | _ \<Rightarrow> JList [])"

text \<open>\<open>"tile_m" not in row or not is_f16_row(row)\<close>: what is no object and holds the word has no \<open>get\<close>.\<close>

definition usable_row :: "json \<Rightarrow> row option res" where
  "usable_row j =
     (case j of
        JObj r \<Rightarrow> Inr (if has_key r ''tile_m'' \<and> is_f16_row r then Some r else None)
      | JStr s \<Rightarrow> if contains ''tile_m'' s then Inl (ExternalError ''AttributeError'') else Inr None
      | JList xs \<Rightarrow> if JStr ''tile_m'' \<in> set xs then Inl (ExternalError ''AttributeError'') else Inr None
      | _ \<Rightarrow> Inl TypeError)"

definition row_combo :: "row \<Rightarrow> combo option res" where
  "row_combo r =
     (let ml = get_or r ''mainloop'' (JStr ''ws''); sched = infer_scheduler r
      in if \<not> is_supported_combo (str_json ml) sched then Inr None
         else
           bind_res (get_key r ''tile_m'') (\<lambda>tm. bind_res (get_key r ''tile_n'') (\<lambda>tn.
           bind_res (get_key r ''tile_k'') (\<lambda>tk. bind_res (get_key r ''cluster'') (\<lambda>cl.
           bind_res (canonical_combo
             [(''tile_m'', tm), (''tile_n'', tn), (''tile_k'', tk), (''cluster'', cl),
              (''stages'', get_or r ''stages'' (JStr ''auto'')), (''mainloop'', ml),
              (''epilogue'', get_or r ''epilogue'' (JStr ''auto'')), (''scheduler'', JStr sched),
              (''split_k'', get_or r ''split_k'' (get_or r ''split_k_slices'' (JInt 1)))]) (\<lambda>c.
           Inr (Some c)))))))"

fun load_rows :: "int \<Rightarrow> json list \<Rightarrow> combo list \<Rightarrow> combo list res" where
  "load_rows top_n [] out = Inr out"
| "load_rows top_n (j # js) out =
     bind_res (usable_row j) (\<lambda>r. case r of
        None \<Rightarrow> load_rows top_n js out
      | Some r \<Rightarrow> bind_res (row_combo r) (\<lambda>c. case c of
            None \<Rightarrow> load_rows top_n js out
          | Some c \<Rightarrow> if top_n \<le> int (length (out @ [c])) then Inr (out @ [c])
                      else load_rows top_n js (out @ [c])))"

definition load_rows_json :: "json \<Rightarrow> int \<Rightarrow> string \<Rightarrow> combo list res" where
  "load_rows_json data top_n key =
     bind_res (iterate_json (rows_from_json_obj data key)) (\<lambda>rows. load_rows top_n rows [])"

section \<open>Numbering\<close>

definition stage_str :: "stages \<Rightarrow> string" where
  "stage_str st = (case st of Auto \<Rightarrow> ''auto'' | Stages n \<Rightarrow> str_int n)"

type_synonym sort_key_type = "string \<times> string \<times> int \<times> int \<times> int \<times> int \<times> int \<times> int \<times> string \<times> int"

definition combo_sort_key :: "combo \<Rightarrow> sort_key_type" where
  "combo_sort_key c =
     (case cluster c of (c0, c1, c2) \<Rightarrow>
        (mainloop_of c, scheduler_of c, tileM c, tileN c, tileK c, c0, c1, c2, stage_str (stages c), split_k c))"

text \<open>A combo as the dictionary that \<open>canonical_combo\<close> takes again.\<close>

definition row_of_combo :: "combo \<Rightarrow> row" where
  "row_of_combo c =
     (case cluster c of (c0, c1, c2) \<Rightarrow>
        [(''tile_m'', JInt (tileM c)), (''tile_n'', JInt (tileN c)), (''tile_k'', JInt (tileK c)),
         (''cluster'', JList [JInt c0, JInt c1, JInt c2]),
         (''stages'', case stages c of Auto \<Rightarrow> JStr ''auto'' | Stages n \<Rightarrow> JInt n),
         (''mainloop'', JStr (mainloop_of c)), (''epilogue'', JStr (epilogue_of c)),
         (''scheduler'', JStr (scheduler_of c)), (''split_k'', JInt (split_k c))])"

text \<open>Unsupported combos are skipped; any other exception ends the program.\<close>

fun collect_by_key :: "row list \<Rightarrow> (gen_key \<times> combo) list \<Rightarrow> (gen_key \<times> combo) list res" where
  "collect_by_key [] by_key = Inr by_key"
| "collect_by_key (c # cs) by_key =
     (case canonical_combo c of
        Inl (ValueError _) \<Rightarrow> collect_by_key cs by_key
      | Inl e \<Rightarrow> Inl e
      | Inr cc \<Rightarrow> collect_by_key cs (AList.update (combo_key cc) cc by_key))"

definition dedupe :: "row list \<Rightarrow> combo list res" where
  "dedupe combos =
     bind_res (collect_by_key combos []) (\<lambda>by_key. Inr (sort_key combo_sort_key (map snd by_key)))"

section \<open>Generated text\<close>

definition nl :: string where "nl = [CHR 0x0A]"
definition quoted :: "string \<Rightarrow> string" where "quoted s = [CHR 0x22] @ s @ [CHR 0x22]"

definition lines_of :: "string list \<Rightarrow> string" where
  "lines_of ls = concat (map (\<lambda>l. l @ nl) ls)"

definition cluster_cpp :: "int \<times> int \<times> int \<Rightarrow> string" where
  "cluster_cpp cl = (case cl of (cm, cn, ck) \<Rightarrow>
     ''cute::Shape<cute::_'' @ str_int cm @ '', cute::_'' @ str_int cn @ '', cute::_'' @ str_int ck @ ''>'')"

definition stage_cpp :: "stages \<Rightarrow> string" where
  "stage_cpp st = (case renormalize_stages st of
       Auto \<Rightarrow> ''cutlass::gemm::collective::StageCountAuto''
     | Stages n \<Rightarrow> ''cutlass::gemm::collective::StageCount<'' @ str_int n @ ''>'')"

definition lookup_type :: "(string \<times> string) list \<Rightarrow> string \<Rightarrow> string" where
  "lookup_type tbl k = (case map_of tbl k of None \<Rightarrow> '''' | Some v \<Rightarrow> v)"

definition cpp_template_args :: "combo \<Rightarrow> string" where
  "cpp_template_args c =
     str_int (tileM c) @ '', '' @ str_int (tileN c) @ '', '' @ str_int (tileK c) @ '', ''
     @ stage_cpp (stages c) @ '', '' @ cluster_cpp (cluster c) @ '', ''
     @ lookup_type MAINLOOP_TYPES (mainloop_of c) @ '', '' @ lookup_type EPILOGUE_TYPES (epilogue_of c) @ '', ''
     @ lookup_type SCHEDULER_TYPES (normalize_scheduler (JStr (scheduler_of c)))"

definition generated_header :: "string list" where
  "generated_header = [''// Auto-generated by tool/generate_instances_sm90.py'',
     ''// Do not edit by hand.'', '''']"

definition meta_entry :: "combo \<Rightarrow> string" where
  "meta_entry c =
     (case cluster c of (cm, cn, ck) \<Rightarrow>
        ''  {'' @ str_int (tileM c) @ '', '' @ str_int (tileN c) @ '', '' @ str_int (tileK c) @ '', ''
        @ str_int cm @ '', '' @ str_int cn @ '', '' @ str_int ck @ '', ''
        @ (case stages c of Auto \<Rightarrow> ''-1'' | Stages n \<Rightarrow> str_int n) @ '', ''
        @ quoted (mainloop_of c) @ '', '' @ quoted (epilogue_of c) @ '', ''
        @ quoted (normalize_scheduler (JStr (scheduler_of c))) @ '', ''
        @ str_int (split_k c) @ ''},'')"

definition meta_struct :: "string \<Rightarrow> string list" where
  "meta_struct name =
     [''struct '' @ name @ '' {'', ''  int tile_m;'', ''  int tile_n;'', ''  int tile_k;'', ''  int cluster_m;'',
      ''  int cluster_n;'', ''  int cluster_k;'', ''  int stages;'', ''  const char* mainloop;'',
      ''  const char* epilogue;'', ''  const char* scheduler;'', ''  int split_k;'', ''};'', '''']"

definition tiling_includes :: "string list" where
  "tiling_includes = [''#pragma once'', '''', ''#include <cuda_runtime.h>'', ''#include <cuda_fp16.h>'',
     ''#include <cstdint>'', '''', ''namespace ooverlap {'', '''']"

definition signal_instance :: "combo \<Rightarrow> string list" where
  "signal_instance c =
     [''template void cutlass_gemm_signal_sm90<'', ''  '' @ cpp_template_args c, ''>('', ''  int M, int N, int K,'',
      ''  int ReLDN,'', ''  int num_segments,'', ''  int* CommThr,'', ''  half* A, half* B, half* D,'',
      ''  int* MM, int* RA,'', ''  int active_sm_count,'', ''  bool Monitor,'', ''  cudaStream_t stream'',
      '');'', '''']"

definition signal_pointer :: "combo \<Rightarrow> string" where
  "signal_pointer c = ''  &::cutlass_gemm_signal_sm90<'' @ cpp_template_args c @ ''>,''"

definition signal_head :: "string list" where
  "signal_head =
     generated_header @ tiling_includes
     @ [''using SignalSm90FuncPtr = void (*)('', ''    int M, int N, int K,'', ''    int ReLDN,'',
        ''    int num_segments,'', ''    int* CommThr,'', ''    half* A, half* B, half* D,'',
        ''    int* MM, int* RA,'', ''    int active_sm_count,'', ''    bool Monitor,'',
        ''    cudaStream_t stream);'', '''']
     @ meta_struct ''SignalSm90AlgoMeta'' @ [''static SignalSm90FuncPtr signal_sm90_func_table[] = {'']"

definition signal_middle :: "nat \<Rightarrow> string list" where
  "signal_middle n =
     [''};'', '''', ''static constexpr int signal_sm90_func_count = '' @ str_int (int n) @ '';'', '''',
      ''static SignalSm90AlgoMeta signal_sm90_algo_meta[] = {'']"

definition tiling_end :: "string list" where
  "tiling_end = [''};'', '''', ''} // namespace ooverlap'']"

text \<open>The include file and the tiling header.\<close>

definition write_signal_instances :: "combo list \<Rightarrow> string \<times> string" where
  "write_signal_instances cs =
     (lines_of (generated_header @ concat (map signal_instance cs)),
      lines_of (signal_head @ map signal_pointer cs @ signal_middle (length cs) @ map meta_entry cs @ tiling_end))"

definition plain_instance :: "combo \<Rightarrow> string list" where
  "plain_instance c =
     [''template bool cutlass_gemm_plain_sm90<'', ''  '' @ cpp_template_args c, ''>('', ''  int M, int N, int K,'',
      ''  half* A, half* B_col, half* D_col,'', ''  cudaStream_t stream'', '');'', '''']"

definition plain_pointer :: "combo \<Rightarrow> string" where
  "plain_pointer c = ''  &::cutlass_gemm_plain_sm90<'' @ cpp_template_args c @ ''>,''"

definition plain_head :: "string list" where
  "plain_head =
     generated_header @ tiling_includes
     @ [''using PlainSm90FuncPtr = bool (*)('', ''    int M, int N, int K,'',
        ''    half* A, half* B_col, half* D_col,'', ''    cudaStream_t stream);'', '''']
     @ meta_struct ''PlainSm90AlgoMeta'' @ [''static PlainSm90FuncPtr plain_sm90_func_table[] = {'']"

definition plain_middle :: "nat \<Rightarrow> string list" where
  "plain_middle n =
     [''};'', '''', ''static constexpr int plain_sm90_func_count = '' @ str_int (int n) @ '';'', '''',
      ''static PlainSm90AlgoMeta plain_sm90_algo_meta[] = {'']"

definition write_plain_instances :: "combo list \<Rightarrow> string \<times> string" where
  "write_plain_instances cs =
     (lines_of (generated_header @ concat (map plain_instance cs)),
      lines_of (plain_head @ map plain_pointer cs @ plain_middle (length cs) @ map meta_entry cs @ tiling_end))"

text \<open>The dictionary: the index that \<open>torch.save\<close> writes, if torch is there, and the entries of
  \<open>AlgoDictSm90.json\<close>.\<close>

definition algo_index :: "combo list \<Rightarrow> (gen_key \<rightharpoonup> nat)" where
  "algo_index cs = foldl (\<lambda>m (i, c). m(combo_key c \<mapsto> i)) Map.empty (enumerate 0 cs)"

definition algorithms :: "combo list \<Rightarrow> (nat \<times> combo) list" where
  "algorithms cs = map (\<lambda>c. (the (algo_index cs (combo_key c)), combo_from_key (combo_key c))) cs"

definition dict_entry :: "nat \<times> combo \<Rightarrow> json" where
  "dict_entry e = JObj ((''algo'', JInt (int (fst e))) # row_of_combo (snd e))"

definition algo_dict_json :: "(nat \<times> combo) list \<Rightarrow> json" where
  "algo_dict_json algs = JObj
     [(''description'', JStr ''SM90/H100 CUTLASS-3 GEMM algorithm dictionary shared by plain and signal paths''),
      (''key_format'', JList (map JStr [''TileM'', ''TileN'', ''TileK'', ''ClusterM'', ''ClusterN'', ''ClusterK'',
          ''Stages'', ''Mainloop'', ''Epilogue'', ''Scheduler'', ''SplitK''])),
      (''algorithms'', JList (map dict_entry algs))]"

record generated =
  g_index :: "(gen_key \<rightharpoonup> nat) option"
  g_algorithms :: "(nat \<times> combo) list"
  g_signal_inc :: string
  g_signal_tiling :: string
  g_plain_inc :: string
  g_plain_tiling :: string

definition gen_main :: "bool \<Rightarrow> (json \<times> int) option \<Rightarrow> (json \<times> int) option \<Rightarrow> generated res" where
  "gen_main have_torch from_missing from_failed =
     bind_res (case from_missing of None \<Rightarrow> Inr [] | Some (data, n) \<Rightarrow> load_rows_json data n ''missing'') (\<lambda>ms.
     bind_res (case from_failed of None \<Rightarrow> Inr [] | Some (data, n) \<Rightarrow> load_rows_json data n ''failed'') (\<lambda>fs.
     bind_res (dedupe (builtin_combos @ map row_of_combo (ms @ fs))) (\<lambda>cs.
     bind_res (require (cs \<noteq> []) (RuntimeError ''No SM90 candidates generated.'')) (\<lambda>_.
     Inr \<lparr>g_index = (if have_torch then Some (algo_index cs) else None), g_algorithms = algorithms cs,
          g_signal_inc = fst (write_signal_instances cs), g_signal_tiling = snd (write_signal_instances cs),
          g_plain_inc = fst (write_plain_instances cs), g_plain_tiling = snd (write_plain_instances cs)\<rparr>))))"

end
