(* ===== verification/GenCorrect.thy ===== *)
theory GenCorrect
  imports GenInstances
begin

text \<open>
  Facts on the instance generator: what a canonical combo is and that the code's normalisations leave it
  alone, what \<open>dedupe\<close> keeps, and how lines and template arguments of the generated text are read back.
\<close>

section \<open>Numbers as text\<close>

lemma py_strip_str_int [simp]: "py_strip (str_int i) = str_int i"
  using str_int_no_space by (rule py_strip_id)

lemma split_sign_str_int: "split_sign (str_int i) = (if i < 0 then -1 else 1, str_nat (nat \<bar>i\<bar>))"
proof (cases "i < 0")
  case True
  then show ?thesis by (simp add: str_int_def split_sign_def)
next
  case False
  obtain c cs where c: "str_nat (nat i) = c # cs" by (cases "str_nat (nat i)") simp_all
  then have "c \<noteq> CHR ''-'' \<and> c \<noteq> CHR ''+''"
    using str_nat_digits [of c "nat i"] digit_char_not_sign by auto
  with False show ?thesis by (simp add: str_int_def split_sign_def c)
qed

lemma lower_digit_char [simp]: "d < 10 \<Longrightarrow> lower_char (digit_char d) = digit_char d"
  by (simp add: lower_char_def digit_char_code Let_def)

lemma py_lower_str_nat [simp]: "py_lower (str_nat n) = str_nat n"
  unfolding py_lower_def by (rule map_idI) (auto dest!: str_nat_digits)

lemma py_lower_str_int [simp]: "py_lower (str_int i) = str_int i"
  by (simp add: str_int_def py_lower_def [of "_ # _"] py_lower_def [symmetric] lower_char_def)

lemma letter_no_digits: "char_digit c = None \<Longrightarrow> c \<in> set s \<Longrightarrow> str_nat n \<noteq> s"
  using str_nat_digits [of c n] by auto

lemma digits_value_str_nat [simp]: "digits_value (str_nat n) = n"
  by (simp add: digits_value_def read_digits_str_nat)

lemma py_float_str_int: "py_float (str_int i) = Inr (of_int i)"
  by (simp add: py_float_def split_sign_str_int read_exponent_def)

lemma int_float_str_int [simp]: "int_float (str_int i) = Inr i"
proof -
  have "str_nat n \<noteq> ''inf''" "str_nat n \<noteq> ''infinity''" for n
    by (rule letter_no_digits [of "CHR ''f''"]; simp add: char_digit_def)+
  then show ?thesis
    by (simp add: int_float_def split_sign_str_int py_float_str_int trunc_real_def)
qed

lemma str_int_not_auto [simp]: "str_int i \<noteq> ''auto''"
proof -
  have "str_nat n \<noteq> ''auto''" for n
    by (rule letter_no_digits [of "CHR ''a''"]) (simp_all add: char_digit_def)
  then show ?thesis by (simp add: str_int_def)
qed

lemma str_int_not_empty [simp]: "str_int i \<noteq> []"
  by (simp add: str_int_def)

lemma str_int_minus_one: "str_int i = ''-1'' \<longleftrightarrow> i = -1"
proof -
  have "str_int (-1) = ''-1''"
    by code_simp
  then show ?thesis by (metis str_int_inj)
qed

section \<open>Canonical combos\<close>

definition canonical :: "combo \<Rightarrow> bool" where
  "canonical c \<longleftrightarrow>
     mainloop_of c \<in> {''ws'', ''pingpong'', ''cooperative''} \<and> epilogue_of c = ''auto''
     \<and> scheduler_of c \<in> {''normal'', ''stream_k''}
     \<and> (scheduler_of c = ''stream_k'' \<longrightarrow> mainloop_of c = ''cooperative'')"

definition settled :: "combo \<Rightarrow> bool" where
  "settled c \<longleftrightarrow> canonical c \<and> stages c \<noteq> Stages (-1)"

lemma mainloop_known: "map_of MAINLOOP_TYPES ml \<noteq> None \<longleftrightarrow> ml \<in> {''ws'', ''pingpong'', ''cooperative''}"
  by (auto simp: MAINLOOP_TYPES_def)

lemma epilogue_known: "map_of EPILOGUE_TYPES ep \<noteq> None \<longleftrightarrow> ep = ''auto''"
  by (auto simp: EPILOGUE_TYPES_def)

lemma scheduler_known: "map_of SCHEDULER_TYPES s \<noteq> None \<longleftrightarrow> s \<in> {''normal'', ''stream_k''}"
  by (auto simp: SCHEDULER_TYPES_def)

lemma normalize_scheduler_cases: "normalize_scheduler x \<in> {''normal'', ''stream_k''}"
  by (simp add: normalize_scheduler_def Let_def)

lemma normalize_normal [simp]: "normalize_scheduler (JStr ''normal'') = ''normal''"
  by code_simp

lemma normalize_stream_k [simp]: "normalize_scheduler (JStr ''stream_k'') = ''stream_k''"
  by code_simp

lemma lower_mainloop:
  "ml \<in> {''ws'', ''pingpong'', ''cooperative''} \<Longrightarrow> py_lower (py_strip ml) = ml"
  by (elim insertE emptyE; hypsubst; code_simp)

lemma supported_iff:
  assumes "ml \<in> {''ws'', ''pingpong'', ''cooperative''}" and "s \<in> {''normal'', ''stream_k''}"
  shows "is_supported_combo ml s \<longleftrightarrow> (s = ''stream_k'' \<longrightarrow> ml = ''cooperative'')"
  using assms(2) by (auto simp: is_supported_combo_def lower_mainloop [OF assms(1)])

lemma canonical_combo_canonical:
  assumes "canonical_combo x = Inr c"
  shows "canonical c"
proof -
  obtain ml ep sched where
    "ml \<in> {''ws'', ''pingpong'', ''cooperative''}" "ep = ''auto''" "sched \<in> {''normal'', ''stream_k''}"
    "is_supported_combo ml sched" "mainloop_of c = ml" "epilogue_of c = ep" "scheduler_of c = sched"
    using assms unfolding canonical_combo_def Let_def mainloop_known epilogue_known scheduler_known
    by (elim bind_resE) (unfold require_eq_Inr sum.inject, hypsubst, simp)
  then show ?thesis unfolding canonical_def by (simp add: supported_iff)
qed

lemma normalize_stages_of_combo:
  "normalize_stages (case st of Auto \<Rightarrow> JStr ''auto'' | Stages n \<Rightarrow> JInt n) = Inr (renormalize_stages st)"
proof (cases st)
  case Auto
  have "normalize_stages (JStr ''auto'') = Inr Auto" by code_simp
  with Auto show ?thesis by (simp add: renormalize_stages_def)
next
  case (Stages n)
  then show ?thesis
    by (simp add: normalize_stages_def renormalize_stages_def str_json_def Let_def str_int_minus_one)
qed

lemma normalize_split_k_int [simp]: "normalize_split_k (JInt k) = Inr k"
  by (simp add: normalize_split_k_def str_json_def Let_def)

lemma str_json_simps [simp]: "str_json (JStr s) = s" "str_json (JInt i) = str_int i"
  by (simp_all add: str_json_def)

text \<open>Canonicalising a canonical combo again only settles its stages.\<close>

lemma canonical_combo_again:
  assumes "canonical c"
  shows "canonical_combo (row_of_combo c) = Inr (c\<lparr>stages := renormalize_stages (stages c)\<rparr>)"
proof -
  obtain c0 c1 c2 where cl: "cluster c = (c0, c1, c2)" by (cases "cluster c")
  have sched: "normalize_scheduler (JStr (scheduler_of c)) = scheduler_of c"
    using assms by (auto simp: canonical_def)
  have known: "mainloop_of c \<in> {''ws'', ''pingpong'', ''cooperative''}" "epilogue_of c = ''auto''"
    "scheduler_of c \<in> {''normal'', ''stream_k''}" "is_supported_combo (mainloop_of c) (scheduler_of c)"
    using assms by (auto simp: canonical_def supported_iff)
  show ?thesis
    using known cl
    unfolding canonical_combo_def row_of_combo_def cl Let_def mainloop_known epilogue_known scheduler_known
    by (simp add: get_or_Cons get_key_Cons sched normalize_stages_of_combo index_json_def int_of_json_def)
      (rule combo.equality; simp add: cl)
qed

lemma canonical_combo_settled: "settled c \<Longrightarrow> canonical_combo (row_of_combo c) = Inr c"
  by (simp add: settled_def canonical_combo_again renormalize_stages_def)

lemma combo_from_key: "settled c \<Longrightarrow> combo_from_key (combo_key c) = c"
  by (cases "cluster c")
    (auto simp: combo_key_def combo_from_key_def settled_def canonical_def renormalize_stages_def)

lemma combo_key_inj: "inj_on combo_key {c. settled c}"
  by (rule inj_on_inverseI [where g = combo_from_key]) (simp add: combo_from_key)

section \<open>Dedupe\<close>

lemma collect_by_key_distinct:
  "collect_by_key rs m = Inr m' \<Longrightarrow> distinct (map fst m) \<Longrightarrow> distinct (map fst m')"
proof (induction rs m rule: collect_by_key.induct)
  case (2 c cs by_key)
  then show ?case
    by (auto split: sum.splits py_error.splits simp: distinct_update)
qed simp

text \<open>The dictionary after the loop, read as a map: the last row of a key wins.\<close>

lemma collect_by_key_map:
  assumes "collect_by_key rs m = Inr m'" and "\<forall>x \<in> set rs. \<forall>c. canonical_combo x = Inr c \<longrightarrow> settled c"
    and "\<forall>(k, c) \<in> set m. settled c \<and> combo_key c = k" and "distinct (map fst m)"
  shows "set m' = set m \<union> {(combo_key c, c) | c. \<exists>x \<in> set rs. canonical_combo x = Inr c}"
  using assms
proof (induction rs m rule: collect_by_key.induct)
  case (2 r rs m)
  show ?case
  proof (cases "canonical_combo r")
    case (Inl e)
    with 2 show ?thesis by (cases e) auto
  next
    case (Inr c)
    let ?m = "AList.update (combo_key c) c m"
    have c: "settled c" using 2 Inr by auto
    have upd: "set ?m = insert (combo_key c, c) (set m)"
    proof -
      have "map_of ?m k = Some v \<longleftrightarrow> (k, v) = (combo_key c, c) \<or> map_of m k = Some v" for k v
      proof -
        have "v = c" if "map_of m (combo_key c) = Some v"
        proof -
          have "settled v \<and> combo_key v = combo_key c"
            using that 2(5) by (auto dest: map_of_SomeD)
          with c show ?thesis using combo_key_inj by (auto dest: inj_onD)
        qed
        then show ?thesis by (auto simp: update_conv')
      qed
      moreover have dist: "distinct (map fst ?m)" using 2(6) by (simp add: distinct_update)
      ultimately have "(k, v) \<in> set ?m \<longleftrightarrow> (k, v) = (combo_key c, c) \<or> (k, v) \<in> set m" for k v
        unfolding map_of_eq_Some_iff [OF dist, symmetric] map_of_eq_Some_iff [OF 2(6), symmetric] by blast
      then show ?thesis by (intro set_eqI) (simp add: split_paired_all)
    qed
    have "set m' = set ?m \<union> {(combo_key c, c) | c. \<exists>x \<in> set rs. canonical_combo x = Inr c}"
    proof (rule "2.IH"(2) [OF Inr])
      show "collect_by_key rs ?m = Inr m'" using 2 Inr by simp
      show "\<forall>x \<in> set rs. \<forall>c. canonical_combo x = Inr c \<longrightarrow> settled c" using 2 by simp
      show "\<forall>(k, c) \<in> set ?m. settled c \<and> combo_key c = k" using 2(5) c upd by auto
      show "distinct (map fst ?m)" using 2(6) by (simp add: distinct_update)
    qed
    with upd Inr show ?thesis by auto
  qed
qed auto

lemma combo_sort_key_inj: "inj_on combo_sort_key {c. canonical c}"
proof (rule inj_onI)
  fix c d assume a: "c \<in> {c. canonical c}" "d \<in> {c. canonical c}" "combo_sort_key c = combo_sort_key d"
  have "stages c = stages d"
    using a(3) by (cases "stages c"; cases "stages d")
      (auto simp: combo_sort_key_def stage_str_def str_int_not_auto [symmetric] split: prod.splits)
  with a show "c = d"
    by (auto simp: combo_sort_key_def canonical_def intro!: combo.equality split: prod.splits)
qed

lemma dedupe_settled:
  assumes "dedupe rs = Inr cs" and "\<forall>x \<in> set rs. \<forall>c. canonical_combo x = Inr c \<longrightarrow> settled c"
  shows "set cs = {c. \<exists>x \<in> set rs. canonical_combo x = Inr c}" and "distinct cs"
    and "sorted (map combo_sort_key cs)" and "\<forall>c \<in> set cs. settled c"
proof -
  obtain m where m: "collect_by_key rs [] = Inr m" and cs: "cs = sort_key combo_sort_key (map snd m)"
    using assms(1) by (auto simp: dedupe_def elim!: bind_resE)
  have set_m: "set m = {(combo_key c, c) | c. \<exists>x \<in> set rs. canonical_combo x = Inr c}"
    using collect_by_key_map [OF m assms(2)] by simp
  show "set cs = {c. \<exists>x \<in> set rs. canonical_combo x = Inr c}"
    unfolding cs set_sort set_map set_m by force
  then show "\<forall>c \<in> set cs. settled c" using assms(2) by auto
  have "distinct (map fst m)" using collect_by_key_distinct [OF m] by simp
  moreover have "map fst m = map combo_key (map snd m)" using set_m by auto
  ultimately have "distinct (map snd m)" by (metis distinct_map)
  then show "distinct cs" by (simp add: cs)
  show "sorted (map combo_sort_key cs)" by (simp add: cs)
qed

lemma sorted_unique:
  assumes "set cs = set ds" and "distinct cs" and "distinct ds" and "\<forall>c \<in> set cs. canonical c"
    and "sorted (map combo_sort_key cs)" and "sorted (map combo_sort_key ds)"
  shows "cs = ds"
proof -
  have inj: "inj_on combo_sort_key (set cs \<union> set ds)"
    using combo_sort_key_inj assms(1,4) by (auto intro: inj_on_subset)
  have "map combo_sort_key cs = map combo_sort_key ds"
    using assms inj by (intro sorted_distinct_set_unique) (auto simp: distinct_map)
  with inj show ?thesis by (auto dest: map_inj_on)
qed

section \<open>What main collects\<close>

definition builtin :: "combo list" where
  "builtin = map (\<lambda>r. case canonical_combo r of Inr c \<Rightarrow> c) builtin_combos"

lemma combo_row_auto:
  "combo_row tm tn tk cl (JStr ''auto'') ml sched = row_of_combo
     \<lparr>tileM = tm, tileN = tn, tileK = tk, cluster = cl, stages = Auto, mainloop_of = ml, epilogue_of = ''auto'',
      scheduler_of = sched, split_k = 1\<rparr>"
  by (simp add: combo_row_def row_of_combo_def split: prod.splits)

lemma combo_row_stages:
  "combo_row tm tn tk cl (JInt st) ml sched = row_of_combo
     \<lparr>tileM = tm, tileN = tn, tileK = tk, cluster = cl, stages = Stages st, mainloop_of = ml, epilogue_of = ''auto'',
      scheduler_of = sched, split_k = 1\<rparr>"
  by (simp add: combo_row_def row_of_combo_def split: prod.splits)

lemma curated_known:
  "(ml, tm, tn, tk, st) \<in> set CURATED_SHAPES \<Longrightarrow> ml \<in> {''ws'', ''pingpong'', ''cooperative''} \<and> st \<noteq> -1"
  by (auto simp: CURATED_SHAPES_def)

lemma curated_builtin:
  "(ml, tm, tn, tk, st) \<in> set CURATED_SHAPES \<Longrightarrow> cl \<in> set CLUSTERS \<Longrightarrow> sched \<in> set SCHEDULERS \<Longrightarrow>
     is_supported_combo ml sched \<Longrightarrow> combo_row tm tn tk cl (JInt st) ml sched \<in> set builtin_combos"
  unfolding builtin_combos_def by fastforce

lemma builtin_rows: "x \<in> set builtin_combos \<Longrightarrow> \<exists>c. settled c \<and> x = row_of_combo c"
proof -
  assume "x \<in> set builtin_combos"
  then consider
      tm tn tk cl where "x = combo_row tm tn tk cl (JStr ''auto'') ''ws'' ''normal''"
    | ml tm tn tk st cl sched where "(ml, tm, tn, tk, st) \<in> set CURATED_SHAPES" "sched \<in> set SCHEDULERS"
        "is_supported_combo ml sched" "x = combo_row tm tn tk cl (JInt st) ml sched"
    unfolding builtin_combos_def by (auto split: if_splits)
  then show ?thesis
  proof cases
    case 1
    then show ?thesis
      unfolding combo_row_auto by (intro exI conjI) (simp_all add: settled_def canonical_def)
  next
    case (2 ml tm tn tk st cl sched)
    from curated_known [OF 2(1)] 2(2,3) have "ml \<in> {''ws'', ''pingpong'', ''cooperative''}" "st \<noteq> -1"
      "sched \<in> {''normal'', ''stream_k''}" "sched = ''stream_k'' \<longrightarrow> ml = ''cooperative''"
      by (auto simp: SCHEDULERS_def supported_iff)
    then show ?thesis
      unfolding 2(4) combo_row_stages by (intro exI conjI) (auto simp: settled_def canonical_def)
  qed
qed

lemma load_rows_canonical:
  "load_rows n js out = Inr cs \<Longrightarrow> \<forall>c \<in> set out. canonical c \<Longrightarrow> \<forall>c \<in> set cs. canonical c"
proof (induction n js out rule: load_rows.induct)
  case (2 n j js out)
  have new: "canonical c" if "row_combo r = Inr (Some c)" for r c
    using that by (auto simp: row_combo_def Let_def split: if_splits elim!: bind_resE
        dest: canonical_combo_canonical)
  from 2(4) obtain ro where ro: "usable_row j = Inr ro" by (auto elim: bind_resE)
  show ?case
  proof (cases ro)
    case None
    with 2(4,5) ro show ?thesis using "2.IH"(1) [OF ro None] by simp
  next
    case (Some r)
    with 2(4) ro obtain co where co: "row_combo r = Inr co" by (auto elim: bind_resE)
    show ?thesis
    proof (cases co)
      case None
      with 2(4,5) ro co Some show ?thesis using "2.IH"(2) [OF ro Some co None] by simp
    next
      case (Some c)
      with 2(4,5) ro co \<open>ro = Some r\<close> show ?thesis
        using "2.IH"(3) [OF ro \<open>ro = Some r\<close> co Some] new [of r c] by (auto split: if_splits)
    qed
  qed
qed simp

lemma load_rows_json_canonical: "load_rows_json d n k = Inr cs \<Longrightarrow> \<forall>c \<in> set cs. canonical c"
  by (auto simp: load_rows_json_def elim!: bind_resE dest: load_rows_canonical)

text \<open>The combos of a run: the built-in ones and the settled ones of the loaded rows.\<close>

definition settle :: "combo \<Rightarrow> combo" where
  "settle c = c\<lparr>stages := renormalize_stages (stages c)\<rparr>"

lemma settled_settle: "canonical c \<Longrightarrow> settled (settle c)"
  by (simp add: settled_def settle_def canonical_def renormalize_stages_def)

lemma set_builtin: "set builtin = {c. \<exists>x \<in> set builtin_combos. canonical_combo x = Inr c}"
proof -
  have "(case canonical_combo x of Inr c \<Rightarrow> c) = c \<longleftrightarrow> canonical_combo x = Inr c"
    if "x \<in> set builtin_combos" for x c
    using builtin_rows [OF that] canonical_combo_settled by auto
  then show ?thesis unfolding builtin_def by (force simp: image_iff)
qed

lemma gen_mainE:
  assumes "gen_main ht m f = Inr g"
  obtains ms fs cs where
    "(case m of None \<Rightarrow> ms = [] | Some (d, n) \<Rightarrow> load_rows_json d n ''missing'' = Inr ms)"
    "(case f of None \<Rightarrow> fs = [] | Some (d, n) \<Rightarrow> load_rows_json d n ''failed'' = Inr fs)"
    "set cs = set builtin \<union> settle ` (set ms \<union> set fs)" "distinct cs" "cs \<noteq> []"
    "sorted (map combo_sort_key cs)" "\<forall>c \<in> set cs. settled c"
    "g = \<lparr>g_index = (if ht then Some (algo_index cs) else None), g_algorithms = algorithms cs,
          g_signal_inc = fst (write_signal_instances cs), g_signal_tiling = snd (write_signal_instances cs),
          g_plain_inc = fst (write_plain_instances cs), g_plain_tiling = snd (write_plain_instances cs)\<rparr>"
proof -
  from assms obtain ms fs cs where
    ms: "(case m of None \<Rightarrow> Inr [] | Some (d, n) \<Rightarrow> load_rows_json d n ''missing'') = Inr ms" and
    fs: "(case f of None \<Rightarrow> Inr [] | Some (d, n) \<Rightarrow> load_rows_json d n ''failed'') = Inr fs" and
    cs: "dedupe (builtin_combos @ map row_of_combo (ms @ fs)) = Inr cs" "cs \<noteq> []" and
    g: "g = \<lparr>g_index = (if ht then Some (algo_index cs) else None), g_algorithms = algorithms cs,
          g_signal_inc = fst (write_signal_instances cs), g_signal_tiling = snd (write_signal_instances cs),
          g_plain_inc = fst (write_plain_instances cs), g_plain_tiling = snd (write_plain_instances cs)\<rparr>"
    unfolding gen_main_def by (elim bind_resE) (auto simp del: map_append)
  have can: "\<forall>c \<in> set ms \<union> set fs. canonical c"
    using ms fs by (auto split: option.splits prod.splits dest!: load_rows_json_canonical)
  let ?rs = "builtin_combos @ map row_of_combo (ms @ fs)"
  have again: "canonical_combo (row_of_combo c) = Inr (settle c)" if "c \<in> set ms \<union> set fs" for c
    using canonical_combo_again can that by (simp add: settle_def)
  have rs: "\<forall>x \<in> set ?rs. \<forall>c. canonical_combo x = Inr c \<longrightarrow> settled c"
    using builtin_rows canonical_combo_settled again settled_settle can by fastforce
  have "set cs = set builtin \<union> settle ` (set ms \<union> set fs)"
    unfolding dedupe_settled(1) [OF cs(1) rs] set_builtin using again by (auto simp: image_iff)
  then show thesis
    using that [of ms fs cs] ms fs g cs(2) dedupe_settled(2-4) [OF cs(1) rs]
    by (auto split: option.splits prod.splits)
qed

section \<open>Reading the generated text\<close>

definition one_line :: "string \<Rightarrow> bool" where
  "one_line s \<longleftrightarrow> CHR 0x0A \<notin> set s"

lemma one_line_append [simp]: "one_line (s @ t) \<longleftrightarrow> one_line s \<and> one_line t"
  by (auto simp: one_line_def)

lemma one_line_Nil [simp]: "one_line []"
  by (simp add: one_line_def)

lemma one_line_Cons [simp]: "one_line (c # s) \<longleftrightarrow> c \<noteq> CHR 0x0A \<and> one_line s"
  by (auto simp: one_line_def)

lemma one_line_str_int [simp]: "one_line (str_int i)"
proof -
  have "is_space (CHR 0x0A)" by code_simp
  then show ?thesis using str_int_no_space [of "CHR 0x0A" i] by (auto simp: one_line_def)
qed

lemma py_split_lines: "\<forall>l \<in> set ls. one_line l \<Longrightarrow> py_split (CHR 0x0A) (lines_of ls) = ls @ [[]]"
proof (induction ls)
  case (Cons l ls)
  then show ?case
    by (simp add: lines_of_def nl_def one_line_def py_split_append)
qed (simp add: lines_of_def)

lemma lookup_types:
  "ml \<in> {''ws'', ''pingpong'', ''cooperative''} \<Longrightarrow> one_line (lookup_type MAINLOOP_TYPES ml)
     \<and> CHR '','' \<notin> set (lookup_type MAINLOOP_TYPES ml)"
  "one_line (lookup_type EPILOGUE_TYPES ''auto'') \<and> CHR '','' \<notin> set (lookup_type EPILOGUE_TYPES ''auto'')"
  "s \<in> {''normal'', ''stream_k''} \<Longrightarrow> one_line (lookup_type SCHEDULER_TYPES s)"
  by (auto simp: lookup_type_def MAINLOOP_TYPES_def EPILOGUE_TYPES_def SCHEDULER_TYPES_def)

lemma one_line_template:
  assumes "canonical c"
  shows "one_line (cpp_template_args c)"
proof -
  have "one_line (stage_cpp st)" for st by (cases "renormalize_stages st") (simp_all add: stage_cpp_def)
  moreover have "one_line (cluster_cpp cl)" for cl by (cases cl) (simp add: cluster_cpp_def)
  moreover have "epilogue_of c = ''auto''" "mainloop_of c \<in> {''ws'', ''pingpong'', ''cooperative''}"
    using assms by (simp_all add: canonical_def)
  ultimately show ?thesis
    using lookup_types(1) [of "mainloop_of c"] lookup_types(2)
      lookup_types(3) [OF normalize_scheduler_cases, of "JStr (scheduler_of c)"]
    by (simp add: cpp_template_args_def)
qed

lemma one_line_meta:
  assumes "canonical c"
  shows "one_line (meta_entry c)"
proof -
  have "one_line (normalize_scheduler x)" for x
    using normalize_scheduler_cases [of x] by auto
  moreover have "one_line (mainloop_of c)" using assms by (auto simp: canonical_def)
  ultimately show ?thesis
    using assms by (cases "cluster c"; cases "stages c") (simp_all add: meta_entry_def quoted_def canonical_def)
qed

lemma fixed_lines_one_line:
  "\<forall>l \<in> set signal_head. one_line l" "\<forall>l \<in> set (signal_middle n). one_line l"
  "\<forall>l \<in> set plain_head. one_line l" "\<forall>l \<in> set (plain_middle n). one_line l"
  "\<forall>l \<in> set tiling_end. one_line l"
  by (simp_all add: signal_head_def signal_middle_def plain_head_def plain_middle_def tiling_end_def
      generated_header_def tiling_includes_def meta_struct_def)

lemma fixed_lines_length [simp]:
  "length signal_head = 37" "length (signal_middle n) = 5" "length plain_head = 31" "length (plain_middle n) = 5"
  by (simp_all add: signal_head_def signal_middle_def plain_head_def plain_middle_def
      generated_header_def tiling_includes_def meta_struct_def)

lemma tiling_file_lines:
  assumes "\<forall>c \<in> set cs. canonical c"
  shows "py_split (CHR 0x0A) (snd (write_signal_instances cs))
           = signal_head @ map signal_pointer cs @ signal_middle (length cs) @ map meta_entry cs @ tiling_end @ [[]]"
    and "py_split (CHR 0x0A) (snd (write_plain_instances cs))
           = plain_head @ map plain_pointer cs @ plain_middle (length cs) @ map meta_entry cs @ tiling_end @ [[]]"
proof -
  have "one_line (signal_pointer c) \<and> one_line (plain_pointer c) \<and> one_line (meta_entry c)" if "c \<in> set cs" for c
    using assms that one_line_template one_line_meta by (simp add: signal_pointer_def plain_pointer_def)
  then have "\<forall>l \<in> set (signal_head @ map signal_pointer cs @ signal_middle (length cs) @ map meta_entry cs @ tiling_end). one_line l"
    and "\<forall>l \<in> set (plain_head @ map plain_pointer cs @ plain_middle (length cs) @ map meta_entry cs @ tiling_end). one_line l"
    using fixed_lines_one_line by (auto simp del: length_map)
  from py_split_lines [OF this(1)] py_split_lines [OF this(2)]
  show "py_split (CHR 0x0A) (snd (write_signal_instances cs))
           = signal_head @ map signal_pointer cs @ signal_middle (length cs) @ map meta_entry cs @ tiling_end @ [[]]"
    and "py_split (CHR 0x0A) (snd (write_plain_instances cs))
           = plain_head @ map plain_pointer cs @ plain_middle (length cs) @ map meta_entry cs @ tiling_end @ [[]]"
    by (simp_all add: write_signal_instances_def write_plain_instances_def)
qed

end
