(* ===== verification/GenProperties.thy ===== *)
theory GenProperties
  imports GenCorrect SearchCorrect
begin

text \<open>
  What the instance generator promises: one numbering shared by the dictionary, the index, the signal and
  the plain tables, exactly the supported combos, and a dictionary that the search reads back.
\<close>

section \<open>The numbering\<close>

lemma index_fold_other:
  "x \<notin> f ` set cs \<Longrightarrow> foldl (\<lambda>m (i, c). m(f c \<mapsto> i)) m0 (enumerate k cs) x = m0 x"
  by (induction cs arbitrary: k m0) simp_all

lemma index_fold:
  "distinct (map f cs) \<Longrightarrow> i < length cs \<Longrightarrow>
     foldl (\<lambda>m (i, c). m(f c \<mapsto> i)) m0 (enumerate k cs) (f (cs ! i)) = Some (k + i)"
proof (induction cs arbitrary: k m0 i)
  case (Cons c cs)
  then show ?case by (cases i) (simp_all add: index_fold_other fun_upd_same del: fun_upd_apply)
qed simp

lemma keys_distinct: "distinct cs \<Longrightarrow> \<forall>c \<in> set cs. settled c \<Longrightarrow> distinct (map combo_key cs)"
  using combo_key_inj by (auto simp: distinct_map intro: inj_on_subset)

lemma algo_index_nth:
  "distinct (map combo_key cs) \<Longrightarrow> i < length cs \<Longrightarrow> algo_index cs (combo_key (cs ! i)) = Some i"
  unfolding algo_index_def using index_fold [of combo_key cs i Map.empty 0] by simp

lemma algorithms_enumerate:
  assumes "distinct cs" and "\<forall>c \<in> set cs. settled c"
  shows "algorithms cs = enumerate 0 cs"
  by (rule nth_equalityI)
    (simp_all add: algorithms_def algo_index_nth [OF keys_distinct [OF assms]] combo_from_key assms(2) nth_enumerate_eq)

lemma split_at_char:
  "ch \<notin> set x \<Longrightarrow> ch \<notin> set y \<Longrightarrow> x @ ch # r = y @ ch # s \<longleftrightarrow> x = y \<and> r = s"
proof (induction x arbitrary: y)
  case Nil
  then show ?case by (cases y) auto
next
  case (Cons a x)
  then show ?case by (cases y) auto
qed

lemma str_int_no_char:
  assumes "char_digit ch = None" and "ch \<noteq> CHR ''-''"
  shows "ch \<notin> set (str_int i)"
proof -
  have "ch \<notin> set (str_nat n)" for n
  proof
    assume "ch \<in> set (str_nat n)"
    then obtain d where "d < 10" "ch = digit_char d" by (auto dest: str_nat_digits)
    with assms(1) show False by simp
  qed
  with assms(2) show ?thesis by (simp add: str_int_def)
qed

lemma str_int_no_comma [simp]: "CHR '','' \<notin> set (str_int i)" "CHR ''>'' \<notin> set (str_int i)"
  by (rule str_int_no_char; simp add: char_digit_def)+

lemmas split_comma = split_at_char [of "CHR '',''"]
lemmas split_gt = split_at_char [of "CHR ''>''"]

lemma stage_cpp_inj: "stage_cpp a = stage_cpp b \<longleftrightarrow> renormalize_stages a = renormalize_stages b"
  by (cases "renormalize_stages a"; cases "renormalize_stages b") (simp_all add: stage_cpp_def)

lemma stage_cpp_no_comma [simp]: "CHR '','' \<notin> set (stage_cpp st)"
  by (cases "renormalize_stages st") (simp_all add: stage_cpp_def)

lemma cluster_cpp_append:
  "cluster_cpp a @ CHR '','' # r = cluster_cpp b @ CHR '','' # s \<longleftrightarrow> a = b \<and> r = s"
proof (cases a; cases b)
  fix am an ak bm bn bk assume ab: "a = (am, an, ak)" "b = (bm, bn, bk)"
  show ?thesis unfolding ab cluster_cpp_def by (simp add: split_comma split_gt)
qed

text \<open>The template arguments determine a combo up to its split-k factor.\<close>

lemma template_args_inj:
  assumes "settled c" and "settled d"
  shows "cpp_template_args c = cpp_template_args d \<longleftrightarrow> c\<lparr>split_k := 1\<rparr> = d\<lparr>split_k := 1\<rparr>"
proof
  assume eq: "cpp_template_args c = cpp_template_args d"
  have ml: "mainloop_of x \<in> {''ws'', ''pingpong'', ''cooperative''}" "epilogue_of x = ''auto''"
    "scheduler_of x \<in> {''normal'', ''stream_k''}" if "settled x" for x
    using that by (simp_all add: settled_def canonical_def)
  have sched: "normalize_scheduler (JStr (scheduler_of x)) = scheduler_of x" if "settled x" for x
    using ml(3) [OF that] by auto
  have no: "CHR '','' \<notin> set (lookup_type MAINLOOP_TYPES (mainloop_of x))"
    "CHR '','' \<notin> set (lookup_type EPILOGUE_TYPES (epilogue_of x))" if "settled x" for x
    using lookup_types(1) [OF ml(1) [OF that]] lookup_types(2) ml(2) [OF that] by simp_all
  from eq have parts: "tileM c = tileM d" "tileN c = tileN d" "tileK c = tileK d"
    "renormalize_stages (stages c) = renormalize_stages (stages d)" "cluster c = cluster d"
    "lookup_type MAINLOOP_TYPES (mainloop_of c) = lookup_type MAINLOOP_TYPES (mainloop_of d)"
    "lookup_type SCHEDULER_TYPES (scheduler_of c) = lookup_type SCHEDULER_TYPES (scheduler_of d)"
    using no assms
    by (simp_all add: cpp_template_args_def split_comma cluster_cpp_append stage_cpp_inj sched)
  have "mainloop_of c = mainloop_of d"
    using parts(6) ml(1) [OF assms(1)] ml(1) [OF assms(2)]
    by (auto simp: lookup_type_def MAINLOOP_TYPES_def)
  moreover have "scheduler_of c = scheduler_of d"
    using parts(7) ml(3) [OF assms(1)] ml(3) [OF assms(2)]
    by (auto simp: lookup_type_def SCHEDULER_TYPES_def)
  moreover have "stages c = stages d"
    using parts(4) assms by (simp add: settled_def renormalize_stages_def)
  ultimately show "c\<lparr>split_k := 1\<rparr> = d\<lparr>split_k := 1\<rparr>"
    using parts ml(2) assms by simp
next
  assume "c\<lparr>split_k := 1\<rparr> = d\<lparr>split_k := 1\<rparr>"
  then obtain k where "d = c\<lparr>split_k := k\<rparr>" by (cases c; cases d) simp
  then show "cpp_template_args c = cpp_template_args d" by (simp add: cpp_template_args_def)
qed

section \<open>A run\<close>

lemma collect_by_key_total:
  "\<forall>x \<in> set rs. \<exists>c. canonical_combo x = Inr c \<Longrightarrow> \<exists>m'. collect_by_key rs m = Inr m'"
  by (induction rs arbitrary: m) auto

lemma gen_main_total:
  assumes "case m of None \<Rightarrow> ms = [] | Some (d, n) \<Rightarrow> load_rows_json d n ''missing'' = Inr ms"
    and "case f of None \<Rightarrow> fs = [] | Some (d, n) \<Rightarrow> load_rows_json d n ''failed'' = Inr fs"
  shows "\<exists>g. gen_main ht m f = Inr g"
proof -
  have can: "\<forall>c \<in> set ms \<union> set fs. canonical c"
    using assms by (auto split: option.splits prod.splits dest!: load_rows_json_canonical)
  let ?rs = "builtin_combos @ map row_of_combo (ms @ fs)"
  have rs: "\<forall>x \<in> set ?rs. \<exists>c. canonical_combo x = Inr c"
    using builtin_rows canonical_combo_settled canonical_combo_again can by fastforce
  then obtain m' where m': "collect_by_key ?rs [] = Inr m'" using collect_by_key_total by blast
  then have d: "dedupe ?rs = Inr (sort_key combo_sort_key (map snd m'))" by (simp add: dedupe_def)
  have "builtin_combos \<noteq> []" by code_simp
  then have "\<exists>x c. x \<in> set ?rs \<and> canonical_combo x = Inr c" using rs
    by (metis Un_iff list.set_sel(1) set_append)
  moreover have "\<forall>x \<in> set ?rs. \<forall>c. canonical_combo x = Inr c \<longrightarrow> settled c"
    using builtin_rows canonical_combo_settled canonical_combo_again settled_settle can
    by (fastforce simp: settle_def)
  ultimately have "sort_key combo_sort_key (map snd m') \<noteq> []"
    using dedupe_settled(1) [OF d] by fastforce
  then show ?thesis
    using assms d by (auto simp: gen_main_def split: option.splits prod.splits)
qed

text \<open>A profiled row that asks for a split-k factor of two on a built-in shape.\<close>

definition split_row :: row where
  "split_row =
     [(''tile_m'', JInt 128), (''tile_n'', JInt 128), (''tile_k'', JInt 64), (''cluster'', JList [JInt 1, JInt 1, JInt 1]),
      (''stages'', JInt 7), (''mainloop'', JStr ''ws''), (''split_k_slices'', JInt 2)]"

definition split_combo :: combo where
  "split_combo = \<lparr>tileM = 128, tileN = 128, tileK = 64, cluster = (1, 1, 1), stages = Stages 7, mainloop_of = ''ws'',
     epilogue_of = ''auto'', scheduler_of = ''normal'', split_k = 2\<rparr>"

lemma split_row_usable: "usable_row (JObj split_row) = Inr (Some split_row)"
  by code_simp

lemma split_row_combo: "row_combo split_row = Inr (Some split_combo)"
proof -
  have "infer_scheduler split_row = ''normal''" "is_supported_combo ''ws'' ''normal''" by code_simp+
  then show ?thesis
    using canonical_combo_settled [of split_combo]
    by (simp add: row_combo_def split_row_def get_or_def get_key_def row_of_combo_def split_combo_def settled_def
        canonical_def Let_def)
qed

definition split_file :: "(json \<times> int) option" where
  "split_file = Some (JObj [(''missing'', JList [JObj split_row])], 20)"

lemma split_file_loaded: "load_rows_json (JObj [(''missing'', JList [JObj split_row])]) 20 ''missing'' = Inr [split_combo]"
  by (simp add: load_rows_json_def rows_from_json_obj_def iterate_json_def get_or_def has_key_def split_row_usable
      split_row_combo)

lemma split_run: "\<exists>g. gen_main True split_file None = Inr g"
  by (rule gen_main_total [where ms = "[split_combo]" and fs = "[]"])
    (simp_all add: split_file_def split_file_loaded)

lemma member_enumerate: "x \<in> set xs \<Longrightarrow> \<exists>i. (i, x) \<in> set (enumerate 0 xs)"
proof -
  have "snd ` set (enumerate 0 xs) = set xs" by (metis list.set_map map_snd_enumerate)
  then show "x \<in> set xs \<Longrightarrow> \<exists>i. (i, x) \<in> set (enumerate 0 xs)" by force
qed

lemma enumerate_memberD: "(i, x) \<in> set (enumerate 0 xs) \<Longrightarrow> x \<in> set xs"
  by (auto simp: in_set_enumerate_eq)

lemma enumerate_unique: "(i, x) \<in> set (enumerate 0 xs) \<Longrightarrow> (i, y) \<in> set (enumerate 0 xs) \<Longrightarrow> x = y"
  by (simp add: in_set_enumerate_eq)

section \<open>Properties\<close>

abbreviation file_lines :: "string \<Rightarrow> string list" where
  "file_lines \<equiv> py_split (CHR 0x0A)"

lemma settle_rows:
  assumes "\<forall>c \<in> set ms \<union> set fs. canonical c"
  shows "set builtin \<union> settle ` (set ms \<union> set fs)
    = {c. \<exists>r \<in> set builtin_combos \<union> (row_of_combo ` set ms \<union> row_of_combo ` set fs). canonical_combo r = Inr c}"
proof -
  have "canonical_combo (row_of_combo c) = Inr d \<longleftrightarrow> d = settle c" if "c \<in> set ms \<union> set fs" for c d
    using assms that by (auto simp: canonical_combo_again settle_def)
  then show ?thesis unfolding set_builtin by blast
qed

lemma run_tables:
  assumes "gen_main ht m f = Inr g"
  obtains cs where "g_algorithms g = enumerate 0 cs" "distinct cs" "\<forall>c \<in> set cs. settled c"
    "g_index g = (if ht then Some (algo_index cs) else None)"
    "file_lines (g_signal_tiling g) = signal_head @ map signal_pointer cs @ signal_middle (length cs) @ map meta_entry cs
       @ tiling_end @ [[]]"
    "file_lines (g_plain_tiling g) = plain_head @ map plain_pointer cs @ plain_middle (length cs) @ map meta_entry cs
       @ tiling_end @ [[]]"
proof -
  from gen_mainE [OF assms] obtain cs where cs: "distinct cs" "\<forall>c \<in> set cs. settled c" and
    g: "g = \<lparr>g_index = (if ht then Some (algo_index cs) else None), g_algorithms = algorithms cs,
          g_signal_inc = fst (write_signal_instances cs), g_signal_tiling = snd (write_signal_instances cs),
          g_plain_inc = fst (write_plain_instances cs), g_plain_tiling = snd (write_plain_instances cs)\<rparr>"
    by metis
  then show thesis
    using that [of cs] algorithms_enumerate [OF cs] tiling_file_lines [of cs]
    by (auto simp: settled_def)
qed

lemma numbering:
  assumes "gen_main ht m f = Inr g" and "i < length (g_algorithms g)"
  defines "n \<equiv> length (g_algorithms g)" and "c \<equiv> snd (g_algorithms g ! i)"
  shows "fst (g_algorithms g ! i) = i"
    and "distinct (map (\<lambda>(j, d). combo_key d) (g_algorithms g))"
    and "\<forall>ix. g_index g = Some ix \<longrightarrow> ix (combo_key c) = Some i"
    and "file_lines (g_signal_tiling g) ! (37 + i) = signal_pointer c"
    and "file_lines (g_signal_tiling g) ! (42 + n + i) = meta_entry c"
    and "file_lines (g_plain_tiling g) ! (31 + i) = plain_pointer c"
    and "file_lines (g_plain_tiling g) ! (36 + n + i) = meta_entry c"
proof -
  obtain cs where cs: "g_algorithms g = enumerate 0 cs" "distinct cs" "\<forall>c \<in> set cs. settled c"
    "g_index g = (if ht then Some (algo_index cs) else None)" and
    lines: "file_lines (g_signal_tiling g) = signal_head @ map signal_pointer cs @ signal_middle (length cs)
       @ map meta_entry cs @ tiling_end @ [[]]"
    "file_lines (g_plain_tiling g) = plain_head @ map plain_pointer cs @ plain_middle (length cs) @ map meta_entry cs
       @ tiling_end @ [[]]"
    using run_tables [OF assms(1)] by metis
  note keys = keys_distinct [OF cs(2,3)]
  have i: "i < length cs" "n = length cs" "c = cs ! i" using assms(2) cs(1) by (simp_all add: n_def c_def nth_enumerate_eq)
  show "fst (g_algorithms g ! i) = i" using i by (simp add: cs(1) nth_enumerate_eq)
  have "map (\<lambda>(j, d). combo_key d) (g_algorithms g) = map combo_key (map snd (g_algorithms g))" by (simp add: case_prod_beta)
  then show "distinct (map (\<lambda>(j, d). combo_key d) (g_algorithms g))" using keys by (simp add: cs(1))
  show "\<forall>ix. g_index g = Some ix \<longrightarrow> ix (combo_key c) = Some i"
    using algo_index_nth [OF keys i(1)] i(3) cs(4) by auto
  show "file_lines (g_signal_tiling g) ! (37 + i) = signal_pointer c"
    "file_lines (g_signal_tiling g) ! (42 + n + i) = meta_entry c"
    "file_lines (g_plain_tiling g) ! (31 + i) = plain_pointer c"
    "file_lines (g_plain_tiling g) ! (36 + n + i) = meta_entry c"
    using i by (simp_all add: lines nth_append)
qed

lemma collect_by_key_errors:
  "\<exists>m'. collect_by_key rs m = Inr m' \<Longrightarrow>
     \<forall>r \<in> set rs. \<forall>e. canonical_combo r = Inl e \<longrightarrow> (\<exists>msg. e = ValueError msg)"
  by (induction rs m rule: collect_by_key.induct) (auto split: sum.splits py_error.splits)

lemma collect_by_key_returns:
  "\<forall>r \<in> set rs. \<forall>e. canonical_combo r = Inl e \<longrightarrow> (\<exists>msg. e = ValueError msg) \<Longrightarrow>
     \<exists>m'. collect_by_key rs m = Inr m'"
  by (induction rs m rule: collect_by_key.induct) (auto split: sum.splits py_error.splits)

lemma run_nonempty: "gen_main ht m f = Inr g \<Longrightarrow> g_algorithms g \<noteq> []"
  by (erule gen_mainE) (auto simp: algorithms_def)

text \<open>C14: The number of a GEMM instance means the same everywhere. Entry \<open>i\<close> of the algorithm dictionary
  carries the number \<open>i\<close>, the saved index maps the key of its combo to \<open>i\<close>, and in both tiling headers the
  function pointer and the metadata on the \<open>i\<close>-th table line are those of the same combo, at fixed places of
  the file (37 or 31 lines before the pointers, five between the tables). All keys are different.\<close>
theorem generated_tables_share_numbering:
  assumes "gen_main ht m f = Inr g" and "i < length (g_algorithms g)"
  shows "let n = length (g_algorithms g); (j, c) = g_algorithms g ! i in
     j = i \<and> distinct (map (\<lambda>(j, d). combo_key d) (g_algorithms g))
     \<and> (\<forall>ix. g_index g = Some ix \<longrightarrow> ix (combo_key c) = Some i)
     \<and> file_lines (g_signal_tiling g) ! (37 + i) = signal_pointer c
     \<and> file_lines (g_signal_tiling g) ! (42 + n + i) = meta_entry c
     \<and> file_lines (g_plain_tiling g) ! (31 + i) = plain_pointer c
     \<and> file_lines (g_plain_tiling g) ! (36 + n + i) = meta_entry c"
  using numbering [OF assms] by (simp add: Let_def split_beta)

theorem generated_tables_share_numbering_witness:
  "\<exists>g. gen_main True split_file None = Inr g \<and> 0 < length (g_algorithms g)
     \<and> file_lines (g_signal_tiling g) ! 37 = signal_pointer (snd (g_algorithms g ! 0))"
proof -
  obtain g where g: "gen_main True split_file None = Inr g" using split_run by blast
  have "0 < length (g_algorithms g)" using run_nonempty [OF g] by simp
  with g generated_tables_share_numbering [OF g this] show ?thesis by (auto simp: Let_def split_beta)
qed

text \<open>C25: A run emits exactly the combos that the built-in shapes and the rows it loaded canonicalise to, in the
  order of the sort key and without repetition; every one has a known mainloop, the automatic epilogue and a
  known scheduler, and stream-K only with the cooperative mainloop, the one for which CUTLASS compiles it.\<close>
theorem generated_combos_exact:
  assumes "gen_main ht m f = Inr g"
    and "ms = (case m of None \<Rightarrow> [] | Some (d, n) \<Rightarrow> (case load_rows_json d n ''missing'' of Inr cs \<Rightarrow> cs))"
    and "fs = (case f of None \<Rightarrow> [] | Some (d, n) \<Rightarrow> (case load_rows_json d n ''failed'' of Inr cs \<Rightarrow> cs))"
  shows "snd ` set (g_algorithms g)
           = {c. \<exists>r \<in> set (builtin_combos @ map row_of_combo (ms @ fs)). canonical_combo r = Inr c}
     \<and> sorted (map (\<lambda>(i, c). combo_sort_key c) (g_algorithms g))
     \<and> distinct (map snd (g_algorithms g))
     \<and> (\<forall>(i, c) \<in> set (g_algorithms g).
          map_of MAINLOOP_TYPES (mainloop_of c) \<noteq> None \<and> map_of EPILOGUE_TYPES (epilogue_of c) \<noteq> None
          \<and> map_of SCHEDULER_TYPES (scheduler_of c) \<noteq> None
          \<and> (scheduler_of c = ''stream_k'' \<longrightarrow> mainloop_of c = ''cooperative''))"
proof -
  obtain ms' fs' cs where
    l: "(case m of None \<Rightarrow> ms' = [] | Some (d, n) \<Rightarrow> load_rows_json d n ''missing'' = Inr ms')"
       "(case f of None \<Rightarrow> fs' = [] | Some (d, n) \<Rightarrow> load_rows_json d n ''failed'' = Inr fs')" and
    cs: "set cs = set builtin \<union> settle ` (set ms' \<union> set fs')" "distinct cs"
      "sorted (map combo_sort_key cs)" "\<forall>c \<in> set cs. settled c" and g: "g_algorithms g = algorithms cs"
    by (rule gen_mainE [OF assms(1)]) (erule (5) that, simp)
  have eq: "ms' = ms" "fs' = fs" using l assms(2,3) by (auto split: option.splits prod.splits)
  have can: "\<forall>c \<in> set ms \<union> set fs. canonical c"
    using l unfolding eq by (auto split: option.splits prod.splits dest!: load_rows_json_canonical)
  then have "set cs = {c. \<exists>r \<in> set (builtin_combos @ map row_of_combo (ms @ fs)). canonical_combo r = Inr c}"
    unfolding cs(1) eq by (simp add: settle_rows)
  moreover have alg: "g_algorithms g = enumerate 0 cs" using algorithms_enumerate cs(2,4) g by simp
  moreover have "snd ` set (enumerate 0 cs) = set cs" by (metis list.set_map map_snd_enumerate)
  moreover have "map (\<lambda>(i, c). combo_sort_key c) (enumerate 0 cs) = map combo_sort_key cs"
  proof -
    have "map (\<lambda>(i, c). combo_sort_key c) xs = map combo_sort_key (map snd xs)" for xs :: "(nat \<times> combo) list"
      by (simp add: case_prod_beta)
    from this [of "enumerate 0 cs"] show ?thesis by (simp only: map_snd_enumerate)
  qed
  moreover have "\<forall>(i, c) \<in> set (enumerate 0 cs).
      map_of MAINLOOP_TYPES (mainloop_of c) \<noteq> None \<and> map_of EPILOGUE_TYPES (epilogue_of c) \<noteq> None
      \<and> map_of SCHEDULER_TYPES (scheduler_of c) \<noteq> None
      \<and> (scheduler_of c = ''stream_k'' \<longrightarrow> mainloop_of c = ''cooperative'')"
    unfolding mainloop_known epilogue_known scheduler_known
    using cs(4) by (auto simp: settled_def canonical_def dest!: enumerate_memberD)
  ultimately show ?thesis using cs(2,3) by (simp only: map_snd_enumerate simp_thms)
qed

theorem generated_combos_exact_witness:
  "\<exists>g. gen_main True split_file None = Inr g
     \<and> snd ` set (g_algorithms g)
         = {c. \<exists>r \<in> set (builtin_combos @ map row_of_combo [split_combo]). canonical_combo r = Inr c}"
proof -
  obtain g where g: "gen_main True split_file None = Inr g" using split_run by blast
  have "[split_combo] = (case split_file of None \<Rightarrow> []
      | Some (d, n) \<Rightarrow> (case load_rows_json d n ''missing'' of Inr cs \<Rightarrow> cs))"
    by (simp add: split_file_def split_file_loaded)
  from generated_combos_exact [OF g this refl] g show ?thesis by auto
qed

text \<open>What \<open>dedupe\<close> returns depends on the set of rows only: any order and any repetition of the
  same rows gives the same numbered list, so that re-running the generator never renumbers the instances.
  (No row may write its automatic stage count as \<open>-1.0\<close>, which is kept as the number \<open>-1\<close>.)\<close>
theorem dedupe_order_irrelevant:
  assumes "dedupe rs = Inr cs" and "set rs' = set rs"
    and "\<forall>r \<in> set rs. \<forall>c. canonical_combo r = Inr c \<longrightarrow> stages c \<noteq> Stages (-1)"
  shows "dedupe rs' = Inr cs"
proof -
  have s: "\<forall>r \<in> set rs. \<forall>c. canonical_combo r = Inr c \<longrightarrow> settled c"
    using assms(3) canonical_combo_canonical by (auto simp: settled_def)
  have "\<exists>m. collect_by_key rs [] = Inr m" using assms(1) by (auto simp: dedupe_def elim!: bind_resE)
  then have ok: "\<forall>r \<in> set rs. \<forall>e. canonical_combo r = Inl e \<longrightarrow> (\<exists>msg. e = ValueError msg)"
    by (rule collect_by_key_errors)
  then obtain m' where "collect_by_key rs' [] = Inr m'"
    using collect_by_key_returns [of rs' "[]"] assms(2) by auto
  then obtain ds where ds: "dedupe rs' = Inr ds" by (simp add: dedupe_def)
  have "cs = ds"
    using dedupe_settled [OF assms(1) s] dedupe_settled [OF ds] s assms(2)
    by (intro sorted_unique) (auto simp: settled_def)
  with ds show ?thesis by simp
qed

theorem dedupe_order_irrelevant_witness:
  "\<exists>cs. dedupe [row_of_combo split_combo, row_of_combo (split_combo\<lparr>tileM := 64\<rparr>)] = Inr cs
     \<and> dedupe [row_of_combo (split_combo\<lparr>tileM := 64\<rparr>), row_of_combo split_combo] = Inr cs"
proof -
  let ?rs = "[row_of_combo split_combo, row_of_combo (split_combo\<lparr>tileM := 64\<rparr>)]"
  have can: "canonical_combo (row_of_combo split_combo) = Inr split_combo"
    "canonical_combo (row_of_combo (split_combo\<lparr>tileM := 64\<rparr>)) = Inr (split_combo\<lparr>tileM := 64\<rparr>)"
    by (rule canonical_combo_settled; simp add: settled_def canonical_def split_combo_def)+
  then obtain cs where "dedupe ?rs = Inr cs" by (simp add: dedupe_def)
  moreover from dedupe_order_irrelevant [OF this, of "[row_of_combo (split_combo\<lparr>tileM := 64\<rparr>), row_of_combo split_combo]"]
  have "dedupe [row_of_combo (split_combo\<lparr>tileM := 64\<rparr>), row_of_combo split_combo] = Inr cs"
    using can by (auto simp: split_combo_def)
  ultimately show ?thesis by blast
qed

text \<open>C34: Two entries of a run have the same template arguments exactly if they agree in everything but
  the split-k factor. The factor is part of the key but not of the generated C++: two combos that differ in it
  alone get the same explicit instantiation twice and the same function pointer under two numbers.\<close>
theorem instances_distinct_up_to_split_k:
  assumes "gen_main ht m f = Inr g" and "(i, c) \<in> set (g_algorithms g)" and "(j, d) \<in> set (g_algorithms g)"
  shows "(signal_pointer c = signal_pointer d \<longleftrightarrow> c\<lparr>split_k := 1\<rparr> = d\<lparr>split_k := 1\<rparr>)
     \<and> (signal_instance c = signal_instance d \<longleftrightarrow> c\<lparr>split_k := 1\<rparr> = d\<lparr>split_k := 1\<rparr>)
     \<and> (plain_pointer c = plain_pointer d \<longleftrightarrow> c\<lparr>split_k := 1\<rparr> = d\<lparr>split_k := 1\<rparr>)"
proof -
  obtain cs where cs: "g_algorithms g = enumerate 0 cs" "\<forall>c \<in> set cs. settled c"
    using run_tables [OF assms(1)] by metis
  then have "settled c" "settled d" using assms(2,3) by (auto dest: enumerate_memberD)
  from template_args_inj [OF this] show ?thesis
    by (simp add: signal_pointer_def signal_instance_def plain_pointer_def)
qed

theorem instances_distinct_up_to_split_k_witness:
  "\<exists>g i j c d. gen_main True split_file None = Inr g \<and> (i, c) \<in> set (g_algorithms g) \<and> (j, d) \<in> set (g_algorithms g)
     \<and> i \<noteq> j \<and> signal_instance c = signal_instance d"
proof -
  obtain g where g: "gen_main True split_file None = Inr g" using split_run by blast
  obtain cs where cs: "set cs = set builtin \<union> settle ` {split_combo}" "distinct cs" "\<forall>c \<in> set cs. settled c"
    "g_algorithms g = algorithms cs"
  proof (rule gen_mainE [OF g])
    fix ms fs cs
    assume l: "case split_file of None \<Rightarrow> ms = [] | Some (d, n) \<Rightarrow> load_rows_json d n ''missing'' = Inr ms"
      "case None of None \<Rightarrow> fs = [] | Some (d, n) \<Rightarrow> load_rows_json d n ''failed'' = Inr fs"
      and cs: "set cs = set builtin \<union> settle ` (set ms \<union> set fs)" "distinct cs" "\<forall>c \<in> set cs. settled c" and
      g': "g = \<lparr>g_index = (if True then Some (algo_index cs) else None), g_algorithms = algorithms cs,
          g_signal_inc = fst (write_signal_instances cs), g_signal_tiling = snd (write_signal_instances cs),
          g_plain_inc = fst (write_plain_instances cs), g_plain_tiling = snd (write_plain_instances cs)\<rparr>"
    have "set ms = {split_combo}" "set fs = {}"
      using l by (auto simp add: split_file_def split_file_loaded)
    then show thesis using that [of cs] cs by (simp add: g')
  qed
  let ?d = "split_combo\<lparr>split_k := 1\<rparr>"
  have "combo_row 128 128 64 (1, 1, 1) (JInt 7) ''ws'' ''normal'' \<in> set builtin_combos"
  proof (rule curated_builtin)
    show "is_supported_combo ''ws'' ''normal''" by code_simp
  qed (simp_all add: CURATED_SHAPES_def CLUSTERS_def SCHEDULERS_def)
  moreover have "canonical_combo (row_of_combo ?d) = Inr ?d"
    by (rule canonical_combo_settled) (simp add: settled_def canonical_def split_combo_def)
  ultimately have "?d \<in> set builtin"
    unfolding set_builtin combo_row_stages by (auto simp: split_combo_def)
  then have "?d \<in> set cs" "split_combo \<in> set cs"
    by (simp_all add: cs(1) settle_def renormalize_stages_def split_combo_def)
  moreover have "split_combo \<noteq> ?d" by (simp add: split_combo_def)
  ultimately obtain i j where ij: "(i, split_combo) \<in> set (g_algorithms g)" "(j, ?d) \<in> set (g_algorithms g)" "i \<noteq> j"
    unfolding cs(4) algorithms_enumerate [OF cs(2,3)] using member_enumerate enumerate_unique by metis
  then have "signal_instance split_combo = signal_instance ?d"
    using instances_distinct_up_to_split_k [OF g ij(1,2)] by simp
  with g ij show ?thesis by blast
qed

section \<open>The dictionary and the search\<close>

definition item_of_combo :: "combo \<Rightarrow> algo_item" where
  "item_of_combo c = \<lparr>tile_m = tileM c, tile_n = tileN c, mainloop = Some (mainloop_of c)\<rparr>"

lemma dict_entry_read: "algo_item_of_json (dict_entry (i, c)) = Inr (int i, item_of_combo c)"
  by (cases "cluster c")
    (simp add: algo_item_of_json_def dict_entry_def row_of_combo_def get_key_Cons get_or_Cons int_of_json_def item_of_combo_def)

lemma dict_read:
  "algo_dict_of_json (algo_dict_json algs) = Inr (load_algo_dict (map (\<lambda>(i, c). (int i, item_of_combo c)) algs))"
proof -
  have "map_res algo_item_of_json (map dict_entry algs) = Inr (map (\<lambda>(i, c). (int i, item_of_combo c)) algs)"
    by (induction algs) (auto simp: dict_entry_read)
  then show ?thesis by (simp add: algo_dict_of_json_def algo_dict_json_def get_key_Cons iterate_json_def)
qed

lemma load_algo_dict_enumerate:
  "load_algo_dict (map (\<lambda>(i, c). (int i, item_of_combo c)) (enumerate 0 cs)) a
     = (if 0 \<le> a \<and> a < int (length cs) then Some (item_of_combo (cs ! nat a)) else None)"
proof (induction cs rule: rev_induct)
  case Nil
  then show ?case by (simp add: load_algo_dict_def)
next
  case (snoc c cs)
  let ?items = "\<lambda>cs. map (\<lambda>(i, c). (int i, item_of_combo c)) (enumerate 0 cs)"
  have "load_algo_dict (?items (cs @ [c])) = (load_algo_dict (?items cs))(int (length cs) \<mapsto> item_of_combo c)"
    by (simp add: load_algo_dict_def enumerate_append_eq)
  with snoc show ?case by (auto simp: nth_append)
qed

lemma normalized_candidate:
  assumes "cand \<in> set (normalize_loaded_candidates D rows)"
  shows "\<exists>it. D (cAlgo cand) = Some it \<and> cBM cand = tile_m it \<and> cBN cand = tile_n it"
  using assms by (induction D rows rule: normalize_loaded_candidates.induct) (auto split: option.splits)

text \<open>C27: The search reads back what the generator wrote. It loads the dictionary that the generator writes without an
  exception; number \<open>i\<close> there is the combo number \<open>i\<close> of the run, with its tile sizes, and no other number is known; the
  loaded candidates carry the tile sizes of the combo whose number they name, and \<open>is_cooperative_algo\<close> tells its mainloop.\<close>
theorem search_reads_generated_dictionary:
  assumes "gen_main ht m f = Inr g"
  shows "\<exists>D. algo_dict_of_json (algo_dict_json (g_algorithms g)) = Inr D
     \<and> dom D = {0..<int (length (g_algorithms g))}
     \<and> (\<forall>(i, c) \<in> set (g_algorithms g). \<exists>it. D (int i) = Some it \<and> tile_m it = tileM c \<and> tile_n it = tileN c
          \<and> is_cooperative_algo D (int i) = Inr (mainloop_of c = ''cooperative''))
     \<and> (\<forall>rows. \<forall>cand \<in> set (normalize_loaded_candidates D rows). \<exists>(i, c) \<in> set (g_algorithms g).
          cAlgo cand = int i \<and> cBM cand = tileM c \<and> cBN cand = tileN c)"
proof -
  obtain cs where cs: "g_algorithms g = enumerate 0 cs" using run_tables [OF assms] by metis
  obtain D where D: "algo_dict_of_json (algo_dict_json (g_algorithms g)) = Inr D"
    and at: "D a = (if 0 \<le> a \<and> a < int (length cs) then Some (item_of_combo (cs ! nat a)) else None)" for a
    using dict_read [of "g_algorithms g"] load_algo_dict_enumerate [of cs] unfolding cs by metis
  have "dom D = {0..<int (length (g_algorithms g))}" using at cs by (auto simp: dom_def)
  moreover have "\<exists>it. D (int i) = Some it \<and> tile_m it = tileM c \<and> tile_n it = tileN c
      \<and> is_cooperative_algo D (int i) = Inr (mainloop_of c = ''cooperative'')" if "(i, c) \<in> set (g_algorithms g)" for i c
    using that at [of "int i"] unfolding cs by (auto simp: is_cooperative_algo_def item_of_combo_def in_set_enumerate_eq)
  moreover have "\<exists>(i, c) \<in> set (g_algorithms g). cAlgo cand = int i \<and> cBM cand = tileM c \<and> cBN cand = tileN c"
    if "cand \<in> set (normalize_loaded_candidates D rows)" for cand rows
    using normalized_candidate [OF that] at [of "cAlgo cand"] unfolding cs
    by (intro bexI [of _ "(nat (cAlgo cand), cs ! nat (cAlgo cand))"])
      (auto simp: in_set_enumerate_eq item_of_combo_def split: if_splits)
  ultimately show ?thesis using D by blast
qed

theorem search_reads_generated_dictionary_witness:
  "\<exists>g D. gen_main True split_file None = Inr g \<and> algo_dict_of_json (algo_dict_json (g_algorithms g)) = Inr D
     \<and> dom D = {0..<int (length (g_algorithms g))}"
proof -
  obtain g where g: "gen_main True split_file None = Inr g" using split_run by blast
  from search_reads_generated_dictionary [OF g] g show ?thesis by blast
qed

end
