(* ===== verification/GenConfigCorrect.thy ===== *)
theory GenConfigCorrect
  imports GenConfig GenProperties
begin

text \<open>
  Facts on the configuration generator: the packed order is a permutation and unpacking undoes it, matching
  keeps the fastest record of each algorithm, and keys agree with those of the instance generator.
\<close>

section \<open>The packed order\<close>

lemma foldl_assign_positions:
  "fst (foldl (\<lambda>(h, p) i. (h[nat i := p], p + 1)) (h, p) is) = assign_positions p is h"
  by (induction "is" arbitrary: h p) simp_all

lemma make_ra_column_major:
  "make_ra rows cols ''column_major''
     = Inr (assign_positions 0 (column_positions rows cols) (replicate (nat (rows * cols)) 0))"
  unfolding make_ra_def foldl_assign_positions by simp

lemma tile_index_inj:
  fixes tr tc tr' tc' cols :: int
  assumes "tr * cols + tc = tr' * cols + tc'" and "0 \<le> tc" "tc < cols" "0 \<le> tc'" "tc' < cols"
  shows "tr = tr' \<and> tc = tc'"
proof -
  have "(tr * cols + tc) div cols = tr" using assms(2,3) by simp
  moreover have "(tr' * cols + tc') div cols = tr'" using assms(4,5) by simp
  ultimately have "tr = tr'" using assms(1) by simp
  with assms(1) show ?thesis by simp
qed

lemma tile_index_range:
  fixes tr tc rows cols :: int
  assumes "0 \<le> tr" "tr < rows" "0 \<le> tc" "tc < cols"
  shows "0 \<le> tr * cols + tc" "tr * cols + tc < rows * cols"
proof -
  show "0 \<le> tr * cols + tc" using assms by simp
  have "(tr + 1) * cols \<le> rows * cols" using assms by (intro mult_right_mono) auto
  then show "tr * cols + tc < rows * cols" using assms by (simp add: algebra_simps)
qed

lemma concat_blocks:
  "concat (map (\<lambda>b. map (f b) [0..<R]) [0..<C]) = map (\<lambda>k. f (k div R) (k mod R)) [0..<C * R]"
proof (induction C)
  case (Suc C)
  have "[0..<Suc C * R] = [0..<C * R] @ map ((+) (C * R)) [0..<R]"
    using upt_add_eq_append [of 0 "C * R" R] map_add_upt [of "C * R" R, symmetric] by (simp add: add.commute)
  moreover have "map (\<lambda>k. f (k div R) (k mod R)) (map ((+) (C * R)) [0..<R]) = map (f C) [0..<R]"
    by (cases "R = 0") (auto simp: div_add1_eq)
  ultimately show ?case using Suc by simp
qed simp

lemma column_positions_eq:
  assumes "0 \<le> rows" "0 \<le> cols"
  shows "column_positions rows cols
     = map (\<lambda>k. int (k mod nat rows) * cols + int (k div nat rows)) [0..<nat cols * nat rows]"
proof -
  have "column_positions rows cols
    = concat (map (\<lambda>b. map (\<lambda>k. int k * cols + int b) [0..<nat rows]) [0..<nat cols])"
    by (simp add: column_positions_def py_range_def comp_def)
  then show ?thesis by (simp only: concat_blocks)
qed

lemma column_positions_perm:
  assumes "0 \<le> rows" "0 \<le> cols"
  shows "distinct (column_positions rows cols)" and "set (column_positions rows cols) = {0..<rows * cols}"
proof -
  let ?R = "nat rows" and ?C = "nat cols"
  let ?f = "\<lambda>k. int (k mod ?R) * cols + int (k div ?R)"
  have lt: "int (k div ?R) < cols" "int (k mod ?R) < rows" if "k < ?C * ?R" for k
  proof -
    have "k div ?R < ?C" "k mod ?R < ?R" using that by (cases "?R = 0"; simp add: less_mult_imp_div_less)+
    then show "int (k div ?R) < cols" "int (k mod ?R) < rows" by linarith+
  qed
  have inj: "inj_on ?f {0..<?C * ?R}"
  proof (rule inj_onI)
    fix k l assume "k \<in> {0..<?C * ?R}" "l \<in> {0..<?C * ?R}" "?f k = ?f l"
    then have "int (k mod ?R) = int (l mod ?R) \<and> int (k div ?R) = int (l div ?R)"
      using lt [of k] lt [of l] by (intro tile_index_inj [where cols = cols]) auto
    then show "k = l" by (metis div_mult_mod_eq of_nat_eq_iff)
  qed
  then show "distinct (column_positions rows cols)"
    by (simp add: column_positions_eq [OF assms] distinct_map)
  have "?f ` {0..<?C * ?R} \<subseteq> {0..<rows * cols}"
  proof
    fix x assume "x \<in> ?f ` {0..<?C * ?R}"
    then obtain k where k: "k < ?C * ?R" "x = ?f k" by auto
    then show "x \<in> {0..<rows * cols}"
      using tile_index_range [of "int (k mod ?R)" rows "int (k div ?R)" cols] lt [of k] by auto
  qed
  moreover have "card (?f ` {0..<?C * ?R}) = card {0..<rows * cols}"
    using assms unfolding card_image [OF inj] by (simp add: nat_mult_distrib mult.commute)
  ultimately have "?f ` {0..<?C * ?R} = {0..<rows * cols}" by (intro card_subset_eq) auto
  then show "set (column_positions rows cols) = {0..<rows * cols}"
    by (simp add: column_positions_eq [OF assms] atLeast0LessThan)
qed

lemma make_ra_order_map:
  assumes "0 \<le> rows" "0 \<le> cols"
  shows "\<exists>m. make_ra rows cols ''column_major'' = Inr m \<and> order_map (rows * cols) (column_positions rows cols) m"
  unfolding make_ra_column_major
  using assign_positions_order_map [OF column_positions_perm [OF assms]] by simp

lemma make_ra_identity: "make_ra rows cols ''identity'' = Inr (py_range (rows * cols))"
  by (simp add: make_ra_def)

definition ra_valid :: "int \<times> int \<times> string \<Rightarrow> bool" where
  "ra_valid p \<longleftrightarrow> (case p of (rows, cols, reorder) \<Rightarrow>
     0 \<le> rows \<and> 0 \<le> cols \<and> reorder \<in> {''identity'', ''column_major''})"

interpretation packed: tile_map "\<lambda>(rows, cols, reorder). make_ra rows cols reorder"
  "\<lambda>(rows, cols, reorder). rows * cols" ra_valid
proof (unfold_locales, goal_cases)
  case (1 p)
  then show ?case
    using make_ra_order_map by (cases p) (auto simp: ra_valid_def make_ra_identity)
next
  case (2 p m)
  obtain rows cols reorder where p: "p = (rows, cols, reorder)" by (cases p)
  show ?case
    using 2 make_ra_order_map [of rows cols]
    unfolding p by (auto simp: ra_valid_def make_ra_identity order_map_def)
next
  case (3 p m)
  obtain rows cols reorder where p: "p = (rows, cols, reorder)" by (cases p)
  show ?case
    using 3 make_ra_order_map [of rows cols] order_map_set
    unfolding p by (auto simp: ra_valid_def make_ra_identity)
qed

section \<open>Unpacking\<close>

lemma div_window: "0 < t \<Longrightarrow> q * t \<le> r \<and> r < (q + 1) * t \<longleftrightarrow> r div t = (q :: int)"
proof
  assume "0 < t" "q * t \<le> r \<and> r < (q + 1) * t"
  then have "r - q * t < t" "0 \<le> r - q * t" by (auto simp: algebra_simps)
  then have "(q * t + (r - q * t)) div t = q" using \<open>0 < t\<close> by (simp only: div_mult_self3) simp
  then show "r div t = q" by simp
next
  assume t: "0 < t" and "r div t = q"
  moreover have "r = r div t * t + r mod t" by simp
  moreover have "0 \<le> r mod t" "r mod t < t" using t by simp_all
  ultimately show "q * t \<le> r \<and> r < (q + 1) * t" by (simp add: algebra_simps)
qed

text \<open>Where the packed tensor keeps entry \<open>(r, c)\<close> of the output.\<close>

definition slot_entry :: "'a mat \<Rightarrow> int list \<Rightarrow> int \<Rightarrow> int \<Rightarrow> int \<Rightarrow> int \<Rightarrow> int \<Rightarrow> int \<Rightarrow> 'a" where
  "slot_entry D ra cols tm tn reldn r c =
     (let packed = ra ! nat (r div tm * cols + c div tn)
      in entry D (packed div reldn * tm + r mod tm) (packed mod reldn * tn + c mod tn))"

definition slot_fits :: "'a mat \<Rightarrow> int list \<Rightarrow> int \<Rightarrow> int \<Rightarrow> int \<Rightarrow> int \<Rightarrow> int \<Rightarrow> int \<Rightarrow> bool" where
  "slot_fits D ra cols tm tn reldn tr tc \<longleftrightarrow>
     0 \<le> tr * cols + tc \<and> tr * cols + tc < int (length ra)
     \<and> (ra ! nat (tr * cols + tc) div reldn + 1) * tm \<le> nrows D
     \<and> (ra ! nat (tr * cols + tc) mod reldn + 1) * tn \<le> ncols D"

lemma copy_tile_fits:
  assumes "0 < tm" "0 < tn" "reldn \<noteq> 0" "slot_fits D ra cols tm tn reldn tr tc"
  shows "copy_tile D ra cols tm tn reldn out (tr, tc)
    = Inr (out\<lparr>entry := \<lambda>r c. if r div tm = tr \<and> c div tn = tc then slot_entry D ra cols tm tn reldn r c
                              else entry out r c\<rparr>)"
proof -
  let ?p = "ra ! nat (tr * cols + tc)"
  have cond: "tr * tm \<le> r \<and> r < (tr + 1) * tm \<and> tc * tn \<le> c \<and> c < (tc + 1) * tn \<longleftrightarrow> r div tm = tr \<and> c div tn = tc"
    for r c
    using div_window [OF assms(1), of tr r] div_window [OF assms(2), of tc c] by blast
  have eq: "(if r div tm = tr \<and> c div tn = tc
       then entry D (?p div reldn * tm + (r - tr * tm)) (?p mod reldn * tn + (c - tc * tn)) else entry out r c)
     = (if r div tm = tr \<and> c div tn = tc then slot_entry D ra cols tm tn reldn r c else entry out r c)" for r c
    by (auto simp: slot_entry_def Let_def minus_div_mult_eq_mod)
  have "py_get ra (tr * cols + tc) = Inr ?p" using assms(4) by (simp add: slot_fits_def)
  then show ?thesis
    using assms(3,4) unfolding copy_tile_def cond prod.case by (simp add: slot_fits_def eq)
qed

lemma unpack_fold:
  assumes "0 < tm" "0 < tn" "reldn \<noteq> 0" and "\<forall>(tr, tc) \<in> set ts. slot_fits D ra cols tm tn reldn tr tc"
  shows "\<exists>out'. fold_res (copy_tile D ra cols tm tn reldn) out ts = Inr out' \<and> nrows out' = nrows out
    \<and> ncols out' = ncols out
    \<and> (\<forall>r c. (r div tm, c div tn) \<in> set ts \<longrightarrow> entry out' r c = slot_entry D ra cols tm tn reldn r c)
    \<and> (\<forall>r c. (r div tm, c div tn) \<notin> set ts \<longrightarrow> entry out' r c = entry out r c)"
  using assms(4)
proof (induction ts arbitrary: out)
  case (Cons t ts)
  obtain tr tc where t: "t = (tr, tc)" by (cases t)
  have fits: "slot_fits D ra cols tm tn reldn tr tc" using Cons.prems t by auto
  let ?out = "out\<lparr>entry := \<lambda>r c. if r div tm = tr \<and> c div tn = tc then slot_entry D ra cols tm tn reldn r c
                              else entry out r c\<rparr>"
  obtain out' where out': "fold_res (copy_tile D ra cols tm tn reldn) ?out ts = Inr out'"
    "nrows out' = nrows out" "ncols out' = ncols out"
    "\<And>r c. (r div tm, c div tn) \<in> set ts \<Longrightarrow> entry out' r c = slot_entry D ra cols tm tn reldn r c"
    "\<And>r c. (r div tm, c div tn) \<notin> set ts \<Longrightarrow> entry out' r c = entry ?out r c"
    using Cons.IH [of ?out] Cons.prems by auto
  have "entry out' r c = slot_entry D ra cols tm tn reldn r c" if "(r div tm, c div tn) \<in> set (t # ts)" for r c
    using that out'(4,5) [of r c] t by (cases "(r div tm, c div tn) \<in> set ts") auto
  moreover have "entry out' r c = entry out r c" if "(r div tm, c div tn) \<notin> set (t # ts)" for r c
    using that out'(5) [of r c] t by auto
  moreover have "fold_res (copy_tile D ra cols tm tn reldn) out (t # ts) = Inr out'"
    using out'(1) copy_tile_fits [OF assms(1-3) fits] t by simp
  ultimately show ?case using out'(2,3) by blast
qed simp

section \<open>The packed layouts\<close>

definition holds_packed ::
  "'a mat \<Rightarrow> int list \<Rightarrow> int \<Rightarrow> int \<Rightarrow> int \<Rightarrow> int \<Rightarrow> int \<Rightarrow> int \<Rightarrow> (int \<Rightarrow> int \<Rightarrow> 'a) \<Rightarrow> bool" where
  "holds_packed D ra cols tm tn reldn M N C \<longleftrightarrow>
     (\<forall>r c. 0 \<le> r \<and> r < M \<and> 0 \<le> c \<and> c < N \<longrightarrow> slot_entry D ra cols tm tn reldn r c = C r c)"

text \<open>The arguments for which the profiler unpacks what the kernel packed: with the normal layout the leading
  dimension must be the default one.\<close>

definition sound_args :: "profile_args \<Rightarrow> bool" where
  "sound_args args \<longleftrightarrow>
     0 < ca_m args \<and> 0 < ca_n args \<and> p_layout args \<in> {''normal'', ''packed''}
     \<and> p_reorder args \<in> {''auto'', ''identity'', ''column_major''}
     \<and> (if p_layout args = ''normal'' then p_reldn args = 0 else 0 \<le> p_reldn args)"

lemma geometry_eq:
  assumes "geometry args tm tn = Inr (rows, cols, reorder, reldn, out_m, out_n)" and "0 < tm" "0 < tn"
  shows "ca_m args = rows * tm" "ca_n args = cols * tn"
    "reorder = (if p_reorder args = ''auto'' then if p_layout args = ''normal'' then ''identity'' else ''column_major''
                else p_reorder args)"
    "p_layout args = ''normal'' \<Longrightarrow>
       reldn = (if p_reldn args = 0 then cols else p_reldn args) \<and> out_m = ca_m args \<and> out_n = ca_n args"
    "p_layout args \<noteq> ''normal'' \<Longrightarrow> reldn = (if p_reldn args = 0 then 1 else p_reldn args)
       \<and> out_m = (rows * cols + reldn - 1) div reldn * tm \<and> out_n = reldn * tn"
proof -
  have mods: "ca_m args mod tm = 0" "ca_n args mod tn = 0"
    using assms by (auto simp: geometry_def elim!: bind_resE split: if_splits)
  have "geometry args tm tn =
      (let tile_rows = ca_m args div tm; tile_cols = ca_n args div tn; num_tiles = tile_rows * tile_cols
       in if p_layout args = ''normal'' then
          Inr (tile_rows, tile_cols, if p_reorder args = ''auto'' then ''identity'' else p_reorder args,
               if p_reldn args = 0 then tile_cols else p_reldn args, ca_m args, ca_n args)
        else
          let reldn = (if p_reldn args = 0 then 1 else p_reldn args)
          in Inr (tile_rows, tile_cols, if p_reorder args = ''auto'' then ''column_major'' else p_reorder args,
                  reldn, ((num_tiles + reldn - 1) div reldn) * tm, reldn * tn))"
    using mods assms(2,3) by (simp add: geometry_def)
  then have eq: "(rows, cols, reorder, reldn, out_m, out_n) =
      (let tile_rows = ca_m args div tm; tile_cols = ca_n args div tn; num_tiles = tile_rows * tile_cols
       in if p_layout args = ''normal'' then
          (tile_rows, tile_cols, if p_reorder args = ''auto'' then ''identity'' else p_reorder args,
               if p_reldn args = 0 then tile_cols else p_reldn args, ca_m args, ca_n args)
        else
          let reldn = (if p_reldn args = 0 then 1 else p_reldn args)
          in (tile_rows, tile_cols, if p_reorder args = ''auto'' then ''column_major'' else p_reorder args,
                  reldn, ((num_tiles + reldn - 1) div reldn) * tm, reldn * tn))"
    using assms(1) unfolding Let_def by (simp only: sum.inject if_distrib [of Inr, symmetric])
  have rc: "rows = ca_m args div tm" "cols = ca_n args div tn"
    using eq by (simp_all only: Let_def prod.inject if_distrib [of fst] if_distrib [of snd] split: if_splits)
  then show "ca_m args = rows * tm" "ca_n args = cols * tn" using mods by auto
  show "reorder = (if p_reorder args = ''auto'' then if p_layout args = ''normal'' then ''identity'' else ''column_major''
                else p_reorder args)"
  proof (cases "p_layout args = ''normal''")
    case True
    then show ?thesis using eq unfolding Let_def if_P [OF True] prod.inject by (elim conjE)
  next
    case False
    then show ?thesis using eq unfolding Let_def if_not_P [OF False] prod.inject by (elim conjE)
  qed
  show "reldn = (if p_reldn args = 0 then cols else p_reldn args) \<and> out_m = ca_m args \<and> out_n = ca_n args"
    if "p_layout args = ''normal''"
    using eq unfolding rc Let_def if_P [OF that] prod.inject by blast
  show "reldn = (if p_reldn args = 0 then 1 else p_reldn args)
       \<and> out_m = (rows * cols + reldn - 1) div reldn * tm \<and> out_n = reldn * tn"
    if "p_layout args \<noteq> ''normal''"
    using eq unfolding rc Let_def if_not_P [OF that] prod.inject by blast
qed

lemma geometry_parts:
  assumes "geometry args tm tn = Inr (rows, cols, reorder, reldn, out_m, out_n)" and "sound_args args"
    and "0 < tm" "0 < tn"
  shows "0 < rows" "0 < cols" "0 < reldn" "reorder \<in> {''identity'', ''column_major''}"
    "p_layout args = ''normal'' \<Longrightarrow> reldn = cols"
proof -
  note g = geometry_eq [OF assms(1,3,4)]
  show pos: "0 < rows" "0 < cols"
    using assms(2-4) g(1,2) by (auto simp: sound_args_def zero_less_mult_iff)
  show "0 < reldn"
    using g(4,5) pos assms(2) by (cases "p_layout args = ''normal''") (auto simp: sound_args_def)
  show "reorder \<in> {''identity'', ''column_major''}"
    using g(3) assms(2) unfolding sound_args_def by (cases "p_reorder args = ''auto''") auto
  show "p_layout args = ''normal'' \<Longrightarrow> reldn = cols"
    using g(4) assms(2) by (simp add: sound_args_def)
qed

lemma div_below:
  fixes r q t :: int
  assumes "r < q * t" "0 < t"
  shows "r div t < q"
proof -
  have "r div t * t \<le> r" using assms(2) by (metis div_mult_mod_eq add_increasing2 pos_mod_sign order_refl)
  with assms(1) have "r div t * t < q * t" by simp
  with assms(2) show ?thesis by simp
qed

lemma slot_in_extents:
  fixes p :: int
  assumes "0 \<le> p" "p < rows * cols" "0 < tm" "0 < tn" "0 < reldn"
    and "(reldn = cols \<and> out_m = rows * tm \<and> out_n = cols * tn)
       \<or> (out_m = (rows * cols + reldn - 1) div reldn * tm \<and> out_n = reldn * tn)"
  shows "(p div reldn + 1) * tm \<le> out_m" "(p mod reldn + 1) * tn \<le> out_n"
proof -
  have "p div reldn + 1 \<le> (rows * cols + reldn - 1) div reldn"
  proof -
    have "p div reldn + 1 = (p + reldn) div reldn" using assms(5) by simp
    also have "\<dots> \<le> (rows * cols + reldn - 1) div reldn" using assms(2,5) by (intro zdiv_mono1) auto
    finally show ?thesis .
  qed
  moreover have "p div reldn + 1 \<le> rows" if "reldn = cols"
    using assms(2,5) that div_below [of p rows reldn] by (simp add: add1_zle_eq)
  ultimately show "(p div reldn + 1) * tm \<le> out_m"
    using assms(3,6) by (auto intro!: mult_right_mono)
  have "p mod reldn + 1 \<le> reldn" using assms(5) by (simp add: add1_zle_eq)
  then show "(p mod reldn + 1) * tn \<le> out_n"
    using assms(4,6) by (auto intro!: mult_right_mono)
qed

lemma tile_of_entry:
  fixes r c M N tm tn rows cols :: int
  assumes "0 \<le> r" "r < rows * tm" "0 \<le> c" "c < cols * tn" "0 < tm" "0 < tn"
  shows "0 \<le> r div tm" "r div tm < rows" "0 \<le> c div tn" "c div tn < cols"
  using assms by (auto simp: pos_imp_zdiv_nonneg_iff intro: div_below)

lemma set_tiles:
  "set (concat (map (\<lambda>tr. map (\<lambda>tc. (tr, tc)) (py_range cols)) (py_range rows))) = {0..<rows} \<times> {0..<cols}"
  by auto

lemma unpack_recovers:
  assumes "0 < tm" "0 < tn" "0 < reldn" "0 < rows" "0 < cols" and M: "M = rows * tm" and N: "N = cols * tn"
    and fits: "\<And>tr tc. 0 \<le> tr \<Longrightarrow> tr < rows \<Longrightarrow> 0 \<le> tc \<Longrightarrow> tc < cols \<Longrightarrow> slot_fits D ra cols tm tn reldn tr tc"
    and holds: "holds_packed D ra cols tm tn reldn M N C"
  shows "\<exists>out. unpack bl D ra M N tm tn reldn = Inr out \<and> nrows out = M \<and> ncols out = N
    \<and> (\<forall>r c. 0 \<le> r \<and> r < M \<and> 0 \<le> c \<and> c < N \<longrightarrow> entry out r c = C r c)"
proof -
  let ?ts = "concat (map (\<lambda>tr. map (\<lambda>tc. (tr, tc)) (py_range cols)) (py_range rows))"
  have "\<forall>(tr, tc) \<in> set ?ts. slot_fits D ra cols tm tn reldn tr tc"
    unfolding set_tiles using fits by auto
  then obtain out where out: "fold_res (copy_tile D ra cols tm tn reldn) \<lparr>nrows = M, ncols = N, entry = bl\<rparr> ?ts = Inr out"
    "nrows out = M" "ncols out = N"
    "\<And>r c. (r div tm, c div tn) \<in> set ?ts \<Longrightarrow> entry out r c = slot_entry D ra cols tm tn reldn r c"
    using unpack_fold [OF assms(1,2), of reldn ?ts D ra cols "\<lparr>nrows = M, ncols = N, entry = bl\<rparr>"] assms(3) by auto
  have "entry out r c = C r c" if "0 \<le> r \<and> r < M \<and> 0 \<le> c \<and> c < N" for r c
  proof -
    have "(r div tm, c div tn) \<in> set ?ts"
      unfolding set_tiles using that tile_of_entry [of r rows tm c cols tn] assms by auto
    with out(4) holds that show ?thesis by (simp add: holds_packed_def)
  qed
  moreover have "unpack bl D ra M N tm tn reldn = Inr out"
    using out(1) assms(1,2) by (simp add: unpack_def M N)
  ultimately show ?thesis using out(2,3) by blast
qed

lemma ra_entries:
  assumes "ra_valid (rows, cols, reorder)" and "make_ra rows cols reorder = Inr ra"
  shows "int (length ra) = rows * cols" "i < length ra \<Longrightarrow> 0 \<le> ra ! i \<and> ra ! i < rows * cols" "distinct ra"
proof -
  have nn: "0 \<le> rows * cols" using assms(1) by (simp add: ra_valid_def)
  show "int (length ra) = rows * cols"
    using packed.tmap_length [OF assms(1), of ra] assms(2) nn by simp
  show "i < length ra \<Longrightarrow> 0 \<le> ra ! i \<and> ra ! i < rows * cols"
    using packed.tmap_range [OF assms(1), of ra] assms(2) nth_mem [of i ra] by auto
  show "distinct ra" using packed.tmap_distinct [OF assms(1), of ra] assms(2) by simp
qed

lemma geometry_extents:
  assumes "geometry args tm tn = Inr (rows, cols, reorder, reldn, out_m, out_n)" and "sound_args args"
    and "0 < tm" "0 < tn" and "0 \<le> p" "p < rows * cols"
  shows "(p div reldn + 1) * tm \<le> out_m" "(p mod reldn + 1) * tn \<le> out_n"
proof -
  note g = geometry_eq [OF assms(1,3,4)] and q = geometry_parts [OF assms(1-4)]
  have "(reldn = cols \<and> out_m = rows * tm \<and> out_n = cols * tn)
       \<or> (out_m = (rows * cols + reldn - 1) div reldn * tm \<and> out_n = reldn * tn)"
    using g(1,2,4,5) q(5) by (cases "p_layout args = ''normal''") auto
  from slot_in_extents [OF assms(5,6,3,4) q(3) this]
  show "(p div reldn + 1) * tm \<le> out_m" "(p mod reldn + 1) * tn \<le> out_n" .
qed

lemma run_slots_fit:
  assumes "geometry args tm tn = Inr (rows, cols, reorder, reldn, out_m, out_n)" and "sound_args args"
    and "0 < tm" "0 < tn" and "make_ra rows cols reorder = Inr ra" and "nrows D = out_m" "ncols D = out_n"
    and "0 \<le> tr" "tr < rows" "0 \<le> tc" "tc < cols"
  shows "slot_fits D ra cols tm tn reldn tr tc"
proof -
  note q = geometry_parts [OF assms(1-4)]
  have v: "ra_valid (rows, cols, reorder)" using q by (simp add: ra_valid_def)
  note e = ra_entries [OF v assms(5)]
  have i: "0 \<le> tr * cols + tc" "tr * cols + tc < rows * cols" using tile_index_range assms(8-11) by blast+
  then have "nat (tr * cols + tc) < length ra" using e(1) by linarith
  from e(2) [OF this] show ?thesis
    using geometry_extents [OF assms(1-4)] i e(1) assms(6,7) by (simp add: slot_fits_def)
qed

text \<open>A packing of any content exists: no two tiles share a slot.\<close>

lemma packing_exists:
  assumes "0 < tm" "0 < tn" "0 < reldn" "0 < cols" and "distinct ra" and "int (length ra) = rows * cols"
    and "\<And>i. i < length ra \<Longrightarrow> 0 \<le> ra ! i"
  shows "\<exists>e. holds_packed \<lparr>nrows = m, ncols = n, entry = e\<rparr> ra cols tm tn reldn (rows * tm) (cols * tn) C"
proof -
  define slot where "slot s = int (THE k. k < length ra \<and> ra ! k = s)" for s
  define e where "e i j = (let k = slot (i div tm * reldn + j div tn)
      in C (k div cols * tm + i mod tm) (k mod cols * tn + j mod tn))" for i j
  have slot: "slot (ra ! k) = int k" if "k < length ra" for k
  proof -
    have "(THE j. j < length ra \<and> ra ! j = ra ! k) = k"
      using that assms(5) by (intro the_equality) (auto simp: nth_eq_iff_index_eq)
    then show ?thesis by (simp add: slot_def)
  qed
  have "holds_packed \<lparr>nrows = m, ncols = n, entry = e\<rparr> ra cols tm tn reldn (rows * tm) (cols * tn) C"
    unfolding holds_packed_def
  proof (intro allI impI)
    fix r c assume rc: "0 \<le> r \<and> r < rows * tm \<and> 0 \<le> c \<and> c < cols * tn"
    let ?t = "r div tm * cols + c div tn"
    have tile: "0 \<le> r div tm" "r div tm < rows" "0 \<le> c div tn" "c div tn < cols"
      using tile_of_entry [of r rows tm c cols tn] rc assms(1,2) by auto
    have t: "0 \<le> ?t" "?t < rows * cols" using tile_index_range [OF tile] by auto
    then have k: "nat ?t < length ra" using assms(6) by linarith
    let ?p = "ra ! nat ?t"
    have "(?p div reldn * tm + r mod tm) div tm = ?p div reldn" "(?p div reldn * tm + r mod tm) mod tm = r mod tm"
      "(?p mod reldn * tn + c mod tn) div tn = ?p mod reldn" "(?p mod reldn * tn + c mod tn) mod tn = c mod tn"
      using assms(1,2) by simp_all
    moreover have "slot (?p div reldn * reldn + ?p mod reldn) = ?t" using slot [OF k] t by simp
    moreover have "?t div cols = r div tm" "?t mod cols = c div tn" using tile by simp_all
    ultimately show "slot_entry \<lparr>nrows = m, ncols = n, entry = e\<rparr> ra cols tm tn reldn r c = C r c"
      by (simp add: slot_entry_def e_def Let_def)
  qed
  then show ?thesis by blast
qed

lemma identity_slot:
  fixes r c :: int
  assumes "0 \<le> r" "r < rows * tm" "0 \<le> c" "c < cols * tn" "0 < tm" "0 < tn"
  shows "slot_entry D (py_range (rows * cols)) cols tm tn cols r c = entry D r c"
proof -
  let ?t = "r div tm * cols + c div tn"
  have tile: "0 \<le> r div tm" "r div tm < rows" "0 \<le> c div tn" "c div tn < cols"
    using tile_of_entry [of r rows tm c cols tn] assms by auto
  have t: "0 \<le> ?t" "?t < rows * cols" using tile_index_range [OF tile] by auto
  then have "nat ?t < nat (rows * cols)" by linarith
  then have "py_range (rows * cols) ! nat ?t = ?t" using t(1) by simp
  moreover have "?t div cols = r div tm" "?t mod cols = c div tn" using tile by simp_all
  ultimately show ?thesis by (simp add: slot_entry_def)
qed

section \<open>Matching\<close>

lemma match_loop_missing:
  "match_loop bk am rs ba ms = (ba', ms') \<Longrightarrow> ms' = ms @ filter (\<lambda>r. bk (rec_key r) = None) rs"
  by (induction bk am rs ba ms rule: match_loop.induct) (auto simp: Let_def split: option.splits if_splits)

lemma match_loop_distinct:
  "match_loop bk am rs ba ms = (ba', ms') \<Longrightarrow> distinct (map fst ba) \<Longrightarrow> distinct (map fst ba')"
  by (induction bk am rs ba ms rule: match_loop.induct)
    (auto simp: Let_def distinct_update split: option.splits if_splits)

definition match_of :: "(cfg_key \<rightharpoonup> int) \<Rightarrow> algo_map \<Rightarrow> csv_record \<Rightarrow> int \<Rightarrow> matched \<Rightarrow> bool" where
  "match_of bk am r a m \<longleftrightarrow> bk (rec_key r) = Some a \<and> m = \<lparr>m_record = r, m_algo = a, m_meta = the (map_of am a)\<rparr>"

lemma match_loop_from:
  "match_loop bk am rs ba ms = (ba', ms') \<Longrightarrow> map_of ba' a = Some m \<Longrightarrow>
     map_of ba a = Some m \<or> (\<exists>r \<in> set rs. match_of bk am r a m)"
proof (induction bk am rs ba ms rule: match_loop.induct)
  case (2 bk am r rs ba ms)
  show ?case
  proof (cases "bk (rec_key r)")
    case None
    with 2 show ?thesis by auto
  next
    case (Some algo)
    let ?rr = "\<lparr>m_record = r, m_algo = algo, m_meta = the (map_of am algo)\<rparr>"
    let ?better = "case map_of ba algo of None \<Rightarrow> True | Some old \<Rightarrow> cutlass_runtime r < cutlass_runtime (m_record old)"
    show ?thesis
    proof (cases ?better)
      case True
      then have "match_loop bk am rs (AList.update algo ?rr ba) ms = (ba', ms')" using 2(4) Some by (simp add: Let_def)
      from "2.IH"(2) [OF Some refl True this 2(5)] show ?thesis
        using Some by (auto simp: update_conv' match_of_def split: if_splits)
    next
      case False
      then have "match_loop bk am rs ba ms = (ba', ms')" using 2(4) Some by (simp add: Let_def)
      from "2.IH"(3) [OF Some refl False this 2(5)] show ?thesis by auto
    qed
  qed
qed simp

lemma match_loop_best:
  "match_loop bk am rs ba ms = (ba', ms') \<Longrightarrow>
     (\<forall>a old. map_of ba a = Some old \<longrightarrow>
        (\<exists>m. map_of ba' a = Some m \<and> cutlass_runtime (m_record m) \<le> cutlass_runtime (m_record old)))
     \<and> (\<forall>r \<in> set rs. \<forall>a. bk (rec_key r) = Some a \<longrightarrow>
        (\<exists>m. map_of ba' a = Some m \<and> cutlass_runtime (m_record m) \<le> cutlass_runtime r))"
proof (induction bk am rs ba ms rule: match_loop.induct)
  case (2 bk am r rs ba ms)
  show ?case
  proof (cases "bk (rec_key r)")
    case None
    with 2 show ?thesis by auto
  next
    case (Some algo)
    let ?rr = "\<lparr>m_record = r, m_algo = algo, m_meta = the (map_of am algo)\<rparr>"
    let ?better = "case map_of ba algo of None \<Rightarrow> True | Some old \<Rightarrow> cutlass_runtime r < cutlass_runtime (m_record old)"
    show ?thesis
    proof (cases ?better)
      case True
      then have "match_loop bk am rs (AList.update algo ?rr ba) ms = (ba', ms')" using 2(4) Some by (simp add: Let_def)
      note IH = "2.IH"(2) [OF Some refl True this]
      have r: "\<exists>m. map_of ba' algo = Some m \<and> cutlass_runtime (m_record m) \<le> cutlass_runtime r"
        using IH [THEN conjunct1, rule_format, of algo ?rr] by (simp add: update_conv')
      have "\<exists>m. map_of ba' a = Some m \<and> cutlass_runtime (m_record m) \<le> cutlass_runtime (m_record old)"
        if "map_of ba a = Some old" for a old
      proof (cases "a = algo")
        case True
        then have "cutlass_runtime r < cutlass_runtime (m_record old)" using \<open>?better\<close> that by simp
        with r True show ?thesis by force
      next
        case False
        then show ?thesis using IH [THEN conjunct1, rule_format, of a old] that by (simp add: update_conv')
      qed
      with r IH Some show ?thesis by auto
    next
      case False
      then have "match_loop bk am rs ba ms = (ba', ms')" using 2(4) Some by (simp add: Let_def)
      note IH = "2.IH"(3) [OF Some refl False this]
      obtain old where old: "map_of ba algo = Some old" "cutlass_runtime (m_record old) \<le> cutlass_runtime r"
        using False by (cases "map_of ba algo") auto
      then have "\<exists>m. map_of ba' algo = Some m \<and> cutlass_runtime (m_record m) \<le> cutlass_runtime r"
        using IH [THEN conjunct1, rule_format, OF old(1)] by force
      with IH Some show ?thesis by auto
    qed
  qed
qed auto

lemma keys_of_entry:
  assumes "keys_of am = Inr bk" and "bk k = Some a"
  shows "\<exists>m. (a, m) \<in> set am \<and> key m = Inr k"
proof -
  obtain kvs where kvs: "map_res (\<lambda>(a, m). bind_res (key m) (\<lambda>k. Inr (k, a))) am = Inr kvs" "bk = map_of (rev kvs)"
    using assms(1) by (auto simp: keys_of_def elim!: bind_resE)
  from assms(2) kvs(2) have "(k, a) \<in> set kvs" by (metis map_of_SomeD set_rev)
  from map_res_in_set [OF kvs(1) this] show ?thesis by (auto elim!: bind_resE)
qed

lemma keys_of_known:
  assumes "keys_of am = Inr bk" and "(a, m) \<in> set am" and "key m = Inr k"
  shows "bk k \<noteq> None"
proof -
  obtain kvs where kvs: "map_res (\<lambda>(a, m). bind_res (key m) (\<lambda>k. Inr (k, a))) am = Inr kvs" "bk = map_of (rev kvs)"
    using assms(1) by (auto simp: keys_of_def elim!: bind_resE)
  have "(k, a) \<in> set kvs"
    using kvs(1) assms(2,3) unfolding map_res_Inr_conv
    by (fastforce simp: list_all2_conv_all_nth in_set_conv_nth)
  then show ?thesis unfolding kvs(2) map_of_eq_None_iff by force
qed

lemma load_items_distinct:
  "load_items js out = Inr am \<Longrightarrow> distinct (map fst out) \<Longrightarrow> distinct (map fst am)"
  by (induction js out rule: load_items.induct)
    (auto split: json.splits elim!: bind_resE simp: distinct_update)

lemma load_algo_map_distinct: "load_algo_map d = Inr am \<Longrightarrow> distinct (map fst am)"
  by (auto simp: load_algo_map_def split: json.splits elim!: bind_resE dest: load_items_distinct)

lemma distinct_map_m_algo_sort: "distinct (map m_algo (sort_key f xs)) = distinct (map m_algo xs)"
proof -
  have "mset (map m_algo (sort_key f xs)) = mset (map m_algo xs)" by simp
  then show ?thesis by (rule mset_eq_imp_distinct_iff)
qed

lemma matched_records:
  assumes "load_algo_map dict = Inr am" and "match_records rs am = Inr (ms, missing)"
  shows "\<exists>bk. keys_of am = Inr bk \<and> missing = filter (\<lambda>r. bk (rec_key r) = None) rs
     \<and> distinct (map m_algo ms) \<and> sorted (map (\<lambda>m. cutlass_runtime (m_record m)) ms)
     \<and> (\<forall>m \<in> set ms. m_record m \<in> set rs \<and> (m_algo m, m_meta m) \<in> set am
          \<and> key (m_meta m) = Inr (rec_key (m_record m)))
     \<and> (\<forall>r \<in> set rs. r \<in> set missing
          \<or> (\<exists>m \<in> set ms. bk (rec_key r) = Some (m_algo m) \<and> cutlass_runtime (m_record m) \<le> cutlass_runtime r))"
proof -
  obtain bk ba where bk: "keys_of am = Inr bk" and loop: "match_loop bk am rs [] [] = (ba, missing)"
    and ms: "ms = sort_key (\<lambda>m. cutlass_runtime (m_record m)) (map snd ba)"
    using assms(2) by (auto simp: match_records_def Let_def elim!: bind_resE split: prod.splits)
  have am: "distinct (map fst am)" using load_algo_map_distinct [OF assms(1)] .
  have ba: "distinct (map fst ba)" using match_loop_distinct [OF loop] by simp
  have from_ba: "\<exists>r \<in> set rs. match_of bk am r a m" if "(a, m) \<in> set ba" for a m
    using match_loop_from [OF loop, of a m] that ba by simp
  then have algos: "map m_algo (map snd ba) = map fst ba" by (fastforce simp: match_of_def)
  have "distinct (map m_algo ms)" unfolding ms distinct_map_m_algo_sort algos by (rule ba)
  moreover have "m_record m \<in> set rs \<and> (m_algo m, m_meta m) \<in> set am \<and> key (m_meta m) = Inr (rec_key (m_record m))"
    if m: "m \<in> set ms" for m
  proof -
    obtain a where "(a, m) \<in> set ba" using m unfolding ms by auto
    then obtain r where r: "r \<in> set rs" "match_of bk am r a m" using from_ba by blast
    then obtain e where e: "(a, e) \<in> set am" "key e = Inr (rec_key r)"
      using keys_of_entry [OF bk] unfolding match_of_def by blast
    then have "map_of am a = Some e" using am by simp
    with r e show ?thesis by (auto simp: match_of_def)
  qed
  moreover have "r \<in> set missing
      \<or> (\<exists>m \<in> set ms. bk (rec_key r) = Some (m_algo m) \<and> cutlass_runtime (m_record m) \<le> cutlass_runtime r)"
    if r: "r \<in> set rs" for r
  proof (cases "bk (rec_key r)")
    case None
    with r show ?thesis using match_loop_missing [OF loop] by simp
  next
    case (Some a)
    with r obtain m where m: "map_of ba a = Some m" "cutlass_runtime (m_record m) \<le> cutlass_runtime r"
      using match_loop_best [OF loop] by blast
    then have "(a, m) \<in> set ba" by (simp add: map_of_SomeD)
    with from_ba have "m_algo m = a" by (fastforce simp: match_of_def)
    moreover have "m \<in> set ms" using \<open>(a, m) \<in> set ba\<close> unfolding ms by force
    ultimately show ?thesis using Some m(2) by blast
  qed
  ultimately show ?thesis using bk match_loop_missing [OF loop] by (simp add: ms)
qed

end
