(* ===== verification/Regenerate.thy ===== *)
theory Regenerate
  imports GenConfigCorrect
begin

text \<open>
  The loop between the two generators: the records that the configuration generator reports as missing are
  read by the instance generator, whose dictionary the configuration generator reads again. The two files use
  different keys (an automatic stage count is \<open>auto\<close> in one and \<open>-1\<close> in the other); the lemmas here relate them.
\<close>

section \<open>Records as combos\<close>

definition stages_of :: "int \<Rightarrow> stages" where
  "stages_of n = (if n = -1 then Auto else Stages n)"

definition int_of_stages :: "stages \<Rightarrow> int" where
  "int_of_stages st = (case st of Auto \<Rightarrow> -1 | Stages n \<Rightarrow> n)"

definition combo_of :: "'x meta_scheme \<Rightarrow> combo" where
  "combo_of r = \<lparr>tileM = g_tile_m r, tileN = g_tile_n r, tileK = g_tile_k r,
     cluster = (g_cluster r ! 0, g_cluster r ! 1, g_cluster r ! 2), stages = stages_of (g_stages r),
     mainloop_of = g_mainloop r, epilogue_of = g_epilogue r, scheduler_of = g_scheduler r, split_k = g_split_k r\<rparr>"

definition meta_of :: "combo \<Rightarrow> meta" where
  "meta_of c = (case cluster c of (c0, c1, c2) \<Rightarrow>
     \<lparr>g_tile_m = tileM c, g_tile_n = tileN c, g_tile_k = tileK c, g_cluster = [c0, c1, c2],
      g_stages = int_of_stages (stages c), g_mainloop = mainloop_of c, g_epilogue = epilogue_of c,
      g_scheduler = scheduler_of c, g_split_k = split_k c\<rparr>)"

lemma stage_str_int [simp]: "stage (Some (str_int n)) = Inr n"
  by (simp add: stage_def Let_def str_int_minus_one)

lemma stage_json_stages:
  "stage_json (case st of Auto \<Rightarrow> JStr ''auto'' | Stages n \<Rightarrow> JInt n) = Inr (int_of_stages st)"
proof (cases st)
  case Auto
  have "stage (Some ''auto'') = Inr (-1)" by code_simp
  then show ?thesis by (simp add: Auto stage_json_def int_of_stages_def)
qed (simp add: stage_json_def int_of_stages_def)

lemma normalize_stages_int: "normalize_stages (JInt n) = Inr (stages_of n)"
  by (simp add: normalize_stages_def stages_of_def Let_def str_int_minus_one)

lemma key_triple:
  assumes "g_cluster m = [c0, c1, c2]"
  shows "key m = Inr (g_tile_m m, g_tile_n m, g_tile_k m, c0, c1, c2, g_stages m, g_mainloop m, g_epilogue m,
     g_scheduler m, g_split_k m)"
  using assms by (simp add: key_def)

text \<open>A record as \<open>parse_csv_rows\<close> builds it.\<close>

definition wf_record :: "csv_record \<Rightarrow> bool" where
  "wf_record r \<longleftrightarrow> length (g_cluster r) = 3 \<and> key r = Inr (rec_key r) \<and> g_epilogue r = ''auto''
     \<and> g_mainloop r \<in> {''ws'', ''pingpong'', ''cooperative''} \<and> g_scheduler r \<in> {''normal'', ''stream_k''}"

lemma three: "length xs = 3 \<longleftrightarrow> (\<exists>a b c. xs = [a, b, c])"
  by (auto simp: length_Suc_conv numeral_3_eq_3)

lemma key_extend [simp]: "key (meta.extend m x) = key m"
  by (simp add: key_def meta.defs)

lemma parse_row_wf:
  assumes "parse_row args cols shape i row cs = Inr (Some r, cs')"
  shows "wf_record r"
proof -
  have ml: "mainloop_of_op op \<in> {''ws'', ''pingpong'', ''cooperative''}" for op
    by (simp add: mainloop_of_op_def Let_def)
  have sc: "scheduler_of_op op \<in> {''normal'', ''stream_k''}" for op
    by (simp add: scheduler_of_op_def Let_def)
  obtain j rt op tile cl st sk where "new_record j rt op tile cl st sk = Inr r"
    using assms unfolding parse_row_def Let_def
    by (auto split: option.splits if_splits elim!: bind_resE)
  moreover obtain tm tn tk cm cn ck where "tile = (tm, tn, tk)" "cl = (cm, cn, ck)" by (cases tile; cases cl)
  ultimately obtain k where
    r: "r = meta.extend \<lparr>g_tile_m = tm, g_tile_n = tn, g_tile_k = tk, g_cluster = [cm, cn, ck], g_stages = st,
                 g_mainloop = mainloop_of_op op, g_epilogue = ''auto'', g_scheduler = scheduler_of_op op,
                 g_split_k = sk\<rparr> (csv_record.fields j rt op k)"
    and k: "key \<lparr>g_tile_m = tm, g_tile_n = tn, g_tile_k = tk, g_cluster = [cm, cn, ck], g_stages = st,
                 g_mainloop = mainloop_of_op op, g_epilogue = ''auto'', g_scheduler = scheduler_of_op op,
                 g_split_k = sk\<rparr> = Inr k"
    by (auto simp: new_record_def Let_def elim!: bind_resE)
  have "key r = Inr k" unfolding r key_extend by (rule k)
  then show ?thesis using ml sc by (simp add: wf_record_def r meta.defs csv_record.defs)
qed

lemma parse_rows_wf:
  "parse_rows args cols shape i rows cs = Inr (rs, cs') \<Longrightarrow> r \<in> set rs \<Longrightarrow> wf_record r"
proof (induction args cols shape i rows cs arbitrary: rs cs' rule: parse_rows.induct)
  case (2 args cols shape0 i row rows counts)
  then show ?case
    by (auto elim!: bind_resE split: option.splits dest: parse_row_wf)
qed simp

lemma parse_csv_wf:
  "parse_csv_rows args name fs rows = Inr (rs, cs) \<Longrightarrow> r \<in> set rs \<Longrightarrow> wf_record r"
  by (auto simp: parse_csv_rows_def Let_def elim!: bind_resE dest: parse_rows_wf)

section \<open>Missing records in the instance generator\<close>

lemma wf_record_cluster:
  assumes "wf_record r"
  obtains c0 c1 c2 where "g_cluster r = [c0, c1, c2]"
  using assms by (auto simp: wf_record_def three)

lemma missing_row_lookup:
  "get_or (missing_row fmt r) ''mainloop'' d = JStr (g_mainloop r)"
  "get_or (missing_row fmt r) ''epilogue'' d = JStr (g_epilogue r)"
  "get_or (missing_row fmt r) ''scheduler'' d = JStr (g_scheduler r)"
  "get_or (missing_row fmt r) ''stages'' d = JInt (g_stages r)"
  "get_or (missing_row fmt r) ''split_k'' d = JInt (g_split_k r)"
  "get_key (missing_row fmt r) ''tile_m'' = Inr (JInt (g_tile_m r))"
  "get_key (missing_row fmt r) ''tile_n'' = Inr (JInt (g_tile_n r))"
  "get_key (missing_row fmt r) ''tile_k'' = Inr (JInt (g_tile_k r))"
  "get_key (missing_row fmt r) ''cluster'' = Inr (JList (map JInt (g_cluster r)))"
  "has_key (missing_row fmt r) ''tile_m''" "has_key (missing_row fmt r) ''scheduler''"
  by (simp_all add: missing_row_def get_or_Cons get_key_Cons has_key_def)

lemma missing_row_usable:
  "usable_row (JObj (missing_row fmt r)) = Inr (if is_f16_row (missing_row fmt r) then Some (missing_row fmt r) else None)"
  by (simp add: usable_row_def missing_row_lookup)

lemma missing_row_combo:
  assumes "wf_record r"
  shows "row_combo (missing_row fmt r)
    = Inr (if is_supported_combo (g_mainloop r) (g_scheduler r) then Some (combo_of r) else None)"
proof -
  obtain c0 c1 c2 where cl: "g_cluster r = [c0, c1, c2]" using wf_record_cluster [OF assms] .
  have sched: "normalize_scheduler (JStr (g_scheduler r)) = g_scheduler r"
    using assms by (auto simp: wf_record_def)
  then have inf: "infer_scheduler (missing_row fmt r) = g_scheduler r"
    by (simp add: infer_scheduler_def missing_row_lookup)
  have known: "map_of MAINLOOP_TYPES (g_mainloop r) \<noteq> None" "map_of EPILOGUE_TYPES (g_epilogue r) \<noteq> None"
    "map_of SCHEDULER_TYPES (g_scheduler r) \<noteq> None"
    unfolding mainloop_known epilogue_known scheduler_known using assms by (auto simp: wf_record_def)
  show ?thesis
    using known
    by (simp add: row_combo_def inf missing_row_lookup canonical_combo_def get_or_Cons get_key_Cons Let_def sched cl
        normalize_stages_int index_json_def int_of_json_def combo_of_def)
qed

definition usable_record :: "(pyfloat \<Rightarrow> string) \<Rightarrow> csv_record \<Rightarrow> bool" where
  "usable_record fmt r \<longleftrightarrow>
     is_f16_row (missing_row fmt r) \<and> is_supported_combo (g_mainloop r) (g_scheduler r)"

lemma load_rows_missing:
  assumes "\<forall>r \<in> set rs. wf_record r" and "int (length out + length rs) \<le> n"
  shows "load_rows n (map (\<lambda>r. JObj (missing_row fmt r)) rs) out
    = Inr (out @ map combo_of (filter (usable_record fmt) rs))"
  using assms
proof (induction rs arbitrary: out)
  case (Cons r rs)
  have wf: "wf_record r" using Cons.prems by simp
  note step = missing_row_usable [of fmt r] missing_row_combo [OF wf, of fmt]
  show ?case
  proof (cases "usable_record fmt r")
    case True
    show ?thesis
    proof (cases "n \<le> int (length (out @ [combo_of r]))")
      case True
      note full = this
      then have "rs = []" using Cons.prems(2) by (cases rs) auto
      with full \<open>usable_record fmt r\<close> show ?thesis by (simp add: step usable_record_def)
    next
      case False
      with \<open>usable_record fmt r\<close> Cons show ?thesis by (simp add: step usable_record_def)
    qed
  next
    case False
    with Cons show ?thesis by (auto simp: step usable_record_def)
  qed
qed simp

lemma missing_file_loaded:
  assumes "\<forall>r \<in> set rs. wf_record r" and "int (length rs) \<le> n"
  shows "load_rows_json (missing_json fmt counts rs) n ''missing'' = Inr (map combo_of (filter (usable_record fmt) rs))"
  using load_rows_missing [of rs "[]" n fmt] assms
  by (simp add: load_rows_json_def missing_json_def rows_from_json_obj_def has_key_def get_or_Cons iterate_json_def)

section \<open>The dictionary in the configuration generator\<close>

lemma algo_entry_dict:
  "algo_entry ((''algo'', JInt (int i)) # row_of_combo c) = Inr (int i, meta_of c)"
  by (cases "cluster c")
    (simp add: algo_entry_def row_of_combo_def get_or_Cons get_key_Cons int_of_json_def iterate_json_def
      stage_json_stages meta_of_def Let_def)

lemma AList_update_new: "k \<notin> fst ` set xs \<Longrightarrow> AList.update k v xs = xs @ [(k, v)]"
  by (induction xs) auto

lemma load_items_dict:
  "fst ` set out \<inter> int ` {i..<i + length cs} = {} \<Longrightarrow>
     load_items (map dict_entry (enumerate i cs)) out = Inr (out @ map (\<lambda>(i, c). (int i, meta_of c)) (enumerate i cs))"
proof (induction cs arbitrary: i out)
  case (Cons c cs)
  have "int i \<in> int ` {i..<i + length (c # cs)}" by simp
  then have "int i \<notin> fst ` set out" using Cons.prems by blast
  then have new: "AList.update (int i) (meta_of c) out = out @ [(int i, meta_of c)]" by (rule AList_update_new)
  have "fst ` set (out @ [(int i, meta_of c)]) \<inter> int ` {Suc i..<Suc i + length cs} = {}"
    using Cons.prems by auto
  from Cons.IH [OF this] show ?case by (simp add: dict_entry_def algo_entry_dict new)
qed simp

lemma load_dictionary:
  "load_algo_map (algo_dict_json (enumerate 0 cs)) = Inr (map (\<lambda>(i, c). (int i, meta_of c)) (enumerate 0 cs))"
  using load_items_dict [of "[]" 0 cs]
  by (simp add: load_algo_map_def algo_dict_json_def get_or_Cons iterate_json_def)

lemma key_meta_of: "key (meta_of c) = Inr (tileM c, tileN c, tileK c, fst (cluster c), fst (snd (cluster c)),
    snd (snd (cluster c)), int_of_stages (stages c), mainloop_of c, epilogue_of c, scheduler_of c, split_k c)"
  by (cases "cluster c") (simp add: meta_of_def key_triple)

lemma key_combo_of:
  assumes "wf_record r"
  shows "key (meta_of (combo_of r)) = Inr (rec_key r)"
proof -
  obtain c0 c1 c2 where cl: "g_cluster r = [c0, c1, c2]" using wf_record_cluster [OF assms] .
  have "int_of_stages (stages_of n) = n" for n by (simp add: stages_of_def int_of_stages_def)
  moreover have "key r = Inr (rec_key r)" using assms by (simp add: wf_record_def)
  ultimately show ?thesis using key_triple [OF cl] by (simp add: key_meta_of combo_of_def cl)
qed

lemma keys_of_dictionary: "\<exists>bk. keys_of (map (\<lambda>(i, c). (int i, meta_of c)) ics) = Inr bk"
proof -
  have "map_res (\<lambda>(a, m). bind_res (key m) (\<lambda>k. Inr (k, a))) (map (\<lambda>(i, c). (int i, meta_of c)) ics)
    = Inr (map (\<lambda>(a, m). (projr (key m), a)) (map (\<lambda>(i, c). (int i, meta_of c)) ics))"
    by (rule map_res_total) (auto simp: key_meta_of)
  then show ?thesis by (simp add: keys_of_def)
qed

section \<open>The next run of the generator\<close>

lemma combo_of_settled:
  assumes "wf_record r" and "usable_record fmt r"
  shows "settled (combo_of r)"
proof -
  have "g_mainloop r \<in> {''ws'', ''pingpong'', ''cooperative''}" "g_scheduler r \<in> {''normal'', ''stream_k''}"
    "is_supported_combo (g_mainloop r) (g_scheduler r)" "g_epilogue r = ''auto''"
    using assms by (simp_all add: wf_record_def usable_record_def)
  then show ?thesis
    using supported_iff [of "g_mainloop r" "g_scheduler r"]
    by (simp add: settled_def canonical_def combo_of_def stages_of_def)
qed

lemma regenerated_combos:
  assumes "gen_main ht (Some (d, n)) None = Inr g"
    and "load_rows_json d n ''missing'' = Inr (map combo_of (filter (usable_record fmt) rs))"
    and "\<forall>r \<in> set rs. wf_record r"
  shows "\<exists>cs. g_algorithms g = enumerate 0 cs \<and> (\<forall>r \<in> set rs. usable_record fmt r \<longrightarrow> combo_of r \<in> set cs)"
proof (rule gen_mainE [OF assms(1)])
  fix ms fs cs
  assume "case Some (d, n) of None \<Rightarrow> ms = [] | Some (d, n) \<Rightarrow> load_rows_json d n ''missing'' = Inr ms"
    and cs: "set cs = set builtin \<union> settle ` (set ms \<union> set fs)" "distinct cs" "\<forall>c \<in> set cs. settled c"
    and g: "g = \<lparr>g_index = (if ht then Some (algo_index cs) else None), g_algorithms = algorithms cs,
          g_signal_inc = fst (write_signal_instances cs), g_signal_tiling = snd (write_signal_instances cs),
          g_plain_inc = fst (write_plain_instances cs), g_plain_tiling = snd (write_plain_instances cs)\<rparr>"
  then have ms: "ms = map combo_of (filter (usable_record fmt) rs)" using assms(2) by simp
  have "combo_of r \<in> set cs" if "r \<in> set rs" "usable_record fmt r" for r
  proof -
    have "settle (combo_of r) = combo_of r"
      using combo_of_settled [OF _ that(2)] assms(3) that(1)
      by (simp add: settle_def settled_def renormalize_stages_def)
    moreover have "combo_of r \<in> set ms" using that by (simp add: ms)
    ultimately show ?thesis unfolding cs(1) by (metis UnCI imageI)
  qed
  then show ?thesis using algorithms_enumerate [OF cs(2,3)] g by (intro exI [of _ cs]) simp
qed

section \<open>Profiling\<close>

lemma profile_one_match: "profile_one P args r = Inr ok \<Longrightarrow> o_match ok = r"
  by (auto simp: profile_one_def Let_def elim!: bind_resE split: prod.splits)

lemma profile_one_checked:
  "profile_one P args r = Inr ok \<Longrightarrow> reject_failed_check args \<Longrightarrow> check_ok ok"
  by (auto simp: profile_one_def Let_def elim!: bind_resE split: prod.splits)

lemma profile_one_divides:
  assumes "profile_one P args r = Inr ok"
  shows "ca_m args mod g_tile_m (m_record r) = 0 \<and> ca_n args mod g_tile_n (m_record r) = 0"
proof -
  have "\<exists>x. geometry args (g_tile_m (m_record r)) (g_tile_n (m_record r)) = Inr x"
    using assms by (auto simp: profile_one_def Let_def elim!: bind_resE)
  then show ?thesis by (auto simp: geometry_def py_mod_Inr elim!: bind_resE split: if_splits)
qed

lemma profile_all_oks:
  "profile_all P args rs = (oks, failed) \<Longrightarrow> ok \<in> set oks \<Longrightarrow> \<exists>r \<in> set rs. profile_one P args r = Inr ok"
  by (induction rs arbitrary: oks failed) (fastforce split: prod.splits sum.splits)+

lemma profile_all_failed:
  "profile_all P args rs = (oks, failed) \<Longrightarrow> (r, e) \<in> set failed \<Longrightarrow> r \<in> set rs \<and> profile_one P args r = Inl e"
  by (induction rs arbitrary: oks failed) (fastforce split: prod.splits sum.splits)+

lemma profile_all_partition:
  "profile_all P args rs = (oks, failed) \<Longrightarrow> mset (map o_match oks) + mset (map fst failed) = mset rs"
  by (induction rs arbitrary: oks failed)
    (auto split: prod.splits sum.splits dest: profile_one_match)

lemma mset_map_part_distinct:
  assumes "mset xs + mset ys = mset zs" and "distinct (map f zs)"
  shows "distinct (map f xs)"
proof -
  have "mset (map f (xs @ ys)) = mset (map f zs)" using assms(1) by (metis mset_append mset_map)
  then have "distinct (map f (xs @ ys))" using assms(2) by (metis mset_eq_imp_distinct_iff)
  then show ?thesis by simp
qed

lemma key_tiles: "key a = Inr k \<Longrightarrow> key b = Inr k \<Longrightarrow> g_tile_m a = g_tile_m b \<and> g_tile_n a = g_tile_n b"
  by (auto simp: key_def elim!: bind_resE)

lemma set_py_take: "x \<in> set (py_take n xs) \<Longrightarrow> x \<in> set xs"
  by (auto simp: py_take_def split: if_splits dest: in_set_takeD)

lemma py_take_is_take: "\<exists>k. py_take n xs = take k xs"
  by (auto simp: py_take_def)

section \<open>The saved configuration\<close>

lemma main_result:
  assumes "gen_config_main P args name field_names rows dict = (outs, res)" and "out_result outs = Some f"
    and "load_algo_map dict = Inr am"
  obtains records counts ms missing oks failed tfs where
    "parse_csv_rows (csv_args.truncate args) name field_names rows = Inr (records, counts)"
    "match_records (py_take (top_csv args) records) am = Inr (ms, missing)"
    "profile_all P args ms = (oks, failed)" "f = config_file args (sort_key signal_gemm_ms oks) tfs"
    "outs = \<lparr>out_result = Some f, out_missing = Some missing, out_failed = Some failed\<rparr>"
  using assms unfolding gen_config_main_def Let_def
  by (auto simp: no_outputs_def split: sum.splits prod.splits if_splits elim!: bind_resE)

lemma profiled_row:
  assumes "load_algo_map dict = Inr am" and "match_records rs am = Inr (ms, missing)"
    and "\<forall>r \<in> set rs. wf_record r" and "profile_all P args ms = (oks, failed)" and "ok \<in> set oks"
  shows "\<exists>m. (m_algo (o_match ok), m) \<in> set am \<and> g_tile_m (m_record (o_match ok)) = g_tile_m m
     \<and> g_tile_n (m_record (o_match ok)) = g_tile_n m
     \<and> ca_m args mod g_tile_m m = 0 \<and> ca_n args mod g_tile_n m = 0
     \<and> (reject_failed_check args \<longrightarrow> check_ok ok)"
proof -
  obtain r where r: "r \<in> set ms" "profile_one P args r = Inr ok" using profile_all_oks [OF assms(4,5)] by blast
  obtain bk where matched: "\<forall>m \<in> set ms. m_record m \<in> set rs \<and> (m_algo m, m_meta m) \<in> set am
          \<and> key (m_meta m) = Inr (rec_key (m_record m))"
    using matched_records [OF assms(1,2)] by blast
  then have "key (m_record r) = Inr (rec_key (m_record r))" "key (m_meta r) = Inr (rec_key (m_record r))"
    "(m_algo r, m_meta r) \<in> set am"
    using r(1) assms(3) by (auto simp: wf_record_def)
  then show ?thesis
    using key_tiles [of "m_record r" _ "m_meta r"] profile_one_match [OF r(2)] profile_one_divides [OF r(2)]
      profile_one_checked [OF r(2)] by (intro exI [of _ "m_meta r"]) auto
qed

lemma distinct_map_sort: "distinct (map g (sort_key f xs)) = distinct (map g xs)"
proof -
  have "mset (map g (sort_key f xs)) = mset (map g xs)" by simp
  then show ?thesis by (rule mset_eq_imp_distinct_iff)
qed

lemma zip_map_map_same: "zip (map f xs) (map g xs) = map (\<lambda>x. (f x, g x)) xs"
  by (induction xs) auto

lemma candidates_unchanged:
  "(\<And>bm bn d a. (bm, bn, d, a) \<in> set rows \<Longrightarrow> \<exists>it. D a = Some it \<and> tile_m it = bm \<and> tile_n it = bn) \<Longrightarrow>
     normalize_loaded_candidates D rows = map (\<lambda>(bm, bn, d, a). \<lparr>cBM = bm, cBN = bn, cdur = d, cAlgo = a\<rparr>) rows"
  by (induction D rows rule: normalize_loaded_candidates.induct) (fastforce split: option.splits)+

end
