(* ===== verification/GenConfigDemo.thy ===== *)
theory GenConfigDemo
  imports Regenerate
begin

text \<open>
  A small run of the configuration generator: one CSV row for a two by two tile of a four by four problem, a
  dictionary that has its key, and a GPU whose kernel stores nothing but zeros.
\<close>

definition demo_profile_args :: profile_args where
  "demo_profile_args = \<lparr>ca_m = 4, ca_n = 4, ca_k = 4, a_dtype = ''f16'', b_dtype = ''f16'', accum_dtype = ''f16'',
     c_dtype = ''any'', d_dtype = ''any'', a_layout = ''row'', b_layout = ''column'', c_layout = ''any'',
     d_layout = ''any'', p_layout = ''packed'', p_reorder = ''auto'', p_reldn = 0, group_tiles = 0, top_csv = 40,
     top_save = 10, iters = 1, check_atol = 8, reject_failed_check = True, dry_run = False\<rparr>"

definition demo_fields :: "string list" where
  "demo_fields = [''runtime'', ''Operation'', ''cta_m'', ''cta_n'', ''cta_k'', ''stages'']"

definition demo_csv :: "cells list" where
  "demo_csv = [zip demo_fields (map Some [''5'', ''gemm'', ''2'', ''2'', ''4'', ''3''])]"

definition demo_record :: csv_record where
  "demo_record = \<lparr>g_tile_m = 2, g_tile_n = 2, g_tile_k = 4, g_cluster = [1, 1, 1], g_stages = 3, g_mainloop = ''ws'',
     g_epilogue = ''auto'', g_scheduler = ''normal'', g_split_k = 1, source_row = 0, cutlass_runtime = Fin 5,
     operation = ''gemm'', rec_key = (2, 2, 4, 1, 1, 1, 3, ''ws'', ''auto'', ''normal'', 1)\<rparr>"

definition demo_counts :: counts where
  "demo_counts = [(''raw_rows'', 1), (''bad_runtime'', 0), (''shape'', 0), (''layout_or_dtype'', 0), (''tile_parse'', 0),
     (''stream_k_rows_seen'', 0), (''split_k_rows_seen'', 0), (''kept'', 1)]"

lemma demo_numbers_list: "map str_int [5, 2, 4, 3] = [''5'', ''2'', ''4'', ''3'']"
  by code_simp

lemma demo_numbers: "str_int 5 = ''5''" "str_int 2 = ''2''" "str_int 4 = ''4''" "str_int 3 = ''3''"
  using demo_numbers_list by simp_all

lemma demo_ints: "int_float ''2'' = Inr 2" "int_float ''4'' = Inr 4" "int_float ''3'' = Inr 3"
  using int_float_str_int by (metis demo_numbers)+

lemma demo_float: "to_float (Some ''5'') = Some (Fin 5)"
proof -
  have "py_strip ''5'' = ''5'' \<and> split_sign ''5'' = (1, ''5'') \<and> py_lower ''5'' = ''5''" by code_simp
  moreover have "py_float ''5'' = Inr 5" using py_float_str_int [of 5] by (simp add: demo_numbers)
  ultimately show ?thesis by (simp add: to_float_def read_float_def)
qed

definition demo_cols :: "string \<Rightarrow> string option" where
  "demo_cols k = (case map_of column_names k of None \<Rightarrow> None | Some names \<Rightarrow> find_col demo_fields names)"

lemma demo_norm_list: "map norm_col [''runtime'', ''Runtime'', ''runtime_ms'', ''time'', ''duration'', ''operation'', ''Operation'', ''kernel'', ''Kernel'', ''name'', ''procedural_name'', ''accum'', ''Accum'', ''accumulator'', ''Accumulator'', ''split_k_slices'', ''split_k'', ''SplitK'', ''a'', ''A'', ''b'', ''B'', ''c'', ''C'', ''d'', ''D'', ''cta_m'', ''threadblock_m'', ''tile_m'', ''cta_n'', ''threadblock_n'', ''tile_n'', ''cta_k'', ''threadblock_k'', ''tile_k'', ''cluster_m'', ''cluster_shape_m'', ''cluster_n'', ''cluster_shape_n'', ''cluster_k'', ''cluster_shape_k'', ''stages'', ''Stages''] = [''runtime'', ''runtime'', ''runtime_ms'', ''time'', ''duration'', ''operation'', ''operation'', ''kernel'', ''kernel'', ''name'', ''procedural_name'', ''accum'', ''accum'', ''accumulator'', ''accumulator'', ''split_k_slices'', ''split_k'', ''splitk'', ''a'', ''a'', ''b'', ''b'', ''c'', ''c'', ''d'', ''d'', ''cta_m'', ''threadblock_m'', ''tile_m'', ''cta_n'', ''threadblock_n'', ''tile_n'', ''cta_k'', ''threadblock_k'', ''tile_k'', ''cluster_m'', ''cluster_shape_m'', ''cluster_n'', ''cluster_shape_n'', ''cluster_k'', ''cluster_shape_k'', ''stages'', ''stages'']"
  by code_simp

lemma demo_norms:
  "norm_col ''runtime'' = ''runtime''"
  "norm_col ''Runtime'' = ''runtime''"
  "norm_col ''runtime_ms'' = ''runtime_ms''"
  "norm_col ''time'' = ''time''"
  "norm_col ''duration'' = ''duration''"
  "norm_col ''operation'' = ''operation''"
  "norm_col ''Operation'' = ''operation''"
  "norm_col ''kernel'' = ''kernel''"
  "norm_col ''Kernel'' = ''kernel''"
  "norm_col ''name'' = ''name''"
  "norm_col ''procedural_name'' = ''procedural_name''"
  "norm_col ''accum'' = ''accum''"
  "norm_col ''Accum'' = ''accum''"
  "norm_col ''accumulator'' = ''accumulator''"
  "norm_col ''Accumulator'' = ''accumulator''"
  "norm_col ''split_k_slices'' = ''split_k_slices''"
  "norm_col ''split_k'' = ''split_k''"
  "norm_col ''SplitK'' = ''splitk''"
  "norm_col ''a'' = ''a''"
  "norm_col ''A'' = ''a''"
  "norm_col ''b'' = ''b''"
  "norm_col ''B'' = ''b''"
  "norm_col ''c'' = ''c''"
  "norm_col ''C'' = ''c''"
  "norm_col ''d'' = ''d''"
  "norm_col ''D'' = ''d''"
  "norm_col ''cta_m'' = ''cta_m''"
  "norm_col ''threadblock_m'' = ''threadblock_m''"
  "norm_col ''tile_m'' = ''tile_m''"
  "norm_col ''cta_n'' = ''cta_n''"
  "norm_col ''threadblock_n'' = ''threadblock_n''"
  "norm_col ''tile_n'' = ''tile_n''"
  "norm_col ''cta_k'' = ''cta_k''"
  "norm_col ''threadblock_k'' = ''threadblock_k''"
  "norm_col ''tile_k'' = ''tile_k''"
  "norm_col ''cluster_m'' = ''cluster_m''"
  "norm_col ''cluster_shape_m'' = ''cluster_shape_m''"
  "norm_col ''cluster_n'' = ''cluster_n''"
  "norm_col ''cluster_shape_n'' = ''cluster_shape_n''"
  "norm_col ''cluster_k'' = ''cluster_k''"
  "norm_col ''cluster_shape_k'' = ''cluster_shape_k''"
  "norm_col ''stages'' = ''stages''"
  "norm_col ''Stages'' = ''stages''"
  using demo_norm_list by (simp_all only: list.map list.inject)

lemma demo_cols:
  "demo_cols ''rt'' = Some ''runtime''" "demo_cols ''op'' = Some ''Operation''" "demo_cols ''a'' = None"
  "demo_cols ''b'' = None" "demo_cols ''c'' = None" "demo_cols ''d'' = None" "demo_cols ''acc'' = None"
  "demo_cols ''split'' = None" "demo_cols ''tm'' = Some ''cta_m''" "demo_cols ''tn'' = Some ''cta_n''"
  "demo_cols ''tk'' = Some ''cta_k''" "demo_cols ''cm'' = None" "demo_cols ''cn'' = None" "demo_cols ''ck'' = None"
  "demo_cols ''st'' = Some ''stages''"
  by (simp_all add: demo_cols_def column_names_def find_col_def demo_fields_def RUNTIME_NAMES_def OP_NAMES_def
      ACCUM_NAMES_def SPLIT_K_NAMES_def demo_norms)
lemma demo_parse_row:
  "parse_row (csv_args.truncate demo_profile_args) demo_cols None 0 (hd demo_csv) no_counts = Inr (Some demo_record, demo_counts)"
proof -
  let ?row = "hd demo_csv" and ?args = "csv_args.truncate demo_profile_args"
  have cells: "col_cell demo_cols ?row ''rt'' = Some ''5''" "col_cell demo_cols ?row ''tm'' = Some ''2''"
    "col_cell demo_cols ?row ''tn'' = Some ''2''" "col_cell demo_cols ?row ''tk'' = Some ''4''"
    "col_cell demo_cols ?row ''split'' = None" "col_cell demo_cols ?row ''cm'' = None"
    "col_cell demo_cols ?row ''cn'' = None" "col_cell demo_cols ?row ''ck'' = None"
    "cell ?row ''stages'' = Some ''3''"
    by (simp_all add: col_cell_def demo_cols demo_csv_def demo_fields_def cell_def)
  have op: "row_operation demo_cols ?row = ''gemm''"
    by (simp add: row_operation_def demo_cols demo_csv_def demo_fields_def)
  have kinds: "mainloop_of_op ''gemm'' = ''ws'' \<and> scheduler_of_op ''gemm'' = ''normal''
    \<and> op_dtypes ''gemm'' = map (\<lambda>k. (k, None)) [''a'', ''b'', ''accum'', ''c'', ''d'']" by code_simp
  have strips: "py_strip ''2'' = ''2'' \<and> py_strip ''4'' = ''4'' \<and> py_lower (py_strip ''3'') = ''3''" by code_simp
  have ints: "to_int (Some ''2'') d = Some 2" "to_int (Some ''4'') d = Some 4" "stage (Some ''3'') = Inr 3" for d
    by (simp_all add: to_int_def stage_def strips demo_ints)
  have defaults: "to_int None d = d" for d by (simp add: to_int_def)
  have ok: "row_accepted ?args demo_cols ?row ''gemm''"
    by (simp add: row_accepted_def kinds demo_cols csv_row_ok_def demo_profile_args_def csv_args.defs)
  have rec: "new_record 0 (Fin 5) ''gemm'' (2, 2, 4) (1, 1, 1) 3 1 = Inr demo_record"
    by (simp add: new_record_def key_triple kinds demo_record_def meta.defs csv_record.defs)
  show ?thesis
    by (simp add: parse_row_def cells op kinds ints defaults demo_float demo_cols ok rec)
      (simp add: no_counts_def bump_def demo_counts_def)
qed

lemma demo_parse_rows:
  "parse_rows (csv_args.truncate demo_profile_args) demo_cols None 0 demo_csv no_counts = Inr ([demo_record], demo_counts)"
proof -
  have "demo_csv = [hd demo_csv]" by (simp add: demo_csv_def)
  then have "parse_rows (csv_args.truncate demo_profile_args) demo_cols None 0 demo_csv no_counts
    = parse_rows (csv_args.truncate demo_profile_args) demo_cols None 0 [hd demo_csv] no_counts" by simp
  then show ?thesis using demo_parse_row by simp
qed

lemma demo_parse:
  "parse_csv_rows (csv_args.truncate demo_profile_args) ''demo.csv'' demo_fields demo_csv = Inr ([demo_record], demo_counts)"
proof -
  have cols: "(\<lambda>k. case map_of column_names k of None \<Rightarrow> None | Some names \<Rightarrow> find_col demo_fields names) = demo_cols"
    by (simp add: demo_cols_def fun_eq_iff)
  have shape: "filename_shape ''demo.csv'' = None" by code_simp
  show ?thesis
    unfolding parse_csv_rows_def Let_def cols shape demo_parse_rows by (simp add: demo_cols)
qed

lemma demo_wf: "wf_record demo_record"
  by (simp add: wf_record_def demo_record_def key_triple)

section \<open>The dictionary and the run\<close>

definition demo_dict :: json where
  "demo_dict = algo_dict_json (enumerate 0 [combo_of demo_record])"

definition demo_map :: algo_map where
  "demo_map = [(0, meta_of (combo_of demo_record))]"

lemma demo_dict_loads: "load_algo_map demo_dict = Inr demo_map"
  unfolding demo_dict_def demo_map_def load_dictionary by simp

lemma demo_key: "key (meta_of (combo_of demo_record)) = Inr (rec_key demo_record)"
  by (rule key_combo_of) (rule demo_wf)

lemma demo_keys: "keys_of demo_map = Inr (map_of [(rec_key demo_record, 0)])"
  by (simp add: keys_of_def demo_map_def demo_key)

definition demo_matched :: matched where
  "demo_matched = \<lparr>m_record = demo_record, m_algo = 0, m_meta = meta_of (combo_of demo_record)\<rparr>"

lemma demo_match: "match_records [demo_record] demo_map = Inr ([demo_matched], [])"
proof -
  have "map_of demo_map 0 = Some (meta_of (combo_of demo_record))" by (simp add: demo_map_def)
  then show ?thesis by (simp add: match_records_def demo_keys demo_matched_def)
qed

lemma demo_no_match: "match_records [demo_record] [] = Inr ([], [demo_record])"
  by (simp add: match_records_def keys_of_def)

lemma demo_take: "py_take 40 [demo_record] = [demo_record]"
  by (simp add: py_take_def)

lemma demo_arg_fields:
  "ca_m demo_profile_args = 4" "ca_n demo_profile_args = 4" "p_layout demo_profile_args = ''packed''" "p_reorder demo_profile_args = ''auto''"
  "p_reldn demo_profile_args = 0" "iters demo_profile_args = 1" "check_atol demo_profile_args = 8" "top_csv demo_profile_args = 40"
  "dry_run demo_profile_args = False" "top_save demo_profile_args = 10"
  by (simp_all add: demo_profile_args_def)

lemma demo_geometry: "geometry demo_profile_args 2 2 = Inr (2, 2, ''column_major'', 1, 8, 2)"
  by (simp add: geometry_def demo_arg_fields)

definition demo_gpu :: "int gpu" where
  "demo_gpu = \<lparr>kernel = (\<lambda>c. Inr \<lparr>nrows = c_rows c, ncols = c_cols c, entry = (\<lambda>_ _. 0)\<rparr>), elapsed = (\<lambda>_. [2]),
     reference = \<lparr>nrows = 4, ncols = 4, entry = (\<lambda>_ _. 0)\<rparr>, max_abs_err = (\<lambda>_ _. Some 0), blank = (\<lambda>_ _. 0)\<rparr>"

lemma demo_sound: "sound_args demo_profile_args"
  by (simp add: sound_args_def demo_arg_fields)

lemma demo_unpack:
  assumes "make_ra 2 2 ''column_major'' = Inr ra"
  shows "\<exists>out. unpack (\<lambda>_ _. 0) \<lparr>nrows = 8, ncols = 2, entry = (\<lambda>_ _. 0 :: int)\<rparr> ra 4 4 2 2 1 = Inr out"
proof -
  let ?D = "\<lparr>nrows = 8, ncols = 2, entry = (\<lambda>_ _. 0 :: int)\<rparr>"
  have holds: "holds_packed ?D ra 2 2 2 1 4 4 (\<lambda>_ _. 0)" by (simp add: holds_packed_def slot_entry_def Let_def)
  have fits: "slot_fits ?D ra 2 2 2 1 tr tc" if "0 \<le> tr" "tr < 2" "0 \<le> tc" "tc < 2" for tr tc
    by (rule run_slots_fit [OF demo_geometry demo_sound _ _ assms _ _ that]) simp_all
  have "\<exists>out. unpack (\<lambda>_ _. 0) ?D ra 4 4 2 2 1 = Inr out \<and> nrows out = 4 \<and> ncols out = 4
    \<and> (\<forall>r c. 0 \<le> r \<and> r < 4 \<and> 0 \<le> c \<and> c < 4 \<longrightarrow> entry out r c = 0)"
    by (rule unpack_recovers [where rows = 2 and cols = 2, OF _ _ _ _ _ _ _ fits holds]) simp_all
  then show ?thesis by blast
qed

lemma demo_profile: "\<exists>ok. profile_one demo_gpu demo_profile_args demo_matched = Inr ok \<and> signal_gemm_ms ok = 2"
proof -
  obtain ra where ra: "make_ra 2 2 ''column_major'' = Inr ra" by (simp add: make_ra_column_major)
  obtain out where out: "unpack (\<lambda>_ _. 0) \<lparr>nrows = 8, ncols = 2, entry = (\<lambda>_ _. 0 :: int)\<rparr> ra 4 4 2 2 1 = Inr out"
    using demo_unpack [OF ra] by blast
  have args: "g_tile_m demo_record = 2" "g_tile_n demo_record = 2" "iters demo_profile_args = 1" "p_layout demo_profile_args = ''packed''"
    "ca_m demo_profile_args = 4" "ca_n demo_profile_args = 4" "check_atol demo_profile_args = 8"
    by (simp_all add: demo_record_def demo_profile_args_def)
  show ?thesis
    by (simp add: profile_one_def demo_matched_def args demo_geometry ra demo_gpu_def output_normal_def out Let_def)
qed

lemma demo_generate:
  "\<exists>outs f. gen_config_main demo_gpu demo_profile_args ''demo.csv'' demo_fields demo_csv demo_dict = (outs, Inr ())
     \<and> out_result outs = Some f \<and> f_Algo f = [0]"
proof -
  obtain ok where ok: "profile_one demo_gpu demo_profile_args demo_matched = Inr ok" "signal_gemm_ms ok = 2"
    using demo_profile by blast
  have args: "top_csv demo_profile_args = 40" "dry_run demo_profile_args = False" "top_save demo_profile_args = 10"
    by (simp_all add: demo_profile_args_def)
  have "m_algo (o_match ok) = 0" using profile_one_match [OF ok(1)] by (simp add: demo_matched_def)
  then show ?thesis
    using ok by (simp add: gen_config_main_def demo_dict_loads demo_parse args demo_take demo_match tflops_def
        config_file_def py_take_def Let_def)
qed

end
