(* ===== verification/GenConfigProperties.thy ===== *)
theory GenConfigProperties
  imports GenConfigDemo
begin

text \<open>
  What the configuration generator promises: the output it checks is the product the kernel stored, each
  algorithm keeps its fastest record, what it reports missing is matched after the instances are
  generated again, and the candidate list it saves is the one the search can use.
\<close>

section \<open>The packed run\<close>

text \<open>C4: Whatever the layout and the tile order, the profiler compares the right matrix. For tiles that divide
  the problem the order map is a permutation, so that the kernel can store every tile of a product in a slot
  of its own within the allocated extents; and from any packed tensor that holds the product this way
  \<open>output_normal\<close> returns exactly the product. (With the normal layout the leading dimension is the
  default one.)\<close>
theorem checked_output_is_product:
  fixes C :: "int \<Rightarrow> int \<Rightarrow> 'a"
  assumes "geometry args tm tn = Inr (rows, cols, reorder, reldn, out_m, out_n)" and "sound_args args"
    and "0 < tm" "0 < tn"
  shows "\<exists>ra. make_ra rows cols reorder = Inr ra \<and> distinct ra \<and> set ra = {0..<rows * cols}
     \<and> (\<exists>e. holds_packed \<lparr>nrows = out_m, ncols = out_n, entry = e\<rparr> ra cols tm tn reldn (ca_m args) (ca_n args) C)
     \<and> (\<forall>e. holds_packed \<lparr>nrows = out_m, ncols = out_n, entry = e\<rparr> ra cols tm tn reldn (ca_m args) (ca_n args) C \<longrightarrow>
          (\<exists>out. output_normal bl \<lparr>nrows = out_m, ncols = out_n, entry = e\<rparr> (p_layout args) reorder ra
                   (ca_m args) (ca_n args) tm tn reldn = Inr out
             \<and> nrows out = ca_m args \<and> ncols out = ca_n args
             \<and> (\<forall>r c. 0 \<le> r \<and> r < ca_m args \<and> 0 \<le> c \<and> c < ca_n args \<longrightarrow> entry out r c = C r c)))"
proof -
  note g = geometry_eq [OF assms(1,3,4)] and q = geometry_parts [OF assms(1-4)]
  have v: "ra_valid (rows, cols, reorder)" using q by (simp add: ra_valid_def)
  obtain ra where ra: "make_ra rows cols reorder = Inr ra" using packed.tmap_returns [OF v] by auto
  note e = ra_entries [OF v ra]
  have set_ra: "set ra = {0..<rows * cols}" using packed.tmap_range [OF v, of ra] ra by simp
  have "\<exists>e. holds_packed \<lparr>nrows = out_m, ncols = out_n, entry = e\<rparr> ra cols tm tn reldn (ca_m args) (ca_n args) C"
    unfolding g(1,2) using packing_exists [OF assms(3,4) q(3,2) e(3,1)] e(2) by blast
  moreover have "\<exists>out. output_normal bl D (p_layout args) reorder ra (ca_m args) (ca_n args) tm tn reldn = Inr out
             \<and> nrows out = ca_m args \<and> ncols out = ca_n args
             \<and> (\<forall>r c. 0 \<le> r \<and> r < ca_m args \<and> 0 \<le> c \<and> c < ca_n args \<longrightarrow> entry out r c = C r c)"
    if D: "nrows D = out_m" "ncols D = out_n" "holds_packed D ra cols tm tn reldn (ca_m args) (ca_n args) C" for D
  proof (cases "p_layout args = ''normal'' \<and> reorder = ''identity''")
    case True
    then have "entry D r c = C r c" if "0 \<le> r \<and> r < ca_m args \<and> 0 \<le> c \<and> c < ca_n args" for r c
      using identity_slot [of r rows tm c cols tn D] D(3) that ra q(5) g(1,2) assms(3,4)
      by (simp add: holds_packed_def make_ra_identity)
    then show ?thesis using True D(1,2) g(4) by (simp add: output_normal_def)
  next
    case False
    then have "output_normal bl D (p_layout args) reorder ra (ca_m args) (ca_n args) tm tn reldn
        = unpack bl D ra (ca_m args) (ca_n args) tm tn reldn"
      by (simp only: output_normal_def if_False)
    then show ?thesis
      using unpack_recovers [OF assms(3,4) q(3,1,2) g(1,2) run_slots_fit [OF assms ra D(1,2)] D(3), of bl] by simp
  qed
  ultimately show ?thesis using ra e(3) set_ra by (intro exI [of _ ra]) auto
qed

lemma checked_output_is_product_witness:
  "\<exists>ra. make_ra 2 2 ''column_major'' = Inr ra \<and> set ra = {0..<4}
     \<and> (\<exists>e. holds_packed \<lparr>nrows = 8, ncols = 2, entry = e\<rparr> ra 2 2 2 1 4 4 (\<lambda>r c. 4 * r + c :: int))"
  using checked_output_is_product [OF demo_geometry demo_sound, of "\<lambda>r c. 4 * r + c"]
  unfolding demo_arg_fields by fastforce


text \<open>C29: Matching keeps the fastest record of each algorithm. The missing records are exactly those whose key no
  algorithm has, in their order; every matched algorithm occurs once, with a record of the input that has the
  key of its dictionary entry and is at least as fast as any other record of that algorithm; and the result is
  sorted by the profiler's run time. No record is lost: each is missing or its algorithm is matched.\<close>
theorem match_keeps_fastest:
  assumes "load_algo_map dict = Inr am" and "match_records rs am = Inr (ms, missing)"
  shows "\<exists>bk. keys_of am = Inr bk \<and> missing = filter (\<lambda>r. bk (rec_key r) = None) rs
     \<and> distinct (map m_algo ms) \<and> sorted (map (\<lambda>m. cutlass_runtime (m_record m)) ms)
     \<and> (\<forall>m \<in> set ms. m_record m \<in> set rs \<and> (m_algo m, m_meta m) \<in> set am
          \<and> key (m_meta m) = Inr (rec_key (m_record m)))
     \<and> (\<forall>r \<in> set rs. r \<in> set missing
          \<or> (\<exists>m \<in> set ms. bk (rec_key r) = Some (m_algo m) \<and> cutlass_runtime (m_record m) \<le> cutlass_runtime r))"
  by (rule matched_records [OF assms])

lemma match_keeps_fastest_witness:
  "\<exists>bk. keys_of demo_map = Inr bk \<and> [] = filter (\<lambda>r. bk (rec_key r) = None) [demo_record]"
  using match_keeps_fastest [OF demo_dict_loads demo_match] by blast


section \<open>Generating the missing instances\<close>

text \<open>C22: What the profiler reports missing is found after the instances are generated from its report. Take any CSV
  and dictionary, and let the number of missing records not exceed the limit of the generator. Then the
  generator accepts the report, the new dictionary loads, and when the missing records are matched with it
  again only records stay missing that the generator refuses to build: those with single-precision
  types and those with stream-K outside the cooperative mainloop.\<close>
theorem regeneration_matches_missing:
  assumes "parse_csv_rows args name field_names rows = Inr (records, counts)"
    and "match_records (py_take top_n records) am = Inr (ms, missing)" and "int (length missing) \<le> n"
  shows "\<exists>g am' ms' missing'. gen_main ht (Some (missing_json fmt counts missing, n)) None = Inr g
     \<and> load_algo_map (algo_dict_json (g_algorithms g)) = Inr am'
     \<and> match_records missing am' = Inr (ms', missing')
     \<and> (\<forall>r \<in> set missing'. \<not> is_f16_row (missing_row fmt r) \<or> \<not> is_supported_combo (g_mainloop r) (g_scheduler r))"
proof -
  obtain bk ba where "match_loop bk am (py_take top_n records) [] [] = (ba, missing)"
    using assms(2) by (auto simp: match_records_def Let_def elim!: bind_resE split: prod.splits)
  from match_loop_missing [OF this] have "set missing \<subseteq> set records"
    by (auto simp: py_take_def split: if_splits dest: in_set_takeD)
  then have wf: "\<forall>r \<in> set missing. wf_record r" using parse_csv_wf [OF assms(1)] by blast
  note loaded = missing_file_loaded [OF wf assms(3), of fmt counts]
  obtain g where g: "gen_main ht (Some (missing_json fmt counts missing, n)) None = Inr g"
    using gen_main_total [where m = "Some (missing_json fmt counts missing, n)" and f = None and fs = "[]"] loaded by auto
  obtain cs where cs: "g_algorithms g = enumerate 0 cs"
    and emitted: "\<forall>r \<in> set missing. usable_record fmt r \<longrightarrow> combo_of r \<in> set cs"
    using regenerated_combos [OF g loaded] wf by blast
  let ?am = "map (\<lambda>(i, c). (int i, meta_of c)) (enumerate 0 cs)"
  have am': "load_algo_map (algo_dict_json (g_algorithms g)) = Inr ?am" unfolding cs by (rule load_dictionary)
  obtain bk' where bk': "keys_of ?am = Inr bk'" using keys_of_dictionary by blast
  obtain ba missing' where loop: "match_loop bk' ?am missing [] [] = (ba, missing')" by (metis surj_pair)
  have "bk' (rec_key r) \<noteq> None" if r: "r \<in> set missing" "usable_record fmt r" for r
  proof -
    have "combo_of r \<in> set cs" using emitted r by blast
    from member_enumerate [OF this] obtain i where "(i, combo_of r) \<in> set (enumerate 0 cs)" ..
    then have "(\<lambda>(i, c). (int i, meta_of c)) (i, combo_of r) \<in> set ?am" unfolding set_map by (rule imageI)
    then have "(int i, meta_of (combo_of r)) \<in> set ?am" by (simp only: prod.case)
    then show ?thesis by (rule keys_of_known [OF bk']) (use wf r(1) in \<open>simp add: key_combo_of\<close>)
  qed
  then have "\<forall>r \<in> set missing'. \<not> usable_record fmt r"
    unfolding match_loop_missing [OF loop] by fastforce
  moreover have "\<exists>ms'. match_records missing ?am = Inr (ms', missing')"
    using bk' loop by (simp add: match_records_def)
  ultimately show ?thesis using g am' by (auto simp: usable_record_def)
qed

lemma regeneration_matches_missing_witness:
  "\<exists>g am' ms' missing'. gen_main True (Some (missing_json (\<lambda>_. ''5'') demo_counts [demo_record], 4)) None = Inr g
     \<and> load_algo_map (algo_dict_json (g_algorithms g)) = Inr am'
     \<and> match_records [demo_record] am' = Inr (ms', missing')
     \<and> (\<forall>r \<in> set missing'. \<not> is_f16_row (missing_row (\<lambda>_. ''5'') r) \<or> \<not> is_supported_combo (g_mainloop r) (g_scheduler r))"
  by (rule regeneration_matches_missing [where top_n = 40 and am = "[]" and ms = "[]", OF demo_parse])
    (simp_all add: demo_take demo_no_match)


section \<open>The saved configuration\<close>

text \<open>C18: The configuration file is a list of candidates the search can use as it stands: parallel lists, at most
  \<open>--top-save\<close> long, fastest first, no algorithm twice. Each candidate's tile divides the problem and is the
  tile of the dictionary entry of its number, so the search never corrects a tile size nor drops a
  candidate; and with \<open>--reject-failed-check\<close> every profiled row passed its check.\<close>
theorem saved_candidates_sound:
  assumes "gen_config_main P args name field_names rows dict = (outs, res)" and "out_result outs = Some f"
    and "load_algo_map dict = Inr am"
    and "\<forall>(a, m) \<in> set am. \<exists>it. D a = Some it \<and> tile_m it = g_tile_m m \<and> tile_n it = g_tile_n m"
  shows "length (f_BM f) = length (f_Algo f) \<and> length (f_BN f) = length (f_Algo f)
     \<and> length (f_dur f) = length (f_Algo f)
     \<and> (0 \<le> top_save args \<longrightarrow> int (length (f_Algo f)) \<le> top_save args)
     \<and> sorted (f_dur f) \<and> distinct (f_Algo f)
     \<and> (\<forall>i < length (f_Algo f). ca_m args mod f_BM f ! i = 0 \<and> ca_n args mod f_BN f ! i = 0)
     \<and> normalize_loaded_candidates D (zip4 (f_BM f) (f_BN f) (f_dur f) (f_Algo f))
         = map (\<lambda>(bm, bn, d, a). \<lparr>cBM = bm, cBN = bn, cdur = d, cAlgo = a\<rparr>) (zip4 (f_BM f) (f_BN f) (f_dur f) (f_Algo f))
     \<and> (reject_failed_check args \<longrightarrow> (\<forall>ok \<in> set (f_all_profiled f). check_ok ok))"
proof -
  obtain records counts ms missing oks failed tfs where
    csv: "parse_csv_rows (csv_args.truncate args) name field_names rows = Inr (records, counts)" and
    mr: "match_records (py_take (top_csv args) records) am = Inr (ms, missing)" and
    po: "profile_all P args ms = (oks, failed)" and f: "f = config_file args (sort_key signal_gemm_ms oks) tfs"
    using main_result [OF assms(1-3)] by metis
  have wf: "\<forall>r \<in> set (py_take (top_csv args) records). wf_record r"
    by (auto dest!: set_py_take intro: parse_csv_wf [OF csv])
  let ?sel = "py_take (top_save args) (sort_key signal_gemm_ms oks)"
  obtain k where k: "?sel = take k (sort_key signal_gemm_ms oks)" using py_take_is_take by blast
  note row = profiled_row [OF assms(3) mr wf po]
  have sel: "ok \<in> set oks" if "ok \<in> set ?sel" for ok using set_py_take [OF that] by simp
  have "distinct (map m_algo ms)" using matched_records [OF assms(3) mr] by blast
  from mset_map_part_distinct [OF profile_all_partition [OF po] this]
  have "distinct (map m_algo (map o_match (sort_key signal_gemm_ms oks)))"
    using distinct_map_sort [of "\<lambda>x. m_algo (o_match x)" signal_gemm_ms oks] by (simp add: comp_def)
  then have "distinct (f_Algo f)" unfolding f config_file_def Let_def k by (simp add: take_map [symmetric] comp_def)
  moreover have "sorted (f_dur f)"
    unfolding f config_file_def Let_def k by (simp add: take_map [symmetric] sorted_wrt_take)
  moreover have "int (length (f_Algo f)) \<le> top_save args" if "0 \<le> top_save args"
    using that by (simp add: f config_file_def py_take_def Let_def)
  moreover have "ca_m args mod f_BM f ! i = 0 \<and> ca_n args mod f_BN f ! i = 0" if "i < length (f_Algo f)" for i
  proof -
    have "?sel ! i \<in> set ?sel" using that by (simp add: f config_file_def Let_def)
    from row [OF sel [OF this]]
    have "ca_m args mod g_tile_m (m_record (o_match (?sel ! i))) = 0 \<and> ca_n args mod g_tile_n (m_record (o_match (?sel ! i))) = 0"
      by (elim exE conjE) simp
    then show ?thesis using that by (simp add: f config_file_def Let_def)
  qed
  moreover have "normalize_loaded_candidates D (zip4 (f_BM f) (f_BN f) (f_dur f) (f_Algo f))
         = map (\<lambda>(bm, bn, d, a). \<lparr>cBM = bm, cBN = bn, cdur = d, cAlgo = a\<rparr>) (zip4 (f_BM f) (f_BN f) (f_dur f) (f_Algo f))"
  proof -
    have z: "zip4 (f_BM f) (f_BN f) (f_dur f) (f_Algo f) = map (\<lambda>ok. (g_tile_m (m_record (o_match ok)),
        g_tile_n (m_record (o_match ok)), signal_gemm_ms ok, m_algo (o_match ok))) ?sel"
      by (simp add: f config_file_def zip4_def Let_def zip_map_map_same)
    show ?thesis unfolding z
      by (rule candidates_unchanged) (use sel row assms(4) in \<open>fastforce\<close>)
  qed
  moreover have "check_ok ok" if "reject_failed_check args" "ok \<in> set (f_all_profiled f)" for ok
    using that row [of ok] by (auto simp: f config_file_def Let_def)
  ultimately show ?thesis by (simp add: f config_file_def Let_def)
qed

lemma saved_candidates_sound_witness:
  "\<exists>outs f. gen_config_main demo_gpu demo_profile_args ''demo.csv'' demo_fields demo_csv demo_dict = (outs, Inr ())
     \<and> out_result outs = Some f \<and> f_Algo f = [0] \<and> length (f_BM f) = 1 \<and> ca_m demo_profile_args mod f_BM f ! 0 = 0"
proof -
  obtain outs f where run: "gen_config_main demo_gpu demo_profile_args ''demo.csv'' demo_fields demo_csv demo_dict = (outs, Inr ())"
    "out_result outs = Some f" "f_Algo f = [0]"
    using demo_generate by blast
  let ?D = "\<lambda>_ :: int. Some \<lparr>tile_m = 2, tile_n = 2, mainloop = None\<rparr>"
  have "\<forall>(a, m) \<in> set demo_map. \<exists>it. ?D a = Some it \<and> tile_m it = g_tile_m m \<and> tile_n it = g_tile_n m"
    by (simp add: demo_map_def meta_of_def combo_of_def demo_record_def)
  from saved_candidates_sound [OF run(1,2) demo_dict_loads this] show ?thesis using run by force
qed


end
