(* ===== verification/PatchHeaders.thy ===== *)
theory PatchHeaders
  imports PyStr
begin

text \<open>
  \<open>patch_gcc_typename.py\<close>: replaces two casts in the headers of nlohmann_json and Torch that GCC rejects, keeps
  the original text in a backup file beside the header, and reverts from it. The file system is a map from paths to
  texts (line ends are those \<open>read_text\<close> yields); the directories, the order in which the system lists files and
  what the interpreter knows of its installation are parameters.
\<close>

definition MARKER :: string where
  "MARKER = ''OOVERLAP_GCC_TYPENAME_WORKAROUND_PATCH''"
definition BACKUP_SUFFIX :: string where
  "BACKUP_SUFFIX = ''.gcc_typename_workaround.bak''"
definition NLOHMANN_OLD :: string where
  "NLOHMANN_OLD = ''static_cast<typename decltype(number_buffer)::difference_type>(n_chars)''"
definition NLOHMANN_NEW :: string where
  "NLOHMANN_NEW = ''static_cast<std::ptrdiff_t>(n_chars) /* OOVERLAP_GCC_TYPENAME_WORKAROUND_PATCH */''"
definition TORCH_OLD :: string where
  "TORCH_OLD = ''static_cast<typename decltype(impl_->list)::difference_type>(pos)''"
definition TORCH_NEW :: string where
  "TORCH_NEW = ''static_cast<std::ptrdiff_t>(pos) /* OOVERLAP_GCC_TYPENAME_WORKAROUND_PATCH */''"
definition CSTDDEF :: string where
  "CSTDDEF = ''#include <cstddef>''"
definition PRAGMA_ONCE :: string where
  "PRAGMA_ONCE = ''#pragma once''"

type_synonym files = "string \<rightharpoonup> string"

section \<open>Paths\<close>

definition path_join :: "string \<Rightarrow> string \<Rightarrow> string" where
  "path_join p q = (if p = ''/'' then p @ q else p @ ''/'' @ q)"

text \<open>\<open>[cur, *cur.parents]\<close> of an absolute path.\<close>

definition with_parents :: "string \<Rightarrow> string list" where
  "with_parents p =
     (let parts = filter (\<lambda>w. w \<noteq> []) (py_split CHR ''/'' p)
      in map (\<lambda>k. ''/'' @ py_join ''/'' (take k parts)) (rev [0..<Suc (length parts)]))"

text \<open>What the system and the interpreter answer: directories, file listing, installation paths; an exception
  where the code catches one.\<close>

record site =
  is_dir :: "string \<Rightarrow> bool"
  listing :: "string list"
  torch_dir :: "string option"
  py_prefix :: string
  py_exec_prefix :: string
  site_packages :: "string list option"
  user_site :: "string option"
  search_path :: "string list"

definition path_exists :: "site \<Rightarrow> files \<Rightarrow> string \<Rightarrow> bool" where
  "path_exists S fs p \<longleftrightarrow> fs p \<noteq> None \<or> is_dir S p"

definition repo_root_from :: "site \<Rightarrow> files \<Rightarrow> string \<Rightarrow> string" where
  "repo_root_from S fs start =
     (let cur = (if fs start \<noteq> None then (case with_parents start of _ # p # _ \<Rightarrow> p | _ \<Rightarrow> start) else start)
      in case filter (\<lambda>p. path_exists S fs (path_join p ''.git'') \<or> path_exists S fs (path_join p ''src''))
                (with_parents cur) of
           [] \<Rightarrow> cur
         | p # _ \<Rightarrow> p)"

definition backup_path :: "string \<Rightarrow> string" where
  "backup_path path = path @ BACKUP_SUFFIX"

section \<open>The text of a header\<close>

definition include_line :: "string \<Rightarrow> bool" where
  "include_line line = prefix ''#include'' (dropWhile is_space line)"

definition last_include :: "string list \<Rightarrow> nat option" where
  "last_include lines =
     (case filter (\<lambda>i. include_line (lines ! i)) [0..<min 80 (length lines)] of [] \<Rightarrow> None | is \<Rightarrow> Some (last is))"

definition ensure_cstddef_for_std_ptrdiff_t :: "string \<Rightarrow> string" where
  "ensure_cstddef_for_std_ptrdiff_t txt =
     (if contains CSTDDEF txt then txt
      else if contains PRAGMA_ONCE txt
        then py_replace_first PRAGMA_ONCE (PRAGMA_ONCE @ [newline, newline] @ CSTDDEF) txt
      else let lines = splitlines_keep txt
           in case last_include lines of
                Some i \<Rightarrow> concat (take (Suc i) lines) @ (CSTDDEF @ [newline]) @ concat (drop (Suc i) lines)
              | None \<Rightarrow> CSTDDEF @ [newline] @ txt)"

text \<open>The loop over \<open>replacements\<close>: the new text and \<open>changed\<close>.\<close>

fun replace_all :: "(string \<times> string) list \<Rightarrow> string \<Rightarrow> bool \<Rightarrow> string \<times> bool" where
  "replace_all [] txt changed = (txt, changed)"
| "replace_all ((old, new) # rs) txt changed =
     (if contains old txt then replace_all rs (py_replace old new txt) True else replace_all rs txt changed)"

section \<open>Patching and reverting one file\<close>

definition patch_file :: "files \<Rightarrow> string \<Rightarrow> (string \<times> string) list \<Rightarrow> bool \<Rightarrow> files \<times> bool" where
  "patch_file fs path replacements dry_run =
     (case fs path of
        None \<Rightarrow> (fs, False)
      | Some original \<Rightarrow>
          if contains MARKER original then (fs, True)
          else
            let (txt, changed) = replace_all replacements original False
            in if \<not> changed then (fs, False)
               else
                 let txt = ensure_cstddef_for_std_ptrdiff_t txt; bak = backup_path path
                 in if dry_run then (fs, True)
                    else
                      let fs1 = (if fs bak = None then fs(bak \<mapsto> original) else fs)
                      in (fs1(path \<mapsto> txt), True))"

definition revert_file :: "files \<Rightarrow> string \<Rightarrow> files \<times> bool" where
  "revert_file fs path =
     (case fs (backup_path path) of None \<Rightarrow> (fs, False) | Some original \<Rightarrow> (fs(path \<mapsto> original), True))"

section \<open>The headers\<close>

definition add_new :: "'a list \<Rightarrow> 'a \<Rightarrow> 'a list" where
  "add_new found p = (if p \<in> set found then found else found @ [p])"

definition nlohmann_places :: "string list" where
  "nlohmann_places =
     [''src/third-party/nlohmann_json/include/nlohmann/detail/output/serializer.hpp'',
      ''src/third_party/nlohmann_json/include/nlohmann/detail/output/serializer.hpp'',
      ''third-party/nlohmann_json/include/nlohmann/detail/output/serializer.hpp'',
      ''third_party/nlohmann_json/include/nlohmann/detail/output/serializer.hpp'']"

text \<open>\<open>d.rglob(name)\<close>: the listed files below \<open>d\<close> with that name.\<close>

definition rglob :: "site \<Rightarrow> files \<Rightarrow> string \<Rightarrow> string \<Rightarrow> string list" where
  "rglob S fs d name = filter (\<lambda>p. fs p \<noteq> None \<and> prefix (path_join d []) p \<and> suffix (''/'' @ name) p) (listing S)"

definition candidate_nlohmann_paths :: "site \<Rightarrow> files \<Rightarrow> string \<Rightarrow> string list" where
  "candidate_nlohmann_paths S fs repo_dir =
     (let found = foldl add_new [] (filter (\<lambda>p. fs p \<noteq> None) (map (path_join repo_dir) nlohmann_places))
      in if found \<noteq> [] then found
         else
           let roots = filter (path_exists S fs) (map (path_join repo_dir) [''src'', ''third-party'', ''third_party''])
           in foldl add_new []
                (filter (\<lambda>p. contains ''nlohmann'' (replace_char (char_of (92 :: nat)) CHR ''/'' p)
                    \<and> contains ''/detail/output/serializer.hpp'' (replace_char (char_of (92 :: nat)) CHR ''/'' p))
                  (concat (map (\<lambda>d. rglob S fs d ''serializer.hpp'') roots))))"

definition torch_places :: "site \<Rightarrow> string option \<Rightarrow> string list" where
  "torch_places S extra =
     (case extra of None \<Rightarrow> [] | Some p \<Rightarrow> [p])
     @ (case torch_dir S of None \<Rightarrow> [] | Some d \<Rightarrow> [path_join d ''include/ATen/core/List_inl.h''])
     @ concat (map (\<lambda>pre. [path_join pre ''lib/python3.13/site-packages/torch/include/ATen/core/List_inl.h'',
                          path_join pre ''site-packages/torch/include/ATen/core/List_inl.h''])
         (filter (\<lambda>raw. raw \<noteq> [])
           ([py_prefix S, py_exec_prefix S] @ (case site_packages S of None \<Rightarrow> [] | Some ps \<Rightarrow> ps)
            @ (case user_site S of None \<Rightarrow> [] | Some p \<Rightarrow> [p]))))
     @ map (\<lambda>entry. path_join entry ''torch/include/ATen/core/List_inl.h'')
         (filter (\<lambda>entry. entry \<noteq> []) (search_path S))"

definition candidate_torch_list_inl_paths :: "site \<Rightarrow> files \<Rightarrow> string option \<Rightarrow> string list" where
  "candidate_torch_list_inl_paths S fs extra = foldl add_new [] (filter (\<lambda>p. fs p \<noteq> None) (torch_places S extra))"

section \<open>The command\<close>

fun patch_paths :: "(string \<times> string) list \<Rightarrow> bool \<Rightarrow> files \<Rightarrow> string list \<Rightarrow> bool \<Rightarrow> files \<times> bool" where
  "patch_paths replacements dry_run fs [] ok = (fs, ok)"
| "patch_paths replacements dry_run fs (p # ps) ok =
     (let (fs', r) = patch_file fs p replacements dry_run
      in patch_paths replacements dry_run fs' ps (r \<or> ok))"

fun revert_paths :: "files \<Rightarrow> string list \<Rightarrow> bool \<Rightarrow> files \<times> bool" where
  "revert_paths fs [] ok = (fs, ok)"
| "revert_paths fs (p # ps) ok = (let (fs', r) = revert_file fs p in revert_paths fs' ps (r \<and> ok))"

text \<open>\<open>start\<close> is the resolved \<open>--repo-root\<close>, \<open>extra\<close> the resolved \<open>--torch-list-inl\<close>; the result is the exit code.\<close>

definition patch_main :: "site \<Rightarrow> string \<Rightarrow> string option \<Rightarrow> bool \<Rightarrow> bool \<Rightarrow> files \<Rightarrow> files \<times> int" where
  "patch_main S start extra dry_run revert fs =
     (let repo_dir = repo_root_from S fs start;
          nlohmann_paths = candidate_nlohmann_paths S fs repo_dir;
          torch_paths = candidate_torch_list_inl_paths S fs extra
      in if revert then
           let (fs', ok) = revert_paths fs (nlohmann_paths @ torch_paths) True in (fs', if ok then 0 else 1)
         else
           let (fs1, nlohmann_ok) = patch_paths [(NLOHMANN_OLD, NLOHMANN_NEW)] dry_run fs nlohmann_paths False;
               (fs2, torch_ok) = patch_paths [(TORCH_OLD, TORCH_NEW)] dry_run fs1 torch_paths False
           in (fs2, if nlohmann_ok \<and> torch_ok then 0 else 1))"

end
