(* ===== verification/PatchProperties.thy ===== *)
theory PatchProperties
  imports PatchHeaders
begin

text \<open>
  Patching the headers can be undone and repeated. The proofs keep one invariant, \<open>backed\<close>: a file either is as it
  was and has no backup, or its backup holds the original and the file carries the marker.
\<close>

section \<open>The marker survives the edits\<close>

lemma sublist_left: "sublist m a \<Longrightarrow> sublist m (a @ b)"
  by (simp add: sublist_append)

lemma sublist_right: "sublist m b \<Longrightarrow> sublist m (a @ b)"
  by (simp add: sublist_append)

lemma sublist_around:
  assumes "sublist m (a @ w @ b)" and "set m \<inter> set w = {}" and "w \<noteq> []"
  shows "sublist m a \<or> sublist m b"
proof -
  obtain u v where uv: "a @ w @ b = u @ m @ v" using assms(1) by (auto simp: sublist_def)
  show ?thesis
  proof (cases "length a \<le> length u")
    case False
    have "length (u @ m) \<le> length a"
    proof (rule ccontr)
      assume "\<not> length (u @ m) \<le> length a"
      then have "(u @ m @ v) ! length a \<in> set m"
        using False by (auto simp: nth_append)
      moreover have "(a @ w @ b) ! length a \<in> set w" using assms(3) by (simp add: nth_append)
      ultimately show False using uv assms(2) by auto
    qed
    then have "prefix (u @ m) a" using uv by (metis append.assoc prefixI prefix_length_prefix)
    then show ?thesis by (auto simp: prefix_def sublist_def)
  next
    case True
    then obtain u' where u': "u = a @ u'" using uv by (metis append_eq_append_conv_if append_take_drop_id)
    then have rest: "w @ b = u' @ m @ v" using uv by simp
    show ?thesis
    proof (cases "length w \<le> length u'")
      case True
      then obtain u'' where "u' = w @ u''" using rest by (metis append_eq_append_conv_if append_take_drop_id)
      then show ?thesis using rest by (auto simp: sublist_def)
    next
      case False
      have "m = []"
      proof (rule ccontr)
        assume "m \<noteq> []"
        then have "(u' @ m @ v) ! length u' \<in> set m" by (simp add: nth_append)
        moreover have "(w @ b) ! length u' \<in> set w" using False by (simp add: nth_append)
        ultimately show False using rest assms(2) by auto
      qed
      then show ?thesis by simp
    qed
  qed
qed

lemma py_replace_new: "contains old s \<Longrightarrow> old \<noteq> [] \<Longrightarrow> sublist new (py_replace old new s)"
proof (induction old new s rule: py_replace.induct)
  case (2 old new c cs)
  then show ?case by (auto intro: sublist_appendI sublist_Cons_right [THEN iffD2])
qed simp

lemma py_replace_first_split:
  assumes "contains old s" and "old \<noteq> []"
  shows "\<exists>a b. s = a @ old @ b \<and> py_replace_first old new s = a @ new @ b"
  using assms
proof (induction s)
  case (Cons c cs)
  show ?case
  proof (cases "prefix old (c # cs)")
    case True
    then obtain b where b: "c # cs = old @ b" by (auto simp: prefix_def)
    have "py_replace_first old new (c # cs) = new @ drop (length old) (c # cs)" using True Cons.prems(2) by simp
    also have "drop (length old) (c # cs) = b" unfolding b by simp
    finally show ?thesis using b by (intro exI [of _ "[]"] exI [of _ b]) simp
  next
    case False
    then obtain a b where "cs = a @ old @ b" "py_replace_first old new cs = a @ new @ b" using Cons by auto
    with False show ?thesis by (intro exI [of _ "c # a"] exI [of _ b]) simp
  qed
qed simp

lemma marker_facts:
  "sublist MARKER NLOHMANN_NEW" "sublist MARKER TORCH_NEW" "set MARKER \<inter> set PRAGMA_ONCE = {}"
  "NLOHMANN_OLD \<noteq> []" "TORCH_OLD \<noteq> []" "PRAGMA_ONCE \<noteq> []" "\<forall>c \<in> set MARKER. \<not> line_break c"
proof -
  have "contains MARKER NLOHMANN_NEW \<and> contains MARKER TORCH_NEW" by code_simp
  then show "sublist MARKER NLOHMANN_NEW" "sublist MARKER TORCH_NEW" by (simp_all add: contains_sublist)
  have "list_all (\<lambda>c. c \<notin> set PRAGMA_ONCE \<and> \<not> line_break c) MARKER" by code_simp
  then show "set MARKER \<inter> set PRAGMA_ONCE = {}" "\<forall>c \<in> set MARKER. \<not> line_break c" by (auto simp: list_all_iff)
qed (simp_all add: NLOHMANN_OLD_def TORCH_OLD_def PRAGMA_ONCE_def)

lemma concat_splitlines_keep [simp]: "concat (splitlines_keep s) = s"
  by (induction s) (auto split: list.splits)

lemma splitlines_keep_ends:
  "i + 1 < length (splitlines_keep s) \<Longrightarrow>
     \<exists>w c. splitlines_keep s ! i = w @ [c] \<and> line_break c"
proof (induction s arbitrary: i)
  case (Cons c cs)
  show ?case
  proof (cases "line_break c \<and> \<not> (c = char_of (13 :: nat) \<and> cs \<noteq> [] \<and> hd cs = newline)")
    case True
    show ?thesis
    proof (cases i)
      case 0
      then show ?thesis using True by (intro exI [of _ "[]"]) auto
    next
      case (Suc j)
      then show ?thesis using True Cons by simp
    qed
  next
    case False
    then obtain w ws where w: "splitlines_keep cs = w # ws"
      using Cons.prems by (cases "splitlines_keep cs") (auto split: if_splits)
    have split: "splitlines_keep (c # cs) = (c # w) # ws" using False w by simp
    show ?thesis
    proof (cases i)
      case 0
      then obtain u d where "w = u @ [d]" "line_break d"
        using Cons.IH [of 0] Cons.prems w split by auto
      then show ?thesis unfolding split 0 by (intro exI [of _ "c # u"] exI [of _ d]) simp
    next
      case (Suc j)
      then show ?thesis using Cons.IH [of i] Cons.prems w split by simp
    qed
  qed
qed simp

lemma marker_at_line_end:
  assumes "sublist MARKER s" and "i < length (splitlines_keep s)"
  shows "sublist MARKER (concat (take (Suc i) (splitlines_keep s)) @ x @ concat (drop (Suc i) (splitlines_keep s)))"
proof (cases "Suc i = length (splitlines_keep s)")
  case True
  then show ?thesis using sublist_left [OF assms(1), of x] by simp
next
  case False
  then obtain w c where w: "splitlines_keep s ! i = w @ [c]" "line_break c"
    using splitlines_keep_ends [of i s] assms(2) by auto
  let ?a = "concat (take i (splitlines_keep s)) @ w" and ?b = "concat (drop (Suc i) (splitlines_keep s))"
  have head: "concat (take (Suc i) (splitlines_keep s)) = ?a @ [c]"
    using w(1) assms(2) by (simp add: take_Suc_conv_app_nth)
  have "s = concat (take (Suc i) (splitlines_keep s)) @ ?b"
    by (metis append_take_drop_id concat_append concat_splitlines_keep)
  then have "sublist MARKER (?a @ [c] @ ?b)" using assms(1) head by simp
  then have "sublist MARKER ?a \<or> sublist MARKER ?b"
    by (rule sublist_around) (use w(2) marker_facts(7) in auto)
  then show ?thesis unfolding head append_assoc
  proof
    assume "sublist MARKER ?a"
    from sublist_left [OF this, of "[c] @ x @ ?b"] show "sublist MARKER (concat (take i (splitlines_keep s)) @ w @ [c] @ x @ ?b)"
      by simp
  next
    assume "sublist MARKER ?b"
    from sublist_right [OF this, of "?a @ [c] @ x"] show "sublist MARKER (concat (take i (splitlines_keep s)) @ w @ [c] @ x @ ?b)"
      by simp
  qed
qed

lemma last_include_less: "last_include lines = Some i \<Longrightarrow> i < length lines"
proof -
  assume a: "last_include lines = Some i"
  let ?is = "filter (\<lambda>i. include_line (lines ! i)) [0..<min 80 (length lines)]"
  have "i = last ?is \<and> ?is \<noteq> []" using a by (auto simp: last_include_def split: list.splits)
  then have "i \<in> set ?is" using last_in_set by blast
  then show ?thesis by simp
qed

lemma marker_kept: "sublist MARKER s \<Longrightarrow> sublist MARKER (ensure_cstddef_for_std_ptrdiff_t s)"
proof -
  assume a: "sublist MARKER s"
  show ?thesis
  proof (cases "contains CSTDDEF s")
    case False
    show ?thesis
    proof (cases "contains PRAGMA_ONCE s")
      case True
      obtain u v where uv: "s = u @ PRAGMA_ONCE @ v"
        "py_replace_first PRAGMA_ONCE (PRAGMA_ONCE @ [newline, newline] @ CSTDDEF) s
          = u @ (PRAGMA_ONCE @ [newline, newline] @ CSTDDEF) @ v"
        using py_replace_first_split [OF True marker_facts(6)] by blast
      then have "sublist MARKER u \<or> sublist MARKER v" using sublist_around a marker_facts(3,6) by blast
      then have "sublist MARKER (u @ (PRAGMA_ONCE @ [newline, newline] @ CSTDDEF) @ v)"
        by (blast intro: sublist_left sublist_right)
      then show ?thesis using uv(2) True False by (simp add: ensure_cstddef_for_std_ptrdiff_t_def)
    next
      case no: False
      show ?thesis
      proof (cases "last_include (splitlines_keep s)")
        case None
        then show ?thesis using sublist_right [OF a, of "CSTDDEF @ [newline]"] False no
          by (simp add: ensure_cstddef_for_std_ptrdiff_t_def)
      next
        case (Some i)
        then show ?thesis using marker_at_line_end [OF a last_include_less [OF Some], of "CSTDDEF @ [newline]"] False no
          by (simp add: ensure_cstddef_for_std_ptrdiff_t_def Let_def)
      qed
    qed
  qed (use a in \<open>simp add: ensure_cstddef_for_std_ptrdiff_t_def\<close>)
qed


section \<open>One file\<close>

definition is_backup :: "string \<Rightarrow> bool" where
  "is_backup p \<longleftrightarrow> suffix BACKUP_SUFFIX p"

lemma is_backup_path [simp]: "is_backup (backup_path p)"
  by (simp add: is_backup_def backup_path_def suffix_def)

lemma backup_path_inj [simp]: "backup_path p = backup_path q \<longleftrightarrow> p = q"
  by (simp add: backup_path_def)

lemma backup_path_neq: "\<not> is_backup p \<Longrightarrow> backup_path q \<noteq> p"
  by auto

text \<open>The two replacement lists of the command.\<close>

definition header_edit :: "(string \<times> string) list \<Rightarrow> bool" where
  "header_edit rs \<longleftrightarrow> (\<exists>old new. rs = [(old, new)] \<and> old \<noteq> [] \<and> sublist MARKER new)"

lemma header_edits: "header_edit [(NLOHMANN_OLD, NLOHMANN_NEW)]" "header_edit [(TORCH_OLD, TORCH_NEW)]"
  using marker_facts by (auto simp: header_edit_def)

definition edited :: "(string \<times> string) list \<Rightarrow> string \<Rightarrow> string" where
  "edited rs t = ensure_cstddef_for_std_ptrdiff_t (fst (replace_all rs t False))"

definition pending :: "(string \<times> string) list \<Rightarrow> string \<Rightarrow> bool" where
  "pending rs t \<longleftrightarrow> \<not> contains MARKER t \<and> contains (fst (hd rs)) t"

lemma patch_file_eq:
  assumes "header_edit rs"
  shows "patch_file fs p rs dry =
    (case fs p of
       None \<Rightarrow> (fs, False)
     | Some t \<Rightarrow>
         if pending rs t \<and> \<not> dry
         then ((if fs (backup_path p) = None then fs(backup_path p \<mapsto> t) else fs)(p \<mapsto> edited rs t), True)
         else (fs, contains MARKER t \<or> pending rs t))"
  using assms
  by (auto simp: patch_file_def header_edit_def edited_def pending_def Let_def split: option.splits)

lemma edited_marked:
  assumes "header_edit rs" and "pending rs t"
  shows "contains MARKER (edited rs t)"
proof -
  obtain old new where rs: "rs = [(old, new)]" "old \<noteq> []" "sublist MARKER new"
    using assms(1) by (auto simp: header_edit_def)
  have "sublist new (py_replace old new t)" using py_replace_new assms(2) rs by (simp add: pending_def)
  then have "sublist MARKER (py_replace old new t)" using rs(3) by (meson sublist_order.order_trans)
  then show ?thesis using marker_kept assms(2) rs by (simp add: edited_def pending_def contains_sublist)
qed

section \<open>Lists of files\<close>

text \<open>\<open>fs0\<close> is the tree before the first patch.\<close>

definition backed :: "files \<Rightarrow> files \<Rightarrow> string \<Rightarrow> bool" where
  "backed fs0 fs p \<longleftrightarrow>
     (fs (backup_path p) = None \<and> fs p = fs0 p)
     \<or> (\<exists>t t'. fs0 p = Some t \<and> fs (backup_path p) = Some t \<and> fs p = Some t'
          \<and> contains MARKER t' \<and> \<not> contains MARKER t)"

lemma patch_file_backed:
  assumes "header_edit rs" and "\<not> is_backup p" and "\<not> is_backup q" and "backed fs0 fs q" and "backed fs0 fs p"
  shows "backed fs0 (fst (patch_file fs p rs dry)) q"
proof (cases "q = p")
  case True
  then show ?thesis using assms edited_marked [OF assms(1)] backup_path_neq [of p p]
    by (auto simp: patch_file_eq backed_def pending_def split: option.splits)
next
  case False
  then have "fst (patch_file fs p rs dry) q = fs q \<and> fst (patch_file fs p rs dry) (backup_path q) = fs (backup_path q)"
    using assms(1-3) backup_path_neq by (auto simp: patch_file_eq split: option.splits)
  then show ?thesis using assms(4) by (simp add: backed_def)
qed

lemma patch_paths_backed:
  assumes "header_edit rs" and "patch_paths rs dry fs ps ok = (fs', r)" and "\<forall>p \<in> set ps. \<not> is_backup p"
    and "\<forall>q. \<not> is_backup q \<longrightarrow> backed fs0 fs q"
  shows "\<forall>q. \<not> is_backup q \<longrightarrow> backed fs0 fs' q"
  using assms
proof (induction ps arbitrary: fs ok)
  case (Cons p ps)
  obtain fs1 r1 where fs1: "patch_file fs p rs dry = (fs1, r1)" by (metis surj_pair)
  have "\<forall>q. \<not> is_backup q \<longrightarrow> backed fs0 fs1 q"
    using patch_file_backed [OF assms(1), of p _ fs0 fs dry] Cons.prems(3,4) fs1 by auto
  then show ?case using Cons.IH [of fs1] Cons.prems fs1 by simp
qed simp

lemma patch_file_outside:
  "q \<noteq> p \<Longrightarrow> \<not> is_backup q \<Longrightarrow> fst (patch_file fs p rs dry) q = fs q"
  using backup_path_neq by (auto simp: patch_file_def Let_def split: option.splits prod.splits)

lemma patch_paths_outside:
  assumes "patch_paths rs dry fs ps ok = (fs', r)" and "q \<notin> set ps" and "\<not> is_backup q"
  shows "fs' q = fs q"
  using assms
proof (induction ps arbitrary: fs ok)
  case (Cons p ps)
  obtain fs1 r1 where fs1: "patch_file fs p rs dry = (fs1, r1)" by (metis surj_pair)
  have "fs1 q = fs q" using patch_file_outside [of q p fs rs dry] Cons.prems fs1 by simp
  then show ?case using Cons fs1 by simp
qed simp

lemma revert_paths_backed:
  assumes "revert_paths fs ps ok = (fs', r)" and "\<forall>p \<in> set ps. \<not> is_backup p"
    and "\<forall>q. \<not> is_backup q \<longrightarrow> fs (backup_path q) = None \<and> fs q = fs0 q \<or> fs0 q \<noteq> None \<and> fs (backup_path q) = fs0 q"
    and "\<not> is_backup q"
  shows "fs' q = (if q \<in> set ps then fs0 q else fs q) \<and> (r \<longleftrightarrow> ok \<and> (\<forall>p \<in> set ps. fs (backup_path p) \<noteq> None))"
  using assms
proof (induction ps arbitrary: fs ok)
  case (Cons p ps)
  obtain fs1 r1 where fs1: "revert_file fs p = (fs1, r1)" by (metis surj_pair)
  have p: "\<not> is_backup p" using Cons.prems(2) by simp
  have inv: "fs (backup_path x) = None \<and> fs x = fs0 x \<or> fs0 x \<noteq> None \<and> fs (backup_path x) = fs0 x"
    if "\<not> is_backup x" for x using Cons.prems(3) that by blast
  have r1: "r1 = (fs (backup_path p) \<noteq> None)" and baks: "fs1 (backup_path x) = fs (backup_path x)"
    and at: "fs1 x = (if x = p then fs0 p else fs x)" if "\<not> is_backup x" for x
    using fs1 inv [OF p] backup_path_neq [OF p] that by (auto simp: revert_file_def split: option.splits)
  have "\<forall>x. \<not> is_backup x \<longrightarrow> fs1 (backup_path x) = None \<and> fs1 x = fs0 x \<or> fs0 x \<noteq> None \<and> fs1 (backup_path x) = fs0 x"
    using inv at baks by metis
  from Cons.IH [OF _ _ this Cons.prems(4), of "r1 \<and> ok"] Cons.prems(1,2) fs1
  have "fs' q = (if q \<in> set ps then fs0 q else fs1 q) \<and> (r \<longleftrightarrow> (r1 \<and> ok) \<and> (\<forall>p \<in> set ps. fs1 (backup_path p) \<noteq> None))"
    by simp
  then show ?case using at [OF Cons.prems(4)] baks r1 [OF p] Cons.prems(2) by auto
qed simp


section \<open>The lists of the command\<close>

lemma not_backup: "p \<noteq> [] \<Longrightarrow> last p \<noteq> CHR ''k'' \<Longrightarrow> \<not> is_backup p"
  by (auto simp: is_backup_def suffix_def BACKUP_SUFFIX_def)

lemma path_join_not_backup: "q \<noteq> [] \<Longrightarrow> last q \<noteq> CHR ''k'' \<Longrightarrow> \<not> is_backup (path_join p q)"
  by (rule not_backup) (simp_all add: path_join_def)

lemma set_foldl_add_new: "set (foldl add_new found ps) = set found \<union> set ps"
  by (induction ps arbitrary: found) (auto simp: add_new_def)

definition same_tree :: "files \<Rightarrow> files \<Rightarrow> bool" where
  "same_tree fs fs' \<longleftrightarrow> (\<forall>q. \<not> is_backup q \<longrightarrow> (fs' q = None) = (fs q = None))"

definition proper_call :: "string \<Rightarrow> string option \<Rightarrow> bool" where
  "proper_call start extra \<longleftrightarrow> \<not> is_backup start \<and> (\<forall>p. extra = Some p \<longrightarrow> \<not> is_backup p)"

lemma backed_same_tree: "\<forall>q. \<not> is_backup q \<longrightarrow> backed fs0 fs q \<Longrightarrow> same_tree fs0 fs"
  by (fastforce simp: same_tree_def backed_def)

lemma same_filter:
  "same_tree fs fs' \<Longrightarrow> (\<And>p. p \<in> set ps \<Longrightarrow> \<not> is_backup p) \<Longrightarrow>
     filter (\<lambda>p. fs' p \<noteq> None) ps = filter (\<lambda>p. fs p \<noteq> None) ps"
  by (rule filter_cong) (auto simp: same_tree_def)

lemma path_exists_same: "same_tree fs fs' \<Longrightarrow> \<not> is_backup p \<Longrightarrow> path_exists S fs' p = path_exists S fs p"
  by (auto simp: path_exists_def same_tree_def)

lemma repo_root_same: "same_tree fs fs' \<Longrightarrow> \<not> is_backup start \<Longrightarrow> repo_root_from S fs' start = repo_root_from S fs start"
  using path_exists_same [of fs fs' _ S] path_join_not_backup
  by (auto simp: repo_root_from_def same_tree_def Let_def)

lemma suffix_last: "suffix (xs @ [c]) p \<Longrightarrow> p \<noteq> [] \<and> last p = c"
  by (auto simp: suffix_def)

lemma serializer_not_backup: "suffix (''/'' @ ''serializer.hpp'') p \<Longrightarrow> \<not> is_backup p"
proof -
  assume a: "suffix (''/'' @ ''serializer.hpp'') p"
  have "(''/'' @ ''serializer.hpp'') = ''/serializer.hp'' @ [CHR ''p'']" by simp
  from suffix_last [OF a [unfolded this]] show ?thesis by (intro not_backup) simp_all
qed

lemma rglob_not_backup: "p \<in> set (rglob S fs d ''serializer.hpp'') \<Longrightarrow> \<not> is_backup p"
  by (rule serializer_not_backup) (simp only: rglob_def set_filter mem_Collect_eq)

lemma rglob_same: "same_tree fs fs' \<Longrightarrow> rglob S fs' d ''serializer.hpp'' = rglob S fs d ''serializer.hpp''"
  unfolding rglob_def same_tree_def by (intro filter_cong refl) (metis serializer_not_backup)

lemma nlohmann_places_last: "q \<in> set nlohmann_places \<Longrightarrow> q \<noteq> [] \<and> last q = CHR ''p''"
  by (auto simp: nlohmann_places_def)

lemma places_not_backup: "p \<in> set (map (path_join d) nlohmann_places) \<Longrightarrow> \<not> is_backup p"
  using nlohmann_places_last path_join_not_backup by fastforce

lemma candidate_nlohmann_paths_not_backup: "p \<in> set (candidate_nlohmann_paths S fs d) \<Longrightarrow> \<not> is_backup p"
proof -
  assume "p \<in> set (candidate_nlohmann_paths S fs d)"
  moreover have "set (foldl add_new [] (filter Q (concat (map (\<lambda>d. rglob S fs d ''serializer.hpp'') ds))))
      \<subseteq> {p. \<not> is_backup p}" for Q ds
    using rglob_not_backup by (fastforce simp: set_foldl_add_new)
  moreover have "set (foldl add_new [] (filter Q (map (path_join d) nlohmann_places))) \<subseteq> {p. \<not> is_backup p}" for Q
    using places_not_backup by (fastforce simp: set_foldl_add_new simp del: set_map)
  ultimately show ?thesis unfolding candidate_nlohmann_paths_def Let_def
    by (simp only: split: if_splits) blast+
qed

lemma candidate_nlohmann_paths_same:
  "same_tree fs fs' \<Longrightarrow> candidate_nlohmann_paths S fs' d = candidate_nlohmann_paths S fs d"
proof -
  assume st: "same_tree fs fs'"
  have "filter (\<lambda>p. fs' p \<noteq> None) (map (path_join d) nlohmann_places)
      = filter (\<lambda>p. fs p \<noteq> None) (map (path_join d) nlohmann_places)"
    by (rule same_filter [OF st]) (rule places_not_backup)
  moreover have "filter (path_exists S fs') (map (path_join d) [''src'', ''third-party'', ''third_party''])
      = filter (path_exists S fs) (map (path_join d) [''src'', ''third-party'', ''third_party''])"
    by (rule filter_cong) (auto simp: path_exists_same [OF st] path_join_not_backup)
  ultimately show ?thesis by (simp only: candidate_nlohmann_paths_def rglob_same [OF st])
qed

lemma torch_places_not_backup: "p \<in> set (torch_places S extra) \<Longrightarrow> proper_call start extra \<Longrightarrow> \<not> is_backup p"
  by (auto simp: torch_places_def proper_call_def path_join_not_backup split: option.splits)

lemma candidate_torch_same:
  "same_tree fs fs' \<Longrightarrow> proper_call start extra \<Longrightarrow>
     candidate_torch_list_inl_paths S fs' extra = candidate_torch_list_inl_paths S fs extra"
  using same_filter [of fs fs' "torch_places S extra"] torch_places_not_backup
  by (auto simp: candidate_torch_list_inl_paths_def)

lemma candidate_torch_not_backup:
  "p \<in> set (candidate_torch_list_inl_paths S fs extra) \<Longrightarrow> proper_call start extra \<Longrightarrow> \<not> is_backup p"
  using torch_places_not_backup by (fastforce simp: candidate_torch_list_inl_paths_def set_foldl_add_new)

text \<open>The headers a call works on.\<close>

definition headers :: "site \<Rightarrow> files \<Rightarrow> string \<Rightarrow> string option \<Rightarrow> string list" where
  "headers S fs start extra =
     candidate_nlohmann_paths S fs (repo_root_from S fs start) @ candidate_torch_list_inl_paths S fs extra"

lemma headers_same: "same_tree fs fs' \<Longrightarrow> proper_call start extra \<Longrightarrow> headers S fs' start extra = headers S fs start extra"
  using candidate_torch_same candidate_nlohmann_paths_same repo_root_same
  by (fastforce simp: headers_def proper_call_def)

lemma headers_not_backup: "p \<in> set (headers S fs start extra) \<Longrightarrow> proper_call start extra \<Longrightarrow> \<not> is_backup p"
  using candidate_torch_not_backup candidate_nlohmann_paths_not_backup by (fastforce simp: headers_def)

lemma patch_main_run:
  assumes "patch_main S start extra dry False fs = (fs2, code)"
  obtains fs1 a b where
    "patch_paths [(NLOHMANN_OLD, NLOHMANN_NEW)] dry fs (candidate_nlohmann_paths S fs (repo_root_from S fs start)) False = (fs1, a)"
    "patch_paths [(TORCH_OLD, TORCH_NEW)] dry fs1 (candidate_torch_list_inl_paths S fs extra) False = (fs2, b)"
    "code = (if a \<and> b then 0 else 1)"
  using assms by (auto simp: patch_main_def Let_def split: prod.splits)

lemma patch_main_backed:
  assumes "patch_main S start extra dry False fs = (fs2, code)" and "proper_call start extra"
    and "\<forall>q. \<not> is_backup q \<longrightarrow> backed fs0 fs q"
  shows "\<forall>q. \<not> is_backup q \<longrightarrow> backed fs0 fs2 q"
    and "\<not> is_backup q \<Longrightarrow> q \<notin> set (headers S fs start extra) \<Longrightarrow> fs2 q = fs q"
proof -
  obtain fs1 a b where runs:
    "patch_paths [(NLOHMANN_OLD, NLOHMANN_NEW)] dry fs (candidate_nlohmann_paths S fs (repo_root_from S fs start)) False = (fs1, a)"
    "patch_paths [(TORCH_OLD, TORCH_NEW)] dry fs1 (candidate_torch_list_inl_paths S fs extra) False = (fs2, b)"
    using patch_main_run [OF assms(1)] by metis
  have "\<forall>q. \<not> is_backup q \<longrightarrow> backed fs0 fs1 q"
    by (rule patch_paths_backed [OF header_edits(1) runs(1) _ assms(3)]) (use candidate_nlohmann_paths_not_backup in blast)
  then show "\<forall>q. \<not> is_backup q \<longrightarrow> backed fs0 fs2 q"
    by (rule patch_paths_backed [OF header_edits(2) runs(2), rotated]) (use candidate_torch_not_backup assms(2) in blast)
  show "fs2 q = fs q" if "\<not> is_backup q" "q \<notin> set (headers S fs start extra)"
    using patch_paths_outside [OF runs(1), of q] patch_paths_outside [OF runs(2), of q] that by (simp add: headers_def)
qed

text \<open>C19: Reverting undoes patching. On a tree without backup files, \<open>--revert\<close> after a patch run leaves every file
  other than the backups as it was before the patch, whichever headers exist and wherever they are found; and it
  reports success exactly if the patch run had changed every header it found. (The paths given on the command line are
  not backup files themselves.)\<close>
theorem revert_undoes_patch:
  assumes "patch_main S start extra False False fs = (fs1, code1)"
    and "patch_main S start extra dry True fs1 = (fs2, code2)"
    and "\<forall>p. fs (backup_path p) = None" and "proper_call start extra"
  shows "(\<forall>p. \<not> is_backup p \<longrightarrow> fs2 p = fs p)
     \<and> (code2 = 0 \<longleftrightarrow> (\<forall>p \<in> set (headers S fs start extra). fs1 p \<noteq> fs p))"
proof -
  let ?hs = "headers S fs start extra"
  have start: "\<forall>q. \<not> is_backup q \<longrightarrow> backed fs fs q" using assms(3) by (simp add: backed_def)
  note patched = patch_main_backed [OF assms(1,4) start]
  have hs: "headers S fs1 start extra = ?hs" by (rule headers_same [OF backed_same_tree [OF patched(1)] assms(4)])
  have nb: "\<forall>p \<in> set ?hs. \<not> is_backup p" using headers_not_backup [OF _ assms(4)] by blast
  obtain r where r: "revert_paths fs1 ?hs True = (fs2, r)" and code: "code2 = (if r then 0 else 1)"
    using assms(2) hs by (auto simp: patch_main_def headers_def Let_def split: prod.splits)
  have inv: "\<forall>q. \<not> is_backup q \<longrightarrow> fs1 (backup_path q) = None \<and> fs1 q = fs q \<or> fs q \<noteq> None \<and> fs1 (backup_path q) = fs q"
    using patched(1) by (fastforce simp: backed_def)
  have "fs2 p = fs p" if "\<not> is_backup p" for p
    using revert_paths_backed [OF r nb inv that] patched(2) [OF that] by auto
  moreover have "(fs1 (backup_path p) \<noteq> None) = (fs1 p \<noteq> fs p)" if "p \<in> set ?hs" for p
    using patched(1) nb that by (fastforce simp: backed_def)
  moreover have "r \<longleftrightarrow> (\<forall>p \<in> set ?hs. fs1 (backup_path p) \<noteq> None)" if "\<not> is_backup p" for p
    using revert_paths_backed [OF r nb inv that] by simp
  ultimately show ?thesis using code assms(4) by (auto simp: proper_call_def)
qed

definition demo_site :: site where
  "demo_site = \<lparr>is_dir = (\<lambda>p. p \<in> {''/r'', ''/r/src''}), listing = [], torch_dir = None, py_prefix = ''/usr'',
     py_exec_prefix = ''/usr'', site_packages = None, user_site = None, search_path = []\<rparr>"

definition demo_header :: string where "demo_header = ''/t/List_inl.h''"

definition demo_tree :: files where
  "demo_tree = [path_join ''/r'' (nlohmann_places ! 2) \<mapsto> NLOHMANN_OLD, demo_header \<mapsto> TORCH_OLD]"

lemma demo_call: "proper_call ''/r'' (Some demo_header)"
  by (simp add: proper_call_def not_backup demo_header_def)

lemma demo_no_backups: "\<forall>p. demo_tree (backup_path p) = None"
proof -
  have "\<not> is_backup demo_header" "\<not> is_backup (path_join ''/r'' (nlohmann_places ! 2))"
    by (simp add: not_backup demo_header_def) (rule places_not_backup [where d = "''/r''"], simp add: nlohmann_places_def)
  then show ?thesis using backup_path_neq by (auto simp: demo_tree_def)
qed

lemma revert_undoes_patch_witness:
  "fst (patch_main demo_site ''/r'' (Some demo_header) False True
     (fst (patch_main demo_site ''/r'' (Some demo_header) False False demo_tree))) demo_header = Some TORCH_OLD"
proof -
  obtain fs1 c1 where r1: "patch_main demo_site ''/r'' (Some demo_header) False False demo_tree = (fs1, c1)"
    by (metis surj_pair)
  obtain fs2 c2 where r2: "patch_main demo_site ''/r'' (Some demo_header) False True fs1 = (fs2, c2)"
    by (metis surj_pair)
  have "\<not> is_backup demo_header" by (simp add: not_backup demo_header_def)
  then have "fs2 demo_header = demo_tree demo_header"
    using revert_undoes_patch [OF r1 r2 demo_no_backups demo_call] by blast
  moreover have "demo_tree demo_header = Some TORCH_OLD" by (simp add: demo_tree_def)
  ultimately show ?thesis by (simp add: r1 r2)
qed

section \<open>Patching again\<close>

definition marked :: "files \<Rightarrow> string \<Rightarrow> bool" where
  "marked fs p \<longleftrightarrow> (\<exists>t. fs p = Some t \<and> contains MARKER t)"

definition up_to_date :: "(string \<times> string) list \<Rightarrow> files \<Rightarrow> string \<Rightarrow> bool" where
  "up_to_date rs fs p \<longleftrightarrow> (\<forall>t. fs p = Some t \<longrightarrow> \<not> pending rs t)"

lemma patch_settled:
  "header_edit rs \<Longrightarrow> up_to_date rs fs p \<Longrightarrow> patch_file fs p rs dry = (fs, marked fs p)"
  by (auto simp: patch_file_eq up_to_date_def marked_def split: option.splits)

lemma patch_file_after:
  assumes "header_edit rs" and "patch_file fs p rs False = (fs', r)" and "\<not> is_backup p" and "\<not> is_backup q"
  shows "up_to_date rs fs' p" and "r \<longrightarrow> marked fs' p" and "up_to_date rs' fs q \<Longrightarrow> up_to_date rs' fs' q"
    and "marked fs q \<Longrightarrow> marked fs' q" and "(fs' q = None) = (fs q = None)"
  using assms edited_marked [OF assms(1)] backup_path_neq [OF assms(3)] backup_path_neq [OF assms(4)]
  by (auto simp: patch_file_eq up_to_date_def marked_def split: option.splits if_splits)
    (auto simp: pending_def)

lemma patch_paths_settled:
  "header_edit rs \<Longrightarrow> \<forall>p \<in> set ps. up_to_date rs fs p \<Longrightarrow>
     patch_paths rs dry fs ps ok = (fs, ok \<or> (\<exists>p \<in> set ps. marked fs p))"
  by (induction ps arbitrary: ok) (auto simp: patch_settled)

lemma patch_paths_after:
  assumes "header_edit rs" and "patch_paths rs False fs ps ok = (fs', r)" and "\<forall>p \<in> set ps. \<not> is_backup p"
  shows "(\<forall>p \<in> set ps. up_to_date rs fs' p) \<and> (r \<longrightarrow> ok \<or> (\<exists>p \<in> set ps. marked fs' p))
     \<and> (\<forall>q rs'. \<not> is_backup q \<longrightarrow> (up_to_date rs' fs q \<longrightarrow> up_to_date rs' fs' q) \<and> (marked fs q \<longrightarrow> marked fs' q)
          \<and> (fs' q = None) = (fs q = None))"
  using assms
proof (induction ps arbitrary: fs ok)
  case (Cons p ps)
  obtain fs1 r1 where fs1: "patch_file fs p rs False = (fs1, r1)" by (metis surj_pair)
  have p: "\<not> is_backup p" using Cons.prems(3) by simp
  note step = patch_file_after [OF assms(1) fs1 p]
  have "patch_paths rs False fs1 ps (r1 \<or> ok) = (fs', r)" using Cons.prems(2) fs1 by simp
  note rest = Cons.IH [OF assms(1) this]
  have nb: "\<forall>x \<in> set ps. \<not> is_backup x" using Cons.prems(3) by simp
  note later = rest [OF nb]
  have "up_to_date rs fs' p" using later step(1) [OF p] p by blast
  moreover have "r \<longrightarrow> ok \<or> (\<exists>x \<in> set (p # ps). marked fs' x)" using later step(2) [OF p] p by auto
  moreover have "(up_to_date rs' fs q \<longrightarrow> up_to_date rs' fs' q) \<and> (marked fs q \<longrightarrow> marked fs' q) \<and> (fs' q = None) = (fs q = None)"
    if "\<not> is_backup q" for q rs'
    using later step(4,5) [OF that] step(3) [OF that, of rs'] that by auto
  ultimately show ?case using later by auto
qed simp

lemma patch_paths_dry: "fst (patch_paths rs True fs ps ok) = fs"
  by (induction ps arbitrary: ok) (auto simp: patch_file_def Let_def split: option.splits prod.splits)

lemma patch_main_dry: "fst (patch_main S start extra True False fs) = fs"
proof -
  obtain fs2 code where run: "patch_main S start extra True False fs = (fs2, code)" by (metis surj_pair)
  from patch_main_run [OF this] have "fs2 = fs" by (metis fst_conv patch_paths_dry)
  then show ?thesis using run by simp
qed

text \<open>C33: Patching twice is patching once. After a patch run a second one changes no file, and succeeds if
  the first did; a dry run changes nothing at any time. A successful run leaves a marked header in
  each of the two libraries.\<close>
theorem patching_is_idempotent:
  assumes "patch_main S start extra False False fs = (fs1, code1)" and "proper_call start extra"
  shows "(\<exists>c. patch_main S start extra dry False fs1 = (fs1, c) \<and> (code1 = 0 \<longrightarrow> c = 0))
     \<and> fst (patch_main S start extra True False fs) = fs
     \<and> (code1 = 0 \<longrightarrow> (\<exists>p \<in> set (candidate_nlohmann_paths S fs (repo_root_from S fs start)). marked fs1 p)
          \<and> (\<exists>p \<in> set (candidate_torch_list_inl_paths S fs extra). marked fs1 p))"
proof -
  let ?ns = "candidate_nlohmann_paths S fs (repo_root_from S fs start)"
  let ?ts = "candidate_torch_list_inl_paths S fs extra"
  obtain fs' a b where runs: "patch_paths [(NLOHMANN_OLD, NLOHMANN_NEW)] False fs ?ns False = (fs', a)"
    "patch_paths [(TORCH_OLD, TORCH_NEW)] False fs' ?ts False = (fs1, b)" and code: "code1 = (if a \<and> b then 0 else 1)"
    using patch_main_run [OF assms(1)] by metis
  have nb: "\<forall>p \<in> set ?ns. \<not> is_backup p" "\<forall>p \<in> set ?ts. \<not> is_backup p"
    using candidate_nlohmann_paths_not_backup candidate_torch_not_backup assms(2) by blast+
  note n = patch_paths_after [OF header_edits(1) runs(1) nb(1)] and t = patch_paths_after [OF header_edits(2) runs(2) nb(2)]
  have "same_tree fs fs1" using n t by (auto simp: same_tree_def)
  then have same: "candidate_nlohmann_paths S fs1 (repo_root_from S fs1 start) = ?ns"
    "candidate_torch_list_inl_paths S fs1 extra = ?ts"
    using candidate_nlohmann_paths_same repo_root_same candidate_torch_same [OF _ assms(2)] assms(2)
    by (simp_all add: proper_call_def)
  have up_to_date: "\<forall>p \<in> set ?ns. up_to_date [(NLOHMANN_OLD, NLOHMANN_NEW)] fs1 p" "\<forall>p \<in> set ?ts. up_to_date [(TORCH_OLD, TORCH_NEW)] fs1 p"
    using n t nb by auto
  have marks: "a \<longrightarrow> (\<exists>p \<in> set ?ns. marked fs1 p)" "b \<longrightarrow> (\<exists>p \<in> set ?ts. marked fs1 p)"
    using n t nb by auto
  have "patch_main S start extra dry False fs1
      = (fs1, if (\<exists>p \<in> set ?ns. marked fs1 p) \<and> (\<exists>p \<in> set ?ts. marked fs1 p) then 0 else 1)"
    by (simp add: patch_main_def Let_def same patch_paths_settled [OF header_edits(1) up_to_date(1)]
        patch_paths_settled [OF header_edits(2) up_to_date(2)])
  moreover have "fst (patch_main S start extra True False fs) = fs"
    by (rule patch_main_dry)
  ultimately show ?thesis using marks code by (auto split: if_splits)
qed

lemma patching_is_idempotent_witness:
  "\<exists>c. patch_main demo_site ''/r'' (Some demo_header) True False
     (fst (patch_main demo_site ''/r'' (Some demo_header) False False demo_tree))
     = (fst (patch_main demo_site ''/r'' (Some demo_header) False False demo_tree), c)"
  using patching_is_idempotent [OF prod.collapse [symmetric] demo_call] by blast

section \<open>A backup of an older version\<close>

text \<open>An existing backup is never renewed. When a header was patched, then replaced by a newer version, and is
  patched again, reverting puts the old version back.\<close>
lemma stale_backup_restored:
  assumes "header_edit rs" and "fs p = Some new_version" and "pending rs new_version"
    and "fs (backup_path p) = Some old_version"
  shows "fst (revert_file (fst (patch_file fs p rs False)) p) p = Some old_version"
  using assms backup_path_def [of p] by (simp add: patch_file_eq revert_file_def BACKUP_SUFFIX_def)

end
