(* ===== verification/Bandwidth.thy ===== *)
theory Bandwidth
  imports Latency PyStr
begin

text \<open>
  \<open>tool/bandwidth.py\<close>: every rank times the collective for a list of sizes, the slowest rank decides, and the
  resulting bandwidth curve is saved for the latency predictor of the search. The GPUs are a parameter: the times
  of the measured calls of a rank. The plot beside the curve and the printed tables are left out; barriers,
  warm-up calls and the calls to the native extension are the events of a rank.
\<close>

section \<open>Sizes, statistics, devices\<close>

definition make_sizes :: "int list" where
  "make_sizes = map (\<lambda>i. \<lfloor>(2 :: real) powr (20 + of_int i / 4)\<rfloor> div 1024 * 1024) (py_range 36)"

text \<open>The product \<open>0.90 * n\<close> is exact enough in floating point for the ceiling to be that of the real product.\<close>

definition p90_from_tensor :: "real list \<Rightarrow> real res" where
  "p90_from_tensor x =
     (let x_sorted = sort x; n = int (length x_sorted); idx = \<lceil>9 / 10 * of_int n :: real\<rceil> - 1
      in py_get x_sorted (max 0 (min idx (n - 1))))"

text \<open>\<open>torch.median\<close> is the lower median.\<close>

definition median :: "real list \<Rightarrow> real" where
  "median x = sort x ! ((length x - 1) div 2)"

definition parse_devices :: "string \<Rightarrow> int list res" where
  "parse_devices s =
     bind_res (map_res py_int (filter (\<lambda>x. py_strip x \<noteq> []) (py_split CHR '','' s))) (\<lambda>devices.
     bind_res (require (2 \<le> length devices) (ValueError ''--devices must contain at least two CUDA device ids'')) (\<lambda>_.
     bind_res (require (distinct devices) (ValueError ''--devices must not contain duplicate CUDA device ids'')) (\<lambda>_.
     bind_res (require (\<forall>d \<in> set devices. 0 \<le> d) (ValueError ''--devices must contain non-negative CUDA device ids'')) (\<lambda>_.
     Inr devices))))"

definition backend_label :: "string \<Rightarrow> string res" where
  "backend_label backend =
     (if backend = ''nccl'' then Inr ''nccl'' else if backend = ''ooverlap'' then Inr ''ooverlap''
      else Inl (ValueError ''Unsupported comm_backend''))"

section \<open>One rank\<close>

text \<open>What a rank does, in order.\<close>

datatype event =
    Native string
  | Barrier
  | Sleep real
  | Timed string

definition init_comm :: "string \<Rightarrow> event list res" where
  "init_comm backend =
     (if backend = ''nccl'' then Inr [Native ''nccl_init'']
      else if backend = ''ooverlap'' then Inr [Native ''cutlass_init'', Native ''ooverlap_ipc_init'']
      else Inl (ValueError ''Unsupported comm_backend''))"

definition release_comm :: "string \<Rightarrow> event list" where
  "release_comm backend = (if backend = ''ooverlap'' then [Native ''ooverlap_release''] else [])"

text \<open>The native call a collective goes to.\<close>

definition call_comm :: "string \<Rightarrow> string \<Rightarrow> string res" where
  "call_comm backend comm_op =
     (if backend = ''nccl'' then
        (if comm_op = ''all_reduce'' then Inr ''nccl_allreduce''
         else if comm_op = ''reduce_scatter'' then Inr ''nccl_reducescatter''
         else Inl (ValueError ''Unsupported comm_op''))
      else if backend = ''ooverlap'' then
        (if comm_op \<noteq> ''all_reduce'' then Inl (RuntimeError ''ooverlap backend currently supports only all_reduce'')
         else Inr ''ooverlap_allreduce'')
      else Inl (ValueError ''Unsupported comm_backend''))"

record stats =
  st_size :: int
  st_bytes :: int
  mean_ms :: real
  median_ms :: real
  p90_ms :: real
  min_ms :: real
  max_ms :: real

definition rank_stats :: "int \<Rightarrow> real list \<Rightarrow> stats res" where
  "rank_stats sz dur_ms =
     bind_res (p90_from_tensor dur_ms) (\<lambda>p90.
     Inr \<lparr>st_size = sz, st_bytes = sz * 2, mean_ms = sum_list dur_ms / of_nat (length dur_ms),
          median_ms = median dur_ms, p90_ms = p90, min_ms = Min (set dur_ms), max_ms = Max (set dur_ms)\<rparr>)"

text \<open>The events of one size: warm-up, then the timed calls. A call that is refused raises at its first use, so with
  neither warm-up nor timed calls nothing is refused.\<close>

definition size_events :: "string \<Rightarrow> string \<Rightarrow> nat \<Rightarrow> nat \<Rightarrow> real \<Rightarrow> event list res" where
  "size_events backend comm_op warmup iters sleep_seconds =
     bind_res (if warmup = 0 \<and> iters = 0 then Inr [] else call_comm backend comm_op) (\<lambda>call.
     Inr ((if 0 < sleep_seconds then [Sleep sleep_seconds] else [])
          @ [Barrier] @ replicate warmup (Native call) @ [Barrier] @ replicate iters (Timed call) @ [Barrier, Barrier]))"

text \<open>\<open>perf_comm_process\<close>: the events of the rank and its statistics; \<open>call_ms\<close> gives the elapsed milliseconds of the
  timed calls for a size.\<close>

definition perf_comm_process ::
  "(int \<Rightarrow> real list) \<Rightarrow> string \<Rightarrow> string \<Rightarrow> int list \<Rightarrow> nat \<Rightarrow> nat \<Rightarrow> real \<Rightarrow> (event list \<times> stats list) res" where
  "perf_comm_process call_ms backend comm_op sizes warmup iters sleep_seconds =
     bind_res (init_comm backend) (\<lambda>init.
     bind_res (map_res (\<lambda>sz.
         bind_res (size_events backend comm_op warmup iters sleep_seconds) (\<lambda>ev.
         bind_res (rank_stats sz (take iters (call_ms sz))) (\<lambda>st. Inr (ev, st)))) sizes) (\<lambda>parts.
     Inr (init @ [Barrier] @ concat (map fst parts) @ [Barrier] @ release_comm backend @ [Barrier], map snd parts)))"

text \<open>\<open>perf_comm\<close>: the statistics by rank.\<close>

definition perf_comm ::
  "(int \<Rightarrow> int \<Rightarrow> real list) \<Rightarrow> string \<Rightarrow> string \<Rightarrow> int list \<Rightarrow> int list \<Rightarrow> nat \<Rightarrow> nat \<Rightarrow> real \<Rightarrow> stats list list res" where
  "perf_comm call_ms backend comm_op devices sizes warmup iters sleep_seconds =
     bind_res (require (2 \<le> length devices) (RuntimeError ''At least 2 GPUs are required.'')) (\<lambda>_.
     bind_res (require (\<not> (backend = ''ooverlap'' \<and> comm_op \<noteq> ''all_reduce''))
                (RuntimeError ''ooverlap backend currently supports only all_reduce'')) (\<lambda>_.
     map_res (\<lambda>rank. bind_res (perf_comm_process (call_ms rank) backend comm_op sizes warmup iters sleep_seconds)
                        (\<lambda>(_, results). Inr results)) (py_range (int (length devices)))))"

section \<open>The curve\<close>

definition choose_latency :: "real \<Rightarrow> real \<Rightarrow> real \<Rightarrow> bool \<Rightarrow> bool \<Rightarrow> real" where
  "choose_latency mean_v median_v p90_v use_median use_p90 =
     (if use_p90 then p90_v else if use_median then median_v else mean_v)"

definition bandwidth_for :: "string \<Rightarrow> int \<Rightarrow> int \<Rightarrow> real \<Rightarrow> (real \<times> real) res" where
  "bandwidth_for comm_op ws data_size_bytes latency_ms =
     (let latency_s = latency_ms / 1000
      in bind_res (if comm_op = ''all_reduce'' then Inr (data_size_bytes * 2 * (ws - 1))
                   else if comm_op = ''reduce_scatter'' then Inr (data_size_bytes * (ws - 1))
                   else Inl (ValueError ''Unsupported comm_op'')) (\<lambda>total.
         bind_res (float_div (of_int total) latency_s) (\<lambda>rate.
         bind_res (float_div (of_int data_size_bytes) latency_s) (\<lambda>alg.
         Inr (rate / 1024 ^ 3, alg / 1024 ^ 3)))))"

text \<open>The largest value of a statistic over the ranks.\<close>

definition slowest :: "(stats \<Rightarrow> real) \<Rightarrow> stats list \<Rightarrow> real" where
  "slowest f per_rank = Max (f ` set per_rank)"

definition curve_latency :: "bool \<Rightarrow> bool \<Rightarrow> stats list \<Rightarrow> real" where
  "curve_latency use_median use_p90 per_rank =
     choose_latency (slowest mean_ms per_rank) (slowest median_ms per_rank) (slowest p90_ms per_rank) use_median use_p90"

text \<open>\<open>summarize_results\<close>: the rows of \<open>comm_array\<close>; the second column is also \<open>bandwidths\<close>.\<close>

definition summarize_results ::
  "string \<Rightarrow> string \<Rightarrow> int list \<Rightarrow> int list \<Rightarrow> stats list list \<Rightarrow> bool \<Rightarrow> bool \<Rightarrow> (real \<times> real) list res" where
  "summarize_results backend comm_op devices sizes result_dict use_median use_p90 =
     bind_res (backend_label backend) (\<lambda>_.
     map_res (\<lambda>(i, sz).
        bind_res (map_res (\<lambda>rank. bind_res (py_get result_dict rank) (\<lambda>rs. py_get rs i))
                    (py_range (int (length devices)))) (\<lambda>per_rank.
        bind_res (bandwidth_for comm_op (int (length devices)) (sz * 2) (curve_latency use_median use_p90 per_rank))
          (\<lambda>(flash_bw, alg_bw). Inr (of_int sz, flash_bw)))) (zip (py_range (int (length sizes))) sizes))"

section \<open>The command\<close>

record bandwidth_run =
  bw_backend :: string
  bw_op :: string
  bw_devices :: string
  bw_warmup :: int
  bw_iters :: int
  bw_sleep :: real
  bw_output :: string
  bw_median :: bool
  bw_p90 :: bool
  bw_sizes :: bool

text \<open>The name of the curve in \<open>configs\<close>.\<close>

definition curve_name :: "string \<Rightarrow> string \<Rightarrow> int \<Rightarrow> string" where
  "curve_name backend comm_op ws =
     ''bandwidth_'' @ backend @ ''_'' @ comm_op @ ''_tp'' @ str_int ws @ ''.pt''"

definition save_outputs :: "string \<Rightarrow> string \<Rightarrow> int \<Rightarrow> string \<Rightarrow> string res" where
  "save_outputs comm_backend comm_op ws output_path =
     bind_res (backend_label comm_backend) (\<lambda>backend.
     Inr (if output_path \<noteq> [] then output_path else curve_name backend comm_op ws))"

text \<open>The path of the curve and the curve.\<close>

definition run_backend ::
  "(string \<Rightarrow> int \<Rightarrow> int \<Rightarrow> real list) \<Rightarrow> bandwidth_run \<Rightarrow> string \<Rightarrow> (string \<times> (real \<times> real) list) res" where
  "run_backend call_ms args comm_backend =
     bind_res (parse_devices (bw_devices args)) (\<lambda>devices.
     bind_res (perf_comm (call_ms comm_backend) comm_backend (bw_op args) devices make_sizes
                 (nat (bw_warmup args)) (nat (bw_iters args)) (bw_sleep args)) (\<lambda>result_dict.
     bind_res (summarize_results comm_backend (bw_op args) devices make_sizes result_dict (bw_median args) (bw_p90 args))
       (\<lambda>comm_array.
     bind_res (save_outputs comm_backend (bw_op args) (int (length devices)) (bw_output args)) (\<lambda>path.
     Inr (path, comm_array)))))"

text \<open>The curves written before the command ends, and how it ends.\<close>

definition bandwidth_main ::
  "(string \<Rightarrow> int \<Rightarrow> int \<Rightarrow> real list) \<Rightarrow> bandwidth_run \<Rightarrow> (string \<times> (real \<times> real) list) list \<times> unit res" where
  "bandwidth_main call_ms args =
     (if bw_sizes args then ([], Inr ())
      else if bw_warmup args < 0 then ([], Inl (ValueError ''--warmup must be >= 0''))
      else if bw_iters args \<le> 0 then ([], Inl (ValueError ''--iters must be > 0''))
      else if bw_backend args \<in> {''ooverlap'', ''both''} \<and> bw_op args \<noteq> ''all_reduce''
        then ([], Inl (RuntimeError ''ooverlap backend currently supports only --comm_op all_reduce''))
      else if bw_backend args = ''both'' \<and> bw_output args \<noteq> []
        then ([], Inl (ValueError ''--output-path is ambiguous with --comm_backend both''))
      else if bw_backend args = ''both'' then
        (case run_backend call_ms args ''nccl'' of
           Inl e \<Rightarrow> ([], Inl e)
         | Inr c \<Rightarrow>
             (case run_backend call_ms args ''ooverlap'' of Inl e \<Rightarrow> ([c], Inl e) | Inr c' \<Rightarrow> ([c, c'], Inr ())))
      else (case run_backend call_ms args (bw_backend args) of Inl e \<Rightarrow> ([], Inl e) | Inr c \<Rightarrow> ([c], Inr ())))"

end
