(* ===== verification/BandwidthProperties.thy ===== *)
theory BandwidthProperties
  imports Bandwidth Search
begin

text \<open>
  The curve that \<open>tool/bandwidth.py\<close> saves is the one the search interpolates in, and at a measured size the
  predictor gives back the measured latency.
\<close>

section \<open>Interpolation\<close>

text \<open>What \<open>numpy.interp\<close> documents at the sample points, which must increase.\<close>

definition interp_exact :: "interp \<Rightarrow> bool" where
  "interp_exact f \<longleftrightarrow>
     (\<forall>xs ys i. length xs = length ys \<and> sorted_wrt (<) xs \<and> i < length xs \<longrightarrow> f (xs ! i) xs ys = ys ! i)"

fun linear_interp :: "real \<Rightarrow> real list \<Rightarrow> real list \<Rightarrow> real" where
  "linear_interp x (a # b # xs) (c # d # ys) =
     (if x \<le> a then c else if x < b then c + (x - a) * (d - c) / (b - a) else linear_interp x (b # xs) (d # ys))"
| "linear_interp x [a] [c] = c"
| "linear_interp x xs ys = 0"

lemma linear_interp_at:
  "length xs = length ys \<Longrightarrow> sorted_wrt (<) xs \<Longrightarrow> i < length xs \<Longrightarrow> linear_interp (xs ! i) xs ys = ys ! i"
proof (induction "xs ! i" xs ys arbitrary: i rule: linear_interp.induct)
  case (1 a b xs c d ys)
  show ?case
  proof (cases i)
    case 0
    then show ?thesis by simp
  next
    case (Suc j)
    have "j < length (b # xs)" using 1(4) Suc by simp
    moreover have "b \<le> (b # xs) ! j"
      using 1(3) calculation by (cases j) (auto simp: less_imp_le)
    moreover have "a < b" using 1(3) by simp
    ultimately show ?thesis using 1 Suc by simp
  qed
qed simp_all

lemma linear_interp_exact: "interp_exact linear_interp"
  using linear_interp_at by (simp add: interp_exact_def)

section \<open>The sizes\<close>

lemma quarter_step: "(2 :: real) powr (1 / 4) \<ge> 1 + 1 / 1024"
proof (rule ccontr)
  let ?q = "(2 :: real) powr (1 / 4)"
  assume "\<not> ?q \<ge> 1 + 1 / 1024"
  then have "?q ^ 4 \<le> (1 + 1 / 1024) ^ 4" by (intro power_mono) simp_all
  also have "\<dots> < (2 :: real)" by (simp add: power4_eq_xxxx)
  finally have "?q ^ 4 < 2" .
  moreover have "?q ^ 4 = 2 powr (real 4 * (1 / 4))" by (simp only: powr_power)
  ultimately show False by simp
qed

lemma size_floor_big: "0 \<le> (i :: int) \<Longrightarrow> 1048576 \<le> (2 :: real) powr (20 + of_int i / 4)"
proof -
  assume i: "0 \<le> i"
  have "(2 :: real) powr 20 \<le> 2 powr (20 + of_int i / 4)" using i by (intro powr_mono) simp_all
  moreover have "(2 :: real) powr 20 = 1048576" using powr_numeral [of "2 :: real" "num.Bit0 (num.Bit0 (num.Bit1 (num.Bit0 num.One)))"] by simp
  ultimately show ?thesis by simp
qed

lemma sizes_step:
  assumes "0 \<le> (i :: int)" and "i < j"
  shows "\<lfloor>(2 :: real) powr (20 + of_int i / 4)\<rfloor> div 1024 < \<lfloor>(2 :: real) powr (20 + of_int j / 4)\<rfloor> div 1024"
proof -
  let ?a = "(2 :: real) powr (20 + of_int i / 4)" and ?b = "(2 :: real) powr (20 + of_int j / 4)"
  have big: "1048576 \<le> ?a" by (rule size_floor_big) (rule assms(1))
  have "?a * 2 powr (1 / 4) = 2 powr (20 + of_int i / 4 + 1 / 4)" by (rule powr_add [symmetric])
  also have "\<dots> \<le> ?b" using assms(2) by (intro powr_mono) (simp_all add: field_simps)
  finally have le: "?a * 2 powr (1 / 4) \<le> ?b" .
  have "?a * (1 + 1 / 1024) \<le> ?a * 2 powr (1 / 4)" by (rule mult_left_mono [OF quarter_step]) simp
  then have "?a * (1 + 1 / 1024) \<le> ?b" using le by linarith
  then have "?a + 1024 \<le> ?b" using big by (simp add: algebra_simps)
  then have "\<lfloor>?a\<rfloor> + 1024 \<le> \<lfloor>?b\<rfloor>" by linarith
  then show ?thesis by linarith
qed

lemma length_make_sizes [simp]: "length make_sizes = 36"
  by (simp add: make_sizes_def)

lemma sorted_make_sizes: "sorted_wrt (<) make_sizes"
  unfolding sorted_wrt_iff_nth_less
proof (intro allI impI)
  fix i j assume "i < j" "j < length make_sizes"
  then show "make_sizes ! i < make_sizes ! j"
    using sizes_step [of "int i" "int j"] by (simp add: make_sizes_def)
qed

lemma make_sizes_pos: "sz \<in> set make_sizes \<Longrightarrow> 0 < sz"
proof -
  assume "sz \<in> set make_sizes"
  then obtain i :: int where i: "0 \<le> i" "sz = \<lfloor>(2 :: real) powr (20 + of_int i / 4)\<rfloor> div 1024 * 1024"
    by (auto simp: make_sizes_def)
  have "1024 \<le> \<lfloor>(2 :: real) powr (20 + of_int i / 4)\<rfloor>"
    unfolding le_floor_iff using size_floor_big [OF i(1)] by simp
  then show ?thesis using i(2) by (simp add: pos_imp_zdiv_pos_iff)
qed

section \<open>Positive times\<close>

lemma p90_in: "p90_from_tensor xs = Inr v \<Longrightarrow> v \<in> set xs"
proof -
  assume "p90_from_tensor xs = Inr v"
  then obtain k where "k < length (sort xs)" "v = sort xs ! k"
    by (auto simp: p90_from_tensor_def py_get_def Let_def dest: py_index_less split: option.splits)
  then show ?thesis by (metis nth_mem set_sort)
qed

lemma sum_list_pos_all:
  fixes xs :: "real list"
  shows "xs \<noteq> [] \<Longrightarrow> \<forall>x \<in> set xs. 0 < x \<Longrightarrow> 0 < sum_list xs"
proof (induction xs rule: list_nonempty_induct)
  case (cons x xs)
  then show ?case using add_pos_pos [of x "sum_list xs"] by simp
qed simp

lemma rank_stats_positive:
  assumes "rank_stats sz xs = Inr st" and "\<forall>x \<in> set xs. 0 < x"
  shows "0 < mean_ms st \<and> 0 < median_ms st \<and> 0 < p90_ms st"
proof -
  obtain p where p: "p90_from_tensor xs = Inr p" and st: "mean_ms st = sum_list xs / of_nat (length xs)"
    "median_ms st = median xs" "p90_ms st = p"
    using assms(1) by (auto simp: rank_stats_def elim!: bind_resE)
  have "p \<in> set xs" by (rule p90_in) (rule p)
  then have ne: "xs \<noteq> []" by auto
  have "0 < sum_list xs" by (rule sum_list_pos_all) (use assms(2) ne in auto)
  moreover have "median xs \<in> set xs"
  proof -
    have "(length xs - 1) div 2 < length (sort xs)" using ne by (cases xs) auto
    from nth_mem [OF this] show ?thesis by (simp add: median_def)
  qed
  ultimately show ?thesis using \<open>p \<in> set xs\<close> assms(2) ne st by simp
qed

lemma map_res_nth: "map_res f xs = Inr ys \<Longrightarrow> i < length xs \<Longrightarrow> f (xs ! i) = Inr (ys ! i)"
  by (auto simp: map_res_Inr_conv list_all2_conv_all_nth)

section \<open>The measured curve\<close>

lemma perf_comm_stats:
  assumes "perf_comm call_ms backend comm_op devices sizes warmup iters sl = Inr rd" and "r < length devices"
  shows "length rd = length devices \<and> length (rd ! r) = length sizes
     \<and> (\<forall>i < length sizes. rank_stats (sizes ! i) (take iters (call_ms (int r) (sizes ! i))) = Inr (rd ! r ! i))"
proof -
  have rd: "map_res (\<lambda>rank. bind_res (perf_comm_process (call_ms rank) backend comm_op sizes warmup iters sl)
      (\<lambda>(_, results). Inr results)) (py_range (int (length devices))) = Inr rd"
    using assms(1) by (auto simp: perf_comm_def elim!: bind_resE)
  have len: "length rd = length devices" using map_res_length [OF rd] by simp
  have "bind_res (perf_comm_process (call_ms (int r)) backend comm_op sizes warmup iters sl) (\<lambda>(_, results). Inr results)
      = Inr (rd ! r)" using map_res_nth [OF rd, of r] assms(2) by simp
  then obtain ev where "perf_comm_process (call_ms (int r)) backend comm_op sizes warmup iters sl = Inr (ev, rd ! r)"
    by (auto elim!: bind_resE)
  then obtain parts where parts: "map_res (\<lambda>sz. bind_res (size_events backend comm_op warmup iters sl) (\<lambda>ev.
      bind_res (rank_stats sz (take iters (call_ms (int r) sz))) (\<lambda>st. Inr (ev, st)))) sizes = Inr parts"
    and res: "rd ! r = map snd parts"
    by (auto simp: perf_comm_process_def elim!: bind_resE)
  have "length parts = length sizes" by (rule map_res_length [OF parts])
  moreover have "rank_stats (sizes ! i) (take iters (call_ms (int r) (sizes ! i))) = Inr (rd ! r ! i)" if "i < length sizes" for i
    using map_res_nth [OF parts that] that calculation by (auto simp: res elim!: bind_resE) (metis snd_conv)
  ultimately show ?thesis using len res by simp
qed

lemma slowest_positive:
  "sts \<noteq> [] \<Longrightarrow> \<forall>st \<in> set sts. 0 < f st \<Longrightarrow> 0 < slowest f sts"
  unfolding slowest_def by (cases sts) (simp_all add: Max_gr_iff)

lemma curve_latency_positive:
  "sts \<noteq> [] \<Longrightarrow> \<forall>st \<in> set sts. 0 < mean_ms st \<and> 0 < median_ms st \<and> 0 < p90_ms st \<Longrightarrow> 0 < curve_latency m p sts"
  by (simp add: curve_latency_def choose_latency_def slowest_positive)

lemma latency_of_bandwidth:
  assumes "bandwidth_for comm_op ws (sz * 2) lat = Inr (bw, alg)" and "f (of_int sz) (map fst samples) (map snd samples) = bw"
    and "0 < lat" "0 < sz" "2 \<le> ws"
  shows "interpolate_latency f ws samples (of_int sz) comm_op = Inr lat"
proof -
  let ?t = "of_int sz * 2 * (if comm_op = ''all_reduce'' then 2 else 1) * of_int (ws - 1) :: real"
  have op: "comm_op = ''all_reduce'' \<or> comm_op = ''reduce_scatter''"
    using assms(1) by (auto simp: bandwidth_for_def Let_def elim!: bind_resE split: if_splits)
  have bw: "bw = ?t / (lat / 1000) / 1024 ^ 3"
    using assms(1,3) op by (auto simp: bandwidth_for_def float_div_def Let_def elim!: bind_resE) (simp add: field_simps)
  have "0 < ?t" using assms(4,5) by simp
  moreover have "t / (t / (lat / 1000) / 1024 ^ 3) / 1024 ^ 3 * 1000 = lat" if "0 < t" for t :: real
    using that assms(3) by (simp add: field_simps)
  ultimately have t: "?t / bw / 1024 ^ 3 * 1000 = lat" unfolding bw by blast
  show ?thesis
  proof (cases "comm_op = ''all_reduce''")
    case True
    then have "of_int sz * 2 * 2 * of_int (ws - 1) / bw / 1024 ^ 3 * 1000 = lat" using t by (simp only: if_True simp_thms)
    then show ?thesis using True assms(2) by (simp only: interpolate_latency_def Let_def if_True simp_thms)
  next
    case False
    then have "of_int sz * 2 * of_int (ws - 1) / bw / 1024 ^ 3 * 1000 = lat" using t by (simp only: if_False mult_1_right)
    then show ?thesis using False op assms(2) by (simp only: interpolate_latency_def Let_def if_False if_True simp_thms)
  qed
qed

text \<open>C13: The predictor inverts the benchmark. Let the timed calls of every rank take a positive time. Every curve
  that \<open>tool/bandwidth.py\<close> saves without \<open>--output-path\<close> is the one the search of that backend and operation
  loads by default; and for each benchmarked size the latency the predictor interpolates in it is the latency
  that was measured: the chosen statistic of the timed calls, of the slowest rank.\<close>
theorem predictor_inverts_benchmark:
  assumes "bandwidth_main call_ms args = (curves, res)" and "(path, curve) \<in> set curves" and "interp_exact np"
    and "\<forall>b r sz. \<forall>x \<in> set (call_ms b r sz). 0 < x"
  shows "\<exists>backend devices. parse_devices (bw_devices args) = Inr devices
     \<and> (bw_output args = [] \<longrightarrow>
          load_comm_array (map_of [(path, curve)]) backend (bw_op args) (int (length devices)) [] = Inr (curve, path))
     \<and> (\<forall>sz \<in> set make_sizes. \<exists>stats. length stats = length devices
          \<and> (\<forall>r < length devices. rank_stats sz (take (nat (bw_iters args)) (call_ms backend (int r) sz)) = Inr (stats ! r))
          \<and> interpolate_latency np (int (length devices)) curve (of_int sz) (bw_op args)
              = Inr (curve_latency (bw_median args) (bw_p90 args) stats))"
proof -
  obtain backend where run: "run_backend call_ms args backend = Inr (path, curve)"
    using assms(1,2) by (auto simp: bandwidth_main_def split: if_splits sum.splits)
  then obtain devices rd where dev: "parse_devices (bw_devices args) = Inr devices"
    and rd: "perf_comm (call_ms backend) backend (bw_op args) devices make_sizes (nat (bw_warmup args))
        (nat (bw_iters args)) (bw_sleep args) = Inr rd"
    and curve: "summarize_results backend (bw_op args) devices make_sizes rd (bw_median args) (bw_p90 args) = Inr curve"
    and path: "save_outputs backend (bw_op args) (int (length devices)) (bw_output args) = Inr path"
    by (auto simp: run_backend_def elim!: bind_resE)
  have two: "2 \<le> length devices" using rd by (auto simp: perf_comm_def elim!: bind_resE)
  note st = perf_comm_stats [OF rd]
  have label: "backend_label backend = Inr b \<Longrightarrow> b = backend" for b by (auto simp: backend_label_def split: if_splits)
  have load: "load_comm_array (map_of [(path, curve)]) backend (bw_op args) (int (length devices)) [] = Inr (curve, path)"
    if "bw_output args = []"
    using path that label
    by (auto simp: save_outputs_def load_comm_array_def bandwidth_curve_paths_def curve_name_def Let_def elim!: bind_resE)
  let ?row = "\<lambda>(i, sz). bind_res (map_res (\<lambda>rank. bind_res (py_get rd rank) (\<lambda>rs. py_get rs i)) (py_range (int (length devices))))
      (\<lambda>per_rank. bind_res (bandwidth_for (bw_op args) (int (length devices)) (sz * 2)
          (curve_latency (bw_median args) (bw_p90 args) per_rank)) (\<lambda>(flash_bw, alg_bw). Inr (real_of_int sz, flash_bw)))"
  have rows: "map_res ?row (zip (py_range (int (length make_sizes))) make_sizes) = Inr curve"
    using curve by (auto simp: summarize_results_def elim!: bind_resE)
  have len: "length curve = 36" using map_res_length [OF rows] by simp
  have entry: "\<exists>per_rank bw alg. map_res (\<lambda>rank. bind_res (py_get rd rank) (\<lambda>rs. py_get rs (int i))) (py_range (int (length devices))) = Inr per_rank
      \<and> bandwidth_for (bw_op args) (int (length devices)) (make_sizes ! i * 2) (curve_latency (bw_median args) (bw_p90 args) per_rank) = Inr (bw, alg)
      \<and> curve ! i = (of_int (make_sizes ! i), bw)" if "i < 36" for i
  proof -
    have "zip (py_range (int (length make_sizes))) make_sizes ! i = (int i, make_sizes ! i)" using that by simp
    then have row: "?row (int i, make_sizes ! i) = Inr (curve ! i)" using map_res_nth [OF rows, of i] that by simp
    obtain per_rank z where "map_res (\<lambda>rank. bind_res (py_get rd rank) (\<lambda>rs. py_get rs (int i))) (py_range (int (length devices))) = Inr per_rank"
      and z: "bandwidth_for (bw_op args) (int (length devices)) (make_sizes ! i * 2) (curve_latency (bw_median args) (bw_p90 args) per_rank) = Inr z"
      and c: "(case z of (flash_bw, alg_bw) \<Rightarrow> Inr (real_of_int (make_sizes ! i), flash_bw)) = (Inr (curve ! i) :: (real \<times> real) res)"
      using row unfolding prod.case by (elim bind_resE) blast
    then show ?thesis by (cases z) auto
  qed
  have xs: "map fst curve = map of_int make_sizes"
  proof (rule nth_equalityI)
    show "length (map fst curve) = length (map of_int make_sizes :: real list)" using len by simp
    fix i assume "i < length (map fst curve)"
    then show "map fst curve ! i = map of_int make_sizes ! i" using entry [of i] len by auto
  qed
  have "\<exists>stats. length stats = length devices
      \<and> (\<forall>r < length devices. rank_stats sz (take (nat (bw_iters args)) (call_ms backend (int r) sz)) = Inr (stats ! r))
      \<and> interpolate_latency np (int (length devices)) curve (of_int sz) (bw_op args)
          = Inr (curve_latency (bw_median args) (bw_p90 args) stats)" if member: "sz \<in> set make_sizes" for sz
  proof -
    obtain i where i: "i < 36" "make_sizes ! i = sz" using member [unfolded in_set_conv_nth length_make_sizes] by blast
    obtain per_rank bw alg where pr: "map_res (\<lambda>rank. bind_res (py_get rd rank) (\<lambda>rs. py_get rs (int i))) (py_range (int (length devices))) = Inr per_rank"
      and bw: "bandwidth_for (bw_op args) (int (length devices)) (sz * 2) (curve_latency (bw_median args) (bw_p90 args) per_rank) = Inr (bw, alg)"
      and ci: "curve ! i = (of_int sz, bw)" using entry [OF i(1)] unfolding i(2) by (elim exE conjE)
    have lp: "length per_rank = length devices" using map_res_length [OF pr] by simp
    have stats: "rank_stats sz (take (nat (bw_iters args)) (call_ms backend (int r) sz)) = Inr (per_rank ! r)"
      if r: "r < length devices" for r
    proof -
      have "bind_res (py_get rd (int r)) (\<lambda>rs. py_get rs (int i)) = Inr (per_rank ! r)" using map_res_nth [OF pr, of r] r by simp
      then have "rd ! r ! i = per_rank ! r" using st [OF r] r i(1) by simp
      then show ?thesis using st [OF r] i by auto
    qed
    have "0 < mean_ms x \<and> 0 < median_ms x \<and> 0 < p90_ms x" if x_in: "x \<in> set per_rank" for x
    proof -
      obtain r where r: "r < length devices" "x = per_rank ! r" using x_in [unfolded in_set_conv_nth lp] by blast
      have "\<forall>y \<in> set (take (nat (bw_iters args)) (call_ms backend (int r) sz)). 0 < y"
        using assms(4) by (blast dest: in_set_takeD)
      from rank_stats_positive [OF stats [OF r(1)] this] show ?thesis unfolding r(2) .
    qed
    then have pos: "0 < curve_latency (bw_median args) (bw_p90 args) per_rank"
      using lp two by (intro curve_latency_positive) auto
    have "sorted_wrt (<) (map fst curve)"
      unfolding xs using sorted_make_sizes by (simp add: sorted_wrt_map)
    then have "np (map fst curve ! i) (map fst curve) (map snd curve) = map snd curve ! i"
      using assms(3) [unfolded interp_exact_def, rule_format, of "map fst curve" "map snd curve" i] i(1) len by simp
    then have "np (of_int sz) (map fst curve) (map snd curve) = bw" using ci i(1) len by simp
    from latency_of_bandwidth [where f = np and samples = curve, OF bw this pos make_sizes_pos [OF member]] two
    have "interpolate_latency np (int (length devices)) curve (of_int sz) (bw_op args)
        = Inr (curve_latency (bw_median args) (bw_p90 args) per_rank)" by simp
    then show ?thesis using lp stats by blast
  qed
  then show ?thesis using dev load by blast
qed

definition demo_bandwidth :: bandwidth_run where
  "demo_bandwidth = \<lparr>bw_backend = ''nccl'', bw_op = ''all_reduce'', bw_devices = ''0,1'', bw_warmup = 0, bw_iters = 1,
     bw_sleep = 0, bw_output = [], bw_median = False, bw_p90 = False, bw_sizes = False\<rparr>"

lemma demo_devices: "parse_devices ''0,1'' = Inr [0, 1]"
  by code_simp

lemma demo_stats: "rank_stats sz [1] = Inr \<lparr>st_size = sz, st_bytes = sz * 2, mean_ms = 1, median_ms = 1, p90_ms = 1,
    min_ms = 1, max_ms = 1\<rparr>"
  by (simp add: rank_stats_def p90_from_tensor_def median_def Let_def)

lemma map_res_exists: "(\<And>x. x \<in> set xs \<Longrightarrow> \<exists>y. f x = Inr y) \<Longrightarrow> \<exists>ys. map_res f xs = Inr ys"
proof (induction xs)
  case (Cons x xs)
  then obtain y ys where "f x = Inr y" "map_res f xs = Inr ys" by (metis list.set_intros)
  then show ?case by simp
qed simp

lemma demo_perf_curve:
  "\<exists>rs. length rs = 36 \<and> perf_comm (\<lambda>_ _. [1]) ''nccl'' ''all_reduce'' [0, 1] make_sizes 0 1 0 = Inr [rs, rs]
     \<and> (\<forall>st \<in> set rs. mean_ms st = 1)"
proof -
  let ?st = "\<lambda>sz. \<lparr>st_size = sz, st_bytes = sz * 2, mean_ms = 1, median_ms = 1, p90_ms = 1, min_ms = 1, max_ms = 1\<rparr>"
  have two: "py_range (int (length [0, 1 :: int])) = [0, 1]" by (simp add: py_range_def upt_rec)
  have "map_res (\<lambda>sz. bind_res (size_events ''nccl'' ''all_reduce'' 0 1 0) (\<lambda>ev.
      bind_res (rank_stats sz (take 1 [1])) (\<lambda>st. Inr (ev, st)))) make_sizes
    = Inr (map (\<lambda>sz. ([Barrier, Barrier, Timed ''nccl_allreduce'', Barrier, Barrier], ?st sz)) make_sizes)"
    by (rule map_res_total) (simp add: size_events_def call_comm_def demo_stats)
  then show ?thesis
    unfolding perf_comm_def two perf_comm_process_def
    by (intro exI [of _ "map ?st make_sizes"]) (simp add: init_comm_def comp_def)
qed

lemma demo_run:
  "\<exists>curve. run_backend (\<lambda>_ _ _. [1]) demo_bandwidth ''nccl'' = Inr (''bandwidth_nccl_all_reduce_tp2.pt'', curve)"
proof -
  have fields: "bw_backend demo_bandwidth = ''nccl''" "bw_op demo_bandwidth = ''all_reduce''"
    "bw_devices demo_bandwidth = ''0,1''" "bw_warmup demo_bandwidth = 0" "bw_iters demo_bandwidth = 1"
    "bw_sleep demo_bandwidth = 0" "bw_output demo_bandwidth = []"
    by (simp_all add: demo_bandwidth_def)
  obtain rs where rs: "length rs = 36" "\<forall>st \<in> set rs. mean_ms st = 1"
    "perf_comm (\<lambda>_ _. [1]) ''nccl'' ''all_reduce'' [0, 1] make_sizes 0 1 0 = Inr [rs, rs]"
    using demo_perf_curve by blast
  have "\<exists>curve. summarize_results ''nccl'' ''all_reduce'' [0, 1] make_sizes [rs, rs] False False = Inr curve"
    unfolding summarize_results_def
  proof (simp add: backend_label_def, rule map_res_exists, clarsimp)
    fix i sz assume "(i, sz) \<in> set (zip (py_range 36) make_sizes)"
    then have i: "0 \<le> i" "i < 36" by (auto dest: set_zip_leftD)
    have two: "py_range 2 = [0, 1]" by (simp add: py_range_def upt_rec)
    have "mean_ms (rs ! nat i) = 1" using rs(1,2) i by simp
    then show "\<exists>a b. bind_res (map_res (\<lambda>rank. bind_res (py_get [rs, rs] rank) (\<lambda>rs. py_get rs i)) (py_range 2))
        (\<lambda>per_rank. bind_res (bandwidth_for ''all_reduce'' 2 (sz * 2) (curve_latency False False per_rank))
            (\<lambda>(flash_bw, alg_bw). Inr (real_of_int sz, flash_bw))) = Inr (a, b)"
      using i rs(1) by (simp add: two curve_latency_def choose_latency_def slowest_def bandwidth_for_def)
        (intro exI [of _ "125 * real_of_int sz / 33554432"], simp)
  qed
  moreover have "save_outputs ''nccl'' ''all_reduce'' (int (length [0, 1 :: int])) [] = Inr ''bandwidth_nccl_all_reduce_tp2.pt''"
    by code_simp
  ultimately show ?thesis using rs(3) by (auto simp: run_backend_def fields demo_devices) (simp add: demo_bandwidth_def)
qed

lemma predictor_inverts_benchmark_witness:
  "\<exists>curve. bandwidth_main (\<lambda>_ _ _. [1]) demo_bandwidth = ([(''bandwidth_nccl_all_reduce_tp2.pt'', curve)], Inr ())
     \<and> (\<forall>sz \<in> set make_sizes. \<exists>stats. length stats = 2
          \<and> interpolate_latency linear_interp 2 curve (of_int sz) ''all_reduce'' = Inr (curve_latency False False stats))"
proof -
  obtain curve where "run_backend (\<lambda>_ _ _. [1]) demo_bandwidth ''nccl'' = Inr (''bandwidth_nccl_all_reduce_tp2.pt'', curve)"
    using demo_run by blast
  then have main: "bandwidth_main (\<lambda>_ _ _. [1]) demo_bandwidth = ([(''bandwidth_nccl_all_reduce_tp2.pt'', curve)], Inr ())"
    by (simp add: bandwidth_main_def) (simp add: demo_bandwidth_def)
  have fields: "bw_devices demo_bandwidth = ''0,1''" "bw_op demo_bandwidth = ''all_reduce''"
    "bw_median demo_bandwidth = False" "bw_p90 demo_bandwidth = False"
    by (simp_all add: demo_bandwidth_def)
  show ?thesis
    using predictor_inverts_benchmark [OF main list.set_intros(1) linear_interp_exact] main
    unfolding fields demo_devices by (fastforce simp: numeral_2_eq_2)
qed

end
