(* ===== verification/Evaluate.thy ===== *)
theory Evaluate
  imports Json "HOL-Library.Product_Lexorder" "HOL-Library.List_Lexorder" "HOL-Library.Char_ord"
begin

text \<open>
  \<open>tool/evaluate_sm90.py\<close>: for every shape and every communication configuration it profiles, searches and tests in
  child processes, and keeps one JSON file per scenario so that an interrupted evaluation can be resumed. The state
  is the file system and whatever else the children act on; a function that may raise still leaves the files it
  wrote. A JSON file is the value it holds: the order of the keys of an object, which nothing reads, is that of the
  program rather than the sorted one. Child processes, the clock, the GPU's name and the modification times are
  parameters; printing is left out, the arguments are parsed in \<open>CommandLines\<close>.
\<close>

section \<open>State and effects\<close>

datatype content = JsonDoc json | TextDoc string

record 'o world =
  files :: "(string \<times> content) list"
  outside :: 'o

type_synonym ('o, 'a) io = "'o world \<Rightarrow> 'a res \<times> 'o world"

definition bind_io :: "('o, 'a) io \<Rightarrow> ('a \<Rightarrow> ('o, 'b) io) \<Rightarrow> ('o, 'b) io" where
  "bind_io m f w = (case m w of (Inl e, w') \<Rightarrow> (Inl e, w') | (Inr x, w') \<Rightarrow> f x w')"

definition ret :: "'a \<Rightarrow> ('o, 'a) io" where
  "ret x w = (Inr x, w)"

definition of_res :: "'a res \<Rightarrow> ('o, 'a) io" where
  "of_res r w = (r, w)"

text \<open>A value read from the state, which may raise; and a change of the state.\<close>

definition reads :: "('o world \<Rightarrow> 'a res) \<Rightarrow> ('o, 'a) io" where
  "reads f w = (f w, w)"

definition change :: "('o world \<Rightarrow> 'o world) \<Rightarrow> ('o, unit) io" where
  "change f w = (Inr (), f w)"

type_synonym env = "(string \<times> string) list"

text \<open>What the program gets from the system: \<open>launch\<close> runs a command and yields its exit code and output, \<open>newest\<close>
  the most recently modified file of a directory with a given prefix and suffix, \<open>expand\<close> resolves a path with
  a home directory.\<close>

record 'o system =
  launch :: "string list \<Rightarrow> env \<Rightarrow> 'o world \<Rightarrow> (int \<times> string) \<times> 'o world"
  now_stamp :: "'o world \<Rightarrow> string"
  elapsed :: "'o world \<Rightarrow> 'o world \<Rightarrow> string"
  environ :: env
  gpu_model :: "string option"
  repo :: string
  expand :: "string \<Rightarrow> string"
  resolve :: "string \<Rightarrow> string"
  newest :: "'o world \<Rightarrow> string \<Rightarrow> string \<Rightarrow> string \<Rightarrow> string option"
  python :: string
  float_repr :: "real \<Rightarrow> string"

section \<open>Settings\<close>

record shape =
  sh_m :: int
  sh_n :: int
  sh_k :: int
  sh_csv :: string

record min_group_trial =
  tr_group :: int
  tr_effective :: int
  tr_max_mn :: "int option"

record comm_run_config =
  cc_slack :: int
  cc_reduce_ctas :: int

record settings =
  shapes :: "shape list"
  csv_dir :: string
  set_op :: string
  set_backend :: string
  configs_by_tp :: "(int \<times> comm_run_config list) list"
  trials :: "min_group_trial list"
  tuning_policy :: string
  visible_devices :: string
  store_stdout :: bool
  skip_ok :: bool

definition shape_of :: "int \<Rightarrow> int \<Rightarrow> int \<Rightarrow> shape" where
  "shape_of m n k = \<lparr>sh_m = m, sh_n = n, sh_k = k,
     sh_csv = ''~/csv_out_h100/m'' @ str_int m @ ''n'' @ str_int n @ ''k'' @ str_int k @ ''.gemm.csv''\<rparr>"

definition SHAPES :: "shape list" where
  "SHAPES = map (\<lambda>(m, n, k). shape_of m n k)
     [(16384, 4096, 2048), (16384, 4096, 4096), (16384, 4096, 8192), (16384, 8192, 2048), (16384, 8192, 4096),
      (16384, 8192, 8192), (32768, 2048, 2048), (32768, 2048, 4096), (32768, 2048, 8192), (32768, 4096, 2048),
      (32768, 4096, 4096), (32768, 4096, 8192), (32768, 8192, 2048), (32768, 8192, 4096), (32768, 8192, 8192),
      (49152, 2048, 2048), (49152, 2048, 4096), (49152, 2048, 8192), (49152, 4096, 2048), (49152, 4096, 4096),
      (49152, 4096, 8192), (49152, 8192, 2048), (49152, 8192, 4096), (49152, 8192, 8192)]"

definition COMM_RUN_CONFIGS_BY_TP :: "(int \<times> comm_run_config list) list" where
  "COMM_RUN_CONFIGS_BY_TP =
     [(2, map (\<lambda>(s, r). \<lparr>cc_slack = s, cc_reduce_ctas = r\<rparr>) [(4, 4), (6, 6), (8, 8), (10, 10), (12, 12), (16, 16)]),
      (4, map (\<lambda>(s, r). \<lparr>cc_slack = s, cc_reduce_ctas = r\<rparr>) [(6, 2), (9, 3), (12, 4), (15, 5), (18, 6), (24, 8)])]"

definition MIN_GROUP_TRIALS :: "min_group_trial list" where
  "MIN_GROUP_TRIALS = map (\<lambda>(g, e, x). \<lparr>tr_group = g, tr_effective = e, tr_max_mn = x\<rparr>)
     [(4, 2, Some (8192 * 4096)), (8, 6, None), (10, 8, None), (12, 10, None), (16, 12, None), (20, 16, None),
      (24, 20, None)]"

definition default_settings :: settings where
  "default_settings = \<lparr>shapes = SHAPES, csv_dir = ''~/csv_out_h100'', set_op = ''all_reduce'', set_backend = ''both'',
     configs_by_tp = COMM_RUN_CONFIGS_BY_TP, trials = MIN_GROUP_TRIALS, tuning_policy = '''', visible_devices = '''',
     store_stdout = False, skip_ok = True\<rparr>"

definition EVALUATION_SCHEMA_VERSION :: int where "EVALUATION_SCHEMA_VERSION = 2"

text \<open>What stays fixed during one run: the system, the settings and \<open>ACTIVE_DEVICES\<close>.\<close>

record 'o context_of_run =
  sys :: "'o system"
  stg :: settings
  devices :: "int list"

section \<open>Names and paths\<close>

definition below :: "string \<Rightarrow> string \<Rightarrow> string" where
  "below p q = p @ ''/'' @ q"

definition shape_id :: "shape \<Rightarrow> string" where
  "shape_id s = ''m'' @ str_int (sh_m s) @ ''n'' @ str_int (sh_n s) @ ''k'' @ str_int (sh_k s)"

definition eval_parse_devices :: "string \<Rightarrow> int list res" where
  "eval_parse_devices s =
     bind_res (map_res (\<lambda>x. py_int (py_strip x)) (filter (\<lambda>x. py_strip x \<noteq> []) (py_split CHR '','' s))) (\<lambda>ds.
     bind_res (require (2 \<le> length ds) (ValueError ''--devices must contain at least two CUDA device ids'')) (\<lambda>_.
     bind_res (require (distinct ds) (ValueError ''--devices must not contain duplicate CUDA device ids'')) (\<lambda>_.
     bind_res (require (\<forall>d \<in> set ds. 0 \<le> d) (ValueError ''--devices must contain non-negative CUDA device ids'')) (\<lambda>_.
     Inr ds))))"

definition device_config_id :: "int list \<Rightarrow> string" where
  "device_config_id ds = ''tp'' @ str_int (int (length ds)) @ ''__dev'' @ py_join ''-'' (map str_int ds)"

definition comm_run_config_to_dict :: "comm_run_config \<Rightarrow> json" where
  "comm_run_config_to_dict c =
     JObj [(''comm_sm_slack'', JInt (cc_slack c)), (''max_ctas_per_reduce_task'', JInt (cc_reduce_ctas c))]"

definition bandwidth_curve_path :: "'o context_of_run \<Rightarrow> comm_run_config \<Rightarrow> string \<Rightarrow> string res" where
  "bandwidth_curve_path R c backend =
     (let ws = int (length (devices R)); op = set_op (stg R)
      in bind_res (require (2 \<le> ws) (RuntimeError ''ACTIVE_DEVICES must contain at least two GPUs'')) (\<lambda>_.
         bind_res (if backend = ''nccl''
                   then Inr (''bandwidth_nccl_'' @ op @ ''_tp'' @ str_int ws @ ''_c'' @ str_int (cc_slack c) @ ''.pt'')
                   else if backend = ''ooverlap''
                   then Inr (''bandwidth_ooverlap_'' @ op @ ''_tp'' @ str_int ws @ ''_c'' @ str_int (cc_slack c)
                             @ ''_r'' @ str_int (cc_reduce_ctas c) @ ''.pt'')
                   else Inl (ValueError ''Unknown backend'')) (\<lambda>name.
         Inr (below (below (repo (sys R)) ''configs'') name))))"

text \<open>\<open>path.is_file() and path.stat().st_size\<close>\<close>

definition nonempty_file :: "'o world \<Rightarrow> string \<Rightarrow> bool" where
  "nonempty_file w p \<longleftrightarrow> map_of (files w) p \<noteq> None \<and> map_of (files w) p \<noteq> Some (TextDoc [])"

definition validate_bandwidth_curves :: "'o context_of_run \<Rightarrow> comm_run_config list \<Rightarrow> 'o world \<Rightarrow> unit res" where
  "validate_bandwidth_curves R configs w =
     bind_res (map_res (\<lambda>(c, b). bandwidth_curve_path R c b)
                 (concat (map (\<lambda>c. [(c, ''nccl''), (c, ''ooverlap'')]) configs))) (\<lambda>paths.
     require (\<forall>p \<in> set paths. nonempty_file w p) (ExternalError ''SystemExit''))"

fun check_configs :: "comm_run_config list \<Rightarrow> (int \<times> int) list \<Rightarrow> unit res" where
  "check_configs [] seen = Inr ()"
| "check_configs (c # cs) seen =
     (let pair = (cc_slack c, cc_reduce_ctas c)
      in bind_res (require (\<not> (fst pair \<le> 0 \<or> snd pair \<le> 0))
                     (ValueError ''Communication configuration values must be positive'')) (\<lambda>_.
         bind_res (require (pair \<notin> set seen) (ValueError ''Duplicate communication configuration'')) (\<lambda>_.
         check_configs cs (pair # seen))))"

definition configs_for :: "settings \<Rightarrow> int \<Rightarrow> comm_run_config list" where
  "configs_for st ws = (case map_of (configs_by_tp st) ws of None \<Rightarrow> [] | Some cs \<Rightarrow> cs)"

definition active_comm_run_configs :: "'o context_of_run \<Rightarrow> comm_run_config list res" where
  "active_comm_run_configs R =
     (let configs = configs_for (stg R) (int (length (devices R)))
      in bind_res (require (configs \<noteq> []) (ValueError ''No communication configuration is defined'')) (\<lambda>_.
         bind_res (check_configs configs []) (\<lambda>_. Inr configs)))"

text \<open>\<open>TypeError\<close> and \<open>ValueError\<close> of the conversions are caught, anything else escapes.\<close>

definition scenario_uses_configured_comm_run_config :: "settings \<Rightarrow> row \<Rightarrow> bool res" where
  "scenario_uses_configured_comm_run_config st scenario =
     (case bind_res (int_of_json (get_or scenario ''world_size'' JNull)) (\<lambda>ws.
           bind_res (int_of_json (get_or scenario ''comm_sm_slack'' JNull)) (\<lambda>s.
           bind_res (int_of_json (get_or scenario ''max_ctas_per_reduce_task'' JNull)) (\<lambda>r. Inr (ws, s, r)))) of
        Inr (ws, s, r) \<Rightarrow> Inr ((s, r) \<in> set (map (\<lambda>c. (cc_slack c, cc_reduce_ctas c)) (configs_for st ws)))
      | Inl TypeError \<Rightarrow> Inr False
      | Inl (ValueError _) \<Rightarrow> Inr False
      | Inl e \<Rightarrow> Inl e)"

definition scenario_id :: "'o context_of_run \<Rightarrow> shape \<Rightarrow> comm_run_config \<Rightarrow> string" where
  "scenario_id R s c =
     shape_id s @ ''__'' @ (if devices R \<noteq> [] then device_config_id (devices R) else ''tp_unknown'')
       @ ''__slack'' @ str_int (cc_slack c) @ ''__rcta'' @ str_int (cc_reduce_ctas c)"

definition scenarios_dir :: "string \<Rightarrow> string" where
  "scenarios_dir run_dir = below run_dir ''scenarios''"

definition scenario_json_path :: "string \<Rightarrow> string \<Rightarrow> string" where
  "scenario_json_path run_dir sid = below (scenarios_dir run_dir) (sid @ ''.json'')"

section \<open>Scenario files\<close>

text \<open>A text that is there but no JSON makes \<open>json.loads\<close> raise.\<close>

definition load_json_if_exists :: "'o world \<Rightarrow> string \<Rightarrow> json option res" where
  "load_json_if_exists w p =
     (case map_of (files w) p of
        None \<Rightarrow> Inr None
      | Some (TextDoc []) \<Rightarrow> Inr None
      | Some (TextDoc _) \<Rightarrow> Inl (ValueError ''JSONDecodeError'')
      | Some (JsonDoc j) \<Rightarrow> Inr (Some j))"

definition write_file :: "string \<Rightarrow> content \<Rightarrow> 'o world \<Rightarrow> 'o world" where
  "write_file p c w = w\<lparr>files := AList.update p c (files w)\<rparr>"

definition remove_file :: "string \<Rightarrow> 'o world \<Rightarrow> 'o world" where
  "remove_file p w = w\<lparr>files := AList.delete p (files w)\<rparr>"

text \<open>The data is written beside the file and moved over it.\<close>

definition write_json :: "string \<Rightarrow> json \<Rightarrow> ('o, unit) io" where
  "write_json p j =
     (let tmp = p @ ''.tmp''
      in bind_io (change (write_file tmp (JsonDoc j))) (\<lambda>_.
         change (\<lambda>w. write_file p (JsonDoc j) (remove_file tmp w))))"

definition save_scenario :: "string \<Rightarrow> row \<Rightarrow> ('o, unit) io" where
  "save_scenario run_dir scenario =
     bind_io (of_res (get_key scenario ''scenario_id'')) (\<lambda>sid.
     write_json (scenario_json_path run_dir (str_json sid)) (JObj scenario))"

text \<open>\<open>sorted(scen_dir.glob("*.json"))\<close>: the files right in the directory.\<close>

definition scenario_files :: "string \<Rightarrow> 'o world \<Rightarrow> string list" where
  "scenario_files run_dir w =
     (let d = below (scenarios_dir run_dir) []
      in sort (remdups (filter (\<lambda>p. prefix d p \<and> suffix ''.json'' p \<and> CHR ''/'' \<notin> set (drop (length d) p))
                 (map fst (files w)))))"

definition stem :: "string \<Rightarrow> string \<Rightarrow> string" where
  "stem run_dir p = (let name = drop (length (below (scenarios_dir run_dir) [])) p in take (length name - 5) name)"

text \<open>The data of one file as it is kept, and its key.\<close>

definition adopt :: "string \<Rightarrow> string \<Rightarrow> row \<Rightarrow> string \<times> row" where
  "adopt run_dir p data0 =
     (let data1 = (case map_of data0 ''tests'' of
                     Some (JObj t) \<Rightarrow> AList.update ''tests'' (JObj (AList.delete ''uncapped'' t)) data0
                   | _ \<Rightarrow> data0);
          sid = (if truthy (get_or data1 ''scenario_id'' JNull) then get_or data1 ''scenario_id'' JNull
                 else JStr (stem run_dir p));
          data2 = (if truthy (get_or data1 ''scenario_id'' JNull) then data1
                   else AList.update ''scenario_id'' sid data1)
      in (str_json sid, AList.update ''_loaded_from_existing_scenario_json'' (JStr p) data2))"

type_synonym scenarios = "(string \<times> row) list"

fun load_files :: "string \<Rightarrow> 'o world \<Rightarrow> string list \<Rightarrow> scenarios \<Rightarrow> scenarios res" where
  "load_files run_dir w [] out = Inr out"
| "load_files run_dir w (p # ps) out =
     bind_res (load_json_if_exists w p) (\<lambda>data.
     case data of
       Some (JObj r) \<Rightarrow> (let (sid, row) = adopt run_dir p r in load_files run_dir w ps (AList.update sid row out))
     | _ \<Rightarrow> load_files run_dir w ps out)"

definition load_existing_scenarios :: "string \<Rightarrow> 'o world \<Rightarrow> scenarios res" where
  "load_existing_scenarios run_dir w = load_files run_dir w (scenario_files run_dir w) []"

text \<open>\<open>int(x or 0)\<close>\<close>

definition int_or0 :: "json \<Rightarrow> int res" where
  "int_or0 j = (if truthy j then int_of_json j else Inr 0)"

type_synonym sort_tuple = "int \<times> int \<times> int \<times> int \<times> int \<times> string"

definition scenario_sort_key :: "row \<Rightarrow> sort_tuple res" where
  "scenario_sort_key r =
     (case get_or r ''shape'' (JObj []) of
        JObj sh \<Rightarrow>
          bind_res (int_or0 (get_or sh ''m'' (JInt 0))) (\<lambda>m.
          bind_res (int_or0 (get_or sh ''n'' (JInt 0))) (\<lambda>n.
          bind_res (int_or0 (get_or sh ''k'' (JInt 0))) (\<lambda>k.
          bind_res (int_or0 (get_or r ''comm_sm_slack'' (JInt 0))) (\<lambda>s.
          bind_res (int_or0 (get_or r ''max_ctas_per_reduce_task'' (JInt 0))) (\<lambda>c.
          Inr (m, n, k, s, c, str_json (get_or r ''scenario_id'' (JStr []))))))))
      | _ \<Rightarrow> Inl (ExternalError ''AttributeError''))"

definition sorted_scenarios :: "scenarios \<Rightarrow> row list res" where
  "sorted_scenarios by_id =
     bind_res (map_res (\<lambda>r. bind_res (scenario_sort_key r) (\<lambda>k. Inr (k, r))) (map snd by_id)) (\<lambda>keyed.
     Inr (map snd (sort_key fst keyed)))"

definition existing_scenario_is_ok :: "scenarios \<Rightarrow> string \<Rightarrow> bool res" where
  "existing_scenario_is_ok by_id sid =
     (case map_of by_id sid of
        None \<Rightarrow> Inr False
      | Some old \<Rightarrow>
          if get_or old ''status'' JNull \<noteq> JStr ''ok'' then Inr False
          else
            bind_res (int_or0 (get_or old ''evaluation_schema_version'' (JInt 0))) (\<lambda>v.
            if v \<noteq> EVALUATION_SCHEMA_VERSION then Inr False
            else
              case get_or old ''tests'' (JObj []) of
                JObj t \<Rightarrow> Inr (case get_or t ''capped'' JNull of JObj c \<Rightarrow> truthy (get_or c ''ok'' JNull) | _ \<Rightarrow> False)
              | _ \<Rightarrow> Inl (ExternalError ''AttributeError'')))"

end
