(* ===== verification/EvaluateRun.thy ===== *)
theory EvaluateRun
  imports Evaluate
begin

text \<open>
  The stages of \<open>tool/evaluate_sm90.py\<close>: child processes and their environment, the files the other tools
  leave, the parser of the test report, profiling, searching with retries, testing, one scenario, and \<open>main\<close>.
\<close>

section \<open>Child processes\<close>

definition make_env :: "'o context_of_run \<Rightarrow> bool \<Rightarrow> comm_run_config option \<Rightarrow> bool \<Rightarrow> env" where
  "make_env R for_test comm_config set_ooverlap_max_ctas =
     (let e0 = AList.update ''PYTHONUNBUFFERED'' ''1'' (environ (sys R));
          e1 = (if devices R \<noteq> [] then AList.update ''CUDA_VISIBLE_DEVICES'' (py_join '','' (map str_int (devices R))) e0
                else if visible_devices (stg R) \<noteq> []
                then AList.update ''CUDA_VISIBLE_DEVICES'' (visible_devices (stg R)) e0 else e0);
          e2 = (case comm_config of
                  None \<Rightarrow> e1
                | Some c \<Rightarrow>
                    let e = AList.update ''OOVERLAP_MAX_CTAS_PER_REDUCE_TASK'' (str_int (cc_reduce_ctas c)) e1
                    in if set_ooverlap_max_ctas
                       then AList.update ''NCCL_MAX_CTAS'' (str_int (cc_slack c))
                              (AList.update ''OOVERLAP_MAX_CTAS'' (str_int (cc_slack c)) e)
                       else e)
      in if for_test \<and> tuning_policy (stg R) \<noteq> []
         then AList.update ''OOVERLAP_TUNING_POLICY'' (tuning_policy (stg R)) e2 else e2)"

definition run_cmd :: "'o context_of_run \<Rightarrow> string list \<Rightarrow> string \<Rightarrow> env \<Rightarrow> ('o, row) io" where
  "run_cmd R cmd log_path env w =
     (let ((returncode, out), w1) = launch (sys R) cmd env w
      in (Inr [(''cmd'', JList (map JStr cmd)), (''cmd_str'', JStr (py_join '' '' cmd)),
               (''returncode'', JInt returncode), (''elapsed_sec'', JFloat (elapsed (sys R) w w1)),
               (''log_path'', JStr log_path),
               (''stdout'', JStr (if store_stdout (stg R) then out else [])),
               (''stdout_tail'', JStr (drop (nat (int (length out) - 8000)) out))],
          write_file log_path (TextDoc out) w1))"

section \<open>Files of the other tools\<close>

definition get_gpu_name_slug :: "'o context_of_run \<Rightarrow> string" where
  "get_gpu_name_slug R =
     (case gpu_model (sys R) of None \<Rightarrow> [] | Some n \<Rightarrow> replace_char CHR '' '' CHR ''_'' (py_lower n))"

definition config_dir :: "'o context_of_run \<Rightarrow> string" where
  "config_dir R = below (repo (sys R)) ''configs''"

definition shape_config_path :: "'o context_of_run \<Rightarrow> shape \<Rightarrow> 'o world \<Rightarrow> string" where
  "shape_config_path R s w =
     (let gpu = get_gpu_name_slug R
      in if gpu \<noteq> [] then below (config_dir R) (shape_id s @ ''_'' @ gpu @ ''_packed_sm90.json'')
         else case newest (sys R) w (config_dir R) (shape_id s @ ''_'') ''_packed_sm90.json'' of
                Some p \<Rightarrow> p
              | None \<Rightarrow> below (config_dir R) (shape_id s @ ''_unknown_packed_sm90.json''))"

definition solution_path :: "'o context_of_run \<Rightarrow> shape \<Rightarrow> string \<Rightarrow> 'o world \<Rightarrow> string res" where
  "solution_path R s backend w =
     (let gpu = get_gpu_name_slug R; ws = int (length (devices R));
          start = ''solution_'' @ backend @ ''_'' @ shape_id s @ ''_'';
          tail = ''_tp'' @ str_int ws @ ''_packed_sm90.json''
      in bind_res (require (2 \<le> ws) (RuntimeError ''ACTIVE_DEVICES must contain at least two GPUs'')) (\<lambda>_.
         if gpu \<noteq> [] then
           let exact = below (config_dir R) (start @ gpu @ tail);
               legacy = below (config_dir R) (start @ gpu @ ''_packed_sm90.json'')
           in if map_of (files w) exact \<noteq> None then Inr exact
              else if ws = 2 \<and> map_of (files w) legacy \<noteq> None then Inr legacy else Inr exact
         else Inr (case newest (sys R) w (config_dir R) start tail of
                     Some p \<Rightarrow> p
                   | None \<Rightarrow> below (config_dir R) (start @ ''unknown'' @ tail))))"

definition csv_path_for_shape :: "'o context_of_run \<Rightarrow> shape \<Rightarrow> string" where
  "csv_path_for_shape R s =
     (if sh_csv s \<noteq> [] then expand (sys R) (sh_csv s)
      else below (expand (sys R) (csv_dir (stg R))) (shape_id s @ ''.gemm.csv''))"

definition config_has_algos :: "string \<Rightarrow> 'o world \<Rightarrow> bool res" where
  "config_has_algos p w =
     bind_res (load_json_if_exists w p) (\<lambda>data.
     Inr (case data of
            Some (JObj r) \<Rightarrow> (case get_or r ''Algo'' (JList []) of JList xs \<Rightarrow> xs \<noteq> [] | _ \<Rightarrow> False)
          | _ \<Rightarrow> False))"

definition py_len :: "json \<Rightarrow> int res" where
  "py_len j =
     (case j of
        JList xs \<Rightarrow> Inr (int (length xs)) | JObj kvs \<Rightarrow> Inr (int (length kvs)) | JStr s \<Rightarrow> Inr (int (length s))
      | _ \<Rightarrow> Inl TypeError)"

definition load_solution_summary :: "'o context_of_run \<Rightarrow> shape \<Rightarrow> string \<Rightarrow> 'o world \<Rightarrow> row res" where
  "load_solution_summary R s backend w =
     bind_res (solution_path R s backend w) (\<lambda>path.
     bind_res (load_json_if_exists w path) (\<lambda>data.
     case data of
       Some (JObj d) \<Rightarrow>
         let ws = int (length (devices R)); get = (\<lambda>k. get_or d k JNull)
         in bind_res (if get ''world_size'' = JNull then Inr True
                      else bind_res (int_of_json (get ''world_size'')) (\<lambda>v. Inr (v = ws))) (\<lambda>same.
            if \<not> same then Inr [(''ok'', JBool False), (''path'', JStr path),
                             (''error'', JStr ''solution world_size does not match requested world_size'')]
            else
              bind_res (py_len (get_or d ''hint'' (JList []))) (\<lambda>hint_len.
              Inr ([(''ok'', JBool True), (''path'', JStr path), (''M'', get ''M''), (''N'', get ''N''), (''K'', get ''K''),
                    (''world_size'', get_or d ''world_size'' (JInt ws)),
                    (''comm_backend'', get_or d ''comm_backend'' (JStr backend)), (''comm_op'', get ''comm_op''),
                    (''Algo'', get ''Algo''), (''BM'', get ''BM''), (''BN'', get ''BN''), (''dur'', get ''dur''),
                    (''cSeg'', get_or d ''cSeg'' (JList [])),
                    (''hint_stable_count'', get_or d ''hint_stable_count'' (JInt hint_len))]
                   @ map (\<lambda>k. (k, get k)) [''unstable_tail_count'', ''selected_predicted_latency_ms'',
                       ''searched_latency_ms'', ''sm_count'', ''comm_sm_slack'', ''compute_sms'', ''bandwidth_path''])))
     | _ \<Rightarrow> Inr [(''ok'', JBool False), (''path'', JStr path), (''error'', JStr ''solution json missing or invalid'')]))"

definition min_group_trial_allowed :: "shape \<Rightarrow> min_group_trial \<Rightarrow> bool" where
  "min_group_trial_allowed s t = (case tr_max_mn t of None \<Rightarrow> True | Some x \<Rightarrow> sh_m s * sh_n s \<le> x)"

definition min_group_trial_to_dict :: "min_group_trial \<Rightarrow> row" where
  "min_group_trial_to_dict t =
     [(''min_group_size'', JInt (tr_group t)), (''min_effective_group_size'', JInt (tr_effective t)),
      (''max_mn'', case tr_max_mn t of None \<Rightarrow> JNull | Some x \<Rightarrow> JInt x)]"

section \<open>The report of the test\<close>

definition FLOAT_KEYS :: "string list" where
  "FLOAT_KEYS = [''comm_dur_ms'', ''overlap_dur_ms'', ''cublas_baseline_ms'', ''speedup_vs_cublas'',
     ''plain_baseline_ms'', ''speedup_vs_plain'']"

definition STR_KEYS :: "string list" where
  "STR_KEYS = [''backend'', ''comm_op'']"

definition rstrip :: "string \<Rightarrow> string" where
  "rstrip s = rev (dropWhile is_space (rev s))"

definition lstrip :: "string \<Rightarrow> string" where
  "lstrip s = dropWhile is_space s"

text \<open>\<open># *Running +backend=(nccl|ooverlap)\<close> at the start of a text, and searched in a line.\<close>

definition running_here :: "string \<Rightarrow> string option" where
  "running_here s =
     (case s of
        [] \<Rightarrow> None
      | c # cs \<Rightarrow>
          let r = drop 7 (lstrip cs); b = drop 8 (lstrip r)
          in if c = CHR ''#'' \<and> prefix ''Running'' (lstrip cs) \<and> r \<noteq> [] \<and> is_space (hd r) \<and> prefix ''backend='' (lstrip r)
             then if prefix ''nccl'' b then Some ''nccl'' else if prefix ''ooverlap'' b then Some ''ooverlap'' else None
             else None)"

fun search_running :: "string \<Rightarrow> string option" where
  "search_running [] = None"
| "search_running (c # cs) = (case running_here (c # cs) of Some b \<Rightarrow> Some b | None \<Rightarrow> search_running cs)"

definition word_start :: "char \<Rightarrow> bool" where
  "word_start c \<longleftrightarrow> (let k = of_char c :: nat in (65 \<le> k \<and> k \<le> 90) \<or> (97 \<le> k \<and> k \<le> 122) \<or> k = 95)"

definition word_char :: "char \<Rightarrow> bool" where
  "word_char c \<longleftrightarrow> word_start c \<or> char_digit c \<noteq> None"

text \<open>The match of \<open>line_re\<close> on a line without trailing blanks: key and value.\<close>

definition key_value :: "string \<Rightarrow> (string \<times> string) option" where
  "key_value line =
     (let s = lstrip line; k = takeWhile word_char s; r = dropWhile word_char s
      in if k \<noteq> [] \<and> word_start (hd k) \<and> r \<noteq> [] \<and> is_space (hd r) then Some (k, py_strip r) else None)"

text \<open>\<open>val.split()[-1]\<close>\<close>

definition last_word :: "string \<Rightarrow> string" where
  "last_word v = rev (takeWhile (\<lambda>c. \<not> is_space c) (rev (rstrip v)))"

text \<open>The fields of each backend, and the backend of the current section. A number is carried as the text that was
  read; \<open>nan\<close> and infinities, which the report never prints in these lines, count as unreadable.\<close>

definition ensure_backend :: "string \<Rightarrow> scenarios \<Rightarrow> scenarios" where
  "ensure_backend b by_backend = (if map_of by_backend b = None then by_backend @ [(b, [])] else by_backend)"

definition set_field :: "string \<Rightarrow> string \<Rightarrow> json \<Rightarrow> scenarios \<Rightarrow> scenarios" where
  "set_field b k v by_backend =
     AList.update b (AList.update k v (case map_of by_backend b of None \<Rightarrow> [] | Some r \<Rightarrow> r)) by_backend"

definition parse_line :: "string \<Rightarrow> scenarios \<times> string option \<Rightarrow> scenarios \<times> string option" where
  "parse_line raw state =
     (let (by_backend, current) = state; line = rstrip raw
      in case search_running line of
           Some b \<Rightarrow> (ensure_backend b by_backend, Some b)
         | None \<Rightarrow>
             (case key_value line of
                None \<Rightarrow> state
              | Some (k, v) \<Rightarrow>
                  if k \<notin> set (FLOAT_KEYS @ STR_KEYS) then state
                  else if k = ''backend'' then
                    (if last_word v \<in> {''nccl'', ''ooverlap''}
                     then (set_field (last_word v) ''backend'' (JStr (last_word v)) (ensure_backend (last_word v) by_backend),
                           Some (last_word v))
                     else state)
                  else (case current of
                          None \<Rightarrow> state
                        | Some b \<Rightarrow>
                            (set_field b k
                               (if k \<in> set FLOAT_KEYS
                                then (case py_float (last_word v) of Inl _ \<Rightarrow> JNull | Inr _ \<Rightarrow> JFloat (last_word v))
                                else JStr (last_word v)) (ensure_backend b by_backend), current))))"

definition by_backend_of :: "string \<Rightarrow> scenarios" where
  "by_backend_of stdout = fst (foldl (\<lambda>st l. parse_line l st) ([], None) (splitlines stdout))"

text \<open>\<open>float(v)\<close> of a stored field, where \<open>None\<close> raises \<open>TypeError\<close>.\<close>

definition field_value :: "json \<Rightarrow> real option" where
  "field_value j =
     (case j of JFloat s \<Rightarrow> (case py_float s of Inl _ \<Rightarrow> None | Inr x \<Rightarrow> Some x) | _ \<Rightarrow> None)"

definition ratio :: "json \<Rightarrow> json \<Rightarrow> real option" where
  "ratio num den =
     (case (field_value den, field_value num) of
        (Some d, Some n) \<Rightarrow> if d = 0 then None else Some (n / d)
      | _ \<Rightarrow> None)"

definition cross_of :: "(real \<Rightarrow> string) \<Rightarrow> scenarios \<Rightarrow> row" where
  "cross_of fmt by_backend =
     (let nccl = (case map_of by_backend ''nccl'' of None \<Rightarrow> [] | Some r \<Rightarrow> r);
          oo = (case map_of by_backend ''ooverlap'' of None \<Rightarrow> [] | Some r \<Rightarrow> r);
          f = (\<lambda>r k. get_or r k JNull);
          q = (\<lambda>x. case x of None \<Rightarrow> JNull | Some v \<Rightarrow> JFloat (fmt v))
      in if nccl = [] \<or> oo = [] then []
         else [(''nccl_overlap_vs_ooverlap_cublas_baseline'', q (ratio (f oo ''cublas_baseline_ms'') (f nccl ''overlap_dur_ms''))),
               (''ooverlap_overlap_vs_nccl_cublas_baseline'', q (ratio (f nccl ''cublas_baseline_ms'') (f oo ''overlap_dur_ms''))),
               (''nccl_overlap_vs_ooverlap_plain_baseline'', q (ratio (f oo ''plain_baseline_ms'') (f nccl ''overlap_dur_ms''))),
               (''ooverlap_overlap_vs_nccl_plain_baseline'', q (ratio (f nccl ''plain_baseline_ms'') (f oo ''overlap_dur_ms''))),
               (''ooverlap_overlap_vs_nccl_overlap'', q (ratio (f nccl ''overlap_dur_ms'') (f oo ''overlap_dur_ms'')))])"

definition parse_test_stdout :: "(real \<Rightarrow> string) \<Rightarrow> string \<Rightarrow> json" where
  "parse_test_stdout fmt stdout =
     JObj [(''by_backend'', JObj (map (\<lambda>(b, r). (b, JObj r)) (by_backend_of stdout))),
           (''cross'', JObj (cross_of fmt (by_backend_of stdout)))]"

section \<open>Stages\<close>

definition shape_args :: "shape \<Rightarrow> string list" where
  "shape_args s = [''--m'', str_int (sh_m s), ''--n'', str_int (sh_n s), ''--k'', str_int (sh_k s)]"

definition profile_cmd :: "'o context_of_run \<Rightarrow> shape \<Rightarrow> string \<Rightarrow> string list" where
  "profile_cmd R s csv =
     [python (sys R), ''tool/gen_config_sm90.py''] @ shape_args s
       @ [''--csv'', csv, ''--top-csv'', ''100'', ''--top-save'', ''30'', ''--warmup'', ''50'', ''--iters'', ''150'']
       @ [''--csv-accum-dtype'', ''f16'', ''--layout'', ''packed'', ''--csv-c-layout'', ''any'', ''--csv-d-layout'', ''any'']"

definition returned_zero :: "row \<Rightarrow> bool" where
  "returned_zero res \<longleftrightarrow> get_or res ''returncode'' JNull = JInt 0"

definition run_profile :: "'o context_of_run \<Rightarrow> shape \<Rightarrow> string \<Rightarrow> bool \<Rightarrow> ('o, row) io" where
  "run_profile R s run_dir skip_existing_profile =
     bind_io (reads (\<lambda>w. bind_res (if skip_existing_profile then config_has_algos (shape_config_path R s w) w else Inr False)
                          (\<lambda>has. Inr (has, shape_config_path R s w, map_of (files w) (csv_path_for_shape R s) \<noteq> None))))
       (\<lambda>(has, cfg, csv_exists).
     if has then
       ret [(''skipped'', JBool True), (''ok'', JBool True), (''config_path'', JStr cfg),
            (''reason'', JStr ''existing config has Algo entries'')]
     else if \<not> csv_exists then
       ret [(''skipped'', JBool False), (''ok'', JBool False), (''config_path'', JStr cfg),
            (''csv'', JStr (csv_path_for_shape R s)), (''error'', JStr ''csv file does not exist'')]
     else
       bind_io (run_cmd R (profile_cmd R s (csv_path_for_shape R s))
                  (below (below run_dir ''logs'') (shape_id s @ ''__profile.log'')) (make_env R False None False)) (\<lambda>res.
       bind_io (reads (\<lambda>w. bind_res (if returned_zero res then config_has_algos (shape_config_path R s w) w else Inr False)
                            (\<lambda>ok. Inr (ok, shape_config_path R s w)))) (\<lambda>(ok, cfg).
       ret [(''skipped'', JBool False), (''ok'', JBool ok), (''config_path'', JStr cfg),
            (''csv'', JStr (csv_path_for_shape R s)), (''run'', JObj res),
            (''error'', JStr (if ok then [] else ''profile command failed or config has no Algo entries''))])))"

definition search_cmd :: "'o context_of_run \<Rightarrow> shape \<Rightarrow> comm_run_config \<Rightarrow> min_group_trial \<Rightarrow> string list res" where
  "search_cmd R s c t =
     bind_res (bandwidth_curve_path R c ''nccl'') (\<lambda>nccl.
     bind_res (bandwidth_curve_path R c ''ooverlap'') (\<lambda>oo.
     Inr ([python (sys R), ''tool/search.py''] @ shape_args s
          @ [''--comm_op'', set_op (stg R), ''--comm_backend'', set_backend (stg R), ''--comm_sm_slack'', str_int (cc_slack c),
             ''--min_group_size'', str_int (tr_group t), ''--min_effective_group_size'', str_int (tr_effective t),
             ''--nccl_bandwidth_path'', nccl, ''--ooverlap_bandwidth_path'', oo, ''--predictive_search''])))"

text \<open>\<open>solution_ok\<close>: both summaries are usable and were searched with this slack.\<close>

definition solutions_match :: "int \<Rightarrow> row \<Rightarrow> row \<Rightarrow> bool res" where
  "solutions_match slack nccl oo =
     (let slack_of = (\<lambda>r. int_of_json (get_or r ''comm_sm_slack'' (JInt (-1))))
      in if \<not> truthy (get_or nccl ''ok'' JNull) \<or> \<not> truthy (get_or oo ''ok'' JNull) then Inr False
         else bind_res (slack_of nccl) (\<lambda>a. if a \<noteq> slack then Inr False
              else bind_res (slack_of oo) (\<lambda>b. Inr (b = slack))))"

definition trial_log :: "shape \<Rightarrow> comm_run_config \<Rightarrow> min_group_trial \<Rightarrow> string" where
  "trial_log s c t =
     shape_id s @ ''__slack'' @ str_int (cc_slack c) @ ''__rcta'' @ str_int (cc_reduce_ctas c) @ ''__mg''
       @ str_int (tr_group t) @ ''__meg'' @ str_int (tr_effective t) @ ''__search.log''"

definition run_search_trial ::
  "'o context_of_run \<Rightarrow> shape \<Rightarrow> comm_run_config \<Rightarrow> min_group_trial \<Rightarrow> string \<Rightarrow> ('o, row) io" where
  "run_search_trial R s c t run_dir =
     bind_io (of_res (search_cmd R s c t)) (\<lambda>cmd.
     bind_io (run_cmd R cmd (below (below run_dir ''logs'') (trial_log s c t)) (make_env R False (Some c) True)) (\<lambda>res.
     bind_io (reads (load_solution_summary R s ''nccl'')) (\<lambda>nccl.
     bind_io (reads (load_solution_summary R s ''ooverlap'')) (\<lambda>oo.
     bind_io (of_res (solutions_match (cc_slack c) nccl oo)) (\<lambda>solution_ok.
     let ok = returned_zero res \<and> solution_ok
     in ret ([(''ok'', JBool ok), (''skipped'', JBool False), (''comm_config'', comm_run_config_to_dict c)]
             @ min_group_trial_to_dict t
             @ [(''run'', JObj res), (''solutions'', JObj [(''nccl'', JObj nccl), (''ooverlap'', JObj oo)]),
                (''error'', JStr (if ok then [] else ''search failed or backend solution JSONs are missing/stale''))]))))))"

definition skipped_trial :: "min_group_trial \<Rightarrow> row" where
  "skipped_trial t =
     [(''ok'', JBool False), (''skipped'', JBool True), (''skip_reason'', JStr ''M*N > max_mn'')] @ min_group_trial_to_dict t"

fun search_loop ::
  "'o context_of_run \<Rightarrow> shape \<Rightarrow> comm_run_config \<Rightarrow> string \<Rightarrow> min_group_trial list \<Rightarrow> row list \<Rightarrow> ('o, row) io" where
  "search_loop R s c run_dir [] done_trials =
     ret [(''ok'', JBool False), (''selected'', JNull), (''trials'', JList (map JObj done_trials)),
          (''solutions'', case filter (\<lambda>t. has_key t ''solutions'') (rev done_trials) of
             [] \<Rightarrow> JObj [] | t # _ \<Rightarrow> get_or t ''solutions'' JNull),
          (''error'', JStr ''all allowed min_group trials failed or were skipped'')]"
| "search_loop R s c run_dir (t # ts) done_trials =
     (if \<not> min_group_trial_allowed s t then search_loop R s c run_dir ts (done_trials @ [skipped_trial t])
      else
        bind_io (run_search_trial R s c t run_dir) (\<lambda>trial.
        if get_or trial ''ok'' JNull = JBool True then
          ret [(''ok'', JBool True), (''selected'', JObj (min_group_trial_to_dict t)),
               (''trials'', JList (map JObj (done_trials @ [trial]))), (''solutions'', get_or trial ''solutions'' JNull)]
        else search_loop R s c run_dir ts (done_trials @ [trial])))"

definition run_search_with_retries :: "'o context_of_run \<Rightarrow> shape \<Rightarrow> comm_run_config \<Rightarrow> string \<Rightarrow> ('o, row) io" where
  "run_search_with_retries R s c run_dir = search_loop R s c run_dir (trials (stg R)) []"

definition test_cmd :: "'o context_of_run \<Rightarrow> shape \<Rightarrow> string list" where
  "test_cmd R s =
     [python (sys R), ''test/test.py''] @ shape_args s
       @ [''--comm_op'', set_op (stg R), ''--comm_backend'', set_backend (stg R), ''--set_nccl_comm_ctas_to_comm_sms'',
          ''--set_ooverlap_comm_ctas_to_comm_sms'']"

text \<open>The output of the test, from the result or from the log.\<close>

definition test_output :: "row \<Rightarrow> 'o world \<Rightarrow> string res" where
  "test_output res w =
     (case get_or res ''stdout'' JNull of
        JStr (c # cs) \<Rightarrow> Inr (c # cs)
      | _ \<Rightarrow>
          (case map_of (files w) (str_json (get_or res ''log_path'' JNull)) of
             Some (TextDoc t) \<Rightarrow> Inr t
           | _ \<Rightarrow> Inl (FileNotFoundError ''log'')))"

definition run_test :: "'o context_of_run \<Rightarrow> shape \<Rightarrow> comm_run_config \<Rightarrow> string \<Rightarrow> ('o, row) io" where
  "run_test R s c run_dir =
     bind_io (run_cmd R (test_cmd R s)
                (below (below run_dir ''logs'')
                  (shape_id s @ ''__slack'' @ str_int (cc_slack c) @ ''__rcta'' @ str_int (cc_reduce_ctas c) @ ''__test_capped.log''))
                (make_env R True (Some c) False)) (\<lambda>res.
     bind_io (reads (test_output res)) (\<lambda>out.
     ret [(''ok'', JBool (returned_zero res)), (''capped'', JBool True), (''comm_config'', comm_run_config_to_dict c),
          (''run'', JObj res), (''parsed'', parse_test_stdout (float_repr (sys R)) out),
          (''error'', JStr (if returned_zero res then [] else ''test.py failed''))]))"

section \<open>One scenario\<close>

text \<open>The fields that a scenario starts with, in \<open>run_scenario\<close> and for a failed profile.\<close>

definition scenario_head :: "'o context_of_run \<Rightarrow> shape \<Rightarrow> comm_run_config \<Rightarrow> row" where
  "scenario_head R s c =
     [(''scenario_id'', JStr (scenario_id R s c)),
      (''shape'', JObj [(''m'', JInt (sh_m s)), (''n'', JInt (sh_n s)), (''k'', JInt (sh_k s))]),
      (''comm_op'', JStr (set_op (stg R))), (''comm_backend'', JStr (set_backend (stg R))),
      (''world_size'', JInt (int (length (devices R)))), (''devices'', JList (map JInt (devices R))),
      (''cuda_visible_devices'', JStr (py_join '','' (map str_int (devices R)))),
      (''comm_sm_slack'', JInt (cc_slack c)), (''max_ctas_per_reduce_task'', JInt (cc_reduce_ctas c)),
      (''comm_config'', comm_run_config_to_dict c)]"

definition is_true :: "row \<Rightarrow> bool" where
  "is_true r \<longleftrightarrow> get_or r ''ok'' JNull = JBool True"

definition set_key :: "string \<Rightarrow> json \<Rightarrow> row \<Rightarrow> row" where
  "set_key = AList.update"

text \<open>The end of both branches: the time is added, the scenario saved and returned.\<close>

definition close_scenario :: "'o context_of_run \<Rightarrow> string \<Rightarrow> row \<Rightarrow> ('o, row) io" where
  "close_scenario R run_dir sc =
     bind_io (reads (\<lambda>w. Inr (now_stamp (sys R) w))) (\<lambda>finished.
     bind_io (save_scenario run_dir (set_key ''finished_at'' (JStr finished) sc)) (\<lambda>_.
     ret (set_key ''finished_at'' (JStr finished) sc)))"

definition tested :: "row \<Rightarrow> row \<Rightarrow> row" where
  "tested capped sc =
     (let sc3 = set_key ''tests'' (JObj [(''capped'', JObj capped)]) sc
      in if \<not> is_true capped
         then set_key ''failed_stage'' (JStr ''test_capped'') (set_key ''status'' (JStr ''failed'') sc3)
         else set_key ''status'' (JStr ''ok'') sc3)"

definition test_scenario :: "'o context_of_run \<Rightarrow> shape \<Rightarrow> comm_run_config \<Rightarrow> string \<Rightarrow> row \<Rightarrow> ('o, row) io" where
  "test_scenario R s c run_dir sc1 =
     bind_io (reads (load_solution_summary R s ''nccl'')) (\<lambda>nccl.
     bind_io (reads (load_solution_summary R s ''ooverlap'')) (\<lambda>oo.
     let sc2 = set_key ''solutions'' (JObj [(''nccl'', JObj nccl), (''ooverlap'', JObj oo)]) sc1
     in bind_io (save_scenario run_dir sc2) (\<lambda>_.
        bind_io (run_test R s c run_dir) (\<lambda>capped.
        close_scenario R run_dir (tested capped sc2)))))"

definition started_scenario :: "'o context_of_run \<Rightarrow> shape \<Rightarrow> comm_run_config \<Rightarrow> string \<Rightarrow> string \<Rightarrow> string \<Rightarrow> row" where
  "started_scenario R s c nccl_curve oo_curve started =
     scenario_head R s c
       @ [(''evaluation_schema_version'', JInt EVALUATION_SCHEMA_VERSION),
          (''bandwidth_paths'', JObj [(''nccl'', JStr nccl_curve), (''ooverlap'', JStr oo_curve)]),
          (''status'', JStr ''running''), (''started_at'', JStr started)]"

definition run_scenario :: "'o context_of_run \<Rightarrow> shape \<Rightarrow> comm_run_config \<Rightarrow> string \<Rightarrow> ('o, row) io" where
  "run_scenario R s c run_dir =
     bind_io (of_res (bandwidth_curve_path R c ''nccl'')) (\<lambda>nccl_curve.
     bind_io (of_res (bandwidth_curve_path R c ''ooverlap'')) (\<lambda>oo_curve.
     bind_io (reads (\<lambda>w. Inr (now_stamp (sys R) w))) (\<lambda>started.
     let sc0 = started_scenario R s c nccl_curve oo_curve started
     in bind_io (save_scenario run_dir sc0) (\<lambda>_.
        bind_io (run_search_with_retries R s c run_dir) (\<lambda>search.
        let sc1 = set_key ''search'' (JObj search) sc0
        in if \<not> is_true search
           then close_scenario R run_dir
                  (set_key ''failed_stage'' (JStr ''search'') (set_key ''status'' (JStr ''failed'') sc1))
           else test_scenario R s c run_dir sc1)))))"

section \<open>Summary and main\<close>

definition summarize :: "row list \<Rightarrow> row" where
  "summarize results =
     (let oks = filter (\<lambda>r. get_or r ''status'' JNull = JStr ''ok'') results;
          failed = filter (\<lambda>r. get_or r ''status'' JNull \<noteq> JStr ''ok'') results
      in [(''scenario_count'', JInt (int (length results))), (''ok_count'', JInt (int (length oks))),
          (''failed_count'', JInt (int (length failed))),
          (''failed'', JList (map (\<lambda>r. JObj (map (\<lambda>k. (k, get_or r k JNull))
              [''scenario_id'', ''failed_stage'', ''shape'', ''comm_sm_slack'', ''max_ctas_per_reduce_task''])) failed))])"

record eval_args =
  ev_skip_profile :: bool
  ev_rerun :: bool
  ev_out_dir :: string
  ev_devices :: string
  ev_only_shape :: string

definition skip_existing :: "settings \<Rightarrow> eval_args \<Rightarrow> bool" where
  "skip_existing st args \<longleftrightarrow> skip_ok st \<and> \<not> ev_rerun args"

definition run_meta :: "'o context_of_run \<Rightarrow> eval_args \<Rightarrow> string \<Rightarrow> comm_run_config list \<Rightarrow> string \<Rightarrow> row" where
  "run_meta R args run_dir comm_configs started =
     [(''started_at'', JStr started), (''repo_root'', JStr (repo (sys R))),
      (''profile_script'', JStr ''tool/gen_config_sm90.py''), (''search_script'', JStr ''tool/search.py''),
      (''test_script'', JStr ''test/test.py''), (''comm_op'', JStr (set_op (stg R))),
      (''comm_backend'', JStr (set_backend (stg R))), (''evaluation_schema_version'', JInt EVALUATION_SCHEMA_VERSION),
      (''measurement_mode'', JStr ''capped_only''),
      (''comm_run_configs_by_tp'', JObj (map (\<lambda>(tp, cs). (str_int tp, JList (map comm_run_config_to_dict cs)))
         (sort_key fst (configs_by_tp (stg R))))),
      (''active_comm_run_configs'', JList (map comm_run_config_to_dict comm_configs)),
      (''min_group_trials'', JList (map (\<lambda>t. JObj (min_group_trial_to_dict t)) (trials (stg R)))),
      (''skip_existing_profile'', JBool (ev_skip_profile args)),
      (''skip_existing_ok_scenarios'', JBool (skip_existing (stg R) args)),
      (''ooverlap_tuning_policy'', JStr (tuning_policy (stg R))),
      (''world_size'', JInt (int (length (devices R)))), (''devices'', JList (map JInt (devices R))),
      (''cuda_visible_devices'', JStr (py_join '','' (map str_int (devices R)))), (''out_dir'', JStr run_dir)]"

text \<open>The merged document, \<open>stamp_key\<close> being \<open>updated_at\<close> or \<open>finished_at\<close>.\<close>

definition write_result :: "'o context_of_run \<Rightarrow> string \<Rightarrow> row \<Rightarrow> string \<Rightarrow> string \<Rightarrow> scenarios \<Rightarrow> ('o, row list) io" where
  "write_result R path meta stamp_key name by_id =
     bind_io (of_res (sorted_scenarios by_id)) (\<lambda>all_results.
     bind_io (reads (\<lambda>w. Inr (now_stamp (sys R) w))) (\<lambda>stamp.
     bind_io (write_json (below path name)
       (JObj [(''meta'', JObj meta), (''summary'', JObj (summarize all_results)),
              (''scenarios'', JList (map JObj all_results)), (stamp_key, JStr stamp)])) (\<lambda>_.
     ret all_results)))"

definition write_partial :: "'o context_of_run \<Rightarrow> string \<Rightarrow> row \<Rightarrow> scenarios \<Rightarrow> ('o, unit) io" where
  "write_partial R run_dir meta by_id =
     bind_io (write_result R run_dir meta ''updated_at'' ''evaluation_result.partial.json'' by_id) (\<lambda>_. ret ())"

definition keep_existing :: "bool \<Rightarrow> scenarios \<Rightarrow> string \<Rightarrow> bool res" where
  "keep_existing skip by_id sid = (if skip then existing_scenario_is_ok by_id sid else Inr False)"

text \<open>The scenarios of a shape whose profile failed.\<close>

definition unprofiled_scenario :: "'o context_of_run \<Rightarrow> shape \<Rightarrow> comm_run_config \<Rightarrow> row \<Rightarrow> string \<Rightarrow> row" where
  "unprofiled_scenario R s c profile stamp =
     scenario_head R s c
       @ [(''status'', JStr ''failed''), (''failed_stage'', JStr ''profile''), (''profile'', JObj profile),
          (''started_at'', JStr stamp), (''finished_at'', JStr stamp)]"

fun fail_configs ::
  "'o context_of_run \<Rightarrow> bool \<Rightarrow> string \<Rightarrow> shape \<Rightarrow> row \<Rightarrow> comm_run_config list \<Rightarrow> scenarios \<Rightarrow> ('o, scenarios) io" where
  "fail_configs R skip run_dir s profile [] by_id = ret by_id"
| "fail_configs R skip run_dir s profile (c # cs) by_id =
     bind_io (of_res (keep_existing skip by_id (scenario_id R s c))) (\<lambda>keep.
     if keep then fail_configs R skip run_dir s profile cs by_id
     else
       bind_io (reads (\<lambda>w. Inr (now_stamp (sys R) w))) (\<lambda>stamp.
       let sc = unprofiled_scenario R s c profile stamp
       in bind_io (save_scenario run_dir sc) (\<lambda>_.
          fail_configs R skip run_dir s profile cs (AList.update (scenario_id R s c) sc by_id))))"

fun run_configs ::
  "'o context_of_run \<Rightarrow> bool \<Rightarrow> string \<Rightarrow> row \<Rightarrow> shape \<Rightarrow> row \<Rightarrow> comm_run_config list \<Rightarrow> scenarios \<Rightarrow> ('o, scenarios) io" where
  "run_configs R skip run_dir meta s profile [] by_id = ret by_id"
| "run_configs R skip run_dir meta s profile (c # cs) by_id =
     bind_io (of_res (keep_existing skip by_id (scenario_id R s c))) (\<lambda>keep.
     if keep then
       bind_io (write_partial R run_dir meta by_id) (\<lambda>_. run_configs R skip run_dir meta s profile cs by_id)
     else
       bind_io (run_scenario R s c run_dir) (\<lambda>sc0.
       let sc = set_key ''profile'' (JObj profile) sc0; by_id' = AList.update (scenario_id R s c) sc by_id
       in bind_io (save_scenario run_dir sc) (\<lambda>_.
          bind_io (write_partial R run_dir meta by_id') (\<lambda>_.
          run_configs R skip run_dir meta s profile cs by_id'))))"

text \<open>\<open>all(existing_scenario_is_ok(..) for sid in shape_sids)\<close>, which stops at the first that is not.\<close>

fun all_existing_ok :: "scenarios \<Rightarrow> string list \<Rightarrow> bool res" where
  "all_existing_ok by_id [] = Inr True"
| "all_existing_ok by_id (sid # sids) =
     bind_res (existing_scenario_is_ok by_id sid) (\<lambda>ok. if ok then all_existing_ok by_id sids else Inr False)"

fun run_shapes ::
  "'o context_of_run \<Rightarrow> eval_args \<Rightarrow> bool \<Rightarrow> string \<Rightarrow> row \<Rightarrow> comm_run_config list \<Rightarrow> shape list \<Rightarrow> scenarios \<Rightarrow>
   ('o, scenarios) io" where
  "run_shapes R args skip run_dir meta cs [] by_id = ret by_id"
| "run_shapes R args skip run_dir meta cs (s # ss) by_id =
     bind_io (of_res (if skip then all_existing_ok by_id (map (scenario_id R s) cs) else Inr False)) (\<lambda>all_ok.
     if all_ok then
       bind_io (write_partial R run_dir meta by_id) (\<lambda>_. run_shapes R args skip run_dir meta cs ss by_id)
     else
       bind_io (run_profile R s run_dir (ev_skip_profile args)) (\<lambda>profile.
       if \<not> is_true profile then
         bind_io (fail_configs R skip run_dir s profile cs by_id) (\<lambda>by_id'.
         bind_io (write_partial R run_dir meta by_id') (\<lambda>_. run_shapes R args skip run_dir meta cs ss by_id'))
       else
         bind_io (run_configs R skip run_dir meta s profile cs by_id) (\<lambda>by_id'.
         run_shapes R args skip run_dir meta cs ss by_id')))"

text \<open>The rows of the loaded scenarios that the configurations know.\<close>

definition configured_scenarios :: "settings \<Rightarrow> scenarios \<Rightarrow> scenarios res" where
  "configured_scenarios st loaded =
     bind_res (map_res (\<lambda>(sid, r). bind_res (scenario_uses_configured_comm_run_config st r) (\<lambda>b. Inr (b, sid, r))) loaded)
       (\<lambda>xs. Inr (map snd (filter fst xs)))"

definition selected_shapes :: "settings \<Rightarrow> eval_args \<Rightarrow> shape list" where
  "selected_shapes st args =
     (if ev_only_shape args \<noteq> [] then filter (\<lambda>s. shape_id s = ev_only_shape args) (shapes st) else shapes st)"

text \<open>\<open>main\<close> after the arguments are parsed; the result is the exit code.\<close>

definition evaluate_main :: "'o system \<Rightarrow> settings \<Rightarrow> eval_args \<Rightarrow> ('o, int) io" where
  "evaluate_main S st args =
     bind_io (of_res (eval_parse_devices (ev_devices args))) (\<lambda>ds.
     let R = \<lparr>sys = S, stg = st, devices = ds\<rparr>; run_dir = resolve S (ev_out_dir args)
     in bind_io (of_res (active_comm_run_configs R)) (\<lambda>cs.
        bind_io (reads (validate_bandwidth_curves R cs)) (\<lambda>_.
        bind_io (of_res (require (shapes st \<noteq> []) (ExternalError ''SystemExit''))) (\<lambda>_.
        bind_io (reads (load_existing_scenarios run_dir)) (\<lambda>loaded.
        bind_io (of_res (configured_scenarios st loaded)) (\<lambda>by_id.
        bind_io (of_res (require (selected_shapes st args \<noteq> []) (ExternalError ''SystemExit''))) (\<lambda>_.
        bind_io (reads (\<lambda>w. Inr (now_stamp S w))) (\<lambda>started.
        let meta = run_meta R args run_dir cs started
        in bind_io (run_shapes R args (skip_existing st args) run_dir meta cs (selected_shapes st args) by_id) (\<lambda>by_id'.
           bind_io (write_result R run_dir meta ''finished_at'' ''evaluation_result.json'' by_id') (\<lambda>all_results.
           ret (if get_or (summarize all_results) ''failed_count'' JNull = JInt 0 then 0 else 1)))))))))))"

end
