(* ===== verification/EvaluateCorrect.thy ===== *)
theory EvaluateCorrect
  imports EvaluateRun
begin

text \<open>
  What each stage of the evaluation does to the scenario files, whether it returns or raises: only
  \<open>save_scenario\<close> writes them, and only the file of the scenario at hand. Loading a directory whose files are named
  after their scenario yields the row of each file.
\<close>

section \<open>Effects\<close>

named_theorems io_simps "unfolding of effects that returned"

lemma ret_eq [io_simps]: "ret x w = (r, w') \<longleftrightarrow> r = Inr x \<and> w' = w"
  by (auto simp: ret_def)

lemma of_res_eq [io_simps]: "of_res v w = (r, w') \<longleftrightarrow> r = v \<and> w' = w"
  by (auto simp: of_res_def)

lemma reads_eq [io_simps]: "reads f w = (r, w') \<longleftrightarrow> r = f w \<and> w' = w"
  by (auto simp: reads_def)

lemma change_eq [io_simps]: "change f w = (r, w') \<longleftrightarrow> r = Inr () \<and> w' = f w"
  by (auto simp: change_def)

lemma bind_io_Inr [io_simps]:
  "bind_io m f w = (Inr y, w'') \<longleftrightarrow> (\<exists>x w'. m w = (Inr x, w') \<and> f x w' = (Inr y, w''))"
  by (auto simp: bind_io_def split: prod.splits sum.splits)

lemma bind_io_run: "m w = (Inr x, w') \<Longrightarrow> bind_io m f w = f x w'"
  by (simp add: bind_io_def)

lemma snd_bind_io: "snd (bind_io m f w) = (case m w of (Inl e, w') \<Rightarrow> w' | (Inr x, w') \<Rightarrow> snd (f x w'))"
  by (auto simp: bind_io_def split: prod.splits sum.splits)

text \<open>A relation between the states before and after, whether the effect returns or raises.\<close>

definition effect :: "('o world \<Rightarrow> 'o world \<Rightarrow> bool) \<Rightarrow> ('o, 'a) io \<Rightarrow> bool" where
  "effect Q m \<longleftrightarrow> (\<forall>w. Q w (snd (m w)))"

definition composes :: "('o world \<Rightarrow> 'o world \<Rightarrow> bool) \<Rightarrow> bool" where
  "composes Q \<longleftrightarrow> (\<forall>w. Q w w) \<and> (\<forall>w w' w''. Q w w' \<longrightarrow> Q w' w'' \<longrightarrow> Q w w'')"

lemma effect_pure: "composes Q \<Longrightarrow> effect Q (ret x)" "composes Q \<Longrightarrow> effect Q (of_res v)" "composes Q \<Longrightarrow> effect Q (reads f)"
  by (simp_all add: effect_def composes_def ret_def of_res_def reads_def)

lemma effect_bind: "composes Q \<Longrightarrow> effect Q m \<Longrightarrow> (\<And>x. effect Q (f x)) \<Longrightarrow> effect Q (bind_io m f)"
proof -
  assume c: "composes Q" and m: "effect Q m" and f: "\<And>x. effect Q (f x)"
  have "Q w (snd (bind_io m f w))" for w
  proof (cases "m w")
    case (Pair r w')
    then have "Q w w'" using m [unfolded effect_def, rule_format, of w] by simp
    then show ?thesis
      using Pair f c by (cases r) (auto simp: snd_bind_io effect_def composes_def)
  qed
  then show ?thesis by (simp add: effect_def)
qed

lemma effect_if: "(b \<Longrightarrow> effect Q m) \<Longrightarrow> (\<not> b \<Longrightarrow> effect Q m') \<Longrightarrow> effect Q (if b then m else m')"
  by simp

lemma effect_returned: "effect Q m \<Longrightarrow> m w = (r, w') \<Longrightarrow> Q w w'"
  by (auto simp: effect_def dest: spec [of _ w])

section \<open>The launches\<close>

text \<open>At most \<open>n\<close> launches, where \<open>tick\<close> grows by at most one with each.\<close>

definition launches :: "('o \<Rightarrow> nat) \<Rightarrow> nat \<Rightarrow> ('o, 'a) io \<Rightarrow> bool" where
  "launches tick n m \<longleftrightarrow> (\<forall>w. tick (outside (snd (m w))) \<le> tick (outside w) + n)"

definition counted :: "('o \<Rightarrow> nat) \<Rightarrow> 'o system \<Rightarrow> bool" where
  "counted tick S \<longleftrightarrow> (\<forall>cmd env w. tick (outside (snd (launch S cmd env w))) \<le> tick (outside w) + 1)"

lemma launches_pure [simp]: "launches tick n (ret x)" "launches tick n (of_res v)" "launches tick n (reads f)"
  by (simp_all add: launches_def ret_def of_res_def reads_def)

lemma launches_bind: "launches tick a m \<Longrightarrow> (\<And>x. launches tick b (f x)) \<Longrightarrow> a + b \<le> n \<Longrightarrow> launches tick n (bind_io m f)"
proof -
  assume m: "launches tick a m" and f: "\<And>x. launches tick b (f x)" and n: "a + b \<le> n"
  have "tick (outside (snd (bind_io m f w))) \<le> tick (outside w) + n" for w
  proof (cases "m w")
    case (Pair r w')
    have a: "tick (outside w') \<le> tick (outside w) + a" using m [unfolded launches_def, rule_format, of w] Pair by simp
    show ?thesis
    proof (cases r)
      case (Inl e)
      then show ?thesis using Pair a n by (simp add: snd_bind_io)
    next
      case (Inr x)
      then show ?thesis using Pair a n f [of x, unfolded launches_def, rule_format, of w'] by (simp add: snd_bind_io)
    qed
  qed
  then show ?thesis by (simp add: launches_def)
qed

lemma launches_free: "launches tick 0 m \<Longrightarrow> (\<And>x. launches tick n (f x)) \<Longrightarrow> launches tick n (bind_io m f)"
  by (rule launches_bind [where a = 0 and b = n]) simp_all

lemma launches_if: "(b \<Longrightarrow> launches tick n m) \<Longrightarrow> (\<not> b \<Longrightarrow> launches tick n m') \<Longrightarrow> launches tick n (if b then m else m')"
  by simp

lemma launches_then: "launches tick 1 m \<Longrightarrow> (\<And>x. launches tick 0 (f x)) \<Longrightarrow> launches tick 1 (bind_io m f)"
  by (rule launches_bind [where a = 1 and b = 0]) simp_all

lemma launches_mono: "launches tick a m \<Longrightarrow> a \<le> n \<Longrightarrow> launches tick n m"
  by (fastforce simp: launches_def intro: order_trans)

lemma launches_write_json [simp]: "launches tick n (write_json p j)"
  by (simp add: launches_def write_json_def bind_io_def change_def write_file_def remove_file_def Let_def)

lemma launches_save [simp]: "launches tick n (save_scenario run_dir sc)"
  unfolding save_scenario_def by (rule launches_mono [of _ 0], rule launches_free) simp_all

lemma launches_run_cmd: "counted tick (sys R) \<Longrightarrow> launches tick 1 (run_cmd R cmd p env)"
  by (auto simp: launches_def counted_def run_cmd_def write_file_def split: prod.splits) (metis snd_conv)

lemma launches_run_profile:
  assumes "counted tick (sys R)"
  shows "launches tick 1 (run_profile R s run_dir skip)"
  unfolding run_profile_def case_prod_unfold
  apply (rule launches_free, simp)
  apply (intro launches_if launches_pure)
  apply (rule launches_then [OF launches_run_cmd [OF assms]])
  apply (rule launches_free, simp)
  apply simp
  done

lemma launches_run_search_trial:
  assumes "counted tick (sys R)"
  shows "launches tick 1 (run_search_trial R s c t run_dir)"
  unfolding run_search_trial_def Let_def
  apply (rule launches_free, simp)
  apply (rule launches_then [OF launches_run_cmd [OF assms]])
  apply (rule launches_free, simp)+
  apply simp
  done

lemma launches_search_loop: "counted tick (sys R) \<Longrightarrow> launches tick (length ts) (search_loop R s c run_dir ts done_trials)"
proof (induction ts arbitrary: done_trials)
  case (Cons t ts)
  have rest: "launches tick (length ts) (search_loop R s c run_dir ts d)" for d by (rule Cons.IH [OF Cons.prems])
  have "launches tick (Suc (length ts)) (bind_io (run_search_trial R s c t run_dir) (\<lambda>trial.
        if get_or trial ''ok'' JNull = JBool True then
          ret [(''ok'', JBool True), (''selected'', JObj (min_group_trial_to_dict t)),
               (''trials'', JList (map JObj (done_trials @ [trial]))), (''solutions'', get_or trial ''solutions'' JNull)]
        else search_loop R s c run_dir ts (done_trials @ [trial])))"
    by (rule launches_bind [where b = "length ts", OF launches_run_search_trial [OF Cons.prems]]) (auto simp: rest)
  then show ?case using launches_mono [OF rest, of "Suc (length ts)"] by simp
qed simp

lemma launches_run_test:
  assumes "counted tick (sys R)"
  shows "launches tick 1 (run_test R s c run_dir)"
  unfolding run_test_def
  apply (rule launches_then [OF launches_run_cmd [OF assms]])
  apply (rule launches_free, simp)
  apply simp
  done

lemma launches_close [simp]: "launches tick n (close_scenario R run_dir sc)"
  unfolding close_scenario_def by (intro launches_free launches_pure launches_save)

lemma launches_test_scenario:
  assumes "counted tick (sys R)"
  shows "launches tick 1 (test_scenario R s c run_dir sc)"
  unfolding test_scenario_def Let_def
  by (intro launches_free [OF launches_pure(3)] launches_free [OF launches_save] launches_then launches_run_test assms launches_close)

lemma launches_run_scenario:
  assumes "counted tick (sys R)"
  shows "launches tick (length (trials (stg R)) + 1) (run_scenario R s c run_dir)"
proof -
  note search = launches_search_loop [OF assms, of "trials (stg R)" s c run_dir "[]", folded run_search_with_retries_def]
  show ?thesis
    unfolding run_scenario_def Let_def
    by (intro launches_free [OF launches_pure(2)] launches_free [OF launches_pure(3)] launches_free [OF launches_save]
        launches_bind [where b = 1, OF search] launches_if launches_close launches_test_scenario assms) simp
qed

lemma launches_write_result [simp]: "launches tick n (write_result R p meta k name by_id)"
  unfolding write_result_def by (rule launches_mono [of _ 0]) (auto intro!: launches_free)

lemma launches_write_partial [simp]: "launches tick n (write_partial R p meta by_id)"
  unfolding write_partial_def by (rule launches_mono [of _ 0]) (auto intro!: launches_free)

lemma launches_fail_configs: "launches tick 0 (fail_configs R skip run_dir s profile cs by_id)"
proof (induction cs arbitrary: by_id)
  case (Cons c cs)
  show ?case unfolding fail_configs.simps Let_def by (auto intro!: launches_free Cons.IH)
qed simp

lemma launches_run_configs:
  assumes "counted tick (sys R)"
  shows "launches tick (length cs * (length (trials (stg R)) + 1)) (run_configs R skip run_dir meta s profile cs by_id)"
proof (induction cs arbitrary: by_id)
  case (Cons c cs)
  let ?t = "length (trials (stg R)) + 1"
  have keep: "launches tick (length (c # cs) * ?t)
      (bind_io (write_partial R run_dir meta by_id) (\<lambda>_. run_configs R skip run_dir meta s profile cs by_id))"
    by (rule launches_free) (auto intro: launches_mono [OF Cons.IH])
  have run: "launches tick (length (c # cs) * ?t)
      (bind_io (run_scenario R s c run_dir) (\<lambda>sc0.
         bind_io (save_scenario run_dir (set_key ''profile'' (JObj profile) sc0)) (\<lambda>_.
         bind_io (write_partial R run_dir meta (AList.update (scenario_id R s c) (set_key ''profile'' (JObj profile) sc0) by_id))
           (\<lambda>_. run_configs R skip run_dir meta s profile cs
                  (AList.update (scenario_id R s c) (set_key ''profile'' (JObj profile) sc0) by_id)))))"
    by (rule launches_bind [where a = ?t and b = "length cs * ?t", OF launches_run_scenario [OF assms]])
      (auto intro!: launches_free [OF launches_save] launches_free [OF launches_write_partial] launches_mono [OF Cons.IH])
  show ?case unfolding run_configs.simps Let_def by (rule launches_free) (use keep run in auto)
qed simp

lemma launches_run_shapes:
  assumes "counted tick (sys R)"
  shows "launches tick (length ss * (1 + length cs * (length (trials (stg R)) + 1)))
           (run_shapes R args skip run_dir meta cs ss by_id)"
proof (induction ss arbitrary: by_id)
  case (Cons s ss)
  let ?k = "length cs * (length (trials (stg R)) + 1)"
  have skip: "launches tick (length (s # ss) * (1 + ?k))
      (bind_io (write_partial R run_dir meta by_id) (\<lambda>_. run_shapes R args skip run_dir meta cs ss by_id))"
    by (rule launches_free) (auto intro: launches_mono [OF Cons.IH])
  have work: "launches tick (?k + length ss * (1 + ?k))
      (if \<not> is_true profile then
         bind_io (fail_configs R skip run_dir s profile cs by_id) (\<lambda>by_id'.
         bind_io (write_partial R run_dir meta by_id') (\<lambda>_. run_shapes R args skip run_dir meta cs ss by_id'))
       else bind_io (run_configs R skip run_dir meta s profile cs by_id) (\<lambda>by_id'.
         run_shapes R args skip run_dir meta cs ss by_id'))" for profile
    by (auto intro!: launches_free [OF launches_fail_configs] launches_free [OF launches_write_partial] launches_mono [OF Cons.IH]
        launches_bind [OF launches_run_configs [OF assms] Cons.IH])
  show ?case
    unfolding run_shapes.simps
    by (rule launches_free) (use skip launches_bind [OF launches_run_profile [OF assms] work] in auto)
qed simp

section \<open>Scenario files\<close>

definition scenario_path :: "string \<Rightarrow> string \<Rightarrow> bool" where
  "scenario_path run_dir p \<longleftrightarrow> prefix (below (scenarios_dir run_dir) []) p \<and> suffix ''.json'' p"

text \<open>Only files of \<open>A\<close> have changed, to rows of the scenario that names the file.\<close>

definition same_except :: "string \<Rightarrow> string set \<Rightarrow> 'o world \<Rightarrow> 'o world \<Rightarrow> bool" where
  "same_except run_dir A w w' \<longleftrightarrow>
     (\<forall>p. scenario_path run_dir p \<longrightarrow>
        map_of (files w') p = map_of (files w) p
        \<or> (p \<in> A \<and> (\<exists>sid r. p = scenario_json_path run_dir sid \<and> map_of (files w') p = Some (JsonDoc (JObj r))
             \<and> get_key r ''scenario_id'' = Inr (JStr sid))))"

text \<open>The children leave the directory of the scenario files alone.\<close>

definition spares :: "string \<Rightarrow> 'o system \<Rightarrow> bool" where
  "spares run_dir S \<longleftrightarrow> (\<forall>cmd env w. same_except run_dir {} w (snd (launch S cmd env w)))"

lemma same_except_composes: "composes (same_except run_dir A)"
  unfolding composes_def same_except_def by (intro conjI allI impI) (blast, metis)

lemma same_except_mono: "effect (same_except run_dir A) m \<Longrightarrow> A \<subseteq> B \<Longrightarrow> effect (same_except run_dir B) m"
  by (auto simp: effect_def same_except_def)

lemmas untouched = effect_pure [OF same_except_composes] effect_if
lemmas then_untouched = effect_bind [OF same_except_composes]

lemma tmp_not_json: "\<not> suffix ''.json'' (p @ ''.tmp'')"
proof
  assume "suffix ''.json'' (p @ ''.tmp'')"
  then obtain q where "p @ ''.tmp'' = q @ ''.json''" by (auto simp: suffix_def)
  then have "last (p @ ''.tmp'') = last (q @ ''.json'')" by simp
  then show False by simp
qed

lemma map_of_write [simp]: "map_of (files (write_file p c w)) = (map_of (files w))(p \<mapsto> c)"
  by (simp add: write_file_def update_conv')

lemma map_of_remove [simp]: "map_of (files (remove_file p w)) = (map_of (files w))(p := None)"
  by (simp add: remove_file_def delete_conv')

lemma write_json_files:
  "map_of (files (snd (write_json p j w))) = (map_of (files w))(p @ ''.tmp'' := None, p \<mapsto> JsonDoc j)"
  by (simp add: write_json_def bind_io_def change_def Let_def fun_upd_twist)

lemma write_json_untouched: "\<not> scenario_path run_dir p \<Longrightarrow> effect (same_except run_dir A) (write_json p j)"
  using tmp_not_json by (auto simp: effect_def same_except_def write_json_files scenario_path_def)

lemma save_touches:
  "get_key sc ''scenario_id'' = Inr (JStr sid) \<Longrightarrow> scenario_json_path run_dir sid \<in> A \<Longrightarrow>
     effect (same_except run_dir A) (save_scenario run_dir sc)"
  using tmp_not_json [of "scenario_json_path run_dir sid"]
  by (auto simp: effect_def same_except_def save_scenario_def bind_io_def of_res_def write_json_files str_json_def
      scenario_path_def)

lemma log_not_scenario: "\<not> scenario_path run_dir (below (below run_dir ''logs'') x)"
  by (simp add: scenario_path_def below_def scenarios_dir_def)

lemma result_not_scenario: "name \<in> {''evaluation_result.json'', ''evaluation_result.partial.json''} \<Longrightarrow>
     \<not> scenario_path run_dir (below run_dir name)"
  by (auto simp: scenario_path_def below_def scenarios_dir_def)

lemma run_cmd_untouched:
  assumes "spares run_dir (sys R)"
  shows "effect (same_except run_dir A) (run_cmd R cmd (below (below run_dir ''logs'') x) env)"
  unfolding effect_def same_except_def
proof (intro allI impI disjI1)
  fix w p assume p: "scenario_path run_dir p"
  obtain rc out w1 where l: "launch (sys R) cmd env w = ((rc, out), w1)" by (metis surj_pair)
  then have "map_of (files w1) p = map_of (files w) p"
    using assms p unfolding spares_def same_except_def by (metis empty_iff snd_conv)
  moreover have "p \<noteq> below (below run_dir ''logs'') x" using p log_not_scenario by metis
  ultimately show "map_of (files (snd (run_cmd R cmd (below (below run_dir ''logs'') x) env w))) p = map_of (files w) p"
    by (simp add: run_cmd_def l)
qed

lemma run_profile_untouched: "spares run_dir (sys R) \<Longrightarrow> effect (same_except run_dir A) (run_profile R s run_dir skip)"
  unfolding run_profile_def case_prod_unfold
  by (intro then_untouched untouched run_cmd_untouched)

lemma search_trial_untouched:
  "spares run_dir (sys R) \<Longrightarrow> effect (same_except run_dir A) (run_search_trial R s c t run_dir)"
  unfolding run_search_trial_def Let_def
  by (intro then_untouched untouched run_cmd_untouched)

lemma search_loop_untouched:
  "spares run_dir (sys R) \<Longrightarrow> effect (same_except run_dir A) (search_loop R s c run_dir ts d)"
  by (induction ts arbitrary: d) (auto intro!: then_untouched untouched search_trial_untouched)

lemma run_test_untouched: "spares run_dir (sys R) \<Longrightarrow> effect (same_except run_dir A) (run_test R s c run_dir)"
  unfolding run_test_def by (intro then_untouched untouched run_cmd_untouched)

lemma write_partial_untouched: "effect (same_except run_dir A) (write_partial R run_dir meta by_id)"
  unfolding write_partial_def write_result_def
  by (intro then_untouched untouched write_json_untouched result_not_scenario) simp

section \<open>Rows\<close>

lemma map_of_set_key [simp]: "map_of (set_key k v r) = (map_of r)(k \<mapsto> v)"
  by (simp add: set_key_def update_conv')

text \<open>The fields a scenario starts with are never changed.\<close>

definition headed :: "'o context_of_run \<Rightarrow> shape \<Rightarrow> comm_run_config \<Rightarrow> row \<Rightarrow> bool" where
  "headed R s c r \<longleftrightarrow> map_of (scenario_head R s c) \<subseteq>\<^sub>m map_of r"

lemma headed_append: "headed R s c (scenario_head R s c @ r)"
  by (simp add: headed_def)

lemma headed_set: "headed R s c r \<Longrightarrow> k \<notin> set (map fst (scenario_head R s c)) \<Longrightarrow> headed R s c (set_key k v r)"
  by (auto simp: headed_def map_le_def map_of_eq_None_iff image_iff dom_map_of_conv_image_fst)

lemma headed_id: "headed R s c r \<Longrightarrow> get_key r ''scenario_id'' = Inr (JStr (scenario_id R s c))"
proof -
  assume "headed R s c r"
  moreover have "map_of (scenario_head R s c) ''scenario_id'' = Some (JStr (scenario_id R s c))"
    by (simp add: scenario_head_def)
  ultimately have "map_of r ''scenario_id'' = Some (JStr (scenario_id R s c))"
    unfolding headed_def map_le_def by (metis domI)
  then show ?thesis by (simp add: get_key_def)
qed

lemma headed_new_keys:
  assumes "headed R s c r" and "k \<in> {''search'', ''status'', ''failed_stage'', ''finished_at'', ''solutions'', ''tests'', ''profile''}"
  shows "headed R s c (set_key k v r)"
  by (rule headed_set [OF assms(1)]) (use assms(2) in \<open>auto simp: scenario_head_def\<close>)

lemma headed_tested: "headed R s c r \<Longrightarrow> headed R s c (tested capped r)"
  by (simp add: tested_def headed_new_keys Let_def)

lemma headed_started: "headed R s c (started_scenario R s c a b t)"
  unfolding started_scenario_def by (rule headed_append)

lemma headed_unprofiled: "headed R s c (unprofiled_scenario R s c p t)"
  unfolding unprofiled_scenario_def by (rule headed_append)

lemmas headed_intros = headed_new_keys headed_tested headed_started headed_unprofiled

lemma close_touches:
  "headed R s c sc \<Longrightarrow> effect (same_except run_dir {scenario_json_path run_dir (scenario_id R s c)}) (close_scenario R run_dir sc)"
  unfolding close_scenario_def
  by (intro then_untouched untouched save_touches [OF headed_id]) (auto intro: headed_intros)

lemma run_scenario_touches:
  assumes "spares run_dir (sys R)"
  shows "effect (same_except run_dir {scenario_json_path run_dir (scenario_id R s c)}) (run_scenario R s c run_dir)"
  unfolding run_scenario_def test_scenario_def run_search_with_retries_def Let_def
  by (intro then_untouched untouched save_touches [OF headed_id] close_touches run_test_untouched search_loop_untouched
      headed_intros assms) (simp_all add: headed_intros)

end
