(* ===== verification/EvaluateResume.thy ===== *)
theory EvaluateResume
  imports EvaluateCorrect
begin

text \<open>
  The loops of the evaluation when they return: each scenario is either as it was, or finished anew with its row on
  disk; and a later run that may skip loads what an earlier one left.
\<close>

section \<open>Finished rows\<close>

lemma get_or_set_key [simp]: "get_or (set_key k v r) k' d = (if k' = k then v else get_or r k' d)"
  by (simp add: get_or_def)

definition good :: "row \<Rightarrow> bool" where
  "good r \<longleftrightarrow> get_or r ''status'' JNull = JStr ''ok''
     \<and> get_or r ''evaluation_schema_version'' (JInt 0) = JInt EVALUATION_SCHEMA_VERSION
     \<and> (\<exists>cp. get_or r ''tests'' (JObj []) = JObj [(''capped'', JObj cp)] \<and> is_true cp)"

definition finished :: "'o context_of_run \<Rightarrow> shape \<Rightarrow> comm_run_config \<Rightarrow> row \<Rightarrow> bool" where
  "finished R s c r \<longleftrightarrow> headed R s c r \<and> (get_or r ''status'' JNull = JStr ''failed'' \<or> good r)"

lemma finished_set: "finished R s c r \<Longrightarrow> k = ''profile'' \<or> k = ''finished_at'' \<Longrightarrow> finished R s c (set_key k v r)"
  by (elim disjE) (simp_all add: finished_def good_def headed_new_keys)

lemma finished_unprofiled: "finished R s c (unprofiled_scenario R s c p t)"
proof -
  have "get_or (unprofiled_scenario R s c p t) ''status'' JNull = JStr ''failed''"
    by (simp add: unprofiled_scenario_def scenario_head_def get_or_def)
  then show ?thesis by (simp add: finished_def headed_unprofiled)
qed

lemma started_version: "get_or (started_scenario R s c a b t) ''evaluation_schema_version'' (JInt 0) = JInt EVALUATION_SCHEMA_VERSION"
  by (simp add: started_scenario_def scenario_head_def get_or_def)

lemma finished_tested:
  assumes "headed R s c r" and "get_or r ''evaluation_schema_version'' (JInt 0) = JInt EVALUATION_SCHEMA_VERSION"
  shows "finished R s c (tested capped r)"
  using headed_tested [OF assms(1), of capped] assms(2) by (auto simp: finished_def tested_def good_def Let_def)

lemma close_returns: "close_scenario R run_dir sc w = (Inr sc', w') \<Longrightarrow> \<exists>t. sc' = set_key ''finished_at'' (JStr t) sc"
  by (auto simp: close_scenario_def io_simps)

lemma test_scenario_returns:
  assumes "test_scenario R s c run_dir sc1 w = (Inr sc, w')"
  shows "\<exists>sols capped f. sc = set_key ''finished_at'' (JStr f) (tested capped (set_key ''solutions'' sols sc1))"
proof -
  obtain nccl oo capped w1 where "close_scenario R run_dir
      (tested capped (set_key ''solutions'' (JObj [(''nccl'', JObj nccl), (''ooverlap'', JObj oo)]) sc1)) w1 = (Inr sc, w')"
    using assms unfolding test_scenario_def Let_def bind_io_Inr by blast
  from close_returns [OF this] show ?thesis by blast
qed

lemma run_scenario_returns:
  assumes "run_scenario R s c run_dir w = (Inr sc, w')"
  shows "finished R s c sc"
proof -
  obtain a b t search w1 where ret: "(if \<not> is_true search
      then close_scenario R run_dir (set_key ''failed_stage'' (JStr ''search'')
             (set_key ''status'' (JStr ''failed'') (set_key ''search'' (JObj search) (started_scenario R s c a b t))))
      else test_scenario R s c run_dir (set_key ''search'' (JObj search) (started_scenario R s c a b t))) w1 = (Inr sc, w')"
    using assms unfolding run_scenario_def Let_def by (auto simp only: io_simps)
  let ?sc = "set_key ''search'' (JObj search) (started_scenario R s c a b t)"
  show ?thesis
  proof (cases "is_true search")
    case False
    then have "close_scenario R run_dir (set_key ''failed_stage'' (JStr ''search'') (set_key ''status'' (JStr ''failed'') ?sc)) w1
        = (Inr sc, w')" using ret by simp
    from close_returns [OF this] obtain f where "sc = set_key ''finished_at'' (JStr f)
        (set_key ''failed_stage'' (JStr ''search'') (set_key ''status'' (JStr ''failed'') ?sc))" ..
    then show ?thesis by (simp add: finished_def headed_intros)
  next
    case True
    then have "test_scenario R s c run_dir ?sc w1 = (Inr sc, w')" using ret by simp
    from test_scenario_returns [OF this] obtain capped sols f
      where "sc = set_key ''finished_at'' (JStr f) (tested capped (set_key ''solutions'' sols ?sc))" by blast
    moreover have "finished R s c (tested capped (set_key ''solutions'' sols ?sc))"
      by (rule finished_tested) (simp_all add: headed_intros started_version)
    ultimately show ?thesis by (simp add: finished_set)
  qed
qed

lemma existing_ok_of_good: "map_of by_id sid = Some r \<Longrightarrow> good r \<Longrightarrow> existing_scenario_is_ok by_id sid = Inr True"
  by (auto simp: existing_scenario_is_ok_def good_def int_or0_def EVALUATION_SCHEMA_VERSION_def is_true_def truthy_def
      int_of_json_def get_or_def)

lemma existing_ok_cong: "map_of by_id' sid = map_of by_id sid \<Longrightarrow> existing_scenario_is_ok by_id' sid = existing_scenario_is_ok by_id sid"
  by (simp add: existing_scenario_is_ok_def)

section \<open>Progress of a loop\<close>

text \<open>A row made by this run for one of the configurations.\<close>

definition fresh :: "'o context_of_run \<Rightarrow> comm_run_config list \<Rightarrow> string \<Rightarrow> row \<Rightarrow> bool" where
  "fresh R cs sid r \<longleftrightarrow> (\<exists>s c. c \<in> set cs \<and> sid = scenario_id R s c \<and> finished R s c r)"

definition on_disk :: "string \<Rightarrow> 'o world \<Rightarrow> string \<Rightarrow> content option" where
  "on_disk run_dir w sid = map_of (files w) (scenario_json_path run_dir sid)"

definition evolves ::
  "'o context_of_run \<Rightarrow> comm_run_config list \<Rightarrow> string \<Rightarrow> 'o world \<Rightarrow> scenarios \<Rightarrow> 'o world \<Rightarrow> scenarios \<Rightarrow> bool" where
  "evolves R cs run_dir w by_id w' by_id' \<longleftrightarrow>
     (\<forall>sid. (map_of by_id' sid = map_of by_id sid \<and> on_disk run_dir w' sid = on_disk run_dir w sid)
          \<or> (\<exists>r. map_of by_id' sid = Some r \<and> on_disk run_dir w' sid = Some (JsonDoc (JObj r)) \<and> fresh R cs sid r))"

definition kept :: "bool \<Rightarrow> scenarios \<Rightarrow> scenarios \<Rightarrow> bool" where
  "kept skip by_id by_id' \<longleftrightarrow> (\<forall>sid. keep_existing skip by_id sid = Inr True \<longrightarrow> map_of by_id' sid = map_of by_id sid)"

definition accounted :: "'o context_of_run \<Rightarrow> comm_run_config list \<Rightarrow> bool \<Rightarrow> scenarios \<Rightarrow> string \<Rightarrow> bool" where
  "accounted R cs skip by_id sid \<longleftrightarrow>
     keep_existing skip by_id sid = Inr True \<or> (\<exists>r. map_of by_id sid = Some r \<and> fresh R cs sid r)"

lemma evolves_refl: "evolves R cs run_dir w by_id w by_id"
  by (simp add: evolves_def)

lemma evolves_trans:
  "evolves R cs run_dir w b w' b' \<Longrightarrow> evolves R cs run_dir w' b' w'' b'' \<Longrightarrow> evolves R cs run_dir w b w'' b''"
  unfolding evolves_def
proof (intro allI)
  fix sid
  assume a: "\<forall>sid. (map_of b' sid = map_of b sid \<and> on_disk run_dir w' sid = on_disk run_dir w sid)
      \<or> (\<exists>r. map_of b' sid = Some r \<and> on_disk run_dir w' sid = Some (JsonDoc (JObj r)) \<and> fresh R cs sid r)"
    and b: "\<forall>sid. (map_of b'' sid = map_of b' sid \<and> on_disk run_dir w'' sid = on_disk run_dir w' sid)
      \<or> (\<exists>r. map_of b'' sid = Some r \<and> on_disk run_dir w'' sid = Some (JsonDoc (JObj r)) \<and> fresh R cs sid r)"
  show "(map_of b'' sid = map_of b sid \<and> on_disk run_dir w'' sid = on_disk run_dir w sid)
      \<or> (\<exists>r. map_of b'' sid = Some r \<and> on_disk run_dir w'' sid = Some (JsonDoc (JObj r)) \<and> fresh R cs sid r)"
    using a [rule_format, of sid] b [rule_format, of sid] by (elim disjE) simp_all
qed

lemma kept_refl: "kept skip b b"
  by (simp add: kept_def)

lemma keep_existing_cong: "map_of b' sid = map_of b sid \<Longrightarrow> keep_existing skip b' sid = keep_existing skip b sid"
  by (drule existing_ok_cong) (simp add: keep_existing_def)

lemma kept_trans: "kept skip b b' \<Longrightarrow> kept skip b' b'' \<Longrightarrow> kept skip b b''"
  unfolding kept_def
proof (intro allI impI)
  fix sid
  assume a: "\<forall>sid. keep_existing skip b sid = Inr True \<longrightarrow> map_of b' sid = map_of b sid"
    and b: "\<forall>sid. keep_existing skip b' sid = Inr True \<longrightarrow> map_of b'' sid = map_of b' sid" and k: "keep_existing skip b sid = Inr True"
  then have e: "map_of b' sid = map_of b sid" by blast
  from keep_existing_cong [OF this, of skip] have "map_of b'' sid = map_of b' sid" using b k by simp
  then show "map_of b'' sid = map_of b sid" using e by simp
qed

lemma accounted_later:
  assumes "accounted R cs skip b sid" and "evolves R cs run_dir w b w' b'" and "kept skip b b'"
  shows "accounted R cs skip b' sid"
proof (cases "keep_existing skip b sid = Inr True")
  case True
  then have "map_of b' sid = map_of b sid" using assms(3) by (simp add: kept_def)
  from keep_existing_cong [OF this, of skip] show ?thesis using True by (simp add: accounted_def)
next
  case False
  then obtain r where r: "map_of b sid = Some r" "fresh R cs sid r" using assms(1) by (auto simp: accounted_def)
  show ?thesis
    using assms(2) [unfolded evolves_def, rule_format, of sid] r by (auto simp: accounted_def)
qed

definition progress ::
  "'o context_of_run \<Rightarrow> comm_run_config list \<Rightarrow> bool \<Rightarrow> string \<Rightarrow> string set \<Rightarrow> 'o world \<Rightarrow> scenarios \<Rightarrow> 'o world \<Rightarrow> scenarios \<Rightarrow> bool" where
  "progress R cs skip run_dir sids w b w' b' \<longleftrightarrow>
     evolves R cs run_dir w b w' b' \<and> kept skip b b' \<and> (\<forall>sid \<in> sids. accounted R cs skip b' sid)
     \<and> (distinct (map fst b) \<longrightarrow> distinct (map fst b'))"

lemma progress_refl: "\<forall>sid \<in> sids. accounted R cs skip b sid \<Longrightarrow> progress R cs skip run_dir sids w b w b"
  by (simp add: progress_def evolves_refl kept_refl)

lemma progress_trans:
  "progress R cs skip run_dir A w b w' b' \<Longrightarrow> progress R cs skip run_dir B w' b' w'' b'' \<Longrightarrow>
     progress R cs skip run_dir (A \<union> B) w b w'' b''"
  unfolding progress_def by (auto intro: evolves_trans kept_trans accounted_later)

lemma progress_weaken: "progress R cs skip run_dir A w b w' b' \<Longrightarrow> B \<subseteq> A \<Longrightarrow> progress R cs skip run_dir B w b w' b'"
  by (auto simp: progress_def)

lemma scenario_path_json: "scenario_path run_dir (scenario_json_path run_dir sid)"
  by (simp add: scenario_path_def scenario_json_path_def below_def suffix_def)

lemma scenario_json_path_inj [simp]: "scenario_json_path run_dir a = scenario_json_path run_dir b \<longleftrightarrow> a = b"
  by (simp add: scenario_json_path_def below_def)

lemma on_disk_untouched:
  "effect (same_except run_dir A) m \<Longrightarrow> m w = (r, w') \<Longrightarrow> scenario_json_path run_dir sid \<notin> A \<Longrightarrow>
     on_disk run_dir w' sid = on_disk run_dir w sid"
  by (metis effect_returned on_disk_def same_except_def scenario_path_json)

lemma progress_quiet:
  assumes "effect (same_except run_dir {}) m" and "m w = (r, w')" and "\<forall>sid \<in> sids. accounted R cs skip b sid"
  shows "progress R cs skip run_dir sids w b w' b"
  using on_disk_untouched [OF assms(1,2)] assms(3) by (simp add: progress_def evolves_def kept_def)

lemma save_scenario_disk:
  "save_scenario run_dir sc w = (Inr u, w') \<Longrightarrow> get_key sc ''scenario_id'' = Inr (JStr sid) \<Longrightarrow>
     on_disk run_dir w' sid = Some (JsonDoc (JObj sc))"
  using write_json_files [of "scenario_json_path run_dir sid" "JObj sc" w]
  by (auto simp: save_scenario_def io_simps on_disk_def str_json_def)

text \<open>The step that puts a finished row in the place of a scenario that is not kept.\<close>

lemma progress_new:
  assumes "\<not> keep_existing skip b sid = Inr True" and "sid = scenario_id R s c" and "c \<in> set cs" and "finished R s c r"
    and "on_disk run_dir w' sid = Some (JsonDoc (JObj r))"
    and "\<And>x. x \<noteq> sid \<Longrightarrow> on_disk run_dir w' x = on_disk run_dir w x"
  shows "progress R cs skip run_dir {sid} w b w' (AList.update sid r b)"
proof -
  have fresh: "fresh R cs sid r" using assms(2-4) by (auto simp: fresh_def)
  show ?thesis
    using assms(1,5,6) fresh by (auto simp: progress_def evolves_def kept_def accounted_def update_conv' distinct_update)
qed

section \<open>The loops\<close>

lemma fail_configs_progress:
  assumes "fail_configs R skip run_dir s profile cs' b w = (Inr b', w')" and "set cs' \<subseteq> set cs"
  shows "progress R cs skip run_dir (scenario_id R s ` set cs') w b w' b'"
  using assms
proof (induction cs' arbitrary: b w)
  case Nil
  then show ?case by (simp add: io_simps progress_refl)
next
  case (Cons c cs')
  let ?sid = "scenario_id R s c"
  obtain k where k: "keep_existing skip b ?sid = Inr k"
    using Cons.prems(1) by (cases "keep_existing skip b ?sid") (auto simp: io_simps)
  show ?case
  proof (cases k)
    case True
    then have rest: "fail_configs R skip run_dir s profile cs' b w = (Inr b', w')"
      using Cons.prems(1) k True by (auto simp: io_simps)
    have "progress R cs skip run_dir {?sid} w b w b" using k True by (intro progress_refl) (simp add: accounted_def)
    from progress_trans [OF this Cons.IH [OF rest]] show ?thesis using Cons.prems(2) by simp
  next
    case False
    then obtain t w1 where save: "save_scenario run_dir (unprofiled_scenario R s c profile t) w = (Inr (), w1)"
      and rest: "fail_configs R skip run_dir s profile cs' (AList.update ?sid (unprofiled_scenario R s c profile t) b) w1 = (Inr b', w')"
      using Cons.prems(1) k by (auto simp: io_simps Let_def)
    note id = headed_id [OF headed_unprofiled, of R s c profile t]
    have "progress R cs skip run_dir {?sid} w b w1 (AList.update ?sid (unprofiled_scenario R s c profile t) b)"
    proof (rule progress_new [OF _ refl _ finished_unprofiled])
      show "\<not> keep_existing skip b ?sid = Inr True" using k False by simp
      show "c \<in> set cs" using Cons.prems(2) by simp
      show "on_disk run_dir w1 ?sid = Some (JsonDoc (JObj (unprofiled_scenario R s c profile t)))"
        by (rule save_scenario_disk [OF save id])
      show "on_disk run_dir w1 x = on_disk run_dir w x" if "x \<noteq> ?sid" for x
        by (rule on_disk_untouched [OF save_touches [OF id singletonI] save]) (use that in simp)
    qed
    from progress_trans [OF this Cons.IH [OF rest]] show ?thesis using Cons.prems(2) by simp
  qed
qed

lemma run_configs_progress:
  assumes "run_configs R skip run_dir meta s profile cs' b w = (Inr b', w')" and "set cs' \<subseteq> set cs"
    and "spares run_dir (sys R)"
  shows "progress R cs skip run_dir (scenario_id R s ` set cs') w b w' b'"
  using assms(1,2)
proof (induction cs' arbitrary: b w)
  case Nil
  then show ?case by (simp add: io_simps progress_refl)
next
  case (Cons c cs')
  let ?sid = "scenario_id R s c"
  obtain k where k: "keep_existing skip b ?sid = Inr k"
    using Cons.prems(1) by (cases "keep_existing skip b ?sid") (auto simp: io_simps)
  show ?case
  proof (cases k)
    case True
    then obtain w1 where part: "write_partial R run_dir meta b w = (Inr (), w1)"
      and rest: "run_configs R skip run_dir meta s profile cs' b w1 = (Inr b', w')"
      using Cons.prems(1) k by (auto simp: io_simps)
    have "progress R cs skip run_dir {?sid} w b w1 b"
      using k True by (intro progress_quiet [OF write_partial_untouched part]) (simp add: accounted_def)
    from progress_trans [OF this Cons.IH [OF rest]] show ?thesis using Cons.prems(2) by simp
  next
    case False
    then obtain sc0 w1 w2 w3 where run: "run_scenario R s c run_dir w = (Inr sc0, w1)"
      and save: "save_scenario run_dir (set_key ''profile'' (JObj profile) sc0) w1 = (Inr (), w2)"
      and part: "write_partial R run_dir meta (AList.update ?sid (set_key ''profile'' (JObj profile) sc0) b) w2 = (Inr (), w3)"
      and rest: "run_configs R skip run_dir meta s profile cs' (AList.update ?sid (set_key ''profile'' (JObj profile) sc0) b) w3 = (Inr b', w')"
      using Cons.prems(1) k by (auto simp: io_simps Let_def)
    have fin: "finished R s c (set_key ''profile'' (JObj profile) sc0)"
      using run_scenario_returns [OF run] by (simp add: finished_set)
    have id: "get_key (set_key ''profile'' (JObj profile) sc0) ''scenario_id'' = Inr (JStr ?sid)"
      using fin headed_id by (auto simp: finished_def)
    note quiet = on_disk_untouched [OF write_partial_untouched [of run_dir "{}"] part]
    have "progress R cs skip run_dir {?sid} w b w3 (AList.update ?sid (set_key ''profile'' (JObj profile) sc0) b)"
    proof (rule progress_new [OF _ refl _ fin])
      show "\<not> keep_existing skip b ?sid = Inr True" using k False by simp
      show "c \<in> set cs" using Cons.prems(2) by simp
      show "on_disk run_dir w3 ?sid = Some (JsonDoc (JObj (set_key ''profile'' (JObj profile) sc0)))"
        using save_scenario_disk [OF save id] quiet by simp
      show "on_disk run_dir w3 x = on_disk run_dir w x" if "x \<noteq> ?sid" for x
        using quiet on_disk_untouched [OF save_touches [OF id singletonI] save]
          on_disk_untouched [OF run_scenario_touches [OF assms(3)] run] that by simp
    qed
    from progress_trans [OF this Cons.IH [OF rest]] show ?thesis using Cons.prems(2) by simp
  qed
qed

lemma all_existing_ok_kept:
  "all_existing_ok b sids = Inr True \<Longrightarrow> sid \<in> set sids \<Longrightarrow> existing_scenario_is_ok b sid = Inr True"
  by (induction sids) (auto elim!: bind_resE split: if_splits)

lemma run_shapes_progress:
  assumes "run_shapes R args skip run_dir meta cs ss b w = (Inr b', w')" and "spares run_dir (sys R)"
  shows "progress R cs skip run_dir {scenario_id R s c |s c. s \<in> set ss \<and> c \<in> set cs} w b w' b'"
  using assms(1)
proof (induction ss arbitrary: b w)
  case Nil
  then show ?case by (simp add: io_simps progress_refl)
next
  case (Cons s ss)
  let ?sids = "scenario_id R s ` set cs"
  have cover: "progress R cs skip run_dir {scenario_id R s' c |s' c. s' \<in> set (s # ss) \<and> c \<in> set cs} w b w' b'"
    if "progress R cs skip run_dir ?sids w b w1 b1" and "run_shapes R args skip run_dir meta cs ss b1 w1 = (Inr b', w')" for w1 b1
    by (rule progress_weaken [OF progress_trans [OF that(1) Cons.IH [OF that(2)]]]) auto
  obtain a where a: "(if skip then all_existing_ok b (map (scenario_id R s) cs) else Inr False) = Inr a"
    using Cons.prems by (cases "if skip then all_existing_ok b (map (scenario_id R s) cs) else Inr False") (auto simp: io_simps)
  show ?case
  proof (cases a)
    case True
    then obtain w1 where part: "write_partial R run_dir meta b w = (Inr (), w1)"
      and rest: "run_shapes R args skip run_dir meta cs ss b w1 = (Inr b', w')"
      using Cons.prems a by (auto simp: io_simps)
    have "\<forall>sid \<in> ?sids. accounted R cs skip b sid"
      using a True all_existing_ok_kept [of b "map (scenario_id R s) cs"]
      by (auto simp: accounted_def keep_existing_def split: if_splits)
    from progress_quiet [OF write_partial_untouched part this] show ?thesis using cover rest by blast
  next
    case False
    obtain profile w1 where prof: "run_profile R s run_dir (ev_skip_profile args) w = (Inr profile, w1)"
      and rest: "(if \<not> is_true profile then
           bind_io (fail_configs R skip run_dir s profile cs b) (\<lambda>by_id'.
           bind_io (write_partial R run_dir meta by_id') (\<lambda>_. run_shapes R args skip run_dir meta cs ss by_id'))
         else bind_io (run_configs R skip run_dir meta s profile cs b) (\<lambda>by_id'.
           run_shapes R args skip run_dir meta cs ss by_id')) w1 = (Inr b', w')"
      using Cons.prems a False by (auto simp: io_simps)
    have p: "progress R cs skip run_dir {} w b w1 b"
      by (rule progress_quiet [OF run_profile_untouched [OF assms(2)] prof]) simp
    show ?thesis
    proof (cases "is_true profile")
      case True
      then obtain b1 w2 where run: "run_configs R skip run_dir meta s profile cs b w1 = (Inr b1, w2)"
        and more: "run_shapes R args skip run_dir meta cs ss b1 w2 = (Inr b', w')"
        using rest by (auto simp: io_simps)
      from progress_trans [OF p run_configs_progress [OF run subset_refl assms(2)]]
      show ?thesis using cover more by simp
    next
      case False
      then obtain b1 w2 w3 where run: "fail_configs R skip run_dir s profile cs b w1 = (Inr b1, w2)"
        and part: "write_partial R run_dir meta b1 w2 = (Inr (), w3)"
        and more: "run_shapes R args skip run_dir meta cs ss b1 w3 = (Inr b', w')"
        using rest by (auto simp: io_simps)
      have f: "progress R cs skip run_dir ?sids w1 b w2 b1" by (rule fail_configs_progress [OF run subset_refl])
      then have "progress R cs skip run_dir ?sids w2 b1 w3 b1"
        by (intro progress_quiet [OF write_partial_untouched part]) (simp add: progress_def)
      from progress_trans [OF progress_trans [OF p f] this] show ?thesis using cover more by simp
    qed
  qed
qed

section \<open>Interruptions\<close>

lemma effect_bind_returned:
  assumes "composes Q" and "effect Q m" and "\<And>w x w'. m w = (Inr x, w') \<Longrightarrow> effect Q (f x)"
  shows "effect Q (bind_io m f)"
proof -
  have "Q w (snd (bind_io m f w))" for w
  proof (cases "m w")
    case (Pair r w')
    then have q: "Q w w'" using effect_returned [OF assms(2)] by blast
    show ?thesis
    proof (cases r)
      case (Inl e)
      then show ?thesis using Pair q by (simp add: snd_bind_io)
    next
      case (Inr x)
      then have "Q w' (snd (f x w'))" using assms(3) Pair by (simp add: effect_def)
      then show ?thesis using Pair Inr q assms(1) by (simp add: snd_bind_io) (meson composes_def)
    qed
  qed
  then show ?thesis by (simp add: effect_def)
qed

lemmas then_touched = effect_bind_returned [OF same_except_composes]

lemma keep_cases: "effect Q (bind_io (of_res (keep_existing skip b sid)) f)"
  if "composes Q" and "keep_existing skip b sid = Inr True \<Longrightarrow> effect Q (f True)"
    and "keep_existing skip b sid = Inr False \<Longrightarrow> effect Q (f False)"
  by (rule effect_bind_returned) (use that in \<open>auto simp: effect_pure of_res_eq\<close>, metis (full_types))

text \<open>The files of the scenarios that are not kept.\<close>

definition open_paths :: "'o context_of_run \<Rightarrow> bool \<Rightarrow> string \<Rightarrow> scenarios \<Rightarrow> string set \<Rightarrow> string set" where
  "open_paths R skip run_dir b sids = scenario_json_path run_dir ` {sid \<in> sids. keep_existing skip b sid \<noteq> Inr True}"

lemma open_paths_update:
  assumes "keep_existing skip b sid \<noteq> Inr True" and "sid \<in> sids'" and "sids \<subseteq> sids'"
  shows "open_paths R skip run_dir (AList.update sid r b) sids \<subseteq> open_paths R skip run_dir b sids'"
proof -
  have "keep_existing skip b x \<noteq> Inr True" if "keep_existing skip (AList.update sid r b) x \<noteq> Inr True" for x
  proof (cases "x = sid")
    case False
    then have "map_of (AList.update sid r b) x = map_of b x" by (simp add: update_conv')
    from keep_existing_cong [OF this] show ?thesis using that by simp
  qed (use assms(1) in simp)
  then show ?thesis using assms(2,3) by (auto simp: open_paths_def)
qed

lemma open_paths_kept:
  assumes "kept skip b b'" and "sids \<subseteq> sids'"
  shows "open_paths R skip run_dir b' sids \<subseteq> open_paths R skip run_dir b sids'"
proof -
  have "keep_existing skip b' x = Inr True" if "keep_existing skip b x = Inr True" for x
  proof -
    have "map_of b' x = map_of b x" using assms(1) that by (simp add: kept_def)
    from keep_existing_cong [OF this] show ?thesis using that by simp
  qed
  then show ?thesis using assms(2) by (auto simp: open_paths_def)
qed

lemma fail_configs_touches:
  "effect (same_except run_dir (open_paths R skip run_dir b (scenario_id R s ` set cs))) (fail_configs R skip run_dir s profile cs b)"
proof (induction cs arbitrary: b)
  case (Cons c cs)
  let ?A = "open_paths R skip run_dir b (scenario_id R s ` set (c # cs))"
  show ?case
    unfolding fail_configs.simps
  proof (rule keep_cases [OF same_except_composes], simp_all only: if_True if_False)
    show "effect (same_except run_dir ?A) (fail_configs R skip run_dir s profile cs b)"
      by (rule same_except_mono [OF Cons.IH]) (auto simp: open_paths_def)
  next
    assume k: "keep_existing skip b (scenario_id R s c) = Inr False"
    then have "scenario_json_path run_dir (scenario_id R s c) \<in> ?A" by (auto simp: open_paths_def)
    from save_touches [OF headed_id [OF headed_unprofiled] this]
    show "effect (same_except run_dir ?A) (bind_io (reads (\<lambda>w. Inr (now_stamp (sys R) w))) (\<lambda>stamp.
        let sc = unprofiled_scenario R s c profile stamp
        in bind_io (save_scenario run_dir sc) (\<lambda>_. fail_configs R skip run_dir s profile cs (AList.update (scenario_id R s c) sc b))))"
      unfolding Let_def
      by (intro then_untouched untouched same_except_mono [OF Cons.IH] open_paths_update) (use k in auto)
  qed
qed (simp add: untouched)

lemma run_configs_touches:
  assumes "spares run_dir (sys R)"
  shows "effect (same_except run_dir (open_paths R skip run_dir b (scenario_id R s ` set cs))) (run_configs R skip run_dir meta s profile cs b)"
proof (induction cs arbitrary: b)
  case (Cons c cs)
  let ?sid = "scenario_id R s c"
  let ?A = "open_paths R skip run_dir b (scenario_id R s ` set (c # cs))"
  show ?case
    unfolding run_configs.simps
  proof (rule keep_cases [OF same_except_composes], simp_all only: if_True if_False)
    show "effect (same_except run_dir ?A) (bind_io (write_partial R run_dir meta b) (\<lambda>_. run_configs R skip run_dir meta s profile cs b))"
      by (intro then_untouched write_partial_untouched same_except_mono [OF Cons.IH]) (auto simp: open_paths_def)
  next
    assume k: "keep_existing skip b ?sid = Inr False"
    then have mem: "scenario_json_path run_dir ?sid \<in> ?A" by (auto simp: open_paths_def)
    have rest: "effect (same_except run_dir ?A) (run_configs R skip run_dir meta s profile cs (AList.update ?sid r b))" for r
      by (rule same_except_mono [OF Cons.IH]) (rule open_paths_update, use k in auto)
    have save: "effect (same_except run_dir ?A) (save_scenario run_dir (set_key ''profile'' (JObj profile) sc))"
      if "finished R s c sc" for sc
      by (rule save_touches [OF headed_id mem]) (use that in \<open>simp add: finished_def headed_new_keys\<close>)
    show "effect (same_except run_dir ?A) (bind_io (run_scenario R s c run_dir) (\<lambda>sc0.
        let sc = set_key ''profile'' (JObj profile) sc0; by_id' = AList.update ?sid sc b
        in bind_io (save_scenario run_dir sc) (\<lambda>_. bind_io (write_partial R run_dir meta by_id') (\<lambda>_.
           run_configs R skip run_dir meta s profile cs by_id'))))"
      unfolding Let_def
    proof (rule then_touched)
      show "effect (same_except run_dir ?A) (run_scenario R s c run_dir)"
        by (rule same_except_mono [OF run_scenario_touches [OF assms]]) (use mem in simp)
      fix w sc0 w' assume "run_scenario R s c run_dir w = (Inr sc0, w')"
      from save [OF run_scenario_returns [OF this]]
      show "effect (same_except run_dir ?A) (bind_io (save_scenario run_dir (set_key ''profile'' (JObj profile) sc0)) (\<lambda>_.
          bind_io (write_partial R run_dir meta (AList.update ?sid (set_key ''profile'' (JObj profile) sc0) b)) (\<lambda>_.
           run_configs R skip run_dir meta s profile cs (AList.update ?sid (set_key ''profile'' (JObj profile) sc0) b))))"
        by (intro then_untouched write_partial_untouched rest)
    qed
  qed
qed (simp add: untouched)

lemma run_shapes_touches:
  assumes "spares run_dir (sys R)"
  shows "effect (same_except run_dir (open_paths R skip run_dir b {scenario_id R s c |s c. s \<in> set ss \<and> c \<in> set cs}))
           (run_shapes R args skip run_dir meta cs ss b)"
proof (induction ss arbitrary: b)
  case (Cons s ss)
  let ?A = "open_paths R skip run_dir b {scenario_id R s' c |s' c. s' \<in> set (s # ss) \<and> c \<in> set cs}"
  have rest: "effect (same_except run_dir ?A) (run_shapes R args skip run_dir meta cs ss b')" if "kept skip b b'" for b'
    by (rule same_except_mono [OF Cons.IH]) (rule open_paths_kept [OF that], auto)
  have here: "open_paths R skip run_dir b (scenario_id R s ` set cs) \<subseteq> ?A" by (rule open_paths_kept [OF kept_refl]) auto
  have work: "effect (same_except run_dir ?A) (if \<not> is_true profile then
           bind_io (fail_configs R skip run_dir s profile cs b) (\<lambda>by_id'.
           bind_io (write_partial R run_dir meta by_id') (\<lambda>_. run_shapes R args skip run_dir meta cs ss by_id'))
         else bind_io (run_configs R skip run_dir meta s profile cs b) (\<lambda>by_id'.
           run_shapes R args skip run_dir meta cs ss by_id'))" for profile
  proof (intro effect_if then_touched)
    show "effect (same_except run_dir ?A) (fail_configs R skip run_dir s profile cs b)"
      by (rule same_except_mono [OF fail_configs_touches here])
    show "effect (same_except run_dir ?A) (run_configs R skip run_dir meta s profile cs b)"
      by (rule same_except_mono [OF run_configs_touches [OF assms] here])
    show "effect (same_except run_dir ?A) (write_partial R run_dir meta by_id')" for by_id'
      by (rule write_partial_untouched)
    show "effect (same_except run_dir ?A) (run_shapes R args skip run_dir meta cs ss b')"
      if "fail_configs R skip run_dir s profile cs b w = (Inr b', w')" for w b' w'
      using rest fail_configs_progress [OF that subset_refl] by (simp add: progress_def)
    show "effect (same_except run_dir ?A) (run_shapes R args skip run_dir meta cs ss b')"
      if "run_configs R skip run_dir meta s profile cs b w = (Inr b', w')" for w b' w'
      using rest run_configs_progress [OF that subset_refl assms] by (simp add: progress_def)
  qed
  show ?case
    unfolding run_shapes.simps
    by (intro then_untouched untouched write_partial_untouched run_profile_untouched assms rest kept_refl work)
qed (simp add: untouched)

section \<open>Loading\<close>

text \<open>Every file holds the scenario it is named after.\<close>

definition well_named :: "string \<Rightarrow> 'o world \<Rightarrow> bool" where
  "well_named run_dir w \<longleftrightarrow>
     (\<forall>sid r. CHR ''/'' \<notin> set sid \<longrightarrow> on_disk run_dir w sid = Some (JsonDoc (JObj r)) \<longrightarrow>
        fst (adopt run_dir (scenario_json_path run_dir sid) r) = sid)"

definition row_on_disk :: "string \<Rightarrow> 'o world \<Rightarrow> string \<Rightarrow> row option" where
  "row_on_disk run_dir w sid =
     (case on_disk run_dir w sid of
        Some (JsonDoc (JObj r)) \<Rightarrow> Some (snd (adopt run_dir (scenario_json_path run_dir sid) r))
      | _ \<Rightarrow> None)"

lemma drop_dir: "drop (length (below (scenarios_dir run_dir) [])) (scenario_json_path run_dir sid) = sid @ ''.json''"
  by (simp add: scenario_json_path_def below_def)

lemma stem_path [simp]: "stem run_dir (scenario_json_path run_dir sid) = sid"
  by (simp add: stem_def drop_dir Let_def)

lemma scenario_files_iff:
  "p \<in> set (scenario_files run_dir w) \<longleftrightarrow>
     (\<exists>sid. CHR ''/'' \<notin> set sid \<and> p = scenario_json_path run_dir sid \<and> on_disk run_dir w sid \<noteq> None)"
proof
  assume "p \<in> set (scenario_files run_dir w)"
  then have p: "prefix (below (scenarios_dir run_dir) []) p" "suffix ''.json'' p"
    "CHR ''/'' \<notin> set (drop (length (below (scenarios_dir run_dir) [])) p)" "map_of (files w) p \<noteq> None"
    by (auto simp: scenario_files_def Let_def map_of_eq_None_iff)
  obtain q where q: "p = below (scenarios_dir run_dir) [] @ q" using p(1) by (auto simp: prefix_def)
  have "suffix ''.json'' q"
  proof -
    obtain x where x: "below (scenarios_dir run_dir) [] @ q = x @ ''.json''" using p(2) by (auto simp: q suffix_def)
    then obtain us where us: "below (scenarios_dir run_dir) [] = x @ us \<and> us @ q = ''.json''
        \<or> below (scenarios_dir run_dir) [] @ us = x \<and> q = us @ ''.json''"
      by (auto simp: append_eq_append_conv2)
    moreover have False if "below (scenarios_dir run_dir) [] = x @ us" "us @ q = ''.json''" "us \<noteq> []"
    proof -
      have "last us = CHR ''/''" using that(1,3) by (metis below_def append_assoc last_appendR last_snoc self_append_conv)
      then have "CHR ''/'' \<in> set ''.json''" using that(2,3) by (metis UnI1 last_in_set set_append)
      then show False by simp
    qed
    ultimately show ?thesis by (cases "us = []") (auto simp: suffix_def)
  qed
  then obtain sid where "q = sid @ ''.json''" by (auto simp: suffix_def)
  then have "p = scenario_json_path run_dir sid" by (simp add: q scenario_json_path_def below_def)
  then show "\<exists>sid. CHR ''/'' \<notin> set sid \<and> p = scenario_json_path run_dir sid \<and> on_disk run_dir w sid \<noteq> None"
    using p(3,4) drop_dir [of run_dir sid] by (intro exI [of _ sid]) (simp add: on_disk_def)
next
  assume "\<exists>sid. CHR ''/'' \<notin> set sid \<and> p = scenario_json_path run_dir sid \<and> on_disk run_dir w sid \<noteq> None"
  then obtain sid where sid: "CHR ''/'' \<notin> set sid" "p = scenario_json_path run_dir sid" "on_disk run_dir w sid \<noteq> None" by blast
  have "p \<in> set (map fst (files w))" using sid(2,3) by (auto simp: on_disk_def map_of_eq_None_iff)
  moreover have "scenario_path run_dir p" unfolding sid(2) by (rule scenario_path_json)
  ultimately show "p \<in> set (scenario_files run_dir w)"
    using sid(1,2) drop_dir [of run_dir sid] by (simp add: scenario_files_def scenario_path_def Let_def)
qed

lemma load_files_total:
  "(\<exists>out'. load_files run_dir w ps out = Inr out') \<longleftrightarrow> (\<forall>p \<in> set ps. \<exists>x. load_json_if_exists w p = Inr x)"
proof (induction ps arbitrary: out)
  case (Cons p ps)
  show ?case
  proof (cases "load_json_if_exists w p")
    case (Inr x)
    then show ?thesis using Cons.IH by (cases x) (auto split: json.splits prod.splits)
  qed simp
qed simp

lemma load_files_distinct:
  "load_files run_dir w ps out = Inr out' \<Longrightarrow> distinct (map fst out) \<Longrightarrow> distinct (map fst out')"
proof (induction ps arbitrary: out)
  case (Cons p ps)
  then show ?case
    by (auto elim!: bind_resE split: option.splits json.splits prod.splits simp: distinct_update)
qed simp

lemma load_files_map:
  assumes "load_files run_dir w ps out = Inr out'" and "distinct ps" and "well_named run_dir w"
    and "\<forall>p \<in> set ps. \<exists>sid. CHR ''/'' \<notin> set sid \<and> p = scenario_json_path run_dir sid"
  shows "map_of out' sid =
     (if scenario_json_path run_dir sid \<in> set ps \<and> row_on_disk run_dir w sid \<noteq> None then row_on_disk run_dir w sid
      else map_of out sid)"
  using assms
proof (induction ps arbitrary: out)
  case (Cons p ps)
  obtain x where x: "p = scenario_json_path run_dir x" "CHR ''/'' \<notin> set x" using Cons.prems(4) by auto
  obtain data where data: "load_json_if_exists w p = Inr data" using Cons.prems(1) by (auto elim!: bind_resE)
  have rest: "distinct ps" "\<forall>p \<in> set ps. \<exists>sid. CHR ''/'' \<notin> set sid \<and> p = scenario_json_path run_dir sid"
    using Cons.prems by auto
  show ?case
  proof (cases "\<exists>r. map_of (files w) p = Some (JsonDoc (JObj r))")
    case True
    then obtain r where r: "map_of (files w) p = Some (JsonDoc (JObj r))" by blast
    have id: "fst (adopt run_dir p r) = x"
      using Cons.prems(3) x r by (simp add: well_named_def on_disk_def)
    have row: "row_on_disk run_dir w x = Some (snd (adopt run_dir p r))" using r x by (simp add: row_on_disk_def on_disk_def)
    have "load_files run_dir w ps (AList.update x (snd (adopt run_dir p r)) out) = Inr out'"
      using Cons.prems(1) r id by (simp add: load_json_if_exists_def case_prod_unfold)
    from Cons.IH [OF this rest(1) Cons.prems(3) rest(2)] show ?thesis
      using Cons.prems(2) x row by (auto simp: update_conv')
  next
    case False
    then have "load_files run_dir w ps out = Inr out'"
      using Cons.prems(1) data by (cases data) (auto simp: load_json_if_exists_def split: option.splits json.splits content.splits list.splits)
    moreover have "row_on_disk run_dir w x = None"
      using False x by (auto simp: row_on_disk_def on_disk_def split: option.splits content.splits json.splits)
    ultimately show ?thesis using Cons.IH [OF _ rest(1) Cons.prems(3) rest(2)] x by auto
  qed
qed simp

lemma loaded_rows:
  assumes "load_existing_scenarios run_dir w = Inr loaded" and "well_named run_dir w"
  shows "map_of loaded sid = (if CHR ''/'' \<in> set sid then None else row_on_disk run_dir w sid)"
    and "distinct (map fst loaded)"
proof -
  have load: "load_files run_dir w (scenario_files run_dir w) [] = Inr loaded"
    using assms(1) by (simp add: load_existing_scenarios_def)
  have "distinct (scenario_files run_dir w)" by (simp add: scenario_files_def Let_def)
  moreover have "\<forall>p \<in> set (scenario_files run_dir w). \<exists>sid. CHR ''/'' \<notin> set sid \<and> p = scenario_json_path run_dir sid"
    using scenario_files_iff by blast
  ultimately have row: "map_of loaded sid =
      (if scenario_json_path run_dir sid \<in> set (scenario_files run_dir w) \<and> row_on_disk run_dir w sid \<noteq> None
       then row_on_disk run_dir w sid else None)"
    using load_files_map [OF load _ assms(2), of sid] by simp
  have "scenario_json_path run_dir sid \<in> set (scenario_files run_dir w) \<longleftrightarrow> CHR ''/'' \<notin> set sid \<and> on_disk run_dir w sid \<noteq> None"
    by (simp only: scenario_files_iff scenario_json_path_inj) blast
  moreover have "on_disk run_dir w sid = None \<Longrightarrow> row_on_disk run_dir w sid = None" by (simp add: row_on_disk_def)
  ultimately show "map_of loaded sid = (if CHR ''/'' \<in> set sid then None else row_on_disk run_dir w sid)"
    using row by (cases "row_on_disk run_dir w sid") auto
  show "distinct (map fst loaded)" by (rule load_files_distinct [OF load]) simp
qed

lemma loads_iff:
  "(\<exists>loaded. load_existing_scenarios run_dir w = Inr loaded) \<longleftrightarrow>
     (\<forall>sid. CHR ''/'' \<notin> set sid \<longrightarrow> (\<forall>t. on_disk run_dir w sid = Some (TextDoc t) \<longrightarrow> t = []))"
  unfolding load_existing_scenarios_def load_files_total
proof
  assume a: "\<forall>p \<in> set (scenario_files run_dir w). \<exists>x. load_json_if_exists w p = Inr x"
  show "\<forall>sid. CHR ''/'' \<notin> set sid \<longrightarrow> (\<forall>t. on_disk run_dir w sid = Some (TextDoc t) \<longrightarrow> t = [])"
  proof (intro allI impI)
    fix sid t assume s: "CHR ''/'' \<notin> set sid" "on_disk run_dir w sid = Some (TextDoc t)"
    then have "scenario_json_path run_dir sid \<in> set (scenario_files run_dir w)" by (auto simp: scenario_files_iff)
    then show "t = []" using a s(2) by (cases t) (auto simp: load_json_if_exists_def on_disk_def)
  qed
next
  assume a: "\<forall>sid. CHR ''/'' \<notin> set sid \<longrightarrow> (\<forall>t. on_disk run_dir w sid = Some (TextDoc t) \<longrightarrow> t = [])"
  show "\<forall>p \<in> set (scenario_files run_dir w). \<exists>x. load_json_if_exists w p = Inr x"
  proof
    fix p assume "p \<in> set (scenario_files run_dir w)"
    then obtain sid where s: "CHR ''/'' \<notin> set sid" "p = scenario_json_path run_dir sid" by (auto simp: scenario_files_iff)
    then show "\<exists>x. load_json_if_exists w p = Inr x"
      using a by (auto simp: load_json_if_exists_def on_disk_def split: option.splits content.splits list.splits)
  qed
qed

lemma configured_rows:
  assumes "configured_scenarios st loaded = Inr b" and "distinct (map fst loaded)"
  shows "map_of b sid = (case map_of loaded sid of None \<Rightarrow> None
       | Some r \<Rightarrow> if scenario_uses_configured_comm_run_config st r = Inr True then Some r else None)"
    and "distinct (map fst b)"
proof -
  have "map_of b sid = (case map_of loaded sid of None \<Rightarrow> None
       | Some r \<Rightarrow> if scenario_uses_configured_comm_run_config st r = Inr True then Some r else None)
     \<and> distinct (map fst b) \<and> set (map fst b) \<subseteq> set (map fst loaded)"
    using assms
  proof (induction loaded arbitrary: b)
    case Nil
    then show ?case by (simp add: configured_scenarios_def)
  next
    case (Cons sr loaded)
    obtain x r where sr: "sr = (x, r)" by (cases sr)
    obtain u xs where u: "scenario_uses_configured_comm_run_config st r = Inr u"
      and xs: "map_res (\<lambda>(sid, r). bind_res (scenario_uses_configured_comm_run_config st r) (\<lambda>b. Inr (b, sid, r))) loaded = Inr xs"
      and b: "b = map snd (filter fst ((u, x, r) # xs))"
      using Cons.prems(1) by (auto simp: configured_scenarios_def sr elim!: bind_resE)
    have "configured_scenarios st loaded = Inr (map snd (filter fst xs))" using xs by (simp add: configured_scenarios_def)
    note ih = Cons.IH [OF this]
    have d: "distinct (map fst loaded)" "x \<notin> set (map fst loaded)" using Cons.prems(2) sr by auto
    show ?case
    proof (cases "sid = x")
      case True
      have "map_of loaded sid = None" using d(2) True by (simp add: map_of_eq_None_iff)
      then show ?thesis using ih [OF d(1)] d(2) u True by (auto simp: b sr)
    next
      case False
      then show ?thesis using ih [OF d(1)] d(2) u by (auto simp: b sr)
    qed
  qed
  then show "map_of b sid = (case map_of loaded sid of None \<Rightarrow> None
       | Some r \<Rightarrow> if scenario_uses_configured_comm_run_config st r = Inr True then Some r else None)" "distinct (map fst b)"
    by blast+
qed

lemma configured_total:
  "(\<exists>b. configured_scenarios st loaded = Inr b) \<longleftrightarrow>
     (\<forall>(sid, r) \<in> set loaded. \<exists>u. scenario_uses_configured_comm_run_config st r = Inr u)"
proof (induction loaded)
  case (Cons sr loaded)
  have "(\<exists>b. configured_scenarios st (sr # loaded) = Inr b) \<longleftrightarrow>
      (\<exists>u. scenario_uses_configured_comm_run_config st (snd sr) = Inr u) \<and> (\<exists>b. configured_scenarios st loaded = Inr b)"
    by (auto simp: configured_scenarios_def case_prod_unfold bind_res_eq_Inr)
  then show ?case using Cons.IH by (auto simp: case_prod_unfold)
qed (simp add: configured_scenarios_def)

section \<open>Names\<close>

lemma str_int_no_slash: "CHR ''/'' \<notin> set (str_int i)"
proof
  assume "CHR ''/'' \<in> set (str_int i)"
  then obtain d where d: "d < 10" "digit_char d = CHR ''/''"
    by (auto simp: str_int_def dest!: str_nat_digits split: if_splits)
  then have "48 + d = (of_char CHR ''/'' :: nat)" using digit_char_code [OF d(1)] by simp
  then show False by simp
qed

lemma set_py_join: "set (py_join sep ws) \<subseteq> set sep \<union> \<Union> (set (map set ws))"
  by (induction sep ws rule: py_join.induct) auto

lemma scenario_id_no_slash: "CHR ''/'' \<notin> set (scenario_id R s c)"
proof -
  have "CHR ''/'' \<notin> set (py_join ''-'' (map str_int ds))" for ds
    using set_py_join [of "''-''" "map str_int ds"] str_int_no_slash by fastforce
  then show ?thesis by (simp add: scenario_id_def shape_id_def device_config_id_def str_int_no_slash)
qed

section \<open>A finished row read back\<close>

lemma get_or_update: "get_or (AList.update k v r) k' d = (if k' = k then v else get_or r k' d)"
  by (simp add: get_or_def update_conv')

lemma headed_get:
  assumes "headed R s c r" and "map_of (scenario_head R s c) k = Some v"
  shows "get_or r k d = v"
proof -
  have "map_of r k = Some v" using assms unfolding headed_def map_le_def by (metis domI)
  then show ?thesis by (simp add: get_or_def)
qed

lemma headed_fields:
  assumes "headed R s c r"
  shows "get_or r ''scenario_id'' JNull = JStr (scenario_id R s c)"
    and "get_or r ''world_size'' JNull = JInt (int (length (devices R)))"
    and "get_or r ''comm_sm_slack'' JNull = JInt (cc_slack c)"
    and "get_or r ''max_ctas_per_reduce_task'' JNull = JInt (cc_reduce_ctas c)"
  by (rule headed_get [OF assms], simp add: scenario_head_def)+

lemma scenario_id_nonempty: "scenario_id R s c \<noteq> []"
  by (simp add: scenario_id_def shape_id_def)

text \<open>What the rest of the program reads of a row.\<close>

definition same_view :: "row \<Rightarrow> row \<Rightarrow> bool" where
  "same_view r r' \<longleftrightarrow> get_or r' ''status'' JNull = get_or r ''status'' JNull \<and> scenario_sort_key r' = scenario_sort_key r"

lemma adopt_finished:
  assumes "finished R s c r"
  shows "fst (adopt run_dir p r) = scenario_id R s c" and "same_view r (snd (adopt run_dir p r))"
    and "good r \<Longrightarrow> good (snd (adopt run_dir p r))"
    and "c \<in> set (configs_for (stg R) (int (length (devices R)))) \<Longrightarrow>
           scenario_uses_configured_comm_run_config (stg R) (snd (adopt run_dir p r)) = Inr True"
proof -
  have head: "headed R s c r" using assms by (simp add: finished_def)
  define data where "data = (case map_of r ''tests'' of Some (JObj t) \<Rightarrow>
      AList.update ''tests'' (JObj (AList.delete ''uncapped'' t)) r | _ \<Rightarrow> r)"
  have data: "get_or data k d = get_or r k d" if "k \<noteq> ''tests''" for k d
    using that by (auto simp: data_def get_or_update split: option.splits json.splits)
  have id: "get_or data ''scenario_id'' JNull = JStr (scenario_id R s c)"
    using data headed_fields(1) [OF head] by simp
  then have truth: "truthy (get_or data ''scenario_id'' JNull)" by (simp add: truthy_def scenario_id_nonempty)
  have ad: "adopt run_dir p r = (scenario_id R s c, AList.update ''_loaded_from_existing_scenario_json'' (JStr p) data)"
    unfolding adopt_def data_def [symmetric] Let_def using truth id by (simp add: str_json_def)
  then show "fst (adopt run_dir p r) = scenario_id R s c" by simp
  have get: "get_or (snd (adopt run_dir p r)) k d = get_or r k d"
    if "k \<noteq> ''tests''" "k \<noteq> ''_loaded_from_existing_scenario_json''" for k d
    using that data by (simp add: ad get_or_update)
  have key: "get_or (snd (adopt run_dir p r)) ''shape'' d = get_or r ''shape'' d"
    "get_or (snd (adopt run_dir p r)) ''comm_sm_slack'' d = get_or r ''comm_sm_slack'' d"
    "get_or (snd (adopt run_dir p r)) ''max_ctas_per_reduce_task'' d = get_or r ''max_ctas_per_reduce_task'' d"
    "get_or (snd (adopt run_dir p r)) ''scenario_id'' d = get_or r ''scenario_id'' d"
    "get_or (snd (adopt run_dir p r)) ''status'' d = get_or r ''status'' d" for d
    by (simp_all add: get)
  show "same_view r (snd (adopt run_dir p r))"
    unfolding same_view_def scenario_sort_key_def key by (intro conjI refl)
  show "good (snd (adopt run_dir p r))" if "good r"
  proof -
    obtain cp where cp: "get_or r ''tests'' (JObj []) = JObj [(''capped'', JObj cp)]" "is_true cp"
      using \<open>good r\<close> by (auto simp: good_def)
    then have "get_or data ''tests'' (JObj []) = JObj [(''capped'', JObj cp)]"
      by (auto simp: data_def get_or_def update_conv' split: option.splits)
    then have "get_or (snd (adopt run_dir p r)) ''tests'' (JObj []) = JObj [(''capped'', JObj cp)]"
      by (simp add: ad get_or_update)
    then show ?thesis using \<open>good r\<close> cp(2) by (simp add: good_def get)
  qed
  show "scenario_uses_configured_comm_run_config (stg R) (snd (adopt run_dir p r)) = Inr True"
    if "c \<in> set (configs_for (stg R) (int (length (devices R))))"
    using that by (auto simp: scenario_uses_configured_comm_run_config_def get headed_fields [OF head] int_of_json_def)
qed

lemma well_named_step:
  assumes "same_except run_dir A w w'" and "well_named run_dir w"
  shows "well_named run_dir w'"
  unfolding well_named_def
proof (intro allI impI)
  fix sid r assume sid: "CHR ''/'' \<notin> set sid" and r: "on_disk run_dir w' sid = Some (JsonDoc (JObj r))"
  consider "on_disk run_dir w' sid = on_disk run_dir w sid" | "get_key r ''scenario_id'' = Inr (JStr sid)"
    using assms(1) [unfolded same_except_def, rule_format, OF scenario_path_json, of sid] r by (auto simp: on_disk_def)
  then show "fst (adopt run_dir (scenario_json_path run_dir sid) r) = sid"
  proof cases
    case 1
    then show ?thesis using assms(2) sid r by (simp add: well_named_def)
  next
    case 2
    then have "get_or r ''scenario_id'' JNull = JStr sid" by (auto simp: get_key_def get_or_def split: option.splits)
    then show ?thesis
      by (auto simp: adopt_def Let_def get_or_update str_json_def split: option.splits json.splits)
  qed
qed

end
