(* ===== verification/EvaluateMain.thy ===== *)
theory EvaluateMain
  imports EvaluateResume
begin

text \<open>
  \<open>main\<close> of the evaluation as a whole: what it does when it returns and when it is interrupted, and what a later run
  finds of it.
\<close>

section \<open>The parts of a run\<close>

definition run_context :: "'o system \<Rightarrow> settings \<Rightarrow> int list \<Rightarrow> 'o context_of_run" where
  "run_context S st ds = \<lparr>sys = S, stg = st, devices = ds\<rparr>"

lemma run_context_sel [simp]:
  "sys (run_context S st ds) = S" "stg (run_context S st ds) = st" "devices (run_context S st ds) = ds"
  by (simp_all add: run_context_def)

definition run_dir_of :: "'o system \<Rightarrow> eval_args \<Rightarrow> string" where
  "run_dir_of S args = resolve S (ev_out_dir args)"

text \<open>What holds when the work on the shapes begins: devices, configurations and known scenarios.\<close>

definition begins ::
  "'o system \<Rightarrow> settings \<Rightarrow> eval_args \<Rightarrow> 'o world \<Rightarrow> int list \<Rightarrow> comm_run_config list \<Rightarrow> scenarios \<Rightarrow> scenarios \<Rightarrow> bool" where
  "begins S st args w ds cs loaded by_id \<longleftrightarrow>
     eval_parse_devices (ev_devices args) = Inr ds
     \<and> active_comm_run_configs (run_context S st ds) = Inr cs
     \<and> validate_bandwidth_curves (run_context S st ds) cs w = Inr ()
     \<and> shapes st \<noteq> [] \<and> selected_shapes st args \<noteq> []
     \<and> load_existing_scenarios (run_dir_of S args) w = Inr loaded \<and> configured_scenarios st loaded = Inr by_id"

definition shapes_of_run ::
  "'o system \<Rightarrow> settings \<Rightarrow> eval_args \<Rightarrow> int list \<Rightarrow> comm_run_config list \<Rightarrow> string \<Rightarrow> scenarios \<Rightarrow> ('o, scenarios) io" where
  "shapes_of_run S st args ds cs started by_id =
     run_shapes (run_context S st ds) args (skip_existing st args) (run_dir_of S args)
       (run_meta (run_context S st ds) args (run_dir_of S args) cs started) cs (selected_shapes st args) by_id"

definition result_of_run ::
  "'o system \<Rightarrow> settings \<Rightarrow> eval_args \<Rightarrow> int list \<Rightarrow> comm_run_config list \<Rightarrow> string \<Rightarrow> scenarios \<Rightarrow> ('o, row list) io" where
  "result_of_run S st args ds cs started by_id =
     write_result (run_context S st ds) (run_dir_of S args)
       (run_meta (run_context S st ds) args (run_dir_of S args) cs started) ''finished_at'' ''evaluation_result.json'' by_id"

definition exit_code :: "row list \<Rightarrow> int" where
  "exit_code rows = (if get_or (summarize rows) ''failed_count'' JNull = JInt 0 then 0 else 1)"

lemma bind_reads: "bind_io (reads f) g w = (case f w of Inl e \<Rightarrow> (Inl e, w) | Inr x \<Rightarrow> g x w)"
  by (simp add: bind_io_def reads_def split: sum.splits)

lemma bind_of_res: "bind_io (of_res v) g w = (case v of Inl e \<Rightarrow> (Inl e, w) | Inr x \<Rightarrow> g x w)"
  by (simp add: bind_io_def of_res_def split: sum.splits)

lemma require_simp: "(case require b e of Inl x \<Rightarrow> l x | Inr u \<Rightarrow> r u) = (if b then r () else l e)"
  by (simp add: require_def)

lemma evaluate_main_begun:
  assumes "begins S st args w ds cs loaded by_id"
  shows "evaluate_main S st args w =
     bind_io (shapes_of_run S st args ds cs (now_stamp S w) by_id) (\<lambda>by_id'.
     bind_io (result_of_run S st args ds cs (now_stamp S w) by_id') (\<lambda>rows. ret (exit_code rows))) w"
  using assms
  by (simp add: begins_def evaluate_main_def run_context_def run_dir_of_def shapes_of_run_def result_of_run_def exit_code_def
      Let_def require_simp bind_reads bind_of_res)

lemma evaluate_main_begins:
  assumes "evaluate_main S st args w = (r, w')"
  shows "(\<exists>ds cs loaded by_id. begins S st args w ds cs loaded by_id) \<or> ((\<exists>e. r = Inl e) \<and> w' = w)"
  using assms
  by (auto simp: begins_def evaluate_main_def run_context_def run_dir_of_def Let_def require_simp bind_reads bind_of_res split: sum.splits if_splits)

lemma evaluate_main_effect:
  assumes "evaluate_main S st args w = (r, w')" and "composes Q"
    and "\<And>ds cs loaded by_id. begins S st args w ds cs loaded by_id \<Longrightarrow>
           effect Q (shapes_of_run S st args ds cs (now_stamp S w) by_id)
           \<and> (\<forall>by_id'. effect Q (result_of_run S st args ds cs (now_stamp S w) by_id'))"
  shows "Q w w'"
proof (cases "\<exists>ds cs loaded by_id. begins S st args w ds cs loaded by_id")
  case True
  then obtain ds cs loaded by_id where b: "begins S st args w ds cs loaded by_id" by blast
  have "effect Q (bind_io (shapes_of_run S st args ds cs (now_stamp S w) by_id) (\<lambda>by_id'.
     bind_io (result_of_run S st args ds cs (now_stamp S w) by_id') (\<lambda>rows. ret (exit_code rows))))"
    using assms(3) [OF b] by (intro effect_bind [OF assms(2)] effect_pure [OF assms(2)]) auto
  then show ?thesis using effect_returned assms(1) evaluate_main_begun [OF b] by metis
next
  case False
  then have "w' = w" using evaluate_main_begins [OF assms(1)] by blast
  then show ?thesis using assms(2) by (simp add: composes_def)
qed

lemma evaluate_main_returns:
  assumes "evaluate_main S st args w = (Inr code, w')"
  obtains ds cs loaded by_id by_id' w1 rows where "begins S st args w ds cs loaded by_id"
    and "shapes_of_run S st args ds cs (now_stamp S w) by_id w = (Inr by_id', w1)"
    and "result_of_run S st args ds cs (now_stamp S w) by_id' w1 = (Inr rows, w')" and "code = exit_code rows"
proof -
  obtain ds cs loaded by_id where b: "begins S st args w ds cs loaded by_id"
    using evaluate_main_begins [OF assms] by auto
  show ?thesis
    using assms unfolding evaluate_main_begun [OF b] by (auto simp: io_simps intro: that [OF b])
qed

lemma result_of_run_untouched: "effect (same_except (run_dir_of S args) A) (result_of_run S st args ds cs started by_id)"
  unfolding result_of_run_def write_result_def
  by (intro then_untouched untouched write_json_untouched result_not_scenario) simp

lemma active_configs: "active_comm_run_configs R = Inr cs \<Longrightarrow> cs = configs_for (stg R) (int (length (devices R)))"
  by (auto simp: active_comm_run_configs_def Let_def elim!: bind_resE)

section \<open>The exit code\<close>

lemma exit_code_zero: "exit_code rows = 0 \<longleftrightarrow> (\<forall>r \<in> set rows. get_or r ''status'' JNull = JStr ''ok'')"
  by (auto simp: exit_code_def summarize_def Let_def get_or_def filter_empty_conv)

lemma sorted_scenarios_facts:
  assumes "sorted_scenarios by_id = Inr rows"
  shows "mset rows = mset (map snd by_id)" and "\<forall>r \<in> set (map snd by_id). \<exists>k. scenario_sort_key r = Inr k"
    and "sorted_wrt (\<lambda>a b. \<exists>j k. scenario_sort_key a = Inr j \<and> scenario_sort_key b = Inr k \<and> j \<le> k) rows"
proof -
  obtain keyed where keyed: "map_res (\<lambda>r. bind_res (scenario_sort_key r) (\<lambda>k. Inr (k, r))) (map snd by_id) = Inr keyed"
    and rows: "rows = map snd (sort_key fst keyed)"
    using assms by (auto simp: sorted_scenarios_def elim!: bind_resE)
  have all: "length keyed = length by_id"
    "\<forall>i < length by_id. bind_res (scenario_sort_key (snd (by_id ! i))) (\<lambda>k. Inr (k, snd (by_id ! i))) = Inr (keyed ! i)"
    using keyed by (auto simp: map_res_Inr_conv list_all2_conv_all_nth)
  have each: "scenario_sort_key (snd (by_id ! i)) = Inr (fst (keyed ! i)) \<and> snd (keyed ! i) = snd (by_id ! i)"
    if "i < length by_id" for i
    using all(2) [rule_format, OF that] unfolding bind_res_eq_Inr by (metis fst_conv snd_conv sum.inject(2))
  have "map snd keyed = map snd by_id" using all(1) each by (intro nth_equalityI) simp_all
  then show "mset rows = mset (map snd by_id)" by (simp add: rows flip: mset_map) (metis mset_map mset_sort)
  show "\<forall>r \<in> set (map snd by_id). \<exists>k. scenario_sort_key r = Inr k"
  proof
    fix r assume "r \<in> set (map snd by_id)"
    then obtain i where "i < length by_id" "r = snd (by_id ! i)" unfolding in_set_conv_nth by auto
    then show "\<exists>k. scenario_sort_key r = Inr k" using each by blast
  qed
  have key: "scenario_sort_key (snd p) = Inr (fst p)" if "p \<in> set keyed" for p
    using that [unfolded in_set_conv_nth] all(1) each by fastforce
  have "sorted (map fst (sort_key fst keyed))" by (rule sorted_sort_key)
  then have "sorted_wrt (\<lambda>p q. fst p \<le> fst q) (sort_key fst keyed)" by (simp add: sorted_wrt_map)
  then have "sorted_wrt (\<lambda>p q. \<exists>j k. scenario_sort_key (snd p) = Inr j \<and> scenario_sort_key (snd q) = Inr k \<and> j \<le> k) (sort_key fst keyed)"
    by (rule sorted_wrt_mono_rel [rotated]) (use key in auto)
  then show "sorted_wrt (\<lambda>a b. \<exists>j k. scenario_sort_key a = Inr j \<and> scenario_sort_key b = Inr k \<and> j \<le> k) rows"
    by (simp add: rows sorted_wrt_map)
qed

lemma sorted_scenarios_total:
  assumes "\<forall>r \<in> set (map snd by_id). \<exists>k. scenario_sort_key r = Inr k"
  shows "\<exists>rows. sorted_scenarios by_id = Inr rows"
proof -
  have "map_res (\<lambda>r. bind_res (scenario_sort_key r) (\<lambda>k. Inr (k, r))) (map snd by_id)
      = Inr (map (\<lambda>r. (projr (scenario_sort_key r), r)) (map snd by_id))"
    by (rule map_res_total) (use assms in force)
  then show ?thesis by (simp only: sorted_scenarios_def bind_res_Inr) blast
qed

lemma write_result_returns:
  "(\<exists>w'. write_result R p meta k name by_id w = (Inr rows, w')) \<longleftrightarrow> sorted_scenarios by_id = Inr rows"
  by (auto simp: write_result_def io_simps write_json_def Let_def)

lemma write_json_outside [simp]: "outside (snd (write_json p j w)) = outside w"
  by (simp add: write_json_def bind_io_def change_def write_file_def remove_file_def Let_def)

section \<open>The rows carry their key\<close>

definition row_key :: "row \<Rightarrow> string" where
  "row_key r = str_json (get_or r ''scenario_id'' JNull)"

definition keyed :: "scenarios \<Rightarrow> bool" where
  "keyed by_id \<longleftrightarrow> (\<forall>sid r. map_of by_id sid = Some r \<longrightarrow> row_key r = sid)"

lemma adopt_key: "row_key (snd (adopt run_dir p r)) = fst (adopt run_dir p r)"
  by (simp add: adopt_def row_key_def Let_def get_or_update split: option.splits json.splits)

lemma load_files_keyed: "load_files run_dir w ps out = Inr out' \<Longrightarrow> keyed out \<Longrightarrow> keyed out'"
proof (induction ps arbitrary: out)
  case (Cons p ps)
  obtain data where data: "load_json_if_exists w p = Inr data" using Cons.prems(1) by (auto elim!: bind_resE)
  show ?case
  proof (cases "\<exists>r. data = Some (JObj r)")
    case True
    then obtain r where r: "data = Some (JObj r)" by blast
    have "load_files run_dir w ps (AList.update (fst (adopt run_dir p r)) (snd (adopt run_dir p r)) out) = Inr out'"
      using Cons.prems(1) data r by (simp add: case_prod_unfold Let_def)
    moreover have "keyed (AList.update (fst (adopt run_dir p r)) (snd (adopt run_dir p r)) out)"
      using Cons.prems(2) by (auto simp: keyed_def update_conv' adopt_key)
    ultimately show ?thesis by (rule Cons.IH)
  next
    case False
    then have "load_files run_dir w ps out = Inr out'"
      using Cons.prems(1) data by (auto split: option.splits json.splits)
    then show ?thesis using Cons.IH Cons.prems(2) by blast
  qed
qed simp

lemma begins_rows:
  assumes "begins S st args w ds cs loaded by_id"
  shows "keyed by_id" and "distinct (map fst by_id)"
proof -
  have load: "load_files (run_dir_of S args) w (scenario_files (run_dir_of S args) w) [] = Inr loaded"
    using assms by (simp add: begins_def load_existing_scenarios_def)
  have d: "distinct (map fst loaded)" by (rule load_files_distinct [OF load]) simp
  have k: "keyed loaded" by (rule load_files_keyed [OF load]) (simp add: keyed_def)
  have conf: "configured_scenarios st loaded = Inr by_id" using assms by (simp add: begins_def)
  show "distinct (map fst by_id)" by (rule configured_rows(2) [OF conf d])
  show "keyed by_id"
    unfolding keyed_def
  proof (intro allI impI)
    fix sid r assume "map_of by_id sid = Some r"
    then have "map_of loaded sid = Some r"
      using configured_rows(1) [OF conf d, of sid] by (auto split: option.splits if_splits)
    then show "row_key r = sid" using k by (simp add: keyed_def)
  qed
qed

lemma fresh_key: "fresh R cs sid r \<Longrightarrow> row_key r = sid"
  using headed_fields(1) by (fastforce simp: fresh_def finished_def row_key_def str_json_def)

lemma progress_keyed: "progress R cs skip run_dir A w b w' b' \<Longrightarrow> keyed b \<Longrightarrow> keyed b'"
  unfolding keyed_def
proof (intro allI impI)
  fix sid r assume p: "progress R cs skip run_dir A w b w' b'" and k: "\<forall>sid r. map_of b sid = Some r \<longrightarrow> row_key r = sid"
    and r: "map_of b' sid = Some r"
  have "map_of b' sid = map_of b sid \<or> fresh R cs sid r"
    using p r unfolding progress_def evolves_def by (metis option.inject)
  then show "row_key r = sid" using k r fresh_key by metis
qed

lemma keyed_rows:
  assumes "keyed by_id" and "distinct (map fst by_id)"
  shows "map row_key (map snd by_id) = map fst by_id"
proof -
  have "row_key (snd p) = fst p" if "p \<in> set by_id" for p
    using map_of_is_SomeI [OF assms(2), of "fst p" "snd p"] that assms(1) by (simp add: keyed_def)
  then show ?thesis by simp
qed

text \<open>A finished run: every row is one it started with or new, and those of the selected shapes are accounted for.\<close>

lemma shapes_of_run_progress:
  assumes "shapes_of_run S st args ds cs started by_id w = (Inr by_id', w')" and "spares (run_dir_of S args) S"
  shows "progress (run_context S st ds) cs (skip_existing st args) (run_dir_of S args)
     {scenario_id (run_context S st ds) s c |s c. s \<in> set (selected_shapes st args) \<and> c \<in> set cs} w by_id w' by_id'"
  using run_shapes_progress [of "run_context S st ds"] assms by (simp add: shapes_of_run_def)

lemma accounted_status:
  assumes "accounted R cs skip by_id sid"
  shows "\<exists>r. map_of by_id sid = Some r \<and> get_or r ''status'' JNull \<in> {JStr ''ok'', JStr ''failed''}"
proof -
  consider "keep_existing skip by_id sid = Inr True" | r where "map_of by_id sid = Some r" "fresh R cs sid r"
    using assms by (auto simp: accounted_def)
  then show ?thesis
  proof cases
    case 1
    then show ?thesis
      by (auto simp: keep_existing_def existing_scenario_is_ok_def split: option.splits if_splits)
  next
    case 2
    then show ?thesis by (auto simp: fresh_def finished_def good_def)
  qed
qed

lemma result_of_run_document:
  assumes "result_of_run S st args ds cs started by_id w = (Inr rows, w')"
  shows "\<exists>doc. map_of (files w') (below (run_dir_of S args) ''evaluation_result.json'') = Some (JsonDoc (JObj doc))
     \<and> map_of doc ''scenarios'' = Some (JList (map JObj rows)) \<and> map_of doc ''summary'' = Some (JObj (summarize rows))"
proof -
  obtain meta stamp where "write_json (below (run_dir_of S args) ''evaluation_result.json'')
       (JObj [(''meta'', JObj meta), (''summary'', JObj (summarize rows)),
              (''scenarios'', JList (map JObj rows)), (''finished_at'', JStr stamp)]) w = (Inr (), w')"
    using assms unfolding result_of_run_def write_result_def by (auto simp: io_simps)
  then have "map_of (files w') (below (run_dir_of S args) ''evaluation_result.json'')
      = Some (JsonDoc (JObj [(''meta'', JObj meta), (''summary'', JObj (summarize rows)),
              (''scenarios'', JList (map JObj rows)), (''finished_at'', JStr stamp)]))"
    using write_json_files [of "below (run_dir_of S args) ''evaluation_result.json''" _ w] by (metis fun_upd_same snd_conv)
  then show ?thesis by (intro exI conjI) (assumption, simp_all)
qed

end
