(* ===== verification/EvaluateSecond.thy ===== *)
theory EvaluateSecond
  imports EvaluateMain
begin

text \<open>
  The run after a run: it loads, for every scenario, the row the first one ended with, up to the marker of where it was loaded from;
  and with all selected scenarios measured it only writes reports.
\<close>

section \<open>Nothing left to do\<close>

lemma write_partial_returns:
  assumes "sorted_scenarios b = Inr rows"
  shows "\<exists>w'. write_partial R dir meta b w = (Inr (), w') \<and> outside w' = outside w"
proof -
  obtain w' where w': "write_result R dir meta ''updated_at'' ''evaluation_result.partial.json'' b w = (Inr rows, w')"
    using assms write_result_returns by blast
  then have "outside w' = outside w"
    by (auto simp: write_result_def io_simps) (metis snd_conv write_json_outside)
  with w' show ?thesis by (simp add: write_partial_def bind_io_def ret_def)
qed

lemma all_existing_ok_all: "\<forall>sid \<in> set sids. existing_scenario_is_ok b sid = Inr True \<Longrightarrow> all_existing_ok b sids = Inr True"
  by (induction sids) simp_all

lemma run_shapes_nothing:
  assumes "\<forall>s \<in> set ss. \<forall>c \<in> set cs. existing_scenario_is_ok b (scenario_id R s c) = Inr True" and "sorted_scenarios b = Inr rows"
  shows "\<exists>w'. run_shapes R args True dir meta cs ss b w = (Inr b, w') \<and> outside w' = outside w
     \<and> (\<forall>sid. on_disk dir w' sid = on_disk dir w sid)"
  using assms(1)
proof (induction ss arbitrary: w)
  case Nil
  then show ?case by (simp add: ret_def)
next
  case (Cons s ss)
  obtain w1 where w1: "write_partial R dir meta b w = (Inr (), w1)" "outside w1 = outside w"
    using write_partial_returns [OF assms(2)] by blast
  obtain w' where w': "run_shapes R args True dir meta cs ss b w1 = (Inr b, w')" "outside w' = outside w1"
    "\<forall>sid. on_disk dir w' sid = on_disk dir w1 sid"
    using Cons by fastforce
  have "all_existing_ok b (map (scenario_id R s) cs) = Inr True" by (rule all_existing_ok_all) (use Cons.prems in auto)
  then have "run_shapes R args True dir meta cs (s # ss) b w = (Inr b, w')"
    using w1(1) w'(1) by (simp add: bind_io_def of_res_def)
  moreover have "on_disk dir w1 sid = on_disk dir w sid" for sid
    by (rule on_disk_untouched [OF write_partial_untouched [of _ "{}"] w1(1)]) simp
  ultimately show ?case using w1(2) w'(2,3) by auto
qed

section \<open>What is loaded\<close>

lemma same_view_refl: "same_view r r"
  by (simp add: same_view_def)

lemma row_on_disk_obj: "on_disk dir w sid = Some (JsonDoc (JObj r)) \<Longrightarrow> row_on_disk dir w sid = Some (snd (adopt dir (scenario_json_path dir sid) r))"
  by (simp add: row_on_disk_def)

lemma evolves_cases:
  assumes "evolves R cs dir w by_id w' by_id'"
  obtains "map_of by_id' sid = map_of by_id sid" "on_disk dir w' sid = on_disk dir w sid"
  | r where "map_of by_id' sid = Some r" "on_disk dir w' sid = Some (JsonDoc (JObj r))" "fresh R cs sid r"
  using assms [unfolded evolves_def, rule_format, of sid] by blast

lemma evolves_well_named:
  assumes "evolves R cs dir w by_id w' by_id'" and "well_named dir w"
  shows "well_named dir w'"
  unfolding well_named_def
proof (intro allI impI)
  fix sid r assume sid: "CHR ''/'' \<notin> set sid" and r: "on_disk dir w' sid = Some (JsonDoc (JObj r))"
  from assms(1) show "fst (adopt dir (scenario_json_path dir sid) r) = sid"
  proof (cases rule: evolves_cases [where sid = sid])
    case 1
    then show ?thesis using assms(2) sid r by (simp add: well_named_def)
  next
    case (2 r')
    then show ?thesis using r adopt_finished(1) by (auto simp: fresh_def)
  qed
qed

lemma evolves_loads:
  assumes "evolves R cs dir w by_id w' by_id'" and "load_existing_scenarios dir w = Inr loaded"
  shows "\<exists>loaded'. load_existing_scenarios dir w' = Inr loaded'"
  unfolding loads_iff
proof (intro allI impI)
  fix sid t assume sid: "CHR ''/'' \<notin> set sid" and t: "on_disk dir w' sid = Some (TextDoc t)"
  from assms(1) show "t = []"
  proof (cases rule: evolves_cases [where sid = sid])
    case 1
    then show ?thesis using t sid assms(2) loads_iff [of dir w] by auto
  next
    case 2
    then show ?thesis using t by simp
  qed
qed

text \<open>A row that the second run loads: an old one, or the new one in its stead.\<close>

lemma second_row:
  assumes "evolves R cs dir w by_id w' by_id'" and "well_named dir w"
    and "load_existing_scenarios dir w = Inr loaded" and "load_existing_scenarios dir w' = Inr loaded'"
    and "cs = configs_for (stg R) (int (length (devices R)))" and "map_of loaded' sid = Some r2"
  obtains "map_of loaded sid = Some r2" "map_of by_id' sid = map_of by_id sid"
  | r where "map_of by_id' sid = Some r" "fresh R cs sid r" "same_view r r2" "good r \<longrightarrow> good r2"
      "scenario_uses_configured_comm_run_config (stg R) r2 = Inr True"
proof -
  have r2: "CHR ''/'' \<notin> set sid" "row_on_disk dir w' sid = Some r2"
    using loaded_rows(1) [OF assms(4) evolves_well_named [OF assms(1,2)], of sid] assms(6) by (auto split: if_splits)
  from assms(1) show ?thesis
  proof (cases rule: evolves_cases [where sid = sid])
    case 1
    then have "map_of loaded sid = Some r2"
      using loaded_rows(1) [OF assms(3,2), of sid] r2 by (simp add: row_on_disk_def)
    then show ?thesis using 1 that(1) by simp
  next
    case (2 r)
    then have "r2 = snd (adopt dir (scenario_json_path dir sid) r)" using r2(2) row_on_disk_obj by force
    moreover obtain s c where "c \<in> set cs" "finished R s c r" using 2(3) by (auto simp: fresh_def)
    ultimately show ?thesis
      using that(2) [OF 2(1,3)] adopt_finished(2,3,4) [of R s c r] assms(5) by blast
  qed
qed

lemma second_run_rows:
  assumes "evolves R cs dir w by_id w' by_id'" and "well_named dir w"
    and "load_existing_scenarios dir w = Inr loaded" and "configured_scenarios (stg R) loaded = Inr by_id"
    and "cs = configs_for (stg R) (int (length (devices R)))"
  obtains loaded' by2 where "load_existing_scenarios dir w' = Inr loaded'" "configured_scenarios (stg R) loaded' = Inr by2"
    and "\<forall>sid r2. map_of by2 sid = Some r2 \<longrightarrow> (\<exists>r. map_of by_id' sid = Some r \<and> same_view r r2)"
    and "distinct (map fst by2)"
proof -
  obtain loaded' where l: "load_existing_scenarios dir w' = Inr loaded'" using evolves_loads [OF assms(1,3)] by blast
  note row = second_row [OF assms(1,2,3) l assms(5)]
  have d: "distinct (map fst loaded)" "distinct (map fst loaded')"
    using loaded_rows(2) assms(3,2) l evolves_well_named [OF assms(1,2)] by blast+
  have total: "\<exists>u. scenario_uses_configured_comm_run_config (stg R) r = Inr u" if "map_of loaded sid = Some r" for sid r
    using assms(4) configured_total [of "stg R" loaded] map_of_SomeD [OF that] by blast
  have "\<forall>(sid, r2) \<in> set loaded'. \<exists>u. scenario_uses_configured_comm_run_config (stg R) r2 = Inr u"
  proof clarify
    fix sid r2 assume "(sid, r2) \<in> set loaded'"
    then have "map_of loaded' sid = Some r2" using d(2) by simp
    from row [OF this] show "\<exists>u. scenario_uses_configured_comm_run_config (stg R) r2 = Inr u"
      by (cases) (use total in blast)+
  qed
  then obtain by2 where by2: "configured_scenarios (stg R) loaded' = Inr by2" using configured_total by blast
  note c1 = configured_rows(1) [OF assms(4) d(1)] and c2 = configured_rows(1) [OF by2 d(2)]
  have "\<exists>r. map_of by_id' sid = Some r \<and> same_view r r2" if "map_of by2 sid = Some r2" for sid r2
  proof -
    have r2: "map_of loaded' sid = Some r2" "scenario_uses_configured_comm_run_config (stg R) r2 = Inr True"
      using that c2 [of sid] by (auto split: option.splits if_splits)
    from row [OF r2(1)] show ?thesis
    proof cases
      case 1
      then show ?thesis using c1 [of sid] r2(2) same_view_refl by auto
    qed blast
  qed
  then show ?thesis using that l by2 configured_rows(2) [OF by2 d(2)] by blast
qed

text \<open>With every row \<open>ok\<close> the second run finds the accounted scenarios measured.\<close>

lemma second_run_measured:
  assumes "evolves R cs dir w by_id w' by_id'" and "well_named dir w"
    and "load_existing_scenarios dir w = Inr loaded" and "configured_scenarios (stg R) loaded = Inr by_id"
    and "cs = configs_for (stg R) (int (length (devices R)))"
    and "load_existing_scenarios dir w' = Inr loaded'" and "configured_scenarios (stg R) loaded' = Inr by2"
    and "accounted R cs skip by_id' sid" and "CHR ''/'' \<notin> set sid"
    and "\<forall>r. map_of by_id' sid = Some r \<longrightarrow> get_or r ''status'' JNull = JStr ''ok''"
  shows "existing_scenario_is_ok by2 sid = Inr True"
proof -
  have d: "distinct (map fst loaded)" "distinct (map fst loaded')"
    using loaded_rows(2) assms(3,2,6) evolves_well_named [OF assms(1,2)] by blast+
  note c1 = configured_rows(1) [OF assms(4) d(1), of sid] and c2 = configured_rows(1) [OF assms(7) d(2), of sid]
  note l1 = loaded_rows(1) [OF assms(3,2), of sid]
  note l2 = loaded_rows(1) [OF assms(6) evolves_well_named [OF assms(1,2)], of sid]
  have good: "good r" if "map_of by_id' sid = Some r" "fresh R cs sid r" for r
    using that assms(10) by (auto simp: fresh_def finished_def)
  have old: "existing_scenario_is_ok by_id' sid = Inr True"
  proof (cases "keep_existing skip by_id' sid = Inr True")
    case True
    then show ?thesis by (simp add: keep_existing_def split: if_splits)
  next
    case False
    then show ?thesis using assms(8) good existing_ok_of_good by (auto simp: accounted_def)
  qed
  from assms(1) show ?thesis
  proof (cases rule: evolves_cases [where sid = sid])
    case 1
    have "map_of loaded' sid = map_of loaded sid" using l1 l2 1(2) by (simp add: row_on_disk_def)
    then have "map_of by2 sid = map_of by_id' sid" using c1 c2 1(1) by simp
    then show ?thesis using old existing_ok_cong by metis
  next
    case (2 r)
    obtain s c where sc: "c \<in> set cs" "finished R s c r" using 2(3) by (auto simp: fresh_def)
    define r2 where "r2 = snd (adopt dir (scenario_json_path dir sid) r)"
    have "map_of loaded' sid = Some r2" using l2 assms(9) row_on_disk_obj [OF 2(2)] by (simp add: r2_def)
    moreover have "scenario_uses_configured_comm_run_config (stg R) r2 = Inr True"
      using adopt_finished(4) [OF sc(2)] sc(1) assms(5) by (simp add: r2_def)
    ultimately have "map_of by2 sid = Some r2" using c2 by simp
    moreover have "good r2" using adopt_finished(3) [OF sc(2)] good [OF 2(1,3)] by (simp add: r2_def)
    ultimately show ?thesis by (rule existing_ok_of_good)
  qed
qed

end
