(* ===== verification/EvaluateDemo.thy ===== *)
theory EvaluateDemo
  imports EvaluateSecond
begin

text \<open>
  A small evaluation to instantiate the properties: one shape, one configuration, one trial; the children count their
  launches, and the search leaves its two solutions. One directory is empty, in the other the scenario is measured.
\<close>

definition demo_config_file :: "string \<Rightarrow> string" where
  "demo_config_file name = ''/r/configs/'' @ name"

definition demo_launch :: "string list \<Rightarrow> env \<Rightarrow> nat world \<Rightarrow> (int \<times> string) \<times> nat world" where
  "demo_launch cmd env w =
     (let w1 = w\<lparr>outside := outside w + 1\<rparr>; sol = JsonDoc (JObj [(''comm_sm_slack'', JInt 4)])
      in ((0, []),
          if cmd ! 1 = ''tool/search.py''
          then write_file (demo_config_file ''solution_nccl_m1n1k1_g_tp2_packed_sm90.json'') sol
                 (write_file (demo_config_file ''solution_ooverlap_m1n1k1_g_tp2_packed_sm90.json'') sol w1)
          else w1))"

definition demo_system :: "nat system" where
  "demo_system = \<lparr>launch = demo_launch, now_stamp = (\<lambda>_. ''t''), elapsed = (\<lambda>_ _. ''1.0''), environ = [],
     gpu_model = Some ''G'', repo = ''/r'', expand = (\<lambda>p. p), resolve = (\<lambda>p. p), newest = (\<lambda>_ _ _ _. None),
     python = ''py'', float_repr = (\<lambda>_. [])\<rparr>"

definition demo_settings :: settings where
  "demo_settings = \<lparr>shapes = [\<lparr>sh_m = 1, sh_n = 1, sh_k = 1, sh_csv = ''/c''\<rparr>], csv_dir = [], set_op = ''all_reduce'',
     set_backend = ''both'', configs_by_tp = [(2, [\<lparr>cc_slack = 4, cc_reduce_ctas = 2\<rparr>])],
     trials = [\<lparr>tr_group = 8, tr_effective = 6, tr_max_mn = None\<rparr>], tuning_policy = [], visible_devices = [],
     store_stdout = False, skip_ok = True\<rparr>"

definition demo_eval_args :: eval_args where
  "demo_eval_args = \<lparr>ev_skip_profile = False, ev_rerun = False, ev_out_dir = ''/o'', ev_devices = ''0,1'', ev_only_shape = []\<rparr>"

definition demo_world :: "nat world" where
  "demo_world = \<lparr>files = [(demo_config_file ''bandwidth_nccl_all_reduce_tp2_c4.pt'', TextDoc ''x''),
       (demo_config_file ''bandwidth_ooverlap_all_reduce_tp2_c4_r2.pt'', TextDoc ''x''), (''/c'', TextDoc ''x''),
       (demo_config_file ''m1n1k1_g_packed_sm90.json'', JsonDoc (JObj [(''Algo'', JList [JInt 0])]))],
     outside = 0\<rparr>"

definition demo_sid :: string where
  "demo_sid = ''m1n1k1__tp2__dev0-1__slack4__rcta2''"

definition demo_row :: row where
  "demo_row = [(''scenario_id'', JStr demo_sid), (''shape'', JObj [(''m'', JInt 1), (''n'', JInt 1), (''k'', JInt 1)]),
     (''world_size'', JInt 2), (''comm_sm_slack'', JInt 4), (''max_ctas_per_reduce_task'', JInt 2),
     (''evaluation_schema_version'', JInt 2), (''status'', JStr ''ok''),
     (''tests'', JObj [(''capped'', JObj [(''ok'', JBool True)])])]"

definition demo_measured :: "nat world" where
  "demo_measured = write_file (scenario_json_path ''/o'' demo_sid) (JsonDoc (JObj demo_row)) demo_world"

lemma demo_evaluation:
  "(case evaluate_main demo_system demo_settings demo_eval_args demo_measured of (r, w) \<Rightarrow>
      r = Inr 0 \<and> list_all (nonempty_file w) (map fst (files demo_measured)))"
  by code_simp

lemma demo_dir: "run_dir_of demo_system demo_eval_args = ''/o''"
  by (simp add: run_dir_of_def demo_system_def demo_eval_args_def)

lemma config_not_scenario: "\<not> scenario_path ''/o'' (demo_config_file name)"
  by (simp add: scenario_path_def scenarios_dir_def below_def demo_config_file_def)

lemma demo_spares: "spares ''/o'' demo_system"
proof -
  have "map_of (files (snd (demo_launch cmd env w))) p = map_of (files w) p" if "scenario_path ''/o'' p" for cmd env w p
    using that config_not_scenario by (auto simp: demo_launch_def Let_def)
  then show ?thesis by (simp add: spares_def same_except_def demo_system_def)
qed

lemma demo_counted: "counted (\<lambda>n. n) demo_system"
  by (simp add: counted_def demo_system_def demo_launch_def write_file_def Let_def)

lemma demo_well_named: "well_named ''/o'' demo_measured"
proof -
  have "on_disk ''/o'' demo_measured sid = (if sid = demo_sid then Some (JsonDoc (JObj demo_row)) else None)" for sid
    by (simp add: on_disk_def demo_measured_def demo_world_def demo_config_file_def scenario_json_path_def scenarios_dir_def
        below_def)
  moreover have "fst (adopt ''/o'' p demo_row) = demo_sid" for p
    by (simp add: adopt_def demo_row_def get_or_def truthy_def demo_sid_def str_json_def)
  ultimately show ?thesis by (simp add: well_named_def)
qed

end
