(* ===== verification/EvaluateProperties.thy ===== *)
theory EvaluateProperties
  imports EvaluateDemo
begin

text \<open>
  The promises of the evaluation driver: a bounded number of child processes, finished scenarios that survive every
  later run, a complete report, and a second run that has nothing left to do.
\<close>

section \<open>Number of launches\<close>

text \<open>C20: An evaluation ends after a bounded number of child processes, whatever they answer. For any counter that
  one launch raises by at most one, a run, whether it returns or raises, raises it by at most one profile per selected shape
  and, for each of its communication configurations, one search per trial and one test.\<close>
theorem evaluation_launches_bounded:
  assumes "evaluate_main S st args w = (r, w')" and "counted tick S"
    and "eval_parse_devices (ev_devices args) = Inr ds"
  shows "tick (outside w') \<le> tick (outside w)
     + length (selected_shapes st args) * (1 + length (configs_for st (int (length ds))) * (length (trials st) + 1))"
proof (cases "\<exists>cs loaded by_id. begins S st args w ds cs loaded by_id")
  case True
  then obtain cs loaded by_id where b: "begins S st args w ds cs loaded by_id" by blast
  let ?R = "run_context S st ds"
  have "cs = configs_for st (int (length ds))"
    using active_configs [of ?R cs] b by (simp add: begins_def)
  then have "launches tick (length (selected_shapes st args) * (1 + length (configs_for st (int (length ds))) * (length (trials st) + 1)))
      (shapes_of_run S st args ds cs (now_stamp S w) by_id)"
    using launches_run_shapes [of tick ?R "selected_shapes st args" cs] assms(2) by (simp add: shapes_of_run_def)
  then have "launches tick (length (selected_shapes st args) * (1 + length (configs_for st (int (length ds))) * (length (trials st) + 1)))
      (bind_io (shapes_of_run S st args ds cs (now_stamp S w) by_id) (\<lambda>by_id'.
       bind_io (result_of_run S st args ds cs (now_stamp S w) by_id') (\<lambda>rows. ret (exit_code rows))))"
    by (rule launches_bind [where b = 0])
      (auto intro!: launches_free [where n = 0] simp: result_of_run_def)
  then show ?thesis
    using assms(1) unfolding launches_def evaluate_main_begun [OF b] by (metis snd_conv)
next
  case False
  then have "w' = w" using evaluate_main_begins [OF assms(1)] assms(3) by (auto simp: begins_def)
  then show ?thesis by simp
qed

lemma evaluation_launches_bounded_witness:
  "outside (snd (evaluate_main demo_system demo_settings demo_eval_args demo_world)) \<le> 3"
proof -
  obtain r w' where run: "evaluate_main demo_system demo_settings demo_eval_args demo_world = (r, w')" by (metis surj_pair)
  have "eval_parse_devices (ev_devices demo_eval_args) = Inr [0, 1]" by code_simp
  from evaluation_launches_bounded [OF run demo_counted this] have "outside w' \<le> 3"
    by (simp add: demo_world_def selected_shapes_def demo_eval_args_def demo_settings_def configs_for_def)
  then show ?thesis by (simp add: run)
qed

section \<open>Finished scenarios\<close>

text \<open>C15: A run never touches a finished scenario. Let the child processes leave the scenario files alone. Then for
  every scenario file, however the run ends (also when it raises half way), either the file is as before, or it is
  that of a selected shape and configuration which was not successfully measured yet (or a rerun was asked for),
  and it holds a row of exactly that scenario. In particular files that are named after their scenario stay so.\<close>
theorem finished_scenarios_survive:
  assumes "evaluate_main S st args w = (r, w')" and "spares (run_dir_of S args) S"
  shows "(\<forall>sid. on_disk (run_dir_of S args) w' sid = on_disk (run_dir_of S args) w sid
       \<or> (\<exists>ds cs loaded by_id s c row. begins S st args w ds cs loaded by_id
            \<and> s \<in> set (selected_shapes st args) \<and> c \<in> set cs \<and> sid = scenario_id (run_context S st ds) s c
            \<and> \<not> (skip_existing st args \<and> existing_scenario_is_ok by_id sid = Inr True)
            \<and> on_disk (run_dir_of S args) w' sid = Some (JsonDoc (JObj row)) \<and> get_key row ''scenario_id'' = Inr (JStr sid)))
     \<and> (well_named (run_dir_of S args) w \<longrightarrow> well_named (run_dir_of S args) w')"
proof -
  let ?dir = "run_dir_of S args"
  let ?A = "{scenario_json_path ?dir (scenario_id (run_context S st ds) s c) |ds s c.
     \<exists>cs loaded by_id. begins S st args w ds cs loaded by_id \<and> s \<in> set (selected_shapes st args) \<and> c \<in> set cs
       \<and> keep_existing (skip_existing st args) by_id (scenario_id (run_context S st ds) s c) \<noteq> Inr True}"
  have step: "same_except ?dir ?A w w'"
  proof (rule evaluate_main_effect [OF assms(1) same_except_composes], intro conjI allI)
    fix ds cs loaded by_id by_id' assume b: "begins S st args w ds cs loaded by_id"
    show "effect (same_except ?dir ?A) (shapes_of_run S st args ds cs (now_stamp S w) by_id)"
      unfolding shapes_of_run_def
      by (rule same_except_mono [OF run_shapes_touches]) (use assms(2) b in \<open>simp, auto simp: open_paths_def, blast\<close>)
    show "effect (same_except ?dir ?A) (result_of_run S st args ds cs (now_stamp S w) by_id')"
      by (rule result_of_run_untouched)
  qed
  have "\<exists>ds cs loaded by_id s c row. begins S st args w ds cs loaded by_id
            \<and> s \<in> set (selected_shapes st args) \<and> c \<in> set cs \<and> sid = scenario_id (run_context S st ds) s c
            \<and> \<not> (skip_existing st args \<and> existing_scenario_is_ok by_id sid = Inr True)
            \<and> on_disk ?dir w' sid = Some (JsonDoc (JObj row)) \<and> get_key row ''scenario_id'' = Inr (JStr sid)"
    if "on_disk ?dir w' sid \<noteq> on_disk ?dir w sid" for sid
  proof -
    have "scenario_json_path ?dir sid \<in> ?A \<and> (\<exists>row. on_disk ?dir w' sid = Some (JsonDoc (JObj row))
        \<and> get_key row ''scenario_id'' = Inr (JStr sid))"
      using step [unfolded same_except_def, rule_format, OF scenario_path_json, of sid] that by (auto simp: on_disk_def)
    then show ?thesis by (fastforce simp: keep_existing_def)
  qed
  then show ?thesis using well_named_step [OF step] by blast
qed

lemma finished_scenarios_survive_witness:
  "well_named ''/o'' (snd (evaluate_main demo_system demo_settings demo_eval_args demo_measured))"
proof -
  obtain r w' where run: "evaluate_main demo_system demo_settings demo_eval_args demo_measured = (r, w')" by (metis surj_pair)
  from finished_scenarios_survive [OF run] show ?thesis
    using demo_spares demo_well_named by (simp add: demo_dir run)
qed

section \<open>The report\<close>

text \<open>C6: A run that returns has reported everything. Its \<open>evaluation_result.json\<close> lists, sorted by shape and
  configuration, rows with pairwise distinct scenario ids; for every selected shape and every communication
  configuration of the devices there is one, it is finished (\<open>ok\<close> or \<open>failed\<close>, never \<open>running\<close>); the summary counts
  add up; and the exit code is zero exactly if every row is \<open>ok\<close>.\<close>
theorem evaluation_complete:
  assumes "evaluate_main S st args w = (Inr code, w')" and "spares (run_dir_of S args) S"
  shows "\<exists>ds cs doc rows. eval_parse_devices (ev_devices args) = Inr ds
     \<and> active_comm_run_configs (run_context S st ds) = Inr cs
     \<and> map_of (files w') (below (run_dir_of S args) ''evaluation_result.json'') = Some (JsonDoc (JObj doc))
     \<and> map_of doc ''scenarios'' = Some (JList (map JObj rows)) \<and> map_of doc ''summary'' = Some (JObj (summarize rows))
     \<and> distinct (map row_key rows)
     \<and> sorted_wrt (\<lambda>a b. \<exists>j k. scenario_sort_key a = Inr j \<and> scenario_sort_key b = Inr k \<and> j \<le> k) rows
     \<and> (\<forall>s \<in> set (selected_shapes st args). \<forall>c \<in> set cs. \<exists>r \<in> set rows.
          row_key r = scenario_id (run_context S st ds) s c \<and> get_or r ''status'' JNull \<in> {JStr ''ok'', JStr ''failed''})
     \<and> (code = 0 \<longleftrightarrow> (\<forall>r \<in> set rows. get_or r ''status'' JNull = JStr ''ok''))"
proof -
  obtain ds cs loaded by_id by_id' w1 rows where b: "begins S st args w ds cs loaded by_id"
    and run: "shapes_of_run S st args ds cs (now_stamp S w) by_id w = (Inr by_id', w1)"
    and res: "result_of_run S st args ds cs (now_stamp S w) by_id' w1 = (Inr rows, w')" and code: "code = exit_code rows"
    using evaluate_main_returns [OF assms(1)] by blast
  note p = shapes_of_run_progress [OF run assms(2)]
  have k: "keyed by_id'" by (rule progress_keyed [OF p begins_rows(1) [OF b]])
  have d: "distinct (map fst by_id')" using p begins_rows(2) [OF b] by (simp add: progress_def)
  have sorted: "sorted_scenarios by_id' = Inr rows"
    using res write_result_returns unfolding result_of_run_def by blast
  note rows = sorted_scenarios_facts [OF sorted]
  have "mset (map row_key rows) = mset (map fst by_id')"
    using rows(1) keyed_rows [OF k d] by (metis mset_map)
  then have dist: "distinct (map row_key rows)" using d mset_eq_imp_distinct_iff by blast
  have all: "\<exists>r \<in> set rows. row_key r = scenario_id (run_context S st ds) s c \<and> get_or r ''status'' JNull \<in> {JStr ''ok'', JStr ''failed''}"
    if s: "s \<in> set (selected_shapes st args)" and c: "c \<in> set cs" for s c
  proof -
    have "accounted (run_context S st ds) cs (skip_existing st args) by_id' (scenario_id (run_context S st ds) s c)"
      using p s c by (auto simp: progress_def)
    from accounted_status [OF this] obtain r where r: "map_of by_id' (scenario_id (run_context S st ds) s c) = Some r"
      "get_or r ''status'' JNull \<in> {JStr ''ok'', JStr ''failed''}" by blast
    have "r \<in> set (map snd by_id')" using map_of_SomeD [OF r(1)] by force
    then have "r \<in> set rows" using rows(1) by (metis set_mset_mset)
    then show ?thesis using r k by (auto simp: keyed_def)
  qed
  obtain doc where doc: "map_of (files w') (below (run_dir_of S args) ''evaluation_result.json'') = Some (JsonDoc (JObj doc))"
    "map_of doc ''scenarios'' = Some (JList (map JObj rows))" "map_of doc ''summary'' = Some (JObj (summarize rows))"
    using result_of_run_document [OF res] by blast
  have "eval_parse_devices (ev_devices args) = Inr ds" "active_comm_run_configs (run_context S st ds) = Inr cs"
    using b by (simp_all add: begins_def)
  then show ?thesis
    using doc dist rows(3) all code exit_code_zero [of rows] by blast
qed

lemma evaluation_complete_witness:
  "\<exists>doc rows. map_of (files (snd (evaluate_main demo_system demo_settings demo_eval_args demo_measured)))
      (below ''/o'' ''evaluation_result.json'') = Some (JsonDoc (JObj doc)) \<and> map_of doc ''scenarios'' = Some (JList (map JObj rows))"
proof -
  obtain w' where run: "evaluate_main demo_system demo_settings demo_eval_args demo_measured = (Inr 0, w')"
    using demo_evaluation by (auto split: prod.splits)
  from evaluation_complete [OF run] show ?thesis using demo_spares by (simp add: demo_dir run) blast
qed

section \<open>Resuming\<close>

lemma begins_again:
  assumes "begins S st args w ds cs loaded by_id" and "args' = args\<lparr>ev_rerun := False, ev_skip_profile := b\<rparr>"
    and "\<forall>p. prefix (below (repo S) ''configs'') p \<and> nonempty_file w p \<longrightarrow> nonempty_file w1 p"
    and "load_existing_scenarios (run_dir_of S args) w1 = Inr loaded'" and "configured_scenarios st loaded' = Inr by2"
  shows "begins (S\<lparr>launch := L\<rparr>) st args' w1 ds cs loaded' by2"
proof -
  let ?R = "run_context S st ds" and ?R' = "run_context (S\<lparr>launch := L\<rparr>) st ds"
  have curve: "bandwidth_curve_path ?R' c k = bandwidth_curve_path ?R c k" for c k
    by (simp add: bandwidth_curve_path_def)
  have "prefix (below (repo S) ''configs'') p" if "bandwidth_curve_path ?R c k = Inr p" for c k p
    using that by (auto simp: bandwidth_curve_path_def Let_def below_def elim!: bind_resE split: if_splits)
  moreover obtain paths where paths: "map_res (\<lambda>(c, k). bandwidth_curve_path ?R c k) (concat (map (\<lambda>c. [(c, ''nccl''), (c, ''ooverlap'')]) cs)) = Inr paths"
    and old: "\<forall>p \<in> set paths. nonempty_file w p"
    using assms(1) by (auto simp: begins_def validate_bandwidth_curves_def bind_res_eq_Inr require_eq_Inr)
  ultimately have "\<forall>p \<in> set paths. nonempty_file w1 p"
    using assms(3) map_res_in_set [OF paths] by fastforce
  then have "validate_bandwidth_curves ?R' cs w1 = Inr ()"
    using paths by (simp add: validate_bandwidth_curves_def curve bind_res_eq_Inr require_eq_Inr)
  moreover have args: "selected_shapes st args' = selected_shapes st args" "ev_devices args' = ev_devices args"
    "ev_out_dir args' = ev_out_dir args"
    by (simp_all add: assms(2) selected_shapes_def)
  moreover have "active_comm_run_configs ?R' = active_comm_run_configs ?R" by (simp add: active_comm_run_configs_def)
  ultimately show ?thesis
    using assms(1,4,5) args by (simp add: begins_def run_dir_of_def)
qed

text \<open>C8: A second run has nothing left to do. Let a first run return with exit code zero, from a directory whose scenario files
  are named after their scenario, with child processes that leave these files alone; and let no bandwidth curve be
  lost meanwhile. Then a run with the same devices, shapes and directory that does not ask for a rerun returns zero again,
  whatever its child processes would do: it launches none (the rest of the world, which only they change, stays as it is)
  and changes no scenario file.\<close>
theorem resume_launches_nothing:
  assumes "evaluate_main S st args w = (Inr 0, w1)" and "spares (run_dir_of S args) S" and "well_named (run_dir_of S args) w"
    and "skip_ok st" and "args' = args\<lparr>ev_rerun := False, ev_skip_profile := b\<rparr>"
    and "\<forall>p. prefix (below (repo S) ''configs'') p \<and> nonempty_file w p \<longrightarrow> nonempty_file w1 p"
  shows "\<exists>w2. evaluate_main (S\<lparr>launch := L\<rparr>) st args' w1 = (Inr 0, w2) \<and> outside w2 = outside w1
     \<and> (\<forall>sid. on_disk (run_dir_of S args) w2 sid = on_disk (run_dir_of S args) w1 sid)"
proof -
  let ?dir = "run_dir_of S args" and ?S' = "S\<lparr>launch := L\<rparr>"
  obtain ds cs loaded by_id by_id' wa rows where b: "begins S st args w ds cs loaded by_id"
    and run: "shapes_of_run S st args ds cs (now_stamp S w) by_id w = (Inr by_id', wa)"
    and res: "result_of_run S st args ds cs (now_stamp S w) by_id' wa = (Inr rows, w1)" and code: "0 = exit_code rows"
    using evaluate_main_returns [OF assms(1)] by blast
  let ?R = "run_context S st ds" and ?R' = "run_context ?S' st ds"
  note p = shapes_of_run_progress [OF run assms(2)]
  have quiet: "on_disk ?dir w1 sid = on_disk ?dir wa sid" for sid
    by (rule on_disk_untouched [OF result_of_run_untouched [of _ _ "{}"] res]) simp
  have ev: "evolves ?R cs ?dir w by_id w1 by_id'" using p quiet by (simp add: progress_def evolves_def)
  have cs: "cs = configs_for (stg ?R) (int (length (devices ?R)))"
    using active_configs [of ?R cs] b by (simp add: begins_def)
  have l: "load_existing_scenarios ?dir w = Inr loaded" and c: "configured_scenarios (stg ?R) loaded = Inr by_id"
    using b by (simp_all add: begins_def)
  obtain loaded' by2 where second: "load_existing_scenarios ?dir w1 = Inr loaded'" "configured_scenarios (stg ?R) loaded' = Inr by2"
    and view: "\<forall>sid r2. map_of by2 sid = Some r2 \<longrightarrow> (\<exists>r. map_of by_id' sid = Some r \<and> same_view r r2)"
    and d2: "distinct (map fst by2)"
    using second_run_rows [OF ev assms(3) l c cs] by blast
  have "sorted_scenarios by_id' = Inr rows" using res write_result_returns unfolding result_of_run_def by blast
  note rows = sorted_scenarios_facts [OF this]
  have ok: "get_or r ''status'' JNull = JStr ''ok'' \<and> (\<exists>k. scenario_sort_key r = Inr k)" if "map_of by_id' sid = Some r" for sid r
  proof -
    have "r \<in> set (map snd by_id')" using map_of_SomeD [OF that] by force
    then show ?thesis using rows(1,2) code exit_code_zero [of rows] by (metis set_mset_mset)
  qed
  have ok2: "get_or r ''status'' JNull = JStr ''ok'' \<and> (\<exists>k. scenario_sort_key r = Inr k)" if r: "r \<in> set (map snd by2)" for r
  proof -
    obtain sid where "(sid, r) \<in> set by2" using r by auto
    then have "map_of by2 sid = Some r" using d2 by simp
    then obtain r1 where "map_of by_id' sid = Some r1" "same_view r1 r" using view by blast
    then show ?thesis using ok [of sid r1] by (simp add: same_view_def)
  qed
  have "\<forall>r \<in> set (map snd by2). \<exists>k. scenario_sort_key r = Inr k" by (intro ballI) (rule conjunct2 [OF ok2])
  from sorted_scenarios_total [OF this] obtain rows2 where rows2: "sorted_scenarios by2 = Inr rows2" ..
  have "set rows2 = set (map snd by2)" using sorted_scenarios_facts(1) [OF rows2] by (metis set_mset_mset)
  then have code2: "exit_code rows2 = 0" unfolding exit_code_zero using ok2 by blast
  have "existing_scenario_is_ok by2 (scenario_id ?R s c) = Inr True"
    if "s \<in> set (selected_shapes st args)" "c \<in> set cs" for s c
  proof (rule second_run_measured [OF ev assms(3) l c cs second])
    show "accounted ?R cs (skip_existing st args) by_id' (scenario_id ?R s c)" using p that by (auto simp: progress_def)
    show "CHR ''/'' \<notin> set (scenario_id ?R s c)" by (rule scenario_id_no_slash)
    show "\<forall>r. map_of by_id' (scenario_id ?R s c) = Some r \<longrightarrow> get_or r ''status'' JNull = JStr ''ok''" using ok by blast
  qed
  moreover have "scenario_id ?R' = scenario_id ?R" by (simp add: scenario_id_def fun_eq_iff)
  ultimately have measured: "\<forall>s \<in> set (selected_shapes st args'). \<forall>c \<in> set cs. existing_scenario_is_ok by2 (scenario_id ?R' s c) = Inr True"
    by (simp add: assms(5) selected_shapes_def)
  have b2: "begins ?S' st args' w1 ds cs loaded' by2" by (rule begins_again [OF b assms(5,6)]) (use second in simp_all)
  have same: "run_dir_of ?S' args' = ?dir" "skip_existing st args'" by (simp_all add: run_dir_of_def skip_existing_def assms(4,5))
  have "\<exists>wb. shapes_of_run ?S' st args' ds cs (now_stamp ?S' w1) by2 w1 = (Inr by2, wb) \<and> outside wb = outside w1
      \<and> (\<forall>sid. on_disk ?dir wb sid = on_disk ?dir w1 sid)"
    using run_shapes_nothing [OF measured rows2, of args' ?dir] same by (simp add: shapes_of_run_def)
  then obtain wb where wb: "shapes_of_run ?S' st args' ds cs (now_stamp ?S' w1) by2 w1 = (Inr by2, wb)" "outside wb = outside w1"
    "\<forall>sid. on_disk ?dir wb sid = on_disk ?dir w1 sid"
    by blast
  obtain w2 where w2: "result_of_run ?S' st args' ds cs (now_stamp ?S' w1) by2 wb = (Inr rows2, w2)"
    using rows2 write_result_returns unfolding result_of_run_def by blast
  then have "outside w2 = outside wb"
    unfolding result_of_run_def write_result_def by (auto simp: io_simps) (metis snd_conv write_json_outside)
  moreover have "on_disk ?dir w2 sid = on_disk ?dir wb sid" for sid
    using on_disk_untouched [OF result_of_run_untouched [of ?S' args' "{}"] w2, of sid] same(1) by simp
  moreover have "evaluate_main ?S' st args' w1 = (Inr 0, w2)"
    unfolding evaluate_main_begun [OF b2] using wb(1) w2 code2 by (simp add: bind_io_def ret_def)
  ultimately show ?thesis using wb(2,3) by auto
qed

lemma resume_launches_nothing_witness:
  "\<exists>w2. evaluate_main (demo_system\<lparr>launch := \<lambda>_ _ w. ((1, []), w\<lparr>outside := 7\<rparr>)\<rparr>) demo_settings
       (demo_eval_args\<lparr>ev_rerun := False, ev_skip_profile := True\<rparr>)
       (snd (evaluate_main demo_system demo_settings demo_eval_args demo_measured)) = (Inr 0, w2)"
proof -
  obtain w1 where run: "evaluate_main demo_system demo_settings demo_eval_args demo_measured = (Inr 0, w1)"
    and curves: "list_all (nonempty_file w1) (map fst (files demo_measured))"
    using demo_evaluation by (auto split: prod.splits)
  have "nonempty_file w1 p" if "nonempty_file demo_measured p" for p
    using curves that by (force simp: list_all_iff nonempty_file_def map_of_eq_None_iff)
  moreover have "skip_ok demo_settings" by (simp add: demo_settings_def)
  ultimately show ?thesis
    using resume_launches_nothing [OF run _ _ _ refl, of "\<lambda>_ _ w. ((1, []), w\<lparr>outside := 7\<rparr>)" True] demo_spares demo_well_named
    unfolding demo_dir run snd_conv by blast
qed

end
