(* ===== verification/VerifySignals.thy ===== *)
theory VerifySignals
  imports Segments Tiling
begin

text \<open>
  \<open>tool/verify_signal_tile_counts.py\<close>: launches the signalling GEMM without communication and judges the counters it
  left in the monitor matrix. The kernel and the table of tile shapes are parameters; the random operands, which
  nothing reads back, appear as their dimensions only, and printing is left out.
\<close>

section \<open>The checker\<close>

definition expected_coop_tma_subtiles :: "int \<Rightarrow> int \<Rightarrow> int res" where
  "expected_coop_tma_subtiles tile_m tile_n =
     (let epi_m = min 128 tile_m; epi_n = gcd (min 32 tile_n) tile_n
      in bind_res (py_div tile_m epi_m) (\<lambda>a. bind_res (py_div tile_n epi_n) (\<lambda>b. Inr (a * b))))"

record signal_counts =
  segment_ready_total :: int
  tile_done_sum :: int
  nonzero_tiles :: int
  complete_tiles :: int
  exact_tiles :: int
  over_tiles :: int
  tile_done_min :: int
  tile_done_max :: int
  seg_min :: int
  seg_max :: int

definition count_signals :: "nat \<Rightarrow> nat \<Rightarrow> int \<Rightarrow> int list \<Rightarrow> signal_counts" where
  "count_signals segs tile_num expected_arrivals mm =
     (let seg_counts = take segs mm; tile_done = slice segs (segs + tile_num) mm;
          how_many = (\<lambda>P. int (length (filter P tile_done)))
      in \<lparr>segment_ready_total = sum_list seg_counts, tile_done_sum = sum_list tile_done,
          nonzero_tiles = how_many (\<lambda>d. 0 < d), complete_tiles = how_many (\<lambda>d. expected_arrivals \<le> d),
          exact_tiles = how_many (\<lambda>d. d = expected_arrivals), over_tiles = how_many (\<lambda>d. expected_arrivals < d),
          tile_done_min = (if tile_num \<noteq> 0 then Min (set tile_done) else 0),
          tile_done_max = (if tile_num \<noteq> 0 then Max (set tile_done) else 0),
          seg_min = (if segs \<noteq> 0 then Min (set seg_counts) else 0),
          seg_max = (if segs \<noteq> 0 then Max (set seg_counts) else 0)\<rparr>)"

definition counts_ok :: "int \<Rightarrow> int \<Rightarrow> signal_counts \<Rightarrow> bool" where
  "counts_ok tile_num expected_arrivals s \<longleftrightarrow>
     segment_ready_total s = tile_num \<and> complete_tiles s = tile_num
     \<and> tile_done_sum s = tile_num * expected_arrivals \<and> over_tiles s = 0"

text \<open>A launch: the reorder map, the segment thresholds, rLDN, algorithm, monitoring and the zeroed matrix; the
  state of the device passes through.\<close>

type_synonym 'g kernel = "int list \<Rightarrow> int list \<Rightarrow> int \<Rightarrow> int \<Rightarrow> bool \<Rightarrow> int list \<Rightarrow> 'g \<Rightarrow> int list \<times> 'g"

definition run_once ::
  "'g kernel \<Rightarrow> int list \<Rightarrow> int \<Rightarrow> int \<Rightarrow> int \<Rightarrow> int \<Rightarrow> bool \<Rightarrow> 'g \<Rightarrow> signal_counts \<times> 'g" where
  "run_once gemm cseg tile_num expected_arrivals rldn algo monitor g =
     (let (mm, g') = gemm (py_range tile_num) cseg rldn algo monitor
                       (replicate (monitor_size (nat tile_num) (length cseg) monitor) 0) g
      in (count_signals (length cseg) (nat tile_num) expected_arrivals mm, g'))"

fun repeated :: "nat \<Rightarrow> ('g \<Rightarrow> 'x \<times> 'g) \<Rightarrow> 'g \<Rightarrow> 'x list \<times> 'g" where
  "repeated 0 f g = ([], g)"
| "repeated (Suc n) f g = (let (x, g1) = f g; (xs, g2) = repeated n f g1 in (x # xs, g2))"

record signal_args =
  sg_m :: int
  sg_n :: int
  sg_k :: int
  sg_algo :: int
  sg_iters :: int
  sg_warmup :: int
  sg_segments :: int
  sg_rldn :: int
  sg_monitor :: bool
  sg_expected :: int

text \<open>The shape of a run: tile count, expected arrivals and segments.\<close>

definition verify_setup :: "(int \<Rightarrow> (int \<times> int) res) \<Rightarrow> signal_args \<Rightarrow> (int \<times> int \<times> int list) res" where
  "verify_setup algo_info args =
     bind_res (algo_info (sg_algo args)) (\<lambda>(BM, BN).
     bind_res (py_mod (sg_m args) BM) (\<lambda>a.
     bind_res (if a \<noteq> 0 then Inr a else py_mod (sg_n args) BN) (\<lambda>b.
     bind_res (require (b = 0) (ValueError ''M/N must be divisible by algo tile shape'')) (\<lambda>_.
     bind_res (py_div (sg_m args) BM) (\<lambda>tile_rows.
     bind_res (py_div (sg_n args) BN) (\<lambda>tile_cols.
     let tile_num = tile_rows * tile_cols
     in bind_res (if 0 < sg_expected args then Inr (sg_expected args) else expected_coop_tma_subtiles BM BN) (\<lambda>expected_arrivals.
        bind_res (div_up tile_num (sg_rldn args)) (\<lambda>packed_tiles.
        bind_res (make_segments tile_num (sg_segments args)) (\<lambda>cseg.
        bind_res (require (list_all (\<lambda>d. 0 \<le> d) [sg_m args, sg_n args, sg_k args, packed_tiles * BM, sg_rldn args * BN])
                   (RuntimeError ''negative dimension'')) (\<lambda>_.
        Inr (tile_num, expected_arrivals, cseg)))))))))))"

text \<open>The judged iterations and \<open>ok_all\<close>; the program exits with 1 if the latter is false.\<close>

definition verify_main ::
  "(int \<Rightarrow> (int \<times> int) res) \<Rightarrow> 'g kernel \<Rightarrow> signal_args \<Rightarrow> 'g \<Rightarrow> ((signal_counts \<times> bool) list \<times> bool) res" where
  "verify_main algo_info gemm args g =
     bind_res (verify_setup algo_info args) (\<lambda>(tile_num, expected_arrivals, cseg).
     let run = run_once gemm cseg tile_num expected_arrivals (sg_rldn args) (sg_algo args) (sg_monitor args);
         g1 = snd (repeated (nat (sg_warmup args)) run g);
         rows = map (\<lambda>s. (s, counts_ok tile_num expected_arrivals s)) (fst (repeated (nat (sg_iters args)) run g1))
     in Inr (rows, list_all snd rows))"

section \<open>The verdict\<close>

lemma filter_all_length: "int (length (filter P xs)) = int (length xs) \<longleftrightarrow> (\<forall>x \<in> set xs. P x)"
proof
  assume "int (length (filter P xs)) = int (length xs)"
  then show "\<forall>x \<in> set xs. P x" using length_filter_less [of _ xs P] by fastforce
qed (simp add: filter_True)

text \<open>Complete and not over is exact, so the sum that is also tested follows.\<close>

lemma counts_ok_iff:
  assumes "segs + tile_num \<le> length mm"
  shows "counts_ok (int tile_num) e (count_signals segs tile_num e mm) \<longleftrightarrow>
     sum_list (take segs mm) = int tile_num \<and> (\<forall>t < tile_num. mm ! (segs + t) = e)"
proof -
  define ds where "ds = slice segs (segs + tile_num) mm"
  have len: "length ds = tile_num" using assms by (simp add: ds_def)
  have nth: "ds ! t = mm ! (segs + t)" if "t < tile_num" for t using that assms by (simp add: ds_def)
  have "counts_ok (int tile_num) e (count_signals segs tile_num e mm) \<longleftrightarrow>
      sum_list (take segs mm) = int tile_num \<and> (\<forall>d \<in> set ds. e \<le> d) \<and> sum_list ds = int tile_num * e \<and> (\<forall>d \<in> set ds. \<not> e < d)"
    using filter_all_length [of "\<lambda>d. e \<le> d" ds] len
    by (auto simp: counts_ok_def count_signals_def Let_def ds_def [symmetric] filter_empty_conv)
  also have "\<dots> \<longleftrightarrow> sum_list (take segs mm) = int tile_num \<and> (\<forall>d \<in> set ds. d = e)"
  proof -
    have "sum_list ds = int tile_num * e" if "\<forall>d \<in> set ds. d = e"
    proof -
      have "ds = replicate tile_num e" using that len by (simp add: list_eq_iff_nth_eq)
      then show ?thesis by (simp add: sum_list_replicate)
    qed
    moreover have "(\<forall>d \<in> set ds. e \<le> d) \<and> (\<forall>d \<in> set ds. \<not> e < d) \<longleftrightarrow> (\<forall>d \<in> set ds. d = e)" by (auto simp: order_eq_iff not_less)
    ultimately show ?thesis by blast
  qed
  also have "(\<forall>d \<in> set ds. d = e) \<longleftrightarrow> (\<forall>t < tile_num. mm ! (segs + t) = e)"
    using len nth by (auto simp: all_set_conv_all_nth)
  finally show ?thesis .
qed

text \<open>The device before the \<open>i\<close>-th judged launch, and the matrix that launch leaves.\<close>

definition device_at :: "('g \<Rightarrow> 'x \<times> 'g) \<Rightarrow> nat \<Rightarrow> 'g \<Rightarrow> 'g" where
  "device_at f i g = ((\<lambda>g. snd (f g)) ^^ i) g"

lemma repeated_eq:
  "repeated n f g = (map (\<lambda>i. fst (f (device_at f i g))) [0..<n], device_at f n g)"
proof (induction n arbitrary: g)
  case (Suc n)
  have "map (\<lambda>i. fst (f (device_at f i g))) [0..<Suc n]
      = fst (f g) # map (\<lambda>i. fst (f (device_at f i (snd (f g))))) [0..<n]"
    by (simp only: upt_conv_Cons map_Suc_upt [symmetric] zero_less_Suc list.map list.map_comp)
      (simp add: device_at_def funpow_Suc_right comp_def del: upt_Suc funpow.simps(2))
  then show ?case using Suc [of "snd (f g)"]
    by (simp add: case_prod_unfold Let_def device_at_def funpow_Suc_right del: upt_Suc funpow.simps(2))
qed (simp add: device_at_def)

definition judged ::
  "'g kernel \<Rightarrow> signal_args \<Rightarrow> int list \<Rightarrow> int \<Rightarrow> 'g \<Rightarrow> int list" where
  "judged gemm args cseg tile_num g =
     fst (gemm (py_range tile_num) cseg (sg_rldn args) (sg_algo args) (sg_monitor args)
            (replicate (monitor_size (nat tile_num) (length cseg) (sg_monitor args)) 0) g)"

lemma run_once_eq:
  "run_once gemm cseg tile_num e (sg_rldn args) (sg_algo args) (sg_monitor args) g =
     (count_signals (length cseg) (nat tile_num) e (judged gemm args cseg tile_num g),
      snd (gemm (py_range tile_num) cseg (sg_rldn args) (sg_algo args) (sg_monitor args)
             (replicate (monitor_size (nat tile_num) (length cseg) (sg_monitor args)) 0) g))"
  by (simp add: run_once_def judged_def case_prod_unfold Let_def)

text \<open>The device after \<open>n\<close> launches.\<close>

definition launched :: "'g kernel \<Rightarrow> signal_args \<Rightarrow> int list \<Rightarrow> int \<Rightarrow> nat \<Rightarrow> 'g \<Rightarrow> 'g" where
  "launched gemm args cseg tile_num n g =
     ((\<lambda>d. snd (gemm (py_range tile_num) cseg (sg_rldn args) (sg_algo args) (sg_monitor args)
        (replicate (monitor_size (nat tile_num) (length cseg) (sg_monitor args)) 0) d)) ^^ n) g"

lemma device_at_launched:
  "device_at (run_once gemm cseg tile_num e (sg_rldn args) (sg_algo args) (sg_monitor args)) i
     (device_at (run_once gemm cseg tile_num e (sg_rldn args) (sg_algo args) (sg_monitor args)) w g)
   = launched gemm args cseg tile_num (w + i) g"
  unfolding device_at_def launched_def run_once_eq snd_conv
  by (simp only: funpow_add comp_apply add.commute [of w])

text \<open>The thresholds add up to the number of tiles.\<close>

definition positive_tiles :: "(int \<Rightarrow> (int \<times> int) res) \<Rightarrow> bool" where
  "positive_tiles algo_info \<longleftrightarrow> (\<forall>a BM BN. algo_info a = Inr (BM, BN) \<longrightarrow> 0 < BM \<and> 0 < BN)"

lemma setup_segments:
  assumes "verify_setup algo_info args = Inr (tile_num, e, cseg)" and "positive_tiles algo_info"
  shows "sum_list cseg = tile_num" and "0 \<le> tile_num"
proof -
  obtain BM BN r c n where s: "algo_info (sg_algo args) = Inr (BM, BN)" "py_div (sg_m args) BM = Inr r" "py_div (sg_n args) BN = Inr c"
    "tile_num = r * c" "0 \<le> sg_m args" "0 \<le> sg_n args" and n: "make_segments tile_num n = Inr cseg"
    using assms(1) by (auto simp: verify_setup_def Let_def elim!: bind_resE split: prod.splits)
  have b: "0 < BM" "0 < BN" "tile_num = (sg_m args div BM) * (sg_n args div BN)" "0 \<le> sg_m args" "0 \<le> sg_n args"
    using s assms(2) by (auto simp: positive_tiles_def py_div_def split: if_splits)
  show "0 \<le> tile_num" using b by (simp add: pos_imp_zdiv_nonneg_iff)
  then have "0 < tile_num" "0 < n"
    using n by (auto simp: make_segments_def Let_def py_div_def elim!: bind_resE split: if_splits)
  then show "sum_list cseg = tile_num" using n balanced.segs_sum [of "(tile_num, n)" cseg] by simp
qed

section \<open>Property\<close>

text \<open>C30: The checker's verdict is exact about the tiles. When a run returns on a device whose kernel leaves the matrix its
  size and whose algorithms have positive tiles, the \<open>i\<close>-th judged launch, after the warm-up and the launches before it, passes if and only if every tile of the result was signalled exactly the expected
  number of times and the segment counters add up to the number of tiles, and the run passes if all its launches do; warm-up launches
  do not count. In particular a device that signals every tile as expected and raises every segment counter to its
  threshold passes; how the signals are distributed over the segments is not judged.\<close>
theorem verdict_exact:
  assumes "verify_main algo_info gemm args g = Inr (rows, ok)" and "positive_tiles algo_info"
    and "\<And>RA thr rldn algo mon MM d. length (fst (gemm RA thr rldn algo mon MM d)) = length MM"
  shows "\<exists>tile_num e cseg. verify_setup algo_info args = Inr (tile_num, e, cseg)
     \<and> length rows = nat (sg_iters args)
     \<and> (\<forall>i < length rows. snd (rows ! i) \<longleftrightarrow>
          (let mm = judged gemm args cseg tile_num (launched gemm args cseg tile_num (nat (sg_warmup args) + i) g)
           in sum_list (take (length cseg) mm) = tile_num \<and> (\<forall>t < nat tile_num. mm ! (length cseg + t) = e)))
     \<and> (ok \<longleftrightarrow> (\<forall>i < length rows. snd (rows ! i)))
     \<and> ((\<forall>d. judged gemm args cseg tile_num d = cseg @ replicate (nat tile_num) e) \<longrightarrow> ok)"
proof -
  obtain tile_num e cseg where start: "verify_setup algo_info args = Inr (tile_num, e, cseg)"
    using assms(1) by (auto simp: verify_main_def elim!: bind_resE)
  note sums = setup_segments(1) [OF start assms(2)] and tn = setup_segments(2) [OF start assms(2)]
  let ?run = "run_once gemm cseg tile_num e (sg_rldn args) (sg_algo args) (sg_monitor args)"
  let ?st = "\<lambda>i. device_at ?run i (device_at ?run (nat (sg_warmup args)) g)"
  define judgement where "judgement = map (\<lambda>i. (fst (?run (?st i)), counts_ok tile_num e (fst (?run (?st i))))) [0..<nat (sg_iters args)]"
  have "verify_main algo_info gemm args g = Inr (judgement, list_all snd judgement)"
    by (simp add: verify_main_def start repeated_eq Let_def comp_def judgement_def)
  then have ok: "ok = list_all snd rows" and rows: "rows = judgement" using assms(1) by auto
  note rows = rows [unfolded judgement_def]
  have each: "counts_ok tile_num e (fst (?run d)) \<longleftrightarrow>
      sum_list (take (length cseg) (judged gemm args cseg tile_num d)) = tile_num
      \<and> (\<forall>t < nat tile_num. judged gemm args cseg tile_num d ! (length cseg + t) = e)" for d
    using counts_ok_iff [of "length cseg" "nat tile_num" "judged gemm args cseg tile_num d" e] tn
    by (simp add: run_once_eq judged_def assms(3) monitor_size_def)
  have "ok \<longleftrightarrow> (\<forall>i < length rows. snd (rows ! i))" by (simp add: ok list_all_length)
  moreover have "ok" if "\<forall>d. judged gemm args cseg tile_num d = cseg @ replicate (nat tile_num) e"
    using sums that each by (simp add: ok rows list_all_iff)
  ultimately show ?thesis
    using start each by (intro exI [of _ tile_num] exI [of _ e] exI [of _ cseg]) (simp add: rows Let_def device_at_launched)
qed

definition exact_kernel :: "int \<Rightarrow> nat kernel" where
  "exact_kernel e RA thr rldn algo mon MM g =
     (if length thr + length RA \<le> length MM then thr @ replicate (length RA) e @ drop (length thr + length RA) MM else MM, Suc g)"

lemma verdict_exact_witness:
  "\<exists>rows. verify_main (\<lambda>_. Inr (128, 128)) (exact_kernel 4)
      \<lparr>sg_m = 256, sg_n = 256, sg_k = 64, sg_algo = 0, sg_iters = 2, sg_warmup = 1, sg_segments = 3, sg_rldn = 1,
       sg_monitor = False, sg_expected = 0\<rparr> 0 = Inr (rows, True) \<and> length rows = 2"
proof -
  let ?args = "\<lparr>sg_m = 256, sg_n = 256, sg_k = 64, sg_algo = 0, sg_iters = 2, sg_warmup = 1, sg_segments = 3, sg_rldn = 1,
       sg_monitor = False, sg_expected = 0\<rparr>"
  have start: "verify_setup (\<lambda>_. Inr (128, 128)) ?args = Inr (4, 4, [2, 1, 1])" by code_simp
  obtain rows ok where run: "verify_main (\<lambda>_. Inr (128, 128)) (exact_kernel 4) ?args 0 = Inr (rows, ok)"
    by (simp add: verify_main_def start Let_def)
  have "positive_tiles (\<lambda>_. Inr (128, 128))" by (simp add: positive_tiles_def)
  moreover have "length (fst (exact_kernel 4 RA thr rldn algo mon MM d)) = length MM" for RA thr rldn algo mon MM d
    by (simp add: exact_kernel_def)
  moreover have "\<forall>d. judged (exact_kernel 4) ?args [2, 1, 1] 4 d = [2, 1, 1] @ replicate (nat 4) 4"
    by (simp add: judged_def exact_kernel_def monitor_size_def)
  ultimately have "ok" "length rows = 2" using verdict_exact [OF run] start by auto
  then show ?thesis using run by simp
qed

end
