(* ===== verification/SmUsage.thy ===== *)
theory SmUsage
  imports PyStr
begin

text \<open>
  \<open>tool/nsys_sm_usage.py\<close>: the median share of active SMs of each GPU in a profile, and its average over the GPUs. The
  profile is the two tables that the query joins; the floats are reals. Argument parsing and printing are left out: the
  result is the printed rows and the average.
\<close>

section \<open>The tables and the query\<close>

record gpu_metric =
  gm_type :: int
  gm_metric :: int
  gm_timestamp :: int
  gm_value :: real

record metric_info =
  mi_type :: int
  mi_metric :: int
  mi_name :: string

text \<open>\<open>LIKE 'SMs Active%'\<close> ignores the case of letters.\<close>

definition like_sms_active :: "string \<Rightarrow> bool" where
  "like_sms_active name \<longleftrightarrow> prefix (py_lower ''SMs Active'') (py_lower name)"

text \<open>The rows of the join with \<open>typeId & 255\<close>, by GPU and time.\<close>

definition joined :: "gpu_metric list \<Rightarrow> metric_info list \<Rightarrow> (int \<times> int \<times> real) list" where
  "joined metrics infos =
     concat (map (\<lambda>g. map (\<lambda>m. (gm_type g mod 256, gm_timestamp g, gm_value g))
       (filter (\<lambda>m. gm_type g = mi_type m \<and> gm_metric g = mi_metric m \<and> like_sms_active (mi_name m)) infos)) metrics)"

definition sm_query :: "gpu_metric list \<Rightarrow> metric_info list \<Rightarrow> (int \<times> real) list" where
  "sm_query metrics infos =
     map (\<lambda>(gpu, _, v). (gpu, v)) (sort_key fst (sort_key (\<lambda>(_, t, _). t) (joined metrics infos)))"

section \<open>Usage\<close>

definition add_sample :: "(int \<times> real list) list \<Rightarrow> int \<times> real \<Rightarrow> (int \<times> real list) list" where
  "add_sample samples row =
     AList.update (fst row) ((case map_of samples (fst row) of None \<Rightarrow> [] | Some vs \<Rightarrow> vs) @ [snd row]) samples"

text \<open>\<open>statistics.median\<close>: the middle value, or the mean of the two middle ones.\<close>

definition stat_median :: "real list \<Rightarrow> real" where
  "stat_median xs =
     (let s = sort xs; n = length s
      in if n mod 2 = 1 then s ! (n div 2) else (s ! (n div 2 - 1) + s ! (n div 2)) / 2)"

definition usage_row :: "int \<Rightarrow> int \<times> real list \<Rightarrow> (int \<times> int \<times> real \<times> real) res" where
  "usage_row sms gv =
     (let active_values = filter (\<lambda>v. 0 < v) (snd gv)
      in bind_res (require (active_values \<noteq> []) (ExternalError ''SystemExit'')) (\<lambda>_.
         let median_percent = stat_median active_values
         in Inr (fst gv, int (length active_values), median_percent, median_percent * of_int sms / 100)))"

text \<open>The printed rows and \<open>average_median_sms\<close>; the file, if there is one, is its two tables.\<close>

definition sm_usage_main ::
  "int \<Rightarrow> (gpu_metric list \<times> metric_info list) option \<Rightarrow> ((int \<times> int \<times> real \<times> real) list \<times> real) res" where
  "sm_usage_main sms file =
     bind_res (require (0 < sms) (ExternalError ''SystemExit'')) (\<lambda>_.
     bind_res (case file of None \<Rightarrow> Inl (ExternalError ''SystemExit'') | Some f \<Rightarrow> Inr f) (\<lambda>(metrics, infos).
     let samples = foldl add_sample [] (sm_query metrics infos)
     in bind_res (require (samples \<noteq> []) (ExternalError ''SystemExit'')) (\<lambda>_.
        bind_res (map_res (usage_row sms) (sort_key fst samples)) (\<lambda>rows.
        Inr (rows, sum_list (map (\<lambda>(_, _, _, s). s) rows) / of_nat (length rows))))))"

section \<open>Samples\<close>

lemma map_of_add_sample:
  "map_of (add_sample samples r) gpu =
     (if fst r = gpu then Some ((case map_of samples gpu of None \<Rightarrow> [] | Some vs \<Rightarrow> vs) @ [snd r]) else map_of samples gpu)"
  by (simp add: add_sample_def update_conv')

lemma map_of_samples:
  "map_of (foldl add_sample samples rows) gpu =
     (if map_of samples gpu = None \<and> gpu \<notin> fst ` set rows then None
      else Some ((case map_of samples gpu of None \<Rightarrow> [] | Some vs \<Rightarrow> vs) @ map snd (filter (\<lambda>r. fst r = gpu) rows)))"
proof (induction rows arbitrary: samples)
  case (Cons r rows)
  show ?case by (cases "fst r = gpu") (simp_all add: Cons.IH map_of_add_sample)
qed (simp split: option.splits)

lemma distinct_samples: "distinct (map fst samples) \<Longrightarrow> distinct (map fst (foldl add_sample samples rows))"
  by (induction rows arbitrary: samples) (simp_all add: add_sample_def distinct_update)

lemma stat_median_perm:
  assumes "mset xs = mset ys"
  shows "stat_median xs = stat_median ys"
proof -
  have "sort xs = sort ys" using assms by (metis properties_for_sort sorted_sort mset_sort)
  then show ?thesis by (simp add: stat_median_def)
qed

lemma stat_median_between:
  assumes "xs \<noteq> []" and "\<forall>x \<in> set xs. a \<le> x \<and> x \<le> b"
  shows "a \<le> stat_median xs \<and> stat_median xs \<le> b"
proof -
  define s where "s = sort xs"
  have s: "length s = length xs" "set s = set xs" by (simp_all add: s_def)
  have elem: "a \<le> s ! i \<and> s ! i \<le> b" if "i < length s" for i
    using nth_mem [OF that] assms(2) s(2) by auto
  have n: "0 < length s" using assms(1) s(1) by simp
  show ?thesis
  proof (cases "length s mod 2 = 1")
    case True
    then show ?thesis using elem [of "length s div 2"] n by (simp add: stat_median_def s_def [symmetric] Let_def)
  next
    case False
    have "length s div 2 - 1 < length s" "length s div 2 < length s" using n by linarith+
    from elem [OF this(1)] elem [OF this(2)] show ?thesis
      using False by (simp add: stat_median_def s_def [symmetric] Let_def)
  qed
qed

section \<open>Order\<close>

definition values_of :: "(int \<times> real) list \<Rightarrow> int \<Rightarrow> real list" where
  "values_of rows gpu = map snd (filter (\<lambda>r. fst r = gpu) rows)"

lemma sorted_samples:
  "sort_key fst (foldl add_sample [] rows) = map (\<lambda>gpu. (gpu, values_of rows gpu)) (sorted_list_of_set (fst ` set rows))"
proof -
  let ?s = "foldl add_sample [] rows" and ?t = "sort_key fst (foldl add_sample [] rows)"
  have d: "distinct (map fst ?s)" by (rule distinct_samples) simp
  have keys: "set (map fst ?s) = fst ` set rows"
  proof -
    have "gpu \<in> set (map fst ?s) \<longleftrightarrow> gpu \<in> fst ` set rows" for gpu
      using map_of_samples [of "[]" rows gpu] by (simp add: map_of_eq_None_iff split: if_splits) (metis map_of_eq_None_iff option.distinct(1) set_map)
    then show ?thesis by blast
  qed
  have "mset (map fst ?t) = mset (map fst ?s)" by (metis mset_map mset_sort)
  then have "distinct (map fst ?t)" "set (map fst ?t) = fst ` set rows"
    using d keys by (metis mset_eq_imp_distinct_iff, metis mset_eq_setD)
  then have fsts: "map fst ?t = sorted_list_of_set (fst ` set rows)"
    by (intro sorted_distinct_set_unique) simp_all
  have "p = (fst p, values_of rows (fst p))" if "p \<in> set ?t" for p
  proof -
    have "map_of ?s (fst p) = Some (snd p)" using that d by simp
    then show ?thesis using map_of_samples [of "[]" rows "fst p"] by (simp add: values_of_def prod_eq_iff split: if_splits)
  qed
  then have "map (\<lambda>p. (fst p, values_of rows (fst p))) ?t = ?t" by (intro map_idI) simp
  then have "?t = map (\<lambda>p. (fst p, values_of rows (fst p))) ?t" ..
  also have "\<dots> = map (\<lambda>gpu. (gpu, values_of rows gpu)) (map fst ?t)" by simp
  finally show ?thesis unfolding fsts .
qed

lemma usage_row_perm:
  assumes "mset vs = mset ws"
  shows "usage_row sms (gpu, vs) = usage_row sms (gpu, ws)"
proof -
  have m: "mset (filter (\<lambda>v. 0 < v) vs) = mset (filter (\<lambda>v. 0 < v) ws)" using assms by simp
  have "length (filter (\<lambda>v. 0 < v) vs) = length (filter (\<lambda>v. 0 < v) ws)" using mset_eq_length [OF m] .
  moreover from this have "(filter (\<lambda>v. 0 < v) vs = []) = (filter (\<lambda>v. 0 < v) ws = [])" by (metis length_0_conv)
  ultimately show ?thesis using stat_median_perm [OF m] by (simp add: usage_row_def Let_def)
qed

lemma mset_concat_map: "mset (concat (map f xs)) = sum_mset (image_mset (\<lambda>x. mset (f x)) (mset xs))"
  by (induction xs) simp_all

lemma query_perm:
  assumes "mset metrics' = mset metrics"
  shows "mset (sm_query metrics' infos) = mset (sm_query metrics infos)"
proof -
  have "mset (joined metrics' infos) = mset (joined metrics infos)"
    unfolding joined_def mset_concat_map assms ..
  then show ?thesis by (simp add: sm_query_def)
qed

lemma map_res_map: "map_res f (map g xs) = map_res (\<lambda>x. f (g x)) xs"
  by (induction xs) simp_all

lemma usage_of_query:
  "map_res (usage_row sms) (sort_key fst (foldl add_sample [] rows)) =
     map_res (\<lambda>gpu. usage_row sms (gpu, values_of rows gpu)) (sorted_list_of_set (fst ` set rows))"
  unfolding sorted_samples map_res_map ..

lemma samples_nonempty: "foldl add_sample [] rows = [] \<longleftrightarrow> rows = []"
proof (cases rows)
  case (Cons r rs)
  have "map_of (foldl add_sample [] rows) (fst r) \<noteq> None" using map_of_samples [of "[]" rows "fst r"] Cons by simp
  then show ?thesis using Cons by auto
qed simp

lemma usage_row_bounds:
  assumes "usage_row sms (g, vs) = Inr (gpu, n, percent, used)" and "0 < sms" and "\<forall>v \<in> set vs. v \<le> 100"
  shows "0 < n \<and> 0 < percent \<and> percent \<le> 100 \<and> 0 < used \<and> used \<le> of_int sms"
proof -
  let ?vs = "filter (\<lambda>v. 0 < v) vs"
  have r: "?vs \<noteq> []" "n = int (length ?vs)" "percent = stat_median ?vs" "used = percent * of_int sms / 100"
    using assms(1) by (auto simp: usage_row_def Let_def elim!: bind_resE)
  have v: "\<forall>x \<in> set ?vs. Min (set ?vs) \<le> x \<and> x \<le> 100" using assms(3) by simp
  have "0 < Min (set ?vs)" using r(1) by (subst Min_gr_iff) (auto simp: filter_empty_conv)
  with stat_median_between [OF r(1) v] have p: "0 < percent" "percent \<le> 100" by (simp_all add: r(3))
  have "percent * of_int sms \<le> 100 * of_int sms" using p assms(2) by (intro mult_right_mono) simp_all
  then have "used \<le> of_int sms" by (simp add: r(4))
  moreover have "0 < used" using p assms(2) by (simp add: r(4))
  moreover have "0 < n" using r(1) unfolding r(2) by (simp add: length_greater_0_conv)
  ultimately show ?thesis using p by blast
qed

lemma usage_sum_bounds:
  fixes rows :: "(int \<times> int \<times> real \<times> real) list"
  assumes "rows \<noteq> []" and "\<And>gpu n percent used. (gpu, n, percent, used) \<in> set rows \<Longrightarrow> 0 < used \<and> used \<le> of_int sms"
  shows "0 < sum_list (map (\<lambda>(_, _, _, s). s) rows) \<and> sum_list (map (\<lambda>(_, _, _, s). s) rows) \<le> of_nat (length rows) * of_int sms"
  using assms
proof (induction rows)
  case (Cons r rows)
  obtain g n p u where r: "r = (g, n, p, u)" by (metis surj_pair)
  have u: "0 < u \<and> u \<le> of_int sms" using Cons.prems(2) r by auto
  show ?case
  proof (cases "rows = []")
    case False
    then show ?thesis using Cons.IH Cons.prems(2) u by (force simp: r algebra_simps)
  qed (use u in \<open>simp add: r\<close>)
qed simp

section \<open>Property\<close>

text \<open>C35: The reported usage is a bounded statistic of the samples. When the tool reports, the order in which the profile holds
  its samples does not matter; every GPU appears once, in increasing order, and every median, like the average, is
  positive and, for samples that are percentages, at most the number of SMs.\<close>
theorem sm_usage_bounded:
  assumes "sm_usage_main sms (Some (metrics, infos)) = Inr (rows, avg)" and "\<forall>g \<in> set metrics. gm_value g \<le> 100"
  shows "(\<forall>metrics'. mset metrics' = mset metrics \<longrightarrow> sm_usage_main sms (Some (metrics', infos)) = Inr (rows, avg))
     \<and> sorted_wrt (<) (map fst rows)
     \<and> (\<forall>(gpu, n, percent, used) \<in> set rows. 0 < n \<and> 0 < percent \<and> percent \<le> 100 \<and> 0 < used \<and> used \<le> of_int sms)
     \<and> 0 < avg \<and> avg \<le> of_int sms"
proof -
  let ?q = "sm_query metrics infos"
  have sms: "0 < sms" and ne: "?q \<noteq> []"
    and rows: "map_res (\<lambda>gpu. usage_row sms (gpu, values_of ?q gpu)) (sorted_list_of_set (fst ` set ?q)) = Inr rows"
    and avg: "avg = sum_list (map (\<lambda>(_, _, _, s). s) rows) / of_nat (length rows)"
    using assms(1) by (auto simp: sm_usage_main_def usage_of_query samples_nonempty Let_def elim!: bind_resE)
  have perm: "sm_usage_main sms (Some (metrics', infos)) = Inr (rows, avg)" if m: "mset metrics' = mset metrics" for metrics'
  proof -
    let ?q' = "sm_query metrics' infos"
    note q = query_perm [OF m, of infos]
    have set: "set ?q' = set ?q" using q by (rule mset_eq_setD)
    have "mset (values_of ?q' gpu) = mset (values_of ?q gpu)" for gpu
      using q by (simp add: values_of_def)
    then have "map_res (\<lambda>gpu. usage_row sms (gpu, values_of ?q' gpu)) (sorted_list_of_set (fst ` set ?q')) = Inr rows"
      unfolding set rows [symmetric] by (intro map_res_cong refl usage_row_perm)
    moreover have "?q' \<noteq> []" using ne set by auto
    ultimately show ?thesis
      using sms avg by (simp add: sm_usage_main_def usage_of_query samples_nonempty Let_def)
  qed
  have each: "list_all2 (\<lambda>gpu row. usage_row sms (gpu, values_of ?q gpu) = Inr row) (sorted_list_of_set (fst ` set ?q)) rows"
    using rows by (simp only: map_res_Inr_conv)
  have first: "fst row = gpu" if "usage_row sms (gpu, vs) = Inr row" for gpu vs row
    using that by (auto simp: usage_row_def Let_def bind_res_eq_Inr)
  have fsts: "map fst rows = sorted_list_of_set (fst ` set ?q)"
  proof (rule nth_equalityI)
    show len: "length (map fst rows) = length (sorted_list_of_set (fst ` set ?q))" using list_all2_lengthD [OF each] by simp
    fix i assume i: "i < length (map fst rows)"
    then have "fst (rows ! i) = sorted_list_of_set (fst ` set ?q) ! i"
      using len by (intro first [OF list_all2_nthD [OF each]]) simp
    then show "map fst rows ! i = sorted_list_of_set (fst ` set ?q) ! i" using i by simp
  qed
  have small: "\<forall>v \<in> set (values_of ?q g). v \<le> 100" for g
    using assms(2) by (auto simp: values_of_def sm_query_def joined_def)
  have row: "0 < n \<and> 0 < percent \<and> percent \<le> 100 \<and> 0 < used \<and> used \<le> of_int sms" if mem: "(gpu, n, percent, used) \<in> set rows" for gpu n percent used
  proof -
    obtain i where i: "i < length rows" "rows ! i = (gpu, n, percent, used)" using mem unfolding in_set_conv_nth by blast
    then obtain g where "usage_row sms (g, values_of ?q g) = Inr (gpu, n, percent, used)"
      using list_all2_nthD2 [OF each i(1)] by auto
    from usage_row_bounds [OF this sms small] show ?thesis .
  qed
  have "set (map fst rows) = fst ` set ?q" unfolding fsts by simp
  then have "rows \<noteq> []" using ne by auto
  then have "0 < avg \<and> avg \<le> of_int sms"
    using usage_sum_bounds [of rows sms] row by (auto simp: avg field_simps)
  moreover have "sorted_wrt (<) (map fst rows)" unfolding fsts by simp
  ultimately show ?thesis using perm row by blast
qed

lemma sm_usage_bounded_witness:
  "\<exists>rows. sm_usage_main 132 (Some ([\<lparr>gm_type = 256, gm_metric = 1, gm_timestamp = 0, gm_value = 50\<rparr>,
       \<lparr>gm_type = 256, gm_metric = 1, gm_timestamp = 1, gm_value = 0\<rparr>],
      [\<lparr>mi_type = 256, mi_metric = 1, mi_name = ''SMs Active [%]''\<rparr>])) = Inr (rows, 66) \<and> map fst rows = [0]
     \<and> 0 < (66 :: real) \<and> (66 :: real) \<le> of_int 132"
proof -
  let ?ms = "[\<lparr>gm_type = 256, gm_metric = 1, gm_timestamp = 0, gm_value = 50\<rparr>,
       \<lparr>gm_type = 256, gm_metric = 1, gm_timestamp = 1, gm_value = 0\<rparr>]"
  let ?is = "[\<lparr>mi_type = 256, mi_metric = 1, mi_name = ''SMs Active [%]''\<rparr>]"
  have like: "like_sms_active ''SMs Active [%]''" by code_simp
  have "sm_query ?ms ?is = [(0, 50), (0, 0)]"
    by (simp add: sm_query_def joined_def like)
  then have run: "sm_usage_main 132 (Some (?ms, ?is)) = Inr ([(0, 1, 50, 66)], 66)"
    by (simp add: sm_usage_main_def add_sample_def usage_row_def stat_median_def Let_def)
  have "\<forall>g \<in> set ?ms. gm_value g \<le> 100" by simp
  from sm_usage_bounded [OF run this] run show ?thesis by simp
qed

end
