(* ===== verification/ConfigNames.thy ===== *)
theory ConfigNames
  imports GenConfig Search EvaluateRun
begin

text \<open>
  The files in \<open>configs\<close> through which the profiler, the search and the evaluation talk to each other are named after
  the GPU. The search and the evaluation replace the blanks of the name, the profiler every run of other characters; the
  names agree for exactly the GPUs whose name has nothing to merge.
\<close>

section \<open>Names\<close>

text \<open>\<open>gpu_config_name\<close> and \<open>shape_json_path\<close> of \<open>tool/search.py\<close>, and the output of \<open>tool/gen_config_sm90.py\<close>; all
  are files in \<open>configs\<close>.\<close>

definition gpu_config_name :: "string \<Rightarrow> string" where
  "gpu_config_name name = replace_char CHR '' '' CHR ''_'' (py_lower name)"

definition shape_json_path :: "int \<Rightarrow> int \<Rightarrow> int \<Rightarrow> string \<Rightarrow> string \<Rightarrow> string" where
  "shape_json_path M N K name layout =
     ''m'' @ str_int M @ ''n'' @ str_int N @ ''k'' @ str_int K @ ''_'' @ gpu_config_name name @ ''_'' @ layout @ ''_sm90.json''"

definition profile_slug :: "string \<Rightarrow> string" where
  "profile_slug gpu = strip_underscores (sub_runs False (py_lower gpu))"

definition profile_json_path :: "int \<Rightarrow> int \<Rightarrow> int \<Rightarrow> string \<Rightarrow> string \<Rightarrow> string" where
  "profile_json_path M N K gpu layout =
     ''m'' @ str_int M @ ''n'' @ str_int N @ ''k'' @ str_int K @ ''_'' @ profile_slug gpu @ ''_'' @ layout @ ''_sm90.json''"

section \<open>When they agree\<close>

text \<open>Letters, digits and single underscores between them.\<close>

definition tidy :: "string \<Rightarrow> bool" where
  "tidy s \<longleftrightarrow> (\<forall>c \<in> set s. plain_char c \<or> c = CHR ''_'') \<and> \<not> sublist ''__'' s
     \<and> (s \<noteq> [] \<longrightarrow> hd s \<noteq> CHR ''_'' \<and> last s \<noteq> CHR ''_'')"

lemma plain_not_underscore: "plain_char c \<Longrightarrow> c \<noteq> CHR ''_'' \<and> c \<noteq> CHR '' ''"
  by (auto simp: plain_char_def Let_def)

lemma sub_runs_blank: "sub_runs b (replace_char CHR '' '' CHR ''_'' s) = sub_runs b s"
proof (induction s arbitrary: b)
  case (Cons c s)
  have "\<not> plain_char CHR ''_''" "\<not> plain_char CHR '' ''" using plain_not_underscore by blast+
  then show ?case using Cons by (simp add: replace_char_def)
qed (simp add: replace_char_def)

lemma sub_runs_chars: "c \<in> set (sub_runs b s) \<Longrightarrow> plain_char c \<or> c = CHR ''_''"
  by (induction b s rule: sub_runs.induct) (auto split: if_splits)

lemma sub_runs_single: "\<not> sublist ''__'' (sub_runs b s) \<and> (b \<longrightarrow> sub_runs b s = [] \<or> hd (sub_runs b s) \<noteq> CHR ''_'')"
proof (induction b s rule: sub_runs.induct)
  case (2 inside c cs)
  then show ?case
    using plain_not_underscore [of c] by (cases "sub_runs False cs"; cases "sub_runs True cs") (auto simp: sublist_Cons_right)
qed simp

lemma sub_runs_id:
  "\<forall>c \<in> set s. plain_char c \<or> c = CHR ''_'' \<Longrightarrow> \<not> sublist ''__'' s \<Longrightarrow> (b \<longrightarrow> s = [] \<or> hd s \<noteq> CHR ''_'') \<Longrightarrow> sub_runs b s = s"
proof (induction b s rule: sub_runs.induct)
  case (2 inside c cs)
  show ?case
  proof (cases "plain_char c")
    case True
    then show ?thesis using 2 by (auto simp: sublist_Cons_right)
  next
    case False
    then have c: "c = CHR ''_''" "\<not> inside" using "2.prems" by auto
    have "cs = [] \<or> hd cs \<noteq> CHR ''_''" using "2.prems"(2) c by (cases cs) (auto simp: sublist_Cons_right)
    then show ?thesis using 2 c False by (auto simp: sublist_Cons_right)
  qed
qed simp

lemma strip_id: "s \<noteq> [] \<longrightarrow> hd s \<noteq> CHR ''_'' \<and> last s \<noteq> CHR ''_'' \<Longrightarrow> strip_underscores s = s"
  using dropWhile_eq_self_iff [of "\<lambda>c. c = CHR ''_''" s] dropWhile_eq_self_iff [of "\<lambda>c. c = CHR ''_''" "rev s"]
  by (auto simp: strip_underscores_def hd_rev)

lemma strip_ends: "strip_underscores s \<noteq> [] \<longrightarrow> hd (strip_underscores s) \<noteq> CHR ''_'' \<and> last (strip_underscores s) \<noteq> CHR ''_''"
proof
  define t where "t = dropWhile (\<lambda>c. c = CHR ''_'') s"
  define u where "u = dropWhile (\<lambda>c. c = CHR ''_'') (rev t)"
  assume "strip_underscores s \<noteq> []"
  then have u: "u \<noteq> []" "strip_underscores s = rev u" by (auto simp: strip_underscores_def t_def u_def)
  obtain v where v: "rev t = v @ u" unfolding u_def by (metis takeWhile_dropWhile_id)
  then have "t = rev u @ rev v" by (metis rev_append rev_rev_ident)
  then have "hd (rev u) = hd t" "t \<noteq> []" using u by simp_all
  moreover have "hd t \<noteq> CHR ''_''" using \<open>t \<noteq> []\<close> unfolding t_def by (rule hd_dropWhile)
  moreover have "hd u \<noteq> CHR ''_''" using u(1) unfolding u_def by (rule hd_dropWhile)
  ultimately show "hd (strip_underscores s) \<noteq> CHR ''_'' \<and> last (strip_underscores s) \<noteq> CHR ''_''"
    using u by (simp add: last_rev)
qed

lemma strip_sublist: "sublist (strip_underscores s) s"
  unfolding strip_underscores_def
  by (metis rev_rev_ident sublist_rev suffix_dropWhile suffix_imp_sublist sublist_order.order.trans)

lemma profile_slug_tidy: "tidy (profile_slug gpu)"
proof -
  let ?t = "sub_runs False (py_lower gpu)"
  have s: "sublist (profile_slug gpu) ?t" unfolding profile_slug_def by (rule strip_sublist)
  have "\<not> sublist ''__'' (profile_slug gpu)" using sub_runs_single [of False] s sublist_order.order.trans by blast
  moreover have "plain_char c \<or> c = CHR ''_''" if "c \<in> set (profile_slug gpu)" for c
    using set_mono_sublist [OF s] that sub_runs_chars by blast
  ultimately show ?thesis using strip_ends [of ?t] by (auto simp: tidy_def profile_slug_def)
qed

lemma slugs_agree: "profile_slug name = gpu_config_name name \<longleftrightarrow> tidy (gpu_config_name name)"
proof
  assume "tidy (gpu_config_name name)"
  then have "strip_underscores (sub_runs False (gpu_config_name name)) = gpu_config_name name"
    by (simp add: sub_runs_id strip_id tidy_def)
  then show "profile_slug name = gpu_config_name name"
    by (simp add: profile_slug_def gpu_config_name_def sub_runs_blank)
qed (metis profile_slug_tidy)

section \<open>Property\<close>

text \<open>C28: The tools find each other's files. For a GPU with a name, the evaluation looks for the profile of a shape
  in the file from which the search loads its candidates, and, once it exists, reads the solution from the file that the search writes;
  and that profile is the file the profiler writes if and only if the GPU's name, in lower case and with underscores
  for blanks, consists of letters, digits and single inner underscores.\<close>
theorem config_files_found:
  assumes "gpu_model (sys R) = Some name" and "name \<noteq> []" and "2 \<le> length (devices R)"
    and "gpu_name rt = gpu_config_name name" and "world_size rt = int (length (devices R))"
  shows "shape_config_path R s w = below (config_dir R) (shape_json_path (sh_m s) (sh_n s) (sh_k s) name ''packed'')
     \<and> (map_of (files w) (below (config_dir R) (solution_json_path rt (sh_m s) (sh_n s) (sh_k s) backend)) \<noteq> None \<longrightarrow>
          solution_path R s backend w = Inr (below (config_dir R) (solution_json_path rt (sh_m s) (sh_n s) (sh_k s) backend)))
     \<and> (below (config_dir R) (profile_json_path (sh_m s) (sh_n s) (sh_k s) name ''packed'') = shape_config_path R s w
          \<longleftrightarrow> tidy (gpu_config_name name))"
proof -
  have gpu: "get_gpu_name_slug R = gpu_config_name name" "gpu_config_name name \<noteq> []"
    using assms(1,2) by (simp_all add: get_gpu_name_slug_def gpu_config_name_def replace_char_def py_lower_def)
  have path: "shape_config_path R s w = below (config_dir R) (shape_json_path (sh_m s) (sh_n s) (sh_k s) name ''packed'')"
    using gpu by (simp add: shape_config_path_def shape_json_path_def shape_id_def)
  moreover have "below (config_dir R) (profile_json_path (sh_m s) (sh_n s) (sh_k s) name ''packed'') = shape_config_path R s w
      \<longleftrightarrow> tidy (gpu_config_name name)"
    unfolding path slugs_agree [symmetric] by (simp add: below_def profile_json_path_def shape_json_path_def)
  moreover have "solution_path R s backend w = Inr (below (config_dir R) (solution_json_path rt (sh_m s) (sh_n s) (sh_k s) backend))"
    if "map_of (files w) (below (config_dir R) (solution_json_path rt (sh_m s) (sh_n s) (sh_k s) backend)) \<noteq> None"
    using that assms(3-5) gpu by (simp add: solution_path_def solution_json_path_def shape_id_def Let_def)
  ultimately show ?thesis by blast
qed

definition demo_context :: "string \<Rightarrow> nat context_of_run" where
  "demo_context name =
     \<lparr>sys = \<lparr>launch = (\<lambda>_ _ w. ((0, []), w)), now_stamp = (\<lambda>_. []), elapsed = (\<lambda>_ _. []), environ = [],
        gpu_model = Some name, repo = ''/r'', expand = (\<lambda>p. p), resolve = (\<lambda>p. p), newest = (\<lambda>_ _ _ _. None),
        python = [], float_repr = (\<lambda>_. [])\<rparr>, stg = default_settings, devices = [0, 1]\<rparr>"

text \<open>An H100 has such a name, an H20-3e has not.\<close>

lemma config_files_found_witness:
  "below ''/r/configs'' (profile_json_path 1 1 1 ''NVIDIA H100 80GB HBM3'' ''packed'')
       = shape_config_path (demo_context ''NVIDIA H100 80GB HBM3'') (shape_of 1 1 1) \<lparr>files = [], outside = 0\<rparr>
   \<and> below ''/r/configs'' (profile_json_path 1 1 1 ''NVIDIA H20-3e'' ''packed'')
       \<noteq> shape_config_path (demo_context ''NVIDIA H20-3e'') (shape_of 1 1 1) \<lparr>files = [], outside = 0\<rparr>"
proof -
  define w where "w = \<lparr>files = [], outside = 0 :: nat\<rparr>"
  let ?rt = "\<lambda>name. undefined\<lparr>gpu_name := gpu_config_name name, world_size := 2\<rparr> :: runtime"
  have found: "(below ''/r/configs'' (profile_json_path 1 1 1 name ''packed'') = shape_config_path (demo_context name) (shape_of 1 1 1) w)
      = tidy (gpu_config_name name)" if "name \<noteq> []" for name
  proof -
    have R: "gpu_model (sys (demo_context name)) = Some name" "2 \<le> length (devices (demo_context name))"
      "world_size (?rt name) = int (length (devices (demo_context name)))" "config_dir (demo_context name) = ''/r/configs''"
      by (simp_all add: demo_context_def config_dir_def below_def)
    have n: "gpu_name (?rt name) = gpu_config_name name" by simp
    have one: "sh_m (shape_of 1 1 1) = 1" "sh_n (shape_of 1 1 1) = 1" "sh_k (shape_of 1 1 1) = 1" by (simp_all add: shape_of_def)
    note f = config_files_found [OF R(1) that R(2) n R(3), of "shape_of 1 1 1" w "''nccl''"]
    from conjunct2 [OF conjunct2 [OF f]] show ?thesis by (simp only: R(4) one)
  qed
  have "gpu_config_name ''NVIDIA H100 80GB HBM3'' = ''nvidia_h100_80gb_hbm3''" "gpu_config_name ''NVIDIA H20-3e'' = ''nvidia_h20-3e''"
    by code_simp+
  moreover have "tidy ''nvidia_h100_80gb_hbm3''"
    by (simp add: tidy_def plain_char_def Let_def sublist_Cons_right)
  moreover have "\<not> tidy ''nvidia_h20-3e''" by (simp add: tidy_def plain_char_def Let_def)
  ultimately show ?thesis using found [of "''NVIDIA H100 80GB HBM3''"] found [of "''NVIDIA H20-3e''"] by (simp flip: w_def)
qed

end
