(* ===== verification/QwenModel.thy ===== *)
theory QwenModel
  imports Communicator
begin

text \<open>
  The patched \<open>qwen2.py\<close> around the row-parallel hook: construction and forward pass of the MLP, the attention, the decoder
  layer, the model of one pipeline stage and the language model on it. vLLM's own layers are the parameters \<open>vllm_layers\<close>;
  what the constructors hand through to all of them alike (cache, quantisation, rotary parameters, epsilons) is part of these. A layer is
  given its name, under which its weights are loaded. A forward pass sees one KV cache, so attention is a function.
\<close>

section \<open>Layers of vLLM\<close>

record attention_dims =
  num_heads :: nat
  num_kv_heads :: nat
  head_dim :: nat
  q_size :: nat
  kv_size :: nat
  scaling :: real

record 't rms_norm =
  norm_only :: "'t \<Rightarrow> 't res"
  norm_add :: "'t \<Rightarrow> 't \<Rightarrow> ('t \<times> 't) res"

record 't qwen_torch = "'t torch" +
  split_last :: "'t \<Rightarrow> nat list \<Rightarrow> 't list res"
  view_as :: "'t \<Rightarrow> nat list \<Rightarrow> 't res"
  unpack_pair :: "'t \<Rightarrow> ('t \<times> 't) res"

record ('i, 'p, 't) vllm_layers =
  tp_world_size :: nat
  new_gate_up_proj :: "nat \<Rightarrow> nat \<Rightarrow> string \<Rightarrow> 't \<Rightarrow> 't res"
  new_row_parallel :: "nat \<Rightarrow> nat \<Rightarrow> string \<Rightarrow> 't row_parallel_layer"
  silu_and_mul :: "'t \<Rightarrow> 't res"
  new_qkv_proj :: "nat \<Rightarrow> nat \<Rightarrow> nat \<Rightarrow> nat \<Rightarrow> string \<Rightarrow> 't \<Rightarrow> 't res"
  new_rms_norm :: "nat \<Rightarrow> string \<Rightarrow> 't rms_norm"
  new_rotary_emb :: "nat \<Rightarrow> 'p \<Rightarrow> 't \<Rightarrow> 't \<Rightarrow> ('t \<times> 't) res"
  new_attn :: "bool \<Rightarrow> attention_dims \<Rightarrow> string \<Rightarrow> 't \<Rightarrow> 't \<Rightarrow> 't \<Rightarrow> 't res"
  new_embedding :: "nat \<Rightarrow> nat \<Rightarrow> string \<Rightarrow> 'i option \<Rightarrow> 't res"
  maybe_prefix :: "string \<Rightarrow> string \<Rightarrow> string"
  new_lm_head :: "nat \<Rightarrow> nat \<Rightarrow> string \<Rightarrow> 't \<Rightarrow> 't res"

record qwen2_config =
  hidden_size :: nat
  num_attention_heads :: nat
  num_key_value_heads :: nat
  intermediate_size :: nat
  hidden_act :: string
  qk_norm :: bool
  is_causal :: bool
  vocab_size :: nat
  num_hidden_layers :: nat
  max_window_layers :: nat
  interleaved :: bool
  tie_word_embeddings :: bool

section \<open>MLP\<close>

record 't qwen2_mlp =
  gate_up_proj :: "'t \<Rightarrow> 't res"
  act_fn :: "'t \<Rightarrow> 't res"
  down_proj :: "'t row_parallel_layer"

definition qwen2_mlp_init ::
  "('i, 'p, 't) vllm_layers \<Rightarrow> nat \<Rightarrow> nat \<Rightarrow> string \<Rightarrow> string \<Rightarrow> 't qwen2_mlp res" where
  "qwen2_mlp_init L hidden intermediate act pre =
     bind_res (require (act = ''silu'') (ValueError ''Unsupported activation'')) (\<lambda>_.
     Inr \<lparr>gate_up_proj = new_gate_up_proj L hidden intermediate (pre @ ''.gate_up_proj''), act_fn = silu_and_mul L,
          down_proj = new_row_parallel L intermediate hidden (pre @ ''.down_proj'')\<rparr>)"

definition qwen2_mlp_forward ::
  "('t, 'x) torch_scheme \<Rightarrow> ('c, 't) native \<Rightarrow> ('c, 't) communicator option \<Rightarrow> 't qwen2_mlp \<Rightarrow> 't \<Rightarrow> 't res" where
  "qwen2_mlp_forward T nat_ext dc m x =
     bind_res (gate_up_proj m x) (\<lambda>gate_up. bind_res (act_fn m gate_up) (\<lambda>y.
     qwen_ooverlap_row_parallel T nat_ext dc (down_proj m) y))"

section \<open>Attention\<close>

definition nat_div :: "nat \<Rightarrow> nat \<Rightarrow> nat res" where
  "nat_div a b = (if b = 0 then Inl ZeroDivisionError else Inr (a div b))"

definition nat_mod :: "nat \<Rightarrow> nat \<Rightarrow> nat res" where
  "nat_mod a b = (if b = 0 then Inl ZeroDivisionError else Inr (a mod b))"

definition attention_dims_of :: "nat \<Rightarrow> nat \<Rightarrow> nat \<Rightarrow> nat \<Rightarrow> attention_dims res" where
  "attention_dims_of hidden heads kv_heads tp =
     bind_res (nat_mod heads tp) (\<lambda>r. bind_res (require (r = 0) AssertionError) (\<lambda>_.
     bind_res (if tp \<le> kv_heads then nat_mod kv_heads tp else nat_mod tp kv_heads) (\<lambda>r'.
     bind_res (require (r' = 0) AssertionError) (\<lambda>_.
     bind_res (nat_div hidden heads) (\<lambda>hd.
     bind_res (require (hd \<noteq> 0) ZeroDivisionError) (\<lambda>_.
     let n = heads div tp; kv = max 1 (kv_heads div tp)
     in Inr \<lparr>num_heads = n, num_kv_heads = kv, head_dim = hd, q_size = n * hd, kv_size = kv * hd,
             scaling = 1 / sqrt (real hd)\<rparr>))))))"

record ('p, 't) qwen2_attention =
  dims :: attention_dims
  qkv_proj :: "'t \<Rightarrow> 't res"
  o_proj :: "'t row_parallel_layer"
  qk_norms :: "('t rms_norm \<times> 't rms_norm) option"
  rotary_emb :: "'p \<Rightarrow> 't \<Rightarrow> 't \<Rightarrow> ('t \<times> 't) res"
  attn :: "'t \<Rightarrow> 't \<Rightarrow> 't \<Rightarrow> 't res"

definition qwen2_attention_init ::
  "('i, 'p, 't) vllm_layers \<Rightarrow> nat \<Rightarrow> nat \<Rightarrow> nat \<Rightarrow> bool \<Rightarrow> bool \<Rightarrow> string \<Rightarrow> ('p, 't) qwen2_attention res" where
  "qwen2_attention_init L hidden heads kv_heads encoder_only with_qk_norm pre =
     bind_res (attention_dims_of hidden heads kv_heads (tp_world_size L)) (\<lambda>d.
     Inr \<lparr>dims = d, qkv_proj = new_qkv_proj L hidden (head_dim d) heads kv_heads (pre @ ''.qkv_proj''),
          o_proj = new_row_parallel L (heads * head_dim d) hidden (pre @ ''.o_proj''),
          qk_norms = (if with_qk_norm then Some (new_rms_norm L (head_dim d) (pre @ ''.q_norm''), new_rms_norm L (head_dim d) (pre @ ''.k_norm''))
                      else None),
          rotary_emb = new_rotary_emb L (head_dim d), attn = new_attn L encoder_only d (pre @ ''.attn'')\<rparr>)"

definition normalized ::
  "('t, 'x) qwen_torch_scheme \<Rightarrow> attention_dims \<Rightarrow> ('t rms_norm \<times> 't rms_norm) option \<Rightarrow> 't \<Rightarrow> 't \<Rightarrow> ('t \<times> 't) res" where
  "normalized T d norms q k =
     (case norms of
        None \<Rightarrow> Inr (q, k)
      | Some (q_norm, k_norm) \<Rightarrow>
          bind_res (case tsize T q of [] \<Rightarrow> Inl IndexError | n # _ \<Rightarrow> Inr n) (\<lambda>total_tokens.
          bind_res (view_as T q [total_tokens, num_heads d, head_dim d]) (\<lambda>q1.
          bind_res (view_as T k [total_tokens, num_kv_heads d, head_dim d]) (\<lambda>k1.
          bind_res (norm_only q_norm q1) (\<lambda>q2. bind_res (norm_only k_norm k1) (\<lambda>k2.
          bind_res (view_as T q2 [total_tokens, q_size d]) (\<lambda>q3.
          bind_res (view_as T k2 [total_tokens, kv_size d]) (\<lambda>k3. Inr (q3, k3)))))))))"

definition qwen2_attention_forward ::
  "('t, 'x) qwen_torch_scheme \<Rightarrow> ('c, 't) native \<Rightarrow> ('c, 't) communicator option \<Rightarrow> ('p, 't) qwen2_attention \<Rightarrow> 'p \<Rightarrow> 't \<Rightarrow> 't res" where
  "qwen2_attention_forward T nat_ext dc a positions h =
     bind_res (qkv_proj a h) (\<lambda>qkv.
     bind_res (split_last T qkv [q_size (dims a), kv_size (dims a), kv_size (dims a)]) (\<lambda>parts.
     bind_res (case parts of [q, k, v] \<Rightarrow> Inr (q, k, v) | _ \<Rightarrow> Inl (ValueError ''unpack'')) (\<lambda>(q, k, v).
     bind_res (normalized T (dims a) (qk_norms a) q k) (\<lambda>(q, k).
     bind_res (rotary_emb a positions q k) (\<lambda>(q, k).
     bind_res (attn a q k v) (\<lambda>attn_output.
     qwen_ooverlap_row_parallel T nat_ext dc (o_proj a) attn_output))))))"

section \<open>Decoder layer\<close>

record ('p, 't) qwen2_decoder_layer =
  self_attn :: "('p, 't) qwen2_attention"
  mlp :: "'t qwen2_mlp"
  input_layernorm :: "'t rms_norm"
  post_attention_layernorm :: "'t rms_norm"

definition qwen2_decoder_layer_init ::
  "('i, 'p, 't) vllm_layers \<Rightarrow> qwen2_config \<Rightarrow> string \<Rightarrow> ('p, 't) qwen2_decoder_layer res" where
  "qwen2_decoder_layer_init L config pre =
     bind_res (qwen2_attention_init L (hidden_size config) (num_attention_heads config) (num_key_value_heads config)
                 (\<not> is_causal config) (qk_norm config) (pre @ ''.self_attn'')) (\<lambda>a.
     bind_res (qwen2_mlp_init L (hidden_size config) (intermediate_size config) (hidden_act config) (pre @ ''.mlp'')) (\<lambda>m.
     Inr \<lparr>self_attn = a, mlp = m, input_layernorm = new_rms_norm L (hidden_size config) (pre @ ''.input_layernorm''),
          post_attention_layernorm = new_rms_norm L (hidden_size config) (pre @ ''.post_attention_layernorm'')\<rparr>))"

definition qwen2_decoder_layer_forward ::
  "('t, 'x) qwen_torch_scheme \<Rightarrow> ('c, 't) native \<Rightarrow> ('c, 't) communicator option \<Rightarrow> ('p, 't) qwen2_decoder_layer \<Rightarrow>
   'p \<Rightarrow> 't \<Rightarrow> 't option \<Rightarrow> ('t \<times> 't) res" where
  "qwen2_decoder_layer_forward T nat_ext dc layer positions h residual =
     bind_res (case residual of
                 None \<Rightarrow> bind_res (norm_only (input_layernorm layer) h) (\<lambda>h'. Inr (h', h))
               | Some r \<Rightarrow> norm_add (input_layernorm layer) h r) (\<lambda>(h, r).
     bind_res (qwen2_attention_forward T nat_ext dc (self_attn layer) positions h) (\<lambda>h.
     bind_res (norm_add (post_attention_layernorm layer) h r) (\<lambda>(h, r).
     bind_res (qwen2_mlp_forward T nat_ext dc (mlp layer) h) (\<lambda>h. Inr (h, r)))))"

section \<open>A pipeline stage\<close>

text \<open>A missing layer (\<open>PPMissingLayer\<close>) is \<open>None\<close>; the code calls none, since a stage runs its own range and the first rank has an
  embedding. \<open>make_layers\<close> of vLLM returns the range of a stage and the list of all
  layers, of which the others are missing; \<open>_maybe_add_hidden_state\<close> is the argument \<open>add_hidden\<close>.\<close>

record ('p, 't) pp_group =
  is_first_rank :: bool
  is_last_rank :: bool
  make_layers :: "nat \<Rightarrow> (string \<Rightarrow> ('p, 't) qwen2_decoder_layer res) \<Rightarrow> string \<Rightarrow>
                  (nat \<times> nat \<times> ('p, 't) qwen2_decoder_layer option list) res"

record ('i, 'p, 't) qwen2_model =
  embed_tokens :: "('i option \<Rightarrow> 't res) option"
  start_layer :: nat
  end_layer :: nat
  layers :: "('p, 't) qwen2_decoder_layer option list"
  final_norm :: "'t rms_norm option"

definition qwen2_model_init ::
  "('i, 'p, 't) vllm_layers \<Rightarrow> ('p, 't) pp_group \<Rightarrow> qwen2_config \<Rightarrow> string \<Rightarrow> ('i, 'p, 't) qwen2_model res" where
  "qwen2_model_init L pp config pre =
     bind_res (require (interleaved config \<longrightarrow> max_window_layers config = num_hidden_layers config) AssertionError) (\<lambda>_.
     bind_res (make_layers pp (num_hidden_layers config) (qwen2_decoder_layer_init L config) (pre @ ''.layers'')) (\<lambda>(first, last, ls).
     Inr \<lparr>embed_tokens = (if is_first_rank pp \<or> tie_word_embeddings config \<and> is_last_rank pp
                          then Some (new_embedding L (vocab_size config) (hidden_size config) (pre @ ''.embed_tokens'')) else None),
          start_layer = first, end_layer = last, layers = ls,
          final_norm = (if is_last_rank pp then Some (new_rms_norm L (hidden_size config) (pre @ ''.norm'')) else None)\<rparr>))"

datatype 't qwen2_output = Intermediate 't "'t option" | Hidden 't | HiddenAux 't "'t list"

type_synonym 't add_hidden = "'t list \<Rightarrow> nat \<Rightarrow> 't \<Rightarrow> 't option \<Rightarrow> 't list"

fun run_layers ::
  "('t, 'x) qwen_torch_scheme \<Rightarrow> ('c, 't) native \<Rightarrow> ('c, 't) communicator option \<Rightarrow> 't add_hidden \<Rightarrow> 'p \<Rightarrow> nat \<Rightarrow>
   ('p, 't) qwen2_decoder_layer option list \<Rightarrow> 't \<Rightarrow> 't option \<Rightarrow> 't list \<Rightarrow> ('t \<times> 't option \<times> 't list) res" where
  "run_layers T nat_ext dc add_hidden positions idx [] h residual aux = Inr (h, residual, aux)"
| "run_layers T nat_ext dc add_hidden positions idx (l # ls) h residual aux =
     bind_res (case l of None \<Rightarrow> Inl (ExternalError ''PPMissingLayer'')
               | Some layer \<Rightarrow> qwen2_decoder_layer_forward T nat_ext dc layer positions h residual) (\<lambda>(h, r).
     run_layers T nat_ext dc add_hidden positions (idx + 1) ls h (Some r) (add_hidden aux (idx + 1) h (Some r)))"

definition embed_input_ids :: "('i, 'p, 't) qwen2_model \<Rightarrow> 'i option \<Rightarrow> 't res" where
  "embed_input_ids m ids = (case embed_tokens m of None \<Rightarrow> Inl (ExternalError ''PPMissingLayer'') | Some e \<Rightarrow> e ids)"

definition qwen2_model_forward ::
  "('t, 'x) qwen_torch_scheme \<Rightarrow> ('c, 't) native \<Rightarrow> ('c, 't) communicator option \<Rightarrow> 't add_hidden \<Rightarrow> ('p, 't) pp_group \<Rightarrow>
   ('i, 'p, 't) qwen2_model \<Rightarrow> 'i option \<Rightarrow> 'p \<Rightarrow> ('t \<times> 't option) option \<Rightarrow> 't option \<Rightarrow> 't qwen2_output res" where
  "qwen2_model_forward T nat_ext dc add_hidden pp m input_ids positions intermediate inputs_embeds =
     bind_res (if is_first_rank pp then
                 bind_res (case inputs_embeds of Some e \<Rightarrow> Inr e | None \<Rightarrow> embed_input_ids m input_ids) (\<lambda>h. Inr (h, None))
               else (case intermediate of None \<Rightarrow> Inl AssertionError | Some hr \<Rightarrow> Inr hr)) (\<lambda>(h, residual).
     bind_res (run_layers T nat_ext dc add_hidden positions 0 (slice (start_layer m) (end_layer m) (layers m)) h residual
                 (add_hidden [] 0 h residual)) (\<lambda>(h, residual, aux).
     if \<not> is_last_rank pp then Inr (Intermediate h residual)
     else
       bind_res (case final_norm m of
                   None \<Rightarrow> unpack_pair T h
                 | Some n \<Rightarrow> (case residual of None \<Rightarrow> bind_res (norm_only n h) (unpack_pair T) | Some r \<Rightarrow> norm_add n h r)) (\<lambda>(h, _).
       if aux \<noteq> [] then Inr (HiddenAux h aux) else Inr (Hidden h))))"

section \<open>The language model\<close>

text \<open>The head: its own, the weights of the embedding, or a missing layer.\<close>

datatype ('i, 't) lm_head = OwnHead "'t \<Rightarrow> 't res" | TiedHead "'i option \<Rightarrow> 't res" | MissingHead

record ('i, 'p, 't) qwen2_lm =
  lm_model :: "('i, 'p, 't) qwen2_model"
  lm_head :: "('i, 't) lm_head"

definition qwen2_lm_init ::
  "('i, 'p, 't) vllm_layers \<Rightarrow> ('p, 't) pp_group \<Rightarrow> qwen2_config \<Rightarrow> string \<Rightarrow> ('i, 'p, 't) qwen2_lm res" where
  "qwen2_lm_init L pp config pre =
     bind_res (qwen2_model_init L pp config (maybe_prefix L pre ''model'')) (\<lambda>m.
     Inr \<lparr>lm_model = m,
          lm_head = (if is_last_rank pp then
                       (if tie_word_embeddings config then (case embed_tokens m of Some e \<Rightarrow> TiedHead e | None \<Rightarrow> MissingHead)
                        else OwnHead (new_lm_head L (vocab_size config) (hidden_size config) (maybe_prefix L pre ''lm_head'')))
                     else MissingHead)\<rparr>)"

end
