(* ===== verification/QwenPipeline.thy ===== *)
theory QwenPipeline
  imports QwenModel
begin

text \<open>
  The model of \<open>qwen2.py\<close> as a whole: cut into pipeline stages it computes what one stage computes.
\<close>

section \<open>Heads\<close>

lemma attention_dims_widths:
  assumes "attention_dims_of hidden heads kv_heads tp = Inr d"
  shows "0 < tp" and "num_heads d * tp = heads" and "num_kv_heads d * tp = max kv_heads tp"
    and "q_size d = num_heads d * head_dim d" and "kv_size d = num_kv_heads d * head_dim d"
    and "head_dim d = hidden div heads" and "0 < head_dim d"
    and "kv_heads dvd heads \<Longrightarrow> num_kv_heads d dvd num_heads d"
proof -
  have c: "0 < tp" "heads mod tp = 0" "if tp \<le> kv_heads then kv_heads mod tp = 0 else 0 < kv_heads \<and> tp mod kv_heads = 0"
    and d: "num_heads d = heads div tp" "num_kv_heads d = max 1 (kv_heads div tp)" "head_dim d = hidden div heads"
      "q_size d = num_heads d * head_dim d" "kv_size d = num_kv_heads d * head_dim d" "0 < head_dim d"
    using assms by (auto simp: attention_dims_of_def nat_mod_def nat_div_def Let_def elim!: bind_resE split: if_splits)
  show "0 < tp" "q_size d = num_heads d * head_dim d" "kv_size d = num_kv_heads d * head_dim d" "head_dim d = hidden div heads"
    "0 < head_dim d" using c d by simp_all
  show n: "num_heads d * tp = heads" using c(2) d(1) by (simp add: mod_0_imp_dvd)
  have kv: "num_kv_heads d * tp = max kv_heads tp"
  proof (cases "tp \<le> kv_heads")
    case True
    then have "1 \<le> kv_heads div tp" using c(1) by (simp add: Suc_le_eq div_greater_zero_iff)
    then show ?thesis using True c d(2) by (simp add: mod_0_imp_dvd max_def)
  qed (simp add: d)
  then show "num_kv_heads d * tp = max kv_heads tp" .
  assume dvd: "kv_heads dvd heads"
  show "num_kv_heads d dvd num_heads d"
  proof (cases "tp \<le> kv_heads")
    case True
    then have "num_kv_heads d * tp dvd num_heads d * tp" using dvd n kv by (simp add: max_def)
    then show ?thesis using c(1) by simp
  next
    case False
    then show ?thesis by (simp add: d)
  qed
qed

section \<open>Stages\<close>

definition stage_layers :: "('p, 't) pp_group \<Rightarrow> nat \<Rightarrow> nat \<Rightarrow> nat \<Rightarrow> bool" where
  "stage_layers pp n first until \<longleftrightarrow> (\<forall>f pre. make_layers pp n f pre =
     bind_res (map_res (\<lambda>i. f (pre @ ''.'' @ str_nat i)) [first..<until]) (\<lambda>ls.
     Inr (first, until, replicate first None @ map Some ls @ replicate (n - until) None)))"

definition splits :: "nat \<Rightarrow> (nat \<Rightarrow> ('p, 't) pp_group) \<Rightarrow> (nat \<Rightarrow> nat) \<Rightarrow> nat \<Rightarrow> bool" where
  "splits n P b R \<longleftrightarrow> 0 < R \<and> b 0 = 0 \<and> b R = n \<and> (\<forall>r < R. b r \<le> b (Suc r)
     \<and> is_first_rank (P r) = (r = 0) \<and> is_last_rank (P r) = (Suc r = R) \<and> stage_layers (P r) n (b r) (b (Suc r)))"

text \<open>The stages after one another: each hands its two tensors to the next. No layer collects auxiliary states.\<close>

abbreviation no_hidden :: "'t add_hidden" where
  "no_hidden \<equiv> \<lambda>aux _ _ _. aux"

fun run_stages ::
  "('t, 'x) qwen_torch_scheme \<Rightarrow> ('c, 't) native \<Rightarrow> ('c, 't) communicator option \<Rightarrow> 'i option \<Rightarrow> 'p \<Rightarrow> 't option \<Rightarrow>
   (('p, 't) pp_group \<times> ('i, 'p, 't) qwen2_model) list \<Rightarrow> ('t \<times> 't option) option \<Rightarrow> 't qwen2_output res" where
  "run_stages T nat_ext dc ids positions embeds [] intermediate = Inl (ExternalError ''no stage'')"
| "run_stages T nat_ext dc ids positions embeds ((pp, m) # stages) intermediate =
     bind_res (qwen2_model_forward T nat_ext dc no_hidden pp m ids positions intermediate embeds) (\<lambda>out.
     case out of Intermediate h residual \<Rightarrow> run_stages T nat_ext dc ids positions embeds stages (Some (h, residual))
     | _ \<Rightarrow> Inr out)"

lemma run_layers_no_hidden:
  "run_layers T nat_ext dc no_hidden positions i ls h residual aux =
     bind_res (run_layers T nat_ext dc no_hidden positions 0 ls h residual []) (\<lambda>(h, r, _). Inr (h, r, aux))"
proof (induction ls arbitrary: i h residual aux)
  case (Cons l ls)
  show ?case
    by (simp add: bind_res_assoc case_prod_unfold Cons.IH [of "Suc i" _ _ aux] Cons.IH [of "Suc 0" _ _ "[]"])
qed simp

lemma run_layers_append:
  "run_layers T nat_ext dc no_hidden positions i (xs @ ys) h residual aux =
     bind_res (run_layers T nat_ext dc no_hidden positions 0 xs h residual []) (\<lambda>(h, r, _).
       run_layers T nat_ext dc no_hidden positions i ys h r aux)"
proof (induction xs arbitrary: i h residual)
  case (Cons l xs)
  show ?case
    by (simp add: bind_res_assoc case_prod_unfold Cons.IH run_layers_no_hidden [of T nat_ext dc positions "Suc 0" xs]
        run_layers_no_hidden [of T nat_ext dc positions "Suc i" ys] run_layers_no_hidden [of T nat_ext dc positions i ys])
qed simp

lemma slice_stage:
  "slice a b (replicate a None @ map Some ls @ replicate k None) = map Some ls" if "length ls = b - a"
  using that by (simp add: slice_def)

lemma map_res_lookup:
  assumes "map_res f xs = Inr ys" and "\<forall>x \<in> set xs. f x = Inr (g x)"
  shows "ys = map g xs"
  using assms map_res_total [of xs f g] by simp

definition stage_model :: "(nat \<Rightarrow> ('p, 't) qwen2_decoder_layer) \<Rightarrow> nat \<Rightarrow> nat \<Rightarrow> ('i, 'p, 't) qwen2_model \<Rightarrow> bool" where
  "stage_model lay a b m \<longleftrightarrow> slice (start_layer m) (end_layer m) (layers m) = map (\<lambda>i. Some (lay i)) [a..<b]"

lemma model_init_stage:
  assumes "qwen2_model_init L pp config pre = Inr m" and "stage_layers pp (num_hidden_layers config) a b"
    and "\<forall>i \<in> {a..<b}. qwen2_decoder_layer_init L config ((pre @ ''.layers'') @ ''.'' @ str_nat i) = Inr (lay i)"
  shows "stage_model lay a b m"
    and "embed_tokens m = (if is_first_rank pp \<or> tie_word_embeddings config \<and> is_last_rank pp
           then Some (new_embedding L (vocab_size config) (hidden_size config) (pre @ ''.embed_tokens'')) else None)"
    and "final_norm m = (if is_last_rank pp then Some (new_rms_norm L (hidden_size config) (pre @ ''.norm'')) else None)"
proof -
  obtain ls where ls: "map_res (\<lambda>i. qwen2_decoder_layer_init L config ((pre @ ''.layers'') @ ''.'' @ str_nat i)) [a..<b] = Inr ls"
    and m: "start_layer m = a" "end_layer m = b"
      "layers m = replicate a None @ map Some ls @ replicate (num_hidden_layers config - b) None"
      "embed_tokens m = (if is_first_rank pp \<or> tie_word_embeddings config \<and> is_last_rank pp
           then Some (new_embedding L (vocab_size config) (hidden_size config) (pre @ ''.embed_tokens'')) else None)"
      "final_norm m = (if is_last_rank pp then Some (new_rms_norm L (hidden_size config) (pre @ ''.norm'')) else None)"
    using assms(1) assms(2) [unfolded stage_layers_def, THEN spec, THEN spec]
    by (auto simp: qwen2_model_init_def elim!: bind_resE)
  have "ls = map lay [a..<b]" using map_res_lookup [OF ls] assms(3) by simp
  then show "stage_model lay a b m" using map_res_length [OF ls] slice_stage [of ls b a] by (simp add: stage_model_def m comp_def)
  show "embed_tokens m = (if is_first_rank pp \<or> tie_word_embeddings config \<and> is_last_rank pp
           then Some (new_embedding L (vocab_size config) (hidden_size config) (pre @ ''.embed_tokens'')) else None)"
    "final_norm m = (if is_last_rank pp then Some (new_rms_norm L (hidden_size config) (pre @ ''.norm'')) else None)"
    by (simp_all only: m)
qed

lemma model_init_layers:
  assumes "qwen2_model_init L pp config pre = Inr m" and "stage_layers pp (num_hidden_layers config) a b" and "i \<in> {a..<b}"
  shows "\<exists>layer. qwen2_decoder_layer_init L config ((pre @ ''.layers'') @ ''.'' @ str_nat i) = Inr layer"
proof -
  obtain ls where "map_res (\<lambda>i. qwen2_decoder_layer_init L config ((pre @ ''.layers'') @ ''.'' @ str_nat i)) [a..<b] = Inr ls"
    using assms(1) assms(2) [unfolded stage_layers_def, THEN spec, THEN spec]
    by (auto simp: qwen2_model_init_def elim!: bind_resE)
  from list_all2_nthD [OF this [unfolded map_res_Inr_conv], of "i - a"] show ?thesis using assms(3) by auto
qed

lemma stage_of_layer:
  assumes "splits n P b R" and "i < n"
  obtains r where "r < R" and "i \<in> {b r..<b (Suc r)}"
proof -
  have "i < b k \<Longrightarrow> \<exists>r < k. i \<in> {b r..<b (Suc r)}" if "k \<le> R" for k
    using that
  proof (induction k)
    case (Suc k)
    then show ?case
    proof (cases "i < b k")
      case True
      then show ?thesis using Suc by (meson Suc_leD less_SucI)
    next
      case False
      then show ?thesis using Suc.prems by auto
    qed
  qed (use assms(1) in \<open>simp add: splits_def\<close>)
  from this [of R] show ?thesis using assms that by (auto simp: splits_def)
qed

lemma splits_bound:
  assumes "splits n P b R" and "k \<le> R"
  shows "b k \<le> n"
  using assms(2)
proof (induction k rule: inc_induct)
  case base
  then show ?case using assms(1) by (simp add: splits_def)
next
  case (step k)
  then have "b k \<le> b (Suc k)" using assms(1) by (simp add: splits_def)
  then show ?case using step by simp
qed

text \<open>The forward pass of a stage after its input is known.\<close>

definition finish :: "('t, 'x) qwen_torch_scheme \<Rightarrow> 't rms_norm option \<Rightarrow> 't \<times> 't option \<times> 't list \<Rightarrow> 't qwen2_output res" where
  "finish T norm_or_missing out =
     (case out of (h, residual, _) \<Rightarrow>
       bind_res (case norm_or_missing of
                   None \<Rightarrow> unpack_pair T h
                 | Some n \<Rightarrow> (case residual of None \<Rightarrow> bind_res (norm_only n h) (unpack_pair T) | Some r \<Rightarrow> norm_add n h r)) (\<lambda>(h, _).
       Inr (Hidden h)))"

definition stage_input ::
  "('p, 't) pp_group \<Rightarrow> ('i, 'p, 't) qwen2_model \<Rightarrow> 'i option \<Rightarrow> ('t \<times> 't option) option \<Rightarrow> 't option \<Rightarrow> ('t \<times> 't option) res" where
  "stage_input pp m input_ids intermediate inputs_embeds =
     (if is_first_rank pp then
        bind_res (case inputs_embeds of Some e \<Rightarrow> Inr e | None \<Rightarrow> embed_input_ids m input_ids) (\<lambda>h. Inr (h, None))
      else (case intermediate of None \<Rightarrow> Inl AssertionError | Some hr \<Rightarrow> Inr hr))"

lemma forward_stage:
  assumes "stage_model lay a b m"
  shows "qwen2_model_forward T nat_ext dc no_hidden pp m ids positions intermediate embeds =
     bind_res (stage_input pp m ids intermediate embeds) (\<lambda>(h, residual).
     bind_res (run_layers T nat_ext dc no_hidden positions 0 (map (\<lambda>i. Some (lay i)) [a..<b]) h residual []) (\<lambda>out.
     if is_last_rank pp then finish T (final_norm m) out else Inr (Intermediate (fst out) (fst (snd out)))))"
proof -
  have aux: "run_layers T nat_ext dc no_hidden positions 0 ls h residual [] =
      bind_res (run_layers T nat_ext dc no_hidden positions 0 ls h residual []) (\<lambda>(h, r, _). Inr (h, r, []))" for ls h residual
    by (rule run_layers_no_hidden)
  show ?thesis
    unfolding qwen2_model_forward_def assms [unfolded stage_model_def] stage_input_def [symmetric]
    by (subst aux, subst (2) aux)
      (auto simp: bind_res_assoc finish_def case_prod_unfold intro!: bind_res_cong split: option.split)
qed

lemma run_from_stage:
  assumes s: "splits n P b R" and m: "\<forall>q < R. stage_model lay (b q) (b (Suc q)) (ms q)" and "r < R"
  shows "run_stages T nat_ext dc ids positions embeds (map (\<lambda>q. (P q, ms q)) [r..<R]) intermediate =
     bind_res (stage_input (P r) (ms r) ids intermediate embeds) (\<lambda>(h, residual).
     bind_res (run_layers T nat_ext dc no_hidden positions 0 (map (\<lambda>i. Some (lay i)) [b r..<n]) h residual [])
       (finish T (final_norm (ms (R - 1)))))"
  using \<open>r < R\<close>
proof (induction "R - r" arbitrary: r intermediate)
  case (Suc k)
  let ?go = "\<lambda>r until h residual. run_layers T nat_ext dc no_hidden positions 0 (map (\<lambda>i. Some (lay i)) [b r..<until]) h residual []"
  have sm: "stage_model lay (b r) (b (Suc r)) (ms r)" using m Suc.prems by blast
  have up: "map (\<lambda>q. (P q, ms q)) [r..<R] = (P r, ms r) # map (\<lambda>q. (P q, ms q)) [Suc r..<R]"
    using Suc.prems by (simp add: upt_conv_Cons)
  show ?case
  proof (cases "Suc r = R")
    case True
    then have "is_last_rank (P r)" "b (Suc r) = n" "R - 1 = r" using s by (auto simp: splits_def)
    then show ?thesis
      unfolding up run_stages.simps forward_stage [OF sm] bind_res_assoc
      by (auto simp: case_prod_unfold finish_def bind_res_assoc intro!: bind_res_cong)
  next
    case False
    then have r: "Suc r < R" "\<not> is_last_rank (P r)" "\<not> is_first_rank (P (Suc r))" "b r \<le> b (Suc r)" using s Suc.prems by (auto simp: splits_def)
    have "b (Suc r) \<le> n" using splits_bound [OF s] r(1) by simp
    then have "[b r..<n] = [b r..<b (Suc r)] @ [b (Suc r)..<n]" using r(4) by (metis le_iff_add upt_add_eq_append)
    then show ?thesis
      unfolding up run_stages.simps forward_stage [OF sm] bind_res_assoc
      using r Suc.hyps(1) [of "Suc r"] Suc.hyps(2)
      by (auto simp: case_prod_unfold bind_res_assoc stage_input_def run_layers_append intro!: bind_res_cong)
  qed
qed simp

end
