(* ===== verification/QwenProperties.thy ===== *)
theory QwenProperties
  imports QwenPipeline AdapterProperties
begin

text \<open>
  The properties of the patched Qwen model: its heads are partitioned, and its pipeline stages compute what one stage computes.
\<close>

section \<open>A small model\<close>

text \<open>Two layers with two heads of width two on two ranks; the tensors have three rows. A row-parallel layer returns fives.\<close>

definition small_torch :: "dense qwen_torch" where
  "small_torch = torch.extend dense_torch
     (qwen_torch.fields (\<lambda>t _. Inr [t, t, t]) (\<lambda>t _. Inr t) (\<lambda>t. Inr (t, t)))"

definition small_native :: "(nat, dense) native" where
  "small_native = demo_native\<lparr>all_reduce_round_robin := (\<lambda>_ t. if 0 < prod_list (fst t) then Inr t else Inl (RuntimeError ''empty'')),
     all_reduce_preloaded_slot := (\<lambda>_ t. if 0 < prod_list (fst t) then Inr t else Inl (RuntimeError ''empty''))\<rparr>"

definition small_comm :: "(nat, dense) communicator" where
  "small_comm = \<lparr>force_allreduce_backend = ''ooverlap'', cc_world_size = 2, rank_in_group = 0, cc_ranks = [0, 1],
     pynccl_comm = None, ca_comm = None, qr_comm = None, symm_mem_comm = None, fi_ar_comm = None,
     aiter_ar_comm = None, ooverlap_comm = Some demo_adapter, all2all_manager = None\<rparr>"

definition small_env :: "dense reduce_env" where
  "small_env = \<lparr>should_nccl_symm_mem_allreduce = (\<lambda>_. False),
     all_reduce_symmetric_with_copy = (\<lambda>_. Inr None), dist_all_reduce = (\<lambda>t. Inr t)\<rparr>"

definition small_row_parallel :: "nat \<Rightarrow> nat \<Rightarrow> string \<Rightarrow> dense row_parallel_layer" where
  "small_row_parallel n k p = \<lparr>input_is_parallel = True, reduce_results = True, tp_size = 2, has_bias = False,
     quant_method = ''UnquantizedLinearMethod'', layer_weight = ([k, n div 2], \<lambda>_. 1),
     layer_forward = (\<lambda>t. cc_all_reduce small_torch small_native small_env small_comm ([fst t ! 0, k], \<lambda>_. 5))\<rparr>"

definition small_norm :: "dense rms_norm" where
  "small_norm = \<lparr>norm_only = (\<lambda>h. Inr h), norm_add = (\<lambda>h r. Inr (h, r))\<rparr>"

definition small_layers :: "(unit, unit, dense) vllm_layers" where
  "small_layers = \<lparr>tp_world_size = 2, new_gate_up_proj = (\<lambda>_ _ _ t. Inr t), new_row_parallel = small_row_parallel,
     silu_and_mul = (\<lambda>t. Inr ([3, 2], \<lambda>_. 1)), new_qkv_proj = (\<lambda>_ _ _ _ _ t. Inr t), new_rms_norm = (\<lambda>_ _. small_norm),
     new_rotary_emb = (\<lambda>_ _ q k. Inr (q, k)), new_attn = (\<lambda>_ _ _ q k v. Inr ([3, 2], \<lambda>_. 1)),
     new_embedding = (\<lambda>_ _ _ _. Inr ([3, 4], \<lambda>_. 2)), maybe_prefix = (\<lambda>pre name. pre @ name),
     new_lm_head = (\<lambda>_ _ _ t. Inr t)\<rparr>"

definition small_config :: qwen2_config where
  "small_config = \<lparr>hidden_size = 4, num_attention_heads = 2, num_key_value_heads = 2, intermediate_size = 4, hidden_act = ''silu'',
     qk_norm = True, is_causal = True, vocab_size = 10, num_hidden_layers = 2, max_window_layers = 2, interleaved = False,
     tie_word_embeddings = True\<rparr>"

definition small_stage :: "nat \<Rightarrow> nat \<Rightarrow> (unit, dense) pp_group" where
  "small_stage a b = \<lparr>is_first_rank = (a = 0), is_last_rank = (b = 2),
     make_layers = (\<lambda>n f pre. bind_res (map_res (\<lambda>i. f (pre @ ''.'' @ str_nat i)) [a..<b]) (\<lambda>ls.
       Inr (a, b, replicate a None @ map Some ls @ replicate (n - b) None)))\<rparr>"

lemmas small_torch_defs = small_torch_def dense_torch_def dense_ops_def tensor_ops.defs torch.defs qwen_torch.defs

lemma small_stage_layers: "stage_layers (small_stage a b) n a b"
  by (simp add: stage_layers_def small_stage_def)

lemma small_stage_rank: "is_first_rank (small_stage a b) = (a = 0)" "is_last_rank (small_stage a b) = (b = 2)"
  by (simp_all add: small_stage_def)

section \<open>Properties\<close>

text \<open>The attention heads are partitioned. When the constructor accepts the head counts, the ranks' query heads make up all heads
  and their widths the input of the output projection, which is not wider than the model; the ranks hold every key-value head
  once, or, if there are fewer than ranks, one each; and when the key-value heads divide the heads, they do so on every rank.\<close>
theorem heads_partitioned:
  assumes "qwen2_attention_init L hidden heads kv_heads encoder_only with_qk_norm pre = Inr a"
  shows "num_heads (dims a) * tp_world_size L = heads \<and> q_size (dims a) * tp_world_size L = heads * head_dim (dims a)
     \<and> heads * head_dim (dims a) \<le> hidden \<and> o_proj a = new_row_parallel L (q_size (dims a) * tp_world_size L) hidden (pre @ ''.o_proj'')
     \<and> num_kv_heads (dims a) * tp_world_size L = max kv_heads (tp_world_size L)
     \<and> (kv_heads dvd heads \<longrightarrow> num_kv_heads (dims a) dvd num_heads (dims a))"
proof -
  obtain d where d: "attention_dims_of hidden heads kv_heads (tp_world_size L) = Inr d" and a: "dims a = d"
      "o_proj a = new_row_parallel L (heads * head_dim d) hidden (pre @ ''.o_proj'')"
    using assms by (auto simp: qwen2_attention_init_def elim!: bind_resE)
  note w = attention_dims_widths [OF d]
  have "heads * (hidden div heads) \<le> hidden" by simp
  moreover have "q_size d * tp_world_size L = heads * head_dim d"
    by (simp add: w(4) w(2) [symmetric] ac_simps)
  ultimately show ?thesis using w(2,3,6,8) unfolding a by simp
qed

lemma heads_partitioned_witness:
  "\<exists>a. qwen2_attention_init small_layers 4 2 2 False True ''a'' = Inr a \<and> num_heads (dims a) * 2 = 2 \<and> q_size (dims a) * 2 = 2 * head_dim (dims a)"
proof -
  have "\<exists>a. qwen2_attention_init small_layers 4 2 2 False True ''a'' = Inr a"
    by (simp add: qwen2_attention_init_def attention_dims_of_def nat_mod_def nat_div_def Let_def small_layers_def)
  then obtain a where a: "qwen2_attention_init small_layers 4 2 2 False True ''a'' = Inr a" by blast
  have "tp_world_size small_layers = 2" by (simp add: small_layers_def)
  with heads_partitioned [OF a] a show ?thesis by auto
qed

text \<open>C17: A pipeline computes what one device computes. Let the layers be split into consecutive ranges, one per stage, as vLLM does, and let
  every stage's model be built without an exception. Then the model on a single stage can be built too; running the stages after
  one another, each on the two tensors it gets from the one before, gives the result (or the exception) of the single stage;
  and the head of the last stage, its own or that of the embedding tied to it, is the head of the single one and not missing.\<close>
theorem pipeline_equals_single_stage:
  assumes "splits (num_hidden_layers config) P b R" and "splits (num_hidden_layers config) (\<lambda>_. whole) b1 1"
    and "\<And>r. r < R \<Longrightarrow> qwen2_lm_init L (P r) config pre = Inr (lms r)"
  shows "\<exists>lm. qwen2_lm_init L whole config pre = Inr lm
     \<and> run_stages T nat_ext dc ids positions embeds (map (\<lambda>r. (P r, lm_model (lms r))) [0..<R]) None
         = qwen2_model_forward T nat_ext dc no_hidden whole (lm_model lm) ids positions None embeds
     \<and> lm_head (lms (R - 1)) = lm_head lm \<and> lm_head lm \<noteq> MissingHead"
proof -
  let ?n = "num_hidden_layers config" and ?pre = "maybe_prefix L pre ''model''"
  let ?init = "\<lambda>i. qwen2_decoder_layer_init L config ((?pre @ ''.layers'') @ ''.'' @ str_nat i)"
  define lay where "lay = (\<lambda>i. projr (?init i))"
  have R: "0 < R" "b 0 = 0" "b R = ?n" and P: "\<And>r. r < R \<Longrightarrow> is_first_rank (P r) = (r = 0)" "\<And>r. r < R \<Longrightarrow> is_last_rank (P r) = (Suc r = R)"
      "\<And>r. r < R \<Longrightarrow> stage_layers (P r) ?n (b r) (b (Suc r))"
    using assms(1) by (auto simp: splits_def)
  have W: "is_first_rank whole" "is_last_rank whole" "stage_layers whole ?n 0 ?n"
    using assms(2) by (auto simp: splits_def)
  have init: "qwen2_model_init L (P r) config ?pre = Inr (lm_model (lms r))" if "r < R" for r
    using assms(3) [OF that] by (auto simp: qwen2_lm_init_def bind_res_eq_Inr dest!: sym [of _ "lms r"])
  have made: "?init i = Inr (lay i)" if i: "i < ?n" for i
  proof -
    obtain r where r: "r < R" "i \<in> {b r..<b (Suc r)}" using stage_of_layer [OF assms(1) i] by blast
    from model_init_layers [OF init [OF r(1)] P(3) [OF r(1)] r(2)] show ?thesis by (auto simp: lay_def)
  qed
  have bound: "b (Suc r) \<le> ?n" if "r < R" for r using splits_bound [OF assms(1), of "Suc r"] that by simp
  have sm: "stage_model lay (b r) (b (Suc r)) (lm_model (lms r))" if "r < R" for r
    by (rule model_init_stage(1) [OF init [OF that] P(3) [OF that]]) (use made bound [OF that] in auto)
  have req: "interleaved config \<longrightarrow> max_window_layers config = ?n"
    using init [OF R(1)] by (auto simp: qwen2_model_init_def elim!: bind_resE)
  have all: "map_res ?init [0..<?n] = Inr (map lay [0..<?n])" using made by (intro map_res_total) simp
  obtain m where m: "qwen2_model_init L whole config ?pre = Inr m"
    using W(3) [unfolded stage_layers_def, THEN spec, THEN spec] req all by (simp add: qwen2_model_init_def)
  then obtain lm where lm: "qwen2_lm_init L whole config pre = Inr lm" "lm_model lm = m" by (simp add: qwen2_lm_init_def)
  have smw: "stage_model lay 0 ?n m" by (rule model_init_stage(1) [OF m W(3)]) (use made in auto)
  note wholem = model_init_stage(2,3) [OF m W(3) , of lay]
  have emb: "embed_tokens (lm_model (lms 0)) = embed_tokens m"
    using model_init_stage(2) [OF init [OF R(1)] P(3) [OF R(1)], of lay] wholem(1) made bound [OF R(1)] P(1) [OF R(1)] W(1) by simp
  have emb': "embed_input_ids (lm_model (lms 0)) = embed_input_ids m" by (simp add: fun_eq_iff embed_input_ids_def emb)
  have top: "R - 1 < R" "is_last_rank (P (R - 1))" using R(1) P(2) [of "R - 1"] by simp_all
  have nrm: "final_norm (lm_model (lms (R - 1))) = final_norm m"
    using model_init_stage(3) [OF init [OF top(1)] P(3) [OF top(1)], of lay] wholem(2) made bound [OF top(1)] top(2) W(2) by simp
  have "run_stages T nat_ext dc ids positions embeds (map (\<lambda>r. (P r, lm_model (lms r))) [0..<R]) None
      = qwen2_model_forward T nat_ext dc no_hidden whole m ids positions None embeds"
    using run_from_stage [OF assms(1), of lay "\<lambda>r. lm_model (lms r)" 0 T nat_ext dc ids positions embeds None] sm R(1)
    unfolding forward_stage [OF smw] R(2) nrm
    by (simp add: stage_input_def P(1) W(1,2) emb' cong: if_cong option.case_cong)
  moreover have "lm_head (lms (R - 1)) = lm_head lm \<and> lm_head lm \<noteq> MissingHead"
  proof -
    have e: "tie_word_embeddings config \<Longrightarrow> embed_tokens (lm_model (lms (R - 1))) = embed_tokens m \<and> embed_tokens m \<noteq> None"
      using model_init_stage(2) [OF init [OF top(1)] P(3) [OF top(1)], of lay] wholem(1) made bound [OF top(1)] top(2) W(1) by simp
    have h: "lm_head l = (if is_last_rank pp then
                       (if tie_word_embeddings config then (case embed_tokens (lm_model l) of Some e \<Rightarrow> TiedHead e | None \<Rightarrow> MissingHead)
                        else OwnHead (new_lm_head L (vocab_size config) (hidden_size config) (maybe_prefix L pre ''lm_head'')))
                     else MissingHead)" if "qwen2_lm_init L pp config pre = Inr l" for pp l
      using that by (auto simp: qwen2_lm_init_def elim!: bind_resE)
    show ?thesis using h [OF assms(3) [OF top(1)]] h [OF lm(1)] top(2) W(2) e lm(2) by (auto split: option.split)
  qed
  ultimately show ?thesis using lm by blast
qed

lemma pipeline_equals_single_stage_witness:
  "\<exists>m m0 m1. run_stages small_torch small_native None None () None [(small_stage 0 1, m0), (small_stage 1 2, m1)] None
       = qwen2_model_forward small_torch small_native None no_hidden (small_stage 0 2) m None () None None
     \<and> qwen2_model_init small_layers (small_stage 0 1) small_config ''model'' = Inr m0
     \<and> qwen2_model_init small_layers (small_stage 1 2) small_config ''model'' = Inr m1
     \<and> qwen2_model_init small_layers (small_stage 0 2) small_config ''model'' = Inr m"
proof -
  have dims: "\<exists>d. attention_dims_of 4 2 2 2 = Inr d"
    by (simp add: attention_dims_of_def nat_mod_def nat_div_def Let_def)
  let ?P = "\<lambda>r. small_stage r (Suc r)"
  have built: "\<exists>l. qwen2_lm_init small_layers (?P r) small_config [] = Inr l" for r
    using dims by (auto simp: qwen2_lm_init_def qwen2_model_init_def qwen2_decoder_layer_init_def qwen2_attention_init_def
        qwen2_mlp_init_def small_config_def small_layers_def small_stage_def)
  then obtain lms where lms: "qwen2_lm_init small_layers (?P r) small_config [] = Inr (lms r)" for r by metis
  have s: "splits (num_hidden_layers small_config) ?P (\<lambda>r. r) 2"
    using small_stage_layers by (auto simp: splits_def small_config_def small_stage_rank)
  have w: "splits (num_hidden_layers small_config) (\<lambda>_. small_stage 0 2) (\<lambda>r. 2 * r) 1"
    using small_stage_layers [of 0 2] by (simp add: splits_def small_config_def small_stage_rank)
  from pipeline_equals_single_stage [OF s w lms, of small_torch small_native None None "()" None]
  obtain lm where lm: "qwen2_lm_init small_layers (small_stage 0 2) small_config [] = Inr lm"
    and run: "run_stages small_torch small_native None None () None (map (\<lambda>r. (?P r, lm_model (lms r))) [0..<2]) None
      = qwen2_model_forward small_torch small_native None no_hidden (small_stage 0 2) (lm_model lm) None () None None" by blast
  have model: "qwen2_model_init small_layers pp small_config ''model'' = Inr (lm_model l)"
    if "qwen2_lm_init small_layers pp small_config [] = Inr l" for pp l
    using that by (auto simp: qwen2_lm_init_def small_layers_def bind_res_eq_Inr dest!: sym [of _ l])
  have "map (\<lambda>r. (?P r, lm_model (lms r))) [0..<2] = [(small_stage 0 1, lm_model (lms 0)), (small_stage 1 2, lm_model (lms 1))]"
    by (simp add: upt_rec numeral_2_eq_2)
  note run' = run [unfolded this]
  have one: "qwen2_model_init small_layers (small_stage 0 1) small_config ''model'' = Inr (lm_model (lms 0))"
    using model [OF lms [of 0]] by simp
  have two: "qwen2_model_init small_layers (small_stage 1 2) small_config ''model'' = Inr (lm_model (lms 1))"
    using model [OF lms [of 1]] by (simp add: numeral_2_eq_2)
  show ?thesis
    by (rule exI [of _ "lm_model lm"], rule exI [of _ "lm_model (lms 0)"], rule exI [of _ "lm_model (lms 1)"])
      (intro conjI run' one two model [OF lm])
qed

end
