(* ===== verification/SlotPool.thy ===== *)
theory SlotPool
  imports Communicator AdapterCorrect
begin

text \<open>
  The slot pool of the native communicator (\<open>src/src/torch_collectives_pybind.cpp\<close>) over an explicit memory: tensors are
  handles on an allocation of their own or on a slot of the pool, \<open>acquire_all_reduce_slot\<close>, \<open>all_reduce_preloaded_slot\<close> and
  \<open>all_reduce_round_robin\<close> read, write and rotate the pool. The adapter and the hook of \<open>Adapter\<close> and \<open>Communicator\<close> run on it
  unchanged: their tensors are instantiated with handles that carry the memory they live in, and their native extension
  with the functions of this theory in the memory in which the call starts. Parameters are the reduction that the ranks' kernels
  make of a slot's first elements and the values of \<open>torch.mm\<close>. Elements are reals.
\<close>

section \<open>Tensors and memory\<close>

datatype storage = Allocation nat | PoolSlot nat

record gpu_tensor =
  gt_storage :: storage
  gt_shape :: "nat list"
  gt_dtype :: dtype
  gt_cuda :: bool
  gt_device :: int
  gt_contiguous :: bool

text \<open>\<open>slot_data\<close>, \<open>slot_total\<close>, \<open>slot_elems\<close>, \<open>slot_dtype\<close>, \<open>next_slot\<close> are \<open>round_robin_slots_\<close>, its size, the
  elements of a slot, \<open>round_robin_dtype_\<close> and \<open>round_robin_index_\<close>; \<open>slot_device\<close> is \<open>devices_[local_rank_]\<close>, for
  which the adapter passes its own device.\<close>

record gpu_memory =
  own_data :: "nat \<Rightarrow> nat \<Rightarrow> real"
  next_own :: nat
  slot_data :: "nat \<Rightarrow> nat \<Rightarrow> real"
  slot_total :: nat
  slot_elems :: nat
  slot_dtype :: dtype
  slot_device :: int
  next_slot :: nat

type_synonym held_tensor = "gpu_tensor \<times> gpu_memory"
type_synonym slot_kernel = "nat \<Rightarrow> nat \<Rightarrow> (nat \<Rightarrow> real) \<Rightarrow> (nat \<Rightarrow> real) res"
type_synonym mm_values = "gpu_tensor \<Rightarrow> gpu_tensor \<Rightarrow> (nat \<Rightarrow> real) \<Rightarrow> (nat \<Rightarrow> real) \<Rightarrow> nat \<Rightarrow> real"

definition count_of :: "gpu_tensor \<Rightarrow> nat" where
  "count_of t = prod_list (gt_shape t)"

definition first_elems :: "nat \<Rightarrow> (nat \<Rightarrow> real) \<Rightarrow> nat \<Rightarrow> real" where
  "first_elems n f = (\<lambda>j. if j < n then f j else 0)"

text \<open>Handles start at the first element of their storage, as the pool's views do.\<close>

definition storage_elems :: "gpu_memory \<Rightarrow> storage \<Rightarrow> nat \<Rightarrow> real" where
  "storage_elems M s = (case s of Allocation a \<Rightarrow> own_data M a | PoolSlot i \<Rightarrow> slot_data M i)"

definition contents :: "gpu_memory \<Rightarrow> gpu_tensor \<Rightarrow> nat \<Rightarrow> real" where
  "contents M t = first_elems (count_of t) (storage_elems M (gt_storage t))"

definition write_elems :: "gpu_memory \<Rightarrow> gpu_tensor \<Rightarrow> (nat \<Rightarrow> real) \<Rightarrow> gpu_memory" where
  "write_elems M t f =
     (let put = (\<lambda>old j. if j < count_of t then f j else old j)
      in case gt_storage t of
           Allocation a \<Rightarrow> M\<lparr>own_data := (own_data M)(a := put (own_data M a))\<rparr>
         | PoolSlot i \<Rightarrow> M\<lparr>slot_data := (slot_data M)(i := put (slot_data M i))\<rparr>)"

section \<open>The pool\<close>

definition parse_round_robin_dtype :: "string \<Rightarrow> dtype res" where
  "parse_round_robin_dtype name =
     (let d = py_lower name
      in if d \<in> {''fp16'', ''f16'', ''float16'', ''half''} then Inr FP16
         else if d \<in> {''bf16'', ''bfloat16''} then Inr BF16
         else if d \<in> {''fp32'', ''f32'', ''float32'', ''float''} then Inr FP32
         else Inl (RuntimeError ''unsupported round-robin dtype''))"

text \<open>\<open>init_round_robin_slots\<close> without the registration of the slots with the other ranks and the limits of 64 bits;
  \<open>torch.empty\<close> leaves the elements as they are.\<close>

definition init_pool :: "string \<Rightarrow> int \<Rightarrow> int \<Rightarrow> gpu_memory \<Rightarrow> gpu_memory res" where
  "init_pool dtype_name capacity_bytes slots M =
     bind_res (require (slot_total M = 0) (RuntimeError ''round-robin pool is already initialized'')) (\<lambda>_.
     bind_res (require (0 < capacity_bytes) (RuntimeError ''capacity_bytes must be positive'')) (\<lambda>_.
     bind_res (require (0 < slots) (RuntimeError ''slot_count must be positive'')) (\<lambda>_.
     bind_res (parse_round_robin_dtype dtype_name) (\<lambda>dtype.
     bind_res (require (capacity_bytes mod element_size dtype = 0)
                 (RuntimeError ''capacity_bytes must be divisible by dtype size'')) (\<lambda>_.
     Inr (M\<lparr>slot_total := nat slots, slot_elems := nat (capacity_bytes div element_size dtype), slot_dtype := dtype,
            next_slot := 0\<rparr>))))))"

text \<open>Indexing an empty pool is undefined in C++ and an error here; \<open>narrow\<close> raises beyond the end of the slot.\<close>

definition acquire_slot :: "gpu_memory \<Rightarrow> nat list \<Rightarrow> gpu_tensor res" where
  "acquire_slot M shape =
     bind_res (require (next_slot M < slot_total M) (ExternalError ''no such slot'')) (\<lambda>_.
     bind_res (require (prod_list shape \<le> slot_elems M) (RuntimeError ''narrow'')) (\<lambda>_.
     Inr \<lparr>gt_storage = PoolSlot (next_slot M), gt_shape = shape, gt_dtype = slot_dtype M, gt_cuda = True,
          gt_device = slot_device M, gt_contiguous = True\<rparr>))"

text \<open>The kernels reduce the first elements of the current slot, whatever tensor is handed in.\<close>

definition preloaded_slot :: "slot_kernel \<Rightarrow> held_tensor \<Rightarrow> held_tensor res" where
  "preloaded_slot kern =
     (\<lambda>(view, M).
        bind_res (require (next_slot M < slot_total M) (RuntimeError ''oo_allreduce_slot_tuned(preloaded)'')) (\<lambda>_.
        let i = next_slot M; n = count_of view in
        bind_res (kern i n (first_elems n (slot_data M i))) (\<lambda>reduced.
        Inr (view, M\<lparr>slot_data := (slot_data M)(i := (\<lambda>j. if j < n then reduced j else slot_data M i j)),
                     next_slot := (i + 1) mod slot_total M\<rparr>))))"

text \<open>\<open>copy_\<close> would convert between element types; the adapter admits only tensors of the pool's type.\<close>

definition round_robin :: "slot_kernel \<Rightarrow> held_tensor \<Rightarrow> held_tensor res" where
  "round_robin kern =
     (\<lambda>(inp, M).
        bind_res (acquire_slot M (gt_shape inp)) (\<lambda>view.
        preloaded_slot kern (view, write_elems M view (contents M inp))))"

section \<open>Torch\<close>

text \<open>\<open>torch.mm(inp, weight.t(), out=slot)\<close> in the memory that the slot carries; an operand that overlaps the output is an
  error. \<open>F.linear\<close> puts the same values into an allocation of its own.\<close>

definition mm_out :: "mm_values \<Rightarrow> held_tensor \<Rightarrow> held_tensor \<Rightarrow> held_tensor \<Rightarrow> held_tensor res" where
  "mm_out mm =
     (\<lambda>(inp, _) (weight, _) (slot, M).
        bind_res (require (gt_storage slot \<noteq> gt_storage inp \<and> gt_storage slot \<noteq> gt_storage weight) (RuntimeError ''overlap'')) (\<lambda>_.
        Inr (slot, write_elems M slot (mm inp weight (contents M inp) (contents M weight)))))"

definition linear_tensor :: "mm_values \<Rightarrow> gpu_tensor \<Rightarrow> gpu_tensor \<Rightarrow> gpu_memory \<Rightarrow> held_tensor" where
  "linear_tensor mm inp weight M =
     (let t = inp\<lparr>gt_storage := Allocation (next_own M), gt_shape := [gt_shape inp ! 0, gt_shape weight ! 0],
                  gt_contiguous := True\<rparr>
      in (t, write_elems (M\<lparr>next_own := next_own M + 1\<rparr>) t (mm inp weight (contents M inp) (contents M weight))))"

definition with_meta :: "(held_tensor, 'x) torch_scheme \<Rightarrow> (held_tensor, 'x) torch_scheme" where
  "with_meta T = T\<lparr>tsize := (\<lambda>t. gt_shape (fst t)), is_cuda := (\<lambda>t. gt_cuda (fst t)),
     get_device := (\<lambda>t. gt_device (fst t)), is_contiguous := (\<lambda>t. gt_contiguous (fst t)),
     tdtype := (\<lambda>t. gt_dtype (fst t))\<rparr>"

text \<open>The extension in memory \<open>M\<close>, which is that of communicator \<open>c\<close>; other communicators are left as they are.\<close>

definition pool_native ::
  "mm_values \<Rightarrow> slot_kernel \<Rightarrow> 'c \<Rightarrow> gpu_memory \<Rightarrow> ('c, held_tensor) native \<Rightarrow> ('c, held_tensor) native" where
  "pool_native mm kern c M nat_ext = nat_ext\<lparr>
     acquire_all_reduce_slot := (\<lambda>c' shape. if c' = c then bind_res (acquire_slot M shape) (\<lambda>view. Inr (view, M))
                                             else acquire_all_reduce_slot nat_ext c' shape),
     all_reduce_preloaded_slot := (\<lambda>c' t. if c' = c then preloaded_slot kern t else all_reduce_preloaded_slot nat_ext c' t),
     all_reduce_round_robin := (\<lambda>c' t. if c' = c then round_robin kern t else all_reduce_round_robin nat_ext c' t),
     mm_transposed_out := mm_out mm\<rparr>"

section \<open>The pool of an adapter\<close>

text \<open>What the constructor of the adapter establishes and every collective keeps.\<close>

definition pool_matches :: "'c adapter \<Rightarrow> 'c \<Rightarrow> gpu_memory \<Rightarrow> bool" where
  "pool_matches ad c M \<longleftrightarrow> comm ad = Some c \<and> rr_torch_dtype ad = Some (slot_dtype M) \<and> slot_device M = device_index ad
     \<and> rr_capacity_bytes ad = int (slot_elems M) * element_size (slot_dtype M) \<and> 0 < element_size (slot_dtype M)
     \<and> next_slot M < slot_total M"

section \<open>Sequences of collectives\<close>

datatype pool_call = DirectSlot "held_tensor row_parallel_layer" gpu_tensor | ForcedReduce gpu_tensor

definition run_collective ::
  "(held_tensor, 'x) torch_scheme \<Rightarrow> ('c, held_tensor) native \<Rightarrow> held_tensor reduce_env \<Rightarrow> ('c, held_tensor) communicator \<Rightarrow>
   mm_values \<Rightarrow> 'c \<Rightarrow> slot_kernel \<Rightarrow> pool_call \<Rightarrow> gpu_memory \<Rightarrow> held_tensor res" where
  "run_collective T nat_ext env cc mm c kern call M =
     (case call of
        DirectSlot layer x \<Rightarrow> qwen_ooverlap_row_parallel (with_meta T) (pool_native mm kern c M nat_ext) (Some cc) layer (x, M)
      | ForcedReduce x \<Rightarrow> cc_all_reduce (with_meta T) (pool_native mm kern c M nat_ext) env cc (x, M))"

text \<open>Each call comes with what the kernels make of it, which depends on the other ranks.\<close>

fun run_collectives ::
  "(held_tensor, 'x) torch_scheme \<Rightarrow> ('c, held_tensor) native \<Rightarrow> held_tensor reduce_env \<Rightarrow> ('c, held_tensor) communicator \<Rightarrow>
   mm_values \<Rightarrow> 'c \<Rightarrow> (slot_kernel \<times> pool_call) list \<Rightarrow> gpu_memory \<Rightarrow> (gpu_tensor list \<times> gpu_memory) res" where
  "run_collectives T nat_ext env cc mm c [] M = Inr ([], M)"
| "run_collectives T nat_ext env cc mm c ((kern, call) # calls) M =
     bind_res (run_collective T nat_ext env cc mm c kern call M) (\<lambda>(y, M1).
     bind_res (run_collectives T nat_ext env cc mm c calls M1) (\<lambda>(ys, M2). Inr (y # ys, M2)))"

end
