(* ===== verification/SlotPoolProperties.thy ===== *)
theory SlotPoolProperties
  imports SlotPool AdapterProperties
begin

text \<open>
  What the hook does to the slot pool: it returns a view of the slot that the pool acquired, with the reduced product in it,
  as an all-reduce of the product would; and a result stays as it is until the pool comes round to its slot again.
\<close>

section \<open>Construction of the pool\<close>

lemma normalized_name_parsed: "normalize_rr_dtype s = Inr (name, d) \<Longrightarrow> parse_round_robin_dtype name = Inr d"
proof -
  have "\<forall>(a, name, d) \<in> set dtype_aliases. parse_round_robin_dtype name = Inr d" by code_simp
  moreover assume "normalize_rr_dtype s = Inr (name, d)"
  then have "\<exists>a. (a, name, d) \<in> set dtype_aliases"
    by (auto simp: normalize_rr_dtype_def split: option.splits dest: map_of_SomeD)
  ultimately show ?thesis by fast
qed

lemma configure_slots_pool:
  assumes "configure_slots nat_ext env c st = (st', Inr u, evs)"
  shows "\<exists>n d. parse_round_robin_dtype n = Inr d \<and> rr_torch_dtype st' = Some d \<and> device_index st' = device_index st
     \<and> evs ! 0 = ArPool c n (rr_capacity_bytes st') (rr_slot_count st')"
proof -
  obtain sc where sc: "read_slot_config env = Inr sc"
    and st': "st' = st\<lparr>rr_torch_dtype := Some (sc_rr_dtype sc), rr_slot_count := sc_rr_slots sc,
        rr_capacity_bytes := sc_rr_capacity sc, ag_torch_dtype := Some (sc_ag_dtype sc),
        ag_slot_count := sc_ag_slots sc, ag_capacity_bytes := sc_ag_capacity sc\<rparr>"
    and evs: "evs ! 0 = ArPool c (sc_rr_name sc) (sc_rr_capacity sc) (sc_rr_slots sc)"
    using assms by (auto simp: configure_slots_def Let_def bind_res_eq_Inr split: sum.splits)
  obtain s where "normalize_rr_dtype s = Inr (sc_rr_name sc, sc_rr_dtype sc)"
    using sc by (auto simp: read_slot_config_def elim!: bind_resE)
  from normalized_name_parsed [OF this] show ?thesis by (simp add: st' evs)
qed

lemma enabled_adapter_configured:
  assumes "adapter_init nat_ext sha1hex env grp fresh cur dev name = Inr (st, evs)" and "\<not> disabled st"
  shows "\<exists>c st0 st' evs'. configure_slots nat_ext env c st0 = (st', Inr (), evs') \<and> comm st0 = Some c
     \<and> evs = Created c # evs' \<and> st = st'\<lparr>disabled := False, qwen_direct_slot_enabled := (\<forall>m \<in> set qwen_methods. has_method nat_ext c m)\<rparr>"
proof -
  obtain idx where idx: "device_index_of cur dev = Inr idx"
    using assms by (auto simp: adapter_init_def elim: bind_resE)
  have "is_initialized nat_ext" "cuda_available nat_ext"
    using assms idx by (auto simp: adapter_init_def fresh_adapter_def Let_def split: if_splits)
  moreover from this obtain r w where rw: "rank_and_world grp = Inr (r, w)"
    using assms idx by (auto simp: adapter_init_def Let_def elim!: bind_resE)
  ultimately have ext: "load_ext nat_ext = Inr True"
    using assms idx by (auto simp: adapter_init_def Let_def fresh_adapter_def split: if_splits)
  let ?st = "(fresh_adapter idx)\<lparr>ad_rank := r, ad_world_size := w\<rparr>"
  note known = idx rw ext \<open>is_initialized nat_ext\<close> \<open>cuda_available nat_ext\<close>
  obtain c where c: "open_communicator nat_ext sha1hex env grp fresh name ?st = Inr c"
  proof (cases "open_communicator nat_ext sha1hex env grp fresh name ?st")
    case (Inl e)
    then have "(st, evs) = abandon nat_ext ?st" using assms(1) known by (simp add: adapter_init_def)
    then show thesis using assms(2) by (simp add: abandon_def fresh_adapter_def)
  qed
  obtain st' res es where cf: "configure_slots nat_ext env c (?st\<lparr>comm := Some c\<rparr>) = (st', res, es)" by (metis prod_cases3)
  show ?thesis
  proof (cases res)
    case (Inl e)
    from configure_slots_fail [OF cf [unfolded Inl]] have "disabled st'" by (simp add: fresh_adapter_def)
    moreover have "st = fst (abandon nat_ext st')"
      using assms(1) known c cf Inl by (cases "abandon nat_ext st'") (simp add: adapter_init_def)
    ultimately show ?thesis using assms(2) by (simp add: abandon_def)
  next
    case (Inr u)
    then have "st = st'\<lparr>disabled := False, qwen_direct_slot_enabled := (\<forall>m \<in> set qwen_methods. has_method nat_ext c m)\<rparr>"
      "evs = Created c # es" using assms(1) known c cf by (simp_all add: adapter_init_def)
    moreover have "comm (?st\<lparr>comm := Some c\<rparr>) = Some c" by simp
    ultimately show ?thesis using cf Inr by fastforce
  qed
qed

text \<open>An enabled adapter has asked for a pool that the extension can make and that matches it.\<close>

lemma constructed_pool:
  assumes "adapter_init nat_ext sha1hex env grp fresh cur dev name = Inr (ad, evs)" and "\<not> disabled ad"
    and "ArPool c n k s \<in> set evs" and "slot_total M0 = 0" and "slot_device M0 = device_index ad"
  shows "\<exists>M. init_pool n k s M0 = Inr M \<and> pool_matches ad c M \<and> slot_total M = nat (rr_slot_count ad)"
proof -
  obtain c' st0 st' evs' where cf: "configure_slots nat_ext env c' st0 = (st', Inr (), evs')" and st0: "comm st0 = Some c'" and evs: "evs = Created c' # evs'"
    and ad: "ad = st'\<lparr>disabled := False, qwen_direct_slot_enabled := (\<forall>m \<in> set qwen_methods. has_method nat_ext c' m)\<rparr>"
    using enabled_adapter_configured [OF assms(1,2)] by blast
  obtain n' d where n': "parse_round_robin_dtype n' = Inr d" "rr_torch_dtype st' = Some d"
      "evs' ! 0 = ArPool c' n' (rr_capacity_bytes st') (rr_slot_count st')"
    using configure_slots_pool [OF cf] by blast
  note cfd = configure_slots_done [OF cf]
  have "c = c' \<and> n = n' \<and> k = rr_capacity_bytes st' \<and> s = rr_slot_count st'"
    using assms(3) cfd n'(3) unfolding evs by auto
  moreover have "pool_ok (Some d) (rr_slot_count st') (rr_capacity_bytes st')" using cfd n'(2) by simp
  moreover have "comm ad = Some c'" using cfd st0 by (simp add: ad)
  ultimately show ?thesis using n'(1,2) assms(4,5) 
    by (auto simp: init_pool_def pool_matches_def pool_ok_def ad pos_imp_zdiv_nonneg_iff)
qed

section \<open>One collective\<close>

text \<open>What both ways of filling a slot come to: the values \<open>f\<close> are written into the acquired slot, which is then reduced.\<close>

definition slot_step :: "slot_kernel \<Rightarrow> (nat \<Rightarrow> real) \<Rightarrow> nat list \<Rightarrow> gpu_memory \<Rightarrow> held_tensor res" where
  "slot_step kern f shape M =
     bind_res (acquire_slot M shape) (\<lambda>view. preloaded_slot kern (view, write_elems M view f))"

lemma round_robin_step: "round_robin kern (x, M) = slot_step kern (contents M x) (gt_shape x) M"
  by (simp add: round_robin_def slot_step_def)

definition slot_view :: "gpu_memory \<Rightarrow> nat list \<Rightarrow> gpu_tensor" where
  "slot_view M shape = \<lparr>gt_storage = PoolSlot (next_slot M), gt_shape = shape, gt_dtype = slot_dtype M, gt_cuda = True,
          gt_device = slot_device M, gt_contiguous = True\<rparr>"

definition put_slot :: "gpu_memory \<Rightarrow> nat \<Rightarrow> (nat \<Rightarrow> real) \<Rightarrow> gpu_memory" where
  "put_slot M n f = M\<lparr>slot_data := (slot_data M)(next_slot M := (\<lambda>j. if j < n then f j else slot_data M (next_slot M) j))\<rparr>"

lemma write_slot_view: "write_elems M (slot_view M shape) f = put_slot M (prod_list shape) f"
  by (simp add: write_elems_def slot_view_def put_slot_def count_of_def)

lemma put_slot_simps [simp]:
  "next_slot (put_slot M n f) = next_slot M" "slot_total (put_slot M n f) = slot_total M"
  "own_data (put_slot M n f) = own_data M" "next_own (put_slot M n f) = next_own M"
  "slot_elems (put_slot M n f) = slot_elems M" "slot_dtype (put_slot M n f) = slot_dtype M"
  "slot_device (put_slot M n f) = slot_device M"
  "put_slot (put_slot M n f) n g = put_slot M n g" "put_slot M n (first_elems n f) = put_slot M n f"
  "first_elems n (slot_data (put_slot M n f) (next_slot M)) = first_elems n f"
  "first_elems n (first_elems n f) = first_elems n f"
  by (simp_all add: put_slot_def first_elems_def fun_eq_iff cong: if_cong)

lemma reduced_contents:
  "contents ((put_slot M (prod_list shape) f)\<lparr>next_slot := k\<rparr>) (slot_view M shape) = first_elems (prod_list shape) f"
  by (simp add: contents_def storage_elems_def slot_view_def put_slot_def first_elems_def count_of_def fun_eq_iff)

lemma preloaded_slot_put:
  "preloaded_slot kern (view, M) =
     bind_res (require (next_slot M < slot_total M) (RuntimeError ''oo_allreduce_slot_tuned(preloaded)'')) (\<lambda>_.
     bind_res (kern (next_slot M) (count_of view) (first_elems (count_of view) (slot_data M (next_slot M)))) (\<lambda>reduced.
     Inr (view, (put_slot M (count_of view) reduced)\<lparr>next_slot := (next_slot M + 1) mod slot_total M\<rparr>)))"
  by (simp add: preloaded_slot_def Let_def put_slot_def)

lemma slot_step_eq:
  "slot_step kern f shape M =
     bind_res (acquire_slot M shape) (\<lambda>_.
     bind_res (kern (next_slot M) (prod_list shape) (first_elems (prod_list shape) f)) (\<lambda>reduced.
     Inr (slot_view M shape, (put_slot M (prod_list shape) reduced)\<lparr>next_slot := (next_slot M + 1) mod slot_total M\<rparr>)))"
proof -
  have "count_of (slot_view M shape) = prod_list shape" by (simp add: count_of_def slot_view_def)
  then show ?thesis
    unfolding slot_step_def acquire_slot_def slot_view_def [symmetric]
    by (cases "next_slot M < slot_total M"; cases "prod_list shape \<le> slot_elems M")
      (simp_all add: write_slot_view preloaded_slot_put)
qed

lemma slot_step_result:
  assumes "slot_step kern f shape M = Inr (y, M')"
  obtains red where "y = slot_view M shape" "next_slot M < slot_total M"
    and "kern (next_slot M) (prod_list shape) (first_elems (prod_list shape) f) = Inr red"
    and "M' = (put_slot M (prod_list shape) red)\<lparr>next_slot := (next_slot M + 1) mod slot_total M\<rparr>"
  using assms by (auto simp: slot_step_eq acquire_slot_def elim!: bind_resE)

lemma slot_step_first: "slot_step kern (first_elems (prod_list shape) f) shape M = slot_step kern f shape M"
  by (simp add: slot_step_eq)

text \<open>Other allocations neither matter to a slot nor change with it.\<close>

lemma slot_step_own:
  assumes "slot_step kern f shape M = Inr (y, M')"
  shows "slot_step kern f shape (M\<lparr>own_data := d, next_own := a\<rparr>) = Inr (y, M'\<lparr>own_data := d, next_own := a\<rparr>)"
  using assms
  by (auto simp: slot_step_eq acquire_slot_def slot_view_def put_slot_def cong: if_cong elim!: bind_resE)

section \<open>The hook\<close>

lemma with_meta_simps [simp]:
  "tsize (with_meta T) = (\<lambda>t. gt_shape (fst t))" "is_cuda (with_meta T) = (\<lambda>t. gt_cuda (fst t))"
  "get_device (with_meta T) = (\<lambda>t. gt_device (fst t))" "is_contiguous (with_meta T) = (\<lambda>t. gt_contiguous (fst t))"
  "tdtype (with_meta T) = (\<lambda>t. gt_dtype (fst t))" "numel (with_meta T) t = int (count_of (fst t))"
  by (simp_all add: with_meta_def numel_def count_of_def)

lemma hook_slot_step:
  assumes "qwen_row_parallel (with_meta T) (pool_native mm kern c M nat_ext) ad (x, M) (w, Mw) = Inr r" and "comm ad = Some c"
  shows "slot_step kern (mm x w (contents M x) (contents M w)) [gt_shape x ! 0, gt_shape w ! 0] M = Inr r"
    and "\<not> disabled ad \<and> gt_cuda x \<and> gt_device x = device_index ad \<and> rr_torch_dtype ad = Some (gt_dtype x)
      \<and> int (gt_shape x ! 0 * gt_shape w ! 0) * element_size (gt_dtype x) \<le> rr_capacity_bytes ad"
proof -
  let ?shape = "[gt_shape x ! 0, gt_shape w ! 0]"
  obtain slot filled where g: "\<not> disabled ad" "gt_cuda x" "gt_device x = device_index ad" "rr_torch_dtype ad = Some (gt_dtype x)"
      "int (gt_shape x ! 0 * gt_shape w ! 0) * element_size (gt_dtype x) \<le> rr_capacity_bytes ad"
    and slot: "bind_res (acquire_slot M ?shape) (\<lambda>view. Inr (view, M)) = Inr slot"
    and filled: "mm_out mm (x, M) (w, Mw) slot = Inr filled" and r: "preloaded_slot kern filled = Inr r"
    using assms(1) by (rule qwen_guards) (auto simp: assms(2) pool_native_def)
  obtain view where view: "acquire_slot M ?shape = Inr view" "slot = (view, M)" using slot by (auto elim!: bind_resE)
  have "filled = (view, write_elems M view (mm x w (contents M x) (contents M w)))"
    using filled by (auto simp: mm_out_def view(2) elim!: bind_resE)
  then show "slot_step kern (mm x w (contents M x) (contents M w)) ?shape M = Inr r"
    using r by (simp add: slot_step_def view(1))
  show "\<not> disabled ad \<and> gt_cuda x \<and> gt_device x = device_index ad \<and> rr_torch_dtype ad = Some (gt_dtype x)
      \<and> int (gt_shape x ! 0 * gt_shape w ! 0) * element_size (gt_dtype x) \<le> rr_capacity_bytes ad"
    using g by blast
qed

lemma forced_slot_step:
  assumes "force_allreduce_backend cc = ''ooverlap''" and "ooverlap_comm cc = Some ad" and "comm ad = Some c"
  shows "cc_all_reduce (with_meta T) (pool_native mm kern c M nat_ext) env cc (x, M) =
     (if should_ooverlap_ar (with_meta T) ad (x, M) then slot_step kern (contents M x) (gt_shape x) M
      else Inl (RuntimeError ''Forced ooverlap all-reduce backend is unavailable or rejected''))"
proof -
  have "disabled ad \<Longrightarrow> \<not> should_ooverlap_ar (with_meta T) ad (x, M)" by (simp add: should_iff)
  then show ?thesis using assms
    by (auto simp: cc_all_reduce_def all_reduce_forced_def ar_all_reduce_def assert_some_def pool_native_def round_robin_step
        map_sum_def split: sum.split)
qed

lemma linear_tensor_facts:
  assumes "linear_tensor mm x w M = (p, Mp)"
  shows "gt_shape p = [gt_shape x ! 0, gt_shape w ! 0]" and "gt_dtype p = gt_dtype x" and "gt_cuda p = gt_cuda x"
    and "gt_device p = gt_device x" and "gt_contiguous p" and "Mp = M\<lparr>own_data := own_data Mp, next_own := next_own Mp\<rparr>"
    and "contents Mp p = first_elems (count_of p) (mm x w (contents M x) (contents M w))"
proof -
  let ?p = "x\<lparr>gt_storage := Allocation (next_own M), gt_shape := [gt_shape x ! 0, gt_shape w ! 0], gt_contiguous := True\<rparr>"
  have p: "p = ?p" and Mp: "Mp = write_elems (M\<lparr>next_own := next_own M + 1\<rparr>) ?p (mm x w (contents M x) (contents M w))"
    using assms by (auto simp: linear_tensor_def Let_def)
  show "gt_shape p = [gt_shape x ! 0, gt_shape w ! 0]" "gt_dtype p = gt_dtype x" "gt_cuda p = gt_cuda x"
    "gt_device p = gt_device x" "gt_contiguous p" by (simp_all add: p)
  show "Mp = M\<lparr>own_data := own_data Mp, next_own := next_own Mp\<rparr>" by (simp add: Mp write_elems_def)
  show "contents Mp p = first_elems (count_of p) (mm x w (contents M x) (contents M w))"
    by (simp add: Mp p contents_def storage_elems_def write_elems_def first_elems_def fun_eq_iff)
qed

lemma direct_slot_call:
  assumes "direct_slot_active (Some cc) = Some ad"
    and "qwen_ooverlap_row_parallel T nat_ext (Some cc) layer inp = Inr y"
  shows "ooverlap_comm cc = Some ad" and "qwen_row_parallel T nat_ext ad inp (layer_weight layer) = Inr y"
    and "input_is_parallel layer \<and> reduce_results layer \<and> 1 < tp_size layer \<and> \<not> has_bias layer
      \<and> quant_method layer = ''UnquantizedLinearMethod''"
  using assms by (auto simp: direct_slot_active_def qwen_ooverlap_row_parallel_def split: option.splits if_splits elim!: bind_resE)

section \<open>Sequences of collectives\<close>

lemma run_collective_step:
  assumes "force_allreduce_backend cc = ''ooverlap''" and "direct_slot_active (Some cc) = Some ad" and "comm ad = Some c"
    and "run_collective T nat_ext env cc mm c kern call M = Inr (y, M1)"
  shows "\<exists>f shape. slot_step kern f shape M = Inr (y, M1)"
proof (cases call)
  case (DirectSlot layer x)
  then have "qwen_ooverlap_row_parallel (with_meta T) (pool_native mm kern c M nat_ext) (Some cc) layer (x, M) = Inr (y, M1)"
    using assms(4) by (simp add: run_collective_def)
  from direct_slot_call(2) [OF assms(2) this]
  have "qwen_row_parallel (with_meta T) (pool_native mm kern c M nat_ext) ad (x, M) (fst (layer_weight layer), snd (layer_weight layer))
      = Inr (y, M1)" by simp
  from hook_slot_step(1) [OF this assms(3)] show ?thesis by blast
next
  case (ForcedReduce x)
  have "ooverlap_comm cc = Some ad" using assms(2) by (auto simp: direct_slot_active_def split: option.splits if_splits)
  with ForcedReduce assms show ?thesis
    by (auto simp: run_collective_def forced_slot_step split: if_splits)
qed

text \<open>Every collective takes the next slot, and the others keep their elements.\<close>

lemma run_collectives_slots:
  assumes "force_allreduce_backend cc = ''ooverlap''" and "direct_slot_active (Some cc) = Some ad" and "comm ad = Some c"
    and "run_collectives T nat_ext env cc mm c calls M = Inr (ys, M')" and "next_slot M < slot_total M"
  shows "length ys = length calls \<and> slot_total M' = slot_total M \<and> next_slot M' = (next_slot M + length calls) mod slot_total M
     \<and> (\<forall>i < length calls. gt_storage (ys ! i) = PoolSlot ((next_slot M + i) mod slot_total M))
     \<and> (\<forall>b. (\<forall>i < length calls. b \<noteq> (next_slot M + i) mod slot_total M) \<longrightarrow> slot_data M' b = slot_data M b)"
  using assms(4,5)
proof (induction calls arbitrary: M ys)
  case (Cons kc calls)
  obtain kern call where kc: "kc = (kern, call)" by (cases kc)
  obtain y M1 ys' where one: "run_collective T nat_ext env cc mm c kern call M = Inr (y, M1)"
    and rest: "run_collectives T nat_ext env cc mm c calls M1 = Inr (ys', M')" and ys: "ys = y # ys'"
    using Cons.prems(1) by (auto simp: kc elim!: bind_resE)
  from run_collective_step [OF assms(1-3) one] obtain f shape where "slot_step kern f shape M = Inr (y, M1)" by blast
  then obtain n reduced where y: "gt_storage y = PoolSlot (next_slot M)"
    and M1: "M1 = (put_slot M n reduced)\<lparr>next_slot := (next_slot M + 1) mod slot_total M\<rparr>"
    by (rule slot_step_result) (auto simp: slot_view_def)
  have t: "next_slot M1 = (next_slot M + 1) mod slot_total M" "slot_total M1 = slot_total M"
    and keep: "\<And>b. b \<noteq> next_slot M \<Longrightarrow> slot_data M1 b = slot_data M b"
    by (simp_all add: M1) (simp add: put_slot_def)
  have "next_slot M1 < slot_total M1" using Cons.prems(2) by (simp add: t)
  note IH = Cons.IH [OF rest this, unfolded t mod_add_left_eq]
  have shift: "next_slot M + 1 + i = next_slot M + Suc i" for i by simp
  have own: "next_slot M mod slot_total M = next_slot M" using Cons.prems(2) by simp
  have "gt_storage (ys ! i) = PoolSlot ((next_slot M + i) mod slot_total M)" if "i < length (kc # calls)" for i
    using that IH y own by (cases i) (simp_all add: ys)
  moreover have "slot_data M' b = slot_data M b" if b: "\<forall>i < length (kc # calls). b \<noteq> (next_slot M + i) mod slot_total M" for b
  proof -
    have "b \<noteq> next_slot M" using b own by force
    moreover have "\<forall>i < length calls. b \<noteq> (next_slot M + 1 + i) mod slot_total M" using b unfolding shift by auto
    ultimately show ?thesis using IH keep by simp
  qed
  ultimately show ?case using IH by (simp add: ys)
qed simp

lemma run_collectives_keep_pool:
  assumes "force_allreduce_backend cc = ''ooverlap''" and "direct_slot_active (Some cc) = Some ad" and "comm ad = Some c"
    and "run_collectives T nat_ext env cc mm c calls M = Inr (ys, M')" and "pool_matches ad c M"
  shows "pool_matches ad c M'"
  using assms(4,5)
proof (induction calls arbitrary: M ys)
  case (Cons kc calls)
  obtain kern call where kc: "kc = (kern, call)" by (cases kc)
  obtain y M1 ys' where one: "run_collective T nat_ext env cc mm c kern call M = Inr (y, M1)"
    and rest: "run_collectives T nat_ext env cc mm c calls M1 = Inr (ys', M')"
    using Cons.prems(1) by (auto simp: kc elim!: bind_resE)
  from run_collective_step [OF assms(1-3) one] obtain f shape where "slot_step kern f shape M = Inr (y, M1)" by blast
  then have "pool_matches ad c M1"
    by (rule slot_step_result) (use Cons.prems(2) in \<open>auto simp: pool_matches_def\<close>)
  from Cons.IH [OF rest this] show ?case .
qed simp

lemma run_collectives_append:
  "run_collectives T nat_ext env cc mm c (as @ bs) M =
     bind_res (run_collectives T nat_ext env cc mm c as M) (\<lambda>(ys, M1).
     bind_res (run_collectives T nat_ext env cc mm c bs M1) (\<lambda>(zs, M2). Inr (ys @ zs, M2)))"
proof (induction as arbitrary: M)
  case Nil
  show ?case by (cases "run_collectives T nat_ext env cc mm c bs M") auto
next
  case (Cons kc as)
  obtain kern call where kc: "kc = (kern, call)" by (cases kc)
  show ?case
  proof (cases "run_collective T nat_ext env cc mm c kern call M")
    case (Inr r)
    obtain y M1 where r: "r = (y, M1)" by (cases r)
    show ?thesis
    proof (cases "run_collectives T nat_ext env cc mm c as M1")
      case out: (Inr q)
      obtain ys M2 where "q = (ys, M2)" by (cases q)
      then show ?thesis by (cases "run_collectives T nat_ext env cc mm c bs M2") (auto simp: kc Inr r out Cons.IH)
    qed (simp add: kc Inr r Cons.IH)
  qed (simp add: kc)
qed

section \<open>A pool to evaluate\<close>

text \<open>Two ranks with the same contributions, so that the kernels double a slot; the matrix product is that of the definition.\<close>

definition held_torch :: "held_tensor torch" where
  "held_torch = \<lparr>tsize = (\<lambda>t. gt_shape (fst t)), telem = (\<lambda>(t, M) ix. contents M t (ravel (gt_shape t) ix)),
     treshape = (\<lambda>(t, M) shape. (t\<lparr>gt_shape := shape\<rparr>, M)), tmovedim0 = (\<lambda>t _. t), is_cuda = (\<lambda>t. gt_cuda (fst t)),
     get_device = (\<lambda>t. gt_device (fst t)), is_contiguous = (\<lambda>t. gt_contiguous (fst t)), tdtype = (\<lambda>t. gt_dtype (fst t))\<rparr>"

definition matrix_product :: mm_values where
  "matrix_product x w f g = (\<lambda>j. let k = gt_shape x ! 1; n = gt_shape w ! 0
     in \<Sum>t \<leftarrow> [0..<k]. f (j div n * k + t) * g (j mod n * k + t))"

definition doubling :: slot_kernel where
  "doubling i n f = Inr (\<lambda>j. 2 * f j)"

definition held_native :: "(nat, held_tensor) native" where
  "held_native = \<lparr>is_initialized = True, cuda_available = True, load_ext = Inr True,
     new_communicator = (\<lambda>_ _ _. Inr 7), has_method = (\<lambda>_ _. True),
     init_round_robin_slots = (\<lambda>_ _ _ _. Inr ()), init_all_gather_round_robin_slots = (\<lambda>_ _ _ _. Inr ()),
     all_reduce_round_robin = (\<lambda>_ _. Inl TypeError), all_gather_round_robin = (\<lambda>_ _. Inl TypeError),
     acquire_all_reduce_slot = (\<lambda>_ _. Inl TypeError), all_reduce_preloaded_slot = (\<lambda>_ _. Inl TypeError),
     native_destroy = (\<lambda>_. Inr ()), mm_transposed_out = (\<lambda>_ _ _. Inl TypeError)\<rparr>"

definition held_comm :: "(nat, held_tensor) communicator" where
  "held_comm = \<lparr>force_allreduce_backend = ''ooverlap'', cc_world_size = 2, rank_in_group = 0, cc_ranks = [0, 1],
     pynccl_comm = None, ca_comm = None, qr_comm = None, symm_mem_comm = None, fi_ar_comm = None,
     aiter_ar_comm = None, ooverlap_comm = Some demo_adapter, all2all_manager = None\<rparr>"

definition held_env :: "held_tensor reduce_env" where
  "held_env = \<lparr>should_nccl_symm_mem_allreduce = (\<lambda>_. False),
     all_reduce_symmetric_with_copy = (\<lambda>_. Inr None), dist_all_reduce = (\<lambda>t. Inr t)\<rparr>"

definition bare_memory :: gpu_memory where
  "bare_memory = \<lparr>own_data = (\<lambda>a j. real (Suc a)), next_own = 2, slot_data = (\<lambda>_ _. 0), slot_total = 0, slot_elems = 0,
     slot_dtype = BF16, slot_device = 0, next_slot = 0\<rparr>"

definition pool_memory :: gpu_memory where
  "pool_memory = bare_memory\<lparr>slot_total := 32, slot_elems := 4194304\<rparr>"

definition held_matrix :: "nat \<Rightarrow> gpu_tensor" where
  "held_matrix a = \<lparr>gt_storage = Allocation a, gt_shape = [1, 2], gt_dtype = BF16, gt_cuda = True, gt_device = 0, gt_contiguous = True\<rparr>"

definition held_layer :: "held_tensor row_parallel_layer" where
  "held_layer = \<lparr>input_is_parallel = True, reduce_results = True, tp_size = 2, has_bias = False,
     quant_method = ''UnquantizedLinearMethod'', layer_weight = (held_matrix 1, pool_memory), layer_forward = (\<lambda>t. Inr t)\<rparr>"

lemmas held_defs = held_matrix_def held_layer_def held_comm_def demo_adapter_def

lemma held_init:
  "adapter_init held_native id Map.empty demo_group ''f00d'' 0 \<lparr>device_type = ''cuda'', device_ordinal = Some 0\<rparr> ''tp''
     = Inr (demo_adapter, demo_events)"
  by (simp add: adapter_init_def device_index_of_def held_native_def demo_group_def rank_and_world_def
      open_communicator_def gather_visible_devices_def auto_broker_key_def set_env_def
      shared_broker_launch_id_def launch_payload_def group_ranks_def configure_slots_def demo_slot_config Let_def
      fresh_adapter_def demo_adapter_def demo_events_def)

lemma held_active: "direct_slot_active (Some held_comm) = Some demo_adapter"
  by (simp add: direct_slot_active_def held_comm_def demo_adapter_def)

lemma held_hook:
  "\<exists>M'. qwen_ooverlap_row_parallel (with_meta held_torch) (pool_native matrix_product doubling 7 pool_memory held_native)
     (Some held_comm) held_layer (held_matrix 0, pool_memory) = Inr (slot_view pool_memory [1, 1], M')"
  by (simp add: qwen_ooverlap_row_parallel_def direct_slot_active_def qwen_row_parallel_def pool_native_def acquire_slot_def mm_out_def
      preloaded_slot_put write_elems_def slot_view_def pool_memory_def bare_memory_def doubling_def count_of_def held_defs)

section \<open>Properties\<close>

text \<open>C24: Where the hook uses the direct slot it does what a forced OOverlap all-reduce of the layer's product does. Let it run in memory
  \<open>M\<close> and return tensor \<open>y\<close> in memory \<open>M'\<close>. If the layer's product \<open>p\<close> is computed into an allocation of its own and all-reduced, the
  same tensor comes back, and the pool is the same. The tensor is a view of the slot that was next, it holds what the kernels make
  of the product, the pool moves on by one slot, no other allocation changes, and the layer is a bias-free, unquantized one
  with parallel input that reduces over several ranks.\<close>

theorem qwen_hook_computes_reduced_product:
  assumes "force_allreduce_backend cc = ''ooverlap''" and "direct_slot_active (Some cc) = Some ad" and "comm ad = Some c"
    and "qwen_ooverlap_row_parallel (with_meta T) (pool_native mm kern c M nat_ext) (Some cc) layer (x, M) = Inr (y, M')"
    and "layer_weight layer = (w, Mw)" and "linear_tensor mm x w M = (p, Mp)" and "0 < count_of p"
  shows "cc_all_reduce (with_meta T) (pool_native mm kern c Mp nat_ext) env cc (p, Mp)
       = Inr (y, M'\<lparr>own_data := own_data Mp, next_own := next_own Mp\<rparr>)
     \<and> gt_storage y = PoolSlot (next_slot M) \<and> next_slot M' = (next_slot M + 1) mod slot_total M
     \<and> (\<exists>reduced. kern (next_slot M) (count_of p) (contents Mp p) = Inr reduced \<and> (\<forall>j < count_of p. contents M' y j = reduced j))
     \<and> own_data M' = own_data M
     \<and> input_is_parallel layer \<and> reduce_results layer \<and> 1 < tp_size layer \<and> \<not> has_bias layer
     \<and> quant_method layer = ''UnquantizedLinearMethod''"
proof -
  note p = linear_tensor_facts [OF assms(6)] and call = direct_slot_call [OF assms(2,4)]
  note c = assms(3)
  note hook = hook_slot_step [OF call(2) [unfolded assms(5)] c]
  have n: "prod_list (gt_shape p) = count_of p" by (simp add: count_of_def)
  have step: "slot_step kern (contents Mp p) (gt_shape p) M = Inr (y, M')"
    using hook(1) slot_step_first [of kern "gt_shape p"] unfolding p(7) n by (simp add: p(1))
  then obtain reduced where r: "y = slot_view M (gt_shape p)"
      "kern (next_slot M) (count_of p) (first_elems (count_of p) (contents Mp p)) = Inr reduced"
      "M' = (put_slot M (count_of p) reduced)\<lparr>next_slot := (next_slot M + 1) mod slot_total M\<rparr>"
    by (rule slot_step_result) (auto simp: n)
  have "slot_step kern (contents Mp p) (gt_shape p) Mp = Inr (y, M'\<lparr>own_data := own_data Mp, next_own := next_own Mp\<rparr>)"
    using slot_step_own [OF step] p(6) by metis
  moreover have "should_ooverlap_ar (with_meta T) ad (p, Mp)"
    using hook(2) c assms(7) p(1-5) by (simp add: should_iff nbytes_def count_of_def)
  moreover have "first_elems (count_of p) (contents Mp p) = contents Mp p" by (simp add: contents_def)
  moreover have "contents M' y j = reduced j" if "j < count_of p" for j
    using that using reduced_contents [where M = M and shape = "gt_shape p" and f = reduced] by (simp add: r(1,3) n first_elems_def)
  ultimately show ?thesis
    using r(2) call(3) forced_slot_step [OF assms(1) call(1) c, of T mm kern Mp nat_ext env p]
    by (simp add: r(1) slot_view_def) (simp add: r(3))
qed

theorem qwen_hook_computes_reduced_product_witness:
  "\<exists>M'. qwen_ooverlap_row_parallel (with_meta held_torch) (pool_native matrix_product doubling 7 pool_memory held_native)
       (Some held_comm) held_layer (held_matrix 0, pool_memory) = Inr (slot_view pool_memory [1, 1], M')
     \<and> contents M' (slot_view pool_memory [1, 1]) 0 = 8"
proof -
  obtain M' where h: "qwen_ooverlap_row_parallel (with_meta held_torch) (pool_native matrix_product doubling 7 pool_memory held_native)
     (Some held_comm) held_layer (held_matrix 0, pool_memory) = Inr (slot_view pool_memory [1, 1], M')" using held_hook by blast
  obtain p Mp where p: "linear_tensor matrix_product (held_matrix 0) (held_matrix 1) pool_memory = (p, Mp)" by (metis surj_pair)
  have n: "count_of p = 1" using linear_tensor_facts(1) [OF p] by (simp add: count_of_def held_matrix_def)
  have v: "contents Mp p 0 = 4"
    unfolding linear_tensor_facts(7) [OF p] n
    by (simp add: first_elems_def matrix_product_def Let_def contents_def storage_elems_def count_of_def held_matrix_def
        pool_memory_def bare_memory_def upt_rec)
  have "force_allreduce_backend held_comm = ''ooverlap''" "comm demo_adapter = Some 7"
    "layer_weight held_layer = (held_matrix 1, pool_memory)" "0 < count_of p"
    using n by (simp_all add: held_defs)
  from qwen_hook_computes_reduced_product [OF this(1) held_active this(2) h this(3) p this(4), of held_env]
  have "\<exists>reduced. doubling (next_slot pool_memory) 1 (contents Mp p) = Inr reduced
      \<and> contents M' (slot_view pool_memory [1, 1]) 0 = reduced 0" unfolding n by auto
  then have "contents M' (slot_view pool_memory [1, 1]) 0 = 8" using v by (auto simp: doubling_def)
  with h show ?thesis by blast
qed

text \<open>C9: A reduced tensor stays as it is until the pool comes round. An enabled adapter asks for a pool of \<open>N\<close> slots that the
  extension can make. On that pool, in any returning sequence of direct-slot layers and forced all-reduces, call number \<open>k\<close> returns a
  view of slot \<open>k mod N\<close>, which keeps the elements it had when the call returned as long as fewer than \<open>N\<close> calls have
  followed; the pool goes on to match the adapter, and two results share their memory exactly if their numbers agree modulo \<open>N\<close>.\<close>

theorem reduced_tensors_stay:
  assumes "adapter_init nat_ext sha1hex os grp fresh cur dev name = Inr (ad, evs)" and "ArPool c n k s \<in> set evs"
    and "force_allreduce_backend cc = ''ooverlap''" and "direct_slot_active (Some cc) = Some ad"
    and "slot_total M0 = 0" and "slot_device M0 = device_index ad"
  shows "\<exists>M. init_pool n k s M0 = Inr M \<and> pool_matches ad c M
     \<and> (let N = nat (rr_slot_count ad) in
        \<forall>before call after ys M'. run_collectives T nat_ext env cc mm c (before @ call # after) M = Inr (ys, M') \<longrightarrow>
          pool_matches ad c M'
          \<and> (\<exists>M1. run_collectives T nat_ext env cc mm c (before @ [call]) M = Inr (take (Suc (length before)) ys, M1)
            \<and> gt_storage (ys ! length before) = PoolSlot (length before mod N)
            \<and> (length after < N \<longrightarrow> contents M' (ys ! length before) = contents M1 (ys ! length before)))
          \<and> (\<forall>i < length ys. \<forall>j < length ys. gt_storage (ys ! i) = gt_storage (ys ! j) \<longleftrightarrow> i mod N = j mod N))"
proof -
  have on: "\<not> disabled ad"
    using adapter_init_contract [OF assms(1)] assms(4)
    by (auto simp: init_contract_def off_def enabled_with_def direct_slot_active_def split: option.splits if_splits)
  obtain M where M: "init_pool n k s M0 = Inr M" "pool_matches ad c M" "slot_total M = nat (rr_slot_count ad)"
    using constructed_pool [OF assms(1) on assms(2,5,6)] by blast
  let ?N = "slot_total M" and ?run = "run_collectives T nat_ext env cc mm c"
  have c: "comm ad = Some c" and pos: "next_slot M < ?N" and zero: "next_slot M = 0"
    using M(1,2) by (auto simp: pool_matches_def init_pool_def elim!: bind_resE)
  note slots = run_collectives_slots [OF assms(3,4) c]
  have "pool_matches ad c M'
          \<and> (\<exists>M1. ?run (before @ [call]) M = Inr (take (Suc (length before)) ys, M1)
            \<and> gt_storage (ys ! length before) = PoolSlot (length before mod ?N)
            \<and> (length after < ?N \<longrightarrow> contents M' (ys ! length before) = contents M1 (ys ! length before)))
          \<and> (\<forall>i < length ys. \<forall>j < length ys. gt_storage (ys ! i) = gt_storage (ys ! j) \<longleftrightarrow> i mod ?N = j mod ?N)"
    if run: "?run (before @ call # after) M = Inr (ys, M')" for before call after ys M'
  proof -
    obtain zs M1 ws where first: "?run (before @ [call]) M = Inr (zs, M1)" and rest: "?run after M1 = Inr (ws, M')" and ys: "ys = zs @ ws"
    proof -
      have "bind_res (?run (before @ [call]) M) (\<lambda>(zs, M1). bind_res (?run after M1) (\<lambda>(ws, M2). Inr (zs @ ws, M2))) = Inr (ys, M')"
        using run run_collectives_append [where as = "before @ [call]" and bs = after and T = T and nat_ext = nat_ext and env = env
          and cc = cc and mm = mm and c = c and M = M] by simp
      then show thesis using that by (auto elim!: bind_resE)
    qed
    note whole = slots [OF run pos] and one = slots [OF first pos]
    then have len: "length zs = Suc (length before)" and M1: "slot_total M1 = ?N" "next_slot M1 = Suc (length before) mod ?N"
      by (simp_all add: zero)
    have place: "gt_storage (ys ! i) = PoolSlot (i mod ?N)" if "i < length ys" for i
      using whole that by (simp add: zero)
    have here: "gt_storage (ys ! length before) = PoolSlot (length before mod ?N)" using place whole by simp
    have "slot_data M' (length before mod ?N) = slot_data M1 (length before mod ?N)" if "length after < ?N"
    proof -
      have "length before mod ?N \<noteq> (next_slot M1 + i) mod slot_total M1" if "i < length after" for i
      proof
        assume "length before mod ?N = (next_slot M1 + i) mod slot_total M1"
        then have "length before mod ?N = (length before + Suc i) mod ?N" by (simp add: M1 mod_simps)
        then have "?N dvd Suc i" using mod_eq_dvd_iff_nat [of "length before" "length before + Suc i" ?N] by simp
        then show False using that \<open>length after < ?N\<close> by (auto dest: dvd_imp_le)
      qed
      then show ?thesis using slots [OF rest] pos M1 by simp
    qed
    then have "length after < ?N \<longrightarrow> contents M' (ys ! length before) = contents M1 (ys ! length before)"
      by (simp add: contents_def storage_elems_def here)
    moreover have "zs = take (Suc (length before)) ys" by (simp add: ys len)
    ultimately show ?thesis using first here place run_collectives_keep_pool [OF assms(3,4) c run M(2)] by auto
  qed
  then show ?thesis using M by (auto simp: Let_def)
qed

theorem reduced_tensors_stay_witness:
  "\<exists>M ys M'. init_pool ''bf16'' 8388608 32 bare_memory = Inr M
     \<and> run_collectives held_torch held_native held_env held_comm matrix_product 7
         [(doubling, DirectSlot held_layer (held_matrix 0)), (doubling, ForcedReduce (held_matrix 0))] M = Inr (ys, M')
     \<and> gt_storage (ys ! 0) = PoolSlot 0 \<and> contents M' (ys ! 0) 0 = 8"
proof -
  let ?native = "\<lambda>M. pool_native matrix_product doubling 7 M held_native"
  obtain M1 where h: "qwen_ooverlap_row_parallel (with_meta held_torch) (?native pool_memory) (Some held_comm) held_layer
      (held_matrix 0, pool_memory) = Inr (slot_view pool_memory [1, 1], M1)" using held_hook by blast
  have cc: "force_allreduce_backend held_comm = ''ooverlap''" "ooverlap_comm held_comm = Some demo_adapter" "comm demo_adapter = Some 7"
    and w: "layer_weight held_layer = (held_matrix 1, pool_memory)" by (simp_all add: held_defs)
  from hook_slot_step(1) [OF direct_slot_call(2) [OF held_active h, unfolded w] cc(3)]
  obtain red where red: "doubling 0 1 (first_elems 1 (matrix_product (held_matrix 0) (held_matrix 1)
        (contents pool_memory (held_matrix 0)) (contents pool_memory (held_matrix 1)))) = Inr red"
    and M1: "M1 = (put_slot pool_memory 1 red)\<lparr>next_slot := 1\<rparr>"
    by (rule slot_step_result) (auto simp: held_matrix_def pool_memory_def bare_memory_def)
  have "should_ooverlap_ar (with_meta held_torch) demo_adapter (held_matrix 0, M1)"
    by (simp add: should_iff nbytes_def count_of_def held_defs)
  moreover have "\<exists>r. slot_step doubling (contents M1 (held_matrix 0)) (gt_shape (held_matrix 0)) M1 = Inr r"
    by (simp add: M1 slot_step_eq acquire_slot_def doubling_def held_matrix_def pool_memory_def bare_memory_def)
  ultimately have "\<exists>r. cc_all_reduce (with_meta held_torch) (?native M1) held_env held_comm (held_matrix 0, M1) = Inr r"
    by (simp add: forced_slot_step [OF cc])
  then obtain y2 M2 where f: "cc_all_reduce (with_meta held_torch) (?native M1) held_env held_comm (held_matrix 0, M1) = Inr (y2, M2)"
    by (metis surj_pair)
  let ?calls = "[(doubling, DirectSlot held_layer (held_matrix 0)), (doubling, ForcedReduce (held_matrix 0))]"
  have run: "run_collectives held_torch held_native held_env held_comm matrix_product 7 ?calls pool_memory
      = Inr ([slot_view pool_memory [1, 1], y2], M2)"
    by (simp add: run_collective_def h f)
  have init: "init_pool ''bf16'' 8388608 32 bare_memory = Inr pool_memory"
  proof -
    have "parse_round_robin_dtype ''bf16'' = Inr BF16" by code_simp
    then show ?thesis by (simp add: init_pool_def pool_memory_def bare_memory_def)
  qed
  have "ArPool 7 ''bf16'' 8388608 32 \<in> set demo_events" "slot_total bare_memory = 0" "slot_device bare_memory = device_index demo_adapter"
    "nat (rr_slot_count demo_adapter) = 32"
    by (simp_all add: demo_events_def bare_memory_def demo_adapter_def)
  note stay = reduced_tensors_stay [OF held_init this(1) cc(1) held_active this(2,3),
      where T = held_torch and env = held_env and mm = matrix_product, unfolded init Let_def this(4)]
  have "\<exists>N1. run_collectives held_torch held_native held_env held_comm matrix_product 7 (before @ [call]) pool_memory
        = Inr (take (Suc (length before)) ys, N1)
      \<and> (length after < 32 \<longrightarrow> contents M' (ys ! length before) = contents N1 (ys ! length before))"
    if "run_collectives held_torch held_native held_env held_comm matrix_product 7 (before @ call # after) pool_memory = Inr (ys, M')"
    for before call after ys M'
    using stay that by blast
  from this [of "[]", unfolded append_Nil, OF run]
  have "contents M2 (slot_view pool_memory [1, 1]) = contents M1 (slot_view pool_memory [1, 1])"
    by (simp add: run_collective_def h)
  moreover have "contents M1 (slot_view pool_memory [1, 1]) 0 = 8"
    using red reduced_contents [where M = pool_memory and shape = "[1, 1]" and f = red and k = 1]
    by (auto simp: M1 doubling_def first_elems_def matrix_product_def Let_def contents_def storage_elems_def count_of_def held_matrix_def
        pool_memory_def bare_memory_def upt_rec)
  ultimately show ?thesis using init run by (intro exI conjI) (assumption | simp add: slot_view_def pool_memory_def bare_memory_def)+
qed

end
