(* ===== verification/Argparse.thy ===== *)
theory Argparse
  imports Json
begin

text \<open>
  The part of Python's \<open>argparse\<close> that the tools use: options with one value or none, their conversions, choices and
  defaults, unambiguous abbreviations, \<open>--name=value\<close>, and \<open>-h\<close>. None of the tools modelled with it has positional arguments, so
  any is an error; a bare \<open>--\<close> is refused here. A usage error ends the program with status 2, help with status 0.
\<close>

section \<open>Options\<close>

datatype arg_value = NoneArg | IntArg int | FloatArg real | StrArg string | BoolArg bool

datatype arg_type = ToInt | ToFloat | ToStr

datatype arg_action = Store arg_type "string list" | StoreTrue | StoreFalse | ShowHelp

record option_spec =
  opt_names :: "string list"
  opt_dest :: string
  opt_action :: arg_action
  opt_default :: arg_value
  opt_required :: bool

type_synonym namespace = "(string \<times> arg_value) list"

text \<open>The destination of \<open>--some-name\<close> is \<open>some_name\<close>. A list of choices that is empty allows everything.\<close>

definition dest_of :: "string \<Rightarrow> string" where
  "dest_of name = replace_char CHR ''-'' CHR ''_'' (dropWhile (\<lambda>c. c = CHR ''-'') name)"

definition stored :: "string \<Rightarrow> arg_type \<Rightarrow> string list \<Rightarrow> arg_value \<Rightarrow> option_spec" where
  "stored name ty choices dflt =
     \<lparr>opt_names = [name], opt_dest = dest_of name, opt_action = Store ty choices, opt_default = dflt, opt_required = False\<rparr>"

definition needed :: "string \<Rightarrow> arg_type \<Rightarrow> option_spec" where
  "needed name ty =
     \<lparr>opt_names = [name], opt_dest = dest_of name, opt_action = Store ty [], opt_default = NoneArg, opt_required = True\<rparr>"

definition flag :: "string \<Rightarrow> option_spec" where
  "flag name =
     \<lparr>opt_names = [name], opt_dest = dest_of name, opt_action = StoreTrue, opt_default = BoolArg False, opt_required = False\<rparr>"

definition unset_flag :: "string \<Rightarrow> string \<Rightarrow> option_spec" where
  "unset_flag name dest =
     \<lparr>opt_names = [name], opt_dest = dest, opt_action = StoreFalse, opt_default = BoolArg True, opt_required = False\<rparr>"

definition help_option :: option_spec where
  "help_option =
     \<lparr>opt_names = [''-h'', ''--help''], opt_dest = ''help'', opt_action = ShowHelp, opt_default = NoneArg, opt_required = False\<rparr>"

definition usage_error :: "'a res" where "usage_error = Inl (ExternalError ''SystemExit(2)'')"

definition help_exit :: "'a res" where "help_exit = Inl (ExternalError ''SystemExit(0)'')"

lemma spec_simps [simp]:
  "opt_action (stored n ty ch d) = Store ty ch" "opt_dest (stored n ty ch d) = dest_of n" "opt_default (stored n ty ch d) = d"
  "opt_required (stored n ty ch d) = False" "opt_names (stored n ty ch d) = [n]"
  "opt_action (needed n ty) = Store ty []" "opt_dest (needed n ty) = dest_of n" "opt_default (needed n ty) = NoneArg"
  "opt_required (needed n ty) = True" "opt_names (needed n ty) = [n]"
  "opt_action (flag n) = StoreTrue" "opt_dest (flag n) = dest_of n" "opt_default (flag n) = BoolArg False"
  "opt_required (flag n) = False" "opt_names (flag n) = [n]"
  "opt_action (unset_flag n f) = StoreFalse" "opt_dest (unset_flag n f) = f" "opt_default (unset_flag n f) = BoolArg True"
  "opt_required (unset_flag n f) = False" "opt_names (unset_flag n f) = [n]"
  by (simp_all add: stored_def needed_def flag_def unset_flag_def)

section \<open>Classifying arguments\<close>

datatype arg_class = Plain | Opt option_spec "string option" | Unknown

definition find_option :: "option_spec list \<Rightarrow> string \<Rightarrow> option_spec option" where
  "find_option specs s = find (\<lambda>opt. s \<in> set (opt_names opt)) specs"

text \<open>\<open>s.split('=', 1)\<close>, if there is an equals sign.\<close>

definition split_eq :: "string \<Rightarrow> (string \<times> string) option" where
  "split_eq s = (case dropWhile (\<lambda>c. c \<noteq> CHR ''='') s of [] \<Rightarrow> None | _ # v \<Rightarrow> Some (takeWhile (\<lambda>c. c \<noteq> CHR ''='') s, v))"

definition option_strings :: "option_spec list \<Rightarrow> (string \<times> option_spec) list" where
  "option_strings specs = concat (map (\<lambda>opt. map (\<lambda>n. (n, opt)) (opt_names opt)) specs)"

text \<open>The options that a string abbreviates; a short option may have its value attached.\<close>

definition abbreviated :: "option_spec list \<Rightarrow> string \<Rightarrow> (option_spec \<times> string option) list" where
  "abbreviated specs s =
     (if prefix ''--'' s then
        (let (p, v) = (case split_eq s of None \<Rightarrow> (s, None) | Some (n, v) \<Rightarrow> (n, Some v))
         in map (\<lambda>(_, opt). (opt, v)) (filter (\<lambda>(n, _). prefix p n) (option_strings specs)))
      else
        map (\<lambda>(n, opt). (opt, if n = take 2 s then Some (drop 2 s) else None))
          (filter (\<lambda>(n, _). n = take 2 s \<or> prefix s n) (option_strings specs)))"

definition negative_number :: "string \<Rightarrow> bool" where
  "negative_number s =
     (case s of
        [] \<Rightarrow> False
      | c # cs \<Rightarrow> c = CHR ''-'' \<and>
          (let (whole, r) = span_digits cs
           in (case r of
                 [] \<Rightarrow> whole \<noteq> []
               | d # ds \<Rightarrow> d = CHR ''.'' \<and> ds \<noteq> [] \<and> (\<forall>x \<in> set ds. char_digit x \<noteq> None))))"

definition classify :: "option_spec list \<Rightarrow> string \<Rightarrow> arg_class res" where
  "classify specs s =
     (if s = [] \<or> hd s \<noteq> CHR ''-'' then Inr Plain
      else case find_option specs s of
        Some opt \<Rightarrow> Inr (Opt opt None)
      | None \<Rightarrow>
          if length s = 1 then Inr Plain
          else
            (case (case split_eq s of None \<Rightarrow> None | Some (n, v) \<Rightarrow> map_option (\<lambda>opt. (opt, v)) (find_option specs n)) of
               Some (opt, v) \<Rightarrow> Inr (Opt opt (Some v))
             | None \<Rightarrow>
                 (case abbreviated specs s of
                    [] \<Rightarrow> Inr (if negative_number s \<or> CHR '' '' \<in> set s then Plain else Unknown)
                  | [(opt, v)] \<Rightarrow> Inr (Opt opt v)
                  | _ \<Rightarrow> usage_error)))"

section \<open>Parsing\<close>

definition convert :: "arg_type \<Rightarrow> string \<Rightarrow> arg_value res" where
  "convert ty s =
     (case ty of
        ToInt \<Rightarrow> (case py_int s of Inl _ \<Rightarrow> usage_error | Inr i \<Rightarrow> Inr (IntArg i))
      | ToFloat \<Rightarrow> (case py_float s of Inl _ \<Rightarrow> usage_error | Inr x \<Rightarrow> Inr (FloatArg x))
      | ToStr \<Rightarrow> Inr (StrArg s))"

definition get_value :: "arg_type \<Rightarrow> string list \<Rightarrow> string \<Rightarrow> arg_value res" where
  "get_value ty choices s =
     bind_res (convert ty s) (\<lambda>v.
     if choices = [] \<or> v \<in> StrArg ` set choices then Inr v else usage_error)"

text \<open>The namespace, the destinations that were set and whether arguments were left over.\<close>

fun consume ::
  "(string \<times> arg_class) list \<Rightarrow> namespace \<Rightarrow> string list \<Rightarrow> bool \<Rightarrow> (namespace \<times> string list \<times> bool) res" where
  "consume [] ns seen extras = Inr (ns, seen, extras)"
| "consume ((s, Plain) # rest) ns seen extras = consume rest ns seen True"
| "consume ((s, Unknown) # rest) ns seen extras = consume rest ns seen True"
| "consume ((s, Opt opt explicit) # rest) ns seen extras =
     (case opt_action opt of
        ShowHelp \<Rightarrow> if explicit \<noteq> None \<and> prefix ''--'' s then usage_error else help_exit
      | StoreTrue \<Rightarrow>
          if explicit \<noteq> None then usage_error
          else consume rest (AList.update (opt_dest opt) (BoolArg True) ns) (opt_dest opt # seen) extras
      | StoreFalse \<Rightarrow>
          if explicit \<noteq> None then usage_error
          else consume rest (AList.update (opt_dest opt) (BoolArg False) ns) (opt_dest opt # seen) extras
      | Store ty choices \<Rightarrow>
          (case explicit of
             Some v \<Rightarrow>
               bind_res (get_value ty choices v) (\<lambda>x. consume rest (AList.update (opt_dest opt) x ns) (opt_dest opt # seen) extras)
           | None \<Rightarrow>
               (case rest of
                  (v, Plain) # rest' \<Rightarrow>
                    bind_res (get_value ty choices v) (\<lambda>x.
                    consume rest' (AList.update (opt_dest opt) x ns) (opt_dest opt # seen) extras)
                | _ \<Rightarrow> usage_error)))"

definition defaults :: "option_spec list \<Rightarrow> namespace" where
  "defaults specs = map (\<lambda>opt. (opt_dest opt, opt_default opt)) specs"

definition parse_args :: "option_spec list \<Rightarrow> string list \<Rightarrow> namespace res" where
  "parse_args own argv =
     (let specs = help_option # own
      in bind_res (require (''--'' \<notin> set argv) (ExternalError ''SystemExit(2)'')) (\<lambda>_.
         bind_res (map_res (\<lambda>s. bind_res (classify specs s) (\<lambda>c. Inr (s, c))) argv) (\<lambda>classes.
         bind_res (consume classes (defaults own) [] False) (\<lambda>(ns, seen, extras).
         if (\<exists>opt \<in> set own. opt_required opt \<and> opt_dest opt \<notin> set seen) \<or> extras then usage_error else Inr ns))))"

section \<open>Well-formed command lines\<close>

text \<open>An item names an option and gives it the value it needs; the value is no option.\<close>

definition plain_value :: "option_spec list \<Rightarrow> string \<Rightarrow> bool" where
  "plain_value specs v \<longleftrightarrow> classify specs v = Inr Plain"

fun item_ok :: "option_spec list \<Rightarrow> string \<times> string option \<Rightarrow> bool" where
  "item_ok specs (name, arg) \<longleftrightarrow>
     (case find_option specs name of
        None \<Rightarrow> False
      | Some opt \<Rightarrow> name \<noteq> ''--'' \<and> name \<noteq> [] \<and> hd name = CHR ''-'' \<and>
          (case (opt_action opt, arg) of
             (Store ty choices, Some v) \<Rightarrow> v \<noteq> ''--'' \<and> plain_value specs v \<and> (\<exists>x. get_value ty choices v = Inr x)
           | (StoreTrue, None) \<Rightarrow> True
           | (StoreFalse, None) \<Rightarrow> True
           | _ \<Rightarrow> False))"

fun item_args :: "string \<times> string option \<Rightarrow> string list" where
  "item_args (name, None) = [name]"
| "item_args (name, Some v) = [name, v]"

fun item_sets :: "option_spec list \<Rightarrow> string \<times> string option \<Rightarrow> string \<times> arg_value" where
  "item_sets specs (name, arg) =
     (case find_option specs name of
        None \<Rightarrow> ([], NoneArg)
      | Some opt \<Rightarrow>
          (opt_dest opt,
           case (opt_action opt, arg) of
             (Store ty choices, Some v) \<Rightarrow> projr (get_value ty choices v)
           | (StoreFalse, _) \<Rightarrow> BoolArg False
           | _ \<Rightarrow> BoolArg True))"

definition set_items :: "option_spec list \<Rightarrow> (string \<times> string option) list \<Rightarrow> namespace \<Rightarrow> namespace" where
  "set_items specs items ns = fold (\<lambda>it. case item_sets specs it of (d, v) \<Rightarrow> AList.update d v) items ns"

lemma map_of_set_items:
  "map_of (set_items specs items ns) d =
     (case map_of (rev (map (item_sets specs) items)) d of None \<Rightarrow> map_of ns d | Some v \<Rightarrow> Some v)"
  unfolding set_items_def
proof (induction items arbitrary: ns)
  case (Cons it items)
  then show ?case by (cases "item_sets specs it") (auto simp: update_conv' map_add_Some_iff split: option.splits)
qed simp

lemma classify_named:
  "find_option specs name = Some opt \<Longrightarrow> name \<noteq> [] \<Longrightarrow> hd name = CHR ''-'' \<Longrightarrow> classify specs name = Inr (Opt opt None)"
  by (simp add: classify_def)

lemma consume_items:
  assumes "\<forall>it \<in> set items. item_ok specs it"
  shows "\<exists>classes. map_res (\<lambda>s. bind_res (classify specs s) (\<lambda>c. Inr (s, c))) (concat (map item_args items)) = Inr classes
     \<and> consume classes ns seen extras = Inr (set_items specs items ns, rev (map (\<lambda>it. fst (item_sets specs it)) items) @ seen, extras)"
  using assms
proof (induction items arbitrary: ns seen)
  case (Cons it items)
  obtain name arg where it: "it = (name, arg)" by (cases it)
  obtain op where op: "find_option specs name = Some op" "name \<noteq> []" "hd name = CHR ''-''"
    using Cons.prems it by (auto split: option.splits)
  note named = classify_named [OF op]
  let ?ns = "case item_sets specs it of (d, v) \<Rightarrow> AList.update d v ns"
  obtain classes where c: "map_res (\<lambda>s. bind_res (classify specs s) (\<lambda>c. Inr (s, c))) (concat (map item_args items)) = Inr classes"
      "consume classes ?ns (fst (item_sets specs it) # seen) extras
        = Inr (set_items specs items ?ns, rev (map (\<lambda>it. fst (item_sets specs it)) items) @ fst (item_sets specs it) # seen, extras)"
    using Cons.IH [of ?ns "fst (item_sets specs it) # seen"] Cons.prems by auto
  have sets: "set_items specs (it # items) ns = set_items specs items ?ns"
    by (cases "item_sets specs it") (simp add: set_items_def)
  show ?case
  proof (cases arg)
    case None
    then have "opt_action op = StoreTrue \<or> opt_action op = StoreFalse" using Cons.prems it op by (auto split: arg_action.splits)
    then show ?thesis using c None named op unfolding sets by (auto simp: it)
  next
    case (Some v)
    then obtain ty choices x where "opt_action op = Store ty choices" "get_value ty choices v = Inr x" "classify specs v = Inr Plain"
      using Cons.prems it op by (auto simp: plain_value_def split: arg_action.splits)
    then show ?thesis using c Some named op unfolding sets by (auto simp: it)
  qed
qed (simp add: set_items_def)

lemma parse_items:
  assumes "\<forall>it \<in> set items. item_ok (help_option # own) it"
    and "\<forall>opt \<in> set own. opt_required opt \<longrightarrow> opt_dest opt \<in> fst ` item_sets (help_option # own) ` set items"
  shows "parse_args own (concat (map item_args items)) = Inr (set_items (help_option # own) items (defaults own))"
proof -
  let ?specs = "help_option # own"
  have "''--'' \<notin> set (item_args it)" if "item_ok ?specs it" for it
    using that by (cases it; cases "snd it") (auto split: option.splits arg_action.splits)
  then have "''--'' \<notin> set (concat (map item_args items))" using assms(1) by auto
  moreover obtain classes where
    "map_res (\<lambda>s. bind_res (classify ?specs s) (\<lambda>c. Inr (s, c))) (concat (map item_args items)) = Inr classes"
    "consume classes (defaults own) [] False
      = Inr (set_items ?specs items (defaults own), rev (map (\<lambda>it. fst (item_sets ?specs it)) items), False)"
    using consume_items [OF assms(1), of "defaults own" "[]" False] by auto
  moreover have "\<not> (\<exists>opt \<in> set own. opt_required opt \<and> opt_dest opt \<notin> set (rev (map (\<lambda>it. fst (item_sets ?specs it)) items)))"
    using assms(2) by (auto simp: image_image)
  ultimately show ?thesis by (simp add: parse_args_def Let_def) blast
qed

lemma classify_word: "s = [] \<or> hd s \<noteq> CHR ''-'' \<Longrightarrow> classify specs s = Inr Plain"
  by (simp add: classify_def)

text \<open>Decimal numbers are values wherever no option looks like a number, also negative ones.\<close>

definition no_numeric_option :: "option_spec list \<Rightarrow> bool" where
  "no_numeric_option specs \<longleftrightarrow> (\<forall>(n, opt) \<in> set (option_strings specs). \<forall>d < 10. take 2 n \<noteq> [CHR ''-'', digit_char d])"

lemma no_numeric_optionI:
  assumes "list_all (\<lambda>opt. list_all (\<lambda>n. case n of _ # c # _ \<Rightarrow> char_digit c = None | _ \<Rightarrow> True) (opt_names opt)) specs"
  shows "no_numeric_option specs"
proof -
  have "take 2 n \<noteq> [CHR ''-'', digit_char d]"
    if "case n of _ # c # _ \<Rightarrow> char_digit c = None | _ \<Rightarrow> True" and "d < 10" for n d
    using that by (cases n; cases "tl n") auto
  then show ?thesis using assms by (fastforce simp: no_numeric_option_def option_strings_def list_all_iff)
qed

lemma find_option_string: "find_option specs n = Some opt \<Longrightarrow> (n, opt) \<in> set (option_strings specs)"
  unfolding find_option_def option_strings_def find_Some_iff by (auto intro: nth_mem)

lemma classify_str_int:
  assumes "no_numeric_option specs"
  shows "classify specs (str_int i) = Inr Plain"
proof (cases "i < 0")
  case False
  obtain c cs where c: "str_nat (nat i) = c # cs" by (cases "str_nat (nat i)") simp_all
  then show ?thesis using str_nat_digits [of c "nat i"] digit_char_not_sign False by (intro classify_word) (auto simp: str_int_def)
next
  case True
  define ds where "ds = str_nat (nat (- i))"
  have s: "str_int i = CHR ''-'' # ds" using True by (simp add: str_int_def ds_def)
  have digits: "\<exists>d < 10. c = digit_char d" if "c \<in> set ds" for c using that str_nat_digits unfolding ds_def by blast
  obtain d cs where d: "ds = digit_char d # cs" "d < 10" using digits by (cases ds) (auto simp: ds_def)
  have not_option: "(n, opt) \<notin> set (option_strings specs)" if "take 2 n = take 2 (str_int i)" for n opt
    using that assms d by (auto simp: no_numeric_option_def s)
  have none: "find_option specs (str_int i) = None"
  proof (cases "find_option specs (str_int i)")
    case (Some opt)
    from find_option_string [OF this] not_option [OF refl] show ?thesis by blast
  qed
  have "c \<noteq> CHR ''=''" if "c \<in> set (str_int i)" for c
  proof -
    have "digit_char d \<noteq> CHR ''=''" if "d < 10" for d
    proof
      assume "digit_char d = CHR ''=''"
      then have "(of_char (digit_char d) :: nat) = of_char CHR ''=''" by simp
      then show False using digit_char_code [OF that] that by simp
    qed
    then show ?thesis using that digits [of c] unfolding s by fastforce
  qed
  then have "dropWhile (\<lambda>c. c \<noteq> CHR ''='') (str_int i) = []" by (simp add: dropWhile_eq_Nil_conv)
  then have eq: "split_eq (str_int i) = None" unfolding split_eq_def by (simp only: list.case)
  have "digit_char d \<noteq> CHR ''-''" using digit_char_not_sign [OF d(2)] by simp
  then have "\<not> prefix ''--'' (str_int i)" by (simp add: s d(1))
  moreover have "\<not> (n = take 2 (str_int i) \<or> prefix (str_int i) n)" if "(n, opt) \<in> set (option_strings specs)" for n opt
    using not_option [of n opt] that by (auto simp: s d(1) prefix_def)
  ultimately have "abbreviated specs (str_int i) = []" by (auto simp: abbreviated_def filter_empty_conv)
  moreover have "negative_number (str_int i)" by (simp add: negative_number_def s ds_def)
  ultimately show ?thesis using none eq by (simp add: classify_def s d(1))
qed

end
