(* ===== verification/CommandLines.thy ===== *)
theory CommandLines
  imports Argparse GenConfig Search EvaluateRun Bandwidth VerifySignals PatchHeaders
begin

text \<open>
  The command lines of the tools: the options that each \<open>parse_args\<close> declares and the settings that its \<open>main\<close> takes from
  the namespace. The evaluation starts the profiler, the search and the test with command lines; here these are parsed by the tool
  that gets them.
\<close>

section \<open>Options of the tools\<close>

definition search_options :: "option_spec list" where
  "search_options =
     [stored ''--m'' ToInt [] (IntArg 4096), stored ''--n'' ToInt [] (IntArg 8192), stored ''--k'' ToInt [] (IntArg 8192),
      stored ''--comm_op'' ToStr [''all_reduce'', ''reduce_scatter''] (StrArg ''all_reduce''),
      stored ''--comm_backend'' ToStr [''nccl'', ''ooverlap'', ''both''] (StrArg ''nccl''),
      stored ''--bandwidth_path'' ToStr [] (StrArg ''''), stored ''--nccl_bandwidth_path'' ToStr [] (StrArg ''''),
      stored ''--ooverlap_bandwidth_path'' ToStr [] (StrArg ''''),
      flag ''--predictive_search'', stored ''--comm_sm_slack'' ToInt [] (IntArg 2), stored ''--min_group_size'' ToInt [] NoneArg,
      stored ''--min_effective_group_size'' ToInt [] NoneArg, flag ''--no_effective_hint_confirm'',
      stored ''--algo_id'' ToInt [] NoneArg,
      flag ''--debug_hint'', stored ''--debug_hint_dump'' ToStr [] (StrArg ''''), flag ''--debug_search'',
      stored ''--debug_search_topk'' ToInt [] (IntArg 20), flag ''--write_legacy_solution'']"

definition profile_options :: "option_spec list" where
  "profile_options =
     [needed ''--m'' ToInt, needed ''--n'' ToInt, needed ''--k'' ToInt,
      stored ''--csv'' ToStr [] NoneArg, stored ''--csv-dir'' ToStr [] NoneArg, stored ''--algo-dict'' ToStr [] NoneArg,
      stored ''--layout'' ToStr [''normal'', ''packed''] (StrArg ''packed''),
      stored ''--reorder'' ToStr [''auto'', ''identity'', ''column_major''] (StrArg ''auto''),
      stored ''--reldn'' ToInt [] (IntArg 0), stored ''--group-tiles'' ToInt [] (IntArg 0),
      stored ''--top-csv'' ToInt [] (IntArg 40), stored ''--top-save'' ToInt [] (IntArg 10),
      stored ''--warmup'' ToInt [] (IntArg 20), stored ''--iters'' ToInt [] (IntArg 100),
      stored ''--device'' ToInt [] (IntArg 0), stored ''--seed'' ToInt [] (IntArg 1234),
      stored ''--check-atol'' ToFloat [] (FloatArg 8), flag ''--reject-failed-check'', flag ''--dry-run'',
      flag ''--cpp-cublas-reference'',
      stored ''--csv-a-dtype'' ToStr [''f16''] (StrArg ''f16''), stored ''--csv-b-dtype'' ToStr [''f16''] (StrArg ''f16''),
      stored ''--csv-accum-dtype'' ToStr [''f16'', ''f32''] (StrArg ''f16''),
      stored ''--csv-c-dtype'' ToStr [''f16'', ''void'', ''any''] (StrArg ''f16''),
      stored ''--csv-d-dtype'' ToStr [''f16'', ''f32'', ''any''] (StrArg ''f16''),
      stored ''--csv-a-layout'' ToStr [''row'', ''column'', ''any''] (StrArg ''row''),
      stored ''--csv-b-layout'' ToStr [''row'', ''column'', ''any''] (StrArg ''column''),
      stored ''--csv-c-layout'' ToStr [''row'', ''column'', ''any''] (StrArg ''row''),
      stored ''--csv-d-layout'' ToStr [''row'', ''column'', ''any''] (StrArg ''row'')]"

definition test_options :: "option_spec list" where
  "test_options =
     [stored ''--m'' ToInt [] (IntArg 4096), stored ''--n'' ToInt [] (IntArg 8192), stored ''--k'' ToInt [] (IntArg 8192),
      stored ''--comm_op'' ToStr [''all_reduce'', ''reduce_scatter''] (StrArg ''all_reduce''),
      stored ''--comm_backend'' ToStr [''both'', ''nccl'', ''ooverlap''] (StrArg ''both''),
      unset_flag ''--no_cublas_baseline'' ''run_cublas_baseline'', unset_flag ''--no_plain_baseline'' ''run_plain_baseline'',
      flag ''--set_nccl_comm_ctas_to_comm_sms'', flag ''--set_ooverlap_comm_ctas_to_comm_sms'']"

definition verify_options :: "option_spec list" where
  "verify_options =
     [needed ''--m'' ToInt, needed ''--n'' ToInt, needed ''--k'' ToInt, needed ''--algo'' ToInt,
      stored ''--iters'' ToInt [] (IntArg 5), stored ''--warmup'' ToInt [] (IntArg 2), stored ''--segments'' ToInt [] (IntArg 1),
      stored ''--rldn'' ToInt [] (IntArg 1), flag ''--monitor'', stored ''--expected-arrivals'' ToInt [] (IntArg 0),
      stored ''--seed'' ToInt [] (IntArg 1234)]"

definition bandwidth_options :: "option_spec list" where
  "bandwidth_options =
     [stored ''--comm_backend'' ToStr [''nccl'', ''ooverlap'', ''both''] (StrArg ''nccl''),
      stored ''--comm_op'' ToStr [''all_reduce'', ''reduce_scatter''] (StrArg ''all_reduce''),
      stored ''--devices'' ToStr [] (StrArg ''0,1''), stored ''--warmup'' ToInt [] (IntArg 20), stored ''--iters'' ToInt [] (IntArg 200),
      stored ''--sleep-seconds'' ToFloat [] (FloatArg 5), stored ''--output-path'' ToStr [] (StrArg ''''),
      flag ''--use-median'', flag ''--use-p90'', flag ''--sizes'']"

text \<open>The devices default to the setting of the module, else to the environment's.\<close>

definition eval_options :: "settings \<Rightarrow> env \<Rightarrow> option_spec list" where
  "eval_options st env =
     [flag ''--skip-existing-profile'', flag ''--rerun-existing-scenarios'',
      stored ''--out-dir'' ToStr [] (StrArg ''results/eval_sm90''),
      stored ''--devices'' ToStr []
        (StrArg (if visible_devices st \<noteq> [] then visible_devices st
                 else case map_of env ''CUDA_VISIBLE_DEVICES'' of None \<Rightarrow> ''0,1'' | Some d \<Rightarrow> d)),
      stored ''--only-shape'' ToStr [] (StrArg '''')]"

definition gen_options :: "option_spec list" where
  "gen_options =
     [stored ''--root'' ToStr [] NoneArg, stored ''--from-missing-json'' ToStr [] NoneArg, stored ''--top-missing'' ToInt [] (IntArg 20),
      stored ''--from-failed-json'' ToStr [] NoneArg, stored ''--top-failed'' ToInt [] (IntArg 20)]"

definition patch_options :: "option_spec list" where
  "patch_options =
     [stored ''--repo-root'' ToStr [] NoneArg, stored ''--torch-list-inl'' ToStr [] NoneArg, flag ''--dry-run'', flag ''--revert'']"

section \<open>Settings from a namespace\<close>

definition int_arg :: "namespace \<Rightarrow> string \<Rightarrow> int" where
  "int_arg ns d = (case map_of ns d of Some (IntArg i) \<Rightarrow> i | _ \<Rightarrow> 0)"

definition optional_int :: "namespace \<Rightarrow> string \<Rightarrow> int option" where
  "optional_int ns d = (case map_of ns d of Some (IntArg i) \<Rightarrow> Some i | _ \<Rightarrow> None)"

definition str_arg :: "namespace \<Rightarrow> string \<Rightarrow> string" where
  "str_arg ns d = (case map_of ns d of Some (StrArg s) \<Rightarrow> s | _ \<Rightarrow> '''')"

definition optional_str :: "namespace \<Rightarrow> string \<Rightarrow> string option" where
  "optional_str ns d = (case map_of ns d of Some (StrArg s) \<Rightarrow> Some s | _ \<Rightarrow> None)"

definition float_arg :: "namespace \<Rightarrow> string \<Rightarrow> real" where
  "float_arg ns d = (case map_of ns d of Some (FloatArg x) \<Rightarrow> x | _ \<Rightarrow> 0)"

definition bool_arg :: "namespace \<Rightarrow> string \<Rightarrow> bool" where
  "bool_arg ns d \<longleftrightarrow> map_of ns d = Some (BoolArg True)"

definition search_request :: "namespace \<Rightarrow> request" where
  "search_request ns =
     \<lparr>rq_M = int_arg ns ''m'', rq_N = int_arg ns ''n'', rq_K = int_arg ns ''k'', rq_comm_op = str_arg ns ''comm_op'',
      rq_slack = int_arg ns ''comm_sm_slack'', rq_backend = str_arg ns ''comm_backend'', rq_algo_id = optional_int ns ''algo_id'',
      rq_min_group = optional_int ns ''min_group_size'', rq_min_effective = optional_int ns ''min_effective_group_size'',
      rq_confirm = (\<not> bool_arg ns ''no_effective_hint_confirm''), rq_write_legacy = bool_arg ns ''write_legacy_solution''\<rparr>"

definition search_paths :: "namespace \<Rightarrow> bandwidth_args" where
  "search_paths ns =
     \<lparr>nccl_bandwidth_path = str_arg ns ''nccl_bandwidth_path'', ooverlap_bandwidth_path = str_arg ns ''ooverlap_bandwidth_path'',
      bandwidth_path = str_arg ns ''bandwidth_path'', arg_comm_backend = str_arg ns ''comm_backend''\<rparr>"

text \<open>The program \<open>search.py\<close>: \<open>shape_config\<close> is the candidate list of a shape.\<close>

definition search_program ::
  "runtime \<Rightarrow> (string \<rightharpoonup> (real \<times> real) list) \<Rightarrow> (int \<Rightarrow> int \<Rightarrow> int \<Rightarrow> candidate list res) \<Rightarrow> string list \<Rightarrow>
   (string \<times> solution) list \<times> unit res" where
  "search_program rt curves shape_config argv =
     (case parse_args search_options argv of
        Inl e \<Rightarrow> ([], Inl e)
      | Inr ns \<Rightarrow>
          let rq = search_request ns
          in search_main rt (search_paths ns) curves (bool_arg ns ''predictive_search'') (shape_config (rq_M rq) (rq_N rq) (rq_K rq)) rq)"

definition profile_settings :: "namespace \<Rightarrow> profile_args" where
  "profile_settings ns =
     \<lparr>ca_m = int_arg ns ''m'', ca_n = int_arg ns ''n'', ca_k = int_arg ns ''k'', a_dtype = str_arg ns ''csv_a_dtype'',
      b_dtype = str_arg ns ''csv_b_dtype'', accum_dtype = str_arg ns ''csv_accum_dtype'', c_dtype = str_arg ns ''csv_c_dtype'',
      d_dtype = str_arg ns ''csv_d_dtype'', a_layout = str_arg ns ''csv_a_layout'', b_layout = str_arg ns ''csv_b_layout'',
      c_layout = str_arg ns ''csv_c_layout'', d_layout = str_arg ns ''csv_d_layout'', p_layout = str_arg ns ''layout'',
      p_reorder = str_arg ns ''reorder'', p_reldn = int_arg ns ''reldn'', group_tiles = int_arg ns ''group_tiles'',
      top_csv = int_arg ns ''top_csv'', top_save = int_arg ns ''top_save'', iters = nat (int_arg ns ''iters''),
      check_atol = float_arg ns ''check_atol'', reject_failed_check = bool_arg ns ''reject_failed_check'', dry_run = bool_arg ns ''dry_run''\<rparr>"

text \<open>The CSV that \<open>gen_config_sm90.py\<close> reads: \<open>--csv\<close>, else the file of the shape in \<open>--csv-dir\<close>.\<close>

definition profile_csv :: "'o system \<Rightarrow> namespace \<Rightarrow> string res" where
  "profile_csv S ns =
     (case optional_str ns ''csv'' of
        Some (c # cs) \<Rightarrow> Inr (resolve S (expand S (c # cs)))
      | _ \<Rightarrow>
          (case optional_str ns ''csv_dir'' of
             None \<Rightarrow> Inl (ValueError ''Pass --csv or --csv-dir'')
           | Some d \<Rightarrow>
               Inr (below (resolve S (expand S d)) (''m'' @ str_int (int_arg ns ''m'') @ ''n'' @ str_int (int_arg ns ''n'') @ ''k''
                      @ str_int (int_arg ns ''k'') @ ''.gemm.csv''))))"

record test_args =
  ta_m :: int
  ta_n :: int
  ta_k :: int
  ta_comm_op :: string
  ta_comm_backend :: string
  run_cublas_baseline :: bool
  run_plain_baseline :: bool
  set_nccl_ctas :: bool
  set_ooverlap_ctas :: bool

definition test_settings :: "namespace \<Rightarrow> test_args" where
  "test_settings ns =
     \<lparr>ta_m = int_arg ns ''m'', ta_n = int_arg ns ''n'', ta_k = int_arg ns ''k'', ta_comm_op = str_arg ns ''comm_op'',
      ta_comm_backend = str_arg ns ''comm_backend'', run_cublas_baseline = bool_arg ns ''run_cublas_baseline'',
      run_plain_baseline = bool_arg ns ''run_plain_baseline'', set_nccl_ctas = bool_arg ns ''set_nccl_comm_ctas_to_comm_sms'',
      set_ooverlap_ctas = bool_arg ns ''set_ooverlap_comm_ctas_to_comm_sms''\<rparr>"

definition verify_settings :: "namespace \<Rightarrow> signal_args" where
  "verify_settings ns =
     \<lparr>sg_m = int_arg ns ''m'', sg_n = int_arg ns ''n'', sg_k = int_arg ns ''k'', sg_algo = int_arg ns ''algo'',
      sg_iters = int_arg ns ''iters'', sg_warmup = int_arg ns ''warmup'', sg_segments = int_arg ns ''segments'',
      sg_rldn = int_arg ns ''rldn'', sg_monitor = bool_arg ns ''monitor'', sg_expected = int_arg ns ''expected_arrivals''\<rparr>"

definition bandwidth_settings :: "namespace \<Rightarrow> bandwidth_run" where
  "bandwidth_settings ns =
     \<lparr>bw_backend = str_arg ns ''comm_backend'', bw_op = str_arg ns ''comm_op'', bw_devices = str_arg ns ''devices'',
      bw_warmup = int_arg ns ''warmup'', bw_iters = int_arg ns ''iters'', bw_sleep = float_arg ns ''sleep_seconds'',
      bw_output = str_arg ns ''output_path'', bw_median = bool_arg ns ''use_median'', bw_p90 = bool_arg ns ''use_p90'',
      bw_sizes = bool_arg ns ''sizes''\<rparr>"

definition eval_settings :: "namespace \<Rightarrow> eval_args" where
  "eval_settings ns =
     \<lparr>ev_skip_profile = bool_arg ns ''skip_existing_profile'', ev_rerun = bool_arg ns ''rerun_existing_scenarios'',
      ev_out_dir = str_arg ns ''out_dir'', ev_devices = str_arg ns ''devices'', ev_only_shape = str_arg ns ''only_shape''\<rparr>"

text \<open>\<open>patch_gcc_typename.py\<close>: an empty root is the current directory; \<open>absolute\<close> is \<open>Path.resolve\<close>.\<close>

definition patch_program :: "site \<Rightarrow> (string \<Rightarrow> string) \<Rightarrow> string list \<Rightarrow> files \<Rightarrow> files \<times> int res" where
  "patch_program S absolute argv fs =
     (case parse_args patch_options argv of
        Inl e \<Rightarrow> (fs, Inl e)
      | Inr ns \<Rightarrow>
          let start = (case optional_str ns ''repo_root'' of None \<Rightarrow> ''.'' | Some s \<Rightarrow> if s = [] then ''.'' else s);
              (fs', code) = patch_main S (absolute start) (optional_str ns ''torch_list_inl'') (bool_arg ns ''dry_run'') (bool_arg ns ''revert'') fs
          in (fs', Inr code))"

end
