(* ===== verification/CommandProperties.thy ===== *)
theory CommandProperties
  imports CommandLines
begin

text \<open>
  The evaluation and the tools it starts agree on their command lines: what the evaluation passes, the tool parses, and it means what the
  evaluation intends.
\<close>

section \<open>Options found\<close>

lemmas found_defs = find_option_def help_option_def search_options_def profile_options_def test_options_def

lemma search_found:
  "find_option (help_option # search_options) ''--m'' = Some (stored ''--m'' ToInt [] (IntArg 4096))"
  "find_option (help_option # search_options) ''--n'' = Some (stored ''--n'' ToInt [] (IntArg 8192))"
  "find_option (help_option # search_options) ''--k'' = Some (stored ''--k'' ToInt [] (IntArg 8192))"
  "find_option (help_option # search_options) ''--comm_op''
     = Some (stored ''--comm_op'' ToStr [''all_reduce'', ''reduce_scatter''] (StrArg ''all_reduce''))"
  "find_option (help_option # search_options) ''--comm_backend''
     = Some (stored ''--comm_backend'' ToStr [''nccl'', ''ooverlap'', ''both''] (StrArg ''nccl''))"
  "find_option (help_option # search_options) ''--comm_sm_slack'' = Some (stored ''--comm_sm_slack'' ToInt [] (IntArg 2))"
  "find_option (help_option # search_options) ''--min_group_size'' = Some (stored ''--min_group_size'' ToInt [] NoneArg)"
  "find_option (help_option # search_options) ''--min_effective_group_size''
     = Some (stored ''--min_effective_group_size'' ToInt [] NoneArg)"
  "find_option (help_option # search_options) ''--nccl_bandwidth_path'' = Some (stored ''--nccl_bandwidth_path'' ToStr [] (StrArg ''''))"
  "find_option (help_option # search_options) ''--ooverlap_bandwidth_path''
     = Some (stored ''--ooverlap_bandwidth_path'' ToStr [] (StrArg ''''))"
  "find_option (help_option # search_options) ''--predictive_search'' = Some (flag ''--predictive_search'')"
  by (simp_all add: found_defs)

lemma no_numeric_options:
  "no_numeric_option (help_option # search_options)" "no_numeric_option (help_option # profile_options)"
  "no_numeric_option (help_option # test_options)"
  by (rule no_numeric_optionI, code_simp)+

lemma str_int_words [simp]: "str_int i \<noteq> ''--''" "str_int i \<noteq> []"
proof -
  have "py_int ''--'' \<noteq> Inr i" "py_int [] \<noteq> Inr i" by code_simp+
  then show "str_int i \<noteq> ''--''" "str_int i \<noteq> []" using py_int_str_int by metis+
qed

lemma get_int [simp]: "get_value ToInt [] (str_int i) = Inr (IntArg i)"
  by (simp add: get_value_def convert_def py_int_str_int)

lemma get_str: "get_value ToStr choices v = (if choices = [] \<or> v \<in> set choices then Inr (StrArg v) else usage_error)"
  by (auto simp: get_value_def convert_def)

lemmas dest_simps = dest_of_def replace_char_def

section \<open>The search\<close>

definition word :: "string \<Rightarrow> bool" where
  "word v \<longleftrightarrow> v \<noteq> [] \<and> hd v \<noteq> CHR ''-''"

lemma word_plain: "word v \<Longrightarrow> plain_value specs v" "word v \<Longrightarrow> v \<noteq> ''--''"
  by (auto simp: word_def plain_value_def classify_word)

lemma search_command_parsed:
  assumes "op \<in> {''all_reduce'', ''reduce_scatter''}" and "backend \<in> {''nccl'', ''ooverlap'', ''both''}" and "word nccl" and "word oo"
  shows "\<exists>ns. parse_args search_options (shape_args s @ [''--comm_op'', op, ''--comm_backend'', backend, ''--comm_sm_slack'', str_int slack,
       ''--min_group_size'', str_int g, ''--min_effective_group_size'', str_int e, ''--nccl_bandwidth_path'', nccl,
       ''--ooverlap_bandwidth_path'', oo, ''--predictive_search'']) = Inr ns
     \<and> search_request ns = \<lparr>rq_M = sh_m s, rq_N = sh_n s, rq_K = sh_k s, rq_comm_op = op, rq_slack = slack, rq_backend = backend,
         rq_algo_id = None, rq_min_group = Some g, rq_min_effective = Some e, rq_confirm = True, rq_write_legacy = False\<rparr>
     \<and> search_paths ns = \<lparr>nccl_bandwidth_path = nccl, ooverlap_bandwidth_path = oo, bandwidth_path = [], arg_comm_backend = backend\<rparr>
     \<and> bool_arg ns ''predictive_search''"
proof -
  let ?specs = "help_option # search_options"
  let ?items = "[(''--m'', Some (str_int (sh_m s))), (''--n'', Some (str_int (sh_n s))), (''--k'', Some (str_int (sh_k s))),
      (''--comm_op'', Some op), (''--comm_backend'', Some backend), (''--comm_sm_slack'', Some (str_int slack)),
      (''--min_group_size'', Some (str_int g)), (''--min_effective_group_size'', Some (str_int e)),
      (''--nccl_bandwidth_path'', Some nccl), (''--ooverlap_bandwidth_path'', Some oo), (''--predictive_search'', None)]"
  let ?ns = "set_items ?specs ?items (defaults search_options)"
  have int: "plain_value ?specs (str_int i)" for i
    unfolding plain_value_def by (rule classify_str_int [OF no_numeric_options(1)])
  have "word op" "word backend" using assms(1,2) by (auto simp: word_def)
  note words = word_plain [OF this(1)] word_plain [OF this(2)] word_plain [OF assms(3)] word_plain [OF assms(4)]
  have str: "get_value ToStr [''all_reduce'', ''reduce_scatter''] op = Inr (StrArg op)"
    "get_value ToStr [''nccl'', ''ooverlap'', ''both''] backend = Inr (StrArg backend)" "\<And>v. get_value ToStr [] v = Inr (StrArg v)"
    using assms(1,2) by (auto simp: get_str)
  have "\<forall>it \<in> set ?items. item_ok ?specs it"
    by (simp add: search_found int words str)
  moreover have "\<forall>opt \<in> set search_options. opt_required opt \<longrightarrow> opt_dest opt \<in> fst ` item_sets ?specs ` set ?items"
    by (simp add: search_options_def)
  ultimately have parsed: "parse_args search_options (concat (map item_args ?items)) = Inr ?ns" by (rule parse_items)
  have sets: "map (item_sets ?specs) ?items = [(''m'', IntArg (sh_m s)), (''n'', IntArg (sh_n s)), (''k'', IntArg (sh_k s)),
      (''comm_op'', StrArg op), (''comm_backend'', StrArg backend), (''comm_sm_slack'', IntArg slack), (''min_group_size'', IntArg g),
      (''min_effective_group_size'', IntArg e), (''nccl_bandwidth_path'', StrArg nccl), (''ooverlap_bandwidth_path'', StrArg oo),
      (''predictive_search'', BoolArg True)]"
    by (simp add: search_found str dest_simps)
  have lookup: "map_of ?ns d = (case map_of (rev (map (item_sets ?specs) ?items)) d of None \<Rightarrow> map_of (defaults search_options) d | Some v \<Rightarrow> Some v)" for d
    by (rule map_of_set_items)
  note found = lookup [unfolded sets]
  have "search_request ?ns = \<lparr>rq_M = sh_m s, rq_N = sh_n s, rq_K = sh_k s, rq_comm_op = op, rq_slack = slack, rq_backend = backend,
         rq_algo_id = None, rq_min_group = Some g, rq_min_effective = Some e, rq_confirm = True, rq_write_legacy = False\<rparr>
     \<and> search_paths ?ns = \<lparr>nccl_bandwidth_path = nccl, ooverlap_bandwidth_path = oo, bandwidth_path = [], arg_comm_backend = backend\<rparr>
     \<and> bool_arg ?ns ''predictive_search''"
    unfolding search_request_def search_paths_def int_arg_def str_arg_def optional_int_def bool_arg_def found
    by (simp add: defaults_def search_options_def dest_simps)
  then show ?thesis using parsed by (simp add: shape_args_def)
qed

section \<open>The profiler\<close>

lemma profile_found:
  "find_option (help_option # profile_options) ''--m'' = Some (needed ''--m'' ToInt)"
  "find_option (help_option # profile_options) ''--n'' = Some (needed ''--n'' ToInt)"
  "find_option (help_option # profile_options) ''--k'' = Some (needed ''--k'' ToInt)"
  "find_option (help_option # profile_options) ''--csv'' = Some (stored ''--csv'' ToStr [] NoneArg)"
  "find_option (help_option # profile_options) ''--top-csv'' = Some (stored ''--top-csv'' ToInt [] (IntArg 40))"
  "find_option (help_option # profile_options) ''--top-save'' = Some (stored ''--top-save'' ToInt [] (IntArg 10))"
  "find_option (help_option # profile_options) ''--warmup'' = Some (stored ''--warmup'' ToInt [] (IntArg 20))"
  "find_option (help_option # profile_options) ''--iters'' = Some (stored ''--iters'' ToInt [] (IntArg 100))"
  "find_option (help_option # profile_options) ''--csv-accum-dtype''
     = Some (stored ''--csv-accum-dtype'' ToStr [''f16'', ''f32''] (StrArg ''f16''))"
  "find_option (help_option # profile_options) ''--layout'' = Some (stored ''--layout'' ToStr [''normal'', ''packed''] (StrArg ''packed''))"
  "find_option (help_option # profile_options) ''--csv-c-layout''
     = Some (stored ''--csv-c-layout'' ToStr [''row'', ''column'', ''any''] (StrArg ''row''))"
  "find_option (help_option # profile_options) ''--csv-d-layout''
     = Some (stored ''--csv-d-layout'' ToStr [''row'', ''column'', ''any''] (StrArg ''row''))"
  by (simp_all add: found_defs)

lemma profile_command_parsed:
  assumes "word csv"
  shows "\<exists>ns. parse_args profile_options (drop 2 (profile_cmd R s csv)) = Inr ns
     \<and> profile_settings ns = \<lparr>ca_m = sh_m s, ca_n = sh_n s, ca_k = sh_k s, a_dtype = ''f16'', b_dtype = ''f16'', accum_dtype = ''f16'',
         c_dtype = ''f16'', d_dtype = ''f16'', a_layout = ''row'', b_layout = ''column'', c_layout = ''any'', d_layout = ''any'',
         p_layout = ''packed'', p_reorder = ''auto'', p_reldn = 0, group_tiles = 0, top_csv = 100, top_save = 30, iters = 150,
         check_atol = 8, reject_failed_check = False, dry_run = False\<rparr>
     \<and> profile_csv S ns = Inr (resolve S (expand S csv))"
proof -
  let ?specs = "help_option # profile_options"
  let ?items = "[(''--m'', Some (str_int (sh_m s))), (''--n'', Some (str_int (sh_n s))), (''--k'', Some (str_int (sh_k s))),
      (''--csv'', Some csv), (''--top-csv'', Some ''100''), (''--top-save'', Some ''30''), (''--warmup'', Some ''50''),
      (''--iters'', Some ''150''), (''--csv-accum-dtype'', Some ''f16''), (''--layout'', Some ''packed''),
      (''--csv-c-layout'', Some ''any''), (''--csv-d-layout'', Some ''any'')]"
  let ?ns = "set_items ?specs ?items (defaults profile_options)"
  have int: "plain_value ?specs (str_int i)" for i
    unfolding plain_value_def by (rule classify_str_int [OF no_numeric_options(2)])
  have numbers: "get_value ToInt [] ''100'' = Inr (IntArg 100)" "get_value ToInt [] ''30'' = Inr (IntArg 30)"
    "get_value ToInt [] ''50'' = Inr (IntArg 50)" "get_value ToInt [] ''150'' = Inr (IntArg 150)"
    by code_simp+
  have lits: "plain_value ?specs ''100''" "plain_value ?specs ''30''" "plain_value ?specs ''50''" "plain_value ?specs ''150''"
    "plain_value ?specs ''f16''" "plain_value ?specs ''packed''" "plain_value ?specs ''any''"
    unfolding plain_value_def by (rule classify_word, simp)+
  have "\<forall>it \<in> set ?items. item_ok ?specs it"
    by (simp add: profile_found int word_plain [OF assms] numbers lits get_str)
  moreover have "\<forall>opt \<in> set profile_options. opt_required opt \<longrightarrow> opt_dest opt \<in> fst ` item_sets ?specs ` set ?items"
    by (simp add: profile_options_def profile_found [unfolded profile_options_def])
  ultimately have parsed: "parse_args profile_options (concat (map item_args ?items)) = Inr ?ns" by (rule parse_items)
  have sets: "map (item_sets ?specs) ?items = [(''m'', IntArg (sh_m s)), (''n'', IntArg (sh_n s)), (''k'', IntArg (sh_k s)),
      (''csv'', StrArg csv), (''top_csv'', IntArg 100), (''top_save'', IntArg 30), (''warmup'', IntArg 50), (''iters'', IntArg 150),
      (''csv_accum_dtype'', StrArg ''f16''), (''layout'', StrArg ''packed''), (''csv_c_layout'', StrArg ''any''),
      (''csv_d_layout'', StrArg ''any'')]"
    by (simp add: profile_found get_str numbers dest_simps)
  have lookup: "map_of ?ns d = (case map_of (rev (map (item_sets ?specs) ?items)) d of None \<Rightarrow> map_of (defaults profile_options) d | Some v \<Rightarrow> Some v)" for d
    by (rule map_of_set_items)
  note found = lookup [unfolded sets]
  have "profile_settings ?ns = \<lparr>ca_m = sh_m s, ca_n = sh_n s, ca_k = sh_k s, a_dtype = ''f16'', b_dtype = ''f16'', accum_dtype = ''f16'',
         c_dtype = ''f16'', d_dtype = ''f16'', a_layout = ''row'', b_layout = ''column'', c_layout = ''any'', d_layout = ''any'',
         p_layout = ''packed'', p_reorder = ''auto'', p_reldn = 0, group_tiles = 0, top_csv = 100, top_save = 30, iters = 150,
         check_atol = 8, reject_failed_check = False, dry_run = False\<rparr>"
    unfolding profile_settings_def int_arg_def str_arg_def float_arg_def bool_arg_def found
    by (simp add: defaults_def profile_options_def dest_simps)
  moreover have "profile_csv S ?ns = Inr (resolve S (expand S csv))"
    unfolding profile_csv_def optional_str_def found using assms by (cases csv) (simp_all add: word_def)
  ultimately show ?thesis using parsed by (simp add: profile_cmd_def shape_args_def)
qed

section \<open>The test\<close>

lemma test_found:
  "find_option (help_option # test_options) ''--m'' = Some (stored ''--m'' ToInt [] (IntArg 4096))"
  "find_option (help_option # test_options) ''--n'' = Some (stored ''--n'' ToInt [] (IntArg 8192))"
  "find_option (help_option # test_options) ''--k'' = Some (stored ''--k'' ToInt [] (IntArg 8192))"
  "find_option (help_option # test_options) ''--comm_op''
     = Some (stored ''--comm_op'' ToStr [''all_reduce'', ''reduce_scatter''] (StrArg ''all_reduce''))"
  "find_option (help_option # test_options) ''--comm_backend''
     = Some (stored ''--comm_backend'' ToStr [''both'', ''nccl'', ''ooverlap''] (StrArg ''both''))"
  "find_option (help_option # test_options) ''--set_nccl_comm_ctas_to_comm_sms'' = Some (flag ''--set_nccl_comm_ctas_to_comm_sms'')"
  "find_option (help_option # test_options) ''--set_ooverlap_comm_ctas_to_comm_sms''
     = Some (flag ''--set_ooverlap_comm_ctas_to_comm_sms'')"
  by (simp_all add: found_defs)

lemma test_command_parsed:
  assumes "set_op (stg R) \<in> {''all_reduce'', ''reduce_scatter''}" and "set_backend (stg R) \<in> {''nccl'', ''ooverlap'', ''both''}"
  shows "\<exists>ns. parse_args test_options (drop 2 (test_cmd R s)) = Inr ns
     \<and> test_settings ns = \<lparr>ta_m = sh_m s, ta_n = sh_n s, ta_k = sh_k s, ta_comm_op = set_op (stg R), ta_comm_backend = set_backend (stg R),
         run_cublas_baseline = True, run_plain_baseline = True, set_nccl_ctas = True, set_ooverlap_ctas = True\<rparr>"
proof -
  let ?specs = "help_option # test_options" and ?op = "set_op (stg R)" and ?b = "set_backend (stg R)"
  let ?items = "[(''--m'', Some (str_int (sh_m s))), (''--n'', Some (str_int (sh_n s))), (''--k'', Some (str_int (sh_k s))),
      (''--comm_op'', Some ?op), (''--comm_backend'', Some ?b), (''--set_nccl_comm_ctas_to_comm_sms'', None),
      (''--set_ooverlap_comm_ctas_to_comm_sms'', None)]"
  let ?ns = "set_items ?specs ?items (defaults test_options)"
  have int: "plain_value ?specs (str_int i)" for i
    unfolding plain_value_def by (rule classify_str_int [OF no_numeric_options(3)])
  have "word ?op" "word ?b" using assms by (auto simp: word_def)
  note words = word_plain [OF this(1)] word_plain [OF this(2)]
  have str: "get_value ToStr [''all_reduce'', ''reduce_scatter''] ?op = Inr (StrArg ?op)"
    "get_value ToStr [''both'', ''nccl'', ''ooverlap''] ?b = Inr (StrArg ?b)"
    using assms by (auto simp: get_str)
  have "\<forall>it \<in> set ?items. item_ok ?specs it"
    by (simp add: test_found int words str)
  moreover have "\<forall>opt \<in> set test_options. opt_required opt \<longrightarrow> opt_dest opt \<in> fst ` item_sets ?specs ` set ?items"
    by (simp add: test_options_def)
  ultimately have parsed: "parse_args test_options (concat (map item_args ?items)) = Inr ?ns" by (rule parse_items)
  have sets: "map (item_sets ?specs) ?items = [(''m'', IntArg (sh_m s)), (''n'', IntArg (sh_n s)), (''k'', IntArg (sh_k s)),
      (''comm_op'', StrArg ?op), (''comm_backend'', StrArg ?b), (''set_nccl_comm_ctas_to_comm_sms'', BoolArg True),
      (''set_ooverlap_comm_ctas_to_comm_sms'', BoolArg True)]"
    by (simp add: test_found str dest_simps)
  have lookup: "map_of ?ns d = (case map_of (rev (map (item_sets ?specs) ?items)) d of None \<Rightarrow> map_of (defaults test_options) d | Some v \<Rightarrow> Some v)" for d
    by (rule map_of_set_items)
  note found = lookup [unfolded sets]
  have "test_settings ?ns = \<lparr>ta_m = sh_m s, ta_n = sh_n s, ta_k = sh_k s, ta_comm_op = ?op, ta_comm_backend = ?b,
         run_cublas_baseline = True, run_plain_baseline = True, set_nccl_ctas = True, set_ooverlap_ctas = True\<rparr>"
    unfolding test_settings_def int_arg_def str_arg_def bool_arg_def found
    by (simp add: defaults_def test_options_def dest_simps)
  then show ?thesis using parsed by (simp add: test_cmd_def shape_args_def)
qed

section \<open>Property\<close>

text \<open>C11: The tools understand the commands of the evaluation. For settings that name an operation and a backend the tools know, in a
  repository and with a CSV whose paths do not begin with a dash: the search parses its command to a predictive search of
  the scenario's shape, operation and slack with the trial's group sizes, and looks for each backend's curve exactly where the evaluation
  has checked that it exists; the profiler parses its command to the shape, the CSV and the options that the evaluation documents, and
  the defaults for the rest; and the test measures the same shape, with both baselines and capped thread blocks.\<close>
theorem child_commands_understood:
  assumes "set_op (stg R) \<in> {''all_reduce'', ''reduce_scatter''}" and "set_backend (stg R) \<in> {''nccl'', ''ooverlap'', ''both''}"
    and "word (repo (sys R))" and "word (csv_path_for_shape R s)" and "search_cmd R s c t = Inr cmd"
  shows "(\<exists>paths rq. search_program rt curves cfg (drop 2 cmd)
         = search_main rt paths curves True (cfg (sh_m s) (sh_n s) (sh_k s)) rq
     \<and> rq = \<lparr>rq_M = sh_m s, rq_N = sh_n s, rq_K = sh_k s, rq_comm_op = set_op (stg R), rq_slack = cc_slack c,
             rq_backend = set_backend (stg R), rq_algo_id = None, rq_min_group = Some (tr_group t),
             rq_min_effective = Some (tr_effective t), rq_confirm = True, rq_write_legacy = False\<rparr>
     \<and> arg_comm_backend paths = set_backend (stg R)
     \<and> (\<forall>b \<in> {''nccl'', ''ooverlap''}. requested_bandwidth_path paths b = bandwidth_curve_path R c b))
     \<and> (\<exists>ns. parse_args profile_options (drop 2 (profile_cmd R s (csv_path_for_shape R s))) = Inr ns
     \<and> profile_settings ns = \<lparr>ca_m = sh_m s, ca_n = sh_n s, ca_k = sh_k s, a_dtype = ''f16'', b_dtype = ''f16'', accum_dtype = ''f16'',
         c_dtype = ''f16'', d_dtype = ''f16'', a_layout = ''row'', b_layout = ''column'', c_layout = ''any'', d_layout = ''any'',
         p_layout = ''packed'', p_reorder = ''auto'', p_reldn = 0, group_tiles = 0, top_csv = 100, top_save = 30, iters = 150,
         check_atol = 8, reject_failed_check = False, dry_run = False\<rparr>
     \<and> profile_csv (sys R) ns = Inr (resolve (sys R) (expand (sys R) (csv_path_for_shape R s))))
     \<and> (\<exists>ns. parse_args test_options (drop 2 (test_cmd R s)) = Inr ns
     \<and> test_settings ns = \<lparr>ta_m = sh_m s, ta_n = sh_n s, ta_k = sh_k s, ta_comm_op = set_op (stg R), ta_comm_backend = set_backend (stg R),
         run_cublas_baseline = True, run_plain_baseline = True, set_nccl_ctas = True, set_ooverlap_ctas = True\<rparr>)"
proof -
  obtain nccl oo where p: "bandwidth_curve_path R c ''nccl'' = Inr nccl" "bandwidth_curve_path R c ''ooverlap'' = Inr oo"
    and cmd: "drop 2 cmd = shape_args s @ [''--comm_op'', set_op (stg R), ''--comm_backend'', set_backend (stg R),
       ''--comm_sm_slack'', str_int (cc_slack c), ''--min_group_size'', str_int (tr_group t),
       ''--min_effective_group_size'', str_int (tr_effective t), ''--nccl_bandwidth_path'', nccl, ''--ooverlap_bandwidth_path'', oo,
       ''--predictive_search'']"
    using assms(5) by (auto simp: search_cmd_def elim!: bind_resE)
  have w: "word nccl" "word oo"
    using p assms(3) by (auto simp: bandwidth_curve_path_def below_def word_def Let_def elim!: bind_resE)
  let ?paths = "\<lparr>nccl_bandwidth_path = nccl, ooverlap_bandwidth_path = oo, bandwidth_path = [], arg_comm_backend = set_backend (stg R)\<rparr>"
  have "\<forall>b \<in> {''nccl'', ''ooverlap''}. requested_bandwidth_path ?paths b = bandwidth_curve_path R c b"
    using p w by (simp add: requested_bandwidth_path_def word_def)
  moreover note search_command_parsed [OF assms(1,2) w, of s "cc_slack c" "tr_group t" "tr_effective t", folded cmd]
  ultimately have "\<exists>paths rq. search_program rt curves cfg (drop 2 cmd)
         = search_main rt paths curves True (cfg (sh_m s) (sh_n s) (sh_k s)) rq
     \<and> rq = \<lparr>rq_M = sh_m s, rq_N = sh_n s, rq_K = sh_k s, rq_comm_op = set_op (stg R), rq_slack = cc_slack c,
             rq_backend = set_backend (stg R), rq_algo_id = None, rq_min_group = Some (tr_group t),
             rq_min_effective = Some (tr_effective t), rq_confirm = True, rq_write_legacy = False\<rparr>
     \<and> arg_comm_backend paths = set_backend (stg R)
     \<and> (\<forall>b \<in> {''nccl'', ''ooverlap''}. requested_bandwidth_path paths b = bandwidth_curve_path R c b)"
    by (auto simp: search_program_def intro!: exI [of _ ?paths])
  then show ?thesis by (intro conjI profile_command_parsed [OF assms(4)] test_command_parsed [OF assms(1,2)])
qed

definition demo_eval_run :: "nat context_of_run" where
  "demo_eval_run =
     \<lparr>sys = \<lparr>launch = (\<lambda>_ _ w. ((0, []), w)), now_stamp = (\<lambda>_. []), elapsed = (\<lambda>_ _. []), environ = [],
        gpu_model = Some ''G'', repo = ''/r'', expand = (\<lambda>p. p), resolve = (\<lambda>p. p), newest = (\<lambda>_ _ _ _. None),
        python = ''py'', float_repr = (\<lambda>_. [])\<rparr>, stg = default_settings, devices = [0, 1]\<rparr>"

theorem child_commands_understood_witness:
  "(case search_cmd demo_eval_run \<lparr>sh_m = 4, sh_n = 2, sh_k = 1, sh_csv = ''/c''\<rparr> \<lparr>cc_slack = 4, cc_reduce_ctas = 2\<rparr>
          \<lparr>tr_group = 8, tr_effective = 6, tr_max_mn = None\<rparr> of
      Inl _ \<Rightarrow> False
    | Inr cmd \<Rightarrow>
        (\<forall>rt curves cfg. \<exists>paths rq. search_program rt curves cfg (drop 2 cmd) = search_main rt paths curves True (cfg 4 2 1) rq
           \<and> rq_slack rq = 4 \<and> rq_min_group rq = Some 8))"
proof -
  let ?s = "\<lparr>sh_m = 4, sh_n = 2, sh_k = 1, sh_csv = ''/c''\<rparr>" and ?c = "\<lparr>cc_slack = 4, cc_reduce_ctas = 2\<rparr>"
    and ?t = "\<lparr>tr_group = 8, tr_effective = 6, tr_max_mn = None\<rparr>"
  obtain cmd where cmd: "search_cmd demo_eval_run ?s ?c ?t = Inr cmd"
    by (simp add: search_cmd_def bandwidth_curve_path_def demo_eval_run_def Let_def)
  have "\<exists>paths rq. search_program rt curves cfg (drop 2 cmd) = search_main rt paths curves True (cfg 4 2 1) rq
           \<and> rq_slack rq = 4 \<and> rq_min_group rq = Some 8" for rt curves cfg
    using child_commands_understood [of demo_eval_run ?s ?c ?t cmd rt curves cfg] cmd
    by (fastforce simp: demo_eval_run_def default_settings_def word_def csv_path_for_shape_def)
  then show ?thesis by (simp add: cmd)
qed

end
