(* ===== verification/TestReport.thy ===== *)
theory TestReport
  imports CommandLines ConfigNames
begin

text \<open>
  \<open>test/test.py\<close>, which the evaluation starts to measure a scenario: it finds and reads the solution of the search,
  times the collective, the overlapped GEMM and the baselines in one process per GPU, and prints a report. Its tile and row
  maps are those of \<open>Reorder\<close> and \<open>RowRemap\<close>. The GPU is a parameter (the event times of every timed loop, or a failure), and floats are
  reals. Worker processes print in the order of their ranks, and only what \<open>test.py\<close> itself prints; that a worker failed
  is all that its parent learns.
\<close>

section \<open>Printing\<close>

type_synonym 'a printing = "string list \<times> 'a res"

definition bind_print :: "'a printing \<Rightarrow> ('a \<Rightarrow> 'b printing) \<Rightarrow> 'b printing" where
  "bind_print m f =
     (case m of (ls, Inl e) \<Rightarrow> (ls, Inl e) | (ls, Inr x) \<Rightarrow> (case f x of (ls', r) \<Rightarrow> (ls @ ls', r)))"

definition silently :: "'a res \<Rightarrow> 'a printing" where
  "silently r = ([], r)"

definition prints :: "string list \<Rightarrow> unit printing" where
  "prints ls = (ls, Inr ())"

definition stdout_of :: "string list \<Rightarrow> string" where
  "stdout_of ls = concat (map (\<lambda>l. l @ [newline]) ls)"

text \<open>\<open>f"{s:<n}"\<close>, \<open>f"{s:>n}"\<close> and \<open>f"{x:.4f}"\<close>, which rounds the exact value, ties to the even digit.\<close>

definition ljust :: "nat \<Rightarrow> string \<Rightarrow> string" where
  "ljust n s = s @ replicate (n - length s) CHR '' ''"

definition rjust :: "nat \<Rightarrow> string \<Rightarrow> string" where
  "rjust n s = replicate (n - length s) CHR '' '' @ s"

definition round_half_even :: "real \<Rightarrow> int" where
  "round_half_even y =
     (let n = floor y; r = y - of_int n in if r < 1/2 \<or> (r = 1/2 \<and> even n) then n else n + 1)"

definition four_digits :: "nat \<Rightarrow> string" where
  "four_digits m = map digit_char [m div 1000 mod 10, m div 100 mod 10, m div 10 mod 10, m mod 10]"

definition fixed4 :: "real \<Rightarrow> string" where
  "fixed4 x =
     (let n = nat (round_half_even (\<bar>x\<bar> * 10000))
      in (if x < 0 then ''-'' else '''') @ str_nat (n div 10000) @ ''.'' @ four_digits (n mod 10000))"

section \<open>The machine\<close>

text \<open>What a timed overlapped run is made of.\<close>

record overlap_run =
  ov_backend :: string
  ov_op :: string
  ov_shape :: "int \<times> int \<times> int"
  ov_tile :: "int \<times> int"
  ov_algo :: int
  ov_order :: "int list"
  ov_cSeg :: "int list"
  ov_rows :: "int list option"
  ov_active :: int
  ov_max_ctas :: "int option"

record test_machine =
  tm_world :: int
  tm_sms :: int
  tm_gpu :: string
  tm_repo :: string
  tm_stats :: bool
  tm_argsort :: "int list \<Rightarrow> nat list"
  tm_uninit :: "nat \<Rightarrow> int"
  comm_times :: "string \<Rightarrow> string \<Rightarrow> int \<Rightarrow> int \<Rightarrow> nat \<Rightarrow> real list res"
  overlap_times :: "overlap_run \<Rightarrow> nat \<Rightarrow> real list res"
  baseline_times :: "string \<Rightarrow> string \<Rightarrow> string \<Rightarrow> int \<Rightarrow> int \<times> int \<times> int \<Rightarrow> nat \<Rightarrow> real list res"

definition validate_backend :: "string \<Rightarrow> string \<Rightarrow> int \<Rightarrow> unit res" where
  "validate_backend backend comm_op ws =
     bind_res (require (backend \<in> {''nccl'', ''ooverlap''}) (ValueError ''Unsupported comm_backend'')) (\<lambda>_.
     bind_res (require (comm_op \<in> {''all_reduce'', ''reduce_scatter''}) (ValueError ''Unsupported comm_op'')) (\<lambda>_.
     bind_res (require (2 \<le> ws) (ValueError ''At least two visible GPUs are required'')) (\<lambda>_.
     require (\<not> (backend = ''ooverlap'' \<and> comm_op \<noteq> ''all_reduce''))
       (ValueError ''ooverlap backend currently supports only all_reduce''))))"

section \<open>The solution\<close>

text \<open>The file that \<open>save_solution\<close> of the search dumps, with the text of each float.\<close>

definition solution_row :: "(real \<Rightarrow> string) \<Rightarrow> solution \<Rightarrow> row" where
  "solution_row fmt d =
     (let num = (\<lambda>x. case x of None \<Rightarrow> JNull | Some v \<Rightarrow> JFloat (fmt v)); ints = (\<lambda>xs. JList (map JInt xs))
      in [(''M'', JInt (sol_M d)), (''N'', JInt (sol_N d)), (''K'', JInt (sol_K d)), (''world_size'', JInt (sol_world_size d)),
          (''comm_backend'', JStr (sol_backend d)), (''comm_op'', JStr (sol_comm_op d)), (''bandwidth_path'', JStr (sol_bandwidth_path d)),
          (''selected_predicted_latency_ms'', num (sol_predicted d)), (''searched_latency_ms'', num (sol_searched d)),
          (''hint'', ints (sol_hint d)), (''hint_stable_count'', JInt (int (sol_hint_stable_count d))),
          (''unstable_tail_count'', JInt (int (sol_unstable_tail_count d))), (''unstable_tail'', ints (sol_unstable_tail d)),
          (''full_tile_order'', ints (sol_full_tile_order d)), (''reorder_map'', ints (sol_reorder_map d)), (''cSeg'', ints (sol_cSeg d)),
          (''rLDN'', JInt (sol_rLDN d)), (''BM'', JInt (cBM (sol_cand d))), (''BN'', JInt (cBN (sol_cand d))),
          (''dur'', JFloat (fmt (cdur (sol_cand d)))), (''Algo'', JInt (cAlgo (sol_cand d))), (''sm_count'', JInt (sol_sm_count d)),
          (''comm_sm_slack'', JInt (sol_slack d)), (''compute_sms'', JInt (sol_compute_sms d)), (''source'', JStr ''tool/search.py''),
          (''note'', JStr ''Generated by SM90 packed overlap search. AlgoDictSm90.json is not modified.'')])"

definition test_solution_path :: "test_machine \<Rightarrow> int \<Rightarrow> int \<Rightarrow> int \<Rightarrow> string \<Rightarrow> string" where
  "test_solution_path tm M N K backend =
     below (below (tm_repo tm) ''configs'')
       (''solution_'' @ backend @ ''_m'' @ str_int M @ ''n'' @ str_int N @ ''k'' @ str_int K @ ''_'' @ gpu_config_name (tm_gpu tm)
          @ ''_tp'' @ str_int (tm_world tm) @ ''_packed_sm90.json'')"

definition legacy_backend_path :: "test_machine \<Rightarrow> int \<Rightarrow> int \<Rightarrow> int \<Rightarrow> string \<Rightarrow> string" where
  "legacy_backend_path tm M N K backend =
     below (below (tm_repo tm) ''configs'')
       (''solution_'' @ backend @ ''_m'' @ str_int M @ ''n'' @ str_int N @ ''k'' @ str_int K @ ''_'' @ gpu_config_name (tm_gpu tm)
          @ ''_packed_sm90.json'')"

definition legacy_path :: "test_machine \<Rightarrow> int \<Rightarrow> int \<Rightarrow> int \<Rightarrow> string" where
  "legacy_path tm M N K =
     below (below (tm_repo tm) ''configs'')
       (''solution_m'' @ str_int M @ ''n'' @ str_int N @ ''k'' @ str_int K @ ''_'' @ gpu_config_name (tm_gpu tm) @ ''_packed_sm90.json'')"

definition find_solution_json :: "test_machine \<Rightarrow> 'o world \<Rightarrow> int \<Rightarrow> int \<Rightarrow> int \<Rightarrow> string \<Rightarrow> string res" where
  "find_solution_json tm w M N K backend =
     (let exists = (\<lambda>p. map_of (files w) p \<noteq> None);
          path = test_solution_path tm M N K backend
      in if exists path then Inr path
         else if tm_world tm = 2 \<and> exists (legacy_backend_path tm M N K backend) then Inr (legacy_backend_path tm M N K backend)
         else if tm_world tm = 2 \<and> backend = ''nccl'' \<and> exists (legacy_path tm M N K) then Inr (legacy_path tm M N K)
         else Inl (FileNotFoundError ''Could not find solution JSON''))"

definition load_solution :: "test_machine \<Rightarrow> 'o world \<Rightarrow> int \<Rightarrow> int \<Rightarrow> int \<Rightarrow> string \<Rightarrow> (string \<times> row) printing" where
  "load_solution tm w M N K backend =
     bind_print (silently (find_solution_json tm w M N K backend)) (\<lambda>path.
     bind_print (silently (case map_of (files w) path of
                             Some (JsonDoc (JObj r)) \<Rightarrow> Inr r
                           | Some (JsonDoc _) \<Rightarrow> Inl (ExternalError ''AttributeError'')
                           | _ \<Rightarrow> Inl (ValueError ''JSONDecodeError''))) (\<lambda>data.
     let recorded = get_or data ''comm_backend'' JNull; recorded_ws = get_or data ''world_size'' JNull
     in bind_print (prints (if recorded \<noteq> JNull \<and> recorded \<noteq> JStr backend
                            then [''WARNING: loaded solution has comm_backend='' @ str_json recorded @ '', requested='' @ backend]
                            else [])) (\<lambda>_.
        silently (if recorded_ws = JNull then Inr (path, data)
                  else bind_res (int_of_json recorded_ws) (\<lambda>ws.
                       if ws \<noteq> tm_world tm then Inl (RuntimeError ''Solution world_size'') else Inr (path, data))))))"

section \<open>Measurements\<close>

text \<open>\<open>mean_timed\<close> on the times of its events, with the optional line of statistics.\<close>

definition pct :: "real list \<Rightarrow> real \<Rightarrow> real" where
  "pct sv p =
     (let n = int (length sv)
      in if n = 1 then sv ! 0 else sv ! nat (max 0 (min (round_half_even (p / 100 * of_int (n - 1))) (n - 1))))"

definition timing_stats :: "real list \<Rightarrow> string" where
  "timing_stats vals =
     (let sv = sort vals
      in ''timing_stats n='' @ str_int (int (length sv)) @ '' mean='' @ fixed4 (sum_list sv / of_nat (length sv))
         @ '' min='' @ fixed4 (sv ! 0) @ '' p50='' @ fixed4 (pct sv 50) @ '' p90='' @ fixed4 (pct sv 90)
         @ '' p99='' @ fixed4 (pct sv 99) @ '' max='' @ fixed4 (List.last sv))"

definition mean_timed :: "bool \<Rightarrow> real list \<Rightarrow> real printing" where
  "mean_timed stats vals =
     (if vals = [] then ([], Inl ZeroDivisionError)
      else (if stats then [timing_stats vals] else [], Inr (sum_list vals / of_nat (length vals))))"

text \<open>One worker per rank; the result is that of the slowest.\<close>

fun run_ranks :: "(nat \<Rightarrow> real printing) \<Rightarrow> nat list \<Rightarrow> real list printing" where
  "run_ranks worker [] = silently (Inr [])"
| "run_ranks worker (r # rs) =
     bind_print (worker r) (\<lambda>x. bind_print (run_ranks worker rs) (\<lambda>xs. silently (Inr (x # xs))))"

definition slowest_rank :: "(nat \<Rightarrow> real printing) \<Rightarrow> int \<Rightarrow> real printing" where
  "slowest_rank worker ws =
     (case run_ranks worker [0..<nat ws] of
        (ls, Inl _) \<Rightarrow> (ls, Inl (ExternalError ''ProcessRaisedException''))
      | (ls, Inr xs) \<Rightarrow> (ls, Inr (Max (set xs))))"

definition timed :: "test_machine \<Rightarrow> real list res \<Rightarrow> real printing" where
  "timed tm readings = bind_print (silently readings) (mean_timed (tm_stats tm))"

definition test_perf_comm :: "test_machine \<Rightarrow> int \<Rightarrow> int \<Rightarrow> string \<Rightarrow> string \<Rightarrow> real printing" where
  "test_perf_comm tm M N comm_op backend =
     bind_print (silently (validate_backend backend comm_op (tm_world tm))) (\<lambda>_.
     slowest_rank (\<lambda>rank. timed tm (comm_times tm backend comm_op M N rank)) (tm_world tm))"

text \<open>The worker of \<open>perf_overlap\<close>: the reorder map of the solution, or the one made of the hint, and the row map.\<close>

definition perf_overlap_process ::
  "test_machine \<Rightarrow> string \<Rightarrow> string \<Rightarrow> int \<times> int \<times> int \<Rightarrow> int \<times> int \<Rightarrow> int \<Rightarrow> int list \<Rightarrow> int list \<Rightarrow> json \<Rightarrow> int \<Rightarrow> int option \<Rightarrow> nat \<Rightarrow>
   real printing" where
  "perf_overlap_process tm backend comm_op shape tile algo cSeg hint reorder_map active ctas rank =
     (let (M, N, K) = shape; (BM, BN) = tile
      in timed tm
           (bind_res (tile_count M N BM BN) (\<lambda>tile_num.
            bind_res (if reorder_map = JNull then Inr None
                      else bind_res (iterate_json reorder_map) (\<lambda>xs. bind_res (map_res int_of_json xs) (\<lambda>ys. Inr (Some ys)))) (\<lambda>given.
            bind_res (make_reordered_array tile_num hint given) (\<lambda>order.
            bind_res (row_array (tm_argsort tm) (tm_uninit tm) (tm_world tm) comm_op M N BM BN cSeg) (\<lambda>rows.
            overlap_times tm \<lparr>ov_backend = backend, ov_op = comm_op, ov_shape = shape, ov_tile = tile, ov_algo = algo, ov_order = order,
              ov_cSeg = cSeg, ov_rows = rows, ov_active = active, ov_max_ctas = ctas\<rparr> rank))))))"

definition perf_overlap ::
  "test_machine \<Rightarrow> string \<Rightarrow> string \<Rightarrow> int \<times> int \<times> int \<Rightarrow> int \<times> int \<Rightarrow> int \<Rightarrow> int list \<Rightarrow> int list \<Rightarrow> json \<Rightarrow> int \<Rightarrow> int option \<Rightarrow>
   real printing" where
  "perf_overlap tm backend comm_op shape tile algo cSeg hint reorder_map active ctas =
     bind_print (silently (validate_backend backend comm_op (tm_world tm))) (\<lambda>_.
     bind_print (silently (require (case ctas of None \<Rightarrow> True | Some c \<Rightarrow> 0 < c) (ValueError ''overlap_comm_ctas must be > 0''))) (\<lambda>_.
     slowest_rank (perf_overlap_process tm backend comm_op shape tile algo cSeg hint reorder_map active ctas) (tm_world tm)))"

definition perf_baseline ::
  "test_machine \<Rightarrow> string \<Rightarrow> string \<Rightarrow> string \<Rightarrow> int \<Rightarrow> int \<times> int \<times> int \<Rightarrow> real printing" where
  "perf_baseline tm backend comm_op kind algo shape =
     bind_print (silently (validate_backend backend comm_op (tm_world tm))) (\<lambda>_.
     slowest_rank (\<lambda>rank. timed tm (baseline_times tm backend comm_op kind algo shape rank)) (tm_world tm))"

section \<open>The run of a backend\<close>

record test_result =
  res_backend :: string
  res_op :: string
  res_solution :: string
  res_algo :: int
  res_tile :: "int \<times> int"
  res_cSeg :: "int list"
  res_active :: int
  res_slack :: int
  res_comm :: real
  res_overlap :: real
  res_gemm :: real
  res_baselines :: "(string \<times> real) list"
  res_speedups :: "(string \<times> real) list"
  res_ctas :: string

definition should_set_overlap_comm_ctas :: "test_args \<Rightarrow> string \<Rightarrow> bool" where
  "should_set_overlap_comm_ctas args backend =
     (if backend = ''nccl'' then set_nccl_ctas args
      else if backend = ''ooverlap'' then set_ooverlap_ctas args
      else False)"

definition float_of_json :: "json \<Rightarrow> real res" where
  "float_of_json j =
     (case j of
        JInt i \<Rightarrow> Inr (of_int i) | JBool b \<Rightarrow> Inr (of_bool b) | JFloat s \<Rightarrow> py_float s | JStr s \<Rightarrow> py_float s | _ \<Rightarrow> Inl TypeError)"

definition int_key :: "row \<Rightarrow> string \<Rightarrow> int res" where
  "int_key r k = bind_res (get_key r k) int_of_json"

definition ints_key :: "row \<Rightarrow> string \<Rightarrow> int list res" where
  "ints_key r k = bind_res (get_key r k) (\<lambda>j. bind_res (iterate_json j) (map_res int_of_json))"

record test_plan =
  tp_solution :: string
  tp_algo :: int
  tp_tile :: "int \<times> int"
  tp_tile_num :: int
  tp_cSeg :: "int list"
  tp_hint :: "int list"
  tp_map :: json
  tp_active :: int
  tp_slack :: int
  tp_gemm :: real

definition test_plan_of :: "test_machine \<Rightarrow> test_args \<Rightarrow> string \<Rightarrow> row \<Rightarrow> test_plan res" where
  "test_plan_of tm args path data =
     bind_res (int_key data ''BM'') (\<lambda>BM.
     bind_res (int_key data ''BN'') (\<lambda>BN.
     bind_res (int_key data ''Algo'') (\<lambda>algo.
     bind_res (tile_count (ta_m args) (ta_n args) BM BN) (\<lambda>tile_num.
     bind_res (ints_key data ''cSeg'') (\<lambda>cSeg.
     bind_res (ints_key data ''hint'') (\<lambda>hint.
     bind_res (int_of_json (get_or data ''compute_sms'' (JInt (tm_sms tm)))) (\<lambda>active.
     bind_res (int_of_json (get_or data ''comm_sm_slack'' (JInt (tm_sms tm - active)))) (\<lambda>slack.
     bind_res (bind_res (get_key data ''dur'') float_of_json) (\<lambda>gemm.
     bind_res (require (sum_list cSeg = tile_num) (RuntimeError ''sum(cSeg) must equal tile_num'')) (\<lambda>_.
     Inr \<lparr>tp_solution = path, tp_algo = algo, tp_tile = (BM, BN), tp_tile_num = tile_num, tp_cSeg = cSeg, tp_hint = hint,
          tp_map = get_or data ''reorder_map'' JNull, tp_active = active, tp_slack = slack, tp_gemm = gemm\<rparr>))))))))))"

definition hash_rule :: string where
  "hash_rule = ''########################################''"

definition cta_env :: "test_args \<Rightarrow> string \<Rightarrow> int \<Rightarrow> string" where
  "cta_env args backend slack =
     (if should_set_overlap_comm_ctas args backend then ''OOVERLAP_MAX_CTAS=NCCL_MAX_CTAS='' @ str_int slack else ''cleared'')"

definition settings_lines :: "test_machine \<Rightarrow> test_args \<Rightarrow> string \<Rightarrow> test_plan \<Rightarrow> string list" where
  "settings_lines tm args backend p =
     [''solution:          '' @ tp_solution p,
      ''shape:             M='' @ str_int (ta_m args) @ '' N='' @ str_int (ta_n args) @ '' K='' @ str_int (ta_k args),
      ''algo:              '' @ str_int (tp_algo p),
      ''tile:              BM='' @ str_int (fst (tp_tile p)) @ '' BN='' @ str_int (snd (tp_tile p)),
      ''tile_num:          '' @ str_int (tp_tile_num p),
      ''cSeg:              '' @ repr_json (JList (map JInt (tp_cSeg p))),
      ''hint_len:          '' @ str_int (int (length (tp_hint p))),
      ''reorder_map:       '' @ (if tp_map p \<noteq> JNull then ''yes'' else ''no''),
      ''sm_count:          '' @ str_int (tm_sms tm),
      ''active_sm_count:   '' @ str_int (tp_active p),
      ''comm_sm_slack:     '' @ str_int (tp_slack p),
      ''config_gemm_dur:   '' @ fixed4 (tp_gemm p) @ '' ms'',
      ''overlap CTA env:   '' @ cta_env args backend (tp_slack p)]"

definition baseline_if :: "bool \<Rightarrow> string \<Rightarrow> real printing \<Rightarrow> (string \<times> real) list printing" where
  "baseline_if wanted kind run =
     (if wanted then bind_print (prints [''[phase] '' @ kind @ '' baseline'']) (\<lambda>_. bind_print run (\<lambda>x. silently (Inr [(kind, x)])))
      else silently (Inr []))"

definition table_line :: "string \<Rightarrow> string \<Rightarrow> string" where
  "table_line item v = ljust 30 item @ '' '' @ rjust 18 v"

definition measured :: "test_result \<Rightarrow> (string \<times> real) list" where
  "measured r =
     [(''comm_dur_ms'', res_comm r), (''overlap_dur_ms'', res_overlap r)]
       @ concat (map (\<lambda>name. case map_of (res_baselines r) name of
                    None \<Rightarrow> []
                  | Some x \<Rightarrow> [(name @ ''_baseline_ms'', x), (''speedup_vs_'' @ name, the (map_of (res_speedups r) name))])
           [''cublas'', ''plain''])"

definition table_lines :: "test_result \<Rightarrow> string list" where
  "table_lines r =
     ['''', table_line ''Item'' ''Value'', table_line ''----'' ''-----'', table_line ''backend'' (res_backend r),
      table_line ''comm_op'' (res_op r)]
     @ map (\<lambda>(k, x). table_line k (fixed4 x)) (measured r)"

definition test_backend :: "test_machine \<Rightarrow> 'o world \<Rightarrow> test_args \<Rightarrow> string \<Rightarrow> test_result printing" where
  "test_backend tm w args backend =
     bind_print (silently (validate_backend backend (ta_comm_op args) (tm_world tm))) (\<lambda>_.
     let M = ta_m args; N = ta_n args; K = ta_k args; comm_op = ta_comm_op args
     in bind_print (load_solution tm w M N K backend) (\<lambda>(path, data).
        bind_print (silently (test_plan_of tm args path data)) (\<lambda>p.
        bind_print (prints ['''', hash_rule, ''# Running backend='' @ backend, hash_rule]) (\<lambda>_.
        bind_print (prints (settings_lines tm args backend p)) (\<lambda>_.
        bind_print (prints [''[phase] perf_comm'']) (\<lambda>_.
        bind_print (test_perf_comm tm M N comm_op backend) (\<lambda>comm_dur.
        bind_print (prints [''[phase] perf_overlap'']) (\<lambda>_.
        bind_print (perf_overlap tm backend comm_op (M, N, K) (tp_tile p) (tp_algo p) (tp_cSeg p) (tp_hint p) (tp_map p) (tp_active p)
                      (if should_set_overlap_comm_ctas args backend then Some (tp_slack p) else None)) (\<lambda>overlap_dur.
        bind_print (baseline_if (run_cublas_baseline args) ''cublas''
                      (perf_baseline tm backend comm_op ''cublas'' (tp_algo p) (M, N, K))) (\<lambda>cublas.
        bind_print (baseline_if (run_plain_baseline args) ''plain''
                      (perf_baseline tm backend comm_op ''plain'' (tp_algo p) (M, N, K))) (\<lambda>plain.
        bind_print (silently (require (cublas @ plain = [] \<or> overlap_dur \<noteq> 0) ZeroDivisionError)) (\<lambda>_.
        let r = \<lparr>res_backend = backend, res_op = comm_op, res_solution = path, res_algo = tp_algo p, res_tile = tp_tile p,
                 res_cSeg = tp_cSeg p, res_active = tp_active p, res_slack = tp_slack p, res_comm = comm_dur, res_overlap = overlap_dur,
                 res_gemm = tp_gemm p, res_baselines = cublas @ plain,
                 res_speedups = map (\<lambda>(name, x). (name, x / overlap_dur)) (cublas @ plain), res_ctas = cta_env args backend (tp_slack p)\<rparr>
        in bind_print (prints (table_lines r)) (\<lambda>_. silently (Inr r))))))))))))))"

section \<open>The summary\<close>

definition fixed4_or_nan :: "real option \<Rightarrow> string" where
  "fixed4_or_nan x = (case x of None \<Rightarrow> ''nan'' | Some v \<Rightarrow> fixed4 v)"

definition columns :: "string \<Rightarrow> (nat \<times> string) list \<Rightarrow> string" where
  "columns first rest = py_join '' '' (first # map (\<lambda>(n, s). rjust n s) rest)"

definition summary_row :: "test_result \<Rightarrow> string" where
  "summary_row r =
     (let base = map_of (res_baselines r); speed = map_of (res_speedups r)
      in columns (ljust 10 (res_backend r))
           [(12, fixed4 (res_overlap r)), (10, fixed4 (res_comm r)), (12, fixed4_or_nan (base ''cublas'')), (9, fixed4_or_nan (speed ''cublas'')),
            (12, fixed4_or_nan (base ''plain'')), (9, fixed4_or_nan (speed ''plain'')), (26, res_ctas r),
            (24, repr_json (JList (map JInt (res_cSeg r))))])"

definition comparison :: "string \<Rightarrow> real \<Rightarrow> real \<Rightarrow> string printing" where
  "comparison title num den =
     silently (bind_res (require (den \<noteq> 0) ZeroDivisionError) (\<lambda>_.
       Inr (columns (ljust 52 title) [(14, fixed4 num), (14, fixed4 den), (10, fixed4 (num / den))])))"

definition print_comparison :: "string \<Rightarrow> real option \<Rightarrow> real \<Rightarrow> unit printing" where
  "print_comparison title num den =
     (case num of None \<Rightarrow> prints [] | Some x \<Rightarrow> bind_print (comparison title x den) (\<lambda>l. prints [l]))"

text \<open>The dictionary by backend holds the last result of a backend.\<close>

definition result_of :: "test_result list \<Rightarrow> string \<Rightarrow> test_result option" where
  "result_of results backend = map_of (rev (map (\<lambda>r. (res_backend r, r)) results)) backend"

definition cross_summary :: "test_result \<Rightarrow> test_result \<Rightarrow> unit printing" where
  "cross_summary nccl oo =
     (let line = (\<lambda>base. bind_print
            (print_comparison (''nccl overlap vs ooverlap '' @ base @ '' baseline'') (map_of (res_baselines oo) base) (res_overlap nccl)) (\<lambda>_.
             print_comparison (''ooverlap overlap vs nccl '' @ base @ '' baseline'') (map_of (res_baselines nccl) base) (res_overlap oo)))
      in bind_print (prints ['''', hash_rule, ''# Cross-backend speedups'', hash_rule,
           columns (ljust 52 ''comparison'') [(14, ''baseline(ms)''), (14, ''overlap(ms)''), (10, ''speedup'')],
           columns (ljust 52 ''----------'') [(14, ''------------''), (14, ''-----------''), (10, ''-------'')]]) (\<lambda>_.
         bind_print (line ''cublas'') (\<lambda>_.
         bind_print (line ''plain'') (\<lambda>_.
         bind_print (prints ['''', hash_rule, ''# Overlap-to-overlap'', hash_rule,
           columns (ljust 52 ''comparison'') [(14, ''reference(ms)''), (14, ''target(ms)''), (10, ''ratio'')]]) (\<lambda>_.
         print_comparison ''ooverlap overlap vs nccl overlap'' (Some (res_overlap nccl)) (res_overlap oo))))))"

definition print_summary :: "test_result list \<Rightarrow> unit printing" where
  "print_summary results =
     (if results = [] then prints []
      else
        bind_print (prints (['''', hash_rule, ''# Summary'', hash_rule,
          columns (ljust 10 ''backend'') [(12, ''overlap(ms)''), (10, ''comm(ms)''), (12, ''cublas_base''), (9, ''x_cublas''),
            (12, ''plain_base''), (9, ''x_plain''), (26, ''CTA env''), (24, ''cSeg'')],
          columns (ljust 10 ''-------'') [(12, ''-----------''), (10, ''--------''), (12, ''-----------''), (9, ''--------''),
            (12, ''----------''), (9, ''-------''), (26, ''-------''), (24, ''----'')]]
          @ map summary_row results)) (\<lambda>_.
        case (result_of results ''nccl'', result_of results ''ooverlap'') of
          (Some nccl, Some oo) \<Rightarrow> cross_summary nccl oo
        | _ \<Rightarrow> prints []))"

section \<open>Main\<close>

fun test_backends :: "test_machine \<Rightarrow> 'o world \<Rightarrow> test_args \<Rightarrow> string list \<Rightarrow> test_result list printing" where
  "test_backends tm w args [] = silently (Inr [])"
| "test_backends tm w args (b # bs) =
     (if b = ''ooverlap'' \<and> ta_comm_op args \<noteq> ''all_reduce''
      then bind_print (prints ['''', ''Skipping ooverlap: ooverlap backend currently supports only all_reduce.'']) (\<lambda>_.
           test_backends tm w args bs)
      else bind_print (test_backend tm w args b) (\<lambda>r.
           bind_print (test_backends tm w args bs) (\<lambda>rs. silently (Inr (r # rs)))))"

definition test_main :: "test_machine \<Rightarrow> 'o world \<Rightarrow> test_args \<Rightarrow> test_result list printing" where
  "test_main tm w args =
     bind_print (silently (require (2 \<le> tm_world tm) (RuntimeError ''At least 2 GPUs are required.''))) (\<lambda>_.
     bind_print (test_backends tm w args
                   (if ta_comm_backend args = ''both'' then [''nccl'', ''ooverlap''] else [ta_comm_backend args])) (\<lambda>results.
     bind_print (print_summary results) (\<lambda>_. silently (Inr results))))"

text \<open>The program \<open>test.py\<close>.\<close>

definition test_program :: "test_machine \<Rightarrow> 'o world \<Rightarrow> string list \<Rightarrow> test_result list printing" where
  "test_program tm w argv =
     bind_print (silently (parse_args test_options argv)) (\<lambda>ns. test_main tm w (test_settings ns))"

end
