(* ===== verification/TestCorrect.thy ===== *)
theory TestCorrect
  imports TestReport
begin

text \<open>
  What the evaluation's parser makes of the lines that the test prints: every line but the section heads and the rows of the
  table is skipped, and each row gives one field.
\<close>

section \<open>Numbers\<close>

lemma round_half_even_close: "\<bar>of_int (round_half_even y) - y\<bar> \<le> 1 / 2"
proof -
  have "of_int \<lfloor>y\<rfloor> \<le> y" "y < of_int \<lfloor>y\<rfloor> + 1" by linarith+
  then show ?thesis by (auto simp: round_half_even_def Let_def abs_le_iff)
qed

lemma read_digits_digits: "d < 10 \<Longrightarrow> read_digits a (digit_char d # cs) = read_digits (10 * a + d) cs"
  by simp

lemma base_ten:
  "a1 = 10 * a2 + d1 \<Longrightarrow> a2 = 10 * a3 + d2 \<Longrightarrow> m = 10 * a1 + d0 \<Longrightarrow> d3 = a3 \<Longrightarrow>
   10 * (10 * (10 * (10 * a + d3) + d2) + d1) + d0 = 10000 * a + (m :: nat)"
  by simp

lemma four_digits_value: "m < 10000 \<Longrightarrow> read_digits a (four_digits m) = Some (10000 * a + m)"
proof -
  assume "m < 10000"
  define a3 a2 a1 where "a3 = m div 1000" and "a2 = m div 100" and "a1 = m div 10"
  have "a1 = 10 * a2 + a1 mod 10" "a2 = 10 * a3 + a2 mod 10" "m = 10 * a1 + m mod 10" "a3 mod 10 = a3"
    using \<open>m < 10000\<close> mult_div_mod_eq [of 10 a1] mult_div_mod_eq [of 10 a2]
    by (simp_all add: a1_def a2_def a3_def flip: div_mult2_eq)
  then have "10 * (10 * (10 * (10 * a + a3 mod 10) + a2 mod 10) + a1 mod 10) + m mod 10 = 10000 * a + m"
    by (rule base_ten)
  then show ?thesis using \<open>m < 10000\<close> by (simp add: four_digits_def a1_def a2_def a3_def)
qed

lemma four_digits_span: "span_digits (four_digits m) = (four_digits m, [])"
  by (simp add: span_digits_def four_digits_def)

lemma span_digits_dot: "span_digits (str_nat n @ CHR ''.'' # cs) = (str_nat n, CHR ''.'' # cs)"
proof -
  have "char_digit c \<noteq> None" if "c \<in> set (str_nat n)" for c using str_nat_digits [OF that] by auto
  moreover have "char_digit CHR ''.'' = None" by code_simp
  ultimately show ?thesis by (simp add: span_digits_def takeWhile_append2 dropWhile_append2)
qed

lemma fixed4_no_space: "c \<in> set (fixed4 x) \<Longrightarrow> \<not> is_space c"
  by (auto simp: fixed4_def four_digits_def Let_def dest!: str_nat_digits split: if_splits) (auto simp: is_space_def)

lemma split_sign_digits: "split_sign (str_nat n @ cs) = (1, str_nat n @ cs)"
proof -
  obtain c ds where c: "str_nat n = c # ds" by (cases "str_nat n") simp_all
  then show ?thesis using str_nat_digits [of c n] digit_char_not_sign by (auto simp: split_sign_def)
qed

lemma py_float_decimal:
  assumes "m < 10000" and sg: "s = (if neg then ''-'' else '''') @ str_nat n @ CHR ''.'' # four_digits m" and "py_strip s = s"
  shows "py_float s = Inr ((if neg then -1 else 1) * (of_nat (10000 * n + m) / 10000))"
proof -
  have sign: "split_sign s = (if neg then -1 else 1, str_nat n @ CHR ''.'' # four_digits m)"
    using split_sign_digits sg by (cases neg) (simp_all add: split_sign_def [of "CHR ''-'' # _"])
  have digits: "digits_value (str_nat n @ four_digits m) = 10000 * n + m"
    using assms(1) by (simp add: digits_value_def read_digits_append read_digits_str_nat four_digits_value)
  have "length (four_digits m) = 4" "(10 :: real) powi (0 - int 4) = 1 / 10000"
    by (simp_all add: four_digits_def power_int_def power_divide)
  then show ?thesis
    unfolding py_float_def assms(3) sign Let_def prod.case span_digits_dot list.case four_digits_span
    by (simp only: if_True refl prod.case four_digits_span str_nat_nonempty if_False simp_thms read_exponent_def list.case option.case digits)
      (cases neg; simp)
qed

lemma py_float_fixed4: "\<exists>v. py_float (fixed4 x) = Inr v \<and> \<bar>v - x\<bar> \<le> 1 / 20000"
proof -
  define n where "n = nat (round_half_even (\<bar>x\<bar> * 10000))"
  have "0 \<le> \<lfloor>\<bar>x\<bar> * 10000\<rfloor>" by simp
  then have "0 \<le> round_half_even (\<bar>x\<bar> * 10000)" by (simp add: round_half_even_def Let_def)
  then have n: "of_nat n = (of_int (round_half_even (\<bar>x\<bar> * 10000)) :: real)" by (simp add: n_def)
  let ?v = "(if x < 0 then -1 else 1) * (of_nat n / 10000 :: real)"
  have close: "\<bar>?v - x\<bar> \<le> 1 / 20000"
    using round_half_even_close [of "\<bar>x\<bar> * 10000"] unfolding n [symmetric] abs_le_iff by (cases "x < 0") simp_all
  have "py_strip (fixed4 x) = fixed4 x" by (rule py_strip_id) (rule fixed4_no_space)
  moreover have "fixed4 x = (if x < 0 then ''-'' else '''') @ str_nat (n div 10000) @ CHR ''.'' # four_digits (n mod 10000)"
    by (simp add: fixed4_def Let_def n_def)
  ultimately have "py_float (fixed4 x) = Inr ((if x < 0 then -1 else 1) * (of_nat (10000 * (n div 10000) + n mod 10000) / 10000))"
    by (intro py_float_decimal) simp_all
  then have "py_float (fixed4 x) = Inr ?v" by simp
  then show ?thesis using close by blast
qed

section \<open>Quiet lines\<close>

definition tame :: "string \<Rightarrow> bool" where
  "tame s \<longleftrightarrow> list_all (\<lambda>c. \<not> line_break c \<and> c \<noteq> CHR ''#'') s"

lemma tame_append [simp]: "tame (s @ t) \<longleftrightarrow> tame s \<and> tame t"
  by (simp add: tame_def)

lemma tame_Nil [simp]: "tame []"
  by (simp add: tame_def)

lemma tame_Cons [simp]: "tame (c # s) \<longleftrightarrow> (\<not> line_break c \<and> c \<noteq> CHR ''#'') \<and> tame s"
  by (simp add: tame_def)

lemma tame_digit [simp]: "d < 10 \<Longrightarrow> \<not> line_break (digit_char d) \<and> digit_char d \<noteq> CHR ''#''"
proof -
  assume d: "d < 10"
  then have "(of_char (digit_char d) :: nat) \<noteq> of_char CHR ''#''" by (simp add: digit_char_code)
  then have "digit_char d \<noteq> CHR ''#''" by metis
  then show ?thesis using d by (auto simp: line_break_def digit_char_code)
qed

lemma tame_blanks [simp]: "tame (replicate n CHR '' '')"
  by (induction n) (simp_all add: line_break_def)

lemma tame_str_nat [simp]: "tame (str_nat n)"
proof -
  have "\<not> line_break c \<and> c \<noteq> CHR ''#''" if "c \<in> set (str_nat n)" for c
    using str_nat_digits [OF that] tame_digit by auto
  then show ?thesis by (auto simp: tame_def list_all_iff)
qed

lemma tame_str_int [simp]: "tame (str_int i)"
  by (simp add: str_int_def line_break_def)

lemma tame_fixed4 [simp]: "tame (fixed4 x)"
  by (simp add: fixed4_def Let_def four_digits_def tame_digit [THEN conjunct1] tame_digit [THEN conjunct2]) (simp add: line_break_def)

lemma tame_pad [simp]: "tame (ljust n s) \<longleftrightarrow> tame s" "tame (rjust n s) \<longleftrightarrow> tame s"
  by (simp_all add: ljust_def rjust_def)

lemma tame_join: "tame sep \<Longrightarrow> list_all tame ws \<Longrightarrow> tame (py_join sep ws)"
  by (induction sep ws rule: py_join.induct) auto

lemma tame_ints [simp]: "tame (repr_json (JList (map JInt is)))"
  by (auto simp: line_break_def list_all_iff intro!: tame_join)

lemma tame_columns: "tame first \<Longrightarrow> list_all (\<lambda>(n, s). tame s) rest \<Longrightarrow> tame (columns first rest)"
  unfolding columns_def by (rule tame_join) (auto simp: line_break_def list_all_iff)

definition skipped :: "string \<Rightarrow> bool" where
  "skipped l \<longleftrightarrow> search_running (rstrip l) = None \<and>
     (case key_value (rstrip l) of
        None \<Rightarrow> True
      | Some (k, v) \<Rightarrow> k \<notin> set (FLOAT_KEYS @ STR_KEYS) \<or> (k = ''backend'' \<and> last_word v \<notin> {''nccl'', ''ooverlap''}))"

lemma skipped_line: "skipped l \<Longrightarrow> parse_line l st = st"
  unfolding skipped_def parse_line_def by (cases st) (auto simp: Let_def split: option.splits)

definition single_line :: "string \<Rightarrow> bool" where
  "single_line s \<longleftrightarrow> list_all (\<lambda>c. \<not> line_break c) s"

definition quiet :: "string \<Rightarrow> bool" where
  "quiet l \<longleftrightarrow> single_line l \<and> skipped l"

lemma tame_single_line: "tame s \<Longrightarrow> single_line s"
  by (simp add: tame_def single_line_def list_all_iff)

lemma quiet_lines: "list_all quiet ls \<Longrightarrow> foldl (\<lambda>st l. parse_line l st) st ls = st"
  by (induction ls) (simp_all add: quiet_def skipped_line)

lemma running_needs_hash: "CHR ''#'' \<notin> set s \<Longrightarrow> search_running s = None"
  by (induction s) (auto simp: running_here_def Let_def)

lemma rstrip_split: "\<exists>t. s = rstrip s @ t \<and> list_all is_space t"
proof -
  have "s = rev (dropWhile is_space (rev s)) @ rev (takeWhile is_space (rev s))"
    by (metis rev_append rev_rev_ident takeWhile_dropWhile_id)
  moreover have "list_all is_space (rev (takeWhile is_space (rev s)))" by (auto simp: list_all_iff dest: set_takeWhileD)
  ultimately show ?thesis unfolding rstrip_def by blast
qed

lemma rstrip_end [simp]: "\<not> is_space c \<Longrightarrow> rstrip (s @ [c]) = s @ [c]"
  by (simp add: rstrip_def)

lemma word_not_space: "word_char c \<Longrightarrow> \<not> is_space c"
  by (auto simp: word_char_def word_start_def is_space_def char_digit_def Let_def split: if_splits)

text \<open>A line without \<open>#\<close> is skipped if it starts with no key.\<close>

lemma quiet_line:
  assumes "tame l" and "l = [] \<or> \<not> is_space (hd l)" and "takeWhile word_char l \<notin> set (FLOAT_KEYS @ STR_KEYS)"
  shows "quiet l"
proof -
  obtain t where t: "l = rstrip l @ t" "list_all is_space t" using rstrip_split by blast
  have "CHR ''#'' \<notin> set l" using assms(1) by (auto simp: tame_def list_all_iff)
  then have "search_running (rstrip l) = None" using t(1) by (intro running_needs_hash) (metis UnCI set_append)
  moreover have "key_value (rstrip l) = None \<or> (\<exists>v. key_value (rstrip l) = Some (takeWhile word_char l, v))"
  proof (cases "rstrip l")
    case (Cons c cs)
    then have "\<not> is_space c" using assms(2) t by (metis append_Cons list.distinct(1) list.sel(1))
    then have "lstrip (rstrip l) = rstrip l" by (simp add: lstrip_def Cons)
    moreover have "takeWhile word_char l = takeWhile word_char (rstrip l)"
    proof -
      have "takeWhile word_char t = []" using t(2) word_not_space by (cases t) auto
      then show ?thesis using t(1) by (metis append_Nil2 takeWhile_append takeWhile_append1 takeWhile_eq_all_conv)
    qed
    ultimately show ?thesis by (simp add: key_value_def Let_def)
  qed (simp add: key_value_def lstrip_def)
  ultimately show ?thesis using assms tame_single_line by (auto simp: quiet_def skipped_def)
qed

section \<open>The lines of the test\<close>

lemmas key_defs = FLOAT_KEYS_def STR_KEYS_def

lemma word_char_lits [simp]:
  "\<not> word_char CHR '':''" "\<not> word_char CHR '' ''" "\<not> word_char CHR ''[''" "\<not> word_char CHR ''-''"
  "\<not> is_space CHR ''['' \<and> \<not> is_space CHR ''-''"
  by code_simp+

lemma quiet_literals [simp]:
  "quiet ''''" "quiet hash_rule" "quiet ''[phase] perf_comm''" "quiet ''[phase] perf_overlap''"
  "quiet ''# Summary''" "quiet ''# Cross-backend speedups''" "quiet ''# Overlap-to-overlap''"
  "quiet ''Skipping ooverlap: ooverlap backend currently supports only all_reduce.''"
  "quiet (table_line ''Item'' ''Value'')" "quiet (table_line ''----'' ''-----'')"
  by code_simp+

text \<open>A line that starts with a word that is no key and a character that is none.\<close>

lemma quiet_labelled:
  assumes "tame s" and "list_all word_char k" and "k \<noteq> []" and "\<not> word_char c" and "tame k" and "tame [c]"
    and "k \<notin> set (FLOAT_KEYS @ STR_KEYS)"
  shows "quiet (k @ c # s)"
proof (rule quiet_line)
  show "tame (k @ c # s)" using assms by simp
  have "\<not> is_space (hd k)" using assms(2,3) word_not_space by (cases k) auto
  then show "k @ c # s = [] \<or> \<not> is_space (hd (k @ c # s))" using assms(3) by simp
  have "takeWhile word_char (k @ c # s) = k" using assms(2,4) by (simp add: list_all_iff takeWhile_append2)
  then show "takeWhile word_char (k @ c # s) \<notin> set (FLOAT_KEYS @ STR_KEYS)" using assms(7) by simp
qed

definition line_words :: "string list" where
  "line_words = [''solution'', ''shape'', ''algo'', ''tile'', ''tile_num'', ''cSeg'', ''hint_len'', ''reorder_map'', ''sm_count'',
     ''active_sm_count'', ''comm_sm_slack'', ''config_gemm_dur'', ''overlap'', ''WARNING'', ''timing_stats'', ''nccl'', ''ooverlap'']"

lemma line_words_no_keys: "list_all (\<lambda>k. list_all word_char k \<and> k \<noteq> [] \<and> tame k \<and> k \<notin> set (FLOAT_KEYS @ STR_KEYS)) line_words"
  by code_simp

lemma tame_lits [simp]: "tame [CHR '':'']" "tame [CHR '' '']"
  by code_simp+

lemma quiet_word:
  assumes "k \<in> set line_words" and "c \<in> {CHR '':'', CHR '' ''}" and "tame s"
  shows "quiet (k @ c # s)"
proof -
  from bspec [OF line_words_no_keys [unfolded list_all_iff [of _ line_words]] assms(1)]
  have k: "list_all word_char k" "k \<noteq> []" "tame k" "k \<notin> set (FLOAT_KEYS @ STR_KEYS)" by blast+
  have c: "\<not> word_char c" "tame [c]" using assms(2) by (auto simp del: tame_Cons)
  show ?thesis by (rule quiet_labelled [OF assms(3) k(1,2) c(1) k(3) c(2) k(4)])
qed

lemma tame_ctas [simp]: "tame (cta_env args b slack)"
  by (simp add: cta_env_def line_break_def)

definition labelled :: "string \<times> string \<Rightarrow> string" where
  "labelled l = fst l @ CHR '':'' # snd l"

lemma settings_labelled:
  "settings_lines tm args b p =
     map labelled
       [(''solution'', ''          '' @ tp_solution p),
        (''shape'', ''             M='' @ str_int (ta_m args) @ '' N='' @ str_int (ta_n args) @ '' K='' @ str_int (ta_k args)),
        (''algo'', ''              '' @ str_int (tp_algo p)),
        (''tile'', ''              BM='' @ str_int (fst (tp_tile p)) @ '' BN='' @ str_int (snd (tp_tile p))),
        (''tile_num'', ''          '' @ str_int (tp_tile_num p)),
        (''cSeg'', ''              '' @ repr_json (JList (map JInt (tp_cSeg p)))),
        (''hint_len'', ''          '' @ str_int (int (length (tp_hint p)))),
        (''reorder_map'', ''       '' @ (if tp_map p \<noteq> JNull then ''yes'' else ''no'')),
        (''sm_count'', ''          '' @ str_int (tm_sms tm)),
        (''active_sm_count'', ''   '' @ str_int (tp_active p)),
        (''comm_sm_slack'', ''     '' @ str_int (tp_slack p)),
        (''config_gemm_dur'', ''   '' @ fixed4 (tp_gemm p) @ '' ms'')]
     @ [''overlap'' @ CHR '' '' # ''CTA env:   '' @ cta_env args b (tp_slack p)]"
  by (simp add: settings_lines_def labelled_def del: repr_json.simps)

lemma quiet_labels: "list_all (\<lambda>(k, s). k \<in> set line_words \<and> tame s) ls \<Longrightarrow> list_all quiet (map labelled ls)"
  by (induction ls) (auto simp: labelled_def intro: quiet_word)

lemma quiet_settings:
  assumes "tame (tp_solution p)"
  shows "list_all quiet (settings_lines tm args b p)"
proof -
  have overlap: "quiet (''overlap'' @ CHR '' '' # ''CTA env:   '' @ cta_env args b (tp_slack p))"
    by (rule quiet_word) (simp_all add: line_words_def line_break_def)
  show ?thesis
    unfolding settings_labelled list_all_append
    by (intro conjI quiet_labels) (use assms overlap in \<open>simp_all add: line_words_def line_break_def del: repr_json.simps append_Cons append_Nil\<close>)
qed

lemma quiet_timing [simp]: "quiet (timing_stats vals)"
proof -
  have "quiet (''timing_stats'' @ CHR '' '' # ''n='' @ str_int (int (length (sort vals))) @ '' mean=''
      @ fixed4 (sum_list (sort vals) / of_nat (length (sort vals))) @ '' min='' @ fixed4 (sort vals ! 0) @ '' p50='' @ fixed4 (pct (sort vals) 50)
      @ '' p90='' @ fixed4 (pct (sort vals) 90) @ '' p99='' @ fixed4 (pct (sort vals) 99) @ '' max='' @ fixed4 (List.last (sort vals)))"
    by (rule quiet_word) (simp_all add: line_words_def line_break_def)
  then show ?thesis by (simp add: timing_stats_def Let_def)
qed

section \<open>The rows of the table\<close>

lemma keys_are_words: "list_all (\<lambda>k. list_all word_char k \<and> k \<noteq> [] \<and> word_start (hd k) \<and> tame k) (FLOAT_KEYS @ STR_KEYS)"
  by code_simp

lemma table_line_split: "\<exists>n. table_line k v = k @ CHR '' '' # replicate n CHR '' '' @ v"
proof -
  have "replicate a CHR '' '' @ CHR '' '' # replicate b CHR '' '' = CHR '' '' # replicate (a + b) CHR '' ''" for a b
    by (simp add: replicate_add replicate_app_Cons_same)
  then have "table_line k v = k @ CHR '' '' # replicate ((30 - length k) + (18 - length v)) CHR '' '' @ v"
    by (simp add: table_line_def ljust_def rjust_def)
  then show ?thesis by blast
qed

lemma table_line_read:
  assumes "k \<in> set (FLOAT_KEYS @ STR_KEYS)" and "tame v" and "v \<noteq> []" and "\<And>c. c \<in> set v \<Longrightarrow> \<not> is_space c"
  shows "search_running (rstrip (table_line k v)) = None" and "key_value (rstrip (table_line k v)) = Some (k, v)" and "last_word v = v"
    and "single_line (table_line k v)"
proof -
  from bspec [OF keys_are_words [unfolded list_all_iff [of _ "_ @ _"]] assms(1)]
  have k: "list_all word_char k" "k \<noteq> []" "word_start (hd k)" "tame k" by blast+
  obtain n where l: "table_line k v = k @ CHR '' '' # replicate n CHR '' '' @ v" using table_line_split by blast
  have blank: "is_space CHR '' ''" "\<not> word_char CHR '' ''" by code_simp+
  obtain w c where v: "v = w @ [c]" using assms(3) by (cases v rule: rev_cases) auto
  have c: "\<not> is_space c" using assms(4) v by simp
  have r: "rstrip (table_line k v) = table_line k v"
    unfolding l using rstrip_end [OF c, of "k @ CHR '' '' # replicate n CHR '' '' @ w"] by (simp add: v)
  have tame: "tame (table_line k v)" using k assms(2) by (simp add: l line_break_def)
  then show "single_line (table_line k v)" by (rule tame_single_line)
  show "search_running (rstrip (table_line k v)) = None"
    unfolding r by (rule running_needs_hash) (use tame in \<open>auto simp: tame_def list_all_iff\<close>)
  have kv: "takeWhile word_char (table_line k v) = k" "dropWhile word_char (table_line k v) = CHR '' '' # replicate n CHR '' '' @ v"
    using k(1) blank(2) by (simp_all add: l list_all_iff takeWhile_append2 dropWhile_append2)
  have "\<not> is_space (hd (table_line k v))" unfolding l using k(1,2) word_not_space by (cases k) auto
  then have ls: "lstrip (table_line k v) = table_line k v" using k(2) unfolding l by (cases k) (simp_all add: lstrip_def)
  have "dropWhile is_space (replicate n CHR '' '' @ v) = v"
    using blank(1) assms(3,4) by (cases v) (simp_all add: dropWhile_append)
  then have "py_strip (CHR '' '' # replicate n CHR '' '' @ v) = v"
    using blank(1) c by (simp add: py_strip_def v)
  then show "key_value (rstrip (table_line k v)) = Some (k, v)"
    unfolding r key_value_def Let_def ls kv using k blank by simp
  have "rstrip v = v" using rstrip_end [OF c] v by simp
  moreover have "takeWhile (\<lambda>c. \<not> is_space c) (rev v) = rev v" unfolding takeWhile_eq_all_conv set_rev using assms(4) by blast
  ultimately show "last_word v = v" unfolding last_word_def by (simp only: rev_rev_ident)
qed

lemma update_new: "k \<notin> fst ` set al \<Longrightarrow> AList.update k v al = al @ [(k, v)]"
  by (induction al) auto

lemma update_end: "k \<notin> fst ` set al \<Longrightarrow> AList.update k v (al @ [(k, x)]) = al @ [(k, v)]"
  by (induction al) auto

lemma field_set:
  assumes "b \<notin> fst ` set bb" and "k \<notin> fst ` set row"
  shows "set_field b k v (ensure_backend b (bb @ [(b, row)])) = bb @ [(b, row @ [(k, v)])]"
proof -
  have "map_of (bb @ [(b, row)]) b = Some row" using assms(1) by (simp add: map_add_Some_iff map_of_eq_None_iff)
  then show ?thesis using assms by (simp add: ensure_backend_def set_field_def update_new update_end)
qed

lemma fixed4_readable: "tame (fixed4 x)" "fixed4 x \<noteq> []" "c \<in> set (fixed4 x) \<Longrightarrow> \<not> is_space c"
proof -
  show "tame (fixed4 x)" "fixed4 x \<noteq> []" by (rule tame_fixed4, simp add: fixed4_def Let_def)
qed (rule fixed4_no_space)

lemma number_row:
  assumes "k \<in> set FLOAT_KEYS" and "b \<notin> fst ` set bb" and "k \<notin> fst ` set row"
  shows "parse_line (table_line k (fixed4 x)) (bb @ [(b, row)], Some b) = (bb @ [(b, row @ [(k, JFloat (fixed4 x))])], Some b)"
proof -
  have k: "k \<in> set (FLOAT_KEYS @ STR_KEYS)" "k \<noteq> ''backend''" using assms(1) by (auto simp: FLOAT_KEYS_def)
  obtain v where "py_float (fixed4 x) = Inr v" using py_float_fixed4 by blast
  then show ?thesis
    using table_line_read [OF k(1) fixed4_readable] k assms field_set [OF assms(2,3)]
    by (simp add: parse_line_def Let_def del: set_append)
qed

lemma number_rows:
  assumes "b \<notin> fst ` set bb" and "set (map fst kvs) \<subseteq> set FLOAT_KEYS" and "distinct (map fst row @ map fst kvs)"
  shows "foldl (\<lambda>st l. parse_line l st) (bb @ [(b, row)], Some b) (map (\<lambda>(k, x). table_line k (fixed4 x)) kvs)
    = (bb @ [(b, row @ map (\<lambda>(k, x). (k, JFloat (fixed4 x))) kvs)], Some b)"
  using assms(2,3)
proof (induction kvs arbitrary: row)
  case (Cons kx kvs)
  obtain k x where "kx = (k, x)" by (cases kx)
  then show ?case using Cons number_row [OF _ assms(1), of k row x] by (auto simp: image_iff)
qed simp

lemma text_row:
  assumes "b \<notin> fst ` set bb" and "''comm_op'' \<notin> fst ` set row" and "s \<in> {''all_reduce'', ''reduce_scatter''}"
  shows "parse_line (table_line ''comm_op'' s) (bb @ [(b, row)], Some b) = (bb @ [(b, row @ [(''comm_op'', JStr s)])], Some b)"
proof -
  have "tame s" "s \<noteq> []" "c \<in> set s \<Longrightarrow> \<not> is_space c" for c using assms(3) by (auto simp: line_break_def is_space_def)
  moreover have "''comm_op'' \<in> set (FLOAT_KEYS @ STR_KEYS)" "''comm_op'' \<notin> set FLOAT_KEYS" by code_simp+
  ultimately show ?thesis
    using table_line_read [of "''comm_op''" s] field_set [OF assms(1,2)] by (simp add: parse_line_def Let_def del: set_append)
qed

lemma backend_row:
  assumes "b \<notin> fst ` set bb" and "b \<in> {''nccl'', ''ooverlap''}"
  shows "parse_line (table_line ''backend'' b) (bb @ [(b, [])], Some b) = (bb @ [(b, [(''backend'', JStr b)])], Some b)"
proof -
  have "tame b" "b \<noteq> []" "c \<in> set b \<Longrightarrow> \<not> is_space c" for c using assms(2) by (auto simp: line_break_def is_space_def)
  moreover have "''backend'' \<in> set (FLOAT_KEYS @ STR_KEYS)" by code_simp
  moreover have "set_field b ''backend'' (JStr b) (ensure_backend b (bb @ [(b, [])])) = bb @ [(b, [(''backend'', JStr b)])]"
    using field_set [OF assms(1), of "''backend''" "[]"] by simp
  ultimately show ?thesis
    using table_line_read [of "''backend''" b] assms(2) by (simp add: parse_line_def Let_def del: set_append insert_iff)
qed

lemma running_row:
  assumes "b \<notin> fst ` set bb" and "b \<in> {''nccl'', ''ooverlap''}"
  shows "parse_line (''# Running backend='' @ b) (bb, cur) = (bb @ [(b, [])], Some b)" and "single_line (''# Running backend='' @ b)"
proof -
  have "list_all (\<lambda>b. search_running (rstrip (''# Running backend='' @ b)) = Some b \<and> single_line (''# Running backend='' @ b)) [''nccl'', ''ooverlap'']"
    by code_simp
  then have "search_running (rstrip (''# Running backend='' @ b)) = Some b" and o: "single_line (''# Running backend='' @ b)"
    using assms(2) unfolding list_all_iff by auto
  then show "parse_line (''# Running backend='' @ b) (bb, cur) = (bb @ [(b, [])], Some b)"
    using assms(1) by (simp add: parse_line_def ensure_backend_def map_of_eq_None_iff)
  show "single_line (''# Running backend='' @ b)" by (rule o)
qed

section \<open>The output of a run\<close>

lemma bind_printE:
  assumes "bind_print m f = (out, Inr y)"
  obtains ls x ls' where "m = (ls, Inr x)" and "f x = (ls', Inr y)" and "out = ls @ ls'"
  using assms by (auto simp: bind_print_def split: prod.splits sum.splits)

lemma silently_Inr [simp]: "silently r = (ls, Inr y) \<longleftrightarrow> ls = [] \<and> r = Inr y"
  by (auto simp: silently_def)

lemma prints_Inr [simp]: "prints l = (ls, Inr y) \<longleftrightarrow> ls = l"
  by (auto simp: prints_def)

lemma quiet_bind: "list_all quiet (fst m) \<Longrightarrow> (\<And>x. list_all quiet (fst (f x))) \<Longrightarrow> list_all quiet (fst (bind_print m f))"
  by (auto simp: bind_print_def split: prod.splits sum.splits) (metis fst_conv)

lemma quiet_silently [simp]: "list_all quiet (fst (silently r))"
  by (simp add: silently_def)

lemma quiet_timed [simp]: "list_all quiet (fst (timed tm readings))"
  unfolding timed_def by (rule quiet_bind) (simp_all add: mean_timed_def)

lemma quiet_ranks: "(\<And>r. list_all quiet (fst (worker r))) \<Longrightarrow> list_all quiet (fst (run_ranks worker rs))"
  by (induction rs) (auto intro!: quiet_bind)

lemma quiet_slowest: "(\<And>r. list_all quiet (fst (worker r))) \<Longrightarrow> list_all quiet (fst (slowest_rank worker n))"
  using quiet_ranks [of worker "[0..<nat n]"] by (auto simp: slowest_rank_def split: prod.splits sum.splits)

lemma quiet_perf [simp]:
  "list_all quiet (fst (test_perf_comm tm M N comm_op b))"
  "list_all quiet (fst (perf_overlap tm b comm_op shape tile algo cSeg hint rmap active ctas))"
  "list_all quiet (fst (perf_baseline tm b comm_op kind algo shape))"
  by (auto simp: test_perf_comm_def perf_overlap_def perf_baseline_def perf_overlap_process_def intro!: quiet_bind quiet_slowest split: prod.splits)

lemma quiet_baseline: "kind \<in> {''cublas'', ''plain''} \<Longrightarrow> list_all quiet (fst run) \<Longrightarrow> list_all quiet (fst (baseline_if wanted kind run))"
proof -
  have "list_all (\<lambda>k. quiet (''[phase] '' @ k @ '' baseline'')) [''cublas'', ''plain'']" by code_simp
  then show "kind \<in> {''cublas'', ''plain''} \<Longrightarrow> list_all quiet (fst run) \<Longrightarrow> list_all quiet (fst (baseline_if wanted kind run))"
    by (auto simp: baseline_if_def prints_def intro!: quiet_bind)
qed

lemma tame_map:
  assumes "\<And>c. \<not> line_break c \<and> c \<noteq> CHR ''#'' \<Longrightarrow> \<not> line_break (f c) \<and> f c \<noteq> CHR ''#''"
  shows "tame s \<Longrightarrow> tame (map f s)"
  using assms by (auto simp: tame_def list_all_iff)

lemma tame_lower: "tame s \<Longrightarrow> tame (gpu_config_name s)"
proof -
  have "\<not> line_break (lower_char c) \<and> lower_char c \<noteq> CHR ''#''" if "\<not> line_break c \<and> c \<noteq> CHR ''#''" for c
  proof (cases "(of_char c :: nat) \<in> {65..90}")
    case True
    then have "(of_char (lower_char c) :: nat) = of_char c + 32" by (simp add: lower_char_def Let_def)
    then have "\<not> line_break (lower_char c)" "(of_char (lower_char c) :: nat) \<noteq> of_char CHR ''#''" using True by (auto simp: line_break_def)
    then show ?thesis by metis
  qed (use that in \<open>auto simp: lower_char_def Let_def\<close>)
  moreover have "\<not> line_break CHR ''_''" by code_simp
  ultimately show "tame s \<Longrightarrow> tame (gpu_config_name s)"
    unfolding gpu_config_name_def replace_char_def py_lower_def by (intro tame_map) auto
qed

lemma found_path_tame:
  assumes "find_solution_json tm w M N K b = Inr p" and "tame (tm_repo tm)" and "tame (tm_gpu tm)" and "tame b"
  shows "tame p"
  using assms tame_lower [of "tm_gpu tm"]
  by (auto simp: find_solution_json_def test_solution_path_def legacy_backend_path_def legacy_path_def below_def line_break_def Let_def
      split: if_splits)

lemma load_solution_parts:
  assumes "load_solution tm w M N K b = (ls, Inr (p, data))"
  shows "find_solution_json tm w M N K b = Inr p" and "map_of (files w) p = Some (JsonDoc (JObj data))"
    and "ls = [] \<or> ls = [''WARNING: loaded solution has comm_backend='' @ str_json (get_or data ''comm_backend'' JNull) @ '', requested='' @ b]"
  using assms
  by (auto simp: load_solution_def Let_def elim!: bind_printE split: option.splits content.splits json.splits if_splits sum.splits)
    (auto simp: bind_res_eq_Inr split: if_splits)

lemma baseline_parts:
  "baseline_if wanted kind run = (ls, Inr xs) \<Longrightarrow>
   (if wanted then \<exists>x. xs = [(kind, x)] \<and> snd run = Inr x else xs = [])"
  by (auto simp: baseline_if_def elim!: bind_printE split: if_splits)

lemma test_backend_parts:
  assumes "test_backend tm w args b = (out, Inr r)"
  shows "\<exists>l1 p data plan l2 l3 l4 l5 cublas plain.
     out = l1 @ ['''', hash_rule, ''# Running backend='' @ b, hash_rule] @ settings_lines tm args b plan @ [''[phase] perf_comm''] @ l2
            @ [''[phase] perf_overlap''] @ l3 @ l4 @ l5 @ table_lines r
     \<and> load_solution tm w (ta_m args) (ta_n args) (ta_k args) b = (l1, Inr (p, data)) \<and> test_plan_of tm args p data = Inr plan
     \<and> test_perf_comm tm (ta_m args) (ta_n args) (ta_comm_op args) b = (l2, Inr (res_comm r))
     \<and> perf_overlap tm b (ta_comm_op args) (ta_m args, ta_n args, ta_k args) (tp_tile plan) (tp_algo plan) (tp_cSeg plan) (tp_hint plan)
         (tp_map plan) (tp_active plan) (if should_set_overlap_comm_ctas args b then Some (tp_slack plan) else None) = (l3, Inr (res_overlap r))
     \<and> baseline_if (run_cublas_baseline args) ''cublas''
         (perf_baseline tm b (ta_comm_op args) ''cublas'' (tp_algo plan) (ta_m args, ta_n args, ta_k args)) = (l4, Inr cublas)
     \<and> baseline_if (run_plain_baseline args) ''plain''
         (perf_baseline tm b (ta_comm_op args) ''plain'' (tp_algo plan) (ta_m args, ta_n args, ta_k args)) = (l5, Inr plain)
     \<and> (res_backend r = b \<and> res_op r = ta_comm_op args \<and> res_algo r = tp_algo plan \<and> res_baselines r = cublas @ plain
         \<and> res_speedups r = map (\<lambda>(name, x). (name, x / res_overlap r)) (cublas @ plain) \<and> res_ctas r = cta_env args b (tp_slack plan)
         \<and> res_tile r = tp_tile plan \<and> res_cSeg r = tp_cSeg plan \<and> res_active r = tp_active plan)
     \<and> b \<in> {''nccl'', ''ooverlap''} \<and> ta_comm_op args \<in> {''all_reduce'', ''reduce_scatter''}"
proof -
  from assms obtain u l1 pd plan l2 l3 l4 l5 cublas plain comm_dur overlap_dur where
    parts: "validate_backend b (ta_comm_op args) (tm_world tm) = Inr u"
      "load_solution tm w (ta_m args) (ta_n args) (ta_k args) b = (l1, Inr pd)" "test_plan_of tm args (fst pd) (snd pd) = Inr plan"
      "test_perf_comm tm (ta_m args) (ta_n args) (ta_comm_op args) b = (l2, Inr comm_dur)"
      "perf_overlap tm b (ta_comm_op args) (ta_m args, ta_n args, ta_k args) (tp_tile plan) (tp_algo plan) (tp_cSeg plan) (tp_hint plan)
         (tp_map plan) (tp_active plan) (if should_set_overlap_comm_ctas args b then Some (tp_slack plan) else None) = (l3, Inr overlap_dur)"
      "baseline_if (run_cublas_baseline args) ''cublas''
         (perf_baseline tm b (ta_comm_op args) ''cublas'' (tp_algo plan) (ta_m args, ta_n args, ta_k args)) = (l4, Inr cublas)"
      "baseline_if (run_plain_baseline args) ''plain''
         (perf_baseline tm b (ta_comm_op args) ''plain'' (tp_algo plan) (ta_m args, ta_n args, ta_k args)) = (l5, Inr plain)"
    and r: "\<lparr>res_backend = b, res_op = ta_comm_op args, res_solution = fst pd, res_algo = tp_algo plan, res_tile = tp_tile plan,
                 res_cSeg = tp_cSeg plan, res_active = tp_active plan, res_slack = tp_slack plan, res_comm = comm_dur, res_overlap = overlap_dur,
                 res_gemm = tp_gemm plan, res_baselines = cublas @ plain,
                 res_speedups = map (\<lambda>(name, x). (name, x / overlap_dur)) (cublas @ plain), res_ctas = cta_env args b (tp_slack plan)\<rparr> = r"
    and out: "out = l1 @ ['''', hash_rule, ''# Running backend='' @ b, hash_rule] @ settings_lines tm args b plan @ [''[phase] perf_comm''] @ l2
            @ [''[phase] perf_overlap''] @ l3 @ l4 @ l5 @ table_lines r"
    unfolding test_backend_def Let_def
    apply (elim bind_printE)
    apply (simp only: silently_Inr prints_Inr split_beta)
    apply (elim bind_printE)
    apply (simp only: silently_Inr prints_Inr split_beta)
    apply (elim bind_printE conjE)
    apply (simp only: silently_Inr prints_Inr sum.inject append_Nil append_Nil2)
    done
  have b: "b \<in> {''nccl'', ''ooverlap''}" "ta_comm_op args \<in> {''all_reduce'', ''reduce_scatter''}"
    using parts(1) unfolding validate_backend_def by (auto elim!: bind_resE)
  have durs: "res_comm r = comm_dur" "res_overlap r = overlap_dur" using r by auto
  obtain p data where pd: "pd = (p, data)" by (cases pd)
  note parts = parts [unfolded pd fst_conv snd_conv]
  have fields: "res_backend r = b" "res_op r = ta_comm_op args" "res_algo r = tp_algo plan" "res_baselines r = cublas @ plain"
      "res_speedups r = map (\<lambda>(name, x). (name, x / overlap_dur)) (cublas @ plain)" "res_ctas r = cta_env args b (tp_slack plan)"
      "res_tile r = tp_tile plan" "res_cSeg r = tp_cSeg plan" "res_active r = tp_active plan"
    by (simp_all flip: r)
  show ?thesis
    unfolding durs
    by (intro exI conjI, rule out, rule parts(2), rule parts(3), rule parts(4), rule parts(5), rule parts(6), rule parts(7),
        rule fields(1), rule fields(2), rule fields(3), rule fields(4), rule fields(5), rule fields(6), rule fields(7), rule fields(8),
        rule fields(9), rule b(1), rule b(2))
qed

lemma test_plan_solution: "test_plan_of tm args p data = Inr plan \<Longrightarrow> tp_solution plan = p"
  by (auto simp: test_plan_of_def elim!: bind_resE)

definition reported :: "test_result \<Rightarrow> row" where
  "reported r =
     [(''backend'', JStr (res_backend r)), (''comm_op'', JStr (res_op r))] @ map (\<lambda>(k, x). (k, JFloat (fixed4 x))) (measured r)"

lemma measured_keys:
  "set (map fst (measured r)) \<subseteq> set FLOAT_KEYS \<and> distinct ([''backend'', ''comm_op''] @ map fst (measured r))"
  by (auto simp: measured_def FLOAT_KEYS_def split: option.splits)

abbreviation read_lines :: "scenarios \<times> string option \<Rightarrow> string list \<Rightarrow> scenarios \<times> string option" where
  "read_lines st ls \<equiv> foldl (\<lambda>st l. parse_line l st) st ls"

lemma table_read:
  assumes "b \<notin> fst ` set bb" and "res_backend r = b" "b \<in> {''nccl'', ''ooverlap''}" and "res_op r \<in> {''all_reduce'', ''reduce_scatter''}"
  shows "read_lines (bb @ [(b, [])], Some b) (table_lines r) = (bb @ [(b, reported r)], Some b)" and "list_all single_line (table_lines r)"
proof -
  have q: "quiet []" "quiet (table_line ''Item'' ''Value'')" "quiet (table_line ''----'' ''-----'')" by simp_all
  then have skip: "parse_line [] st = st" "parse_line (table_line ''Item'' ''Value'') st = st" "parse_line (table_line ''----'' ''-----'') st = st" for st
    using skipped_line by (auto simp: quiet_def)
  have op: "''comm_op'' \<notin> fst ` set [(''backend'', JStr b)]" by simp
  have rows: "read_lines (bb @ [(b, [(''backend'', JStr b), (''comm_op'', JStr (res_op r))])], Some b)
      (map (\<lambda>(k, x). table_line k (fixed4 x)) (measured r)) = (bb @ [(b, reported r)], Some b)"
    using number_rows [OF assms(1), of "measured r" "[(''backend'', JStr b), (''comm_op'', JStr (res_op r))]"] measured_keys [of r]
    by (simp add: reported_def assms(2))
  show "read_lines (bb @ [(b, [])], Some b) (table_lines r) = (bb @ [(b, reported r)], Some b)"
    unfolding table_lines_def foldl_append foldl_Cons foldl_Nil skip assms(2) backend_row [OF assms(1,3)] text_row [OF assms(1) op assms(4)]
    using rows by simp
  have "single_line (table_line k (fixed4 x))" if "(k, x) \<in> set (measured r)" for k x
  proof (rule table_line_read(4) [OF _ fixed4_readable])
    show "k \<in> set (FLOAT_KEYS @ STR_KEYS)" using that measured_keys [of r] by force
  qed
  moreover have "list_all (\<lambda>b. single_line (table_line ''backend'' b)) [''nccl'', ''ooverlap'']"
    "list_all (\<lambda>s. single_line (table_line ''comm_op'' s)) [''all_reduce'', ''reduce_scatter'']"
    by code_simp+
  ultimately show "list_all single_line (table_lines r)"
    using assms(2-4) q unfolding table_lines_def quiet_def by (auto simp: list_all_iff)
qed

lemma backend_read:
  assumes run: "test_backend tm w args b = (out, Inr r)" and new: "b \<notin> fst ` set bb"
    and "tame (tm_repo tm)" and "tame (tm_gpu tm)"
    and recorded: "\<And>p d. map_of (files w) p = Some (JsonDoc (JObj d)) \<Longrightarrow> tame (str_json (get_or d ''comm_backend'' JNull))"
  shows "read_lines (bb, cur) out = (bb @ [(b, reported r)], Some b)" and "list_all single_line out"
proof -
  from test_backend_parts [OF run] obtain l1 p data plan l2 l3 l4 l5 cublas plain where
    out: "out = l1 @ ['''', hash_rule, ''# Running backend='' @ b, hash_rule] @ settings_lines tm args b plan @ [''[phase] perf_comm''] @ l2
            @ [''[phase] perf_overlap''] @ l3 @ l4 @ l5 @ table_lines r"
    and load: "load_solution tm w (ta_m args) (ta_n args) (ta_k args) b = (l1, Inr (p, data))" and plan: "test_plan_of tm args p data = Inr plan"
    and l2: "test_perf_comm tm (ta_m args) (ta_n args) (ta_comm_op args) b = (l2, Inr (res_comm r))"
    and l3: "perf_overlap tm b (ta_comm_op args) (ta_m args, ta_n args, ta_k args) (tp_tile plan) (tp_algo plan) (tp_cSeg plan) (tp_hint plan)
         (tp_map plan) (tp_active plan) (if should_set_overlap_comm_ctas args b then Some (tp_slack plan) else None) = (l3, Inr (res_overlap r))"
    and l4: "baseline_if (run_cublas_baseline args) ''cublas''
         (perf_baseline tm b (ta_comm_op args) ''cublas'' (tp_algo plan) (ta_m args, ta_n args, ta_k args)) = (l4, Inr cublas)"
    and l5: "baseline_if (run_plain_baseline args) ''plain''
         (perf_baseline tm b (ta_comm_op args) ''plain'' (tp_algo plan) (ta_m args, ta_n args, ta_k args)) = (l5, Inr plain)"
    and r: "res_backend r = b" "res_op r = ta_comm_op args"
    and b: "b \<in> {''nccl'', ''ooverlap''}" "ta_comm_op args \<in> {''all_reduce'', ''reduce_scatter''}"
    by blast
  have "tame b" using b(1) by (auto simp: line_break_def)
  have "quiet (''WARNING'' @ CHR '':'' # '' loaded solution has comm_backend='' @ str_json (get_or data ''comm_backend'' JNull) @ '', requested='' @ b)"
    by (rule quiet_word) (use recorded [OF load_solution_parts(2) [OF load]] \<open>tame b\<close> in \<open>simp_all add: line_words_def line_break_def\<close>)
  then have q1: "list_all quiet l1" using load_solution_parts(3) [OF load] by auto
  have "tame p" by (rule found_path_tame [OF load_solution_parts(1) [OF load] assms(3,4) \<open>tame b\<close>])
  then have qs: "list_all quiet (settings_lines tm args b plan)" using quiet_settings test_plan_solution [OF plan] by simp
  have q2: "list_all quiet l2" "list_all quiet l3" "list_all quiet l4" "list_all quiet l5"
    using quiet_perf(1) [of tm "ta_m args" "ta_n args" "ta_comm_op args" b] l2 quiet_perf(2) l3
      quiet_baseline [OF _ quiet_perf(3)] l4 l5
    by (metis fst_conv insertI1 insertI2)+
  have quiet: "list_all quiet ['''', hash_rule]" "list_all quiet [hash_rule]" "list_all quiet [''[phase] perf_comm'']"
    "list_all quiet [''[phase] perf_overlap'']" by simp_all
  have one: "list_all quiet ls \<Longrightarrow> list_all single_line ls" for ls by (auto simp: list_all_iff quiet_def)
  have o2: "out = (l1 @ ['''', hash_rule]) @ [''# Running backend='' @ b] @ ([hash_rule] @ settings_lines tm args b plan @ [''[phase] perf_comm''] @ l2
            @ [''[phase] perf_overlap''] @ l3 @ l4 @ l5) @ table_lines r"
    by (simp add: out)
  have pre: "list_all quiet (l1 @ ['''', hash_rule])"
    and mid: "list_all quiet ([hash_rule] @ settings_lines tm args b plan @ [''[phase] perf_comm''] @ l2 @ [''[phase] perf_overlap''] @ l3 @ l4 @ l5)"
    using q1 q2 qs quiet by simp_all
  have op: "res_op r \<in> {''all_reduce'', ''reduce_scatter''}" using b r by simp
  show "read_lines (bb, cur) out = (bb @ [(b, reported r)], Some b)"
  proof -
    have "read_lines st (ls1 @ [l] @ ls2 @ ls3) = read_lines (read_lines (parse_line l (read_lines st ls1)) ls2) ls3" for st ls1 l ls2 ls3
      by simp
    note this [of "(bb, cur)" "l1 @ ['''', hash_rule]" "''# Running backend='' @ b"
      "[hash_rule] @ settings_lines tm args b plan @ [''[phase] perf_comm''] @ l2 @ [''[phase] perf_overlap''] @ l3 @ l4 @ l5" "table_lines r",
      folded o2]
    also note quiet_lines [OF pre]
    also note running_row(1) [OF new b(1)]
    also note quiet_lines [OF mid]
    also note table_read(1) [OF new r(1) b(1) op]
    finally show ?thesis .
  qed
  show "list_all single_line out"
    unfolding o2 using one [OF pre] one [OF mid] running_row(2) [OF new b(1)] table_read(2) [OF new r(1) b(1) op] by simp
qed

section \<open>All backends and the summary\<close>

lemma backends_read:
  assumes "test_backends tm w args bs = (out, Inr rs)" and "distinct (map fst bb @ bs)"
    and "tame (tm_repo tm)" and "tame (tm_gpu tm)"
    and recorded: "\<And>p d. map_of (files w) p = Some (JsonDoc (JObj d)) \<Longrightarrow> tame (str_json (get_or d ''comm_backend'' JNull))"
  shows "fst (read_lines (bb, cur) out) = bb @ map (\<lambda>r. (res_backend r, reported r)) rs \<and> list_all single_line out"
  using assms(1,2)
proof (induction bs arbitrary: out rs bb cur)
  case (Cons b bs)
  show ?case
  proof (cases "b = ''ooverlap'' \<and> ta_comm_op args \<noteq> ''all_reduce''")
    case True
    let ?skip = "['''', ''Skipping ooverlap: ooverlap backend currently supports only all_reduce.'']"
    obtain out' where out: "out = ?skip @ out'" and rest: "test_backends tm w args bs = (out', Inr rs)"
      using Cons.prems(1) True by (auto elim!: bind_printE)
    have "list_all quiet ?skip" by simp
    then have "read_lines (bb, cur) out = read_lines (bb, cur) out'" and "list_all single_line ?skip"
      unfolding out foldl_append by (simp_all only: quiet_lines) (auto simp: quiet_def)
    then show ?thesis using Cons.IH [OF rest, of bb cur] Cons.prems(2) out by simp
  next
    case False
    obtain l1 r l2 rs' where run: "test_backend tm w args b = (l1, Inr r)" and rest: "test_backends tm w args bs = (l2, Inr rs')"
      and out: "out = l1 @ l2" and rs: "rs = r # rs'"
      using Cons.prems(1) unfolding test_backends.simps if_not_P [OF False] by (auto elim!: bind_printE)
    have new: "b \<notin> fst ` set bb" using Cons.prems(2) by auto
    note one = backend_read [OF run new assms(3,4) recorded]
    have "res_backend r = b" using test_backend_parts [OF run] by blast
    moreover have "distinct (map fst (bb @ [(b, reported r)]) @ bs)" using Cons.prems(2) by auto
    ultimately show ?thesis
      using Cons.IH [OF rest, of "bb @ [(b, reported r)]" "Some b"] one by (simp add: out rs)
  qed
qed simp

lemma tame_nan [simp]: "tame (fixed4_or_nan x)"
  by (simp add: fixed4_or_nan_def line_break_def split: option.split)

lemma columns_head: "rest \<noteq> [] \<Longrightarrow> columns first rest = first @ CHR '' '' # tl (columns [] rest)"
  by (cases rest) (simp_all add: columns_def)

lemma tame_tl: "tame s \<Longrightarrow> tame (tl s)"
  by (cases s) simp_all

lemma quiet_columns:
  assumes "k \<in> set line_words" and "rest \<noteq> []" and "list_all (\<lambda>(n, s). tame s) rest" and "tame t" and "t = [] \<or> hd t = CHR '' ''"
  shows "quiet (columns (ljust n (k @ t)) rest)"
proof -
  have "\<exists>s. ljust n (k @ t) @ CHR '' '' # tl (columns [] rest) = k @ CHR '' '' # s \<and> tame s"
  proof (cases t)
    case Nil
    have "tame (tl (columns [] rest))" by (intro tame_tl tame_columns assms(3)) simp
    then show ?thesis using Nil by (cases "n - length k") (auto simp: ljust_def line_break_def)
  next
    case (Cons c cs)
    have "tame (tl (columns [] rest))" by (intro tame_tl tame_columns assms(3)) simp
    then show ?thesis using Cons assms(4,5) by (auto simp: ljust_def line_break_def)
  qed
  then obtain s where "columns (ljust n (k @ t)) rest = k @ CHR '' '' # s" "tame s"
    by (metis columns_head [OF assms(2), of "ljust n (k @ t)"])
  then show ?thesis using quiet_word [OF assms(1), of "CHR '' ''" s] by simp
qed

lemma quiet_summary_row:
  assumes "res_backend r \<in> {''nccl'', ''ooverlap''}" and "tame (res_ctas r)"
  shows "quiet (summary_row r)"
proof -
  have "res_backend r \<in> set line_words" using assms(1) by (auto simp: line_words_def)
  then show ?thesis
    unfolding summary_row_def Let_def
    using quiet_columns [of "res_backend r" _ "[]" 10] assms(2) by (simp del: repr_json.simps)
qed

lemma quiet_comparison:
  assumes "title = k @ t" and "k \<in> set line_words" and "tame t" and "t = [] \<or> hd t = CHR '' ''"
  shows "list_all quiet (fst (print_comparison title num den))"
proof -
  have "quiet (columns (ljust 52 (k @ t)) [(14, fixed4 a), (14, fixed4 b), (10, fixed4 c)])" for a b c
    by (rule quiet_columns) (use assms in simp_all)
  then have "list_all quiet (fst (bind_print (comparison title x den) (\<lambda>l. prints [l])))" for x
    by (auto simp: comparison_def assms(1) silently_def prints_def bind_print_def require_def)
  then show ?thesis by (simp add: print_comparison_def prints_def split: option.split)
qed

lemma quiet_heads:
  "quiet (columns (ljust 52 ''comparison'') [(14, ''baseline(ms)''), (14, ''overlap(ms)''), (10, ''speedup'')])"
  "quiet (columns (ljust 52 ''----------'') [(14, ''------------''), (14, ''-----------''), (10, ''-------'')])"
  "quiet (columns (ljust 52 ''comparison'') [(14, ''reference(ms)''), (14, ''target(ms)''), (10, ''ratio'')])"
  "quiet (columns (ljust 10 ''backend'') [(12, ''overlap(ms)''), (10, ''comm(ms)''), (12, ''cublas_base''), (9, ''x_cublas''),
            (12, ''plain_base''), (9, ''x_plain''), (26, ''CTA env''), (24, ''cSeg'')])"
  "quiet (columns (ljust 10 ''-------'') [(12, ''-----------''), (10, ''--------''), (12, ''-----------''), (9, ''--------''),
            (12, ''----------''), (9, ''-------''), (26, ''-------''), (24, ''----'')])"
  by code_simp+

lemma quiet_cross: "list_all quiet (fst (cross_summary nccl oo))"
proof -
  have words: "''nccl'' \<in> set line_words" "''ooverlap'' \<in> set line_words" by (simp_all add: line_words_def)
  have split: "''nccl overlap vs ooverlap '' @ base @ '' baseline'' = ''nccl'' @ '' overlap vs ooverlap '' @ base @ '' baseline''"
    "''ooverlap overlap vs nccl '' @ base @ '' baseline'' = ''ooverlap'' @ '' overlap vs nccl '' @ base @ '' baseline''"
    "''ooverlap overlap vs nccl overlap'' = ''ooverlap'' @ '' overlap vs nccl overlap''" for base
    by simp_all
  have tame: "tame ('' overlap vs ooverlap '' @ base @ '' baseline'')" "tame ('' overlap vs nccl '' @ base @ '' baseline'')"
    if "tame base" for base
    using that by (simp_all add: line_break_def)
  have lines: "list_all quiet (fst (print_comparison (''nccl overlap vs ooverlap '' @ base @ '' baseline'') num den))"
    "list_all quiet (fst (print_comparison (''ooverlap overlap vs nccl '' @ base @ '' baseline'') num den))"
    if "tame base" for base num den
    by (rule quiet_comparison [OF split(1) words(1)], rule tame(1) [OF that], simp,
        rule quiet_comparison [OF split(2) words(2)], rule tame(2) [OF that], simp)
  have last_line: "list_all quiet (fst (print_comparison ''ooverlap overlap vs nccl overlap'' num den))" for num den
    by (rule quiet_comparison [OF split(3) words(2)]) (simp_all add: line_break_def)
  have bases: "tame ''cublas''" "tame ''plain''" by code_simp+
  show ?thesis
    unfolding cross_summary_def Let_def
    by (intro quiet_bind lines last_line bases) (simp_all add: prints_def quiet_heads)
qed

lemma quiet_summary:
  assumes "\<And>r. r \<in> set rs \<Longrightarrow> res_backend r \<in> {''nccl'', ''ooverlap''} \<and> tame (res_ctas r)"
  shows "list_all quiet (fst (print_summary rs))"
proof -
  have "list_all quiet (map summary_row rs)" using quiet_summary_row assms by (auto simp: list_all_iff)
  then show ?thesis
    unfolding print_summary_def
    by (auto intro!: quiet_bind simp: prints_def quiet_heads quiet_cross split: option.split)
qed

lemma backends_results:
  assumes "test_backends tm w args bs = (out, Inr rs)"
  shows "map res_backend rs = filter (\<lambda>b. b = ''ooverlap'' \<longrightarrow> ta_comm_op args = ''all_reduce'') bs"
    and "\<And>r. r \<in> set rs \<Longrightarrow> \<exists>out. test_backend tm w args (res_backend r) = (out, Inr r)"
proof -
  have "map res_backend rs = filter (\<lambda>b. b = ''ooverlap'' \<longrightarrow> ta_comm_op args = ''all_reduce'') bs
      \<and> (\<forall>r \<in> set rs. \<exists>out. test_backend tm w args (res_backend r) = (out, Inr r))"
    using assms
  proof (induction bs arbitrary: out rs)
    case (Cons b bs)
    show ?case
    proof (cases "b = ''ooverlap'' \<and> ta_comm_op args \<noteq> ''all_reduce''")
      case True
      then obtain out' where "test_backends tm w args bs = (out', Inr rs)"
        using Cons.prems by (auto elim!: bind_printE)
      then show ?thesis using Cons.IH True by auto
    next
      case False
      obtain l1 r l2 rs' where run: "test_backend tm w args b = (l1, Inr r)" and rest: "test_backends tm w args bs = (l2, Inr rs')"
        and rs: "rs = r # rs'"
        using Cons.prems unfolding test_backends.simps if_not_P [OF False] by (auto elim!: bind_printE)
      moreover have "res_backend r = b" using test_backend_parts [OF run] by blast
      ultimately show ?thesis using Cons.IH [OF rest] False by auto
    qed
  qed simp
  then show "map res_backend rs = filter (\<lambda>b. b = ''ooverlap'' \<longrightarrow> ta_comm_op args = ''all_reduce'') bs"
    and "\<And>r. r \<in> set rs \<Longrightarrow> \<exists>out. test_backend tm w args (res_backend r) = (out, Inr r)"
    by blast+
qed

section \<open>Lines of the output\<close>

lemma splitlines_keep_line: "single_line l \<Longrightarrow> splitlines_keep (l @ newline # s) = (l @ [newline]) # splitlines_keep s"
proof (induction l)
  case Nil
  have "line_break newline" "newline \<noteq> char_of (13 :: nat)" by code_simp+
  then show ?case by simp
qed (simp add: single_line_def)

lemma drop_break_line: "single_line l \<Longrightarrow> drop_break (l @ [newline]) = l"
proof -
  have n: "line_break newline" by code_simp
  assume "single_line l"
  then have "dropWhile line_break (rev l) = rev l" by (cases l rule: rev_cases) (simp_all add: single_line_def)
  then show ?thesis by (simp add: drop_break_def n)
qed

lemma splitlines_stdout: "list_all single_line ls \<Longrightarrow> splitlines (stdout_of ls) = ls"
proof -
  have "splitlines_keep (stdout_of ls) = map (\<lambda>l. l @ [newline]) ls" if "list_all single_line ls"
    using that by (induction ls) (simp_all add: stdout_of_def splitlines_keep_line)
  then show "list_all single_line ls \<Longrightarrow> splitlines (stdout_of ls) = ls"
    by (auto simp: splitlines_def list_all_iff drop_break_line intro!: map_idI)
qed

end
