(* ===== verification/TestProperties.thy ===== *)
theory TestProperties
  imports TestCorrect SearchProperties CommandProperties
begin

text \<open>
  The properties of the test: the report that it prints says to the evaluation what it measured, and it measures the solution that
  the search has written.
\<close>

section \<open>The report\<close>

lemma main_read:
  assumes "test_main tm w args = (out, Inr rs)" and "tame (tm_repo tm)" and "tame (tm_gpu tm)"
    and "\<And>p d. map_of (files w) p = Some (JsonDoc (JObj d)) \<Longrightarrow> tame (str_json (get_or d ''comm_backend'' JNull))"
  shows "by_backend_of (stdout_of out) = map (\<lambda>r. (res_backend r, reported r)) rs"
proof -
  let ?bs = "if ta_comm_backend args = ''both'' then [''nccl'', ''ooverlap''] else [ta_comm_backend args]"
  obtain l1 l2 where run: "test_backends tm w args ?bs = (l1, Inr rs)" and summary: "print_summary rs = (l2, Inr ())" and out: "out = l1 @ l2"
    using assms(1) unfolding test_main_def by (auto elim!: bind_printE)
  have read: "fst (read_lines ([], None) l1) = map (\<lambda>r. (res_backend r, reported r)) rs" "list_all single_line l1"
    using backends_read [OF run _ assms(2-4), where bb = "[]" and cur = None] by simp_all
  have "res_backend r \<in> {''nccl'', ''ooverlap''} \<and> tame (res_ctas r)" if r: "r \<in> set rs" for r
  proof -
    obtain out' where "test_backend tm w args (res_backend r) = (out', Inr r)" using backends_results(2) [OF run r] by blast
    from test_backend_parts [OF this] show ?thesis by auto
  qed
  then have quiet: "list_all quiet l2" using quiet_summary [of rs] summary by simp
  then have "list_all single_line l2" by (auto simp: list_all_iff quiet_def)
  then have "splitlines (stdout_of out) = out" using read(2) out by (intro splitlines_stdout) simp
  then show ?thesis by (simp add: by_backend_of_def out quiet_lines [OF quiet] read(1))
qed

lemma reported_field:
  assumes "(k, x) \<in> set (measured r)"
  shows "\<exists>v. field_value (get_or (reported r) k JNull) = Some v \<and> \<bar>v - x\<bar> \<le> 1 / 20000"
proof -
  have "k \<in> set (map fst (measured r))" using assms by force
  then have keys: "k \<noteq> ''backend''" "k \<noteq> ''comm_op''" "distinct (map fst (measured r))"
    using measured_keys [of r] by (auto simp del: set_map)
  then have "map_of (map (\<lambda>(k, x). (k, JFloat (fixed4 x))) (measured r)) k = Some (JFloat (fixed4 x))"
    using map_of_is_SomeI [OF keys(3) assms] by (simp only: map_of_map comp_apply option.map)
  then have "get_or (reported r) k JNull = JFloat (fixed4 x)" using keys(1,2) by (simp add: get_or_def reported_def)
  then show ?thesis using py_float_fixed4 [of x] by (auto simp: field_value_def)
qed

lemma backend_measured:
  assumes "test_backend tm w args (res_backend r) = (out, Inr r)" and "run_cublas_baseline args" and "run_plain_baseline args"
    and "kind \<in> {''cublas'', ''plain''}"
  shows "\<exists>x. snd (perf_baseline tm (res_backend r) (ta_comm_op args) kind (res_algo r) (ta_m args, ta_n args, ta_k args)) = Inr x
     \<and> (kind @ ''_baseline_ms'', x) \<in> set (measured r) \<and> (''speedup_vs_'' @ kind, x / res_overlap r) \<in> set (measured r)"
proof -
  from test_backend_parts [OF assms(1)] obtain l4 l5 cublas plain and plan :: test_plan where
    b: "baseline_if (run_cublas_baseline args) ''cublas''
         (perf_baseline tm (res_backend r) (ta_comm_op args) ''cublas'' (tp_algo plan) (ta_m args, ta_n args, ta_k args)) = (l4, Inr cublas)"
      "baseline_if (run_plain_baseline args) ''plain''
         (perf_baseline tm (res_backend r) (ta_comm_op args) ''plain'' (tp_algo plan) (ta_m args, ta_n args, ta_k args)) = (l5, Inr plain)"
    and r: "res_algo r = tp_algo plan" "res_baselines r = cublas @ plain"
      "res_speedups r = map (\<lambda>(name, x). (name, x / res_overlap r)) (cublas @ plain)"
    by blast
  show ?thesis
    using baseline_parts [OF b(1)] baseline_parts [OF b(2)] assms(2-4) by (auto simp: measured_def r)
qed

lemma backend_overlapped:
  assumes "test_backend tm w args (res_backend r) = (out, Inr r)"
  shows "\<exists>hint reorder_map ctas. snd (perf_overlap tm (res_backend r) (ta_comm_op args) (ta_m args, ta_n args, ta_k args) (res_tile r)
       (res_algo r) (res_cSeg r) hint reorder_map (res_active r) ctas) = Inr (res_overlap r)"
proof -
  from test_backend_parts [OF assms] obtain l3 and plan :: test_plan where
    "perf_overlap tm (res_backend r) (ta_comm_op args) (ta_m args, ta_n args, ta_k args) (tp_tile plan) (tp_algo plan) (tp_cSeg plan)
         (tp_hint plan) (tp_map plan) (tp_active plan)
         (if should_set_overlap_comm_ctas args (res_backend r) then Some (tp_slack plan) else None) = (l3, Inr (res_overlap r))"
    and "res_algo r = tp_algo plan" "res_tile r = tp_tile plan" "res_cSeg r = tp_cSeg plan" "res_active r = tp_active plan"
    by blast
  then show ?thesis by (metis snd_conv)
qed

text \<open>C7: The evaluation reads what the test measured. When the test, started with the command of the evaluation, ends normally, on a
  machine whose paths and recorded backends hold no line break and no hash, then the parsed report has exactly the backends that were run, in their
  order, each with its operation and one number per measurement: the slowest rank's time of the collective, of the overlapped run
  (with the tile, algorithm, segments and SMs of the result) and of both baselines,
  and the speedups over them, each as printed with four decimals, so within a twenty-thousandth of the measured value. Banner,
  settings, warnings, statistics and the summary do not disturb it.\<close>
theorem test_report_read_back:
  assumes "set_op (stg R) \<in> {''all_reduce'', ''reduce_scatter''}" and "set_backend (stg R) \<in> {''nccl'', ''ooverlap'', ''both''}"
    and "tame (tm_repo tm)" and "tame (tm_gpu tm)"
    and "\<And>p d. map_of (files w) p = Some (JsonDoc (JObj d)) \<Longrightarrow> tame (str_json (get_or d ''comm_backend'' JNull))"
    and "test_program tm w (drop 2 (test_cmd R s)) = (out, Inr rs)"
  shows "(\<exists>cross. parse_test_stdout fmt (stdout_of out)
         = JObj [(''by_backend'', JObj (map (\<lambda>r. (res_backend r, JObj (reported r))) rs)), (''cross'', cross)])
     \<and> map res_backend rs = filter (\<lambda>b. b = ''ooverlap'' \<longrightarrow> set_op (stg R) = ''all_reduce'')
           (if set_backend (stg R) = ''both'' then [''nccl'', ''ooverlap''] else [set_backend (stg R)])
     \<and> (\<forall>r \<in> set rs.
           snd (test_perf_comm tm (sh_m s) (sh_n s) (set_op (stg R)) (res_backend r)) = Inr (res_comm r)
         \<and> (\<exists>hint reorder_map ctas. snd (perf_overlap tm (res_backend r) (set_op (stg R)) (sh_m s, sh_n s, sh_k s) (res_tile r)
              (res_algo r) (res_cSeg r) hint reorder_map (res_active r) ctas) = Inr (res_overlap r))
         \<and> {(''comm_dur_ms'', res_comm r), (''overlap_dur_ms'', res_overlap r)} \<subseteq> set (measured r)
         \<and> (\<forall>kind \<in> {''cublas'', ''plain''}. \<exists>x.
              snd (perf_baseline tm (res_backend r) (set_op (stg R)) kind (res_algo r) (sh_m s, sh_n s, sh_k s)) = Inr x
            \<and> (kind @ ''_baseline_ms'', x) \<in> set (measured r) \<and> (''speedup_vs_'' @ kind, x / res_overlap r) \<in> set (measured r))
         \<and> (\<forall>(k, x) \<in> set (measured r). \<exists>v. field_value (get_or (reported r) k JNull) = Some v \<and> \<bar>v - x\<bar> \<le> 1 / 20000))"
proof -
  let ?args = "\<lparr>ta_m = sh_m s, ta_n = sh_n s, ta_k = sh_k s, ta_comm_op = set_op (stg R), ta_comm_backend = set_backend (stg R),
         run_cublas_baseline = True, run_plain_baseline = True, set_nccl_ctas = True, set_ooverlap_ctas = True\<rparr>"
  have main: "test_main tm w ?args = (out, Inr rs)"
    using test_command_parsed [OF assms(1,2), of s] assms(6) by (auto simp: test_program_def elim!: bind_printE)
  obtain l1 where run: "test_backends tm w ?args (if set_backend (stg R) = ''both'' then [''nccl'', ''ooverlap''] else [set_backend (stg R)]) = (l1, Inr rs)"
    using main unfolding test_main_def test_args.simps by (auto elim!: bind_printE)
  have each: "snd (test_perf_comm tm (sh_m s) (sh_n s) (set_op (stg R)) (res_backend r)) = Inr (res_comm r)"
    "\<exists>hint reorder_map ctas. snd (perf_overlap tm (res_backend r) (set_op (stg R)) (sh_m s, sh_n s, sh_k s) (res_tile r)
        (res_algo r) (res_cSeg r) hint reorder_map (res_active r) ctas) = Inr (res_overlap r)"
    "{(''comm_dur_ms'', res_comm r), (''overlap_dur_ms'', res_overlap r)} \<subseteq> set (measured r)"
    "\<forall>kind \<in> {''cublas'', ''plain''}. \<exists>x.
        snd (perf_baseline tm (res_backend r) (set_op (stg R)) kind (res_algo r) (sh_m s, sh_n s, sh_k s)) = Inr x
      \<and> (kind @ ''_baseline_ms'', x) \<in> set (measured r) \<and> (''speedup_vs_'' @ kind, x / res_overlap r) \<in> set (measured r)"
    if r: "r \<in> set rs" for r
  proof -
    obtain out' where b: "test_backend tm w ?args (res_backend r) = (out', Inr r)" using backends_results(2) [OF run r] by blast
    show "snd (test_perf_comm tm (sh_m s) (sh_n s) (set_op (stg R)) (res_backend r)) = Inr (res_comm r)"
      using test_backend_parts [OF b] by auto
    show "\<exists>hint reorder_map ctas. snd (perf_overlap tm (res_backend r) (set_op (stg R)) (sh_m s, sh_n s, sh_k s) (res_tile r)
        (res_algo r) (res_cSeg r) hint reorder_map (res_active r) ctas) = Inr (res_overlap r)"
      using backend_overlapped [OF b] by simp
    show "{(''comm_dur_ms'', res_comm r), (''overlap_dur_ms'', res_overlap r)} \<subseteq> set (measured r)" by (simp add: measured_def)
    show "\<forall>kind \<in> {''cublas'', ''plain''}. \<exists>x.
        snd (perf_baseline tm (res_backend r) (set_op (stg R)) kind (res_algo r) (sh_m s, sh_n s, sh_k s)) = Inr x
      \<and> (kind @ ''_baseline_ms'', x) \<in> set (measured r) \<and> (''speedup_vs_'' @ kind, x / res_overlap r) \<in> set (measured r)"
      using backend_measured [OF b] by simp
  qed
  have "parse_test_stdout fmt (stdout_of out) = JObj [(''by_backend'', JObj (map (\<lambda>r. (res_backend r, JObj (reported r))) rs)),
      (''cross'', JObj (cross_of fmt (map (\<lambda>r. (res_backend r, reported r)) rs)))]"
    using main_read [OF main assms(3-5)] by (simp add: parse_test_stdout_def)
  moreover note backends_results(1) [OF run]
  ultimately show ?thesis using each reported_field by (auto simp del: set_append)
qed

section \<open>A small test\<close>

lemma snd_bind_print: "snd (bind_print m f) = bind_res (snd m) (\<lambda>x. snd (f x))"
  by (auto simp: bind_print_def split: prod.splits sum.splits)

lemma snd_simple [simp]: "snd (silently r) = r" "snd (prints ls) = Inr ()"
  by (simp_all add: silently_def prints_def)

lemma snd_timed: "snd (timed tm readings) = bind_res readings (\<lambda>xs. if xs = [] then Inl ZeroDivisionError else Inr (sum_list xs / of_nat (length xs)))"
  by (cases readings) (simp_all add: timed_def snd_bind_print mean_timed_def)

lemma snd_ranks: "snd (run_ranks worker rs) = map_res (\<lambda>r. snd (worker r)) rs"
  by (induction rs) (simp_all add: snd_bind_print)

lemma snd_slowest:
  "snd (slowest_rank worker n)
     = (case map_res (\<lambda>r. snd (worker r)) [0..<nat n] of Inl _ \<Rightarrow> Inl (ExternalError ''ProcessRaisedException'') | Inr xs \<Rightarrow> Inr (Max (set xs)))"
  using snd_ranks [of worker "[0..<nat n]"] by (auto simp: slowest_rank_def split: prod.splits sum.splits)

lemma map_res_ints: "map_res int_of_json (map JInt xs) = Inr xs"
  by (induction xs) (simp_all add: int_of_json_def)

lemma fold_pair: "snd m = Inr x \<Longrightarrow> \<exists>ls. m = (ls, Inr x)"
  by (cases m) simp

definition demo_tester :: test_machine where
  "demo_tester = \<lparr>tm_world = 2, tm_sms = 2, tm_gpu = ''h100'', tm_repo = ''/r'', tm_stats = True, tm_argsort = (\<lambda>xs. [0..<length xs]),
     tm_uninit = (\<lambda>_. 0), comm_times = (\<lambda>_ _ _ _ _. Inr [1, 2]), overlap_times = (\<lambda>_ _. Inr [2, 2]),
     baseline_times = (\<lambda>_ _ _ _ _ _. Inr [3])\<rparr>"

definition demo_solutions :: "nat world" where
  "demo_solutions =
     \<lparr>files = map (\<lambda>b. (''/r/configs/solution_'' @ b @ ''_m4n2k8_h100_tp2_packed_sm90.json'',
                JsonDoc (JObj [(''comm_backend'', JStr b), (''world_size'', JInt 2), (''hint'', JList (map JInt [0, 1, 2, 3])),
                  (''reorder_map'', JList (map JInt [0, 1, 2, 3])), (''cSeg'', JList (map JInt [2, 2])), (''BM'', JInt 2), (''BN'', JInt 1),
                  (''dur'', JInt 1), (''Algo'', JInt 0), (''comm_sm_slack'', JInt 1), (''compute_sms'', JInt 1)])))
              [''nccl'', ''ooverlap''], outside = 0\<rparr>"

definition demo_test_args :: test_args where
  "demo_test_args = \<lparr>ta_m = 4, ta_n = 2, ta_k = 8, ta_comm_op = ''all_reduce'', ta_comm_backend = ''both'', run_cublas_baseline = True,
     run_plain_baseline = True, set_nccl_ctas = True, set_ooverlap_ctas = True\<rparr>"

lemma demo_solution_found:
  "b \<in> {''nccl'', ''ooverlap''} \<Longrightarrow> find_solution_json demo_tester demo_solutions 4 2 8 b = Inr (''/r/configs/solution_'' @ b @ ''_m4n2k8_h100_tp2_packed_sm90.json'')"
proof -
  have "list_all (\<lambda>b. find_solution_json demo_tester demo_solutions 4 2 8 b = Inr (''/r/configs/solution_'' @ b @ ''_m4n2k8_h100_tp2_packed_sm90.json''))
      [''nccl'', ''ooverlap'']"
    by code_simp
  then show "b \<in> {''nccl'', ''ooverlap''} \<Longrightarrow> find_solution_json demo_tester demo_solutions 4 2 8 b = Inr (''/r/configs/solution_'' @ b @ ''_m4n2k8_h100_tp2_packed_sm90.json'')"
    unfolding list_all_iff by auto
qed

lemma demo_solution_loaded:
  "b \<in> {''nccl'', ''ooverlap''} \<Longrightarrow> \<exists>p d. snd (load_solution demo_tester demo_solutions 4 2 8 b) = Inr (p, d)
     \<and> test_plan_of demo_tester demo_test_args p d
       = Inr \<lparr>tp_solution = p, tp_algo = 0, tp_tile = (2, 1), tp_tile_num = 4, tp_cSeg = [2, 2], tp_hint = [0, 1, 2, 3],
              tp_map = JList (map JInt [0, 1, 2, 3]), tp_active = 1, tp_slack = 1, tp_gemm = 1\<rparr>"
  using demo_solution_found [of b]
  by (auto simp: load_solution_def snd_bind_print demo_solutions_def get_or_Cons Let_def int_of_json_def demo_tester_def test_plan_of_def
      int_key_def ints_key_def get_key_Cons demo_test_args_def tile_count_def div_up_def py_div_def iterate_json_def float_of_json_def)

lemma demo_backend_runs:
  "b \<in> {''nccl'', ''ooverlap''} \<Longrightarrow> \<exists>ls r. test_backend demo_tester demo_solutions demo_test_args b = (ls, Inr r) \<and> res_overlap r = 2"
proof -
  assume b: "b \<in> {''nccl'', ''ooverlap''}"
  obtain p d where load: "snd (load_solution demo_tester demo_solutions 4 2 8 b) = Inr (p, d)"
    and plan: "test_plan_of demo_tester demo_test_args p d
       = Inr \<lparr>tp_solution = p, tp_algo = 0, tp_tile = (2, 1), tp_tile_num = 4, tp_cSeg = [2, 2], tp_hint = [0, 1, 2, 3],
              tp_map = JList (map JInt [0, 1, 2, 3]), tp_active = 1, tp_slack = 1, tp_gemm = 1\<rparr>"
    using demo_solution_loaded [OF b] by blast
  have ok: "validate_backend b ''all_reduce'' 2 = Inr ()" using b by (auto simp: validate_backend_def)
  have dims: "ta_m demo_test_args = 4" "ta_n demo_test_args = 2" "ta_k demo_test_args = 8" "ta_comm_op demo_test_args = ''all_reduce''"
    "run_cublas_baseline demo_test_args" "run_plain_baseline demo_test_args" "tm_world demo_tester = 2" "tm_stats demo_tester"
    "should_set_overlap_comm_ctas demo_test_args b"
    using b by (auto simp: demo_test_args_def demo_tester_def should_set_overlap_comm_ctas_def)
  have comm: "snd (test_perf_comm demo_tester 4 2 ''all_reduce'' b) = Inr (3 / 2)"
    by (simp add: test_perf_comm_def snd_bind_print ok dims snd_slowest snd_timed demo_tester_def upt_rec numeral_2_eq_2)
  have worker: "snd (perf_overlap_process demo_tester b ''all_reduce'' (4, 2, 8) (2, 1) 0 [2, 2] [0, 1, 2, 3] (JList (map JInt [0, 1, 2, 3])) 1 (Some 1) rank)
      = Inr 2" for rank
    by (simp add: perf_overlap_process_def snd_timed demo_tester_def tile_count_def div_up_def py_div_def iterate_json_def int_of_json_def
        make_reordered_array_def row_array_def)
  have overlap: "snd (perf_overlap demo_tester b ''all_reduce'' (4, 2, 8) (2, 1) 0 [2, 2] [0, 1, 2, 3] (JList (map JInt [0, 1, 2, 3])) 1 (Some 1)) = Inr 2"
    by (simp add: perf_overlap_def snd_bind_print ok dims snd_slowest worker upt_rec numeral_2_eq_2 del: list.map)
  have base: "snd (perf_baseline demo_tester b ''all_reduce'' kind 0 (4, 2, 8)) = Inr 3" for kind
    by (simp add: perf_baseline_def snd_bind_print ok dims snd_slowest snd_timed demo_tester_def upt_rec numeral_2_eq_2)
  have "\<exists>r. snd (test_backend demo_tester demo_solutions demo_test_args b) = Inr r \<and> res_overlap r = 2"
    unfolding test_backend_def Let_def snd_bind_print dims
    by (simp add: ok load plan comm overlap base snd_bind_print baseline_if_def dims del: list.map)
  then obtain r where r: "snd (test_backend demo_tester demo_solutions demo_test_args b) = Inr r" "res_overlap r = 2" by blast
  then show ?thesis using fold_pair [OF r(1)] by auto
qed

lemma summary_runs:
  assumes "\<And>r. r \<in> set rs \<Longrightarrow> res_overlap r \<noteq> 0"
  shows "snd (print_summary rs) = Inr ()"
proof -
  have cmp: "snd (print_comparison title num den) = Inr ()" if "den \<noteq> 0" for title num den
    using that by (simp add: print_comparison_def comparison_def snd_bind_print split: option.split)
  have "res_overlap r \<noteq> 0" if "result_of rs b = Some r" for b r
    using that assms by (auto simp: result_of_def dest!: map_of_SomeD)
  then show ?thesis
    by (auto simp: print_summary_def cross_summary_def snd_bind_print cmp Let_def split: option.split)
qed

lemma demo_test_returns: "\<exists>out rs. test_main demo_tester demo_solutions demo_test_args = (out, Inr rs) \<and> length rs = 2"
proof -
  obtain l1 r1 l2 r2 where r: "test_backend demo_tester demo_solutions demo_test_args ''nccl'' = (l1, Inr r1)" "res_overlap r1 = 2"
      "test_backend demo_tester demo_solutions demo_test_args ''ooverlap'' = (l2, Inr r2)" "res_overlap r2 = 2"
    using demo_backend_runs [of "''nccl''"] demo_backend_runs [of "''ooverlap''"] by auto
  have "snd (print_summary [r1, r2]) = Inr ()" by (rule summary_runs) (use r in auto)
  then have "snd (test_main demo_tester demo_solutions demo_test_args) = Inr [r1, r2]"
    unfolding test_main_def snd_bind_print using r by (simp add: demo_tester_def demo_test_args_def snd_bind_print)
  from fold_pair [OF this] show ?thesis by auto
qed

theorem test_report_read_back_witness:
  "\<exists>out rs cross. test_program demo_tester demo_solutions (drop 2 (test_cmd demo_eval_run \<lparr>sh_m = 4, sh_n = 2, sh_k = 8, sh_csv = ''/c''\<rparr>)) = (out, Inr rs)
     \<and> parse_test_stdout (\<lambda>_. []) (stdout_of out)
         = JObj [(''by_backend'', JObj (map (\<lambda>r. (res_backend r, JObj (reported r))) rs)), (''cross'', cross)]
     \<and> map res_backend rs = [''nccl'', ''ooverlap'']"
proof -
  let ?s = "\<lparr>sh_m = 4, sh_n = 2, sh_k = 8, sh_csv = ''/c''\<rparr>"
  have settings: "set_op (stg demo_eval_run) = ''all_reduce''" "set_backend (stg demo_eval_run) = ''both''"
    by (simp_all add: demo_eval_run_def default_settings_def)
  obtain out rs where main: "test_main demo_tester demo_solutions demo_test_args = (out, Inr rs)"
    using demo_test_returns by blast
  obtain ns where "parse_args test_options (drop 2 (test_cmd demo_eval_run ?s)) = Inr ns" "test_settings ns = demo_test_args"
    using test_command_parsed [of demo_eval_run ?s] by (auto simp: settings demo_test_args_def)
  then have run: "test_program demo_tester demo_solutions (drop 2 (test_cmd demo_eval_run ?s)) = (out, Inr rs)"
    by (simp add: test_program_def bind_print_def silently_def main)
  have "tame (tm_repo demo_tester)" "tame (tm_gpu demo_tester)" by (simp_all add: demo_tester_def line_break_def)
  moreover have "tame (str_json (get_or d ''comm_backend'' JNull))" if "map_of (files demo_solutions) p = Some (JsonDoc (JObj d))" for p d
    using that by (auto simp: demo_solutions_def get_or_Cons str_json_def line_break_def split: if_splits)
  ultimately show ?thesis
    using test_report_read_back [of demo_eval_run demo_tester demo_solutions ?s out rs "\<lambda>_. []"] run settings by auto
qed

section \<open>From the search to the test\<close>

definition describes :: "runtime \<Rightarrow> request \<Rightarrow> solution \<Rightarrow> bool" where
  "describes rt rq d \<longleftrightarrow> sol_M d = rq_M rq \<and> sol_N d = rq_N rq \<and> sol_K d = rq_K rq \<and> sol_world_size d = world_size rt"

lemma save_describes: "save_solution rt rq c hint cs path a b = Inr ws \<Longrightarrow> (p, d) \<in> set ws \<Longrightarrow> describes rt rq d"
  by (auto simp: save_solution_def describes_def Let_def elim!: bind_resE split: option.splits if_splits)

lemma search_main_describes:
  assumes "(p, d) \<in> set (fst (search_main rt paths curves predictive cfg rq))"
  shows "describes rt rq d"
proof -
  obtain b ws where run: "run_for_backend rt paths curves predictive cfg (rq\<lparr>rq_backend := b\<rparr>) = Inr ws" and f: "(p, d) \<in> set ws"
    using assms by (auto simp: search_main_def dest!: run_backends_files simp del: run_backends.simps split: if_splits)
  then have "describes rt (rq\<lparr>rq_backend := b\<rparr>) d"
    using save_describes
    by (auto simp: run_for_backend_def fast_search_def exhaustive_search_def Let_def elim!: bind_resE split: if_splits prod.splits option.splits)
  then show ?thesis by (simp add: describes_def)
qed

lemma row_ints: "iterate_json (JList (map JInt xs)) = Inr (map JInt xs)"
  by (simp add: iterate_json_def)

text \<open>C10: The test measures what the search has timed. Take a file that the search wrote for a backend, at the place where
  both programs look for it on the same machine: the test loads it without a warning, accepts its segments, and the overlapped run of
  every worker uses the candidate's tile and algorithm, the segments, the number of SMs and the very reorder map of the solution, whatever the hint.\<close>
theorem searched_solution_tested:
  assumes "(p, d) \<in> set (fst (search_main rt paths curves predictive cfg rq))"
    and "positive_request rq" and "positive_config cfg" and "0 < compute_sms_from_slack (sm_count rt) (rq_slack rq)"
    and "p = solution_json_path rt (rq_M rq) (rq_N rq) (rq_K rq) (sol_backend d)"
    and "gpu_name rt = gpu_config_name (tm_gpu tm)" and "world_size rt = tm_world tm"
    and "map_of (files w) (below (below (tm_repo tm) ''configs'') p) = Some (JsonDoc (JObj (solution_row fmt d)))"
    and "py_float (fmt (cdur (sol_cand d))) = Inr (cdur (sol_cand d))"
    and "ta_m args = rq_M rq" and "ta_n args = rq_N rq"
  shows "\<exists>path plan. load_solution tm w (rq_M rq) (rq_N rq) (rq_K rq) (sol_backend d) = ([], Inr (path, solution_row fmt d))
     \<and> test_plan_of tm args path (solution_row fmt d) = Inr plan
     \<and> tp_tile plan = (cBM (sol_cand d), cBN (sol_cand d)) \<and> tp_algo plan = cAlgo (sol_cand d) \<and> tp_slack plan = sol_slack d
     \<and> (\<forall>backend comm_op ctas rank rows.
          row_array (tm_argsort tm) (tm_uninit tm) (tm_world tm) comm_op (rq_M rq) (rq_N rq) (cBM (sol_cand d)) (cBN (sol_cand d)) (sol_cSeg d)
            = Inr rows \<longrightarrow>
          perf_overlap_process tm backend comm_op (rq_M rq, rq_N rq, rq_K rq) (tp_tile plan) (tp_algo plan) (tp_cSeg plan) (tp_hint plan)
              (tp_map plan) (tp_active plan) ctas rank
            = timed tm (overlap_times tm \<lparr>ov_backend = backend, ov_op = comm_op, ov_shape = (rq_M rq, rq_N rq, rq_K rq),
                ov_tile = (cBM (sol_cand d), cBN (sol_cand d)), ov_algo = cAlgo (sol_cand d), ov_order = sol_reorder_map d,
                ov_cSeg = sol_cSeg d, ov_rows = rows, ov_active = sol_compute_sms d, ov_max_ctas = ctas\<rparr> rank))"
proof -
  let ?path = "below (below (tm_repo tm) ''configs'') p" and ?row = "solution_row fmt d"
  have d: "sol_M d = rq_M rq" "sol_N d = rq_N rq" "sol_K d = rq_K rq" "sol_world_size d = tm_world tm"
    using search_main_describes [OF assms(1)] assms(7) by (simp_all add: describes_def)
  have valid: "valid_solution d" using assms(1-4) by (rule search_main_files_valid)
  have "0 \<le> sum_list (sol_cSeg d)" by (rule sum_list_nonneg) (use valid in \<open>auto simp: valid_solution_def intro: less_imp_le\<close>)
  then obtain t where t: "tile_count (rq_M rq) (rq_N rq) (cBM (sol_cand d)) (cBN (sol_cand d)) = Inr t" "sum_list (sol_cSeg d) = t"
      "length (sol_reorder_map d) = nat t" "0 \<le> t"
    using valid unfolding valid_solution_def order_map_def d by blast
  have "test_solution_path tm (rq_M rq) (rq_N rq) (rq_K rq) (sol_backend d) = ?path"
    by (simp add: test_solution_path_def assms(5) Search.solution_json_path_def assms(6,7))
  then have found: "find_solution_json tm w (rq_M rq) (rq_N rq) (rq_K rq) (sol_backend d) = Inr ?path"
    using assms(8) by (simp add: find_solution_json_def)
  have keys: "get_or ?row ''comm_backend'' JNull = JStr (sol_backend d)" "get_or ?row ''world_size'' JNull = JInt (tm_world tm)"
    "get_key ?row ''BM'' = Inr (JInt (cBM (sol_cand d)))" "get_key ?row ''BN'' = Inr (JInt (cBN (sol_cand d)))"
    "get_key ?row ''Algo'' = Inr (JInt (cAlgo (sol_cand d)))" "get_key ?row ''cSeg'' = Inr (JList (map JInt (sol_cSeg d)))"
    "get_key ?row ''hint'' = Inr (JList (map JInt (sol_hint d)))" "get_or ?row ''compute_sms'' x = JInt (sol_compute_sms d)"
    "get_or ?row ''comm_sm_slack'' x = JInt (sol_slack d)" "get_key ?row ''dur'' = Inr (JFloat (fmt (cdur (sol_cand d))))"
    "get_or ?row ''reorder_map'' JNull = JList (map JInt (sol_reorder_map d))" for x
    by (simp_all add: solution_row_def get_or_Cons get_key_Cons d Let_def)
  have load: "load_solution tm w (rq_M rq) (rq_N rq) (rq_K rq) (sol_backend d) = ([], Inr (?path, ?row))"
    using assms(8) by (simp add: load_solution_def found keys bind_print_def silently_def prints_def int_of_json_def)
  have plan: "test_plan_of tm args ?path ?row
      = Inr \<lparr>tp_solution = ?path, tp_algo = cAlgo (sol_cand d), tp_tile = (cBM (sol_cand d), cBN (sol_cand d)), tp_tile_num = t,
             tp_cSeg = sol_cSeg d, tp_hint = sol_hint d, tp_map = JList (map JInt (sol_reorder_map d)), tp_active = sol_compute_sms d,
             tp_slack = sol_slack d, tp_gemm = cdur (sol_cand d)\<rparr>"
    using t(1,2) assms(9)
    by (simp add: test_plan_of_def int_key_def ints_key_def keys int_of_json_def [of "JInt _"] row_ints map_res_ints float_of_json_def assms(10,11))
  show ?thesis
    by (intro exI conjI allI impI, rule load, rule plan)
      (use t in \<open>simp_all add: perf_overlap_process_def row_ints map_res_ints make_reordered_array_def\<close>)
qed

theorem searched_solution_tested_witness:
  "\<exists>path plan. load_solution demo_tester
        \<lparr>files = [(''/r/configs/'' @ demo_path, JsonDoc (JObj (solution_row (\<lambda>_. ''1.0'')
            (demo_solution ''curve.pt'' (Some (1 + 16000 / 1024 ^ 3)) (Some 2) [2, 2]))))], outside = 0 :: nat\<rparr> 4 2 8 ''nccl'' = ([], Inr (path, plan))"
proof -
  let ?d = "demo_solution ''curve.pt'' (Some (1 + 16000 / 1024 ^ 3)) (Some 2) [2, 2]"
  let ?w = "\<lparr>files = [(''/r/configs/'' @ demo_path, JsonDoc (JObj (solution_row (\<lambda>_. ''1.0'') ?d)))], outside = 0 :: nat\<rparr>"
  have name: "gpu_config_name ''h100'' = ''h100''" by code_simp
  have one: "py_float ''1.0'' = Inr 1"
    by (simp add: py_float_def py_strip_def is_space_def split_sign_def span_digits_def char_digit_def digits_value_def read_exponent_def)
  have d: "sol_backend ?d = ''nccl''" "cdur (sol_cand ?d) = 1" by (simp_all add: demo_solution_def demo_candidate_def)
  have rq: "rq_M demo_request = 4" "rq_N demo_request = 2" "rq_K demo_request = 8" by (simp_all add: demo_request_def)
  have f: "(demo_path, ?d) \<in> set (fst (search_main demo_runtime demo_args [''curve.pt'' \<mapsto> [(1, 1)]] True (Inr [demo_candidate]) demo_request))"
    by (simp add: demo_main)
  have p: "demo_path = solution_json_path demo_runtime (rq_M demo_request) (rq_N demo_request) (rq_K demo_request) (sol_backend ?d)"
    by (simp only: rq d demo_paths)
  have same: "gpu_name demo_runtime = gpu_config_name (tm_gpu demo_tester)" "world_size demo_runtime = tm_world demo_tester"
    by (simp_all add: demo_runtime_def demo_tester_def name)
  have written: "map_of (files ?w) (below (below (tm_repo demo_tester) ''configs'') demo_path) = Some (JsonDoc (JObj (solution_row (\<lambda>_. ''1.0'') ?d)))"
    by (simp add: below_def demo_tester_def)
  have dur: "py_float ''1.0'' = Inr (cdur (sol_cand ?d))" by (simp only: d one)
  have shape: "ta_m demo_test_args = rq_M demo_request" "ta_n demo_test_args = rq_N demo_request" by (simp_all add: rq demo_test_args_def)
  show ?thesis
    using searched_solution_tested [OF f demo_positive p same written dur shape] unfolding rq d by blast
qed

end
