(* ===== verification/Spec2Isabelle.thy ===== *)
theory Spec2Isabelle
  imports SearchProperties CommunicatorProperties GenConfigProperties PatchProperties BandwidthProperties
    EvaluateProperties VerifySignals SmUsage ConfigNames QwenProperties SlotPoolProperties CommandProperties TestProperties
begin

text \<open>
  A verification development of the Python side of OOverlap: the tools that prepare and tune GEMMs overlapped with collectives
  (\<open>tool/\<close>, \<open>patch_gcc_typename.py\<close>) and the patches that bring its collectives into vLLM (\<open>patches/vllm/\<close>).

  \<^bold>\<open>The program.\<close> A GEMM is cut into tiles; segments of finished tiles are communicated while later ones are computed.
  \<^item> \<open>generate_instances_sm90.py\<close> numbers the kernel variants and writes the C++ tables and the dictionary of algorithms.
  \<^item> \<open>gen_config_sm90.py\<close> matches the CUTLASS profiler's CSV with that dictionary, runs and checks the candidates, and
    saves those worth trying per shape; what it finds missing goes back to the first tool.
  \<^item> \<open>bandwidth.py\<close> measures a bandwidth curve for each collective, backend and set of devices.
  \<^item> \<open>search.py\<close> takes candidates and curve, finds the order in which tiles finish (the hint), and picks a
    segmentation by prediction or by exhaustive timing; the result is a solution file.
  \<^item> \<open>evaluate_sm90.py\<close> runs profiler, search and test as child processes for all shapes and configurations and keeps one
    scenario file for each, with which a later run resumes.
  \<^item> \<open>test/test.py\<close> times a solution against its baselines and prints the report that the evaluation reads.
  \<^item> \<open>verify_signal_tile_counts.py\<close> and \<open>nsys_sm_usage.py\<close> are checks beside them; \<open>patch_gcc_typename.py\<close> patches two headers.
  \<^item> \<open>ooverlap_all_reduce.py\<close> adapts the native library to vLLM; the patched \<open>cuda_communicator.py\<close> dispatches collectives
    to it or to vLLM's own backends; the patched \<open>qwen2.py\<close> computes row-parallel layers directly in its communication slots.

  \<^bold>\<open>Conventions.\<close> Python's integers are \<open>int\<close> (or \<open>nat\<close> for counts and shapes), floats are \<open>real\<close> except where infinities and
  text matter (\<open>pyfloat\<close> in \<open>Json\<close>), strings are ASCII, dictionaries are association lists or maps. An operation that may
  raise returns \<open>'a res\<close>: \<open>Inl\<close> is the exception, of which the type and an abbreviated message are kept. Where the code works on files and processes, a
  state is passed: \<open>files\<close> in \<open>PatchHeaders\<close>, the \<open>world\<close> with its \<open>io\<close> in \<open>Evaluate\<close>. Everything not under \<open>src\<close>, and
  the native library but for its slot pool, is a parameter: torch and CUDA, process groups, the kernels and their timing, child processes, clock, environment, directory
  listings, hash functions, vLLM's layers and backends. What a theorem needs of them is a hypothesis or the
  law of a locale, each discharged on a concrete instance. Definitions have the names of the code, with a prefix where a name is taken.

  \<^bold>\<open>Theories.\<close>
  \<^item> \<open>Prelude\<close>, \<open>PyStr\<close>, \<open>Json\<close>, \<open>Layout\<close>: exceptions, Python's division, indexing and slices; strings; JSON values and
    conversions; row-major tensors (locale \<open>row_major\<close>, interpreted on lists).
  \<^item> \<open>Tiling\<close>, \<open>Segments\<close>, \<open>Reorder\<close>, \<open>RowRemap\<close>: tile counts and the monitor matrix; the four ways in which tiles are cut
    into segments (locale \<open>segmenter\<close>: positive lengths that add up, interpreted for each); tile orders and their inverses (locale
    \<open>tile_map\<close>: a permutation, interpreted for the maps of search, solution file, test and packing); row order of the reduce-scatter.
  \<^item> \<open>Hint\<close>, \<open>Latency\<close>, \<open>Search\<close>, \<open>SearchCorrect\<close>, \<open>SearchDemo\<close>, \<open>SearchProperties\<close>: \<open>search.py\<close>. The hint holds exactly the stable tiles, the
    prediction is the critical path, both searches return minima, saved solutions are valid, candidates are tried in order.
  \<^item> \<open>Bandwidth\<close>, \<open>BandwidthProperties\<close>: \<open>bandwidth.py\<close>; the predictor gives back the measured latencies.
  \<^item> \<open>GenInstances\<close>, \<open>GenCorrect\<close>, \<open>GenProperties\<close>: \<open>generate_instances_sm90.py\<close>; one numbering in all tables, exactly
    the supported combinations, a dictionary the search reads back.
  \<^item> \<open>GenConfig\<close>, \<open>GenConfigCorrect\<close>, \<open>Regenerate\<close>, \<open>GenConfigDemo\<close>, \<open>GenConfigProperties\<close>: \<open>gen_config_sm90.py\<close>; the checked output is
    the product, matching keeps the fastest record, regeneration closes what was missing. \<open>ConfigNames\<close>: when profiler, search and evaluation use the same file names.
  \<^item> \<open>Evaluate\<close> (settings, names, scenario files), \<open>EvaluateRun\<close> (child processes, report, stages, main), \<open>EvaluateCorrect\<close>
    and \<open>EvaluateResume\<close> (what a stage and a loop do to files and rows, on every way out), \<open>EvaluateMain\<close>, \<open>EvaluateSecond\<close> (a
    whole run; the run after a run), \<open>EvaluateDemo\<close>, \<open>EvaluateProperties\<close>: \<open>evaluate_sm90.py\<close>; bounded launches,
    complete reports, finished scenarios survive, a resumed run has nothing to do.
  \<^item> \<open>Argparse\<close> (options, abbreviations, conversions), \<open>CommandLines\<close> (the options of each tool and its settings),
    \<open>CommandProperties\<close>: profiler, search and test understand the commands of the evaluation.
  \<^item> \<open>TestReport\<close>, \<open>TestCorrect\<close> (which lines the evaluation's parser skips and what it makes of the rest), \<open>TestProperties\<close>:
    \<open>test/test.py\<close>; the report is read back as measured, and what is measured is the solution that the search timed.
  \<^item> \<open>VerifySignals\<close>, \<open>SmUsage\<close>, \<open>PatchHeaders\<close>, \<open>PatchProperties\<close>: the checks and the header patcher; exact verdicts,
    bounded usage, patching can be undone and repeated.
  \<^item> \<open>Adapter\<close>, \<open>AdapterCorrect\<close>, \<open>AdapterProperties\<close>: \<open>OoverlapAllReduce\<close>; its life cycle as an inductive relation, slots, keys, collectives.
    \<open>Communicator\<close>, \<open>CommunicatorProperties\<close>: \<open>CudaCommunicator\<close> (locale \<open>collective\<close>: a backend that accepts or declines and reduces) and
    the hook. \<open>QwenModel\<close>, \<open>QwenPipeline\<close>, \<open>QwenProperties\<close>: \<open>qwen2.py\<close>; pipeline stages compose.
  \<^item> \<open>SlotPool\<close>, \<open>SlotPoolProperties\<close>: the one native component the Python code depends on for its meaning, the all-reduce slot pool of
    \<open>src/src/torch_collectives_pybind.cpp\<close>, over an explicit memory in which tensors are views. Adapter and hook run on it as they
    are: their tensors become handles that carry their memory. The hook fills the slot that the pool then reduces, and a
    result stays until the pool comes round.

  \<^bold>\<open>Loops.\<close> All loops of the code run over finite lists or counters and are structural recursions or functions with a measure; no fuel is used. The
  evaluation's only unbounded part is its child processes, whose number is bounded by theorem.

  \<^bold>\<open>Not modelled.\<close> The CUDA and C++ library but for that pool, build and shell scripts; \<open>test/\<close> but for \<open>test.py\<close> (drivers, plots, tests on
  GPUs); the arguments of \<open>nsys_sm_usage.py\<close>; printing of the modelled tools other than the report of the test, log lines and plots; timing loops with CUDA events, whose results are
  parameters; the rounding of floats; concurrency of the ranks beyond the events that one rank sees; interruption in the middle of writing a file;
  the reuse of a slot's memory in the forward pass of \<open>QwenModel\<close>, whose tensors are values; loading of model weights.
\<close>

end
